(* ===== verification/Prelude.thy ===== *)
theory Prelude
  imports Complex_Main
begin

text \<open>
  Shared vocabulary of the development: the exceptions of the program as a datatype, results as
  \<open>exn + 'a\<close>, sequencing of fallible steps, Python strings and instants, and the list lemmas the
  components share. \<open>AgentName\<close> (application/agents/base.py) and the application error
  classes (application/errors.py) are here because every exception mentions them.
\<close>

section \<open>Named collections\<close>

named_theorems result_simps \<open>unfolding rules of fallible steps\<close>
named_theorems cohort_simps \<open>what the cohort guards accept and return\<close>

section \<open>Agent identity and exceptions\<close>

datatype agent_name =
    REGULATORY_INTELLIGENCE
  | PRICING_AND_SALES
  | WEATHER_AND_RENEWABLE_FORECAST
  | HYDRO_RESOURCES
  | GENERATION_AVAILABILITY
  | NEWS_INTELLIGENCE
  | MARKET_MONITORING
  | CONSUMER_LOAD_FORECAST
  | DAM_PRICE_FORECAST
  | PORTFOLIO_AND_RISK
  | TRADING_STRATEGY
  | BILLING_AND_SETTLEMENT
  | CHIEF_ORCHESTRATOR

datatype application_error_class =
    ApplicationErrorBase
  | InvalidRequestErrorClass
  | ResourceNotFoundErrorClass
  | ConflictErrorClass
  | DependencyUnavailableErrorClass

text \<open>The \<open>code\<close> class variable of each application error.\<close>

fun application_error_code :: "application_error_class \<Rightarrow> string" where
  "application_error_code ApplicationErrorBase = ''application_error''"
| "application_error_code InvalidRequestErrorClass = ''invalid_request''"
| "application_error_code ResourceNotFoundErrorClass = ''resource_not_found''"
| "application_error_code ConflictErrorClass = ''conflict''"
| "application_error_code DependencyUnavailableErrorClass = ''dependency_unavailable''"

text \<open>Signals of the \<open>decimal\<close> module the program can meet.\<close>

datatype dec_signal = InvalidOperation | DivisionByZero | Overflow | Inexact

text \<open>
  Everything that can be raised. \<open>OtherException\<close> is any further subclass of
  \<open>Exception\<close> that a port implementation raises, \<open>OtherBaseException\<close> one that derives
  from \<open>BaseException\<close> only (such as \<open>KeyboardInterrupt\<close>), \<open>CancelledError\<close> the
  cancellation of a task, and \<open>ExceptionGroup\<close> a (Base)ExceptionGroup with its members. The two
  agent failures carry the agent and their \<open>__cause__\<close>.
\<close>

datatype exn =
    ApplicationError application_error_class string
  | ValueError string
  | TypeError string
  | OverflowError
  | DecimalException dec_signal
  | ValidationError
  | CancelledError
  | OtherException string
  | OtherBaseException string
  | ParallelIngestionAgentFailure agent_name "exn option"
  | ForecastingAgentFailure agent_name "exn option"
  | ExceptionGroup "exn list"

type_synonym 'a result = "exn + 'a"

abbreviation InvalidRequestError :: "string \<Rightarrow> exn" where
  "InvalidRequestError m \<equiv> ApplicationError InvalidRequestErrorClass m"

abbreviation ResourceNotFoundError :: "string \<Rightarrow> exn" where
  "ResourceNotFoundError m \<equiv> ApplicationError ResourceNotFoundErrorClass m"

abbreviation ConflictError :: "string \<Rightarrow> exn" where
  "ConflictError m \<equiv> ApplicationError ConflictErrorClass m"

abbreviation DependencyUnavailableError :: "string \<Rightarrow> exn" where
  "DependencyUnavailableError m \<equiv> ApplicationError DependencyUnavailableErrorClass m"

section \<open>Sequencing\<close>

text \<open>\<open>check\<close> runs a guard that returns nothing, \<open>attempt\<close> a step whose value is used.\<close>

fun attempt :: "'e + 'a \<Rightarrow> ('a \<Rightarrow> 'e + 'b) \<Rightarrow> 'e + 'b" where
  "attempt (Inl e) k = Inl e"
| "attempt (Inr x) k = k x"

definition check :: "'e + unit \<Rightarrow> 'e + 'b \<Rightarrow> 'e + 'b" where
  "check g r = attempt g (\<lambda>_. r)"

definition raise_if :: "bool \<Rightarrow> 'e \<Rightarrow> 'e + unit" where
  "raise_if b e = (if b then Inl e else Inr ())"

text \<open>A comprehension over a fallible element function, left to right, first error wins.\<close>

fun map_result :: "('a \<Rightarrow> 'e + 'b) \<Rightarrow> 'a list \<Rightarrow> 'e + 'b list" where
  "map_result f [] = Inr []"
| "map_result f (x # xs) = attempt (f x) (\<lambda>y. attempt (map_result f xs) (\<lambda>ys. Inr (y # ys)))"

text \<open>For evaluation: leave the continuation alone until the step has a value.\<close>

lemma attempt_weak_cong: "r = r' \<Longrightarrow> attempt r k = attempt r' k"
  by simp

lemma attempt_Inr_iff [result_simps]:
  "attempt r k = Inr z \<longleftrightarrow> (\<exists>x. r = Inr x \<and> k x = Inr z)"
  by (cases r) auto

lemma attempt_Inl_iff:
  "attempt r k = Inl e \<longleftrightarrow> r = Inl e \<or> (\<exists>x. r = Inr x \<and> k x = Inl e)"
  by (cases r) auto

lemma check_Inr_iff [result_simps]: "check g r = Inr z \<longleftrightarrow> g = Inr () \<and> r = Inr z"
  by (cases g) (auto simp: check_def)

lemma check_Inl_iff: "check g r = Inl e \<longleftrightarrow> g = Inl e \<or> (g = Inr () \<and> r = Inl e)"
  by (cases g) (auto simp: check_def)

lemma check_simps [simp]: "check (Inl e) r = Inl e" "check (Inr ()) r = r"
  by (simp_all add: check_def)

lemma raise_if_Inr_iff [result_simps]: "raise_if b e = Inr u \<longleftrightarrow> \<not> b"
  by (simp add: raise_if_def)

lemma raise_if_Inl_iff: "raise_if b e = Inl e' \<longleftrightarrow> b \<and> e' = e"
  by (auto simp: raise_if_def)

lemma map_result_Inr_iff:
  "map_result f xs = Inr ys \<longleftrightarrow> list_all2 (\<lambda>x y. f x = Inr y) xs ys"
proof (induction xs arbitrary: ys)
  case Nil
  then show ?case by auto
next
  case (Cons x xs)
  then show ?case by (cases ys) (auto simp: attempt_Inr_iff)
qed

lemma map_result_all_Inr:
  "(\<And>x. x \<in> set xs \<Longrightarrow> f x = Inr (g x)) \<Longrightarrow> map_result f xs = Inr (map g xs)"
  by (induction xs) auto

lemma map_result_Inl:
  "map_result f xs = Inl e \<Longrightarrow> \<exists>x \<in> set xs. f x = Inl e"
  by (induction xs) (auto simp: attempt_Inl_iff)

lemma map_result_cong:
  "(\<And>x. x \<in> set xs \<Longrightarrow> f x = g x) \<Longrightarrow> map_result f xs = map_result g xs"
  by (induction xs) auto

lemma map_result_length: "map_result f xs = Inr ys \<Longrightarrow> length ys = length xs"
  by (simp add: map_result_Inr_iff list_all2_lengthD)

section \<open>Python strings\<close>

text \<open>
  Code points up to 255 as \<open>char\<close>s. \<open>str.strip()\<close> removes what \<open>str.isspace\<close> accepts:
  in this range TAB to CR, the separators 0x1c to 0x1f, space, 0x85 and 0xa0.
\<close>

definition py_isspace :: "char \<Rightarrow> bool" where
  "py_isspace c = (let n = (of_char c :: nat) in
     (9 \<le> n \<and> n \<le> 13) \<or> (28 \<le> n \<and> n \<le> 32) \<or> n = 133 \<or> n = 160)"

definition py_strip :: "string \<Rightarrow> string" where
  "py_strip s = rev (dropWhile py_isspace (rev (dropWhile py_isspace s)))"

lemma dropWhile_idem_strip: "dropWhile P (dropWhile P xs) = dropWhile P xs"
  by (induction xs) auto

lemma dropWhile_rev_dropWhile:
  assumes "dropWhile P xs = xs"
  shows "dropWhile P (rev (dropWhile P (rev xs))) = rev (dropWhile P (rev xs))"
proof (cases "dropWhile P (rev xs)")
  case Nil
  show ?thesis unfolding Nil by simp
next
  case (Cons y ys)
  obtain zs where zs: "xs = rev (dropWhile P (rev xs)) @ zs"
    using takeWhile_dropWhile_id [of P "rev xs"] by (metis rev_append rev_rev_ident)
  have "rev (dropWhile P (rev xs)) \<noteq> []" using Cons by simp
  then have "hd (rev (dropWhile P (rev xs))) = hd xs"
    using zs by (metis hd_append2)
  moreover have "xs \<noteq> []" using Cons by auto
  then have "\<not> P (hd xs)" using assms by (metis hd_dropWhile)
  ultimately show ?thesis
    using \<open>rev (dropWhile P (rev xs)) \<noteq> []\<close> by (metis dropWhile_eq_self_iff)
qed

lemma py_strip_idem [simp]: "py_strip (py_strip s) = py_strip s"
  unfolding py_strip_def
  by (simp add: dropWhile_rev_dropWhile dropWhile_idem_strip)

lemma py_strip_fixed_ends:
  assumes "py_strip s = s"
  shows "dropWhile py_isspace s = s" "dropWhile py_isspace (rev s) = rev s"
proof -
  let ?t = "dropWhile py_isspace s"
  have s: "s = rev (dropWhile py_isspace (rev ?t))" using assms by (simp add: py_strip_def)
  have "length s \<le> length ?t"
    by (subst s) (metis length_dropWhile_le length_rev)
  moreover have "length ?t \<le> length s" by (rule length_dropWhile_le)
  ultimately have "length (takeWhile py_isspace s) = 0"
    by (metis add_diff_cancel_right' diff_self_eq_0 le_antisym length_append takeWhile_dropWhile_id)
  then show t: "?t = s" by (metis append_Nil length_0_conv takeWhile_dropWhile_id)
  show "dropWhile py_isspace (rev s) = rev s" using s unfolding t by (metis rev_rev_ident)
qed

lemma py_strip_fixed_hd: "py_strip s = s \<Longrightarrow> s \<noteq> [] \<Longrightarrow> \<not> py_isspace (hd s)"
  using py_strip_fixed_ends(1) [of s] by (metis hd_dropWhile)

lemma dropWhile_hd: "s \<noteq> [] \<Longrightarrow> \<not> P (hd s) \<Longrightarrow> dropWhile P s = s"
  by (cases s) auto

lemma py_strip_ends:
  assumes "s \<noteq> []" "\<not> py_isspace (hd s)" "\<not> py_isspace (last s)"
  shows "py_strip s = s"
  using assms by (simp add: py_strip_def dropWhile_hd hd_rev)

text \<open>Strings that stripping leaves alone: not empty, visible at both ends.\<close>

definition visible_ends :: "string \<Rightarrow> bool" where
  "visible_ends s \<longleftrightarrow> s \<noteq> [] \<and> \<not> py_isspace (hd s) \<and> \<not> py_isspace (last s)"

lemma visible_ends_iff: "visible_ends s \<longleftrightarrow> py_strip s = s \<and> s \<noteq> []"
proof
  assume s: "py_strip s = s \<and> s \<noteq> []"
  then have "\<not> py_isspace (hd (rev s))"
    by (metis hd_dropWhile py_strip_fixed_ends(2) rev_is_Nil_conv)
  then show "visible_ends s" using s py_strip_fixed_hd by (simp add: visible_ends_def hd_rev)
qed (simp add: visible_ends_def py_strip_ends)

lemma visible_ends_append: "visible_ends a \<Longrightarrow> visible_ends b \<Longrightarrow> visible_ends (a @ b)"
  by (simp add: visible_ends_def)

lemma visible_ends_around: "visible_ends a \<Longrightarrow> visible_ends b \<Longrightarrow> visible_ends (a @ m @ b)"
  by (simp add: visible_ends_def)

text \<open>The helper \<open>_require_non_empty\<close> that many modules repeat: strip, then refuse a blank.\<close>

definition require_non_empty :: "string \<Rightarrow> string \<Rightarrow> string result" where
  "require_non_empty field_name value =
     (let cleaned = py_strip value in
      if cleaned = [] then Inl (ValueError (field_name @ '' must be a non-empty string''))
      else Inr cleaned)"

lemma require_non_empty_Inr_iff [result_simps]:
  "require_non_empty f v = Inr c \<longleftrightarrow> c = py_strip v \<and> py_strip v \<noteq> []"
  by (auto simp: require_non_empty_def Let_def)

lemma require_non_empty_visible: "visible_ends v \<Longrightarrow> require_non_empty f v = Inr v"
  by (simp add: require_non_empty_def visible_ends_iff)

section \<open>Instants\<close>

text \<open>
  A canonical timestamp (\<open>UtcDateTime\<close>) is an aware datetime in UTC: the number of
  microseconds since 0001-01-01T00:00:00Z, which Python's \<open>datetime\<close> bounds by
  \<open>datetime.min\<close> and \<open>datetime.max\<close>. Subtracting a \<open>timedelta\<close> that would leave
  the range raises \<open>OverflowError\<close>.
\<close>

type_synonym utc = int

definition datetime_max :: int where "datetime_max = 315537897599999999"

definition valid_utc :: "utc \<Rightarrow> bool" where
  "valid_utc t \<longleftrightarrow> 0 \<le> t \<and> t \<le> datetime_max"

definition microseconds_per_hour :: int where "microseconds_per_hour = 3600000000"

definition timedelta_hours :: "int \<Rightarrow> int" where
  "timedelta_hours h = h * microseconds_per_hour"

definition datetime_minus :: "utc \<Rightarrow> int \<Rightarrow> utc result" where
  "datetime_minus t d =
     (if t - d < 0 \<or> datetime_max < t - d then Inl OverflowError else Inr (t - d))"

lemma timedelta_24h [simp]: "timedelta_hours 24 = 86400000000"
  by (simp add: timedelta_hours_def microseconds_per_hour_def)

lemma timedelta_168h [simp]: "timedelta_hours 168 = 604800000000"
  by (simp add: timedelta_hours_def microseconds_per_hour_def)

lemma datetime_minus_Inr_iff [result_simps]:
  "datetime_minus t d = Inr u \<longleftrightarrow> 0 \<le> t - d \<and> t - d \<le> datetime_max \<and> u = t - d"
  by (auto simp: datetime_minus_def)

section \<open>Lists and maps\<close>

lemma map_of_zip_key_unique:
  "distinct (map k xs) \<Longrightarrow> x \<in> set xs \<Longrightarrow> map_of (map (\<lambda>x. (k x, x)) xs) (k x) = Some x"
  by (rule map_of_is_SomeI) (auto simp: comp_def)

lemma map_of_key_Some:
  "map_of (map (\<lambda>x. (k x, x)) xs) t = Some x \<Longrightarrow> x \<in> set xs \<and> k x = t"
  by (auto dest!: map_of_SomeD)

lemma map_of_key_None:
  "map_of (map (\<lambda>x. (k x, x)) xs) t = None \<longleftrightarrow> t \<notin> k ` set xs"
  by (induction xs) auto

lemma map_of_key_mset_cong:
  assumes "distinct (map k xs)" "set xs = set ys" "distinct (map k ys)"
  shows "map_of (map (\<lambda>x. (k x, x)) xs) = map_of (map (\<lambda>x. (k x, x)) ys)"
proof
  fix t
  show "map_of (map (\<lambda>x. (k x, x)) xs) t = map_of (map (\<lambda>x. (k x, x)) ys) t"
  proof (cases "map_of (map (\<lambda>x. (k x, x)) xs) t")
    case None
    then have "t \<notin> k ` set ys" using assms(2) by (simp add: map_of_key_None)
    then have "map_of (map (\<lambda>x. (k x, x)) ys) t = None" by (simp add: map_of_key_None)
    then show ?thesis using None by simp
  next
    case (Some x)
    then have "x \<in> set ys" "k x = t" using assms(2) by (auto dest: map_of_key_Some)
    then show ?thesis using Some map_of_zip_key_unique [OF assms(3), of x] by simp
  qed
qed

end
