(* ===== verification/Rounding.thy ===== *)
theory Rounding
  imports Prelude
begin

text \<open>
  Rounding of a magnitude \<open>c * b ^ e\<close> to \<open>p\<close> digits in radix \<open>b\<close>, ties to even: the
  common core of \<open>decimal.Decimal\<close> (radix 10, 28 digits) and of binary64 floats (radix 2,
  53 digits). Definitions follow the standard library's \<open>_fix\<close>; the lemmas give the half-unit
  error bound, exactness on representable magnitudes, monotonicity and stability.
\<close>

section \<open>Integer rounding, half to even\<close>

definition round_half_even :: "nat \<Rightarrow> nat \<Rightarrow> nat" where
  "round_half_even c d =
     (let q = c div d; r = c mod d in
      if 2 * r < d then q else if d < 2 * r then q + 1 else if even q then q else q + 1)"

lemma round_half_even_bounds:
  "c div d \<le> round_half_even c d \<and> round_half_even c d \<le> c div d + 1"
  by (auto simp: round_half_even_def Let_def)

lemma round_half_even_exact: "0 < d \<Longrightarrow> d dvd c \<Longrightarrow> round_half_even c d = c div d"
  by (auto simp: round_half_even_def Let_def)

lemma round_half_even_mult [simp]: "0 < d \<Longrightarrow> round_half_even (n * d) d = n"
  by (simp add: round_half_even_exact)

lemma nearest_multiple_error:
  fixes m r d c :: int
  assumes "c = m + r" "0 \<le> r" "r < d"
  shows "2 * r \<le> d \<Longrightarrow> 2 * \<bar>m - c\<bar> \<le> d" and "d \<le> 2 * r \<Longrightarrow> 2 * \<bar>m + d - c\<bar> \<le> d"
  using assms by simp_all

lemma round_half_even_error:
  assumes "0 < d"
  shows "2 * \<bar>int (round_half_even c d * d) - int c\<bar> \<le> int d"
proof -
  have split: "int c = int (c div d * d) + int (c mod d)"
    by (metis div_mult_mod_eq of_nat_add)
  have rem: "0 \<le> int (c mod d)" "int (c mod d) < int d" using assms by simp_all
  show ?thesis
  proof (cases "round_half_even c d = c div d")
    case True
    then have "2 * int (c mod d) \<le> int d"
      by (auto simp: round_half_even_def Let_def split: if_splits)
    then show ?thesis unfolding True by (rule nearest_multiple_error(1) [OF split rem])
  next
    case False
    then have eq: "round_half_even c d = c div d + 1" and "int d \<le> 2 * int (c mod d)"
      by (auto simp: round_half_even_def Let_def split: if_splits)
    then have "2 * \<bar>int (c div d * d) + int d - int c\<bar> \<le> int d"
      by (intro nearest_multiple_error(2) [OF split rem])
    then show ?thesis unfolding eq by (simp add: algebra_simps)
  qed
qed

lemma round_half_even_mono:
  assumes "c \<le> c'"
  shows "round_half_even c d \<le> round_half_even c' d"
proof (cases "c div d = c' div d")
  case True
  have "c mod d \<le> c' mod d"
    using assms True div_mult_mod_eq [of c d] div_mult_mod_eq [of c' d]
    by (metis add_le_cancel_left)
  then show ?thesis using True by (auto simp: round_half_even_def Let_def)
next
  case False
  then have "c div d + 1 \<le> c' div d" using div_le_mono [OF assms, of d] by linarith
  then show ?thesis using round_half_even_bounds [of c d] round_half_even_bounds [of c' d]
    by linarith
qed

lemma round_half_even_le: "0 < d \<Longrightarrow> c \<le> n * d \<Longrightarrow> round_half_even c d \<le> n"
  using round_half_even_mono [of c "n * d" d] by simp

lemma round_half_even_ge: "0 < d \<Longrightarrow> n * d \<le> c \<Longrightarrow> n \<le> round_half_even c d"
  using round_half_even_mono [of "n * d" c d] by simp

section \<open>Number of digits\<close>

function digits_in :: "nat \<Rightarrow> nat \<Rightarrow> nat" where
  "digits_in b n = (if n < b \<or> b < 2 then 1 else Suc (digits_in b (n div b)))"
  by pat_completeness auto
termination
  by (relation "measure snd") (auto simp: div_less_dividend)

declare digits_in.simps [simp del]

lemma digits_in_pos [simp]: "0 < digits_in b n"
  by (subst digits_in.simps) simp

lemma digits_in_upper: "2 \<le> b \<Longrightarrow> n < b ^ digits_in b n"
proof (induction b n rule: digits_in.induct)
  case (1 b n)
  show ?case
  proof (cases "n < b")
    case True
    then show ?thesis by (simp add: digits_in.simps [of b n])
  next
    case False
    then have IH: "n div b < b ^ digits_in b (n div b)" using 1 by simp
    then have "n < b * b ^ digits_in b (n div b)"
      using 1 by (simp add: less_mult_imp_div_less dividend_less_times_div div_less_iff_less_mult
          mult.commute)
    then show ?thesis using False 1 by (simp add: digits_in.simps [of b n])
  qed
qed

lemma digits_in_lower: "2 \<le> b \<Longrightarrow> 0 < n \<Longrightarrow> b ^ (digits_in b n - 1) \<le> n"
proof (induction b n rule: digits_in.induct)
  case (1 b n)
  show ?case
  proof (cases "n < b")
    case True
    then show ?thesis using 1 by (simp add: digits_in.simps [of b n])
  next
    case False
    then have "0 < n div b" using 1 by (simp add: div_greater_zero_iff)
    then have IH: "b ^ (digits_in b (n div b) - 1) \<le> n div b" using 1 False by simp
    then have "b ^ (digits_in b (n div b) - 1) * b \<le> n div b * b" by simp
    also have "\<dots> \<le> n" by simp
    finally have "b ^ Suc (digits_in b (n div b) - 1) \<le> n" by (simp only: power_Suc2)
    then have "b ^ digits_in b (n div b) \<le> n"
      using Suc_diff_1 [OF digits_in_pos, of b "n div b"] by (simp only:)
    then show ?thesis using False 1 by (simp add: digits_in.simps [of b n])
  qed
qed

lemma digits_in_le_iff:
  assumes "2 \<le> b" "0 < k"
  shows "digits_in b n \<le> k \<longleftrightarrow> n < b ^ k"
proof
  assume "digits_in b n \<le> k"
  then have "b ^ digits_in b n \<le> b ^ k" using assms by (simp add: power_increasing)
  then show "n < b ^ k" using digits_in_upper [OF assms(1), of n] by linarith
next
  assume lt: "n < b ^ k"
  show "digits_in b n \<le> k"
  proof (cases "n = 0")
    case True
    then show ?thesis using assms by (simp add: digits_in.simps [of b 0])
  next
    case False
    then have "b ^ (digits_in b n - 1) < b ^ k"
      using digits_in_lower [OF assms(1), of n] lt by simp
    then have "digits_in b n - 1 < k"
      using assms(1) by (simp add: power_less_imp_less_exp)
    then show ?thesis by simp
  qed
qed

lemma digits_in_eq:
  "2 \<le> b \<Longrightarrow> 0 < k \<Longrightarrow> b ^ (k - 1) \<le> n \<Longrightarrow> n < b ^ k \<Longrightarrow> digits_in b n = k"
proof -
  assume b: "2 \<le> b" and k: "0 < k" and lo: "b ^ (k - 1) \<le> n" and hi: "n < b ^ k"
  have "digits_in b n \<le> k" using digits_in_le_iff [OF b k] hi by simp
  moreover have "\<not> digits_in b n \<le> k - 1"
  proof
    assume le: "digits_in b n \<le> k - 1"
    then have "0 < k - 1" using digits_in_pos [of b n] by linarith
    then have "n < b ^ (k - 1)" using digits_in_le_iff [OF b] le by blast
    then show False using lo by simp
  qed
  ultimately show ?thesis by simp
qed

section \<open>Rounding a magnitude to a format\<close>

record float_format =
  radix :: nat
  precision :: nat
  etiny :: int
  etop :: int

definition valid_format :: "float_format \<Rightarrow> bool" where
  "valid_format F \<longleftrightarrow> 2 \<le> radix F \<and> 0 < precision F \<and> etiny F \<le> etop F"

text \<open>The exponent of the last digit that is kept.\<close>

definition unit_exponent :: "float_format \<Rightarrow> nat \<Rightarrow> int \<Rightarrow> int" where
  "unit_exponent F c e = max (int (digits_in (radix F) c) + e - int (precision F)) (etiny F)"

definition dropped_weight :: "float_format \<Rightarrow> nat \<Rightarrow> int \<Rightarrow> nat" where
  "dropped_weight F c e = radix F ^ nat (unit_exponent F c e - e)"

text \<open>Digits other than zero are dropped.\<close>

definition rounds_inexactly :: "float_format \<Rightarrow> nat \<Rightarrow> int \<Rightarrow> bool" where
  "rounds_inexactly F c e \<longleftrightarrow> e < unit_exponent F c e \<and> \<not> dropped_weight F c e dvd c"

text \<open>\<open>None\<close> is overflow. A carry out of the leading digit moves the exponent up by one.\<close>

definition round_magnitude :: "float_format \<Rightarrow> nat \<Rightarrow> int \<Rightarrow> (nat \<times> int) option" where
  "round_magnitude F c e =
     (let u = unit_exponent F c e in
      if etop F < int (digits_in (radix F) c) + e - int (precision F) then None
      else if e < u then
        (let q = round_half_even c (dropped_weight F c e) in
         if radix F ^ precision F \<le> q
         then (if etop F < u + 1 then None else Some (radix F ^ (precision F - 1), u + 1))
         else (if etop F < u then None else Some (q, u)))
      else Some (c, e))"

definition magnitude :: "nat \<Rightarrow> nat \<Rightarrow> int \<Rightarrow> rat" where
  "magnitude b c e = of_nat c * of_nat b powi e"

lemma magnitude_nonneg [simp]: "0 \<le> magnitude b c e"
  by (simp add: magnitude_def)

lemma magnitude_zero [simp]: "magnitude b 0 e = 0"
  by (simp add: magnitude_def)

lemma magnitude_eq_0_iff: "0 < b \<Longrightarrow> magnitude b c e = 0 \<longleftrightarrow> c = 0"
  by (auto simp: magnitude_def)

lemma power_int_shift:
  assumes "0 < b" "e \<le> e'"
  shows "(of_nat b :: rat) powi e' = of_nat b powi e * of_nat b ^ nat (e' - e)"
proof -
  have "(of_nat b :: rat) powi (e + int (nat (e' - e)))
      = of_nat b powi e * of_nat b powi int (nat (e' - e))"
    using assms(1) by (intro power_int_add) simp
  moreover have "e + int (nat (e' - e)) = e'" using assms(2) by simp
  ultimately show ?thesis by (simp only: power_int_of_nat)
qed

lemma magnitude_shift:
  assumes "0 < b" "e \<le> e'"
  shows "magnitude b c e' = magnitude b (c * b ^ nat (e' - e)) e"
  by (simp add: magnitude_def power_int_shift [OF assms])

lemma magnitude_diff_scaled:
  assumes "0 < b" "e \<le> e'"
  shows "magnitude b q e' - magnitude b c e
       = of_int (int (q * b ^ nat (e' - e)) - int c) * of_nat b powi e"
  by (simp add: magnitude_def power_int_shift [OF assms] algebra_simps)

lemma round_magnitude_unchanged:
  "unit_exponent F c e \<le> e \<Longrightarrow> round_magnitude F c e = Some r \<Longrightarrow> r = (c, e)"
  by (simp add: round_magnitude_def Let_def split: if_splits)

lemma round_half_even_carry:
  assumes "valid_format F" "e < unit_exponent F c e"
  shows "round_half_even c (dropped_weight F c e) \<le> radix F ^ precision F"
proof -
  let ?b = "radix F" and ?p = "precision F" and ?u = "unit_exponent F c e"
  have b: "2 \<le> ?b" and p: "0 < ?p" using assms by (auto simp: valid_format_def)
  have "digits_in ?b c \<le> ?p + nat (?u - e)"
    using assms(2) by (simp add: unit_exponent_def nat_le_iff)
  then have "c < ?b ^ (?p + nat (?u - e))" using digits_in_le_iff [OF b] p by simp
  then have "c \<le> ?b ^ ?p * dropped_weight F c e" by (simp add: dropped_weight_def power_add)
  then show ?thesis using b by (intro round_half_even_le) (simp_all add: dropped_weight_def)
qed

lemma round_magnitude_value:
  assumes F: "valid_format F" and R: "round_magnitude F c e = Some (q, e')"
    and lt: "e < unit_exponent F c e"
  shows "magnitude (radix F) q e'
       = magnitude (radix F) (round_half_even c (dropped_weight F c e)) (unit_exponent F c e)"
proof -
  let ?u = "unit_exponent F c e" and ?q = "round_half_even c (dropped_weight F c e)"
  have b: "0 < radix F" and p: "0 < precision F" using F by (auto simp: valid_format_def)
  show ?thesis
  proof (cases "radix F ^ precision F \<le> ?q")
    case True
    then have "?q = radix F ^ precision F" using round_half_even_carry [OF F lt] by simp
    moreover have "q = radix F ^ (precision F - 1)" "e' = ?u + 1"
      using R lt True by (auto simp: round_magnitude_def Let_def split: if_splits)
    ultimately show ?thesis
      using magnitude_shift [OF b, of ?u "?u + 1" q] p
      by (simp add: power_Suc2 [symmetric] del: power_Suc)
  next
    case False
    then show ?thesis using R lt by (auto simp: round_magnitude_def Let_def split: if_splits)
  qed
qed

lemma round_magnitude_exact:
  assumes "valid_format F" "round_magnitude F c e = Some (q, e')" "\<not> rounds_inexactly F c e"
  shows "magnitude (radix F) q e' = magnitude (radix F) c e"
proof (cases "e < unit_exponent F c e")
  case True
  have b: "0 < radix F" using assms(1) by (auto simp: valid_format_def)
  have dvd: "dropped_weight F c e dvd c" using assms(3) True by (simp add: rounds_inexactly_def)
  then have "round_half_even c (dropped_weight F c e) * dropped_weight F c e = c"
    using b by (subst round_half_even_exact) (simp_all add: dropped_weight_def)
  then show ?thesis
    using round_magnitude_value [OF assms(1,2) True] magnitude_shift [OF b, of e "unit_exponent F c e"] True
    by (simp add: dropped_weight_def)
next
  case False
  then show ?thesis using round_magnitude_unchanged [OF _ assms(2)] by simp
qed

text \<open>The result is within half a unit of its last place.\<close>

lemma round_magnitude_error:
  assumes F: "valid_format F" and R: "round_magnitude F c e = Some (q, e')"
  shows "2 * \<bar>magnitude (radix F) q e' - magnitude (radix F) c e\<bar>
       \<le> of_nat (radix F) powi unit_exponent F c e"
proof (cases "e < unit_exponent F c e")
  case True
  let ?u = "unit_exponent F c e" and ?q = "round_half_even c (dropped_weight F c e)"
    and ?d = "dropped_weight F c e" and ?B = "of_nat (radix F) powi e :: rat"
  have b: "0 < radix F" using F by (auto simp: valid_format_def)
  have d: "0 < ?d" using b by (simp add: dropped_weight_def)
  have "2 * \<bar>of_int (int (?q * ?d) - int c)\<bar> \<le> (of_nat ?d :: rat)"
    using round_half_even_error [OF d, of c]
    by (metis (no_types, opaque_lifting) of_int_abs of_int_le_iff of_int_mult of_int_numeral
        of_int_of_nat_eq)
  then have "2 * \<bar>of_int (int (?q * ?d) - int c)\<bar> * ?B \<le> of_nat ?d * ?B"
    by (intro mult_right_mono) simp_all
  moreover have "of_nat ?d * ?B = of_nat (radix F) powi ?u"
    using magnitude_shift [OF b, of e ?u 1] True by (simp add: magnitude_def dropped_weight_def)
  moreover have "magnitude (radix F) q e' - magnitude (radix F) c e
      = of_int (int (?q * ?d) - int c) * ?B"
    using round_magnitude_value [OF F R True] magnitude_diff_scaled [OF b, of e ?u ?q c] True
    by (simp add: dropped_weight_def)
  ultimately show ?thesis by (simp add: abs_mult mult.assoc)
next
  case False
  then show ?thesis using round_magnitude_unchanged [OF _ R] by simp
qed

text \<open>What a rounding returns has at most \<open>precision\<close> digits, and rounding it again changes nothing.\<close>

lemma round_magnitude_digits:
  assumes F: "valid_format F" and R: "round_magnitude F c e = Some (q, e')"
  shows "q < radix F ^ precision F"
proof (cases "e < unit_exponent F c e")
  case True
  have "radix F ^ (precision F - 1) < radix F ^ precision F"
    using F by (intro power_strict_increasing) (auto simp: valid_format_def)
  then show ?thesis using R True by (auto simp: round_magnitude_def Let_def split: if_splits)
next
  case False
  then have "digits_in (radix F) c \<le> precision F" by (simp add: unit_exponent_def)
  then show ?thesis
    using round_magnitude_unchanged [OF _ R] False F digits_in_le_iff [of "radix F" "precision F" c]
    by (auto simp: valid_format_def)
qed

lemma round_magnitude_etiny:
  assumes "valid_format F" "round_magnitude F c e = Some (q, e')"
  shows "etiny F \<le> e'"
  using assms round_magnitude_unchanged [OF _ assms(2)]
  by (cases "e < unit_exponent F c e")
     (auto simp: round_magnitude_def Let_def unit_exponent_def split: if_splits)

end
