(* ===== verification/PyDecimal.thy ===== *)
theory PyDecimal
  imports Rounding
begin

text \<open>
  Python's \<open>decimal.Decimal\<close>, as far as the program uses it: construction from integers,
  addition, subtraction, multiplication, division, absolute value, comparison and
  \<open>is_finite\<close>, all under an ambient context (precision, exponent range, enabled traps). The
  rounding mode is the default \<open>ROUND_HALF_EVEN\<close>. Quiet NaN carries no payload; signalling NaN,
  which no operation returns and no canonical contract admits, is left out. An enabled trap raises
  its signal, a disabled one delivers the special value.
\<close>

section \<open>Values and contexts\<close>

datatype dec = DFin bool nat int | DInf bool | DNaN

record dec_context =
  prec :: nat
  Emin :: int
  Emax :: int
  traps :: "dec_signal list"

definition default_context :: dec_context where
  "default_context = \<lparr>prec = 28, Emin = - 999999, Emax = 999999,
     traps = [InvalidOperation, DivisionByZero, Overflow]\<rparr>"

definition valid_context :: "dec_context \<Rightarrow> bool" where
  "valid_context ctx \<longleftrightarrow> 0 < prec ctx \<and> Emin ctx \<le> Emax ctx"

text \<open>The same context with the \<open>Inexact\<close> trap enabled: a run that succeeds there rounded nothing.\<close>

definition trap_inexact :: "dec_context \<Rightarrow> dec_context" where
  "trap_inexact ctx = ctx\<lparr>traps := Inexact # traps ctx\<rparr>"

definition context_format :: "dec_context \<Rightarrow> float_format" where
  "context_format ctx = \<lparr>radix = 10, precision = prec ctx,
     etiny = Emin ctx - int (prec ctx) + 1, etop = Emax ctx - int (prec ctx) + 1\<rparr>"

fun dec_is_finite :: "dec \<Rightarrow> bool" where
  "dec_is_finite (DFin s c e) = True"
| "dec_is_finite _ = False"

definition signed :: "bool \<Rightarrow> nat \<Rightarrow> int" where
  "signed s c = (if s then - int c else int c)"

fun dec_val :: "dec \<Rightarrow> rat" where
  "dec_val (DFin s c e) = (if s then - magnitude 10 c e else magnitude 10 c e)"
| "dec_val _ = 0"

definition dec_of_int :: "int \<Rightarrow> dec" where
  "dec_of_int n = DFin (n < 0) (nat \<bar>n\<bar>) 0"

section \<open>Construction from text\<close>

text \<open>
  \<open>Decimal(str)\<close>: surrounding whitespace and underscores are dropped, then an optional sign, and
  either a special word or digits with an optional fraction and exponent. The construction is exact.
  \<open>None\<close> is the conversion syntax error (InvalidOperation), also raised when the exponent leaves the
  module's absolute limits.
\<close>

definition is_digit :: "char \<Rightarrow> bool" where
  "is_digit c = (let n = (of_char c :: nat) in 48 \<le> n \<and> n \<le> 57)"

definition digit_value :: "char \<Rightarrow> nat" where
  "digit_value c = of_char c - 48"

definition digits_value :: "string \<Rightarrow> nat" where
  "digits_value ds = foldl (\<lambda>n c. 10 * n + digit_value c) 0 ds"

definition lower_char :: "char \<Rightarrow> char" where
  "lower_char c = (let n = (of_char c :: nat) in if 65 \<le> n \<and> n \<le> 90 then char_of (n + 32) else c)"

fun split_sign :: "string \<Rightarrow> bool \<times> string" where
  "split_sign (c # cs) =
     (if c = CHR ''-'' then (True, cs) else if c = CHR ''+'' then (False, cs) else (False, c # cs))"
| "split_sign [] = (False, [])"

fun parse_exponent :: "string \<Rightarrow> int option" where
  "parse_exponent [] = Some 0"
| "parse_exponent (c # cs) =
     (case split_sign cs of (s, ds) \<Rightarrow>
        if lower_char c = CHR ''e'' \<and> ds \<noteq> [] \<and> list_all is_digit ds
        then Some (if s then - int (digits_value ds) else int (digits_value ds)) else None)"

definition parse_numeral :: "bool \<Rightarrow> string \<Rightarrow> dec option" where
  "parse_numeral s t =
     (let i = takeWhile is_digit t; r = dropWhile is_digit t;
          dot = r \<noteq> [] \<and> hd r = CHR ''.'';
          f = (if dot then takeWhile is_digit (tl r) else []);
          r' = (if dot then dropWhile is_digit (tl r) else r) in
      if i @ f = [] then None
      else case parse_exponent r' of
          None \<Rightarrow> None
        | Some x \<Rightarrow>
            (let c = digits_value (i @ f); e = x - int (length f) in
             if e < - 1999999999999999997 \<or> 999999999999999999 < e + int (digits_in 10 c) - 1
             then None else Some (DFin s c e)))"

definition dec_of_string :: "string \<Rightarrow> dec option" where
  "dec_of_string text =
     (case split_sign (filter (\<lambda>c. c \<noteq> CHR ''_'') (py_strip text)) of (s, t) \<Rightarrow>
        let l = map lower_char t in
        if l = ''inf'' \<or> l = ''infinity'' then Some (DInf s)
        else if take 3 l = ''nan'' \<and> list_all is_digit (drop 3 l) then Some DNaN
        else if take 4 l = ''snan'' \<and> list_all is_digit (drop 4 l) then Some DNaN
        else parse_numeral s t)"

section \<open>Signals and rounding\<close>

definition signal :: "dec_context \<Rightarrow> dec_signal \<Rightarrow> dec \<Rightarrow> dec_signal + dec" where
  "signal ctx sig d = (if sig \<in> set (traps ctx) then Inl sig else Inr d)"

definition dec_fix :: "dec_context \<Rightarrow> bool \<Rightarrow> nat \<Rightarrow> int \<Rightarrow> dec_signal + dec" where
  "dec_fix ctx s c e =
     (let F = context_format ctx in
      if c = 0 then Inr (DFin s 0 (min (max e (etiny F)) (Emax ctx)))
      else case round_magnitude F c e of
          None \<Rightarrow> check (map_sum id (\<lambda>_. ()) (signal ctx Overflow (DInf s))) (signal ctx Inexact (DInf s))
        | Some (q, e') \<Rightarrow>
            if rounds_inexactly F c e then signal ctx Inexact (DFin s q e') else Inr (DFin s q e'))"

section \<open>Arithmetic\<close>

fun dec_neg :: "dec \<Rightarrow> dec" where
  "dec_neg (DFin s c e) = DFin (\<not> s) c e"
| "dec_neg (DInf s) = DInf (\<not> s)"
| "dec_neg DNaN = DNaN"

fun dec_add :: "dec_context \<Rightarrow> dec \<Rightarrow> dec \<Rightarrow> dec_signal + dec" where
  "dec_add ctx DNaN _ = Inr DNaN"
| "dec_add ctx _ DNaN = Inr DNaN"
| "dec_add ctx (DInf s) (DInf t) = (if s = t then Inr (DInf s) else signal ctx InvalidOperation DNaN)"
| "dec_add ctx (DInf s) _ = Inr (DInf s)"
| "dec_add ctx _ (DInf t) = Inr (DInf t)"
| "dec_add ctx (DFin s c e) (DFin t d f) =
     (let g = min e f;
          n = signed s (c * 10 ^ nat (e - g)) + signed t (d * 10 ^ nat (f - g)) in
      dec_fix ctx (if n = 0 then c = 0 \<and> d = 0 \<and> s \<and> t else n < 0) (nat \<bar>n\<bar>) g)"

definition dec_sub :: "dec_context \<Rightarrow> dec \<Rightarrow> dec \<Rightarrow> dec_signal + dec" where
  "dec_sub ctx x y = dec_add ctx x (dec_neg y)"

fun dec_mul :: "dec_context \<Rightarrow> dec \<Rightarrow> dec \<Rightarrow> dec_signal + dec" where
  "dec_mul ctx DNaN _ = Inr DNaN"
| "dec_mul ctx _ DNaN = Inr DNaN"
| "dec_mul ctx (DInf s) (DInf t) = Inr (DInf (s \<noteq> t))"
| "dec_mul ctx (DInf s) (DFin t d f) =
     (if d = 0 then signal ctx InvalidOperation DNaN else Inr (DInf (s \<noteq> t)))"
| "dec_mul ctx (DFin s c e) (DInf t) =
     (if c = 0 then signal ctx InvalidOperation DNaN else Inr (DInf (s \<noteq> t)))"
| "dec_mul ctx (DFin s c e) (DFin t d f) = dec_fix ctx (s \<noteq> t) (c * d) (e + f)"

text \<open>Division strips trailing zeros of an exact quotient down to the ideal exponent.\<close>

function strip_zeros :: "nat \<Rightarrow> int \<Rightarrow> int \<Rightarrow> nat \<times> int" where
  "strip_zeros c e ideal =
     (if e < ideal \<and> 10 dvd c then strip_zeros (c div 10) (e + 1) ideal else (c, e))"
  by pat_completeness auto
termination
  by (relation "measure (\<lambda>(c, e, ideal). nat (ideal - e))") auto

declare strip_zeros.simps [simp del]

definition divide_finite :: "dec_context \<Rightarrow> nat \<Rightarrow> int \<Rightarrow> nat \<Rightarrow> int \<Rightarrow> nat \<times> int" where
  "divide_finite ctx c e d f =
     (let shift = int (digits_in 10 d) - int (digits_in 10 c) + int (prec ctx) + 1;
          x = c * 10 ^ nat shift; y = d * 10 ^ nat (- shift);
          q = x div y; g = e - f - shift in
      if x mod y \<noteq> 0 then (if 5 dvd q then q + 1 else q, g)
      else strip_zeros q g (e - f))"

fun dec_div :: "dec_context \<Rightarrow> dec \<Rightarrow> dec \<Rightarrow> dec_signal + dec" where
  "dec_div ctx DNaN _ = Inr DNaN"
| "dec_div ctx _ DNaN = Inr DNaN"
| "dec_div ctx (DInf s) (DInf t) = signal ctx InvalidOperation DNaN"
| "dec_div ctx (DInf s) (DFin t d f) = Inr (DInf (s \<noteq> t))"
| "dec_div ctx (DFin s c e) (DInf t) = Inr (DFin (s \<noteq> t) 0 (etiny (context_format ctx)))"
| "dec_div ctx (DFin s c e) (DFin t d f) =
     (if d = 0 then
        (if c = 0 then signal ctx InvalidOperation DNaN
         else signal ctx DivisionByZero (DInf (s \<noteq> t)))
      else if c = 0 then dec_fix ctx (s \<noteq> t) 0 (e - f)
      else case divide_finite ctx c e d f of (q, g) \<Rightarrow> dec_fix ctx (s \<noteq> t) q g)"

fun dec_abs :: "dec_context \<Rightarrow> dec \<Rightarrow> dec_signal + dec" where
  "dec_abs ctx (DFin s c e) = dec_fix ctx False c e"
| "dec_abs ctx (DInf s) = Inr (DInf False)"
| "dec_abs ctx DNaN = Inr DNaN"

section \<open>Comparison\<close>

text \<open>Finite values are compared after aligning exponents; a NaN is equal to nothing.\<close>

definition aligned :: "int \<Rightarrow> bool \<Rightarrow> nat \<Rightarrow> int \<Rightarrow> int" where
  "aligned g s c e = signed s (c * 10 ^ nat (e - g))"

fun dec_eq :: "dec \<Rightarrow> dec \<Rightarrow> bool" where
  "dec_eq (DFin s c e) (DFin t d f) = (let g = min e f in aligned g s c e = aligned g t d f)"
| "dec_eq (DInf s) (DInf t) = (s = t)"
| "dec_eq _ _ = False"

text \<open>\<open>x <= 0\<close>; a NaN there is an InvalidOperation, which the callers exclude first.\<close>

fun dec_le_zero :: "dec_context \<Rightarrow> dec \<Rightarrow> dec_signal + bool" where
  "dec_le_zero ctx (DFin s c e) = Inr (s \<or> c = 0)"
| "dec_le_zero ctx (DInf s) = Inr s"
| "dec_le_zero ctx DNaN =
     (if InvalidOperation \<in> set (traps ctx) then Inl InvalidOperation else Inr False)"

section \<open>Kernel evaluation\<close>

lemma digits_in_small: "n < b \<Longrightarrow> digits_in b n = 1"
  by (simp add: digits_in.simps)

lemma digits_in_step: "b \<le> n \<Longrightarrow> 2 \<le> b \<Longrightarrow> digits_in b n = digits_in b (n div b) + 1"
  by (simp add: digits_in.simps [of b n])

lemma strip_zeros_stop: "ideal \<le> e \<or> \<not> 10 dvd c \<Longrightarrow> strip_zeros c e ideal = (c, e)"
  by (subst strip_zeros.simps) auto

lemma strip_zeros_step:
  "e < ideal \<Longrightarrow> 10 dvd c \<Longrightarrow> strip_zeros c e ideal = strip_zeros (c div 10) (e + 1) ideal"
  by (subst strip_zeros.simps) simp

text \<open>Equations that let the simplifier run decimal arithmetic on literals.\<close>

lemmas decimal_eval =
  default_context_def context_format_def digits_in_small digits_in_step strip_zeros_stop
  strip_zeros_step Let_def divide_finite_def dec_fix_def round_magnitude_def unit_exponent_def
  rounds_inexactly_def dropped_weight_def round_half_even_def signal_def signed_def aligned_def
  dec_sub_def trap_inexact_def

section \<open>Exactness\<close>

lemma valid_default_context [simp]: "valid_context default_context"
  by (simp add: valid_context_def default_context_def)

lemma valid_context_format [simp]: "valid_context ctx \<Longrightarrow> valid_format (context_format ctx)"
  by (simp add: valid_context_def valid_format_def context_format_def)

lemma context_format_trap_inexact [simp]: "context_format (trap_inexact ctx) = context_format ctx"
  by (simp add: context_format_def trap_inexact_def)

lemma context_radix [simp]: "radix (context_format ctx) = 10"
  by (simp add: context_format_def)

lemma signal_trap_inexact: "signal (trap_inexact ctx) sig d = Inr r \<Longrightarrow> sig \<noteq> Inexact \<and> signal ctx sig d = Inr r"
  by (auto simp: signal_def trap_inexact_def split: if_splits)

lemma dec_val_signed: "dec_val (DFin s c e) = of_int (signed s c) * 10 powi e"
  by (simp add: signed_def magnitude_def)

lemma dec_val_neg [simp]: "dec_val (dec_neg x) = - dec_val x"
  by (cases x) simp_all

lemma dec_is_finite_neg [simp]: "dec_is_finite (dec_neg x) = dec_is_finite x"
  by (cases x) simp_all

lemma dec_is_finite_iff: "dec_is_finite x \<longleftrightarrow> (\<exists>s c e. x = DFin s c e)"
  by (cases x) auto

text \<open>
  The three facts every operation has: with \<open>Inexact\<close> trapped, a result is finite, its value is the
  exact one, and the untrapped context returns the same result.
\<close>

definition exact_result :: "rat \<Rightarrow> dec_signal + dec \<Rightarrow> dec \<Rightarrow> bool" where
  "exact_result v r z \<longleftrightarrow> dec_is_finite z \<and> dec_val z = v \<and> r = Inr z"

lemma dec_fix_exact:
  assumes ctx: "valid_context ctx" and run: "dec_fix (trap_inexact ctx) s c e = Inr z"
  shows "exact_result (dec_val (DFin s c e)) (dec_fix ctx s c e) z"
proof (cases "c = 0")
  case True
  then show ?thesis using run
    by (auto simp: exact_result_def dec_fix_def Let_def trap_inexact_def context_format_def)
next
  case False
  let ?F = "context_format ctx"
  show ?thesis
  proof (cases "round_magnitude ?F c e")
    case None
    then show ?thesis using run False
      by (auto simp: dec_fix_def signal_def trap_inexact_def context_format_def check_def
          split: if_splits)
  next
    case (Some r)
    obtain q g where r: "r = (q, g)" by (cases r)
    have ex: "\<not> rounds_inexactly ?F c e" and z: "z = DFin s q g"
      using run False Some r
      by (auto simp: dec_fix_def Let_def signal_def trap_inexact_def context_format_def
          split: if_splits)
    have "magnitude 10 q g = magnitude 10 c e"
      using round_magnitude_exact [OF valid_context_format [OF ctx] Some [unfolded r] ex] by simp
    then show ?thesis
      using z False Some r ex by (auto simp: exact_result_def dec_fix_def Let_def)
  qed
qed

lemma aligned_value:
  assumes "g \<le> e"
  shows "of_int (aligned g s c e) * (10::rat) powi g = dec_val (DFin s c e)"
  using magnitude_shift [of 10 g e c] assms
  by (auto simp: aligned_def signed_def magnitude_def)

lemma dec_add_exact:
  assumes "valid_context ctx" "dec_is_finite x" "dec_is_finite y"
    and run: "dec_add (trap_inexact ctx) x y = Inr z"
  shows "exact_result (dec_val x + dec_val y) (dec_add ctx x y) z"
proof -
  obtain s c e t d f where xy: "x = DFin s c e" "y = DFin t d f"
    using assms(2,3) by (auto simp: dec_is_finite_iff)
  define g where "g = min e f"
  define n where "n = aligned g s c e + aligned g t d f"
  define b where "b = (if n = 0 then c = 0 \<and> d = 0 \<and> s \<and> t else n < 0)"
  have add: "dec_add k x y = dec_fix k b (nat \<bar>n\<bar>) g" for k
    by (simp add: xy g_def n_def b_def aligned_def Let_def)
  have "dec_val (DFin b (nat \<bar>n\<bar>) g) = of_int n * 10 powi g"
    unfolding dec_val_signed by (simp add: signed_def b_def)
  also have "\<dots> = dec_val x + dec_val y"
    using aligned_value [of g e s c] aligned_value [of g f t d]
    by (simp add: n_def xy g_def distrib_right)
  finally show ?thesis using dec_fix_exact [OF assms(1), of b "nat \<bar>n\<bar>" g z] run add by simp
qed

lemma dec_sub_exact:
  assumes "valid_context ctx" "dec_is_finite x" "dec_is_finite y"
    and "dec_sub (trap_inexact ctx) x y = Inr z"
  shows "exact_result (dec_val x - dec_val y) (dec_sub ctx x y) z"
  using dec_add_exact [of ctx x "dec_neg y" z] assms by (simp add: dec_sub_def)

lemma magnitude_mult: "magnitude 10 (c * d) (e + f) = magnitude 10 c e * magnitude 10 d f"
  by (simp add: magnitude_def power_int_add)

lemma dec_mul_exact:
  assumes "valid_context ctx" "dec_is_finite x" "dec_is_finite y"
    and run: "dec_mul (trap_inexact ctx) x y = Inr z"
  shows "exact_result (dec_val x * dec_val y) (dec_mul ctx x y) z"
proof -
  obtain s c e t d f where xy: "x = DFin s c e" "y = DFin t d f"
    using assms(2,3) by (auto simp: dec_is_finite_iff)
  show ?thesis
    using dec_fix_exact [OF assms(1), of "s \<noteq> t" "c * d" "e + f" z] run
    by (auto simp: xy magnitude_mult)
qed

lemma dec_abs_exact:
  assumes "valid_context ctx" "dec_is_finite x"
    and run: "dec_abs (trap_inexact ctx) x = Inr z"
  shows "exact_result \<bar>dec_val x\<bar> (dec_abs ctx x) z"
proof -
  obtain s c e where x: "x = DFin s c e" using assms(2) by (auto simp: dec_is_finite_iff)
  show ?thesis using dec_fix_exact [OF assms(1), of False c e z] run by (simp add: x)
qed

section \<open>Division\<close>

lemma strip_zeros_magnitude:
  "strip_zeros c e ideal = (q, g) \<Longrightarrow> magnitude 10 q g = magnitude 10 c e"
proof (induction c e ideal rule: strip_zeros.induct)
  case (1 c e ideal)
  show ?case
  proof (cases "e < ideal \<and> 10 dvd c")
    case True
    then have "magnitude 10 q g = magnitude 10 (c div 10) (e + 1)"
      using 1 by (simp add: strip_zeros.simps [of c e ideal])
    also have "\<dots> = magnitude 10 c e"
      using magnitude_shift [of 10 e "e + 1" "c div 10"] True by simp
    finally show ?thesis .
  next
    case False
    then show ?thesis using 1 by (auto simp: strip_zeros.simps [of c e ideal] split: if_splits)
  qed
qed

lemma quotient_digits:
  assumes "0 < c" "0 < d"
    and shift: "shift = int (digits_in 10 d) - int (digits_in 10 c) + int p + 1"
  shows "10 ^ p \<le> (c * 10 ^ nat shift) div (d * 10 ^ nat (- shift))"
proof -
  let ?a = "digits_in 10 c" and ?b = "digits_in 10 d"
  let ?x = "c * 10 ^ nat shift" and ?y = "d * 10 ^ nat (- shift)"
  have a: "10 ^ (?a - 1) \<le> c" using digits_in_lower [of 10 c] assms by simp
  have b: "d \<le> 10 ^ ?b" using digits_in_upper [of 10 d] by simp
  have pos: "0 < ?a" by simp
  have "10 ^ p * ?y \<le> 10 ^ p * (10 ^ ?b * 10 ^ nat (- shift))" using b by simp
  also have "\<dots> = 10 ^ (p + ?b + nat (- shift))" by (simp add: power_add)
  also have "p + ?b + nat (- shift) = ?a - 1 + nat shift" using shift pos by linarith
  also have "(10::nat) ^ (?a - 1 + nat shift) \<le> ?x" using a by (simp add: power_add)
  finally show ?thesis using assms(2) by (simp add: less_eq_div_iff_mult_less_eq)
qed

lemma long_sticky_quotient_inexact:
  assumes F: "context_format ctx = F" and "10 ^ prec ctx \<le> q" "\<not> 10 dvd q"
  shows "rounds_inexactly F q g"
proof -
  have "\<not> digits_in 10 q \<le> prec ctx"
    using digits_in_le_iff [of 10 "prec ctx" q] assms(2)
    by (cases "prec ctx = 0") simp_all
  then have lt: "g < unit_exponent F q g"
    by (auto simp: F [symmetric] unit_exponent_def context_format_def)
  then have "10 dvd dropped_weight F q g"
    by (simp add: F [symmetric] dropped_weight_def dvd_power)
  then show ?thesis using assms(3) lt by (auto simp: rounds_inexactly_def dest: dvd_trans)
qed

lemma dec_fix_inexact_trapped:
  assumes "rounds_inexactly (context_format ctx) q g" "q \<noteq> 0"
  shows "\<nexists>z. dec_fix (trap_inexact ctx) s q g = Inr z"
  using assms
  by (auto simp: dec_fix_def Let_def signal_def trap_inexact_def context_format_def check_def
      split: option.splits if_splits)

text \<open>An exact quotient is the stripped one; an inexact one trips the trap.\<close>

lemma scaled_quotient_magnitude:
  assumes "q * (d * 10 ^ nat (- k)) = c * 10 ^ nat k"
  shows "magnitude 10 q (e - f - k) * magnitude 10 d f = magnitude 10 c e"
proof -
  have prod: "magnitude 10 q (e - f - k) * magnitude 10 d f = magnitude 10 (q * d) (e - k)"
    using magnitude_mult [of q d "e - f - k" f] by simp
  show ?thesis
  proof (cases "0 \<le> k")
    case True
    then show ?thesis using prod magnitude_shift [of 10 "e - k" e c] assms by simp
  next
    case False
    then show ?thesis using prod magnitude_shift [of 10 e "e - k" "q * d"] assms
      by (simp add: mult.assoc)
  qed
qed

lemma sticky_digit: "\<not> 10 dvd (if 5 dvd n then n + 1 else (n::nat))"
proof (cases "5 dvd n")
  case True
  then have "\<not> 10 dvd n + 1" by presburger
  then show ?thesis using True by simp
next
  case False
  then have "\<not> 10 dvd n" by presburger
  then show ?thesis using False by simp
qed

lemma divide_finite_exact:
  assumes pos: "0 < c" "0 < d" and q: "divide_finite ctx c e d f = (q, h)"
    and run: "dec_fix (trap_inexact ctx) s q h = Inr z"
  shows "magnitude 10 q h * magnitude 10 d f = magnitude 10 c e"
proof -
  define k where "k = int (digits_in 10 d) - int (digits_in 10 c) + int (prec ctx) + 1"
  define u where "u = c * 10 ^ nat k"
  define v where "v = d * 10 ^ nat (- k)"
  have split: "(q, h) = (if u mod v \<noteq> 0 then (if 5 dvd u div v then u div v + 1 else u div v, e - f - k)
                         else strip_zeros (u div v) (e - f - k) (e - f))"
    using q unfolding divide_finite_def Let_def k_def [symmetric] u_def [symmetric] v_def [symmetric]
    by simp
  have long: "10 ^ prec ctx \<le> u div v"
    unfolding u_def v_def using pos by (intro quotient_digits) (simp_all add: k_def)
  have exact: "u mod v = 0"
  proof (rule ccontr)
    assume "u mod v \<noteq> 0"
    then have q: "q = (if 5 dvd u div v then u div v + 1 else u div v)" using split by simp
    have "\<not> 10 dvd q" unfolding q by (rule sticky_digit)
    moreover have "10 ^ prec ctx \<le> q" using long q by simp
    ultimately show False
      using dec_fix_inexact_trapped [OF long_sticky_quotient_inexact [OF refl]] run
      by (metis dvd_0_right)
  qed
  then have "u div v * (d * 10 ^ nat (- k)) = c * 10 ^ nat k"
    unfolding v_def [symmetric] u_def [symmetric] by (metis add.right_neutral div_mult_mod_eq)
  then have "magnitude 10 (u div v) (e - f - k) * magnitude 10 d f = magnitude 10 c e"
    by (rule scaled_quotient_magnitude)
  moreover have "magnitude 10 q h = magnitude 10 (u div v) (e - f - k)"
    using split exact by (intro strip_zeros_magnitude [of _ _ "e - f"]) simp
  ultimately show ?thesis by simp
qed

lemma dec_div_exact:
  assumes ctx: "valid_context ctx" and fin: "dec_is_finite x" "dec_is_finite y"
    and nz: "dec_val y \<noteq> 0" and run: "dec_div (trap_inexact ctx) x y = Inr z"
  shows "exact_result (dec_val x / dec_val y) (dec_div ctx x y) z"
proof -
  obtain s c e t d f where xy: "x = DFin s c e" "y = DFin t d f"
    using fin by (auto simp: dec_is_finite_iff)
  have d: "0 < d" using nz by (cases t) (auto simp: xy intro: gr0I)
  show ?thesis
  proof (cases "c = 0")
    case True
    then show ?thesis
      using dec_fix_exact [OF ctx, of "s \<noteq> t" 0 "e - f" z] run d by (auto simp: xy)
  next
    case False
    obtain q h where qh: "divide_finite ctx c e d f = (q, h)" by fastforce
    then have "divide_finite (trap_inexact ctx) c e d f = (q, h)"
      by (simp add: divide_finite_def trap_inexact_def)
    then have run': "dec_fix (trap_inexact ctx) (s \<noteq> t) q h = Inr z"
      using run False d by (simp add: xy)
    have "magnitude 10 d f \<noteq> 0" using d by (simp add: magnitude_eq_0_iff)
    then have "magnitude 10 q h = magnitude 10 c e / magnitude 10 d f"
      using divide_finite_exact [OF _ d qh run'] False by (simp add: nonzero_eq_divide_eq)
    then show ?thesis
      using dec_fix_exact [OF ctx run'] False d qh by (auto simp: xy exact_result_def)
  qed
qed

section \<open>Comparison\<close>

lemma aligned_eq_iff:
  "dec_eq (DFin s c e) (DFin t d f) \<longleftrightarrow> dec_val (DFin s c e) = dec_val (DFin t d f)"
proof -
  let ?g = "min e f"
  have "dec_val (DFin s c e) = dec_val (DFin t d f)
    \<longleftrightarrow> of_int (aligned ?g s c e) * (10::rat) powi ?g = of_int (aligned ?g t d f) * 10 powi ?g"
    by (simp add: aligned_value)
  then show ?thesis by (simp add: Let_def)
qed

lemma dec_eq_finite:
  "dec_is_finite x \<Longrightarrow> dec_is_finite y \<Longrightarrow> dec_eq x y \<longleftrightarrow> dec_val x = dec_val y"
  by (auto simp: dec_is_finite_iff aligned_eq_iff simp del: dec_eq.simps dec_val.simps)

lemma magnitude_le_0_iff: "magnitude 10 c e \<le> 0 \<longleftrightarrow> c = 0"
  using magnitude_nonneg [of 10 c e] magnitude_eq_0_iff [of 10 c e] by linarith

lemma dec_le_zero_finite:
  "dec_is_finite x \<Longrightarrow> dec_le_zero ctx x = Inr (dec_val x \<le> 0)"
  by (cases x) (auto simp: magnitude_le_0_iff)

section \<open>The interface the numerical components rely on\<close>

text \<open>
  A number type with fallible operations that are exact whenever they return. The lemmas about
  accumulation loops are proved here once and used through the interpretation below.
\<close>

fun fold_result :: "('a \<Rightarrow> 'b \<Rightarrow> 'e + 'a) \<Rightarrow> 'a \<Rightarrow> 'b list \<Rightarrow> 'e + 'a" where
  "fold_result f a [] = Inr a"
| "fold_result f a (x # xs) = attempt (f a x) (\<lambda>a'. fold_result f a' xs)"

lemma fold_result_Inl: "fold_result f a xs = Inl e \<Longrightarrow> \<exists>b. \<exists>x \<in> set xs. f b x = Inl e"
  by (induction xs arbitrary: a) (force simp: attempt_Inl_iff)+

locale exact_arithmetic =
  fixes ok :: "'n \<Rightarrow> bool"
    and val :: "'n \<Rightarrow> rat"
    and add sub mul divide :: "'n \<Rightarrow> 'n \<Rightarrow> 'e + 'n"
    and absolute :: "'n \<Rightarrow> 'e + 'n"
  assumes add: "ok x \<Longrightarrow> ok y \<Longrightarrow> add x y = Inr z \<Longrightarrow> ok z \<and> val z = val x + val y"
    and sub: "ok x \<Longrightarrow> ok y \<Longrightarrow> sub x y = Inr z \<Longrightarrow> ok z \<and> val z = val x - val y"
    and mul: "ok x \<Longrightarrow> ok y \<Longrightarrow> mul x y = Inr z \<Longrightarrow> ok z \<and> val z = val x * val y"
    and divide: "ok x \<Longrightarrow> ok y \<Longrightarrow> val y \<noteq> 0 \<Longrightarrow> divide x y = Inr z \<Longrightarrow>
                 ok z \<and> val z = val x / val y"
    and absolute: "ok x \<Longrightarrow> absolute x = Inr z \<Longrightarrow> ok z \<and> val z = \<bar>val x\<bar>"
begin

lemma sum_value:
  assumes "ok a" "\<forall>x \<in> set xs. ok x" "fold_result add a xs = Inr z"
  shows "ok z \<and> val z = val a + (\<Sum>x\<leftarrow>xs. val x)"
  using assms
proof (induction xs arbitrary: a)
  case Nil
  then show ?case by simp
next
  case (Cons x xs)
  then obtain a' where a': "add a x = Inr a'" "fold_result add a' xs = Inr z"
    by (auto simp: attempt_Inr_iff)
  then show ?case using add [of a x a'] Cons.prems Cons.IH [OF _ _ a'(2)] by (simp add: add.assoc)
qed

lemma accumulate_value:
  assumes step: "\<And>a x z. ok a \<Longrightarrow> P x \<Longrightarrow> f a x = Inr z \<Longrightarrow> ok z \<and> val z = val a + g x"
    and "ok a" "\<forall>x \<in> set xs. P x" "fold_result f a xs = Inr z"
  shows "ok z \<and> val z = val a + (\<Sum>x\<leftarrow>xs. g x)"
  using assms(2-)
proof (induction xs arbitrary: a)
  case Nil
  then show ?case by simp
next
  case (Cons x xs)
  then obtain a' where a': "f a x = Inr a'" "fold_result f a' xs = Inr z"
    by (auto simp: attempt_Inr_iff)
  then show ?case using step [of a x a'] Cons.prems Cons.IH [OF _ _ a'(2)]
    by (simp add: add.assoc)
qed

end

interpretation exact_decimal: exact_arithmetic dec_is_finite dec_val
  "dec_add (trap_inexact default_context)" "dec_sub (trap_inexact default_context)"
  "dec_mul (trap_inexact default_context)" "dec_div (trap_inexact default_context)"
  "dec_abs (trap_inexact default_context)"
proof (unfold_locales, goal_cases)
  case (1 x y z)
  then show ?case
    using dec_add_exact [OF valid_default_context, of x y z] by (simp add: exact_result_def)
next
  case (2 x y z)
  then show ?case
    using dec_sub_exact [OF valid_default_context, of x y z] by (simp add: exact_result_def)
next
  case (3 x y z)
  then show ?case
    using dec_mul_exact [OF valid_default_context, of x y z] by (simp add: exact_result_def)
next
  case (4 x y z)
  then show ?case
    using dec_div_exact [OF valid_default_context, of x y z] by (simp add: exact_result_def)
next
  case (5 x z)
  then show ?case
    using dec_abs_exact [OF valid_default_context, of x z] by (simp add: exact_result_def)
qed

text \<open>Division is unfolded on demand only.\<close>

declare dec_div.simps [simp del]

end
