(* ===== verification/PyFloat.thy ===== *)
theory PyFloat
  imports Rounding
begin

text \<open>
  Python floats are IEEE binary64 numbers: a sign, a 53-bit significand and an exponent, an
  infinity, or NaN. The canonical contracts carry them as quantities in MW and MWh; this theory
  holds their representation, value and comparison.
\<close>

datatype pyfloat = Fl bool nat int | FlInf bool | FlNaN

definition binary64 :: float_format where
  "binary64 = \<lparr>radix = 2, precision = 53, etiny = - 1074, etop = 971\<rparr>"

fun float_isfinite :: "pyfloat \<Rightarrow> bool" where
  "float_isfinite (Fl s m e) = True"
| "float_isfinite _ = False"

fun float_val :: "pyfloat \<Rightarrow> rat" where
  "float_val (Fl s m e) = (if s then - magnitude 2 m e else magnitude 2 m e)"
| "float_val _ = 0"

definition float_aligned :: "int \<Rightarrow> bool \<Rightarrow> nat \<Rightarrow> int \<Rightarrow> int" where
  "float_aligned g s m e = (if s then - int (m * 2 ^ nat (e - g)) else int (m * 2 ^ nat (e - g)))"

text \<open>Every comparison with NaN is false; the two zeros are equal.\<close>

fun float_le :: "pyfloat \<Rightarrow> pyfloat \<Rightarrow> bool" where
  "float_le FlNaN _ = False"
| "float_le _ FlNaN = False"
| "float_le (FlInf s) (FlInf t) = (s \<or> \<not> t)"
| "float_le (FlInf s) (Fl _ _ _) = s"
| "float_le (Fl _ _ _) (FlInf t) = (\<not> t)"
| "float_le (Fl s m e) (Fl t n f) = (let g = min e f in float_aligned g s m e \<le> float_aligned g t n f)"

definition float_eq :: "pyfloat \<Rightarrow> pyfloat \<Rightarrow> bool" where
  "float_eq x y \<longleftrightarrow> float_le x y \<and> float_le y x"

definition float_lt :: "pyfloat \<Rightarrow> pyfloat \<Rightarrow> bool" where
  "float_lt x y \<longleftrightarrow> float_le x y \<and> \<not> float_le y x"

definition float_zero :: pyfloat where "float_zero = Fl False 0 0"

definition float_one :: pyfloat where "float_one = Fl False 1 0"

lemma float_aligned_value:
  assumes "g \<le> e"
  shows "of_int (float_aligned g s m e) * (2::rat) powi g = float_val (Fl s m e)"
  using magnitude_shift [of 2 g e m] assms
  by (auto simp: float_aligned_def magnitude_def)

lemma float_le_Fl_iff:
  "float_le (Fl s m e) (Fl t n f) \<longleftrightarrow> float_val (Fl s m e) \<le> float_val (Fl t n f)"
proof -
  let ?g = "min e f"
  have "float_val (Fl s m e) \<le> float_val (Fl t n f)
    \<longleftrightarrow> of_int (float_aligned ?g s m e) * (2::rat) powi ?g
        \<le> of_int (float_aligned ?g t n f) * 2 powi ?g"
    by (simp add: float_aligned_value)
  then show ?thesis by (simp add: Let_def)
qed

lemma float_isfinite_iff: "float_isfinite x \<longleftrightarrow> (\<exists>s m e. x = Fl s m e)"
  by (cases x) auto

lemma float_le_finite:
  "float_isfinite x \<Longrightarrow> float_isfinite y \<Longrightarrow> float_le x y \<longleftrightarrow> float_val x \<le> float_val y"
  by (auto simp: float_isfinite_iff float_le_Fl_iff simp del: float_le.simps float_val.simps)

lemma float_lt_finite:
  "float_isfinite x \<Longrightarrow> float_isfinite y \<Longrightarrow> float_lt x y \<longleftrightarrow> float_val x < float_val y"
  by (auto simp: float_lt_def float_le_finite)

lemma float_val_zero [simp]: "float_val float_zero = 0" "float_isfinite float_zero"
  by (simp_all add: float_zero_def)

lemma float_val_one [simp]: "float_val float_one = 1" "float_isfinite float_one"
  by (simp_all add: float_one_def magnitude_def)

end
