(* ===== verification/Domain.thy ===== *)
theory Domain
  imports PyDecimal PyFloat
begin

text \<open>
  The canonical contracts of domain/models and domain/value_objects. Each pydantic model is a record
  of its validated fields; its \<open>validate_...\<close> function is the construction of the model: field
  constraints as declared by the \<open>Annotated\<close> types, string stripping (\<open>str_strip_whitespace\<close>),
  then the \<open>model_validator\<close>. Any failure surfaces as pydantic's ValidationError.
\<close>

section \<open>Constrained scalars (value_objects/quantities.py)\<close>

text \<open>Whitespace stripping as pydantic does it, by the Unicode property White_Space.\<close>

definition white_space :: "char \<Rightarrow> bool" where
  "white_space c = (let n = (of_char c :: nat) in (9 \<le> n \<and> n \<le> 13) \<or> n = 32 \<or> n = 133 \<or> n = 160)"

definition strip_whitespace :: "string \<Rightarrow> string" where
  "strip_whitespace s = rev (dropWhile white_space (rev (dropWhile white_space s)))"

definition entity_id :: "string \<Rightarrow> string result" where
  "entity_id s = (let t = strip_whitespace s in if t = [] then Inl ValidationError else Inr t)"

definition non_empty_string :: "string \<Rightarrow> string result" where
  "non_empty_string s = (let t = strip_whitespace s in if t = [] then Inl ValidationError else Inr t)"

definition is_upper_letter :: "char \<Rightarrow> bool" where
  "is_upper_letter c = (let n = (of_char c :: nat) in 65 \<le> n \<and> n \<le> 90)"

definition is_currency_code :: "string \<Rightarrow> bool" where
  "is_currency_code s \<longleftrightarrow> length s = 3 \<and> list_all is_upper_letter s"

definition currency_code :: "string \<Rightarrow> string result" where
  "currency_code s = (let t = strip_whitespace s in if is_currency_code t then Inr t else Inl ValidationError)"

definition non_negative_mw :: "pyfloat \<Rightarrow> bool" where
  "non_negative_mw x \<longleftrightarrow> float_isfinite x \<and> float_le float_zero x"

definition positive_mw :: "pyfloat \<Rightarrow> bool" where
  "positive_mw x \<longleftrightarrow> float_isfinite x \<and> float_lt float_zero x"

definition non_negative_mwh :: "pyfloat \<Rightarrow> bool" where
  "non_negative_mwh x \<longleftrightarrow> float_isfinite x \<and> float_le float_zero x"

definition unit_interval :: "pyfloat \<Rightarrow> bool" where
  "unit_interval x \<longleftrightarrow> float_isfinite x \<and> float_le float_zero x \<and> float_le x float_one"

definition finite_number :: "pyfloat \<Rightarrow> bool" where
  "finite_number x \<longleftrightarrow> float_isfinite x"

definition non_negative_number :: "pyfloat \<Rightarrow> bool" where
  "non_negative_number x \<longleftrightarrow> float_isfinite x \<and> float_le float_zero x"

text \<open>What a caller may hand to a monetary field.\<close>

datatype monetary_input = MDecimal dec | MInt int | MBool bool | MFloat pyfloat | MStr string | MOther

definition monetary_not_finite :: string where
  "monetary_not_finite = ''monetary values must be finite''"

fun parse_finite_decimal :: "monetary_input \<Rightarrow> dec result" where
  "parse_finite_decimal (MBool _) =
     Inl (ValueError ''monetary values must be Decimal, int, or str; float is not allowed'')"
| "parse_finite_decimal (MFloat _) =
     Inl (ValueError ''monetary values must be Decimal, int, or str; float is not allowed'')"
| "parse_finite_decimal (MDecimal d) =
     (if dec_is_finite d then Inr d else Inl (ValueError monetary_not_finite))"
| "parse_finite_decimal (MInt n) = Inr (dec_of_int n)"
| "parse_finite_decimal (MStr s) =
     (case dec_of_string s of
        None \<Rightarrow> Inl (DecimalException InvalidOperation)
      | Some d \<Rightarrow> if dec_is_finite d then Inr d else Inl (ValueError monetary_not_finite))"
| "parse_finite_decimal MOther = Inl (TypeError ''unsupported monetary value type'')"

definition require_finite_decimal :: "dec \<Rightarrow> dec result" where
  "require_finite_decimal d = (if dec_is_finite d then Inr d else Inl (ValueError monetary_not_finite))"

definition finite_decimal :: "dec \<Rightarrow> bool" where
  "finite_decimal d \<longleftrightarrow> require_finite_decimal d = Inr d"

lemma finite_decimal_iff [simp]: "finite_decimal d \<longleftrightarrow> dec_is_finite d"
  by (simp add: finite_decimal_def require_finite_decimal_def)

text \<open>An optional field is unconstrained when absent.\<close>

definition optional :: "('a \<Rightarrow> bool) \<Rightarrow> 'a option \<Rightarrow> bool" where
  "optional P x = (case x of None \<Rightarrow> True | Some y \<Rightarrow> P y)"

lemma optional_simps [simp]: "optional P None" "optional P (Some y) = P y"
  by (simp_all add: optional_def)

definition optional_result :: "('a \<Rightarrow> 'a result) \<Rightarrow> 'a option \<Rightarrow> 'a option result" where
  "optional_result f x = (case x of None \<Rightarrow> Inr None | Some y \<Rightarrow> attempt (f y) (\<lambda>z. Inr (Some z)))"

definition validated :: "bool \<Rightarrow> unit result" where
  "validated b = raise_if (\<not> b) ValidationError"

lemma validated_Inr [result_simps]: "validated b = Inr u \<longleftrightarrow> b"
  by (simp add: validated_def raise_if_def)

section \<open>Timestamps (value_objects/time.py)\<close>

text \<open>
  An input datetime is naive (wall clock only) or aware (wall clock and UTC offset, both in
  microseconds). \<open>to_utc\<close> is \<open>astimezone(UTC)\<close>, which raises when the instant leaves the range.
\<close>

datatype py_datetime = Naive int | Aware int int

fun to_utc :: "py_datetime \<Rightarrow> utc result" where
  "to_utc (Aware wall offset) = datetime_minus wall offset"
| "to_utc (Naive wall) = Inl ValidationError"

section \<open>Money (value_objects/money.py)\<close>

record money_amount =
  amount :: dec
  money_currency :: string

record energy_price =
  amount_per_mwh :: dec
  price_currency :: string

definition validate_money_amount :: "dec \<Rightarrow> string \<Rightarrow> money_amount result" where
  "validate_money_amount a c =
     check (validated (finite_decimal a))
       (attempt (currency_code c) (\<lambda>c'. Inr \<lparr>amount = a, money_currency = c'\<rparr>))"

definition validate_energy_price :: "dec \<Rightarrow> string \<Rightarrow> energy_price result" where
  "validate_energy_price a c =
     check (validated (finite_decimal a))
       (attempt (currency_code c) (\<lambda>c'. Inr \<lparr>amount_per_mwh = a, price_currency = c'\<rparr>))"

definition energy_price_ok :: "energy_price \<Rightarrow> bool" where
  "energy_price_ok p \<longleftrightarrow> dec_is_finite (amount_per_mwh p) \<and> is_currency_code (price_currency p)"

definition money_amount_ok :: "money_amount \<Rightarrow> bool" where
  "money_amount_ok m \<longleftrightarrow> dec_is_finite (amount m) \<and> is_currency_code (money_currency m)"

text \<open>Equality of prices is equality of the fields, and Decimals are equal by value.\<close>

definition energy_price_eq :: "energy_price \<Rightarrow> energy_price \<Rightarrow> bool" where
  "energy_price_eq p q \<longleftrightarrow>
     dec_eq (amount_per_mwh p) (amount_per_mwh q) \<and> price_currency p = price_currency q"

section \<open>Strings that need no stripping\<close>

text \<open>What pydantic strips, Python strips as well.\<close>

lemma strip_whitespace_visible: "visible_ends s \<Longrightarrow> strip_whitespace s = s"
proof -
  assume s: "visible_ends s"
  have sub: "white_space c \<Longrightarrow> py_isspace c" for c
    by (auto simp: white_space_def py_isspace_def Let_def)
  have "\<not> white_space (hd s)" "\<not> white_space (hd (rev s))" "s \<noteq> []"
    using s sub by (auto simp: visible_ends_def hd_rev)
  then show ?thesis by (simp add: strip_whitespace_def dropWhile_hd)
qed

lemma visible_strings_accepted:
  assumes "visible_ends s"
  shows "entity_id s = Inr s" "non_empty_string s = Inr s"
  using strip_whitespace_visible [OF assms] assms
  by (simp_all add: entity_id_def non_empty_string_def visible_ends_def)

end
