(* ===== verification/Domain_Models.thy ===== *)
theory Domain_Models
  imports Domain
begin

text \<open>
  The canonical models of domain/models: observations, forecasts, trading, settlement, regulation
  and ingestion diagnostics, each with the construction that pydantic runs, and the invariants the
  constructions establish.
\<close>

section \<open>Observations (models/observations.py)\<close>

datatype generation_status = AVAILABLE | MAINTENANCE | OUTAGE | UNKNOWN

datatype news_severity = SEV_LOW | SEV_MEDIUM | SEV_HIGH

record consumption_record =
  cr_consumer_id :: string
  cr_timestamp :: utc
  cr_value_mw :: pyfloat

record weather_record =
  wr_location_id :: string
  wr_timestamp :: utc
  wr_temperature_c :: pyfloat
  wr_solar_irradiance_w_m2 :: "pyfloat option"
  wr_precipitation_mm :: "pyfloat option"

record hydro_record =
  hr_resource_id :: string
  hr_timestamp :: utc
  hr_reservoir_level_m :: "pyfloat option"
  hr_river_flow_m3_s :: "pyfloat option"
  hr_available_generation_mw :: "pyfloat option"

record generation_availability_record =
  ga_asset_id :: string
  ga_timestamp :: utc
  ga_status :: generation_status
  ga_available_capacity_mw :: pyfloat
  ga_total_capacity_mw :: "pyfloat option"

record market_price_record =
  mpr_market_id :: string
  mpr_timestamp :: utc
  mpr_price :: energy_price
  mpr_volume_mwh :: "pyfloat option"

record news_event =
  ne_event_id :: string
  ne_timestamp :: utc
  ne_headline :: string
  ne_summary :: string
  ne_category :: "string option"
  ne_severity :: "news_severity option"

definition validate_consumption_record :: "consumption_record \<Rightarrow> consumption_record result" where
  "validate_consumption_record r =
     attempt (entity_id (cr_consumer_id r)) (\<lambda>i.
       check (validated (non_negative_mw (cr_value_mw r))) (Inr (r\<lparr>cr_consumer_id := i\<rparr>)))"

definition validate_weather_record :: "weather_record \<Rightarrow> weather_record result" where
  "validate_weather_record r =
     attempt (entity_id (wr_location_id r)) (\<lambda>i.
       check (validated (finite_number (wr_temperature_c r)
           \<and> optional non_negative_number (wr_solar_irradiance_w_m2 r)
           \<and> optional non_negative_number (wr_precipitation_mm r)))
         (Inr (r\<lparr>wr_location_id := i\<rparr>)))"

definition validate_hydro_record :: "hydro_record \<Rightarrow> hydro_record result" where
  "validate_hydro_record r =
     attempt (entity_id (hr_resource_id r)) (\<lambda>i.
       check (validated (optional non_negative_number (hr_reservoir_level_m r)
           \<and> optional non_negative_number (hr_river_flow_m3_s r)
           \<and> optional non_negative_mw (hr_available_generation_mw r)))
         (Inr (r\<lparr>hr_resource_id := i\<rparr>)))"

definition available_cannot_exceed_total :: "generation_availability_record \<Rightarrow> bool" where
  "available_cannot_exceed_total r \<longleftrightarrow>
     \<not> (case ga_total_capacity_mw r of None \<Rightarrow> False
        | Some cap \<Rightarrow> float_lt cap (ga_available_capacity_mw r))"

definition validate_generation_availability_record ::
    "generation_availability_record \<Rightarrow> generation_availability_record result" where
  "validate_generation_availability_record r =
     attempt (entity_id (ga_asset_id r)) (\<lambda>i.
       check (validated (non_negative_mw (ga_available_capacity_mw r)
           \<and> optional non_negative_mw (ga_total_capacity_mw r)))
         (check (validated (available_cannot_exceed_total r)) (Inr (r\<lparr>ga_asset_id := i\<rparr>))))"

definition validate_market_price_record :: "market_price_record \<Rightarrow> market_price_record result" where
  "validate_market_price_record r =
     attempt (entity_id (mpr_market_id r)) (\<lambda>i.
       check (validated (energy_price_ok (mpr_price r) \<and> optional non_negative_mwh (mpr_volume_mwh r)))
         (Inr (r\<lparr>mpr_market_id := i\<rparr>)))"

definition validate_news_event :: "news_event \<Rightarrow> news_event result" where
  "validate_news_event r =
     attempt (entity_id (ne_event_id r)) (\<lambda>i.
     attempt (non_empty_string (ne_headline r)) (\<lambda>h.
     attempt (non_empty_string (ne_summary r)) (\<lambda>s.
     attempt (optional_result non_empty_string (ne_category r)) (\<lambda>c.
       Inr (r\<lparr>ne_event_id := i, ne_headline := h, ne_summary := s, ne_category := c\<rparr>)))))"

section \<open>Forecasts (models/forecasting.py)\<close>

record load_forecast_point =
  lfp_forecast_run_id :: string
  lfp_consumer_id :: string
  lfp_generated_at :: utc
  lfp_target_timestamp :: utc
  lfp_value_mw :: pyfloat

record price_forecast_point =
  pfp_forecast_run_id :: string
  pfp_market_id :: string
  pfp_generated_at :: utc
  pfp_target_timestamp :: utc
  pfp_price :: energy_price

definition validate_load_forecast_point :: "load_forecast_point \<Rightarrow> load_forecast_point result" where
  "validate_load_forecast_point p =
     attempt (entity_id (lfp_forecast_run_id p)) (\<lambda>i.
     attempt (entity_id (lfp_consumer_id p)) (\<lambda>j.
       check (validated (non_negative_mw (lfp_value_mw p)))
         (Inr (p\<lparr>lfp_forecast_run_id := i, lfp_consumer_id := j\<rparr>))))"

definition validate_price_forecast_point :: "price_forecast_point \<Rightarrow> price_forecast_point result" where
  "validate_price_forecast_point p =
     attempt (entity_id (pfp_forecast_run_id p)) (\<lambda>i.
     attempt (entity_id (pfp_market_id p)) (\<lambda>j.
       check (validated (energy_price_ok (pfp_price p)))
         (Inr (p\<lparr>pfp_forecast_run_id := i, pfp_market_id := j\<rparr>))))"

section \<open>Risk, bids and clearing (models/trading.py)\<close>

datatype bid_side = BUY | SELL

datatype clearing_status = CLEARED | PARTIALLY_CLEARED | REJECTED

record risk_assessment =
  ra_assessment_id :: string
  ra_assessed_at :: utc
  ra_delivery_timestamp :: utc
  ra_risk_score :: pyfloat
  ra_expected_margin :: "money_amount option"
  ra_price_volatility :: "dec option"
  ra_expected_balancing_penalty :: "money_amount option"
  ra_value_at_risk :: "money_amount option"
  ra_notes :: "string option"

record market_bid =
  mb_bid_id :: string
  mb_created_at :: utc
  mb_delivery_timestamp :: utc
  mb_side :: bid_side
  mb_quantity_mw :: pyfloat
  mb_limit_price :: energy_price

record market_clearing_result =
  mc_bid_id :: string
  mc_delivery_timestamp :: utc
  mc_cleared_at :: utc
  mc_status :: clearing_status
  mc_cleared_quantity_mw :: pyfloat
  mc_clearing_price :: "energy_price option"

definition validate_risk_assessment :: "risk_assessment \<Rightarrow> risk_assessment result" where
  "validate_risk_assessment r =
     attempt (entity_id (ra_assessment_id r)) (\<lambda>i.
       check (validated (unit_interval (ra_risk_score r)
           \<and> optional money_amount_ok (ra_expected_margin r)
           \<and> optional finite_decimal (ra_price_volatility r)
           \<and> optional money_amount_ok (ra_expected_balancing_penalty r)
           \<and> optional money_amount_ok (ra_value_at_risk r)))
         (attempt (optional_result non_empty_string (ra_notes r)) (\<lambda>n.
           Inr (r\<lparr>ra_assessment_id := i, ra_notes := n\<rparr>))))"

definition validate_market_bid :: "market_bid \<Rightarrow> market_bid result" where
  "validate_market_bid b =
     attempt (entity_id (mb_bid_id b)) (\<lambda>i.
       check (validated (positive_mw (mb_quantity_mw b) \<and> energy_price_ok (mb_limit_price b)))
         (Inr (b\<lparr>mb_bid_id := i\<rparr>)))"

definition rejected_may_omit_price :: "market_clearing_result \<Rightarrow> bool" where
  "rejected_may_omit_price r \<longleftrightarrow> \<not> (mc_status r \<noteq> REJECTED \<and> mc_clearing_price r = None)"

definition validate_market_clearing_result :: "market_clearing_result \<Rightarrow> market_clearing_result result" where
  "validate_market_clearing_result r =
     attempt (entity_id (mc_bid_id r)) (\<lambda>i.
       check (validated (non_negative_mw (mc_cleared_quantity_mw r)
           \<and> optional energy_price_ok (mc_clearing_price r)))
         (check (validated (rejected_may_omit_price r)) (Inr (r\<lparr>mc_bid_id := i\<rparr>))))"

section \<open>Settlement (models/settlement.py)\<close>

record settlement_result =
  sr_settlement_id :: string
  sr_period_start :: utc
  sr_period_end :: utc
  sr_delivered_energy_mwh :: pyfloat
  sr_revenue :: money_amount
  sr_procurement_cost :: money_amount
  sr_balancing_cost :: money_amount
  sr_profit :: money_amount

definition validate_period_and_currency :: "settlement_result \<Rightarrow> bool" where
  "validate_period_and_currency r \<longleftrightarrow>
     \<not> sr_period_end r \<le> sr_period_start r \<and>
     card {money_currency (sr_revenue r), money_currency (sr_procurement_cost r),
           money_currency (sr_balancing_cost r), money_currency (sr_profit r)} = 1"

definition validate_settlement_result :: "settlement_result \<Rightarrow> settlement_result result" where
  "validate_settlement_result r =
     attempt (entity_id (sr_settlement_id r)) (\<lambda>i.
       check (validated (non_negative_mwh (sr_delivered_energy_mwh r)
           \<and> money_amount_ok (sr_revenue r) \<and> money_amount_ok (sr_procurement_cost r)
           \<and> money_amount_ok (sr_balancing_cost r) \<and> money_amount_ok (sr_profit r)))
         (check (validated (validate_period_and_currency r)) (Inr (r\<lparr>sr_settlement_id := i\<rparr>))))"

section \<open>Regulation (models/regulatory.py)\<close>

text \<open>A \<open>date\<close> is its proleptic ordinal.\<close>

type_synonym py_date = int

record regulatory_constraint =
  rc_constraint_id :: string
  rc_constraint_type :: string
  rc_description :: string
  rc_effective_from :: py_date
  rc_effective_to :: "py_date option"
  rc_minimum_value :: "pyfloat option"
  rc_maximum_value :: "pyfloat option"
  rc_unit :: "string option"
  rc_currency :: "string option"
  rc_source_document_id :: "string option"

definition validate_windows_and_bounds :: "regulatory_constraint \<Rightarrow> bool" where
  "validate_windows_and_bounds r \<longleftrightarrow>
     \<not> (case rc_effective_to r of None \<Rightarrow> False | Some t \<Rightarrow> t < rc_effective_from r) \<and>
     \<not> (case (rc_minimum_value r, rc_maximum_value r) of
          (Some lo, Some hi) \<Rightarrow> float_lt hi lo | _ \<Rightarrow> False)"

definition validate_regulatory_constraint :: "regulatory_constraint \<Rightarrow> regulatory_constraint result" where
  "validate_regulatory_constraint r =
     attempt (entity_id (rc_constraint_id r)) (\<lambda>i.
     attempt (non_empty_string (rc_constraint_type r)) (\<lambda>t.
     attempt (non_empty_string (rc_description r)) (\<lambda>d.
     check (validated (optional finite_number (rc_minimum_value r)
         \<and> optional finite_number (rc_maximum_value r)))
       (attempt (optional_result non_empty_string (rc_unit r)) (\<lambda>u.
        attempt (optional_result currency_code (rc_currency r)) (\<lambda>c.
        attempt (optional_result entity_id (rc_source_document_id r)) (\<lambda>s.
        check (validated (validate_windows_and_bounds r))
          (Inr (r\<lparr>rc_constraint_id := i, rc_constraint_type := t, rc_description := d,
                  rc_unit := u, rc_currency := c, rc_source_document_id := s\<rparr>)))))))))"

section \<open>Ingestion diagnostics (models/ingestion.py)\<close>

datatype diagnostic_severity = SEVERITY_INFO | SEVERITY_WARNING | SEVERITY_ERROR

record adapter_diagnostic =
  ad_code :: string
  ad_message :: string
  ad_severity :: diagnostic_severity
  ad_field_name :: "string option"

record dlq_record =
  dlq_record_id :: string
  dlq_failed_at :: utc
  dlq_source_name :: string
  dlq_adapter_name :: string
  dlq_diagnostics :: "adapter_diagnostic list"
  dlq_payload_reference :: string
  dlq_correlation_id :: "string option"

definition validate_adapter_diagnostic :: "adapter_diagnostic \<Rightarrow> adapter_diagnostic result" where
  "validate_adapter_diagnostic d =
     attempt (non_empty_string (ad_code d)) (\<lambda>c.
     attempt (non_empty_string (ad_message d)) (\<lambda>m.
     attempt (optional_result non_empty_string (ad_field_name d)) (\<lambda>f.
       Inr (d\<lparr>ad_code := c, ad_message := m, ad_field_name := f\<rparr>))))"

definition require_diagnostics :: "dlq_record \<Rightarrow> bool" where
  "require_diagnostics r \<longleftrightarrow> \<not> length (dlq_diagnostics r) < 1"

definition validate_dlq_record :: "dlq_record \<Rightarrow> dlq_record result" where
  "validate_dlq_record r =
     attempt (entity_id (dlq_record_id r)) (\<lambda>i.
     attempt (non_empty_string (dlq_source_name r)) (\<lambda>s.
     attempt (non_empty_string (dlq_adapter_name r)) (\<lambda>a.
     check (validated (1 \<le> length (dlq_diagnostics r)))
       (attempt (non_empty_string (dlq_payload_reference r)) (\<lambda>p.
        attempt (optional_result entity_id (dlq_correlation_id r)) (\<lambda>c.
        check (validated (require_diagnostics r))
          (Inr (r\<lparr>dlq_record_id := i, dlq_source_name := s, dlq_adapter_name := a,
                  dlq_payload_reference := p, dlq_correlation_id := c\<rparr>))))))))"

end
