(* ===== verification/Forecast_Ports.thy ===== *)
theory Forecast_Ports
  imports Domain_Models
begin

text \<open>
  The requests of the two forecast ports (application/ports/dam_price_forecast_model.py and
  application/ports/consumer_load_forecast_model.py). Constructing one runs \<open>__post_init__\<close>:
  identities are stripped and refused when blank, instants are normalised to UTC, the history must
  belong to the requested identity, and at least one target is required.
\<close>

section \<open>Shared helpers\<close>

definition require_aware_utc :: "string \<Rightarrow> py_datetime \<Rightarrow> utc result" where
  "require_aware_utc field_name value =
     (case value of
        Naive _ \<Rightarrow> Inl (ValueError (field_name @ '' must be timezone-aware''))
      | Aware w off \<Rightarrow> to_utc (Aware w off))"

definition require_target_timestamps :: "py_datetime list \<Rightarrow> utc list result" where
  "require_target_timestamps value =
     check (raise_if (length value < 1)
         (ValueError ''target_timestamps must contain at least one timestamp''))
       (map_result (require_aware_utc ''target_timestamps'') value)"

section \<open>DAM price requests\<close>

record dam_price_request =
  dpr_forecast_run_id :: string
  dpr_generated_at :: utc
  dpr_market_id :: string
  dpr_currency :: string
  dpr_history :: "market_price_record list"
  dpr_target_timestamps :: "utc list"

text \<open>\<open>isascii\<close>, \<open>isalpha\<close> and \<open>isupper\<close> together: every character is an ASCII capital.\<close>

definition require_currency_code :: "string \<Rightarrow> string result" where
  "require_currency_code value =
     (if length value \<noteq> 3 \<or> \<not> list_all is_upper_letter value
      then Inl (ValueError ''currency must be a three-letter uppercase currency code'')
      else Inr value)"

definition require_history_matches_market :: "string \<Rightarrow> market_price_record list \<Rightarrow> unit result" where
  "require_history_matches_market market_id history =
     raise_if (list_ex (\<lambda>item. mpr_market_id item \<noteq> market_id) history)
       (ValueError ''history market_id must match request market_id'')"

definition require_history_matches_currency :: "string \<Rightarrow> market_price_record list \<Rightarrow> unit result" where
  "require_history_matches_currency currency history =
     raise_if (list_ex (\<lambda>item. price_currency (mpr_price item) \<noteq> currency) history)
       (ValueError ''history currency must match request currency'')"

definition make_dam_price_request ::
    "string \<Rightarrow> py_datetime \<Rightarrow> string \<Rightarrow> string \<Rightarrow> market_price_record list \<Rightarrow> py_datetime list \<Rightarrow>
     dam_price_request result" where
  "make_dam_price_request run generated market currency history targets =
     attempt (require_non_empty ''forecast_run_id'' run) (\<lambda>run'.
     attempt (require_aware_utc ''generated_at'' generated) (\<lambda>generated'.
     attempt (require_non_empty ''market_id'' market) (\<lambda>market'.
     attempt (require_currency_code currency) (\<lambda>currency'.
     check (require_history_matches_market market' history)
       (check (require_history_matches_currency currency' history)
         (attempt (require_target_timestamps targets) (\<lambda>targets'.
            Inr \<lparr>dpr_forecast_run_id = run', dpr_generated_at = generated',
                 dpr_market_id = market', dpr_currency = currency', dpr_history = history,
                 dpr_target_timestamps = targets'\<rparr>)))))))"

text \<open>What holds of every request that was constructed.\<close>

definition dam_price_request_ok :: "dam_price_request \<Rightarrow> bool" where
  "dam_price_request_ok q \<longleftrightarrow>
     dpr_forecast_run_id q \<noteq> [] \<and> py_strip (dpr_forecast_run_id q) = dpr_forecast_run_id q \<and>
     dpr_market_id q \<noteq> [] \<and> py_strip (dpr_market_id q) = dpr_market_id q \<and>
     is_currency_code (dpr_currency q) \<and>
     (\<forall>r \<in> set (dpr_history q).
        mpr_market_id r = dpr_market_id q \<and> price_currency (mpr_price r) = dpr_currency q) \<and>
     dpr_target_timestamps q \<noteq> []"

lemma make_dam_price_request_ok:
  "make_dam_price_request run gen m c h ts = Inr q \<Longrightarrow> dam_price_request_ok q \<and> dpr_history q = h"
  by (auto simp: make_dam_price_request_def dam_price_request_ok_def result_simps
      require_currency_code_def is_currency_code_def require_history_matches_market_def
      require_history_matches_currency_def require_target_timestamps_def list_ex_iff
      dest: map_result_length split: if_splits)

section \<open>Consumer load requests\<close>

record consumer_load_request =
  clr_forecast_run_id :: string
  clr_generated_at :: utc
  clr_consumer_id :: string
  clr_history :: "consumption_record list"
  clr_target_timestamps :: "utc list"

definition require_history_matches_consumer :: "string \<Rightarrow> consumption_record list \<Rightarrow> unit result" where
  "require_history_matches_consumer consumer_id history =
     raise_if (list_ex (\<lambda>item. cr_consumer_id item \<noteq> consumer_id) history)
       (ValueError ''history consumer_id must match request consumer_id'')"

definition make_consumer_load_request ::
    "string \<Rightarrow> py_datetime \<Rightarrow> string \<Rightarrow> consumption_record list \<Rightarrow> py_datetime list \<Rightarrow>
     consumer_load_request result" where
  "make_consumer_load_request run generated consumer history targets =
     attempt (require_non_empty ''forecast_run_id'' run) (\<lambda>run'.
     attempt (require_aware_utc ''generated_at'' generated) (\<lambda>generated'.
     attempt (require_non_empty ''consumer_id'' consumer) (\<lambda>consumer'.
     check (require_history_matches_consumer consumer' history)
       (attempt (require_target_timestamps targets) (\<lambda>targets'.
          Inr \<lparr>clr_forecast_run_id = run', clr_generated_at = generated',
               clr_consumer_id = consumer', clr_history = history,
               clr_target_timestamps = targets'\<rparr>)))))"

section \<open>Whitespace: the request is already stripped for pydantic\<close>

text \<open>
  Every character pydantic strips is one \<open>str.strip\<close> strips, so an identity a request carries goes
  unchanged through the canonical models built from it.
\<close>

lemma white_space_isspace: "white_space c \<Longrightarrow> py_isspace c"
  by (auto simp: white_space_def py_isspace_def Let_def)

lemma dropWhile_weaker:
  assumes "dropWhile P xs = xs" "\<And>x. Q x \<Longrightarrow> P x"
  shows "dropWhile Q xs = xs"
  using assms by (metis dropWhile_eq_self_iff)

lemma strip_whitespace_fixed: "py_strip s = s \<Longrightarrow> strip_whitespace s = s"
  using py_strip_fixed_ends [of s] dropWhile_weaker [of py_isspace _ white_space] white_space_isspace
  by (simp add: strip_whitespace_def)

lemma entity_id_fixed: "py_strip s = s \<Longrightarrow> s \<noteq> [] \<Longrightarrow> entity_id s = Inr s"
  by (simp add: entity_id_def strip_whitespace_fixed)

lemma currency_code_fixed:
  assumes "is_currency_code c"
  shows "currency_code c = Inr c"
proof -
  obtain x y z where c: "c = [x, y, z]"
    using assms by (auto simp: is_currency_code_def numeral_3_eq_3 length_Suc_conv)
  have "\<not> white_space x" "\<not> white_space z"
    using assms by (auto simp: c is_currency_code_def is_upper_letter_def white_space_def Let_def)
  then show ?thesis using assms by (simp add: currency_code_def strip_whitespace_def c)
qed

end
