(* ===== verification/Cohort.thy ===== *)
theory Cohort
  imports Prelude "HOL-Library.Multiset"
begin

text \<open>
  What every offline module of ml/ repeats: the guards on a cohort of rows (one market, one currency,
  strictly increasing unique timestamps), the timestamp dictionary, and the construction of rows from
  exact lags. The locale \<open>lag_builder\<close> is the contract of a feature or backtest builder: from the
  builder's functional specification it derives order, completeness, independence of the order of
  the history and independence of the future; the builders interpret it.
\<close>

section \<open>Guards\<close>

definition require_single :: "('r \<Rightarrow> 'k) \<Rightarrow> string \<Rightarrow> 'r list \<Rightarrow> unit result" where
  "require_single key msg rows = raise_if (1 < card (set (map key rows))) (InvalidRequestError msg)"

fun chronology_from :: "('r \<Rightarrow> utc) \<Rightarrow> string \<Rightarrow> string \<Rightarrow> 'r \<Rightarrow> 'r list \<Rightarrow> unit result" where
  "chronology_from ts dup ooo previous [] = Inr ()"
| "chronology_from ts dup ooo previous (current # rest) =
     (if ts previous = ts current then Inl (InvalidRequestError dup)
      else if ts current < ts previous then Inl (InvalidRequestError ooo)
      else chronology_from ts dup ooo current rest)"

text \<open>The loop starts from \<open>rows[0]\<close>, which raises on an empty cohort.\<close>

definition require_strict_chronology ::
    "('r \<Rightarrow> utc) \<Rightarrow> string \<Rightarrow> string \<Rightarrow> 'r list \<Rightarrow> unit result" where
  "require_strict_chronology ts dup ooo rows =
     (case rows of [] \<Rightarrow> Inl (OtherException ''IndexError'')
      | first # rest \<Rightarrow> chronology_from ts dup ooo first rest)"

definition one_valued :: "('r \<Rightarrow> 'k) \<Rightarrow> 'r list \<Rightarrow> bool" where
  "one_valued key rows \<longleftrightarrow> (\<forall>r \<in> set rows. \<forall>r' \<in> set rows. key r = key r')"

definition strictly_increasing :: "('r \<Rightarrow> utc) \<Rightarrow> 'r list \<Rightarrow> bool" where
  "strictly_increasing ts rows \<longleftrightarrow> sorted_wrt (<) (map ts rows)"

lemma card_le_one_iff: "finite A \<Longrightarrow> \<not> 1 < card A \<longleftrightarrow> (\<forall>x \<in> A. \<forall>y \<in> A. x = y)"
  by (metis One_nat_def card_le_Suc0_iff_eq linorder_not_less)

lemma require_single_ok [cohort_simps]:
  "require_single key msg rows = Inr u \<longleftrightarrow> one_valued key rows"
  unfolding require_single_def raise_if_Inr_iff
  by (subst card_le_one_iff) (auto simp: one_valued_def)

lemma require_single_error:
  "require_single key msg rows = Inl e \<longleftrightarrow> \<not> one_valued key rows \<and> e = InvalidRequestError msg"
  unfolding require_single_def raise_if_Inl_iff
  using card_le_one_iff [of "set (map key rows)"] by (auto simp: one_valued_def)

lemma chronology_from_ok:
  "chronology_from ts dup ooo p rows = Inr u \<longleftrightarrow> strictly_increasing ts (p # rows)"
proof (induction rows arbitrary: p)
  case Nil
  then show ?case by (simp add: strictly_increasing_def)
next
  case (Cons r rows)
  have "chronology_from ts dup ooo p (r # rows) = Inr u
    \<longleftrightarrow> ts p < ts r \<and> strictly_increasing ts (r # rows)"
    using Cons.IH [of r] by auto
  then show ?case by (auto simp: strictly_increasing_def intro: less_trans)
qed

lemma require_strict_chronology_ok [cohort_simps]:
  "require_strict_chronology ts dup ooo rows = Inr u \<longleftrightarrow> rows \<noteq> [] \<and> strictly_increasing ts rows"
  by (cases rows) (simp_all add: require_strict_chronology_def chronology_from_ok)

lemma chronology_from_error:
  "chronology_from ts dup ooo p rows = Inl e \<Longrightarrow>
   e = InvalidRequestError dup \<or> e = InvalidRequestError ooo"
  by (induction rows arbitrary: p) (auto split: if_splits)

lemma require_strict_chronology_error:
  "rows \<noteq> [] \<Longrightarrow> require_strict_chronology ts dup ooo rows = Inl e \<Longrightarrow>
   e = InvalidRequestError dup \<or> e = InvalidRequestError ooo"
  by (cases rows) (auto simp: require_strict_chronology_def dest: chronology_from_error)

lemma require_strict_chronology_errorD:
  assumes "require_strict_chronology ts dup ooo rows = Inl e" "rows \<noteq> []"
  shows "\<not> strictly_increasing ts rows \<and> (\<exists>m. e = InvalidRequestError m)"
  using assms require_strict_chronology_ok [of ts dup ooo rows "()"]
    require_strict_chronology_error [OF assms(2,1)] by auto

lemma strictly_increasing_distinct: "strictly_increasing ts rows \<Longrightarrow> distinct (map ts rows)"
  by (simp add: strictly_increasing_def strict_sorted_iff)

lemma strictly_increasing_filter: "strictly_increasing ts rows \<Longrightarrow> strictly_increasing ts (filter P rows)"
  by (simp add: strictly_increasing_def sorted_wrt_map sorted_wrt_filter)

lemma one_valued_subset: "one_valued k h \<Longrightarrow> set h' \<subseteq> set h \<Longrightarrow> one_valued k h'"
  by (auto simp: one_valued_def)

lemma one_valued_filter: "one_valued k h \<Longrightarrow> one_valued k (filter P h)"
  by (rule one_valued_subset) auto

text \<open>A cutoff cuts a chronological cohort in two consecutive pieces.\<close>

lemma chronological_partition:
  "strictly_increasing ts rows \<Longrightarrow>
   filter (\<lambda>r. ts r < c) rows @ filter (\<lambda>r. c \<le> ts r) rows = rows"
proof (induction rows)
  case Nil
  then show ?case by simp
next
  case (Cons r rows)
  have later: "ts r < ts r'" if "r' \<in> set rows" for r'
    using Cons.prems that by (auto simp: strictly_increasing_def)
  have IH: "filter (\<lambda>r. ts r < c) rows @ filter (\<lambda>r. c \<le> ts r) rows = rows"
    using Cons by (simp add: strictly_increasing_def)
  show ?case
  proof (cases "ts r < c")
    case True
    then show ?thesis using IH by simp
  next
    case False
    then have "filter (\<lambda>r. ts r < c) rows = []" using later by (fastforce simp: filter_empty_conv)
    then show ?thesis using False IH by simp
  qed
qed

section \<open>The timestamp dictionary\<close>

text \<open>A Python dictionary keeps insertion order: an association list.\<close>

fun index_from :: "('r \<Rightarrow> utc) \<Rightarrow> string \<Rightarrow> (utc \<times> 'r) list \<Rightarrow> 'r list \<Rightarrow> (utc \<times> 'r) list result" where
  "index_from ts dup acc [] = Inr acc"
| "index_from ts dup acc (r # rs) =
     (if ts r \<in> set (map fst acc) then Inl (InvalidRequestError dup)
      else index_from ts dup (acc @ [(ts r, r)]) rs)"

definition unique_timestamp_index :: "('r \<Rightarrow> utc) \<Rightarrow> string \<Rightarrow> 'r list \<Rightarrow> (utc \<times> 'r) list result" where
  "unique_timestamp_index ts dup history = index_from ts dup [] history"

definition dict_get :: "(utc \<times> 'r) list \<Rightarrow> utc \<Rightarrow> 'r result" where
  "dict_get d k = (case map_of d k of None \<Rightarrow> Inl (OtherException ''KeyError'') | Some r \<Rightarrow> Inr r)"

lemma index_from_ok:
  "index_from ts dup acc rs = Inr d \<longleftrightarrow>
   distinct (map ts rs) \<and> set (map ts rs) \<inter> set (map fst acc) = {} \<and>
   d = acc @ map (\<lambda>r. (ts r, r)) rs"
  by (induction rs arbitrary: acc) auto

lemma unique_timestamp_index_ok [cohort_simps]:
  "unique_timestamp_index ts dup h = Inr d \<longleftrightarrow>
   distinct (map ts h) \<and> d = map (\<lambda>r. (ts r, r)) h"
  by (simp add: unique_timestamp_index_def index_from_ok)

lemma index_from_error: "index_from ts dup acc rs = Inl e \<Longrightarrow> e = InvalidRequestError dup"
  by (induction rs arbitrary: acc) (auto split: if_splits)

lemma unique_timestamp_index_error:
  "unique_timestamp_index ts dup h = Inl e \<longleftrightarrow>
   \<not> distinct (map ts h) \<and> e = InvalidRequestError dup"
proof (cases "unique_timestamp_index ts dup h")
  case (Inl e')
  then have "e' = InvalidRequestError dup"
    unfolding unique_timestamp_index_def by (rule index_from_error)
  then show ?thesis using Inl unique_timestamp_index_ok [of ts dup h] by auto
next
  case (Inr d)
  then show ?thesis using unique_timestamp_index_ok [of ts dup h d] by auto
qed

section \<open>Rows from exact lags\<close>

fun lags_present :: "(utc \<times> 'r) list \<Rightarrow> utc \<Rightarrow> int list \<Rightarrow> bool result" where
  "lags_present d t [] = Inr True"
| "lags_present d t (l # ls) =
     attempt (datetime_minus t l)
       (\<lambda>u. if map_of d u \<noteq> None then lags_present d t ls else Inr False)"

definition row_for_target ::
    "('r \<Rightarrow> 'r list \<Rightarrow> 'o) \<Rightarrow> int list \<Rightarrow> (utc \<times> 'r) list \<Rightarrow> utc \<Rightarrow> 'o result" where
  "row_for_target mk lags d t =
     attempt (dict_get d t) (\<lambda>target.
     attempt (map_result (\<lambda>l. attempt (datetime_minus t l) (dict_get d)) lags) (\<lambda>rs.
       Inr (mk target rs)))"

text \<open>\<open>tuple(f(t) for t in ts if p(t))\<close>, where both may raise.\<close>

fun comprehension :: "('a \<Rightarrow> bool result) \<Rightarrow> ('a \<Rightarrow> 'b result) \<Rightarrow> 'a list \<Rightarrow> 'b list result" where
  "comprehension p f [] = Inr []"
| "comprehension p f (x # xs) =
     attempt (p x) (\<lambda>keep.
       if keep then attempt (f x) (\<lambda>y. attempt (comprehension p f xs) (\<lambda>ys. Inr (y # ys)))
       else comprehension p f xs)"

definition lag_rows ::
    "('r \<Rightarrow> 'r list \<Rightarrow> 'o) \<Rightarrow> int list \<Rightarrow> (utc \<times> 'r) list \<Rightarrow> 'o list result" where
  "lag_rows mk lags d =
     comprehension (\<lambda>t. lags_present d t lags) (row_for_target mk lags d) (sort (map fst d))"

text \<open>The specification: the records whose exact lags all exist, in time order.\<close>

definition complete_record :: "('r \<Rightarrow> utc) \<Rightarrow> int list \<Rightarrow> 'r list \<Rightarrow> 'r \<Rightarrow> bool" where
  "complete_record ts lags h r \<longleftrightarrow> (\<forall>l \<in> set lags. ts r - l \<in> ts ` set h)"

definition record_at :: "('r \<Rightarrow> utc) \<Rightarrow> 'r list \<Rightarrow> utc \<Rightarrow> 'r" where
  "record_at ts h t = the (map_of (map (\<lambda>r. (ts r, r)) h) t)"

definition lag_row_spec :: "('r \<Rightarrow> utc) \<Rightarrow> int list \<Rightarrow> ('r \<Rightarrow> 'r list \<Rightarrow> 'o) \<Rightarrow> 'r list \<Rightarrow> 'r \<Rightarrow> 'o" where
  "lag_row_spec ts lags mk h r = mk r (map (\<lambda>l. record_at ts h (ts r - l)) lags)"

definition lag_rows_spec :: "('r \<Rightarrow> utc) \<Rightarrow> int list \<Rightarrow> ('r \<Rightarrow> 'r list \<Rightarrow> 'o) \<Rightarrow> 'r list \<Rightarrow> 'o list" where
  "lag_rows_spec ts lags mk h =
     map (lag_row_spec ts lags mk h) (filter (complete_record ts lags h) (sort_key ts h))"

text \<open>No subtraction of a lag leaves the range of datetimes.\<close>

definition lags_in_range :: "('r \<Rightarrow> utc) \<Rightarrow> int list \<Rightarrow> 'r list \<Rightarrow> bool" where
  "lags_in_range ts lags h \<longleftrightarrow>
     (\<forall>r \<in> set h. \<forall>l \<in> set lags. 0 \<le> ts r - l \<and> ts r - l \<le> datetime_max)"

lemma lags_present_spec:
  assumes "\<forall>l \<in> set lags. 0 \<le> t - l \<and> t - l \<le> datetime_max"
  shows "lags_present d t lags = Inr (\<forall>l \<in> set lags. map_of d (t - l) \<noteq> None)"
  using assms by (induction lags) (auto simp: datetime_minus_def)

lemma comprehension_pure:
  "(\<And>x. x \<in> set xs \<Longrightarrow> p x = Inr (P x)) \<Longrightarrow>
   (\<And>x. x \<in> set xs \<Longrightarrow> P x \<Longrightarrow> f x = Inr (F x)) \<Longrightarrow>
   comprehension p f xs = Inr (map F (filter P xs))"
  by (induction xs) auto

lemma sort_key_by_timestamp:
  assumes "distinct (map ts h)"
  shows "sort (map ts h) = map ts (sort_key ts h)"
proof (rule sorted_distinct_set_unique)
  show "distinct (map ts (sort_key ts h))"
    using assms by (simp add: distinct_map)
qed (use assms in \<open>simp_all add: distinct_sort\<close>)

lemma lag_rows_correct:
  assumes d: "distinct (map ts h)" and range: "lags_in_range ts lags h"
  shows "lag_rows mk lags (map (\<lambda>r. (ts r, r)) h) = Inr (lag_rows_spec ts lags mk h)"
proof -
  let ?d = "map (\<lambda>r. (ts r, r)) h"
  let ?P = "\<lambda>t. \<forall>l \<in> set lags. map_of ?d (t - l) \<noteq> None"
  let ?F = "\<lambda>t. lag_row_spec ts lags mk h (record_at ts h t)"
  have at: "record_at ts h (ts r) = r" if "r \<in> set h" for r
    using map_of_zip_key_unique [OF d that] by (simp add: record_at_def)
  have present: "lags_present ?d (ts r) lags = Inr (?P (ts r))" if "r \<in> set h" for r
    using range that by (intro lags_present_spec) (auto simp: lags_in_range_def)
  have row: "row_for_target mk lags ?d (ts r) = Inr (lag_row_spec ts lags mk h r)"
    if "r \<in> set h" "?P (ts r)" for r
  proof -
    have "map_result (\<lambda>l. attempt (datetime_minus (ts r) l) (dict_get ?d)) lags
        = Inr (map (\<lambda>l. record_at ts h (ts r - l)) lags)"
    proof (rule map_result_all_Inr)
      fix l assume l: "l \<in> set lags"
      then have "datetime_minus (ts r) l = Inr (ts r - l)"
        using range that(1) unfolding lags_in_range_def datetime_minus_Inr_iff by blast
      then show "attempt (datetime_minus (ts r) l) (dict_get ?d) = Inr (record_at ts h (ts r - l))"
        using that(2) l by (auto simp: dict_get_def record_at_def)
    qed
    moreover have "dict_get ?d (ts r) = Inr r"
      using map_of_zip_key_unique [OF d that(1)] by (simp add: dict_get_def)
    ultimately show ?thesis by (simp add: row_for_target_def lag_row_spec_def)
  qed
  have "lag_rows mk lags ?d = Inr (map ?F (filter ?P (map ts (sort_key ts h))))"
  proof -
    have keys: "sort (map fst ?d) = map ts (sort_key ts h)"
      using sort_key_by_timestamp [OF d] by (simp add: comp_def)
    show ?thesis
      unfolding lag_rows_def keys
      by (rule comprehension_pure) (use present row at in \<open>auto\<close>)
  qed
  moreover have "map ?F (filter ?P (map ts (sort_key ts h))) = lag_rows_spec ts lags mk h"
    unfolding lag_rows_spec_def filter_map map_map
    by (rule map_cong) (auto simp: at complete_record_def map_of_key_None intro!: filter_cong)
  ultimately show ?thesis by simp
qed

lemma lag_rows_spec_Nil [simp]: "lag_rows_spec ts lags mk [] = []"
  by (simp add: lag_rows_spec_def)

section \<open>The observation at an exact lag\<close>

definition unique_lag_observation ::
    "('r \<Rightarrow> utc) \<Rightarrow> string \<Rightarrow> string \<Rightarrow> 'r list \<Rightarrow> utc \<Rightarrow> 'r result" where
  "unique_lag_observation ts missing duplicate history reference =
     (case filter (\<lambda>record. ts record = reference) history of
        [] \<Rightarrow> Inl (InvalidRequestError missing)
      | [record] \<Rightarrow> Inr record
      | _ \<Rightarrow> Inl (InvalidRequestError duplicate))"

lemma unique_lag_observation_Inr:
  "unique_lag_observation ts m d h u = Inr r \<longleftrightarrow> filter (\<lambda>x. ts x = u) h = [r]"
  by (auto simp: unique_lag_observation_def split: list.splits)

section \<open>The contract of a lag builder\<close>

text \<open>
  \<open>good\<close> are the histories the builder accepts (non-empty or empty, one market, unique timestamps,
  lags in range); on them it returns the specification. \<open>stamp\<close> reads a row's target timestamp.
\<close>

locale lag_builder =
  fixes build :: "'r list \<Rightarrow> 'o list result"
    and good :: "'r list \<Rightarrow> bool"
    and ts :: "'r \<Rightarrow> utc"
    and stamp :: "'o \<Rightarrow> utc"
    and lags :: "int list"
    and mk :: "'r \<Rightarrow> 'r list \<Rightarrow> 'o"
  assumes build_spec: "good h \<Longrightarrow> build h = Inr (lag_rows_spec ts lags mk h)"
    and good_distinct: "good h \<Longrightarrow> distinct (map ts h)"
    and good_filter: "good h \<Longrightarrow> good (filter P h)"
    and good_mset: "good h \<Longrightarrow> mset h' = mset h \<Longrightarrow> good h'"
    and stamp_mk: "stamp (mk r rs) = ts r"
    and lags_nonneg: "l \<in> set lags \<Longrightarrow> 0 \<le> l"
begin

lemma stamp_row [simp]: "stamp (lag_row_spec ts lags mk h r) = ts r"
  by (simp add: lag_row_spec_def stamp_mk)

lemma build_order:
  assumes "good h" "build h = Inr rows"
  shows "strictly_increasing stamp rows"
proof -
  have rows: "rows = lag_rows_spec ts lags mk h" using assms build_spec by simp
  have "sorted_wrt (<) (map ts (sort_key ts h))"
    using good_distinct [OF assms(1)] by (simp add: strict_sorted_iff distinct_map)
  then have "sorted_wrt (<) (map ts (filter (complete_record ts lags h) (sort_key ts h)))"
    by (simp add: sorted_wrt_map sorted_wrt_filter)
  then show ?thesis by (simp add: rows lag_rows_spec_def strictly_increasing_def comp_def)
qed

text \<open>A row for every record with all its lags, made of exactly those observations, and no other.\<close>

lemma build_complete:
  assumes "good h" "build h = Inr rows"
  shows "set rows = {lag_row_spec ts lags mk h r |r. r \<in> set h \<and> complete_record ts lags h r}"
  using assms build_spec by (auto simp: lag_rows_spec_def)

lemma record_at_mem:
  assumes "good h" "t \<in> ts ` set h"
  shows "record_at ts h t \<in> set h \<and> ts (record_at ts h t) = t"
proof -
  obtain r where "r \<in> set h" "ts r = t" using assms(2) by auto
  then show ?thesis
    using map_of_zip_key_unique [OF good_distinct [OF assms(1)]] by (auto simp: record_at_def)
qed

lemma build_permutation:
  assumes "good h" "mset h' = mset h"
  shows "build h' = build h"
proof -
  have good': "good h'" using good_mset [OF assms] .
  have set: "set h' = set h" using assms(2) by (metis mset_eq_setD)
  have d: "distinct (map ts h)" "distinct (map ts h')" using good_distinct assms(1) good' by auto
  have "sort_key ts h' = sort_key ts h"
    using d set by (intro map_sorted_distinct_set_unique [where f = ts]) (auto simp: distinct_map)
  moreover have "map_of (map (\<lambda>r. (ts r, r)) h') = map_of (map (\<lambda>r. (ts r, r)) h)"
    using d set by (intro map_of_key_mset_cong) auto
  ultimately have "lag_rows_spec ts lags mk h' = lag_rows_spec ts lags mk h"
    by (simp add: lag_rows_spec_def lag_row_spec_def [abs_def] complete_record_def [abs_def]
        record_at_def set)
  then show ?thesis using build_spec assms(1) good' by simp
qed

text \<open>No look-ahead: the rows up to \<open>t\<close> are those built from the observations up to \<open>t\<close>.\<close>

lemma build_causal:
  assumes "good h" "build h = Inr rows"
  shows "build (filter (\<lambda>r. ts r \<le> t) h) = Inr (filter (\<lambda>out. stamp out \<le> t) rows)"
proof -
  let ?h = "filter (\<lambda>r. ts r \<le> t) h"
  have d: "distinct (map ts h)" using good_distinct assms(1) .
  have complete: "complete_record ts lags ?h r \<longleftrightarrow> complete_record ts lags h r" if "ts r \<le> t" for r
    using that lags_nonneg by (fastforce simp: complete_record_def)
  have at: "record_at ts ?h u = record_at ts h u" if u: "u \<in> ts ` set h" "u \<le> t" for u
  proof -
    obtain r where r: "r \<in> set h" "ts r = u" using u(1) by auto
    then have "r \<in> set ?h" using u(2) by simp
    then show ?thesis
      using r map_of_zip_key_unique [OF d, of r]
        map_of_zip_key_unique [OF good_distinct [OF good_filter [OF assms(1)]], of r]
      by (simp add: record_at_def)
  qed
  have row: "lag_row_spec ts lags mk ?h r = lag_row_spec ts lags mk h r"
    if "ts r \<le> t" "complete_record ts lags h r" for r
  proof -
    have "record_at ts ?h (ts r - l) = record_at ts h (ts r - l)" if "l \<in> set lags" for l
    proof (rule at)
      show "ts r - l \<in> ts ` set h" using \<open>complete_record ts lags h r\<close> that
        by (simp add: complete_record_def)
      show "ts r - l \<le> t" using \<open>ts r \<le> t\<close> lags_nonneg [OF that] by simp
    qed
    then show ?thesis unfolding lag_row_spec_def by (intro arg_cong [of _ _ "mk r"] map_cong) simp_all
  qed
  have "build ?h = Inr (lag_rows_spec ts lags mk ?h)"
    using build_spec good_filter assms(1) by blast
  also have "lag_rows_spec ts lags mk ?h
      = map (lag_row_spec ts lags mk ?h)
          (filter (complete_record ts lags ?h) (filter (\<lambda>r. ts r \<le> t) (sort_key ts h)))"
    by (simp add: lag_rows_spec_def filter_sort)
  also have "\<dots> = map (lag_row_spec ts lags mk h)
          (filter (complete_record ts lags h) (filter (\<lambda>r. ts r \<le> t) (sort_key ts h)))"
    by (rule map_cong) (auto simp: complete row intro!: filter_cong)
  also have "\<dots> = filter (\<lambda>out. stamp out \<le> t) (lag_rows_spec ts lags mk h)"
    by (simp add: lag_rows_spec_def filter_map comp_def conj_commute)
  finally show ?thesis using build_spec assms by simp
qed

end

end
