(* ===== verification/Least_Squares.thy ===== *)
theory Least_Squares
  imports Complex_Main
begin

text \<open>
  Ordinary least squares over the rationals: the specification of the two fitters of ml/dam_price.
  Observations are the elements of a list, read by feature and target functions. The fitted line and
  plane satisfy the normal equations, hence minimise the sum of squared errors and are the only
  minimiser; a vanishing denominator or determinant is characterised by the design.
\<close>

section \<open>Centred sums\<close>

definition mean :: "('p \<Rightarrow> rat) \<Rightarrow> 'p list \<Rightarrow> rat" where
  "mean f ps = (\<Sum>p\<leftarrow>ps. f p) / of_nat (length ps)"

definition deviation :: "('p \<Rightarrow> rat) \<Rightarrow> 'p list \<Rightarrow> 'p \<Rightarrow> rat" where
  "deviation f ps p = f p - mean f ps"

definition cross :: "('p \<Rightarrow> rat) \<Rightarrow> ('p \<Rightarrow> rat) \<Rightarrow> 'p list \<Rightarrow> rat" where
  "cross f g ps = (\<Sum>p\<leftarrow>ps. deviation f ps p * deviation g ps p)"

definition sse :: "('p \<Rightarrow> rat) \<Rightarrow> ('p \<Rightarrow> rat) \<Rightarrow> 'p list \<Rightarrow> rat" where
  "sse model target ps = (\<Sum>p\<leftarrow>ps. (target p - model p)\<^sup>2)"

lemmas list_sum_simps = sum_list_addf sum_list_subtractf sum_list_const_mult sum_list_mult_const

lemma deviation_sum [simp]: "ps \<noteq> [] \<Longrightarrow> (\<Sum>p\<leftarrow>ps. deviation f ps p) = 0"
  by (simp add: deviation_def mean_def sum_list_subtractf sum_list_triv)

lemma cross_commute: "cross f g ps = cross g f ps"
  by (simp add: cross_def mult.commute)

lemma cross_self_nonneg: "0 \<le> cross f f ps"
  by (auto simp: cross_def intro!: sum_list_nonneg)

lemma sum_list_zero: "(\<And>p. p \<in> set ps \<Longrightarrow> f p = (0::rat)) \<Longrightarrow> (\<Sum>p\<leftarrow>ps. f p) = 0"
  by (induction ps) auto

lemma cross_zero: "\<forall>p \<in> set ps. deviation f ps p = 0 \<Longrightarrow> cross f g ps = 0"
  unfolding cross_def by (rule sum_list_zero) simp

lemma sum_squares_zero:
  fixes f :: "'p \<Rightarrow> rat"
  assumes "(\<Sum>p\<leftarrow>ps. f p * f p) = 0" "p \<in> set ps"
  shows "f p = 0"
proof -
  have "\<forall>z \<in> set (map (\<lambda>p. f p * f p) ps). z = 0"
    using assms(1) by (subst sum_list_nonneg_eq_0_iff [symmetric]) auto
  then show ?thesis using assms(2) by auto
qed

lemma cross_self_zeroD: "cross f f ps = 0 \<Longrightarrow> p \<in> set ps \<Longrightarrow> deviation f ps p = 0"
  unfolding cross_def by (rule sum_squares_zero)

lemma deviation_zero_iff:
  assumes "ps \<noteq> []"
  shows "(\<forall>p \<in> set ps. deviation f ps p = 0) \<longleftrightarrow> (\<forall>p \<in> set ps. \<forall>q \<in> set ps. f p = f q)"
proof
  assume "\<forall>p \<in> set ps. \<forall>q \<in> set ps. f p = f q"
  then obtain c where c: "\<forall>p \<in> set ps. f p = c" using assms by (metis hd_in_set)
  then have "(\<Sum>p\<leftarrow>ps. f p) = (\<Sum>p\<leftarrow>ps. c)" by (intro arg_cong [of _ _ sum_list] map_cong) auto
  then have "mean f ps = c" using assms by (simp add: mean_def sum_list_triv)
  then show "\<forall>p \<in> set ps. deviation f ps p = 0" using c by (simp add: deviation_def)
qed (simp add: deviation_def)

text \<open>A feature has zero variance exactly when it is constant.\<close>

lemma cross_self_zero_iff:
  assumes "ps \<noteq> []"
  shows "cross f f ps = 0 \<longleftrightarrow> (\<forall>p \<in> set ps. \<forall>q \<in> set ps. f p = f q)"
proof -
  have "cross f f ps = 0 \<longleftrightarrow> (\<forall>p \<in> set ps. deviation f ps p = 0)"
  proof
    assume "cross f f ps = 0"
    then show "\<forall>p \<in> set ps. deviation f ps p = 0"
      by (auto intro: cross_self_zeroD)
  qed (simp add: cross_zero)
  then show ?thesis using deviation_zero_iff [OF assms] by simp
qed

section \<open>Orthogonal residuals minimise\<close>

lemma pythagoras:
  assumes "(\<Sum>p\<leftarrow>ps. (y p - f p) * (f p - g p)) = 0"
  shows "sse g y ps = sse f y ps + (\<Sum>p\<leftarrow>ps. (f p - g p)\<^sup>2)"
proof -
  have "(y p - g p)\<^sup>2 = (y p - f p)\<^sup>2 + 2 * ((y p - f p) * (f p - g p)) + (f p - g p)\<^sup>2" for p
    by (simp add: power2_eq_square algebra_simps)
  then show ?thesis using assms by (simp add: sse_def sum_list_addf sum_list_const_mult)
qed

lemma orthogonal_minimal:
  assumes "(\<Sum>p\<leftarrow>ps. (y p - f p) * (f p - g p)) = 0"
  shows "sse f y ps \<le> sse g y ps"
    and "sse g y ps = sse f y ps \<Longrightarrow> p \<in> set ps \<Longrightarrow> f p = g p"
proof -
  have "0 \<le> (\<Sum>p\<leftarrow>ps. (f p - g p)\<^sup>2)" by (intro sum_list_nonneg) auto
  then show "sse f y ps \<le> sse g y ps" using pythagoras [OF assms] by simp
  assume "sse g y ps = sse f y ps" "p \<in> set ps"
  then show "f p = g p"
    using pythagoras [OF assms] sum_squares_zero [of "\<lambda>p. f p - g p" ps p]
    by (simp add: power2_eq_square)
qed

section \<open>One feature\<close>

definition line :: "rat \<Rightarrow> rat \<Rightarrow> ('p \<Rightarrow> rat) \<Rightarrow> 'p \<Rightarrow> rat" where
  "line b a x p = b * x p + a"

definition ols_slope :: "('p \<Rightarrow> rat) \<Rightarrow> ('p \<Rightarrow> rat) \<Rightarrow> 'p list \<Rightarrow> rat" where
  "ols_slope x y ps = cross x y ps / cross x x ps"

definition ols_intercept :: "('p \<Rightarrow> rat) \<Rightarrow> ('p \<Rightarrow> rat) \<Rightarrow> 'p list \<Rightarrow> rat" where
  "ols_intercept x y ps = mean y ps - ols_slope x y ps * mean x ps"

definition is_least_squares_line :: "rat \<Rightarrow> rat \<Rightarrow> ('p \<Rightarrow> rat) \<Rightarrow> ('p \<Rightarrow> rat) \<Rightarrow> 'p list \<Rightarrow> bool" where
  "is_least_squares_line b a x y ps \<longleftrightarrow>
     (\<forall>b' a'. sse (line b a x) y ps \<le> sse (line b' a' x) y ps \<and>
        (sse (line b' a' x) y ps = sse (line b a x) y ps \<longrightarrow> b' = b \<and> a' = a))"

lemma line_deviation:
  assumes "a = mean y ps - b * mean x ps"
  shows "y p - line b a x p = deviation y ps p - b * deviation x ps p"
  using assms by (simp add: line_def deviation_def algebra_simps)

lemma line_orthogonal:
  assumes "ps \<noteq> []" "cross x y ps = b * cross x x ps" "a = mean y ps - b * mean x ps"
  shows "(\<Sum>p\<leftarrow>ps. (y p - line b a x p) * (line b a x p - line b' a' x p)) = 0"
proof -
  let ?r = "\<lambda>p. deviation y ps p - b * deviation x ps p"
  let ?k = "(a - a') + (b - b') * mean x ps"
  have "(y p - line b a x p) * (line b a x p - line b' a' x p)
      = (b - b') * (deviation x ps p * deviation y ps p)
        - (b - b') * b * (deviation x ps p * deviation x ps p) + ?k * ?r p" for p
    unfolding line_deviation [OF assms(3)] by (simp add: line_def deviation_def algebra_simps)
  then have "(\<Sum>p\<leftarrow>ps. (y p - line b a x p) * (line b a x p - line b' a' x p))
      = (b - b') * cross x y ps - (b - b') * b * cross x x ps + ?k * (\<Sum>p\<leftarrow>ps. ?r p)"
    by (simp add: list_sum_simps cross_def mult.assoc)
  also have "(\<Sum>p\<leftarrow>ps. ?r p) = 0" using assms(1) by (simp add: list_sum_simps)
  finally show ?thesis using assms(2) by simp
qed

theorem ols_line_optimal:
  assumes "ps \<noteq> []" "cross x x ps \<noteq> 0"
  shows "is_least_squares_line (ols_slope x y ps) (ols_intercept x y ps) x y ps"
  unfolding is_least_squares_line_def
proof (intro allI conjI impI)
  fix b' a'
  let ?b = "ols_slope x y ps" and ?a = "ols_intercept x y ps"
  have orth: "(\<Sum>p\<leftarrow>ps. (y p - line ?b ?a x p) * (line ?b ?a x p - line b' a' x p)) = 0"
    using assms by (intro line_orthogonal) (simp_all add: ols_slope_def ols_intercept_def)
  show "sse (line ?b ?a x) y ps \<le> sse (line b' a' x) y ps"
    by (rule orthogonal_minimal(1) [OF orth])
  assume eq: "sse (line b' a' x) y ps = sse (line ?b ?a x) y ps"
  have same: "?b * x p + ?a = b' * x p + a'" if "p \<in> set ps" for p
    using orthogonal_minimal(2) [OF orth eq that] by (simp add: line_def)
  obtain p q where pq: "p \<in> set ps" "q \<in> set ps" "x p \<noteq> x q"
    using assms cross_self_zero_iff by blast
  have "(?b - b') * (x p - x q) = 0" using same [OF pq(1)] same [OF pq(2)] by (simp add: algebra_simps)
  then show "b' = ?b" using pq(3) by simp
  then show "a' = ?a" using same [OF pq(1)] by simp
qed

section \<open>Two features\<close>

definition plane :: "rat \<Rightarrow> rat \<Rightarrow> rat \<Rightarrow> ('p \<Rightarrow> rat) \<Rightarrow> ('p \<Rightarrow> rat) \<Rightarrow> 'p \<Rightarrow> rat" where
  "plane b1 b2 a x1 x2 p = b1 * x1 p + b2 * x2 p + a"

definition gram_determinant :: "('p \<Rightarrow> rat) \<Rightarrow> ('p \<Rightarrow> rat) \<Rightarrow> 'p list \<Rightarrow> rat" where
  "gram_determinant x1 x2 ps = cross x1 x1 ps * cross x2 x2 ps - cross x1 x2 ps * cross x1 x2 ps"

definition ols_coefficient :: "('p \<Rightarrow> rat) \<Rightarrow> ('p \<Rightarrow> rat) \<Rightarrow> ('p \<Rightarrow> rat) \<Rightarrow> 'p list \<Rightarrow> rat" where
  "ols_coefficient x1 x2 y ps =
     (cross x1 y ps * cross x2 x2 ps - cross x2 y ps * cross x1 x2 ps) / gram_determinant x1 x2 ps"

definition ols_plane_intercept ::
    "('p \<Rightarrow> rat) \<Rightarrow> ('p \<Rightarrow> rat) \<Rightarrow> ('p \<Rightarrow> rat) \<Rightarrow> 'p list \<Rightarrow> rat" where
  "ols_plane_intercept x1 x2 y ps =
     mean y ps - ols_coefficient x1 x2 y ps * mean x1 ps - ols_coefficient x2 x1 y ps * mean x2 ps"

definition is_least_squares_plane ::
    "rat \<Rightarrow> rat \<Rightarrow> rat \<Rightarrow> ('p \<Rightarrow> rat) \<Rightarrow> ('p \<Rightarrow> rat) \<Rightarrow> ('p \<Rightarrow> rat) \<Rightarrow> 'p list \<Rightarrow> bool" where
  "is_least_squares_plane b1 b2 a x1 x2 y ps \<longleftrightarrow>
     (\<forall>b1' b2' a'. sse (plane b1 b2 a x1 x2) y ps \<le> sse (plane b1' b2' a' x1 x2) y ps \<and>
        (sse (plane b1' b2' a' x1 x2) y ps = sse (plane b1 b2 a x1 x2) y ps \<longrightarrow>
           b1' = b1 \<and> b2' = b2 \<and> a' = a))"

definition affinely_dependent :: "('p \<Rightarrow> rat) \<Rightarrow> ('p \<Rightarrow> rat) \<Rightarrow> 'p list \<Rightarrow> bool" where
  "affinely_dependent x1 x2 ps \<longleftrightarrow>
     (\<exists>c1 c2 c0. (c1 \<noteq> 0 \<or> c2 \<noteq> 0) \<and> (\<forall>p \<in> set ps. c1 * x1 p + c2 * x2 p = c0))"

lemma gram_determinant_commute: "gram_determinant x2 x1 ps = gram_determinant x1 x2 ps"
  by (simp add: gram_determinant_def cross_commute [of x2 x1] mult.commute)

lemma deviation_dependency:
  assumes "\<forall>p \<in> set ps. c1 * x1 p + c2 * x2 p = c0" "ps \<noteq> []" "p \<in> set ps"
  shows "c1 * deviation x1 ps p + c2 * deviation x2 ps p = 0"
proof -
  have "(\<Sum>p\<leftarrow>ps. c1 * x1 p + c2 * x2 p) = (\<Sum>p\<leftarrow>ps. c0)"
    using assms(1) by (intro arg_cong [of _ _ sum_list] map_cong) auto
  then have "c1 * (\<Sum>p\<leftarrow>ps. x1 p) + c2 * (\<Sum>p\<leftarrow>ps. x2 p) = of_nat (length ps) * c0"
    by (simp add: list_sum_simps sum_list_triv)
  then have "c1 * mean x1 ps + c2 * mean x2 ps = c0"
    using assms(2) by (simp add: mean_def field_simps)
  then show ?thesis using assms(1,3) by (simp add: deviation_def algebra_simps)
qed

lemma gram_combination:
  "(\<Sum>p\<leftarrow>ps. (c1 * deviation x1 ps p + c2 * deviation x2 ps p) * deviation z ps p)
   = c1 * cross x1 z ps + c2 * cross x2 z ps"
  by (simp add: cross_def distrib_right list_sum_simps mult.assoc)

text \<open>Cauchy and Schwarz: the determinant is never negative, and zero exactly on dependent designs.\<close>

lemma gram_square:
  "(\<Sum>p\<leftarrow>ps. (cross x1 x1 ps * deviation x2 ps p - cross x1 x2 ps * deviation x1 ps p) *
             (cross x1 x1 ps * deviation x2 ps p - cross x1 x2 ps * deviation x1 ps p))
   = cross x1 x1 ps * gram_determinant x1 x2 ps"
proof -
  have "(u * d2 - v * d1) * (u * d2 - v * d1) = u * u * (d2 * d2) - 2 * u * v * (d1 * d2) + v * v * (d1 * d1)"
    for u v d1 d2 :: rat by (simp add: algebra_simps)
  then show ?thesis
    by (simp add: list_sum_simps cross_def [symmetric] gram_determinant_def algebra_simps)
qed

lemma gram_determinant_nonneg: "0 \<le> gram_determinant x1 x2 ps"
proof (cases "cross x1 x1 ps = 0")
  case True
  then have "\<forall>p \<in> set ps. deviation x1 ps p = 0"
    by (auto intro: cross_self_zeroD)
  then have "cross x1 x2 ps = 0" by (rule cross_zero)
  then show ?thesis using True by (simp add: gram_determinant_def)
next
  case False
  then have "0 < cross x1 x1 ps" using cross_self_nonneg [of x1 ps] by simp
  moreover have "0 \<le> cross x1 x1 ps * gram_determinant x1 x2 ps"
    unfolding gram_square [symmetric] by (intro sum_list_nonneg) auto
  ultimately show ?thesis by (simp add: zero_le_mult_iff)
qed

lemma gram_determinant_zero_iff:
  assumes "ps \<noteq> []"
  shows "gram_determinant x1 x2 ps = 0 \<longleftrightarrow> affinely_dependent x1 x2 ps"
proof
  assume zero: "gram_determinant x1 x2 ps = 0"
  show "affinely_dependent x1 x2 ps"
  proof (cases "cross x1 x1 ps = 0")
    case True
    then obtain c where "\<forall>p \<in> set ps. x1 p = c"
      using cross_self_zero_iff [OF assms] assms by (metis hd_in_set)
    then show ?thesis unfolding affinely_dependent_def
      by (intro exI [of _ 1] exI [of _ 0] exI [of _ c]) simp
  next
    case False
    let ?u = "cross x1 x1 ps" and ?v = "cross x1 x2 ps"
    have "?u * deviation x2 ps p - ?v * deviation x1 ps p = 0" if "p \<in> set ps" for p
      by (rule sum_squares_zero [OF _ that]) (simp add: gram_square zero)
    then have "\<forall>p \<in> set ps. - ?v * x1 p + ?u * x2 p = ?u * mean x2 ps - ?v * mean x1 ps"
      by (simp add: deviation_def algebra_simps)
    then show ?thesis using False unfolding affinely_dependent_def by blast
  qed
next
  assume "affinely_dependent x1 x2 ps"
  then obtain c1 c2 c0 where c: "c1 \<noteq> 0 \<or> c2 \<noteq> 0" "\<forall>p \<in> set ps. c1 * x1 p + c2 * x2 p = c0"
    by (auto simp: affinely_dependent_def)
  have "c1 * cross x1 z ps + c2 * cross x2 z ps = 0" for z
    unfolding gram_combination [symmetric] using deviation_dependency [OF c(2) assms]
    by (intro sum_list_zero) simp
  from this [of x1] this [of x2]
  have "c1 * cross x1 x1 ps + c2 * cross x1 x2 ps = 0" "c1 * cross x1 x2 ps + c2 * cross x2 x2 ps = 0"
    by (simp_all add: cross_commute [of x2 x1])
  then have "c1 * gram_determinant x1 x2 ps = 0" "c2 * gram_determinant x1 x2 ps = 0"
    unfolding gram_determinant_def by algebra+
  then show "gram_determinant x1 x2 ps = 0" using c(1) by auto
qed

lemma plane_orthogonal:
  assumes "ps \<noteq> []" "a = mean y ps - b1 * mean x1 ps - b2 * mean x2 ps"
    and n1: "cross x1 y ps = b1 * cross x1 x1 ps + b2 * cross x2 x1 ps"
    and n2: "cross x2 y ps = b1 * cross x1 x2 ps + b2 * cross x2 x2 ps"
  shows "(\<Sum>p\<leftarrow>ps. (y p - plane b1 b2 a x1 x2 p) * (plane b1 b2 a x1 x2 p - plane b1' b2' a' x1 x2 p)) = 0"
proof -
  let ?d1 = "deviation x1 ps" and ?d2 = "deviation x2 ps" and ?e = "deviation y ps"
  let ?k = "(a - a') + (b1 - b1') * mean x1 ps + (b2 - b2') * mean x2 ps"
  have "(y p - plane b1 b2 a x1 x2 p) * (plane b1 b2 a x1 x2 p - plane b1' b2' a' x1 x2 p)
      = (b1 - b1') * (?d1 p * ?e p - (b1 * ?d1 p + b2 * ?d2 p) * ?d1 p)
      + (b2 - b2') * (?d2 p * ?e p - (b1 * ?d1 p + b2 * ?d2 p) * ?d2 p)
      + ?k * (?e p - b1 * ?d1 p - b2 * ?d2 p)" for p
    unfolding plane_def deviation_def assms(2) by algebra
  then have "(\<Sum>p\<leftarrow>ps. (y p - plane b1 b2 a x1 x2 p) * (plane b1 b2 a x1 x2 p - plane b1' b2' a' x1 x2 p))
      = (b1 - b1') * (cross x1 y ps - (b1 * cross x1 x1 ps + b2 * cross x2 x1 ps))
      + (b2 - b2') * (cross x2 y ps - (b1 * cross x1 x2 ps + b2 * cross x2 x2 ps))
      + ?k * (\<Sum>p\<leftarrow>ps. ?e p - b1 * ?d1 p - b2 * ?d2 p)"
    by (simp add: sum_list_addf sum_list_const_mult sum_list_subtractf gram_combination
        cross_def [of _ y, symmetric])
  also have "(\<Sum>p\<leftarrow>ps. ?e p - b1 * ?d1 p - b2 * ?d2 p) = 0"
    using assms(1) by (simp add: list_sum_simps)
  finally show ?thesis using n1 n2 by simp
qed

lemma cramer:
  fixes d t1 t2 s11 s12 s22 :: rat
  assumes "d = s11 * s22 - s12 * s12" "d \<noteq> 0"
  shows "t1 = (t1 * s22 - t2 * s12) / d * s11 + (t2 * s11 - t1 * s12) / d * s12"
    and "t2 = (t1 * s22 - t2 * s12) / d * s12 + (t2 * s11 - t1 * s12) / d * s22"
proof -
  have "t1 * d = (t1 * s22 - t2 * s12) * s11 + (t2 * s11 - t1 * s12) * s12"
    "t2 * d = (t1 * s22 - t2 * s12) * s12 + (t2 * s11 - t1 * s12) * s22"
    unfolding assms(1) by algebra+
  then show "t1 = (t1 * s22 - t2 * s12) / d * s11 + (t2 * s11 - t1 * s12) / d * s12"
    "t2 = (t1 * s22 - t2 * s12) / d * s12 + (t2 * s11 - t1 * s12) / d * s22"
    using assms(2) by (simp_all add: add_divide_distrib [symmetric] nonzero_eq_divide_eq)
qed

theorem ols_plane_optimal:
  assumes "ps \<noteq> []" "gram_determinant x1 x2 ps \<noteq> 0"
  shows "is_least_squares_plane (ols_coefficient x1 x2 y ps) (ols_coefficient x2 x1 y ps)
     (ols_plane_intercept x1 x2 y ps) x1 x2 y ps"
  unfolding is_least_squares_plane_def
proof (intro allI conjI impI)
  fix b1' b2' a'
  let ?b1 = "ols_coefficient x1 x2 y ps" and ?b2 = "ols_coefficient x2 x1 y ps"
  let ?a = "ols_plane_intercept x1 x2 y ps"
  note sym = cross_commute [of x2 x1] gram_determinant_commute [of x2 x1]
  have orth: "(\<Sum>p\<leftarrow>ps. (y p - plane ?b1 ?b2 ?a x1 x2 p) *
      (plane ?b1 ?b2 ?a x1 x2 p - plane b1' b2' a' x1 x2 p)) = 0"
    using cramer [OF gram_determinant_def assms(2)] assms(1)
    by (intro plane_orthogonal) (simp_all add: ols_plane_intercept_def ols_coefficient_def sym)
  show "sse (plane ?b1 ?b2 ?a x1 x2) y ps \<le> sse (plane b1' b2' a' x1 x2) y ps"
    by (rule orthogonal_minimal(1) [OF orth])
  assume eq: "sse (plane b1' b2' a' x1 x2) y ps = sse (plane ?b1 ?b2 ?a x1 x2) y ps"
  have same: "?b1 * x1 p + ?b2 * x2 p + ?a = b1' * x1 p + b2' * x2 p + a'" if "p \<in> set ps" for p
    using orthogonal_minimal(2) [OF orth eq that] by (simp add: plane_def)
  then have "\<forall>p \<in> set ps. (?b1 - b1') * x1 p + (?b2 - b2') * x2 p = a' - ?a"
    by (simp add: algebra_simps)
  then have "\<not> (?b1 - b1' \<noteq> 0 \<or> ?b2 - b2' \<noteq> 0)"
    using assms gram_determinant_zero_iff affinely_dependent_def by blast
  then show "b1' = ?b1" "b2' = ?b2" by simp_all
  then show "a' = ?a" using same [of "hd ps"] assms(1) by simp
qed

end
