(* ===== verification/Decimal_Stats.thy ===== *)
theory Decimal_Stats
  imports PyDecimal Cohort Least_Squares
begin

text \<open>
  The Decimal computations the price modules share: sums and means, the accumulated absolute error
  and its mean, finiteness guards, and the translation of a decimal signal into an application
  error. The lemmas come in three groups: a run that succeeds with \<open>Inexact\<close> trapped succeeds alike
  in the plain context, its value is the exact rational one, and in the default context every result
  is finite.
\<close>

section \<open>Signals as exceptions\<close>

text \<open>An unguarded computation lets the signal escape as a \<open>DecimalException\<close>.\<close>

definition raise_signal :: "dec_signal + 'a \<Rightarrow> 'a result" where
  "raise_signal r = map_sum DecimalException id r"

text \<open>\<open>try: ... except DecimalException as error: raise InvalidRequestError(msg) from error\<close>\<close>

definition guard_decimal :: "string \<Rightarrow> dec_signal + 'a \<Rightarrow> 'a result" where
  "guard_decimal msg r = (case r of Inl _ \<Rightarrow> Inl (InvalidRequestError msg) | Inr x \<Rightarrow> Inr x)"

definition require_finite :: "string \<Rightarrow> dec \<Rightarrow> unit result" where
  "require_finite msg d = raise_if (\<not> dec_is_finite d) (InvalidRequestError msg)"

definition require_all_finite :: "string \<Rightarrow> dec list \<Rightarrow> unit result" where
  "require_all_finite msg ds = raise_if (list_ex (\<lambda>d. \<not> dec_is_finite d) ds) (InvalidRequestError msg)"

lemma raise_signal_Inr_iff [result_simps]: "raise_signal r = Inr x \<longleftrightarrow> r = Inr x"
  by (cases r) (simp_all add: raise_signal_def)

lemma raise_signal_Inl_iff: "raise_signal r = Inl e \<longleftrightarrow> (\<exists>s. r = Inl s \<and> e = DecimalException s)"
  by (cases r) (auto simp: raise_signal_def)

lemma guard_decimal_Inr_iff [result_simps]: "guard_decimal msg r = Inr x \<longleftrightarrow> r = Inr x"
  by (cases r) (simp_all add: guard_decimal_def)

lemma guard_decimal_Inl_iff:
  "guard_decimal msg r = Inl e \<longleftrightarrow> (\<exists>s. r = Inl s) \<and> e = InvalidRequestError msg"
  by (cases r) (auto simp: guard_decimal_def)

lemma require_finite_Inr_iff [result_simps]: "require_finite msg d = Inr u \<longleftrightarrow> dec_is_finite d"
  by (simp add: require_finite_def result_simps)

lemma require_all_finite_Inr_iff [result_simps]:
  "require_all_finite msg ds = Inr u \<longleftrightarrow> (\<forall>d \<in> set ds. dec_is_finite d)"
  by (auto simp: require_all_finite_def result_simps list_ex_iff)

lemma require_all_finite_Inl_iff:
  "require_all_finite msg ds = Inl e \<longleftrightarrow> (\<exists>d \<in> set ds. \<not> dec_is_finite d) \<and> e = InvalidRequestError msg"
  by (auto simp: require_all_finite_def raise_if_Inl_iff list_ex_iff)

section \<open>Sums, means, absolute errors\<close>

definition dec_sum :: "dec_context \<Rightarrow> dec list \<Rightarrow> dec_signal + dec" where
  "dec_sum ctx values = fold_result (dec_add ctx) (dec_of_int 0) values"

definition dec_mean :: "dec_context \<Rightarrow> dec list \<Rightarrow> dec \<Rightarrow> dec_signal + dec" where
  "dec_mean ctx values n = attempt (dec_sum ctx values) (\<lambda>s. dec_div ctx s n)"

definition dec_abs_error :: "dec_context \<Rightarrow> dec \<Rightarrow> dec \<Rightarrow> dec_signal + dec" where
  "dec_abs_error ctx predicted actual = attempt (dec_sub ctx predicted actual) (dec_abs ctx)"

text \<open>
  \<open>s = abs(p[0] - a[0]); for ... in rows[1:]: s += abs(p - a)\<close>, over the pairs of predicted and
  actual amounts. The first access raises on an empty cohort, which every caller excludes.
\<close>

definition add_abs_error :: "dec_context \<Rightarrow> dec \<Rightarrow> dec \<times> dec \<Rightarrow> dec_signal + dec" where
  "add_abs_error ctx s pa = attempt (dec_abs_error ctx (fst pa) (snd pa)) (dec_add ctx s)"

fun total_abs_error :: "dec_context \<Rightarrow> (dec \<times> dec) list \<Rightarrow> dec_signal + dec" where
  "total_abs_error ctx [] = Inr (dec_of_int 0)"
| "total_abs_error ctx (pa # rest) =
     attempt (dec_abs_error ctx (fst pa) (snd pa)) (\<lambda>s. fold_result (add_abs_error ctx) s rest)"

definition mean_abs_error :: "dec_context \<Rightarrow> (dec \<times> dec) list \<Rightarrow> dec_signal + dec" where
  "mean_abs_error ctx pairs =
     attempt (total_abs_error ctx pairs) (\<lambda>s. dec_div ctx s (dec_of_int (int (length pairs))))"

section \<open>Runs without rounding\<close>

lemma dec_fix_untrap: "dec_fix (trap_inexact ctx) s c e = Inr z \<Longrightarrow> dec_fix ctx s c e = Inr z"
  by (auto simp: dec_fix_def Let_def trap_inexact_def context_format_def signal_def check_def
      split: option.splits if_splits)

lemma signal_untrap: "signal (trap_inexact ctx) sig d = Inr r \<Longrightarrow> signal ctx sig d = Inr r"
  by (drule signal_trap_inexact) simp

lemma dec_add_untrap: "dec_add (trap_inexact ctx) x y = Inr z \<Longrightarrow> dec_add ctx x y = Inr z"
  by (cases x; cases y) (auto simp: Let_def dest: dec_fix_untrap signal_untrap split: if_splits)

lemma dec_sub_untrap: "dec_sub (trap_inexact ctx) x y = Inr z \<Longrightarrow> dec_sub ctx x y = Inr z"
  unfolding dec_sub_def by (rule dec_add_untrap)

lemma dec_mul_untrap: "dec_mul (trap_inexact ctx) x y = Inr z \<Longrightarrow> dec_mul ctx x y = Inr z"
  by (cases x; cases y) (auto dest: dec_fix_untrap signal_untrap split: if_splits)

lemma divide_finite_trap_inexact [simp]:
  "divide_finite (trap_inexact ctx) c e d f = divide_finite ctx c e d f"
  by (simp add: divide_finite_def trap_inexact_def)

lemma dec_div_untrap: "dec_div (trap_inexact ctx) x y = Inr z \<Longrightarrow> dec_div ctx x y = Inr z"
  by (cases x; cases y)
     (auto simp: dec_div.simps dest: dec_fix_untrap signal_untrap split: if_splits prod.splits)

lemma dec_abs_untrap: "dec_abs (trap_inexact ctx) x = Inr z \<Longrightarrow> dec_abs ctx x = Inr z"
  by (cases x) (auto dest: dec_fix_untrap)

lemmas dec_untrap = dec_add_untrap dec_sub_untrap dec_mul_untrap dec_div_untrap dec_abs_untrap

lemma fold_result_mono:
  assumes "\<And>a x z. f a x = Inr z \<Longrightarrow> g a x = Inr z" "fold_result f a xs = Inr z"
  shows "fold_result g a xs = Inr z"
  using assms(2) by (induction xs arbitrary: a) (auto simp: attempt_Inr_iff dest: assms(1))

lemma dec_sum_untrap: "dec_sum (trap_inexact ctx) xs = Inr z \<Longrightarrow> dec_sum ctx xs = Inr z"
  unfolding dec_sum_def by (erule fold_result_mono [rotated]) (rule dec_add_untrap)

lemma dec_mean_untrap: "dec_mean (trap_inexact ctx) xs n = Inr z \<Longrightarrow> dec_mean ctx xs n = Inr z"
  by (auto simp: dec_mean_def result_simps dest: dec_sum_untrap dec_untrap)

lemma dec_abs_error_untrap:
  "dec_abs_error (trap_inexact ctx) p a = Inr z \<Longrightarrow> dec_abs_error ctx p a = Inr z"
  by (auto simp: dec_abs_error_def result_simps dest: dec_untrap)

lemma add_abs_error_untrap:
  "add_abs_error (trap_inexact ctx) s pa = Inr z \<Longrightarrow> add_abs_error ctx s pa = Inr z"
  by (auto simp: add_abs_error_def result_simps dest: dec_abs_error_untrap dec_untrap)

lemma total_abs_error_untrap:
  "total_abs_error (trap_inexact ctx) ps = Inr z \<Longrightarrow> total_abs_error ctx ps = Inr z"
  by (cases ps)
     (auto simp: result_simps dest: dec_abs_error_untrap
       intro: fold_result_mono [OF add_abs_error_untrap])

lemma mean_abs_error_untrap:
  "mean_abs_error (trap_inexact ctx) ps = Inr z \<Longrightarrow> mean_abs_error ctx ps = Inr z"
  by (auto simp: mean_abs_error_def result_simps dest: total_abs_error_untrap dec_untrap)

section \<open>Exact values\<close>

lemma dec_of_int_finite [simp]: "dec_is_finite (dec_of_int n)"
  by (simp add: dec_of_int_def)

lemma dec_val_of_int [simp]: "dec_val (dec_of_int n) = of_int n"
  by (simp add: dec_of_int_def magnitude_def)

lemma dec_sum_exact:
  assumes "\<forall>x \<in> set xs. dec_is_finite x" "dec_sum (trap_inexact default_context) xs = Inr z"
  shows "dec_is_finite z \<and> dec_val z = (\<Sum>x\<leftarrow>xs. dec_val x)"
  using exact_decimal.sum_value [OF _ assms(1), of "dec_of_int 0" z] assms(2)
  by (simp add: dec_sum_def)

lemma dec_mean_exact:
  assumes "\<forall>x \<in> set xs. dec_is_finite x" "dec_is_finite n" "dec_val n \<noteq> 0"
    and "dec_mean (trap_inexact default_context) xs n = Inr z"
  shows "dec_is_finite z \<and> dec_val z = (\<Sum>x\<leftarrow>xs. dec_val x) / dec_val n"
proof -
  obtain s where s: "dec_sum (trap_inexact default_context) xs = Inr s"
      "dec_div (trap_inexact default_context) s n = Inr z"
    using assms(4) by (auto simp: dec_mean_def result_simps)
  show ?thesis using dec_sum_exact [OF assms(1) s(1)] exact_decimal.divide [OF _ assms(2,3) s(2)]
    by simp
qed

lemma dec_abs_error_exact:
  assumes "dec_is_finite p" "dec_is_finite a"
    and "dec_abs_error (trap_inexact default_context) p a = Inr z"
  shows "dec_is_finite z \<and> dec_val z = \<bar>dec_val p - dec_val a\<bar>"
proof -
  obtain d where d: "dec_sub (trap_inexact default_context) p a = Inr d"
      "dec_abs (trap_inexact default_context) d = Inr z"
    using assms(3) by (auto simp: dec_abs_error_def result_simps)
  show ?thesis using exact_decimal.sub [OF assms(1,2) d(1)] exact_decimal.absolute [OF _ d(2)]
    by simp
qed

definition pair_finite :: "dec \<times> dec \<Rightarrow> bool" where
  "pair_finite pa \<longleftrightarrow> dec_is_finite (fst pa) \<and> dec_is_finite (snd pa)"

definition abs_deviation :: "dec \<times> dec \<Rightarrow> rat" where
  "abs_deviation pa = \<bar>dec_val (fst pa) - dec_val (snd pa)\<bar>"

lemma add_abs_error_exact:
  assumes "dec_is_finite s" "pair_finite pa"
    and "add_abs_error (trap_inexact default_context) s pa = Inr z"
  shows "dec_is_finite z \<and> dec_val z = dec_val s + abs_deviation pa"
proof -
  obtain d where d: "dec_abs_error (trap_inexact default_context) (fst pa) (snd pa) = Inr d"
      "dec_add (trap_inexact default_context) s d = Inr z"
    using assms(3) by (auto simp: add_abs_error_def result_simps)
  have "dec_is_finite d \<and> dec_val d = abs_deviation pa"
    using dec_abs_error_exact [OF _ _ d(1)] assms(2) by (simp add: pair_finite_def abs_deviation_def)
  then show ?thesis using exact_decimal.add [OF assms(1) _ d(2)] by simp
qed

lemma total_abs_error_exact:
  assumes "\<forall>pa \<in> set ps. pair_finite pa"
    and "total_abs_error (trap_inexact default_context) ps = Inr z"
  shows "dec_is_finite z \<and> dec_val z = (\<Sum>pa\<leftarrow>ps. abs_deviation pa)"
proof (cases ps)
  case Nil
  then show ?thesis using assms by auto
next
  case (Cons pa rest)
  then obtain s where s: "dec_abs_error (trap_inexact default_context) (fst pa) (snd pa) = Inr s"
      "fold_result (add_abs_error (trap_inexact default_context)) s rest = Inr z"
    using assms(2) by (auto simp: result_simps)
  then show ?thesis
    using assms(1) Cons dec_abs_error_exact [OF _ _ s(1)]
      exact_decimal.accumulate_value [OF add_abs_error_exact _ _ s(2)]
    by (auto simp: pair_finite_def abs_deviation_def)
qed

lemma mean_abs_error_exact:
  assumes "\<forall>pa \<in> set ps. pair_finite pa" "ps \<noteq> []"
    and "mean_abs_error (trap_inexact default_context) ps = Inr z"
  shows "dec_is_finite z \<and> dec_val z = (\<Sum>pa\<leftarrow>ps. abs_deviation pa) / of_nat (length ps)"
  using assms total_abs_error_exact [of ps]
    exact_decimal.divide [of _ "dec_of_int (int (length ps))"]
  by (auto simp: mean_abs_error_def result_simps)

section \<open>The default context: finite results, non-negative errors\<close>

definition nonneg_dec :: "dec \<Rightarrow> bool" where
  "nonneg_dec d \<longleftrightarrow> (\<exists>c e. d = DFin False c e)"

lemma nonneg_dec_val: "nonneg_dec d \<Longrightarrow> dec_is_finite d \<and> 0 \<le> dec_val d"
  by (auto simp: nonneg_dec_def)

lemma dec_fix_default_sign: "dec_fix default_context s c e = Inr z \<Longrightarrow> \<exists>c' e'. z = DFin s c' e'"
  by (auto simp: dec_fix_def Let_def default_context_def signal_def check_def
      split: option.splits if_splits)

lemma signal_default [simp]:
  "signal default_context sig d = (if sig = Inexact then Inr d else Inl sig)"
  by (cases sig) (simp_all add: signal_def default_context_def)

lemma dec_fix_default_finite: "dec_fix default_context s c e = Inr z \<Longrightarrow> dec_is_finite z"
  by (auto dest: dec_fix_default_sign)

lemma dec_default_finite:
  "dec_is_finite x \<Longrightarrow> dec_is_finite y \<Longrightarrow> dec_add default_context x y = Inr z \<Longrightarrow> dec_is_finite z"
  "dec_is_finite x \<Longrightarrow> dec_is_finite y \<Longrightarrow> dec_sub default_context x y = Inr z \<Longrightarrow> dec_is_finite z"
  "dec_is_finite x \<Longrightarrow> dec_is_finite y \<Longrightarrow> dec_mul default_context x y = Inr z \<Longrightarrow> dec_is_finite z"
  "dec_is_finite x \<Longrightarrow> dec_is_finite y \<Longrightarrow> dec_div default_context x y = Inr z \<Longrightarrow> dec_is_finite z"
  "dec_is_finite x \<Longrightarrow> dec_abs default_context x = Inr z \<Longrightarrow> dec_is_finite z"
  unfolding dec_sub_def
  by (cases x; cases y;
      auto simp: Let_def dec_div.simps dest: dec_fix_default_finite split: if_splits prod.splits)+

lemma dec_abs_default_nonneg: "dec_is_finite x \<Longrightarrow> dec_abs default_context x = Inr z \<Longrightarrow> nonneg_dec z"
  by (auto simp: dec_is_finite_iff nonneg_dec_def dest: dec_fix_default_sign)

lemma dec_add_default_nonneg:
  "nonneg_dec x \<Longrightarrow> nonneg_dec y \<Longrightarrow> dec_add default_context x y = Inr z \<Longrightarrow> nonneg_dec z"
proof -
  assume nonneg: "nonneg_dec x" "nonneg_dec y" and run: "dec_add default_context x y = Inr z"
  obtain c e d f where xy: "x = DFin False c e" "y = DFin False d f"
    using nonneg by (auto simp: nonneg_dec_def)
  have "\<not> int (c * 10 ^ nat (e - min e f)) + int (d * 10 ^ nat (f - min e f)) < 0"
    by (metis of_nat_add not_less of_nat_0_le_iff)
  then have "\<exists>n g. dec_fix default_context False n g = Inr z"
    using run by (auto simp: xy Let_def signed_def split: if_splits)
  then show "nonneg_dec z" by (auto simp: nonneg_dec_def dest: dec_fix_default_sign)
qed

lemma dec_div_default_nonneg:
  "nonneg_dec x \<Longrightarrow> nonneg_dec y \<Longrightarrow> dec_div default_context x y = Inr z \<Longrightarrow> nonneg_dec z"
  by (auto simp: nonneg_dec_def dec_div.simps dest: dec_fix_default_sign split: if_splits prod.splits)

lemma dec_abs_error_default_nonneg:
  assumes "pair_finite pa" "dec_abs_error default_context (fst pa) (snd pa) = Inr z"
  shows "nonneg_dec z"
  using assms by (auto simp: dec_abs_error_def pair_finite_def result_simps
      dest: dec_default_finite(2) dec_abs_default_nonneg)

lemma nonneg_dec_0 [simp]: "nonneg_dec (dec_of_int 0)"
  by (simp add: nonneg_dec_def dec_of_int_def)

lemma fold_add_abs_error_default_nonneg:
  "nonneg_dec s \<Longrightarrow> \<forall>pa \<in> set ps. pair_finite pa \<Longrightarrow>
   fold_result (add_abs_error default_context) s ps = Inr z \<Longrightarrow> nonneg_dec z"
  by (induction ps arbitrary: s)
     (auto simp: result_simps add_abs_error_def
       dest: dec_abs_error_default_nonneg dec_add_default_nonneg)

lemma total_abs_error_default_nonneg:
  assumes "\<forall>pa \<in> set ps. pair_finite pa" "total_abs_error default_context ps = Inr z"
  shows "nonneg_dec z"
  using assms
  by (cases ps)
     (auto simp: result_simps simp del: dec_of_int_finite
       intro: fold_add_abs_error_default_nonneg dec_abs_error_default_nonneg [of "(_, _)"])

lemma nonneg_dec_of_nat [simp]: "nonneg_dec (dec_of_int (int n))"
  by (simp add: nonneg_dec_def dec_of_int_def)

lemma mean_abs_error_default_nonneg:
  assumes "\<forall>pa \<in> set ps. pair_finite pa" "mean_abs_error default_context ps = Inr z"
  shows "nonneg_dec z"
proof -
  obtain s where s: "total_abs_error default_context ps = Inr s"
      "dec_div default_context s (dec_of_int (int (length ps))) = Inr z"
    using assms(2) by (auto simp: mean_abs_error_def result_simps)
  show ?thesis
    using dec_div_default_nonneg [OF total_abs_error_default_nonneg [OF assms(1) s(1)] _ s(2)] by simp
qed

section \<open>Evaluation on small numbers\<close>

text \<open>
  A coefficient of at most 28 digits within the exponent range is returned as it is. With these
  rules in place of the definition of \<open>dec_fix\<close>, the simplifier runs a cohort in seconds.
\<close>

lemma Emax_trap_inexact [simp]: "Emax (trap_inexact ctx) = Emax ctx"
  by (simp add: trap_inexact_def)

lemma dec_fix_small:
  assumes "c < 10 ^ 28" "- 999999 \<le> e" "e \<le> 999972"
  shows "dec_fix default_context s c e = Inr (DFin s c e)"
    and "dec_fix (trap_inexact default_context) s c e = Inr (DFin s c e)"
proof -
  have d: "digits_in 10 c \<le> 28" using assms(1) digits_in_le_iff [of 10 28 c] by simp
  then have u: "\<not> e < unit_exponent (context_format default_context) c e"
    using assms(2,3) by (simp add: unit_exponent_def context_format_def default_context_def)
  have "round_magnitude (context_format default_context) c e = Some (c, e)"
    using assms(3) d u
    by (simp add: round_magnitude_def Let_def) (simp add: context_format_def default_context_def)
  moreover have "\<not> rounds_inexactly (context_format default_context) c e"
    by (simp add: rounds_inexactly_def u)
  moreover have "etiny (context_format default_context) \<le> e" "Emax default_context = 999999"
    using assms(2) by (simp_all add: context_format_def default_context_def)
  ultimately show "dec_fix default_context s c e = Inr (DFin s c e)"
      "dec_fix (trap_inexact default_context) s c e = Inr (DFin s c e)"
    using assms(3) by (simp_all add: dec_fix_def Let_def)
qed

text \<open>One digit too many is rounded to the nearest, ties to even.\<close>

lemma dec_fix_29_digits:
  assumes "10 ^ 28 \<le> c" "c < 10 ^ 29" "round_half_even c 10 < 10 ^ 28"
    and "- 999999 \<le> e" "e \<le> 999971"
  shows "dec_fix default_context s c e = Inr (DFin s (round_half_even c 10) (e + 1))"
proof -
  let ?F = "context_format default_context"
  have F: "precision ?F = 28" "etiny ?F = - 1000026" "etop ?F = 999972"
    by (simp_all add: context_format_def default_context_def)
  have d: "digits_in 10 c = 29" by (rule digits_in_eq) (use assms(1,2) in simp_all)
  have u: "unit_exponent ?F c e = e + 1" using assms(4) by (simp add: unit_exponent_def F d)
  then have w: "dropped_weight ?F c e = 10" by (simp add: dropped_weight_def)
  have "round_magnitude ?F c e = Some (round_half_even c 10, e + 1)"
    using assms(3,5) by (simp add: round_magnitude_def Let_def u w F d)
  then show ?thesis using assms(1) by (auto simp: dec_fix_def Let_def)
qed

lemma strip_zeros_scaled: "strip_zeros (k * 10 ^ n) (i - int n) i = (k, i)"
proof (induction n)
  case 0
  then show ?case by (simp add: strip_zeros_stop)
next
  case (Suc n)
  have "strip_zeros (k * 10 ^ Suc n) (i - int (Suc n)) i
      = strip_zeros (k * 10 ^ Suc n div 10) (i - int (Suc n) + 1) i"
    by (rule strip_zeros_step) auto
  then show ?case using Suc by (simp add: algebra_simps)
qed

text \<open>A division that comes out even in integers needs no long quotient.\<close>

lemma dec_div_whole:
  assumes "c < 10 ^ 28" "0 < d" "d dvd c" "0 < c" "- 999999 \<le> e - f" "e - f \<le> 999972"
  shows "dec_div default_context (DFin s c e) (DFin t d f) = Inr (DFin (s \<noteq> t) (c div d) (e - f))"
    and "dec_div (trap_inexact default_context) (DFin s c e) (DFin t d f)
           = Inr (DFin (s \<noteq> t) (c div d) (e - f))"
proof -
  obtain k where k: "c = d * k" using assms(3) by auto
  define n where "n = nat (int (digits_in 10 d) - int (digits_in 10 c) + 29)"
  have "digits_in 10 c \<le> 28" using assms(1) digits_in_le_iff [of 10 28 c] by simp
  then have n: "int (digits_in 10 d) - int (digits_in 10 c) + int (prec default_context) + 1 = int n"
    by (simp add: n_def default_context_def)
  have "divide_finite default_context c e d f = strip_zeros (k * 10 ^ n) (e - f - int n) (e - f)"
    unfolding divide_finite_def Let_def n using assms(2) by (simp add: k mult.assoc)
  then have q: "divide_finite default_context c e d f = (c div d, e - f)"
    using strip_zeros_scaled assms(2) by (simp add: k)
  have small: "c div d < 10 ^ 28" using assms(1) by (meson div_le_dividend le_less_trans)
  show "dec_div default_context (DFin s c e) (DFin t d f) = Inr (DFin (s \<noteq> t) (c div d) (e - f))"
    "dec_div (trap_inexact default_context) (DFin s c e) (DFin t d f)
       = Inr (DFin (s \<noteq> t) (c div d) (e - f))"
    using assms q dec_fix_small [OF small] by (simp_all add: dec_div.simps)
qed

lemma dec_div_zero:
  "0 < d \<Longrightarrow> dec_div ctx (DFin s 0 e) (DFin t d f) = dec_fix ctx (s \<noteq> t) 0 (e - f)"
  by (simp add: dec_div.simps)

lemma prec_default: "prec default_context = 28" "prec (trap_inexact ctx) = prec ctx"
  by (simp_all add: default_context_def trap_inexact_def)

lemmas decimal_fast =
  dec_div_whole dec_div_zero dec_fix_small prec_default digits_in_small digits_in_step strip_zeros_stop strip_zeros_step
  Let_def divide_finite_def signed_def aligned_def dec_sub_def dec_of_int_def

section \<open>Accumulators and paired observations\<close>

lemma fold_result_sum:
  fixes \<pi> :: "'a \<Rightarrow> rat"
  assumes step: "\<And>a x z. Q a \<Longrightarrow> P x \<Longrightarrow> f a x = Inr z \<Longrightarrow> Q z \<and> \<pi> z = \<pi> a + g x"
    and "Q a" "\<forall>x \<in> set xs. P x" "fold_result f a xs = Inr z"
  shows "Q z \<and> \<pi> z = \<pi> a + (\<Sum>x\<leftarrow>xs. g x)"
  using assms(2-)
proof (induction xs arbitrary: a)
  case Nil
  then show ?case by simp
next
  case (Cons x xs)
  then obtain b where b: "f a x = Inr b" "fold_result f b xs = Inr z" by (auto simp: attempt_Inr_iff)
  then show ?case using step [of a x b] Cons.prems Cons.IH [OF _ _ b(2)] by (simp add: add.assoc)
qed

lemma fold_result_map: "fold_result f a (map g xs) = fold_result (\<lambda>a x. f a (g x)) a xs"
proof (induction xs arbitrary: a)
  case (Cons x xs)
  then show ?case by (cases "f a (g x)") simp_all
qed simp

lemma zip_maps: "zip (map f xs) (map g xs) = map (\<lambda>x. (f x, g x)) xs"
  by (induction xs) auto

lemma zip3_maps: "zip (map f xs) (zip (map g xs) (map h xs)) = map (\<lambda>x. (f x, g x, h x)) xs"
  by (induction xs) auto

text \<open>The mean of a column of rows is the rational mean of the column's values.\<close>

lemma dec_mean_column:
  assumes "\<forall>r \<in> set rows. dec_is_finite (f r)" "rows \<noteq> []"
    and "dec_mean (trap_inexact default_context) (map f rows) (dec_of_int (int (length rows))) = Inr z"
  shows "dec_is_finite z \<and> dec_val z = mean (dec_val \<circ> f) rows"
  using dec_mean_exact [OF _ _ _ assms(3)] assms(1,2) by (auto simp: mean_def comp_def)

text \<open>The exact forms of the elementary steps, to be chained by \<open>auto\<close> in a fitting loop.\<close>

lemma exact_steps:
  "dec_sub (trap_inexact default_context) x y = Inr z \<Longrightarrow> dec_is_finite x \<Longrightarrow> dec_is_finite y \<Longrightarrow>
   dec_is_finite z \<and> dec_val z = dec_val x - dec_val y"
  "dec_add (trap_inexact default_context) x y = Inr z \<Longrightarrow> dec_is_finite x \<Longrightarrow> dec_is_finite y \<Longrightarrow>
   dec_is_finite z \<and> dec_val z = dec_val x + dec_val y"
  "dec_mul (trap_inexact default_context) x y = Inr z \<Longrightarrow> dec_is_finite x \<Longrightarrow> dec_is_finite y \<Longrightarrow>
   dec_is_finite z \<and> dec_val z = dec_val x * dec_val y"
  "dec_div (trap_inexact default_context) x y = Inr z \<Longrightarrow> dec_is_finite x \<Longrightarrow> dec_is_finite y \<Longrightarrow>
   dec_val y \<noteq> 0 \<Longrightarrow> dec_is_finite z \<and> dec_val z = dec_val x / dec_val y"
  using exact_decimal.sub exact_decimal.add exact_decimal.mul exact_decimal.divide by blast+

end
