(* ===== verification/DAM_Persistence.thy ===== *)
theory DAM_Persistence
  imports Forecast_Ports Decimal_Stats
begin

text \<open>
  The previous-day persistence baseline of ml/dam_price: the live model that copies the price at
  exactly \<open>T - 24h\<close>, the builder of backtest cases, and the mean absolute error of a cohort of
  cases. Decimal arithmetic runs in the ambient context, a parameter here.
\<close>

section \<open>Live model (previous_day_persistence.py)\<close>

definition persistence_missing_lag_message :: string where
  "persistence_missing_lag_message =
     ''Previous-day persistence requires exactly one history observation at the 24-hour lag.''"

definition persistence_duplicate_lag_message :: string where
  "persistence_duplicate_lag_message =
     ''Previous-day persistence requires a unique 24-hour lag observation.''"

definition dam_lag :: int where "dam_lag = timedelta_hours 24"

definition dam_persistence_point_for_target ::
    "dam_price_request \<Rightarrow> utc \<Rightarrow> price_forecast_point result" where
  "dam_persistence_point_for_target request target =
     attempt (datetime_minus target dam_lag) (\<lambda>reference.
     attempt (unique_lag_observation mpr_timestamp persistence_missing_lag_message
                persistence_duplicate_lag_message (dpr_history request) reference) (\<lambda>matching.
       validate_price_forecast_point
         \<lparr>pfp_forecast_run_id = dpr_forecast_run_id request, pfp_market_id = dpr_market_id request,
          pfp_generated_at = dpr_generated_at request, pfp_target_timestamp = target,
          pfp_price = mpr_price matching\<rparr>))"

definition dam_persistence_forecast :: "dam_price_request \<Rightarrow> price_forecast_point list result" where
  "dam_persistence_forecast request =
     map_result (dam_persistence_point_for_target request) (dpr_target_timestamps request)"

section \<open>Backtest cases (previous_day_persistence_backtest.py)\<close>

record dam_backtest_case =
  dbc_market_id :: string
  dbc_target_timestamp :: utc
  dbc_predicted_price :: energy_price
  dbc_actual_price :: energy_price

definition dam_backtest_mixed_market_message :: string where
  "dam_backtest_mixed_market_message =
     ''Previous-day persistence backtest requires history from exactly one market.''"

definition dam_backtest_mixed_currency_message :: string where
  "dam_backtest_mixed_currency_message =
     ''Previous-day persistence backtest requires history in exactly one currency.''"

definition dam_backtest_duplicate_timestamp_message :: string where
  "dam_backtest_duplicate_timestamp_message =
     ''Previous-day persistence backtest requires unique historical timestamps.''"

abbreviation record_currency :: "market_price_record \<Rightarrow> string" where
  "record_currency r \<equiv> price_currency (mpr_price r)"

definition dam_backtest_case_for_target ::
    "market_price_record \<Rightarrow> market_price_record list \<Rightarrow> dam_backtest_case" where
  "dam_backtest_case_for_target actual lagged =
     \<lparr>dbc_market_id = mpr_market_id actual, dbc_target_timestamp = mpr_timestamp actual,
      dbc_predicted_price = mpr_price (lagged ! 0), dbc_actual_price = mpr_price actual\<rparr>"

definition build_dam_backtest_cases :: "market_price_record list \<Rightarrow> dam_backtest_case list result" where
  "build_dam_backtest_cases history =
     (if history = [] then Inr []
      else check (require_single mpr_market_id dam_backtest_mixed_market_message history)
        (check (require_single record_currency dam_backtest_mixed_currency_message history)
          (attempt (unique_timestamp_index mpr_timestamp dam_backtest_duplicate_timestamp_message history)
            (lag_rows dam_backtest_case_for_target [dam_lag]))))"

text \<open>The histories on which every price builder succeeds.\<close>

definition good_price_history :: "int list \<Rightarrow> market_price_record list \<Rightarrow> bool" where
  "good_price_history lags h \<longleftrightarrow>
     one_valued mpr_market_id h \<and> one_valued record_currency h \<and>
     distinct (map mpr_timestamp h) \<and> lags_in_range mpr_timestamp lags h"

lemma good_price_history_filter: "good_price_history lags h \<Longrightarrow> good_price_history lags (filter P h)"
  by (auto simp: good_price_history_def lags_in_range_def distinct_map_filter
      intro: one_valued_subset)

lemma good_price_history_mset:
  assumes "good_price_history lags h" "mset h' = mset h"
  shows "good_price_history lags h'"
proof -
  have "set h' = set h" using assms(2) by (metis mset_eq_setD)
  moreover have "mset (map mpr_timestamp h') = mset (map mpr_timestamp h)"
    using assms(2) by simp
  then have "distinct (map mpr_timestamp h') = distinct (map mpr_timestamp h)"
    by (metis mset_eq_imp_distinct_iff)
  ultimately show ?thesis
    using assms(1) by (auto simp: good_price_history_def lags_in_range_def intro: one_valued_subset)
qed

lemma build_dam_backtest_cases_spec:
  "good_price_history [dam_lag] h \<Longrightarrow>
   build_dam_backtest_cases h
     = Inr (lag_rows_spec mpr_timestamp [dam_lag] dam_backtest_case_for_target h)"
  using unique_timestamp_index_ok [of mpr_timestamp dam_backtest_duplicate_timestamp_message h
      "map (\<lambda>r. (mpr_timestamp r, r)) h"]
  by (simp add: build_dam_backtest_cases_def good_price_history_def lag_rows_correct
      require_single_ok [of _ _ _ "()", THEN iffD2])

interpretation dam_backtest: lag_builder build_dam_backtest_cases "good_price_history [dam_lag]"
  mpr_timestamp dbc_target_timestamp "[dam_lag]" dam_backtest_case_for_target
proof (unfold_locales, goal_cases)
  case (1 h)
  then show ?case by (rule build_dam_backtest_cases_spec)
next
  case (2 h)
  then show ?case by (simp add: good_price_history_def)
next
  case (3 h P)
  then show ?case by (rule good_price_history_filter)
next
  case (4 h h')
  then show ?case by (rule good_price_history_mset)
next
  case (5 r rs)
  then show ?case by (simp add: dam_backtest_case_for_target_def)
next
  case (6 l)
  then show ?case by (simp add: dam_lag_def)
qed

section \<open>Mean absolute error (previous_day_persistence_evaluation.py)\<close>

record dam_persistence_mae_result =
  dpm_case_count :: nat
  dpm_currency :: string
  dpm_mae_amount_per_mwh :: dec

definition dam_persistence_mae_empty_cases_message :: string where
  "dam_persistence_mae_empty_cases_message =
     ''Previous-day persistence MAE evaluation requires at least one backtest case.''"

definition dam_persistence_mae_mixed_market_message :: string where
  "dam_persistence_mae_mixed_market_message =
     ''Previous-day persistence MAE evaluation requires cases from exactly one market.''"

definition dam_persistence_mae_mixed_currency_message :: string where
  "dam_persistence_mae_mixed_currency_message =
     ''Previous-day persistence MAE evaluation requires cases in exactly one currency.''"

definition dam_persistence_mae_case_currency_mismatch_message :: string where
  "dam_persistence_mae_case_currency_mismatch_message =
     ''Previous-day persistence MAE evaluation requires matching predicted and actual case currency.''"

definition dam_persistence_mae_duplicate_timestamp_message :: string where
  "dam_persistence_mae_duplicate_timestamp_message =
     ''Previous-day persistence MAE evaluation requires unique target timestamps.''"

definition dam_persistence_mae_out_of_order_message :: string where
  "dam_persistence_mae_out_of_order_message =
     ''Previous-day persistence MAE evaluation requires strictly increasing target timestamps.''"

abbreviation predicted_currency :: "dam_backtest_case \<Rightarrow> string" where
  "predicted_currency c \<equiv> price_currency (dbc_predicted_price c)"

abbreviation actual_currency :: "dam_backtest_case \<Rightarrow> string" where
  "actual_currency c \<equiv> price_currency (dbc_actual_price c)"

definition case_amounts :: "dam_backtest_case \<Rightarrow> dec \<times> dec" where
  "case_amounts c = (amount_per_mwh (dbc_predicted_price c), amount_per_mwh (dbc_actual_price c))"

text \<open>
  Every case's own coherence first, then the cohort's single currency, which is returned. The
  arithmetic is not guarded: a signal escapes.
\<close>

definition require_case_currencies :: "string \<Rightarrow> dam_backtest_case list \<Rightarrow> unit result" where
  "require_case_currencies msg cases =
     raise_if (list_ex (\<lambda>c. predicted_currency c \<noteq> actual_currency c) cases) (InvalidRequestError msg)"

definition require_persistence_currency :: "dam_backtest_case list \<Rightarrow> string result" where
  "require_persistence_currency cases =
     check (require_case_currencies dam_persistence_mae_case_currency_mismatch_message cases)
       (check (require_single actual_currency dam_persistence_mae_mixed_currency_message cases)
         (Inr (actual_currency (hd cases))))"

definition evaluate_previous_day_persistence_mae ::
    "dec_context \<Rightarrow> dam_backtest_case list \<Rightarrow> dam_persistence_mae_result result" where
  "evaluate_previous_day_persistence_mae ctx cases =
     (if cases = [] then Inl (InvalidRequestError dam_persistence_mae_empty_cases_message)
      else check (require_single dbc_market_id dam_persistence_mae_mixed_market_message cases)
        (attempt (require_persistence_currency cases) (\<lambda>currency.
          check (require_strict_chronology dbc_target_timestamp
                   dam_persistence_mae_duplicate_timestamp_message
                   dam_persistence_mae_out_of_order_message cases)
            (attempt (raise_signal (mean_abs_error ctx (map case_amounts cases))) (\<lambda>mae.
              Inr \<lparr>dpm_case_count = length cases, dpm_currency = currency,
                   dpm_mae_amount_per_mwh = mae\<rparr>)))))"

definition good_backtest_cases :: "dam_backtest_case list \<Rightarrow> bool" where
  "good_backtest_cases cases \<longleftrightarrow>
     cases \<noteq> [] \<and> one_valued dbc_market_id cases \<and> one_valued actual_currency cases \<and>
     (\<forall>c \<in> set cases. predicted_currency c = actual_currency c) \<and>
     strictly_increasing dbc_target_timestamp cases"

lemma require_case_currencies_ok [cohort_simps]:
  "require_case_currencies msg cases = Inr u \<longleftrightarrow>
   (\<forall>c \<in> set cases. predicted_currency c = actual_currency c)"
  by (auto simp: require_case_currencies_def result_simps list_ex_iff)

lemma evaluate_persistence_ok:
  "evaluate_previous_day_persistence_mae ctx cases = Inr r \<longleftrightarrow>
   good_backtest_cases cases \<and> mean_abs_error ctx (map case_amounts cases) = Inr (dpm_mae_amount_per_mwh r) \<and>
   dpm_case_count r = length cases \<and> dpm_currency r = actual_currency (hd cases)"
  by (cases r) (auto simp: evaluate_previous_day_persistence_mae_def good_backtest_cases_def
      require_persistence_currency_def result_simps cohort_simps)

lemma evaluate_persistence_error:
  assumes "evaluate_previous_day_persistence_mae ctx cases = Inl e"
  shows "(\<not> good_backtest_cases cases \<and> (\<exists>m. e = InvalidRequestError m)) \<or>
         (good_backtest_cases cases \<and> (\<exists>s. e = DecimalException s \<and>
            mean_abs_error ctx (map case_amounts cases) = Inl s))"
  using assms
  by (auto simp: evaluate_previous_day_persistence_mae_def good_backtest_cases_def
      require_persistence_currency_def require_single_error require_case_currencies_def
      raise_if_Inl_iff attempt_Inl_iff check_Inl_iff raise_signal_Inl_iff list_ex_iff cohort_simps
      result_simps dest!: require_strict_chronology_errorD split: if_splits)

lemma case_amounts_finite:
  "\<forall>c \<in> set cases. energy_price_ok (dbc_predicted_price c) \<and> energy_price_ok (dbc_actual_price c) \<Longrightarrow>
   \<forall>pa \<in> set (map case_amounts cases). pair_finite pa"
  by (auto simp: case_amounts_def pair_finite_def energy_price_ok_def)

lemma evaluate_persistence_untrap:
  "evaluate_previous_day_persistence_mae (trap_inexact ctx) cases = Inr r \<Longrightarrow>
   evaluate_previous_day_persistence_mae ctx cases = Inr r"
  unfolding evaluate_persistence_ok using mean_abs_error_untrap by blast

lemma persistence_point_ok:
  assumes "dam_price_request_ok q" "\<forall>r \<in> set (dpr_history q). energy_price_ok (mpr_price r)"
  shows "dam_persistence_point_for_target q t = Inr p \<longleftrightarrow>
    (\<exists>r. 0 \<le> t - timedelta_hours 24 \<and> t - timedelta_hours 24 \<le> datetime_max \<and>
       filter (\<lambda>x. mpr_timestamp x = t - timedelta_hours 24) (dpr_history q) = [r] \<and>
       p = \<lparr>pfp_forecast_run_id = dpr_forecast_run_id q, pfp_market_id = dpr_market_id q,
            pfp_generated_at = dpr_generated_at q, pfp_target_timestamp = t, pfp_price = mpr_price r\<rparr>)"
proof -
  have mem: "r \<in> set (dpr_history q)" if "filter P (dpr_history q) = [r]" for P r
    using that by (auto dest!: arg_cong [of _ _ set])
  show ?thesis
    using assms
    by (auto simp: dam_persistence_point_for_target_def dam_price_request_ok_def result_simps
        unique_lag_observation_Inr validate_price_forecast_point_def entity_id_fixed dam_lag_def
        dest: mem)
qed

section \<open>Properties\<close>

text \<open>For a constructed request over a validated history, the live model
  answers exactly when every requested instant has exactly one observation 24 hours earlier (inside
  the range of datetimes), and then returns one point per target, in the requested order, carrying
  the request's identity and that observation's price unchanged.\<close>

theorem persistence_forecast_copies_lag:
  assumes "dam_price_request_ok q" "\<forall>r \<in> set (dpr_history q). energy_price_ok (mpr_price r)"
  shows "dam_persistence_forecast q = Inr ps \<longleftrightarrow>
    list_all2 (\<lambda>t p. \<exists>r. 0 \<le> t - timedelta_hours 24 \<and> t - timedelta_hours 24 \<le> datetime_max \<and>
       filter (\<lambda>x. mpr_timestamp x = t - timedelta_hours 24) (dpr_history q) = [r] \<and>
       p = \<lparr>pfp_forecast_run_id = dpr_forecast_run_id q, pfp_market_id = dpr_market_id q,
            pfp_generated_at = dpr_generated_at q, pfp_target_timestamp = t, pfp_price = mpr_price r\<rparr>)
      (dpr_target_timestamps q) ps"
  using assms by (simp add: dam_persistence_forecast_def map_result_Inr_iff persistence_point_ok)

text \<open>Sample data for the witnesses: two days of one market, priced 10, 20 and 13.\<close>

definition sample_price :: "nat \<Rightarrow> energy_price" where
  "sample_price n = \<lparr>amount_per_mwh = DFin False n 0, price_currency = ''AMD''\<rparr>"

definition sample_record :: "utc \<Rightarrow> nat \<Rightarrow> market_price_record" where
  "sample_record t n =
     \<lparr>mpr_market_id = ''AM'', mpr_timestamp = t, mpr_price = sample_price n, mpr_volume_mwh = None\<rparr>"

definition sample_history :: "market_price_record list" where
  "sample_history =
     [sample_record 86400000001 20, sample_record 86400000000 10, sample_record 172800000000 13]"

definition sample_request :: dam_price_request where
  "sample_request =
     \<lparr>dpr_forecast_run_id = ''run'', dpr_generated_at = 5, dpr_market_id = ''AM'', dpr_currency = ''AMD'',
      dpr_history = sample_history, dpr_target_timestamps = [172800000001]\<rparr>"

lemmas sample_defs = sample_price_def sample_record_def sample_history_def sample_request_def

lemma sample_request_ok: "dam_price_request_ok sample_request"
  by (auto simp: sample_defs dam_price_request_ok_def py_strip_def py_isspace_def is_currency_code_def
      is_upper_letter_def Let_def)

lemma sample_history_ok: "\<forall>r \<in> set sample_history. energy_price_ok (mpr_price r)"
  by (simp add: sample_defs energy_price_ok_def is_currency_code_def is_upper_letter_def Let_def)

lemma sample_history_good: "good_price_history [dam_lag] sample_history"
  by (simp add: sample_defs good_price_history_def one_valued_def lags_in_range_def dam_lag_def
      datetime_max_def)

theorem persistence_forecast_copies_lag_witness:
  "dam_persistence_forecast sample_request
     = Inr [\<lparr>pfp_forecast_run_id = ''run'', pfp_market_id = ''AM'', pfp_generated_at = 5,
             pfp_target_timestamp = 172800000001, pfp_price = sample_price 20\<rparr>]"
proof -
  have h: "\<forall>r \<in> set (dpr_history sample_request). energy_price_ok (mpr_price r)"
    using sample_history_ok by (simp add: sample_request_def)
  show ?thesis
    unfolding persistence_forecast_copies_lag [OF sample_request_ok h]
    by (simp add: sample_defs datetime_max_def)
qed

text \<open>On a history of one market, one currency and unique timestamps, the
  backtest cases up to an instant are the cases built from the observations up to that instant: no
  case looks ahead.\<close>

theorem backtest_no_lookahead:
  assumes "good_price_history [dam_lag] h" "build_dam_backtest_cases h = Inr cases"
  shows "build_dam_backtest_cases (filter (\<lambda>r. mpr_timestamp r \<le> t) h)
    = Inr (filter (\<lambda>c. dbc_target_timestamp c \<le> t) cases)"
  using assms by (rule dam_backtest.build_causal)

lemma sample_backtest:
  "build_dam_backtest_cases sample_history
     = Inr [\<lparr>dbc_market_id = ''AM'', dbc_target_timestamp = 172800000000,
             dbc_predicted_price = sample_price 10, dbc_actual_price = sample_price 13\<rparr>]"
  by (simp add: build_dam_backtest_cases_def sample_defs require_single_def raise_if_def
      unique_timestamp_index_def lag_rows_def row_for_target_def dict_get_def datetime_minus_def
      dam_lag_def datetime_max_def dam_backtest_case_for_target_def)

theorem backtest_no_lookahead_witness:
  "build_dam_backtest_cases (filter (\<lambda>r. mpr_timestamp r \<le> 86400000001) sample_history) = Inr []"
  using backtest_no_lookahead [OF sample_history_good sample_backtest, of 86400000001] by simp

text \<open>A mean absolute error computed without rounding (the run with the
  Inexact signal trapped succeeds) is what the default context returns, and its value is the exact
  mean of the absolute differences.\<close>

theorem persistence_mae_exact:
  assumes "\<forall>c \<in> set cases. energy_price_ok (dbc_predicted_price c) \<and> energy_price_ok (dbc_actual_price c)"
    and "evaluate_previous_day_persistence_mae (trap_inexact default_context) cases = Inr r"
  shows "evaluate_previous_day_persistence_mae default_context cases = Inr r \<and>
    dec_val (dpm_mae_amount_per_mwh r)
      = (\<Sum>c\<leftarrow>cases. \<bar>dec_val (amount_per_mwh (dbc_predicted_price c))
                       - dec_val (amount_per_mwh (dbc_actual_price c))\<bar>) / of_nat (length cases)"
  using evaluate_persistence_untrap [OF assms(2)] assms(2)
    mean_abs_error_exact [OF case_amounts_finite [OF assms(1)]]
  by (auto simp: evaluate_persistence_ok good_backtest_cases_def abs_deviation_def case_amounts_def comp_def)

definition sample_cases :: "dam_backtest_case list" where
  "sample_cases =
     [\<lparr>dbc_market_id = ''AM'', dbc_target_timestamp = 1, dbc_predicted_price = sample_price 10,
       dbc_actual_price = sample_price 13\<rparr>,
      \<lparr>dbc_market_id = ''AM'', dbc_target_timestamp = 2, dbc_predicted_price = sample_price 20,
       dbc_actual_price = sample_price 15\<rparr>]"

lemmas mae_eval = mean_abs_error_def dec_abs_error_def add_abs_error_def case_amounts_def
  decimal_fast

lemma sample_cases_mae:
  "evaluate_previous_day_persistence_mae (trap_inexact default_context) sample_cases
     = Inr \<lparr>dpm_case_count = 2, dpm_currency = ''AMD'', dpm_mae_amount_per_mwh = DFin False 4 0\<rparr>"
  by (simp add: evaluate_persistence_ok sample_cases_def sample_price_def good_backtest_cases_def
      one_valued_def strictly_increasing_def mae_eval cong: attempt_weak_cong)

lemma sample_cases_ok:
  "\<forall>c \<in> set sample_cases. energy_price_ok (dbc_predicted_price c) \<and> energy_price_ok (dbc_actual_price c)"
  by (simp add: sample_cases_def sample_price_def energy_price_ok_def is_currency_code_def
      is_upper_letter_def Let_def)

theorem persistence_mae_exact_witness:
  "evaluate_previous_day_persistence_mae default_context sample_cases
     = Inr \<lparr>dpm_case_count = 2, dpm_currency = ''AMD'', dpm_mae_amount_per_mwh = DFin False 4 0\<rparr>"
  using persistence_mae_exact [OF sample_cases_ok sample_cases_mae] by blast

definition huge_price :: "bool \<Rightarrow> energy_price" where
  "huge_price s = \<lparr>amount_per_mwh = DFin s 9 999999, price_currency = ''AMD''\<rparr>"

definition huge_case :: dam_backtest_case where
  "huge_case = \<lparr>dbc_market_id = ''AM'', dbc_target_timestamp = 1, dbc_predicted_price = huge_price False,
     dbc_actual_price = huge_price True\<rparr>"

text \<open>The persistence evaluator does not translate decimal signals: a
  well-formed cohort of two finite prices near the end of the exponent range makes the default
  context raise Overflow itself, where the least-squares evaluators refuse with an
  \<open>InvalidRequestError\<close>.\<close>

theorem persistence_mae_leaks_overflow:
  "energy_price_ok (dbc_predicted_price huge_case) \<and> energy_price_ok (dbc_actual_price huge_case) \<and>
   good_backtest_cases [huge_case] \<and>
   evaluate_previous_day_persistence_mae default_context [huge_case] = Inl (DecimalException Overflow)"
proof -
  have "dec_fix default_context False 18 999999 = Inl Overflow"
    by (simp add: decimal_eval)
  then show ?thesis
    by (simp add: huge_case_def huge_price_def energy_price_ok_def is_currency_code_def
      is_upper_letter_def good_backtest_cases_def one_valued_def strictly_increasing_def
      evaluate_previous_day_persistence_mae_def require_single_def require_persistence_currency_def
      require_case_currencies_def require_strict_chronology_def raise_if_def raise_signal_def mae_eval
      cong: attempt_weak_cong)
qed

end
