(* ===== verification/DAM_Lag24.thy ===== *)
theory DAM_Lag24
  imports DAM_Persistence
begin

text \<open>
  The one-feature experiment of ml/dam_price: exact 24-hour lag rows, the chronological split, the
  ordinary least-squares fit, its predictions and their mean absolute error. The fit is related to
  the rational least-squares line of theory \<open>Least_Squares\<close>: when no operation rounds, it is that
  line.
\<close>

section \<open>Feature rows (lag_24h_features.py)\<close>

record dam_lag24_row =
  l24_market_id :: string
  l24_currency :: string
  l24_target_timestamp :: utc
  l24_lag_24h :: dec
  l24_target :: dec

definition dam_lag24_features_mixed_market_message :: string where
  "dam_lag24_features_mixed_market_message =
     ''DAM Price 24-hour lag features require history from exactly one market.''"

definition dam_lag24_features_mixed_currency_message :: string where
  "dam_lag24_features_mixed_currency_message =
     ''DAM Price 24-hour lag features require history in exactly one currency.''"

definition dam_lag24_features_duplicate_timestamp_message :: string where
  "dam_lag24_features_duplicate_timestamp_message =
     ''DAM Price 24-hour lag features require unique historical timestamps.''"

definition dam_lag24_row_for_target :: "market_price_record \<Rightarrow> market_price_record list \<Rightarrow> dam_lag24_row" where
  "dam_lag24_row_for_target target_record lagged =
     \<lparr>l24_market_id = mpr_market_id target_record, l24_currency = record_currency target_record,
      l24_target_timestamp = mpr_timestamp target_record,
      l24_lag_24h = amount_per_mwh (mpr_price (lagged ! 0)),
      l24_target = amount_per_mwh (mpr_price target_record)\<rparr>"

definition build_dam_price_lag_24h_feature_rows :: "market_price_record list \<Rightarrow> dam_lag24_row list result" where
  "build_dam_price_lag_24h_feature_rows history =
     (if history = [] then Inr []
      else check (require_single mpr_market_id dam_lag24_features_mixed_market_message history)
        (check (require_single record_currency dam_lag24_features_mixed_currency_message history)
          (attempt (unique_timestamp_index mpr_timestamp dam_lag24_features_duplicate_timestamp_message history)
            (lag_rows dam_lag24_row_for_target [dam_lag]))))"

lemma build_dam_lag24_spec:
  "good_price_history [dam_lag] h \<Longrightarrow>
   build_dam_price_lag_24h_feature_rows h
     = Inr (lag_rows_spec mpr_timestamp [dam_lag] dam_lag24_row_for_target h)"
  using unique_timestamp_index_ok [of mpr_timestamp dam_lag24_features_duplicate_timestamp_message h
      "map (\<lambda>r. (mpr_timestamp r, r)) h"]
  by (simp add: build_dam_price_lag_24h_feature_rows_def good_price_history_def lag_rows_correct
      require_single_ok [of _ _ _ "()", THEN iffD2])

interpretation dam_lag24_features: lag_builder build_dam_price_lag_24h_feature_rows
  "good_price_history [dam_lag]" mpr_timestamp l24_target_timestamp "[dam_lag]" dam_lag24_row_for_target
proof (unfold_locales, goal_cases)
  case (1 h)
  then show ?case by (rule build_dam_lag24_spec)
next
  case (2 h)
  then show ?case by (simp add: good_price_history_def)
next
  case (3 h P)
  then show ?case by (rule good_price_history_filter)
next
  case (4 h h')
  then show ?case by (rule good_price_history_mset)
next
  case (5 r rs)
  then show ?case by (simp add: dam_lag24_row_for_target_def)
next
  case (6 l)
  then show ?case by (simp add: dam_lag_def)
qed

section \<open>Chronological split (chronological_feature_split.py)\<close>

record dam_lag24_split =
  l24_training_rows :: "dam_lag24_row list"
  l24_evaluation_rows :: "dam_lag24_row list"

definition dam_lag24_split_empty_rows_message :: string where
  "dam_lag24_split_empty_rows_message =
     ''DAM Price chronological feature split requires at least one feature row.''"

definition dam_lag24_split_mixed_market_message :: string where
  "dam_lag24_split_mixed_market_message =
     ''DAM Price chronological feature split requires rows from exactly one market.''"

definition dam_lag24_split_mixed_currency_message :: string where
  "dam_lag24_split_mixed_currency_message =
     ''DAM Price chronological feature split requires rows in exactly one currency.''"

definition dam_lag24_split_duplicate_timestamp_message :: string where
  "dam_lag24_split_duplicate_timestamp_message =
     ''DAM Price chronological feature split requires unique target timestamps.''"

definition dam_lag24_split_out_of_order_message :: string where
  "dam_lag24_split_out_of_order_message =
     ''DAM Price chronological feature split requires strictly increasing target timestamps.''"

definition dam_lag24_split_empty_training_message :: string where
  "dam_lag24_split_empty_training_message =
     ''DAM Price chronological feature split requires a non-empty training partition.''"

definition dam_lag24_split_empty_evaluation_message :: string where
  "dam_lag24_split_empty_evaluation_message =
     ''DAM Price chronological feature split requires a non-empty evaluation partition.''"

definition split_dam_price_feature_rows_chronologically ::
    "dam_lag24_row list \<Rightarrow> utc \<Rightarrow> dam_lag24_split result" where
  "split_dam_price_feature_rows_chronologically rows cutoff =
     (if rows = [] then Inl (InvalidRequestError dam_lag24_split_empty_rows_message)
      else check (require_single l24_market_id dam_lag24_split_mixed_market_message rows)
        (check (require_single l24_currency dam_lag24_split_mixed_currency_message rows)
          (check (require_strict_chronology l24_target_timestamp
                    dam_lag24_split_duplicate_timestamp_message dam_lag24_split_out_of_order_message rows)
            (let training = filter (\<lambda>row. l24_target_timestamp row < cutoff) rows;
                 evaluation = filter (\<lambda>row. cutoff \<le> l24_target_timestamp row) rows in
             if training = [] then Inl (InvalidRequestError dam_lag24_split_empty_training_message)
             else if evaluation = [] then Inl (InvalidRequestError dam_lag24_split_empty_evaluation_message)
             else Inr \<lparr>l24_training_rows = training, l24_evaluation_rows = evaluation\<rparr>))))"

section \<open>Fit (lag_24h_linear_regression.py)\<close>

record dam_lag24_fit =
  l24_slope :: dec
  l24_intercept :: dec

definition dam_lag24_fit_too_few_rows_message :: string where
  "dam_lag24_fit_too_few_rows_message =
     ''DAM Price lag-24h linear regression requires at least two training rows.''"

definition dam_lag24_fit_mixed_market_message :: string where
  "dam_lag24_fit_mixed_market_message =
     ''DAM Price lag-24h linear regression requires rows from exactly one market.''"

definition dam_lag24_fit_mixed_currency_message :: string where
  "dam_lag24_fit_mixed_currency_message =
     ''DAM Price lag-24h linear regression requires rows in exactly one currency.''"

definition dam_lag24_fit_duplicate_timestamp_message :: string where
  "dam_lag24_fit_duplicate_timestamp_message =
     ''DAM Price lag-24h linear regression requires unique target timestamps.''"

definition dam_lag24_fit_out_of_order_message :: string where
  "dam_lag24_fit_out_of_order_message =
     ''DAM Price lag-24h linear regression requires strictly increasing target timestamps.''"

definition dam_lag24_fit_zero_variance_message :: string where
  "dam_lag24_fit_zero_variance_message =
     ''DAM Price lag-24h linear regression requires non-zero variance in lag_24h_amount_per_mwh.''"

definition dam_lag24_fit_non_finite_input_message :: string where
  "dam_lag24_fit_non_finite_input_message =
     ''DAM Price lag-24h linear regression requires finite feature and target values.''"

definition dam_lag24_fit_non_finite_fit_message :: string where
  "dam_lag24_fit_non_finite_fit_message =
     ''DAM Price lag-24h linear regression requires finite fitted slope and intercept.''"

text \<open>One iteration of the accumulation loop, in the order of the statements.\<close>

definition ols_step :: "dec_context \<Rightarrow> dec \<Rightarrow> dec \<Rightarrow> dec \<times> dec \<Rightarrow> dec \<times> dec \<Rightarrow> dec_signal + dec \<times> dec" where
  "ols_step ctx x_mean y_mean acc xy =
     (case (acc, xy) of ((numerator, denominator), (x, y)) \<Rightarrow>
        attempt (dec_sub ctx x x_mean) (\<lambda>x_deviation.
        attempt (dec_sub ctx y y_mean) (\<lambda>y_deviation.
        attempt (dec_mul ctx x_deviation y_deviation) (\<lambda>xy_product.
        attempt (dec_add ctx numerator xy_product) (\<lambda>numerator'.
        attempt (dec_mul ctx x_deviation x_deviation) (\<lambda>xx_product.
        attempt (dec_add ctx denominator xx_product) (\<lambda>denominator'.
          Inr (numerator', denominator'))))))))"

definition ols_totals :: "dec_context \<Rightarrow> dec list \<Rightarrow> dec list \<Rightarrow> dec_signal + dec \<times> dec \<times> dec \<times> dec" where
  "ols_totals ctx features targets =
     (let n = dec_of_int (int (length features)) in
      attempt (dec_mean ctx features n) (\<lambda>x_mean.
      attempt (dec_mean ctx targets n) (\<lambda>y_mean.
      attempt (fold_result (ols_step ctx x_mean y_mean) (dec_of_int 0, dec_of_int 0)
                 (zip features targets)) (\<lambda>(numerator, denominator).
        Inr (x_mean, y_mean, numerator, denominator)))))"

definition ols_solution :: "dec_context \<Rightarrow> dec \<Rightarrow> dec \<Rightarrow> dec \<Rightarrow> dec \<Rightarrow> dec_signal + dec \<times> dec" where
  "ols_solution ctx x_mean y_mean numerator denominator =
     attempt (dec_div ctx numerator denominator) (\<lambda>slope.
     attempt (dec_mul ctx slope x_mean) (\<lambda>offset.
     attempt (dec_sub ctx y_mean offset) (\<lambda>intercept.
       Inr (slope, intercept))))"

definition compute_ols :: "dec_context \<Rightarrow> dec list \<Rightarrow> dec list \<Rightarrow> (dec \<times> dec) result" where
  "compute_ols ctx features targets =
     attempt (guard_decimal dam_lag24_fit_non_finite_fit_message (ols_totals ctx features targets))
       (\<lambda>(x_mean, y_mean, numerator, denominator).
         if dec_eq denominator (dec_of_int 0)
         then Inl (InvalidRequestError dam_lag24_fit_zero_variance_message)
         else guard_decimal dam_lag24_fit_non_finite_fit_message
                (ols_solution ctx x_mean y_mean numerator denominator))"

definition fit_parameters :: "dec_context \<Rightarrow> dec list \<Rightarrow> dec list \<Rightarrow> (dec \<times> dec) result" where
  "fit_parameters ctx features targets =
     attempt (compute_ols ctx features targets) (\<lambda>(slope, intercept).
       if \<not> dec_is_finite slope \<or> \<not> dec_is_finite intercept
       then Inl (InvalidRequestError dam_lag24_fit_non_finite_fit_message)
       else Inr (slope, intercept))"

definition fit_dam_price_lag_24h_linear_regression ::
    "dec_context \<Rightarrow> dam_lag24_row list \<Rightarrow> dam_lag24_fit result" where
  "fit_dam_price_lag_24h_linear_regression ctx training_rows =
     (if length training_rows < 2 then Inl (InvalidRequestError dam_lag24_fit_too_few_rows_message)
      else check (require_single l24_market_id dam_lag24_fit_mixed_market_message training_rows)
        (check (require_single l24_currency dam_lag24_fit_mixed_currency_message training_rows)
          (check (require_strict_chronology l24_target_timestamp
                    dam_lag24_fit_duplicate_timestamp_message dam_lag24_fit_out_of_order_message
                    training_rows)
            (let features = map l24_lag_24h training_rows; targets = map l24_target training_rows in
             check (require_all_finite dam_lag24_fit_non_finite_input_message (features @ targets))
               (attempt (fit_parameters ctx features targets) (\<lambda>(slope, intercept).
                 Inr \<lparr>l24_slope = slope, l24_intercept = intercept\<rparr>))))))"

section \<open>Predictions (lag_24h_linear_regression_prediction.py)\<close>

record dam_lag24_prediction =
  p24_market_id :: string
  p24_currency :: string
  p24_target_timestamp :: utc
  p24_predicted :: dec
  p24_actual :: dec

definition dam_lag24_prediction_empty_rows_message :: string where
  "dam_lag24_prediction_empty_rows_message =
     ''DAM Price lag-24h linear regression prediction requires at least one evaluation row.''"

definition dam_lag24_prediction_mixed_market_message :: string where
  "dam_lag24_prediction_mixed_market_message =
     ''DAM Price lag-24h linear regression prediction requires rows from exactly one market.''"

definition dam_lag24_prediction_mixed_currency_message :: string where
  "dam_lag24_prediction_mixed_currency_message =
     ''DAM Price lag-24h linear regression prediction requires rows in exactly one currency.''"

definition dam_lag24_prediction_duplicate_timestamp_message :: string where
  "dam_lag24_prediction_duplicate_timestamp_message =
     ''DAM Price lag-24h linear regression prediction requires unique target timestamps.''"

definition dam_lag24_prediction_out_of_order_message :: string where
  "dam_lag24_prediction_out_of_order_message =
     ''DAM Price lag-24h linear regression prediction requires strictly increasing target timestamps.''"

definition dam_lag24_prediction_non_finite_fit_message :: string where
  "dam_lag24_prediction_non_finite_fit_message =
     ''DAM Price lag-24h linear regression prediction requires finite fitted parameters.''"

definition dam_lag24_prediction_non_finite_input_message :: string where
  "dam_lag24_prediction_non_finite_input_message =
     ''DAM Price lag-24h linear regression prediction requires finite feature and target values.''"

definition dam_lag24_prediction_non_finite_prediction_message :: string where
  "dam_lag24_prediction_non_finite_prediction_message =
     ''DAM Price lag-24h linear regression prediction requires finite predicted values.''"

definition dam_lag24_predicted_amount :: "dec_context \<Rightarrow> dam_lag24_fit \<Rightarrow> dam_lag24_row \<Rightarrow> dec result" where
  "dam_lag24_predicted_amount ctx fit row =
     (if \<not> dec_is_finite (l24_lag_24h row) \<or> \<not> dec_is_finite (l24_target row)
      then Inl (InvalidRequestError dam_lag24_prediction_non_finite_input_message)
      else attempt (guard_decimal dam_lag24_prediction_non_finite_prediction_message
                (attempt (dec_mul ctx (l24_slope fit) (l24_lag_24h row))
                   (\<lambda>p. dec_add ctx p (l24_intercept fit)))) (\<lambda>predicted.
             check (require_finite dam_lag24_prediction_non_finite_prediction_message predicted)
               (Inr predicted)))"

definition dam_lag24_prediction_for_row ::
    "dec_context \<Rightarrow> dam_lag24_fit \<Rightarrow> dam_lag24_row \<Rightarrow> dam_lag24_prediction result" where
  "dam_lag24_prediction_for_row ctx fit row =
     attempt (dam_lag24_predicted_amount ctx fit row) (\<lambda>predicted.
       Inr \<lparr>p24_market_id = l24_market_id row, p24_currency = l24_currency row,
            p24_target_timestamp = l24_target_timestamp row, p24_predicted = predicted,
            p24_actual = l24_target row\<rparr>)"

definition dam_lag24_require_finite_fit :: "dam_lag24_fit \<Rightarrow> unit result" where
  "dam_lag24_require_finite_fit fit =
     raise_if (\<not> dec_is_finite (l24_slope fit) \<or> \<not> dec_is_finite (l24_intercept fit))
       (InvalidRequestError dam_lag24_prediction_non_finite_fit_message)"

definition predict_dam_price_lag_24h_linear_regression ::
    "dec_context \<Rightarrow> dam_lag24_fit \<Rightarrow> dam_lag24_row list \<Rightarrow> dam_lag24_prediction list result" where
  "predict_dam_price_lag_24h_linear_regression ctx fit evaluation_rows =
     (if evaluation_rows = [] then Inl (InvalidRequestError dam_lag24_prediction_empty_rows_message)
      else check (require_single l24_market_id dam_lag24_prediction_mixed_market_message evaluation_rows)
        (check (require_single l24_currency dam_lag24_prediction_mixed_currency_message evaluation_rows)
          (check (require_strict_chronology l24_target_timestamp
                    dam_lag24_prediction_duplicate_timestamp_message
                    dam_lag24_prediction_out_of_order_message evaluation_rows)
            (check (dam_lag24_require_finite_fit fit)
              (map_result (dam_lag24_prediction_for_row ctx fit) evaluation_rows)))))"

section \<open>Mean absolute error (lag_24h_linear_regression_evaluation.py)\<close>

record dam_lag24_mae_result =
  m24_case_count :: nat
  m24_currency :: string
  m24_mae_amount_per_mwh :: dec

definition dam_lag24_mae_empty_predictions_message :: string where
  "dam_lag24_mae_empty_predictions_message =
     ''DAM Price lag-24h linear regression MAE evaluation requires at least one prediction.''"

definition dam_lag24_mae_mixed_market_message :: string where
  "dam_lag24_mae_mixed_market_message =
     ''DAM Price lag-24h linear regression MAE evaluation requires predictions from exactly one market.''"

definition dam_lag24_mae_mixed_currency_message :: string where
  "dam_lag24_mae_mixed_currency_message =
     ''DAM Price lag-24h linear regression MAE evaluation requires predictions in exactly one currency.''"

definition dam_lag24_mae_duplicate_timestamp_message :: string where
  "dam_lag24_mae_duplicate_timestamp_message =
     ''DAM Price lag-24h linear regression MAE evaluation requires unique target timestamps.''"

definition dam_lag24_mae_out_of_order_message :: string where
  "dam_lag24_mae_out_of_order_message =
     ''DAM Price lag-24h linear regression MAE evaluation requires strictly increasing target timestamps.''"

definition dam_lag24_mae_non_finite_values_message :: string where
  "dam_lag24_mae_non_finite_values_message =
     ''DAM Price lag-24h linear regression MAE evaluation requires finite predicted and actual values.''"

definition dam_lag24_mae_non_finite_mae_message :: string where
  "dam_lag24_mae_non_finite_mae_message =
     ''DAM Price lag-24h linear regression MAE evaluation requires a finite MAE.''"

definition p24_amounts :: "dam_lag24_prediction \<Rightarrow> dec \<times> dec" where
  "p24_amounts p = (p24_predicted p, p24_actual p)"

definition evaluate_dam_price_lag_24h_linear_regression_mae ::
    "dec_context \<Rightarrow> dam_lag24_prediction list \<Rightarrow> dam_lag24_mae_result result" where
  "evaluate_dam_price_lag_24h_linear_regression_mae ctx predictions =
     (if predictions = [] then Inl (InvalidRequestError dam_lag24_mae_empty_predictions_message)
      else check (require_single p24_market_id dam_lag24_mae_mixed_market_message predictions)
        (check (require_single p24_currency dam_lag24_mae_mixed_currency_message predictions)
          (check (require_strict_chronology p24_target_timestamp
                    dam_lag24_mae_duplicate_timestamp_message dam_lag24_mae_out_of_order_message
                    predictions)
            (check (require_all_finite dam_lag24_mae_non_finite_values_message
                      (concat (map (\<lambda>p. [p24_predicted p, p24_actual p]) predictions)))
              (attempt (guard_decimal dam_lag24_mae_non_finite_mae_message
                          (total_abs_error ctx (map p24_amounts predictions))) (\<lambda>total_error.
               attempt (guard_decimal dam_lag24_mae_non_finite_mae_message
                          (dec_div ctx total_error (dec_of_int (int (length predictions))))) (\<lambda>mae.
                 check (require_finite dam_lag24_mae_non_finite_mae_message mae)
                   (Inr \<lparr>m24_case_count = length predictions,
                        m24_currency = p24_currency (hd predictions),
                        m24_mae_amount_per_mwh = mae\<rparr>))))))))"

section \<open>What the operations accept\<close>

definition good_lag24_rows :: "dam_lag24_row list \<Rightarrow> bool" where
  "good_lag24_rows rows \<longleftrightarrow>
     rows \<noteq> [] \<and> one_valued l24_market_id rows \<and> one_valued l24_currency rows \<and>
     strictly_increasing l24_target_timestamp rows"

definition finite_lag24_row :: "dam_lag24_row \<Rightarrow> bool" where
  "finite_lag24_row row \<longleftrightarrow> dec_is_finite (l24_lag_24h row) \<and> dec_is_finite (l24_target row)"

lemma split_lag24_ok:
  "split_dam_price_feature_rows_chronologically rows cutoff = Inr s \<longleftrightarrow>
   good_lag24_rows rows \<and>
   l24_training_rows s = filter (\<lambda>row. l24_target_timestamp row < cutoff) rows \<and>
   l24_evaluation_rows s = filter (\<lambda>row. cutoff \<le> l24_target_timestamp row) rows \<and>
   l24_training_rows s \<noteq> [] \<and> l24_evaluation_rows s \<noteq> []"
  by (cases s) (auto simp: split_dam_price_feature_rows_chronologically_def good_lag24_rows_def
      Let_def result_simps cohort_simps)

lemma fit_lag24_ok:
  "fit_dam_price_lag_24h_linear_regression ctx rows = Inr fit \<longleftrightarrow>
   2 \<le> length rows \<and> good_lag24_rows rows \<and> (\<forall>row \<in> set rows. finite_lag24_row row) \<and>
   fit_parameters ctx (map l24_lag_24h rows) (map l24_target rows)
     = Inr (l24_slope fit, l24_intercept fit)"
  by (cases fit) (auto simp: fit_dam_price_lag_24h_linear_regression_def good_lag24_rows_def
      finite_lag24_row_def Let_def result_simps cohort_simps)

lemma predict_lag24_ok:
  "predict_dam_price_lag_24h_linear_regression ctx fit rows = Inr ps \<longleftrightarrow>
   good_lag24_rows rows \<and> dec_is_finite (l24_slope fit) \<and> dec_is_finite (l24_intercept fit) \<and>
   list_all2 (\<lambda>row p. dam_lag24_prediction_for_row ctx fit row = Inr p) rows ps"
  by (auto simp: predict_dam_price_lag_24h_linear_regression_def good_lag24_rows_def
      dam_lag24_require_finite_fit_def result_simps cohort_simps map_result_Inr_iff)

definition good_lag24_predictions :: "dam_lag24_prediction list \<Rightarrow> bool" where
  "good_lag24_predictions ps \<longleftrightarrow>
     ps \<noteq> [] \<and> one_valued p24_market_id ps \<and> one_valued p24_currency ps \<and>
     strictly_increasing p24_target_timestamp ps"

lemma evaluate_lag24_ok:
  "evaluate_dam_price_lag_24h_linear_regression_mae ctx ps = Inr r \<longleftrightarrow>
   good_lag24_predictions ps \<and> (\<forall>p \<in> set ps. pair_finite (p24_amounts p)) \<and>
   mean_abs_error ctx (map p24_amounts ps) = Inr (m24_mae_amount_per_mwh r) \<and>
   dec_is_finite (m24_mae_amount_per_mwh r) \<and>
   m24_case_count r = length ps \<and> m24_currency r = p24_currency (hd ps)"
  by (cases r) (auto simp: evaluate_dam_price_lag_24h_linear_regression_mae_def mean_abs_error_def
      good_lag24_predictions_def p24_amounts_def pair_finite_def result_simps cohort_simps)

text \<open>Every refusal of the evaluator is an \<open>InvalidRequestError\<close>: signals are translated.\<close>

lemma evaluate_lag24_error:
  "evaluate_dam_price_lag_24h_linear_regression_mae ctx ps = Inl e \<Longrightarrow> \<exists>m. e = InvalidRequestError m"
  by (auto simp: evaluate_dam_price_lag_24h_linear_regression_mae_def require_single_error
      raise_if_Inl_iff attempt_Inl_iff check_Inl_iff guard_decimal_Inl_iff require_finite_def
      require_all_finite_def dest!: require_strict_chronology_errorD split: if_splits)

lemma fit_parameters_error: "fit_parameters ctx xs ys = Inl e \<Longrightarrow> \<exists>m. e = InvalidRequestError m"
  by (auto simp: fit_parameters_def compute_ols_def attempt_Inl_iff guard_decimal_Inl_iff
      split: if_splits prod.splits)

lemma fit_lag24_error:
  "fit_dam_price_lag_24h_linear_regression ctx rows = Inl e \<Longrightarrow> \<exists>m. e = InvalidRequestError m"
  by (cases rows) (auto simp: fit_dam_price_lag_24h_linear_regression_def Let_def require_single_error
      raise_if_Inl_iff attempt_Inl_iff check_Inl_iff require_all_finite_def
      dest!: require_strict_chronology_errorD fit_parameters_error split: if_splits prod.splits)

lemma predict_lag24_error:
  "predict_dam_price_lag_24h_linear_regression ctx fit rows = Inl e \<Longrightarrow> \<exists>m. e = InvalidRequestError m"
  by (auto simp: predict_dam_price_lag_24h_linear_regression_def require_single_error
      raise_if_Inl_iff attempt_Inl_iff check_Inl_iff dam_lag24_require_finite_fit_def
      dam_lag24_prediction_for_row_def dam_lag24_predicted_amount_def guard_decimal_Inl_iff
      require_finite_def
      dest!: map_result_Inl require_strict_chronology_errorD split: if_splits)

section \<open>The fit without rounding\<close>

lemma fit_parameters_ok:
  "fit_parameters ctx xs ys = Inr (b, a) \<longleftrightarrow>
   dec_is_finite b \<and> dec_is_finite a \<and>
   (\<exists>xm ym num den. ols_totals ctx xs ys = Inr (xm, ym, num, den) \<and>
      \<not> dec_eq den (dec_of_int 0) \<and> ols_solution ctx xm ym num den = Inr (b, a))"
proof
  assume "fit_parameters ctx xs ys = Inr (b, a)"
  then show "dec_is_finite b \<and> dec_is_finite a \<and>
    (\<exists>xm ym num den. ols_totals ctx xs ys = Inr (xm, ym, num, den) \<and>
      \<not> dec_eq den (dec_of_int 0) \<and> ols_solution ctx xm ym num den = Inr (b, a))"
    by (auto simp: fit_parameters_def compute_ols_def result_simps split: if_splits prod.splits)
next
  assume "dec_is_finite b \<and> dec_is_finite a \<and>
    (\<exists>xm ym num den. ols_totals ctx xs ys = Inr (xm, ym, num, den) \<and>
      \<not> dec_eq den (dec_of_int 0) \<and> ols_solution ctx xm ym num den = Inr (b, a))"
  then show "fit_parameters ctx xs ys = Inr (b, a)"
    by (auto simp: fit_parameters_def compute_ols_def guard_decimal_def)
qed

lemma ols_step_exact:
  assumes "dec_is_finite xm" "dec_is_finite ym" "dec_is_finite (fst acc)" "dec_is_finite (snd acc)"
    and "pair_finite xy" "ols_step (trap_inexact default_context) xm ym acc xy = Inr acc'"
  shows "dec_is_finite (fst acc') \<and> dec_is_finite (snd acc') \<and>
    dec_val (fst acc')
      = dec_val (fst acc) + (dec_val (fst xy) - dec_val xm) * (dec_val (snd xy) - dec_val ym) \<and>
    dec_val (snd acc')
      = dec_val (snd acc) + (dec_val (fst xy) - dec_val xm) * (dec_val (fst xy) - dec_val xm)"
  using assms
  by (cases acc; cases xy) (auto simp: ols_step_def pair_finite_def result_simps dest!: exact_steps)

abbreviation lag24_feature :: "dam_lag24_row \<Rightarrow> rat" where
  "lag24_feature row \<equiv> dec_val (l24_lag_24h row)"

abbreviation lag24_target :: "dam_lag24_row \<Rightarrow> rat" where
  "lag24_target row \<equiv> dec_val (l24_target row)"

lemma ols_totals_exact:
  assumes rows: "\<forall>row \<in> set rows. finite_lag24_row row" "rows \<noteq> []"
    and run: "ols_totals (trap_inexact default_context) (map l24_lag_24h rows) (map l24_target rows)
                = Inr (xm, ym, num, den)"
  shows "dec_is_finite xm \<and> dec_val xm = mean lag24_feature rows"
    and "dec_is_finite ym \<and> dec_val ym = mean lag24_target rows"
    and "dec_is_finite num \<and> dec_val num = cross lag24_feature lag24_target rows"
    and "dec_is_finite den \<and> dec_val den = cross lag24_feature lag24_feature rows"
proof -
  let ?T = "trap_inexact default_context" and ?n = "dec_of_int (int (length rows))"
  have runs: "dec_mean ?T (map l24_lag_24h rows) ?n = Inr xm" "dec_mean ?T (map l24_target rows) ?n = Inr ym"
      "fold_result (ols_step ?T xm ym) (dec_of_int 0, dec_of_int 0)
         (map (\<lambda>row. (l24_lag_24h row, l24_target row)) rows) = Inr (num, den)"
    using run by (auto simp: ols_totals_def Let_def result_simps zip_maps)
  show xm: "dec_is_finite xm \<and> dec_val xm = mean lag24_feature rows"
    using dec_mean_column [OF _ _ runs(1)] rows by (simp add: finite_lag24_row_def comp_def)
  show ym: "dec_is_finite ym \<and> dec_val ym = mean lag24_target rows"
    using dec_mean_column [OF _ _ runs(2)] rows by (simp add: finite_lag24_row_def comp_def)
  let ?fin = "\<lambda>acc. dec_is_finite (fst acc) \<and> dec_is_finite (snd acc)"
  have pairs: "\<forall>xy \<in> set (map (\<lambda>row. (l24_lag_24h row, l24_target row)) rows). pair_finite xy"
    using rows(1) by (auto simp: pair_finite_def finite_lag24_row_def)
  have step: "?fin acc' \<and>
      dec_val (fst acc') = dec_val (fst acc)
        + (dec_val (fst xy) - dec_val xm) * (dec_val (snd xy) - dec_val ym) \<and>
      dec_val (snd acc') = dec_val (snd acc)
        + (dec_val (fst xy) - dec_val xm) * (dec_val (fst xy) - dec_val xm)"
    if "?fin acc" "pair_finite xy" "ols_step ?T xm ym acc xy = Inr acc'" for acc xy acc'
    using ols_step_exact [OF _ _ _ _ that(2,3)] xm ym that(1) by blast
  note sums = fold_result_sum [where Q = ?fin and P = pair_finite, OF _ _ pairs runs(3)]
  have "?fin (num, den) \<and> dec_val (fst (num, den)) = dec_val (fst (dec_of_int 0, dec_of_int 0))
      + (\<Sum>xy\<leftarrow>map (\<lambda>row. (l24_lag_24h row, l24_target row)) rows.
           (dec_val (fst xy) - dec_val xm) * (dec_val (snd xy) - dec_val ym))"
    by (rule sums) (use step in \<open>blast | simp\<close>)+
  then show "dec_is_finite num \<and> dec_val num = cross lag24_feature lag24_target rows"
    by (simp add: comp_def cross_def deviation_def xm ym)
  have "?fin (num, den) \<and> dec_val (snd (num, den)) = dec_val (snd (dec_of_int 0, dec_of_int 0))
      + (\<Sum>xy\<leftarrow>map (\<lambda>row. (l24_lag_24h row, l24_target row)) rows.
           (dec_val (fst xy) - dec_val xm) * (dec_val (fst xy) - dec_val xm))"
    by (rule sums) (use step in \<open>blast | simp\<close>)+
  then show "dec_is_finite den \<and> dec_val den = cross lag24_feature lag24_feature rows"
    by (simp add: comp_def cross_def deviation_def xm)
qed

lemma ols_solution_exact:
  assumes "dec_is_finite xm" "dec_is_finite ym" "dec_is_finite num" "dec_is_finite den" "dec_val den \<noteq> 0"
    and "ols_solution (trap_inexact default_context) xm ym num den = Inr (b, a)"
  shows "dec_is_finite b \<and> dec_is_finite a \<and> dec_val b = dec_val num / dec_val den \<and>
    dec_val a = dec_val ym - dec_val num / dec_val den * dec_val xm"
  using assms by (auto simp: ols_solution_def result_simps dest!: exact_steps)

lemma fit_parameters_exact:
  assumes rows: "\<forall>row \<in> set rows. finite_lag24_row row" "rows \<noteq> []"
    and run: "fit_parameters (trap_inexact default_context) (map l24_lag_24h rows) (map l24_target rows)
                = Inr (b, a)"
  shows "cross lag24_feature lag24_feature rows \<noteq> 0 \<and>
    dec_val b = ols_slope lag24_feature lag24_target rows \<and>
    dec_val a = ols_intercept lag24_feature lag24_target rows"
proof -
  let ?T = "trap_inexact default_context"
  obtain xm ym num den where t: "ols_totals ?T (map l24_lag_24h rows) (map l24_target rows)
        = Inr (xm, ym, num, den)"
      and nz: "\<not> dec_eq den (dec_of_int 0)" and sol: "ols_solution ?T xm ym num den = Inr (b, a)"
    using run unfolding fit_parameters_ok by blast
  note v = ols_totals_exact [OF rows t]
  have "dec_val den \<noteq> 0" using nz v(4) dec_eq_finite [of den "dec_of_int 0"] by simp
  then show ?thesis using v ols_solution_exact [OF _ _ _ _ _ sol]
    by (auto simp: ols_slope_def ols_intercept_def)
qed

lemma ols_step_untrap:
  "ols_step (trap_inexact ctx) xm ym acc xy = Inr z \<Longrightarrow> ols_step ctx xm ym acc xy = Inr z"
  by (cases acc; cases xy) (auto simp: ols_step_def result_simps dest!: dec_untrap)

lemma fold_ols_step_untrap:
  "fold_result (ols_step (trap_inexact ctx) xm ym) acc xs = Inr z \<Longrightarrow>
   fold_result (ols_step ctx xm ym) acc xs = Inr z"
  by (rule fold_result_mono [OF ols_step_untrap])

lemma ols_totals_untrap:
  "ols_totals (trap_inexact ctx) xs ys = Inr z \<Longrightarrow> ols_totals ctx xs ys = Inr z"
  by (auto simp: ols_totals_def Let_def result_simps dest!: dec_mean_untrap dest: fold_ols_step_untrap)

lemma ols_solution_untrap:
  "ols_solution (trap_inexact ctx) xm ym num den = Inr z \<Longrightarrow> ols_solution ctx xm ym num den = Inr z"
  by (auto simp: ols_solution_def result_simps dest!: dec_untrap)

lemma fit_parameters_untrap:
  "fit_parameters (trap_inexact ctx) xs ys = Inr (b, a) \<Longrightarrow> fit_parameters ctx xs ys = Inr (b, a)"
  unfolding fit_parameters_ok using ols_totals_untrap ols_solution_untrap by blast

lemma fit_lag24_untrap:
  "fit_dam_price_lag_24h_linear_regression (trap_inexact ctx) rows = Inr fit \<Longrightarrow>
   fit_dam_price_lag_24h_linear_regression ctx rows = Inr fit"
  unfolding fit_lag24_ok using fit_parameters_untrap by blast

lemma fit_lag24_exact:
  assumes run: "fit_dam_price_lag_24h_linear_regression (trap_inexact default_context) rows = Inr fit"
  shows "is_least_squares_line (dec_val (l24_slope fit)) (dec_val (l24_intercept fit))
    lag24_feature lag24_target rows"
proof -
  have rows: "\<forall>row \<in> set rows. finite_lag24_row row" "rows \<noteq> []"
    using run by (auto simp: fit_lag24_ok)
  have "fit_parameters (trap_inexact default_context) (map l24_lag_24h rows) (map l24_target rows)
      = Inr (l24_slope fit, l24_intercept fit)"
    using run by (simp add: fit_lag24_ok)
  then show ?thesis
    using fit_parameters_exact [OF rows] ols_line_optimal [OF rows(2)] by simp
qed

lemmas dam_lag24_fit_messages =
  dam_lag24_fit_too_few_rows_message_def dam_lag24_fit_mixed_market_message_def
  dam_lag24_fit_mixed_currency_message_def dam_lag24_fit_duplicate_timestamp_message_def
  dam_lag24_fit_out_of_order_message_def dam_lag24_fit_zero_variance_message_def
  dam_lag24_fit_non_finite_input_message_def dam_lag24_fit_non_finite_fit_message_def

lemma fit_parameters_zero_variance:
  "fit_parameters ctx xs ys = Inl (InvalidRequestError dam_lag24_fit_zero_variance_message) \<longleftrightarrow>
   (\<exists>xm ym num den. ols_totals ctx xs ys = Inr (xm, ym, num, den) \<and> dec_eq den (dec_of_int 0))"
proof
  assume "fit_parameters ctx xs ys = Inl (InvalidRequestError dam_lag24_fit_zero_variance_message)"
  then show "\<exists>xm ym num den. ols_totals ctx xs ys = Inr (xm, ym, num, den) \<and> dec_eq den (dec_of_int 0)"
    by (auto simp: fit_parameters_def compute_ols_def attempt_Inl_iff guard_decimal_Inl_iff result_simps
        dam_lag24_fit_messages split: if_splits prod.splits)
qed (auto simp: fit_parameters_def compute_ols_def guard_decimal_def)

lemma fit_lag24_zero_variance:
  "fit_dam_price_lag_24h_linear_regression ctx rows
     = Inl (InvalidRequestError dam_lag24_fit_zero_variance_message) \<longleftrightarrow>
   2 \<le> length rows \<and> good_lag24_rows rows \<and> (\<forall>row \<in> set rows. finite_lag24_row row) \<and>
   fit_parameters ctx (map l24_lag_24h rows) (map l24_target rows)
     = Inl (InvalidRequestError dam_lag24_fit_zero_variance_message)" (is "?fit \<longleftrightarrow> ?ok")
proof
  assume ?fit
  then show ?ok
    by (cases rows) (auto simp: fit_dam_price_lag_24h_linear_regression_def Let_def require_single_error
      attempt_Inl_iff check_Inl_iff require_all_finite_Inl_iff result_simps cohort_simps
      finite_lag24_row_def good_lag24_rows_def dam_lag24_fit_messages Suc_le_eq
      dest!: require_strict_chronology_error [rotated] split: if_splits prod.splits)
next
  assume ?ok
  then show ?fit
    by (auto simp: fit_dam_price_lag_24h_linear_regression_def Let_def check_Inl_iff attempt_Inl_iff
        result_simps cohort_simps good_lag24_rows_def finite_lag24_row_def)
qed

lemma prediction24_ok:
  "dam_lag24_prediction_for_row ctx fit row = Inr p \<longleftrightarrow>
   finite_lag24_row row \<and>
   (\<exists>m. dec_mul ctx (l24_slope fit) (l24_lag_24h row) = Inr m \<and>
      dec_add ctx m (l24_intercept fit) = Inr (p24_predicted p)) \<and>
   dec_is_finite (p24_predicted p) \<and> p24_market_id p = l24_market_id row \<and>
   p24_currency p = l24_currency row \<and> p24_target_timestamp p = l24_target_timestamp row \<and>
   p24_actual p = l24_target row"
  by (cases p) (auto simp: dam_lag24_prediction_for_row_def dam_lag24_predicted_amount_def
      finite_lag24_row_def result_simps)

section \<open>Properties\<close>

text \<open>A successful chronological split cuts the rows, in order, into the rows
  strictly before the cutoff and the rows from the cutoff on; neither part is empty.\<close>

theorem split_is_chronological_partition:
  assumes "split_dam_price_feature_rows_chronologically rows cutoff = Inr s"
  shows "l24_training_rows s @ l24_evaluation_rows s = rows \<and>
    l24_training_rows s \<noteq> [] \<and> l24_evaluation_rows s \<noteq> [] \<and>
    (\<forall>row \<in> set (l24_training_rows s). l24_target_timestamp row < cutoff) \<and>
    (\<forall>row \<in> set (l24_evaluation_rows s). cutoff \<le> l24_target_timestamp row)"
  using assms by (auto simp: split_lag24_ok good_lag24_rows_def chronological_partition)

definition sample_lag24_row :: "utc \<Rightarrow> nat \<Rightarrow> nat \<Rightarrow> dam_lag24_row" where
  "sample_lag24_row t x y =
     \<lparr>l24_market_id = ''AM'', l24_currency = ''AMD'', l24_target_timestamp = t,
      l24_lag_24h = DFin False x 0, l24_target = DFin False y 0\<rparr>"

definition sample_lag24_rows :: "dam_lag24_row list" where
  "sample_lag24_rows = [sample_lag24_row 1 1 3, sample_lag24_row 2 2 5, sample_lag24_row 3 3 7]"

lemmas sample_lag24_defs = sample_lag24_rows_def sample_lag24_row_def good_lag24_rows_def
  finite_lag24_row_def one_valued_def strictly_increasing_def

lemma sample_split:
  "split_dam_price_feature_rows_chronologically sample_lag24_rows 3
     = Inr \<lparr>l24_training_rows = [sample_lag24_row 1 1 3, sample_lag24_row 2 2 5],
            l24_evaluation_rows = [sample_lag24_row 3 3 7]\<rparr>"
  by (simp add: split_lag24_ok sample_lag24_defs)

theorem split_is_chronological_partition_witness:
  "[sample_lag24_row 1 1 3, sample_lag24_row 2 2 5] @ [sample_lag24_row 3 3 7] = sample_lag24_rows"
  using split_is_chronological_partition [OF sample_split] by simp

text \<open>C34: FIT-LEAST-SQUARES. When the fit runs without rounding (it succeeds with the Inexact signal
  trapped), the default context returns the same slope and intercept, and their line is the unique
  minimiser of the sum of squared errors over the training rows.\<close>

theorem fit_is_least_squares_line:
  assumes "fit_dam_price_lag_24h_linear_regression (trap_inexact default_context) rows = Inr fit"
  shows "fit_dam_price_lag_24h_linear_regression default_context rows = Inr fit \<and>
    is_least_squares_line (dec_val (l24_slope fit)) (dec_val (l24_intercept fit))
      (\<lambda>row. dec_val (l24_lag_24h row)) (\<lambda>row. dec_val (l24_target row)) rows"
  using fit_lag24_untrap [OF assms] fit_lag24_exact [OF assms] by blast

lemmas ols_eval = fit_parameters_def compute_ols_def ols_totals_def ols_solution_def dec_mean_def
  dec_sum_def ols_step_def guard_decimal_def decimal_fast

lemma sample_lag24_fit:
  "fit_dam_price_lag_24h_linear_regression (trap_inexact default_context) sample_lag24_rows
     = Inr \<lparr>l24_slope = DFin False 2 0, l24_intercept = DFin False 1 0\<rparr>"
  by (simp add: fit_lag24_ok sample_lag24_defs ols_eval cong: attempt_weak_cong)

theorem fit_is_least_squares_line_witness:
  "is_least_squares_line 2 1 (\<lambda>row. dec_val (l24_lag_24h row)) (\<lambda>row. dec_val (l24_target row))
     sample_lag24_rows"
  using fit_is_least_squares_line [OF sample_lag24_fit] by (simp add: magnitude_def)

text \<open>When the sums are computed without rounding, the fit refuses for zero
  variance exactly when all training features have the same value, and the default context
  refuses alike.\<close>

theorem fit_refuses_constant_feature:
  assumes "2 \<le> length rows" "good_lag24_rows rows" "\<forall>row \<in> set rows. finite_lag24_row row"
    and "ols_totals (trap_inexact default_context) (map l24_lag_24h rows) (map l24_target rows) = Inr z"
  shows "fit_dam_price_lag_24h_linear_regression default_context rows
      = Inl (InvalidRequestError dam_lag24_fit_zero_variance_message) \<longleftrightarrow>
    (\<forall>p \<in> set rows. \<forall>q \<in> set rows. dec_val (l24_lag_24h p) = dec_val (l24_lag_24h q))"
proof -
  obtain xm ym num den where run: "ols_totals (trap_inexact default_context) (map l24_lag_24h rows)
      (map l24_target rows) = Inr (xm, ym, num, den)"
    using assms(4) by (cases z) auto
  have ne: "rows \<noteq> []" using assms(1) by auto
  note den = ols_totals_exact(4) [OF assms(3) ne run]
  have "dec_eq den (dec_of_int 0) \<longleftrightarrow> cross lag24_feature lag24_feature rows = 0"
    using den by (simp add: dec_eq_finite)
  then show ?thesis
    using assms(1-3) ols_totals_untrap [OF run] cross_self_zero_iff [OF ne, of lag24_feature]
    by (simp add: fit_lag24_zero_variance fit_parameters_zero_variance)
qed

definition constant_lag24_rows :: "dam_lag24_row list" where
  "constant_lag24_rows = [sample_lag24_row 1 4 3, sample_lag24_row 2 4 5]"

theorem fit_refuses_constant_feature_witness:
  "fit_dam_price_lag_24h_linear_regression default_context constant_lag24_rows
     = Inl (InvalidRequestError dam_lag24_fit_zero_variance_message)"
proof -
  have run: "ols_totals (trap_inexact default_context) (map l24_lag_24h constant_lag24_rows)
      (map l24_target constant_lag24_rows) = Inr (DFin False 4 0, DFin False 4 0, DFin False 0 0, DFin False 0 0)"
    by (simp add: constant_lag24_rows_def sample_lag24_row_def ols_eval cong: attempt_weak_cong)
  show ?thesis
    by (subst fit_refuses_constant_feature [OF _ _ _ run])
       (simp_all add: constant_lag24_rows_def sample_lag24_defs)
qed

definition rounded_lag24_row :: "utc \<Rightarrow> nat \<Rightarrow> dam_lag24_row" where
  "rounded_lag24_row t y = sample_lag24_row t 0 y \<lparr>l24_lag_24h := DFin False 9999999999999999999999999999 (- 27)\<rparr>"

definition rounded_lag24_rows :: "dam_lag24_row list" where
  "rounded_lag24_rows = [rounded_lag24_row 1 1, rounded_lag24_row 2 2, rounded_lag24_row 3 3]"

text \<open>The zero-variance refusal can be missed: three rows with the same
  28-digit feature, whose mean rounds to another value, are fitted in the default context although
  the feature is constant.\<close>

theorem fit_accepts_constant_rounded_feature:
  "(\<exists>x. map l24_lag_24h rounded_lag24_rows = replicate 3 x) \<and>
   (\<exists>fit. fit_dam_price_lag_24h_linear_regression default_context rounded_lag24_rows = Inr fit)"
proof
  show "\<exists>x. map l24_lag_24h rounded_lag24_rows = replicate 3 x"
    by (simp add: rounded_lag24_rows_def rounded_lag24_row_def numeral_3_eq_3)
  let ?x = "DFin False 9999999999999999999999999999 (- 27)"
  let ?m = "DFin False 1000000000000000000000000000 (- 26)"
  have rounded: "dec_fix default_context False 19999999999999999999999999998 (- 27)
        = Inr (DFin False 2000000000000000000000000000 (- 26))"
      "dec_fix default_context False 29999999999999999999999999999 (- 27)
        = Inr (DFin False 3000000000000000000000000000 (- 26))"
    by (simp_all add: dec_fix_29_digits round_half_even_def Let_def)
  have quotient: "dec_div default_context (DFin False 3000000000000000000000000000 (- 26)) (DFin False 3 0) = Inr ?m"
    by (simp add: decimal_fast)
  have dev: "dec_sub default_context ?x ?m = Inr (DFin True 1 (- 27))"
    by (simp add: decimal_fast)
  have "fit_dam_price_lag_24h_linear_regression default_context rounded_lag24_rows
      = Inr \<lparr>l24_slope = DFin False 0 27, l24_intercept = DFin False 2 0\<rparr>"
    by (simp add: fit_lag24_ok rounded_lag24_rows_def rounded_lag24_row_def sample_lag24_defs ols_eval
        rounded quotient dev [unfolded dec_sub_def] cong: attempt_weak_cong)
  then show "\<exists>fit. fit_dam_price_lag_24h_linear_regression default_context rounded_lag24_rows = Inr fit"
    by blast
qed

end
