(* ===== verification/DAM_Lag168.thy ===== *)
theory DAM_Lag168
  imports DAM_Lag24
begin

text \<open>
  The two-feature experiment of ml/dam_price: rows with the exact 24-hour and 168-hour lags, the
  chronological split, the ordinary least-squares fit by the centred normal equations, predictions,
  their mean absolute error, and the live forecast model that serves a fit.
\<close>

section \<open>Feature rows (lag_24h_168h_features.py)\<close>

record dam_lag168_row =
  l168_market_id :: string
  l168_currency :: string
  l168_target_timestamp :: utc
  l168_lag_24h :: dec
  l168_lag_168h :: dec
  l168_target :: dec

definition dam_lags_24h_168h :: "int list" where
  "dam_lags_24h_168h = [timedelta_hours 24, timedelta_hours 168]"

definition dam_lag168_features_mixed_market_message :: string where
  "dam_lag168_features_mixed_market_message =
     ''DAM Price 24-hour and 168-hour lag features require history from exactly one market.''"

definition dam_lag168_features_mixed_currency_message :: string where
  "dam_lag168_features_mixed_currency_message =
     ''DAM Price 24-hour and 168-hour lag features require history in exactly one currency.''"

definition dam_lag168_features_duplicate_timestamp_message :: string where
  "dam_lag168_features_duplicate_timestamp_message =
     ''DAM Price 24-hour and 168-hour lag features require unique historical timestamps.''"

definition dam_lag168_row_for_target :: "market_price_record \<Rightarrow> market_price_record list \<Rightarrow> dam_lag168_row" where
  "dam_lag168_row_for_target target_record lagged =
     \<lparr>l168_market_id = mpr_market_id target_record, l168_currency = record_currency target_record,
      l168_target_timestamp = mpr_timestamp target_record,
      l168_lag_24h = amount_per_mwh (mpr_price (lagged ! 0)),
      l168_lag_168h = amount_per_mwh (mpr_price (lagged ! 1)),
      l168_target = amount_per_mwh (mpr_price target_record)\<rparr>"

definition build_dam_price_lag_24h_168h_feature_rows ::
    "market_price_record list \<Rightarrow> dam_lag168_row list result" where
  "build_dam_price_lag_24h_168h_feature_rows history =
     (if history = [] then Inr []
      else check (require_single mpr_market_id dam_lag168_features_mixed_market_message history)
        (check (require_single record_currency dam_lag168_features_mixed_currency_message history)
          (attempt (unique_timestamp_index mpr_timestamp dam_lag168_features_duplicate_timestamp_message history)
            (lag_rows dam_lag168_row_for_target dam_lags_24h_168h))))"

lemma build_dam_lag168_spec:
  "good_price_history dam_lags_24h_168h h \<Longrightarrow>
   build_dam_price_lag_24h_168h_feature_rows h
     = Inr (lag_rows_spec mpr_timestamp dam_lags_24h_168h dam_lag168_row_for_target h)"
  using unique_timestamp_index_ok [of mpr_timestamp dam_lag168_features_duplicate_timestamp_message h
      "map (\<lambda>r. (mpr_timestamp r, r)) h"]
  by (simp add: build_dam_price_lag_24h_168h_feature_rows_def good_price_history_def lag_rows_correct
      require_single_ok [of _ _ _ "()", THEN iffD2])

interpretation dam_lag168_features: lag_builder build_dam_price_lag_24h_168h_feature_rows
  "good_price_history dam_lags_24h_168h" mpr_timestamp l168_target_timestamp dam_lags_24h_168h
  dam_lag168_row_for_target
proof (unfold_locales, goal_cases)
  case (1 h)
  then show ?case by (rule build_dam_lag168_spec)
next
  case (2 h)
  then show ?case by (simp add: good_price_history_def)
next
  case (3 h P)
  then show ?case by (rule good_price_history_filter)
next
  case (4 h h')
  then show ?case by (rule good_price_history_mset)
next
  case (5 r rs)
  then show ?case by (simp add: dam_lag168_row_for_target_def)
next
  case (6 l)
  then show ?case by (auto simp: dam_lags_24h_168h_def)
qed

section \<open>Chronological split (lag_24h_168h_chronological_feature_split.py)\<close>

record dam_lag168_split =
  l168_training_rows :: "dam_lag168_row list"
  l168_evaluation_rows :: "dam_lag168_row list"

definition dam_lag168_split_empty_rows_message :: string where
  "dam_lag168_split_empty_rows_message =
     ''DAM Price 24h+168h chronological feature split requires at least one feature row.''"

definition dam_lag168_split_mixed_market_message :: string where
  "dam_lag168_split_mixed_market_message =
     ''DAM Price 24h+168h chronological feature split requires rows from exactly one market.''"

definition dam_lag168_split_mixed_currency_message :: string where
  "dam_lag168_split_mixed_currency_message =
     ''DAM Price 24h+168h chronological feature split requires rows in exactly one currency.''"

definition dam_lag168_split_duplicate_timestamp_message :: string where
  "dam_lag168_split_duplicate_timestamp_message =
     ''DAM Price 24h+168h chronological feature split requires unique target timestamps.''"

definition dam_lag168_split_out_of_order_message :: string where
  "dam_lag168_split_out_of_order_message =
     ''DAM Price 24h+168h chronological feature split requires strictly increasing target timestamps.''"

definition dam_lag168_split_empty_training_message :: string where
  "dam_lag168_split_empty_training_message =
     ''DAM Price 24h+168h chronological feature split requires a non-empty training partition.''"

definition dam_lag168_split_empty_evaluation_message :: string where
  "dam_lag168_split_empty_evaluation_message =
     ''DAM Price 24h+168h chronological feature split requires a non-empty evaluation partition.''"

definition split_dam_price_lag_24h_168h_feature_rows_chronologically ::
    "dam_lag168_row list \<Rightarrow> utc \<Rightarrow> dam_lag168_split result" where
  "split_dam_price_lag_24h_168h_feature_rows_chronologically rows cutoff =
     (if rows = [] then Inl (InvalidRequestError dam_lag168_split_empty_rows_message)
      else check (require_single l168_market_id dam_lag168_split_mixed_market_message rows)
        (check (require_single l168_currency dam_lag168_split_mixed_currency_message rows)
          (check (require_strict_chronology l168_target_timestamp
                    dam_lag168_split_duplicate_timestamp_message dam_lag168_split_out_of_order_message rows)
            (let training = filter (\<lambda>row. l168_target_timestamp row < cutoff) rows;
                 evaluation = filter (\<lambda>row. cutoff \<le> l168_target_timestamp row) rows in
             if training = [] then Inl (InvalidRequestError dam_lag168_split_empty_training_message)
             else if evaluation = [] then Inl (InvalidRequestError dam_lag168_split_empty_evaluation_message)
             else Inr \<lparr>l168_training_rows = training, l168_evaluation_rows = evaluation\<rparr>))))"

section \<open>Fit (lag_24h_168h_linear_regression.py)\<close>

record dam_lag168_fit =
  l168_lag_24h_coefficient :: dec
  l168_lag_168h_coefficient :: dec
  l168_intercept :: dec

definition dam_lag168_fit_too_few_rows_message :: string where
  "dam_lag168_fit_too_few_rows_message =
     ''DAM Price 24h+168h linear regression requires at least three training rows.''"

definition dam_lag168_fit_mixed_market_message :: string where
  "dam_lag168_fit_mixed_market_message =
     ''DAM Price 24h+168h linear regression requires rows from exactly one market.''"

definition dam_lag168_fit_mixed_currency_message :: string where
  "dam_lag168_fit_mixed_currency_message =
     ''DAM Price 24h+168h linear regression requires rows in exactly one currency.''"

definition dam_lag168_fit_duplicate_timestamp_message :: string where
  "dam_lag168_fit_duplicate_timestamp_message =
     ''DAM Price 24h+168h linear regression requires unique target timestamps.''"

definition dam_lag168_fit_out_of_order_message :: string where
  "dam_lag168_fit_out_of_order_message =
     ''DAM Price 24h+168h linear regression requires strictly increasing target timestamps.''"

definition dam_lag168_fit_singular_design_message :: string where
  "dam_lag168_fit_singular_design_message =
     ''DAM Price 24h+168h linear regression requires a full-rank two-feature design.''"

definition dam_lag168_fit_non_finite_input_message :: string where
  "dam_lag168_fit_non_finite_input_message =
     ''DAM Price 24h+168h linear regression requires finite feature and target values.''"

definition dam_lag168_fit_non_finite_fit_message :: string where
  "dam_lag168_fit_non_finite_fit_message =
     ''DAM Price 24h+168h linear regression requires finite fitted coefficients and intercept.''"

text \<open>The five accumulators of the loop.\<close>

record gram_sums =
  gs11 :: dec
  gs22 :: dec
  gs12 :: dec
  gt1 :: dec
  gt2 :: dec

definition gram_zero :: gram_sums where
  "gram_zero = \<lparr>gs11 = dec_of_int 0, gs22 = dec_of_int 0, gs12 = dec_of_int 0,
     gt1 = dec_of_int 0, gt2 = dec_of_int 0\<rparr>"

text \<open>\<open>accumulator += left * right\<close>\<close>

definition add_product :: "dec_context \<Rightarrow> dec \<Rightarrow> dec \<Rightarrow> dec \<Rightarrow> dec_signal + dec" where
  "add_product ctx accumulator left right =
     attempt (dec_mul ctx left right) (dec_add ctx accumulator)"

definition gram_step ::
    "dec_context \<Rightarrow> dec \<Rightarrow> dec \<Rightarrow> dec \<Rightarrow> gram_sums \<Rightarrow> dec \<times> dec \<times> dec \<Rightarrow> dec_signal + gram_sums" where
  "gram_step ctx x1_mean x2_mean y_mean acc xxy =
     (case xxy of (x1, x2, y) \<Rightarrow>
        attempt (dec_sub ctx x1 x1_mean) (\<lambda>dx1.
        attempt (dec_sub ctx x2 x2_mean) (\<lambda>dx2.
        attempt (dec_sub ctx y y_mean) (\<lambda>dy.
        attempt (add_product ctx (gs11 acc) dx1 dx1) (\<lambda>s11.
        attempt (add_product ctx (gs22 acc) dx2 dx2) (\<lambda>s22.
        attempt (add_product ctx (gs12 acc) dx1 dx2) (\<lambda>s12.
        attempt (add_product ctx (gt1 acc) dx1 dy) (\<lambda>t1.
        attempt (add_product ctx (gt2 acc) dx2 dy) (\<lambda>t2.
          Inr \<lparr>gs11 = s11, gs22 = s22, gs12 = s12, gt1 = t1, gt2 = t2\<rparr>)))))))))"

text \<open>\<open>left1 * right1 - left2 * right2\<close>, in evaluation order\<close>

definition product_difference :: "dec_context \<Rightarrow> dec \<Rightarrow> dec \<Rightarrow> dec \<Rightarrow> dec \<Rightarrow> dec_signal + dec" where
  "product_difference ctx left1 right1 left2 right2 =
     attempt (dec_mul ctx left1 right1) (\<lambda>p. attempt (dec_mul ctx left2 right2) (dec_sub ctx p))"

record gram_totals =
  gram_x1_mean :: dec
  gram_x2_mean :: dec
  gram_y_mean :: dec
  gram_sums_of :: gram_sums
  gram_det :: dec

definition compute_gram_totals ::
    "dec_context \<Rightarrow> dec list \<Rightarrow> dec list \<Rightarrow> dec list \<Rightarrow> dec_signal + gram_totals" where
  "compute_gram_totals ctx lag_24h_values lag_168h_values targets =
     (let n = dec_of_int (int (length targets)) in
      attempt (dec_mean ctx lag_24h_values n) (\<lambda>x1_mean.
      attempt (dec_mean ctx lag_168h_values n) (\<lambda>x2_mean.
      attempt (dec_mean ctx targets n) (\<lambda>y_mean.
      attempt (fold_result (gram_step ctx x1_mean x2_mean y_mean) gram_zero
                 (zip lag_24h_values (zip lag_168h_values targets))) (\<lambda>acc.
      attempt (product_difference ctx (gs11 acc) (gs22 acc) (gs12 acc) (gs12 acc)) (\<lambda>determinant.
        Inr \<lparr>gram_x1_mean = x1_mean, gram_x2_mean = x2_mean, gram_y_mean = y_mean,
             gram_sums_of = acc, gram_det = determinant\<rparr>))))))"

definition gram_aggregates :: "gram_totals \<Rightarrow> dec list" where
  "gram_aggregates g =
     (let s = gram_sums_of g in
      [gram_x1_mean g, gram_x2_mean g, gram_y_mean g, gs11 s, gs22 s, gs12 s, gt1 s, gt2 s, gram_det g])"

definition gram_solution :: "dec_context \<Rightarrow> gram_totals \<Rightarrow> dec_signal + dec \<times> dec \<times> dec" where
  "gram_solution ctx g =
     (let s = gram_sums_of g in
      attempt (product_difference ctx (gt1 s) (gs22 s) (gt2 s) (gs12 s)) (\<lambda>n1.
      attempt (dec_div ctx n1 (gram_det g)) (\<lambda>lag_24h_coefficient.
      attempt (product_difference ctx (gt2 s) (gs11 s) (gt1 s) (gs12 s)) (\<lambda>n2.
      attempt (dec_div ctx n2 (gram_det g)) (\<lambda>lag_168h_coefficient.
      attempt (dec_mul ctx lag_24h_coefficient (gram_x1_mean g)) (\<lambda>o1.
      attempt (dec_sub ctx (gram_y_mean g) o1) (\<lambda>partial_intercept.
      attempt (dec_mul ctx lag_168h_coefficient (gram_x2_mean g)) (\<lambda>o2.
      attempt (dec_sub ctx partial_intercept o2) (\<lambda>intercept.
        Inr (lag_24h_coefficient, lag_168h_coefficient, intercept))))))))))"

definition compute_ols_168 ::
    "dec_context \<Rightarrow> dec list \<Rightarrow> dec list \<Rightarrow> dec list \<Rightarrow> (dec \<times> dec \<times> dec) result" where
  "compute_ols_168 ctx lag_24h_values lag_168h_values targets =
     attempt (guard_decimal dam_lag168_fit_non_finite_fit_message
                (compute_gram_totals ctx lag_24h_values lag_168h_values targets)) (\<lambda>g.
     check (require_all_finite dam_lag168_fit_non_finite_fit_message (gram_aggregates g))
       (attempt (raise_signal (dec_le_zero ctx (gram_det g))) (\<lambda>singular.
          if singular then Inl (InvalidRequestError dam_lag168_fit_singular_design_message)
          else guard_decimal dam_lag168_fit_non_finite_fit_message (gram_solution ctx g))))"

definition fit_dam_price_lag_24h_168h_linear_regression ::
    "dec_context \<Rightarrow> dam_lag168_row list \<Rightarrow> dam_lag168_fit result" where
  "fit_dam_price_lag_24h_168h_linear_regression ctx training_rows =
     (if length training_rows < 3 then Inl (InvalidRequestError dam_lag168_fit_too_few_rows_message)
      else check (require_single l168_market_id dam_lag168_fit_mixed_market_message training_rows)
        (check (require_single l168_currency dam_lag168_fit_mixed_currency_message training_rows)
          (check (require_strict_chronology l168_target_timestamp
                    dam_lag168_fit_duplicate_timestamp_message dam_lag168_fit_out_of_order_message
                    training_rows)
            (let lag_24h_values = map l168_lag_24h training_rows;
                 lag_168h_values = map l168_lag_168h training_rows;
                 targets = map l168_target training_rows in
             check (require_all_finite dam_lag168_fit_non_finite_input_message
                      (lag_24h_values @ lag_168h_values @ targets))
               (attempt (compute_ols_168 ctx lag_24h_values lag_168h_values targets) (\<lambda>(b1, b2, a).
                 if \<not> dec_is_finite b1 \<or> \<not> dec_is_finite b2 \<or> \<not> dec_is_finite a
                 then Inl (InvalidRequestError dam_lag168_fit_non_finite_fit_message)
                 else Inr \<lparr>l168_lag_24h_coefficient = b1, l168_lag_168h_coefficient = b2,
                           l168_intercept = a\<rparr>))))))"

section \<open>Predictions (lag_24h_168h_linear_regression_prediction.py)\<close>

record dam_lag168_prediction =
  p168_market_id :: string
  p168_currency :: string
  p168_target_timestamp :: utc
  p168_predicted :: dec
  p168_actual :: dec

definition dam_lag168_prediction_empty_rows_message :: string where
  "dam_lag168_prediction_empty_rows_message =
     ''DAM Price 24h+168h linear regression prediction requires at least one evaluation row.''"

definition dam_lag168_prediction_mixed_market_message :: string where
  "dam_lag168_prediction_mixed_market_message =
     ''DAM Price 24h+168h linear regression prediction requires rows from exactly one market.''"

definition dam_lag168_prediction_mixed_currency_message :: string where
  "dam_lag168_prediction_mixed_currency_message =
     ''DAM Price 24h+168h linear regression prediction requires rows in exactly one currency.''"

definition dam_lag168_prediction_duplicate_timestamp_message :: string where
  "dam_lag168_prediction_duplicate_timestamp_message =
     ''DAM Price 24h+168h linear regression prediction requires unique target timestamps.''"

definition dam_lag168_prediction_out_of_order_message :: string where
  "dam_lag168_prediction_out_of_order_message =
     ''DAM Price 24h+168h linear regression prediction requires strictly increasing target timestamps.''"

definition dam_lag168_prediction_non_finite_fit_message :: string where
  "dam_lag168_prediction_non_finite_fit_message =
     ''DAM Price 24h+168h linear regression prediction requires finite fitted coefficients and intercept.''"

definition dam_lag168_prediction_non_finite_input_message :: string where
  "dam_lag168_prediction_non_finite_input_message =
     ''DAM Price 24h+168h linear regression prediction requires finite feature and target values.''"

definition dam_lag168_prediction_non_finite_prediction_message :: string where
  "dam_lag168_prediction_non_finite_prediction_message =
     ''DAM Price 24h+168h linear regression prediction requires finite predicted values.''"

text \<open>\<open>b1 * x1 + b2 * x2 + a\<close>, as both the predictor and the live model compute it.\<close>

definition plane_amount :: "dec_context \<Rightarrow> dam_lag168_fit \<Rightarrow> dec \<Rightarrow> dec \<Rightarrow> dec_signal + dec" where
  "plane_amount ctx fit x1 x2 =
     attempt (dec_mul ctx (l168_lag_24h_coefficient fit) x1) (\<lambda>p1.
     attempt (dec_mul ctx (l168_lag_168h_coefficient fit) x2) (\<lambda>p2.
     attempt (dec_add ctx p1 p2) (\<lambda>s. dec_add ctx s (l168_intercept fit))))"

definition dam_lag168_predicted_amount :: "dec_context \<Rightarrow> dam_lag168_fit \<Rightarrow> dam_lag168_row \<Rightarrow> dec result" where
  "dam_lag168_predicted_amount ctx fit row =
     (if \<not> dec_is_finite (l168_lag_24h row) \<or> \<not> dec_is_finite (l168_lag_168h row) \<or>
         \<not> dec_is_finite (l168_target row)
      then Inl (InvalidRequestError dam_lag168_prediction_non_finite_input_message)
      else attempt (guard_decimal dam_lag168_prediction_non_finite_prediction_message
                (plane_amount ctx fit (l168_lag_24h row) (l168_lag_168h row))) (\<lambda>predicted.
             check (require_finite dam_lag168_prediction_non_finite_prediction_message predicted)
               (Inr predicted)))"

definition dam_lag168_prediction_for_row ::
    "dec_context \<Rightarrow> dam_lag168_fit \<Rightarrow> dam_lag168_row \<Rightarrow> dam_lag168_prediction result" where
  "dam_lag168_prediction_for_row ctx fit row =
     attempt (dam_lag168_predicted_amount ctx fit row) (\<lambda>predicted.
       Inr \<lparr>p168_market_id = l168_market_id row, p168_currency = l168_currency row,
            p168_target_timestamp = l168_target_timestamp row, p168_predicted = predicted,
            p168_actual = l168_target row\<rparr>)"

definition dam_lag168_require_finite_fit :: "string \<Rightarrow> dam_lag168_fit \<Rightarrow> unit result" where
  "dam_lag168_require_finite_fit msg fit =
     raise_if (\<not> dec_is_finite (l168_lag_24h_coefficient fit) \<or>
               \<not> dec_is_finite (l168_lag_168h_coefficient fit) \<or> \<not> dec_is_finite (l168_intercept fit))
       (InvalidRequestError msg)"

definition predict_dam_price_lag_24h_168h_linear_regression ::
    "dec_context \<Rightarrow> dam_lag168_fit \<Rightarrow> dam_lag168_row list \<Rightarrow> dam_lag168_prediction list result" where
  "predict_dam_price_lag_24h_168h_linear_regression ctx fit evaluation_rows =
     (if evaluation_rows = [] then Inl (InvalidRequestError dam_lag168_prediction_empty_rows_message)
      else check (require_single l168_market_id dam_lag168_prediction_mixed_market_message evaluation_rows)
        (check (require_single l168_currency dam_lag168_prediction_mixed_currency_message evaluation_rows)
          (check (require_strict_chronology l168_target_timestamp
                    dam_lag168_prediction_duplicate_timestamp_message
                    dam_lag168_prediction_out_of_order_message evaluation_rows)
            (check (dam_lag168_require_finite_fit dam_lag168_prediction_non_finite_fit_message fit)
              (map_result (dam_lag168_prediction_for_row ctx fit) evaluation_rows)))))"

section \<open>Mean absolute error (lag_24h_168h_linear_regression_evaluation.py)\<close>

record dam_lag168_mae_result =
  m168_case_count :: nat
  m168_currency :: string
  m168_mae_amount_per_mwh :: dec

definition dam_lag168_mae_empty_predictions_message :: string where
  "dam_lag168_mae_empty_predictions_message =
     ''DAM Price 24h+168h linear regression MAE evaluation requires at least one prediction.''"

definition dam_lag168_mae_mixed_market_message :: string where
  "dam_lag168_mae_mixed_market_message =
     ''DAM Price 24h+168h linear regression MAE evaluation requires predictions from exactly one market.''"

definition dam_lag168_mae_mixed_currency_message :: string where
  "dam_lag168_mae_mixed_currency_message =
     ''DAM Price 24h+168h linear regression MAE evaluation requires predictions in exactly one currency.''"

definition dam_lag168_mae_duplicate_timestamp_message :: string where
  "dam_lag168_mae_duplicate_timestamp_message =
     ''DAM Price 24h+168h linear regression MAE evaluation requires unique target timestamps.''"

definition dam_lag168_mae_out_of_order_message :: string where
  "dam_lag168_mae_out_of_order_message =
     ''DAM Price 24h+168h linear regression MAE evaluation requires strictly increasing target timestamps.''"

definition dam_lag168_mae_non_finite_values_message :: string where
  "dam_lag168_mae_non_finite_values_message =
     ''DAM Price 24h+168h linear regression MAE evaluation requires finite predicted and actual values.''"

definition dam_lag168_mae_non_finite_mae_message :: string where
  "dam_lag168_mae_non_finite_mae_message =
     ''DAM Price 24h+168h linear regression MAE evaluation requires a finite MAE.''"

definition p168_amounts :: "dam_lag168_prediction \<Rightarrow> dec \<times> dec" where
  "p168_amounts p = (p168_predicted p, p168_actual p)"

definition evaluate_dam_price_lag_24h_168h_linear_regression_mae ::
    "dec_context \<Rightarrow> dam_lag168_prediction list \<Rightarrow> dam_lag168_mae_result result" where
  "evaluate_dam_price_lag_24h_168h_linear_regression_mae ctx predictions =
     (if predictions = [] then Inl (InvalidRequestError dam_lag168_mae_empty_predictions_message)
      else check (require_single p168_market_id dam_lag168_mae_mixed_market_message predictions)
        (check (require_single p168_currency dam_lag168_mae_mixed_currency_message predictions)
          (check (require_strict_chronology p168_target_timestamp
                    dam_lag168_mae_duplicate_timestamp_message dam_lag168_mae_out_of_order_message
                    predictions)
            (check (require_all_finite dam_lag168_mae_non_finite_values_message
                      (concat (map (\<lambda>p. [p168_predicted p, p168_actual p]) predictions)))
              (attempt (guard_decimal dam_lag168_mae_non_finite_mae_message
                          (total_abs_error ctx (map p168_amounts predictions))) (\<lambda>total_error.
               check (require_finite dam_lag168_mae_non_finite_mae_message total_error)
               (attempt (guard_decimal dam_lag168_mae_non_finite_mae_message
                          (dec_div ctx total_error (dec_of_int (int (length predictions))))) (\<lambda>mae.
                 check (require_finite dam_lag168_mae_non_finite_mae_message mae)
                   (Inr \<lparr>m168_case_count = length predictions,
                        m168_currency = p168_currency (hd predictions),
                        m168_mae_amount_per_mwh = mae\<rparr>)))))))))"

section \<open>Live model (lag_24h_168h_ols_forecast.py)\<close>

definition dam_ols_forecast_missing_lag_24h_message :: string where
  "dam_ols_forecast_missing_lag_24h_message =
     ''DAM Price trained OLS live inference requires exactly one history observation at the 24-hour lag.''"

definition dam_ols_forecast_missing_lag_168h_message :: string where
  "dam_ols_forecast_missing_lag_168h_message =
     ''DAM Price trained OLS live inference requires exactly one history observation at the 168-hour lag.''"

definition dam_ols_forecast_duplicate_lag_24h_message :: string where
  "dam_ols_forecast_duplicate_lag_24h_message =
     ''DAM Price trained OLS live inference requires a unique 24-hour lag observation.''"

definition dam_ols_forecast_duplicate_lag_168h_message :: string where
  "dam_ols_forecast_duplicate_lag_168h_message =
     ''DAM Price trained OLS live inference requires a unique 168-hour lag observation.''"

definition dam_ols_forecast_non_finite_fit_message :: string where
  "dam_ols_forecast_non_finite_fit_message =
     ''DAM Price trained OLS live inference requires finite fitted coefficients and intercept.''"

definition dam_ols_forecast_non_finite_prediction_message :: string where
  "dam_ols_forecast_non_finite_prediction_message =
     ''DAM Price trained OLS live inference requires a finite forecast price.''"

text \<open>The constructor refuses a fit that is not finite; the model is the fit it keeps.\<close>

definition make_ols_dam_price_model :: "dam_lag168_fit \<Rightarrow> dam_lag168_fit result" where
  "make_ols_dam_price_model fit =
     check (dam_lag168_require_finite_fit dam_ols_forecast_non_finite_fit_message fit) (Inr fit)"

definition dam_ols_point_for_target ::
    "dec_context \<Rightarrow> dam_lag168_fit \<Rightarrow> dam_price_request \<Rightarrow> utc \<Rightarrow> price_forecast_point result" where
  "dam_ols_point_for_target ctx fit request target =
     attempt (datetime_minus target (timedelta_hours 24)) (\<lambda>reference_24h.
     attempt (unique_lag_observation mpr_timestamp dam_ols_forecast_missing_lag_24h_message
                dam_ols_forecast_duplicate_lag_24h_message (dpr_history request) reference_24h) (\<lambda>lag_24h.
     attempt (datetime_minus target (timedelta_hours 168)) (\<lambda>reference_168h.
     attempt (unique_lag_observation mpr_timestamp dam_ols_forecast_missing_lag_168h_message
                dam_ols_forecast_duplicate_lag_168h_message (dpr_history request) reference_168h) (\<lambda>lag_168h.
     attempt (guard_decimal dam_ols_forecast_non_finite_prediction_message
                (plane_amount ctx fit (amount_per_mwh (mpr_price lag_24h))
                   (amount_per_mwh (mpr_price lag_168h)))) (\<lambda>raw_prediction.
     check (require_finite dam_ols_forecast_non_finite_prediction_message raw_prediction)
       (attempt (validate_energy_price raw_prediction (dpr_currency request)) (\<lambda>price.
          validate_price_forecast_point
            \<lparr>pfp_forecast_run_id = dpr_forecast_run_id request, pfp_market_id = dpr_market_id request,
             pfp_generated_at = dpr_generated_at request, pfp_target_timestamp = target,
             pfp_price = price\<rparr>)))))))"

definition dam_ols_forecast ::
    "dec_context \<Rightarrow> dam_lag168_fit \<Rightarrow> dam_price_request \<Rightarrow> price_forecast_point list result" where
  "dam_ols_forecast ctx fit request =
     map_result (dam_ols_point_for_target ctx fit request) (dpr_target_timestamps request)"

section \<open>What the operations accept\<close>

definition good_lag168_rows :: "dam_lag168_row list \<Rightarrow> bool" where
  "good_lag168_rows rows \<longleftrightarrow>
     rows \<noteq> [] \<and> one_valued l168_market_id rows \<and> one_valued l168_currency rows \<and>
     strictly_increasing l168_target_timestamp rows"

definition finite_lag168_row :: "dam_lag168_row \<Rightarrow> bool" where
  "finite_lag168_row row \<longleftrightarrow>
     dec_is_finite (l168_lag_24h row) \<and> dec_is_finite (l168_lag_168h row) \<and> dec_is_finite (l168_target row)"

definition finite_lag168_fit :: "dam_lag168_fit \<Rightarrow> bool" where
  "finite_lag168_fit fit \<longleftrightarrow>
     dec_is_finite (l168_lag_24h_coefficient fit) \<and> dec_is_finite (l168_lag_168h_coefficient fit) \<and>
     dec_is_finite (l168_intercept fit)"

definition good_lag168_predictions :: "dam_lag168_prediction list \<Rightarrow> bool" where
  "good_lag168_predictions ps \<longleftrightarrow>
     ps \<noteq> [] \<and> one_valued p168_market_id ps \<and> one_valued p168_currency ps \<and>
     strictly_increasing p168_target_timestamp ps"

lemma split_lag168_ok:
  "split_dam_price_lag_24h_168h_feature_rows_chronologically rows cutoff = Inr s \<longleftrightarrow>
   good_lag168_rows rows \<and>
   l168_training_rows s = filter (\<lambda>row. l168_target_timestamp row < cutoff) rows \<and>
   l168_evaluation_rows s = filter (\<lambda>row. cutoff \<le> l168_target_timestamp row) rows \<and>
   l168_training_rows s \<noteq> [] \<and> l168_evaluation_rows s \<noteq> []"
  by (cases s) (auto simp: split_dam_price_lag_24h_168h_feature_rows_chronologically_def
      good_lag168_rows_def Let_def result_simps cohort_simps)

lemma require_finite_fit168_ok [result_simps]:
  "dam_lag168_require_finite_fit msg fit = Inr u \<longleftrightarrow> finite_lag168_fit fit"
  by (auto simp: dam_lag168_require_finite_fit_def finite_lag168_fit_def result_simps)

lemma fit_lag168_ok:
  "fit_dam_price_lag_24h_168h_linear_regression ctx rows = Inr fit \<longleftrightarrow>
   3 \<le> length rows \<and> good_lag168_rows rows \<and> (\<forall>row \<in> set rows. finite_lag168_row row) \<and>
   compute_ols_168 ctx (map l168_lag_24h rows) (map l168_lag_168h rows) (map l168_target rows)
     = Inr (l168_lag_24h_coefficient fit, l168_lag_168h_coefficient fit, l168_intercept fit) \<and>
   finite_lag168_fit fit"
  by (cases fit) (auto simp: fit_dam_price_lag_24h_168h_linear_regression_def good_lag168_rows_def
      finite_lag168_row_def finite_lag168_fit_def Let_def result_simps cohort_simps)

lemma predict_lag168_ok:
  "predict_dam_price_lag_24h_168h_linear_regression ctx fit rows = Inr ps \<longleftrightarrow>
   good_lag168_rows rows \<and> finite_lag168_fit fit \<and>
   list_all2 (\<lambda>row p. dam_lag168_prediction_for_row ctx fit row = Inr p) rows ps"
  by (auto simp: predict_dam_price_lag_24h_168h_linear_regression_def good_lag168_rows_def
      result_simps cohort_simps map_result_Inr_iff)

lemma evaluate_lag168_ok:
  "evaluate_dam_price_lag_24h_168h_linear_regression_mae ctx ps = Inr r \<longleftrightarrow>
   good_lag168_predictions ps \<and> (\<forall>p \<in> set ps. pair_finite (p168_amounts p)) \<and>
   (\<exists>s. total_abs_error ctx (map p168_amounts ps) = Inr s \<and> dec_is_finite s \<and>
      dec_div ctx s (dec_of_int (int (length ps))) = Inr (m168_mae_amount_per_mwh r)) \<and>
   dec_is_finite (m168_mae_amount_per_mwh r) \<and>
   m168_case_count r = length ps \<and> m168_currency r = p168_currency (hd ps)"
  by (cases r) (auto simp: evaluate_dam_price_lag_24h_168h_linear_regression_mae_def
      good_lag168_predictions_def p168_amounts_def pair_finite_def result_simps cohort_simps)

text \<open>Every refusal is an \<open>InvalidRequestError\<close>.\<close>

lemma compute_ols_168_error: "compute_ols_168 ctx xs1 xs2 ys = Inl e \<Longrightarrow> \<exists>m. e = InvalidRequestError m"
proof -
  have no_nan: "dec_le_zero ctx (gram_det g) = Inl sig \<Longrightarrow>
      require_all_finite m (gram_aggregates g) = Inr u \<Longrightarrow> False" for g sig m u
    by (auto simp: gram_aggregates_def Let_def result_simps dec_le_zero_finite)
  show "compute_ols_168 ctx xs1 xs2 ys = Inl e \<Longrightarrow> \<exists>m. e = InvalidRequestError m"
    by (auto simp: compute_ols_168_def attempt_Inl_iff check_Inl_iff guard_decimal_Inl_iff
        raise_signal_Inl_iff require_all_finite_def raise_if_Inl_iff
        dest: no_nan [unfolded require_all_finite_def] split: if_splits)
qed

lemma fit_lag168_error:
  "fit_dam_price_lag_24h_168h_linear_regression ctx rows = Inl e \<Longrightarrow> \<exists>m. e = InvalidRequestError m"
  by (cases rows) (auto simp: fit_dam_price_lag_24h_168h_linear_regression_def Let_def require_single_error
      raise_if_Inl_iff attempt_Inl_iff check_Inl_iff require_all_finite_def
      dest!: require_strict_chronology_errorD compute_ols_168_error split: if_splits prod.splits)

lemma predict_lag168_error:
  "predict_dam_price_lag_24h_168h_linear_regression ctx fit rows = Inl e \<Longrightarrow> \<exists>m. e = InvalidRequestError m"
  by (auto simp: predict_dam_price_lag_24h_168h_linear_regression_def require_single_error
      raise_if_Inl_iff attempt_Inl_iff check_Inl_iff dam_lag168_require_finite_fit_def
      dam_lag168_prediction_for_row_def dam_lag168_predicted_amount_def guard_decimal_Inl_iff
      require_finite_def
      dest!: map_result_Inl require_strict_chronology_errorD split: if_splits)

lemma evaluate_lag168_error:
  "evaluate_dam_price_lag_24h_168h_linear_regression_mae ctx ps = Inl e \<Longrightarrow> \<exists>m. e = InvalidRequestError m"
  by (auto simp: evaluate_dam_price_lag_24h_168h_linear_regression_mae_def require_single_error
      raise_if_Inl_iff attempt_Inl_iff check_Inl_iff guard_decimal_Inl_iff require_finite_def
      require_all_finite_def dest!: require_strict_chronology_errorD split: if_splits)

section \<open>The fit without rounding\<close>

abbreviation lag168_x1 :: "dam_lag168_row \<Rightarrow> rat" where "lag168_x1 row \<equiv> dec_val (l168_lag_24h row)"
abbreviation lag168_x2 :: "dam_lag168_row \<Rightarrow> rat" where "lag168_x2 row \<equiv> dec_val (l168_lag_168h row)"
abbreviation lag168_y :: "dam_lag168_row \<Rightarrow> rat" where "lag168_y row \<equiv> dec_val (l168_target row)"

abbreviation (input) exact_context :: dec_context where
  "exact_context \<equiv> trap_inexact default_context"

lemma add_product_exact:
  "add_product exact_context s x y = Inr z \<Longrightarrow> dec_is_finite s \<Longrightarrow> dec_is_finite x \<Longrightarrow> dec_is_finite y \<Longrightarrow>
   dec_is_finite z \<and> dec_val z = dec_val s + dec_val x * dec_val y"
  by (auto simp: add_product_def result_simps dest!: exact_steps)

lemma product_difference_exact:
  "product_difference exact_context w x y z = Inr d \<Longrightarrow> dec_is_finite w \<Longrightarrow> dec_is_finite x \<Longrightarrow>
   dec_is_finite y \<Longrightarrow> dec_is_finite z \<Longrightarrow>
   dec_is_finite d \<and> dec_val d = dec_val w * dec_val x - dec_val y * dec_val z"
  by (auto simp: product_difference_def result_simps dest!: exact_steps)

definition finite_sums :: "gram_sums \<Rightarrow> bool" where
  "finite_sums s \<longleftrightarrow> dec_is_finite (gs11 s) \<and> dec_is_finite (gs22 s) \<and> dec_is_finite (gs12 s) \<and>
     dec_is_finite (gt1 s) \<and> dec_is_finite (gt2 s)"

lemma gram_step_exact:
  assumes "dec_is_finite m1" "dec_is_finite m2" "dec_is_finite my" "finite_sums acc"
    and "finite_lag168_row row"
    and "gram_step exact_context m1 m2 my acc (l168_lag_24h row, l168_lag_168h row, l168_target row) = Inr acc'"
  shows "finite_sums acc' \<and>
    dec_val (gs11 acc') = dec_val (gs11 acc) + (lag168_x1 row - dec_val m1) * (lag168_x1 row - dec_val m1) \<and>
    dec_val (gs22 acc') = dec_val (gs22 acc) + (lag168_x2 row - dec_val m2) * (lag168_x2 row - dec_val m2) \<and>
    dec_val (gs12 acc') = dec_val (gs12 acc) + (lag168_x1 row - dec_val m1) * (lag168_x2 row - dec_val m2) \<and>
    dec_val (gt1 acc') = dec_val (gt1 acc) + (lag168_x1 row - dec_val m1) * (lag168_y row - dec_val my) \<and>
    dec_val (gt2 acc') = dec_val (gt2 acc) + (lag168_x2 row - dec_val m2) * (lag168_y row - dec_val my)"
  using assms
  by (auto simp: gram_step_def finite_sums_def finite_lag168_row_def result_simps
      dest!: exact_steps(1) add_product_exact)

lemma gram_fold_exact:
  assumes "\<forall>row \<in> set rows. finite_lag168_row row"
    and m1: "dec_is_finite m1 \<and> dec_val m1 = mean lag168_x1 rows"
    and m2: "dec_is_finite m2 \<and> dec_val m2 = mean lag168_x2 rows"
    and my: "dec_is_finite my \<and> dec_val my = mean lag168_y rows"
    and run: "fold_result (gram_step exact_context m1 m2 my) gram_zero
        (map (\<lambda>row. (l168_lag_24h row, l168_lag_168h row, l168_target row)) rows) = Inr acc"
  shows "finite_sums acc" and "dec_val (gs11 acc) = cross lag168_x1 lag168_x1 rows"
    and "dec_val (gs22 acc) = cross lag168_x2 lag168_x2 rows"
    and "dec_val (gs12 acc) = cross lag168_x1 lag168_x2 rows"
    and "dec_val (gt1 acc) = cross lag168_x1 lag168_y rows"
    and "dec_val (gt2 acc) = cross lag168_x2 lag168_y rows"
proof -
  let ?f = "\<lambda>acc row. gram_step exact_context m1 m2 my acc (l168_lag_24h row, l168_lag_168h row, l168_target row)"
  have run': "fold_result ?f gram_zero rows = Inr acc"
    using run by (simp add: fold_result_map)
  have zero: "finite_sums gram_zero" by (simp add: finite_sums_def gram_zero_def)
  have step: "finite_sums acc' \<and>
    dec_val (gs11 acc') = dec_val (gs11 acc) + deviation lag168_x1 rows row * deviation lag168_x1 rows row \<and>
    dec_val (gs22 acc') = dec_val (gs22 acc) + deviation lag168_x2 rows row * deviation lag168_x2 rows row \<and>
    dec_val (gs12 acc') = dec_val (gs12 acc) + deviation lag168_x1 rows row * deviation lag168_x2 rows row \<and>
    dec_val (gt1 acc') = dec_val (gt1 acc) + deviation lag168_x1 rows row * deviation lag168_y rows row \<and>
    dec_val (gt2 acc') = dec_val (gt2 acc) + deviation lag168_x2 rows row * deviation lag168_y rows row"
    if "finite_sums acc" "finite_lag168_row row" "?f acc row = Inr acc'" for acc row acc'
    using gram_step_exact [OF _ _ _ that] m1 m2 my unfolding deviation_def by simp
  note total = fold_result_sum [where f = ?f and Q = finite_sums and P = finite_lag168_row,
      OF _ zero assms(1) run']
  have "finite_sums acc \<and> dec_val (gs11 acc) = dec_val (gs11 gram_zero) + cross lag168_x1 lag168_x1 rows"
    unfolding cross_def by (rule total) (use step in blast)
  then show "finite_sums acc" "dec_val (gs11 acc) = cross lag168_x1 lag168_x1 rows"
    by (simp_all add: gram_zero_def)
  have "finite_sums acc \<and> dec_val (gs22 acc) = dec_val (gs22 gram_zero) + cross lag168_x2 lag168_x2 rows"
    unfolding cross_def by (rule total) (use step in blast)
  then show "dec_val (gs22 acc) = cross lag168_x2 lag168_x2 rows" by (simp add: gram_zero_def)
  have "finite_sums acc \<and> dec_val (gs12 acc) = dec_val (gs12 gram_zero) + cross lag168_x1 lag168_x2 rows"
    unfolding cross_def by (rule total) (use step in blast)
  then show "dec_val (gs12 acc) = cross lag168_x1 lag168_x2 rows" by (simp add: gram_zero_def)
  have "finite_sums acc \<and> dec_val (gt1 acc) = dec_val (gt1 gram_zero) + cross lag168_x1 lag168_y rows"
    unfolding cross_def by (rule total) (use step in blast)
  then show "dec_val (gt1 acc) = cross lag168_x1 lag168_y rows" by (simp add: gram_zero_def)
  have "finite_sums acc \<and> dec_val (gt2 acc) = dec_val (gt2 gram_zero) + cross lag168_x2 lag168_y rows"
    unfolding cross_def by (rule total) (use step in blast)
  then show "dec_val (gt2 acc) = cross lag168_x2 lag168_y rows" by (simp add: gram_zero_def)
qed

definition exact_gram :: "dam_lag168_row list \<Rightarrow> gram_totals \<Rightarrow> bool" where
  "exact_gram rows g \<longleftrightarrow>
     dec_is_finite (gram_x1_mean g) \<and> dec_val (gram_x1_mean g) = mean lag168_x1 rows \<and>
     dec_is_finite (gram_x2_mean g) \<and> dec_val (gram_x2_mean g) = mean lag168_x2 rows \<and>
     dec_is_finite (gram_y_mean g) \<and> dec_val (gram_y_mean g) = mean lag168_y rows \<and>
     finite_sums (gram_sums_of g) \<and>
     dec_val (gs11 (gram_sums_of g)) = cross lag168_x1 lag168_x1 rows \<and>
     dec_val (gs22 (gram_sums_of g)) = cross lag168_x2 lag168_x2 rows \<and>
     dec_val (gs12 (gram_sums_of g)) = cross lag168_x1 lag168_x2 rows \<and>
     dec_val (gt1 (gram_sums_of g)) = cross lag168_x1 lag168_y rows \<and>
     dec_val (gt2 (gram_sums_of g)) = cross lag168_x2 lag168_y rows \<and>
     dec_is_finite (gram_det g) \<and> dec_val (gram_det g) = gram_determinant lag168_x1 lag168_x2 rows"

lemma gram_totals_exact:
  assumes rows: "\<forall>row \<in> set rows. finite_lag168_row row" "rows \<noteq> []"
    and run: "compute_gram_totals exact_context (map l168_lag_24h rows) (map l168_lag_168h rows)
                (map l168_target rows) = Inr g"
  shows "exact_gram rows g"
proof -
  let ?n = "dec_of_int (int (length rows))"
  obtain m1 m2 my acc d where runs: "dec_mean exact_context (map l168_lag_24h rows) ?n = Inr m1"
      "dec_mean exact_context (map l168_lag_168h rows) ?n = Inr m2"
      "dec_mean exact_context (map l168_target rows) ?n = Inr my"
      "fold_result (gram_step exact_context m1 m2 my) gram_zero
         (map (\<lambda>row. (l168_lag_24h row, l168_lag_168h row, l168_target row)) rows) = Inr acc"
      "product_difference exact_context (gs11 acc) (gs22 acc) (gs12 acc) (gs12 acc) = Inr d"
      and g: "g = \<lparr>gram_x1_mean = m1, gram_x2_mean = m2, gram_y_mean = my, gram_sums_of = acc, gram_det = d\<rparr>"
    using run by (auto simp: compute_gram_totals_def Let_def result_simps zip3_maps)
  have means: "dec_is_finite m1 \<and> dec_val m1 = mean lag168_x1 rows"
      "dec_is_finite m2 \<and> dec_val m2 = mean lag168_x2 rows"
      "dec_is_finite my \<and> dec_val my = mean lag168_y rows"
    using dec_mean_column [OF _ _ runs(1)] dec_mean_column [OF _ _ runs(2)]
      dec_mean_column [OF _ _ runs(3)] rows by (simp_all add: finite_lag168_row_def comp_def)
  note acc = gram_fold_exact [OF rows(1) means runs(4)]
  have "dec_is_finite d \<and> dec_val d = gram_determinant lag168_x1 lag168_x2 rows"
    using product_difference_exact [OF runs(5)] acc(1)
    by (simp add: finite_sums_def gram_determinant_def acc(2-4))
  then show ?thesis using means acc by (simp add: exact_gram_def g)
qed

lemma gram_solution_exact:
  assumes g: "exact_gram rows g" and nz: "gram_determinant lag168_x1 lag168_x2 rows \<noteq> 0"
    and run: "gram_solution exact_context g = Inr (b1, b2, a)"
  shows "dec_val b1 = ols_coefficient lag168_x1 lag168_x2 lag168_y rows \<and>
    dec_val b2 = ols_coefficient lag168_x2 lag168_x1 lag168_y rows \<and>
    dec_val a = ols_plane_intercept lag168_x1 lag168_x2 lag168_y rows"
proof -
  let ?s = "gram_sums_of g"
  obtain n1 n2 o1 o2 ap where runs:
      "product_difference exact_context (gt1 ?s) (gs22 ?s) (gt2 ?s) (gs12 ?s) = Inr n1"
      "dec_div exact_context n1 (gram_det g) = Inr b1"
      "product_difference exact_context (gt2 ?s) (gs11 ?s) (gt1 ?s) (gs12 ?s) = Inr n2"
      "dec_div exact_context n2 (gram_det g) = Inr b2"
      "dec_mul exact_context b1 (gram_x1_mean g) = Inr o1"
      "dec_sub exact_context (gram_y_mean g) o1 = Inr ap"
      "dec_mul exact_context b2 (gram_x2_mean g) = Inr o2"
      "dec_sub exact_context ap o2 = Inr a"
    using run by (auto simp: gram_solution_def Let_def result_simps)
  have n: "dec_is_finite n1 \<and> dec_is_finite n2"
      "dec_val n1 = cross lag168_x1 lag168_y rows * cross lag168_x2 lag168_x2 rows
                    - cross lag168_x2 lag168_y rows * cross lag168_x1 lag168_x2 rows"
      "dec_val n2 = cross lag168_x2 lag168_y rows * cross lag168_x1 lag168_x1 rows
                    - cross lag168_x1 lag168_y rows * cross lag168_x1 lag168_x2 rows"
    using product_difference_exact [OF runs(1)] product_difference_exact [OF runs(3)] g
    by (simp_all add: exact_gram_def finite_sums_def)
  have b: "dec_is_finite b1 \<and> dec_val b1 = ols_coefficient lag168_x1 lag168_x2 lag168_y rows"
      "dec_is_finite b2 \<and> dec_val b2 = ols_coefficient lag168_x2 lag168_x1 lag168_y rows"
    using exact_steps(4) [OF runs(2)] exact_steps(4) [OF runs(4)] g n nz
    by (simp_all add: exact_gram_def ols_coefficient_def gram_determinant_commute [of lag168_x2]
        cross_commute [of lag168_x2 lag168_x1])
  have "dec_is_finite o1 \<and> dec_val o1 = dec_val b1 * mean lag168_x1 rows"
      "dec_is_finite o2 \<and> dec_val o2 = dec_val b2 * mean lag168_x2 rows"
    using exact_steps(3) [OF runs(5)] exact_steps(3) [OF runs(7)] g b by (simp_all add: exact_gram_def)
  then have "dec_val a = ols_plane_intercept lag168_x1 lag168_x2 lag168_y rows"
    using exact_steps(1) [OF runs(6)] exact_steps(1) [OF runs(8)] g b
    by (simp add: exact_gram_def ols_plane_intercept_def)
  then show ?thesis using b by blast
qed

lemma add_product_untrap: "add_product (trap_inexact ctx) s x y = Inr z \<Longrightarrow> add_product ctx s x y = Inr z"
  by (auto simp: add_product_def result_simps dest!: dec_untrap)

lemma product_difference_untrap:
  "product_difference (trap_inexact ctx) w x y z = Inr d \<Longrightarrow> product_difference ctx w x y z = Inr d"
  by (auto simp: product_difference_def result_simps dest!: dec_untrap)

lemma gram_step_untrap:
  "gram_step (trap_inexact ctx) m1 m2 my acc xxy = Inr z \<Longrightarrow> gram_step ctx m1 m2 my acc xxy = Inr z"
  by (cases xxy) (auto simp: gram_step_def result_simps dest!: dec_untrap add_product_untrap)

lemma gram_fold_untrap:
  "fold_result (gram_step (trap_inexact ctx) m1 m2 my) acc xs = Inr z \<Longrightarrow>
   fold_result (gram_step ctx m1 m2 my) acc xs = Inr z"
  by (rule fold_result_mono [OF gram_step_untrap])

lemma gram_totals_untrap:
  "compute_gram_totals (trap_inexact ctx) xs1 xs2 ys = Inr g \<Longrightarrow> compute_gram_totals ctx xs1 xs2 ys = Inr g"
  by (auto simp: compute_gram_totals_def Let_def result_simps
      dest!: dec_mean_untrap product_difference_untrap dest: gram_fold_untrap)

lemma gram_solution_untrap:
  "gram_solution (trap_inexact ctx) g = Inr z \<Longrightarrow> gram_solution ctx g = Inr z"
  by (auto simp: gram_solution_def Let_def result_simps dest!: dec_untrap product_difference_untrap)

lemma dec_le_zero_untrap [simp]: "dec_le_zero (trap_inexact ctx) d = dec_le_zero ctx d"
  by (cases d) (simp_all add: trap_inexact_def)

lemma compute_ols_168_ok:
  "compute_ols_168 ctx xs1 xs2 ys = Inr z \<longleftrightarrow>
   (\<exists>g. compute_gram_totals ctx xs1 xs2 ys = Inr g \<and> (\<forall>d \<in> set (gram_aggregates g). dec_is_finite d) \<and>
      dec_le_zero ctx (gram_det g) = Inr False \<and> gram_solution ctx g = Inr z)"
  by (auto simp: compute_ols_168_def result_simps split: if_splits)

lemma compute_ols_168_untrap:
  "compute_ols_168 (trap_inexact ctx) xs1 xs2 ys = Inr z \<Longrightarrow> compute_ols_168 ctx xs1 xs2 ys = Inr z"
  unfolding compute_ols_168_ok using gram_totals_untrap gram_solution_untrap dec_le_zero_untrap by metis

lemma fit_lag168_untrap:
  "fit_dam_price_lag_24h_168h_linear_regression (trap_inexact ctx) rows = Inr fit \<Longrightarrow>
   fit_dam_price_lag_24h_168h_linear_regression ctx rows = Inr fit"
  unfolding fit_lag168_ok using compute_ols_168_untrap by blast

lemma fit_lag168_exact:
  assumes run: "fit_dam_price_lag_24h_168h_linear_regression exact_context rows = Inr fit"
  shows "is_least_squares_plane (dec_val (l168_lag_24h_coefficient fit))
    (dec_val (l168_lag_168h_coefficient fit)) (dec_val (l168_intercept fit))
    lag168_x1 lag168_x2 lag168_y rows"
proof -
  have rows: "\<forall>row \<in> set rows. finite_lag168_row row" "rows \<noteq> []"
    using run by (auto simp: fit_lag168_ok)
  obtain g where g: "compute_gram_totals exact_context (map l168_lag_24h rows) (map l168_lag_168h rows)
        (map l168_target rows) = Inr g"
      and det: "dec_le_zero exact_context (gram_det g) = Inr False"
      and sol: "gram_solution exact_context g
        = Inr (l168_lag_24h_coefficient fit, l168_lag_168h_coefficient fit, l168_intercept fit)"
    using run unfolding fit_lag168_ok compute_ols_168_ok by blast
  note exact = gram_totals_exact [OF rows g]
  have "0 < gram_determinant lag168_x1 lag168_x2 rows"
    using det exact by (simp add: exact_gram_def dec_le_zero_finite)
  then show ?thesis
    using gram_solution_exact [OF exact _ sol] ols_plane_optimal [OF rows(2)] by simp
qed

lemmas dam_lag168_fit_messages =
  dam_lag168_fit_too_few_rows_message_def dam_lag168_fit_mixed_market_message_def
  dam_lag168_fit_mixed_currency_message_def dam_lag168_fit_duplicate_timestamp_message_def
  dam_lag168_fit_out_of_order_message_def dam_lag168_fit_singular_design_message_def
  dam_lag168_fit_non_finite_input_message_def dam_lag168_fit_non_finite_fit_message_def

lemma compute_ols_168_singular:
  assumes "compute_ols_168 ctx xs1 xs2 ys = Inl (InvalidRequestError dam_lag168_fit_singular_design_message)"
  shows "\<exists>g. compute_gram_totals ctx xs1 xs2 ys = Inr g \<and> dec_le_zero ctx (gram_det g) = Inr True"
  using assms
  by (auto simp: compute_ols_168_def attempt_Inl_iff check_Inl_iff guard_decimal_Inl_iff result_simps
      raise_signal_Inl_iff require_all_finite_def raise_if_Inl_iff dam_lag168_fit_messages
      split: if_splits)

lemma fit_lag168_singularD:
  assumes "fit_dam_price_lag_24h_168h_linear_regression ctx rows
    = Inl (InvalidRequestError dam_lag168_fit_singular_design_message)"
  shows "rows \<noteq> [] \<and> (\<forall>row \<in> set rows. finite_lag168_row row) \<and>
    compute_ols_168 ctx (map l168_lag_24h rows) (map l168_lag_168h rows) (map l168_target rows)
      = Inl (InvalidRequestError dam_lag168_fit_singular_design_message)"
  using assms
  by (cases rows) (auto simp: fit_dam_price_lag_24h_168h_linear_regression_def Let_def require_single_error
      attempt_Inl_iff check_Inl_iff require_all_finite_Inl_iff result_simps
      finite_lag168_row_def dam_lag168_fit_messages
      dest!: require_strict_chronology_error [rotated] split: if_splits prod.splits)

lemma fit_lag168_singular:
  assumes run: "fit_dam_price_lag_24h_168h_linear_regression exact_context rows
    = Inl (InvalidRequestError dam_lag168_fit_singular_design_message)"
  shows "affinely_dependent lag168_x1 lag168_x2 rows"
proof -
  have rows: "\<forall>row \<in> set rows. finite_lag168_row row" "rows \<noteq> []"
    using fit_lag168_singularD [OF run] by blast+
  obtain g where g: "compute_gram_totals exact_context (map l168_lag_24h rows) (map l168_lag_168h rows)
        (map l168_target rows) = Inr g" and det: "dec_le_zero exact_context (gram_det g) = Inr True"
    using fit_lag168_singularD [OF run] compute_ols_168_singular by blast
  have "gram_determinant lag168_x1 lag168_x2 rows \<le> 0"
    using det gram_totals_exact [OF rows g] by (simp add: exact_gram_def dec_le_zero_finite)
  then show ?thesis
    using gram_determinant_nonneg [of lag168_x1 lag168_x2 rows] gram_determinant_zero_iff [OF rows(2)]
    by (metis order_antisym)
qed

lemma fit_lag168_independent:
  assumes run: "fit_dam_price_lag_24h_168h_linear_regression exact_context rows = Inr fit"
  shows "\<not> affinely_dependent lag168_x1 lag168_x2 rows"
proof -
  have rows: "\<forall>row \<in> set rows. finite_lag168_row row" "rows \<noteq> []"
    using run by (auto simp: fit_lag168_ok)
  obtain g where g: "compute_gram_totals exact_context (map l168_lag_24h rows) (map l168_lag_168h rows)
        (map l168_target rows) = Inr g" and det: "dec_le_zero exact_context (gram_det g) = Inr False"
    using run unfolding fit_lag168_ok compute_ols_168_ok by blast
  have "0 < gram_determinant lag168_x1 lag168_x2 rows"
    using det gram_totals_exact [OF rows g] by (simp add: exact_gram_def dec_le_zero_finite)
  then show ?thesis using gram_determinant_zero_iff [OF rows(2)] by (metis less_irrefl)
qed

section \<open>Predictions and forecasts\<close>

lemma plane_amount_exact:
  "plane_amount exact_context fit x1 x2 = Inr z \<Longrightarrow> finite_lag168_fit fit \<Longrightarrow> dec_is_finite x1 \<Longrightarrow>
   dec_is_finite x2 \<Longrightarrow>
   dec_val z = dec_val (l168_lag_24h_coefficient fit) * dec_val x1
             + dec_val (l168_lag_168h_coefficient fit) * dec_val x2 + dec_val (l168_intercept fit)"
  by (auto simp: plane_amount_def finite_lag168_fit_def result_simps dest!: exact_steps)

lemma plane_amount_untrap:
  "plane_amount (trap_inexact ctx) fit x1 x2 = Inr z \<Longrightarrow> plane_amount ctx fit x1 x2 = Inr z"
  by (auto simp: plane_amount_def result_simps dest!: dec_untrap)

lemma prediction168_ok:
  "dam_lag168_prediction_for_row ctx fit row = Inr p \<longleftrightarrow>
   finite_lag168_row row \<and> plane_amount ctx fit (l168_lag_24h row) (l168_lag_168h row) = Inr (p168_predicted p) \<and>
   dec_is_finite (p168_predicted p) \<and> p168_market_id p = l168_market_id row \<and>
   p168_currency p = l168_currency row \<and> p168_target_timestamp p = l168_target_timestamp row \<and>
   p168_actual p = l168_target row"
  by (cases p) (auto simp: dam_lag168_prediction_for_row_def dam_lag168_predicted_amount_def
      finite_lag168_row_def result_simps)

text \<open>One point per target, from the two unique observations at the exact lags.\<close>

lemma ols_point_ok:
  assumes "dam_price_request_ok q"
  shows "dam_ols_point_for_target ctx fit q t = Inr p \<longleftrightarrow>
    (\<exists>r24 r168 z. 0 \<le> t - timedelta_hours 168 \<and> t - timedelta_hours 24 \<le> datetime_max \<and>
       filter (\<lambda>r. mpr_timestamp r = t - timedelta_hours 24) (dpr_history q) = [r24] \<and>
       filter (\<lambda>r. mpr_timestamp r = t - timedelta_hours 168) (dpr_history q) = [r168] \<and>
       plane_amount ctx fit (amount_per_mwh (mpr_price r24)) (amount_per_mwh (mpr_price r168)) = Inr z \<and>
       dec_is_finite z \<and>
       p = \<lparr>pfp_forecast_run_id = dpr_forecast_run_id q, pfp_market_id = dpr_market_id q,
            pfp_generated_at = dpr_generated_at q, pfp_target_timestamp = t,
            pfp_price = \<lparr>amount_per_mwh = z, price_currency = dpr_currency q\<rparr>\<rparr>)"
  using assms
  by (auto simp: dam_ols_point_for_target_def dam_price_request_ok_def result_simps
      unique_lag_observation_Inr validate_energy_price_def validate_price_forecast_point_def
      entity_id_fixed currency_code_fixed energy_price_ok_def)

section \<open>Properties\<close>

text \<open>C35: FEATURES-EXACT-LAGS. The two-feature rows built from a good history are exactly the triples
  of observations at an instant, 24 hours and 168 hours before it, with their amounts copied.\<close>

theorem lag168_features_exact:
  assumes "good_price_history dam_lags_24h_168h h"
    and "build_dam_price_lag_24h_168h_feature_rows h = Inr rows"
  shows "row \<in> set rows \<longleftrightarrow>
    (\<exists>r \<in> set h. \<exists>r24 \<in> set h. \<exists>r168 \<in> set h.
       mpr_timestamp r24 = mpr_timestamp r - timedelta_hours 24 \<and>
       mpr_timestamp r168 = mpr_timestamp r - timedelta_hours 168 \<and>
       row = \<lparr>l168_market_id = mpr_market_id r, l168_currency = record_currency r,
              l168_target_timestamp = mpr_timestamp r,
              l168_lag_24h = amount_per_mwh (mpr_price r24),
              l168_lag_168h = amount_per_mwh (mpr_price r168),
              l168_target = amount_per_mwh (mpr_price r)\<rparr>)"
proof -
  have at: "record_at mpr_timestamp h (mpr_timestamp r) = r" if "r \<in> set h" for r
    using map_of_zip_key_unique [OF dam_lag168_features.good_distinct [OF assms(1)] that]
    by (simp add: record_at_def)
  have "row \<in> set rows \<longleftrightarrow> (\<exists>r \<in> set h.
      mpr_timestamp r - timedelta_hours 24 \<in> mpr_timestamp ` set h \<and>
      mpr_timestamp r - timedelta_hours 168 \<in> mpr_timestamp ` set h \<and>
      row = dam_lag168_row_for_target r
        [record_at mpr_timestamp h (mpr_timestamp r - timedelta_hours 24),
         record_at mpr_timestamp h (mpr_timestamp r - timedelta_hours 168)])"
    unfolding dam_lag168_features.build_complete [OF assms]
    by (auto simp: complete_record_def lag_row_spec_def dam_lags_24h_168h_def)
  also have "\<dots> \<longleftrightarrow> (\<exists>r \<in> set h. \<exists>r24 \<in> set h. \<exists>r168 \<in> set h.
       mpr_timestamp r24 = mpr_timestamp r - timedelta_hours 24 \<and>
       mpr_timestamp r168 = mpr_timestamp r - timedelta_hours 168 \<and>
       row = dam_lag168_row_for_target r [r24, r168])"
    using at by (auto simp: image_iff) (metis, metis)
  finally show ?thesis by (simp add: dam_lag168_row_for_target_def)
qed

definition sample_week :: "market_price_record list" where
  "sample_week =
     [sample_record 604800000000 30, sample_record 518400000000 20, sample_record 0 10]"

text \<open>The history starts 168 hours into the calendar so that no lag leaves its range.\<close>

definition shifted_week :: "market_price_record list" where
  "shifted_week = map (\<lambda>r. r\<lparr>mpr_timestamp := mpr_timestamp r + 604800000000\<rparr>) sample_week"

lemma shifted_week_good: "good_price_history dam_lags_24h_168h shifted_week"
  by (simp add: shifted_week_def sample_week_def sample_defs good_price_history_def one_valued_def
      lags_in_range_def dam_lags_24h_168h_def datetime_max_def)

definition shifted_week_row :: dam_lag168_row where
  "shifted_week_row =
     \<lparr>l168_market_id = ''AM'', l168_currency = ''AMD'', l168_target_timestamp = 1209600000000,
      l168_lag_24h = DFin False 20 0, l168_lag_168h = DFin False 10 0, l168_target = DFin False 30 0\<rparr>"

lemma shifted_week_rows: "build_dam_price_lag_24h_168h_feature_rows shifted_week = Inr [shifted_week_row]"
  by (simp add: build_dam_price_lag_24h_168h_feature_rows_def shifted_week_def sample_week_def sample_defs
      require_single_def raise_if_def unique_timestamp_index_def lag_rows_def row_for_target_def
      dict_get_def datetime_minus_def dam_lags_24h_168h_def datetime_max_def
      dam_lag168_row_for_target_def shifted_week_row_def)

theorem lag168_features_exact_witness:
  "\<exists>r \<in> set shifted_week. \<exists>r24 \<in> set shifted_week. \<exists>r168 \<in> set shifted_week.
     mpr_timestamp r24 = mpr_timestamp r - timedelta_hours 24 \<and>
     mpr_timestamp r168 = mpr_timestamp r - timedelta_hours 168 \<and>
     shifted_week_row =
       \<lparr>l168_market_id = mpr_market_id r, l168_currency = record_currency r,
        l168_target_timestamp = mpr_timestamp r, l168_lag_24h = amount_per_mwh (mpr_price r24),
        l168_lag_168h = amount_per_mwh (mpr_price r168), l168_target = amount_per_mwh (mpr_price r)\<rparr>"
  by (rule iffD1 [OF lag168_features_exact [OF shifted_week_good shifted_week_rows]]) simp

text \<open>The rows do not depend on the order of the history, and they
  come out in strictly increasing time.\<close>

theorem lag168_features_order_independent:
  assumes "good_price_history dam_lags_24h_168h h" "mset h' = mset h"
  shows "build_dam_price_lag_24h_168h_feature_rows h' = build_dam_price_lag_24h_168h_feature_rows h \<and>
    (\<forall>rows. build_dam_price_lag_24h_168h_feature_rows h' = Inr rows \<longrightarrow>
       strictly_increasing l168_target_timestamp rows)"
  using dam_lag168_features.build_permutation [OF assms] dam_lag168_features.build_order [OF assms(1)]
  by simp

theorem lag168_features_order_independent_witness:
  "build_dam_price_lag_24h_168h_feature_rows (rev shifted_week) = Inr [shifted_week_row]"
  using lag168_features_order_independent [OF shifted_week_good, of "rev shifted_week"]
  by (simp add: shifted_week_rows)

text \<open>C36: FIT-LEAST-SQUARES-PLANE. When the two-feature fit runs without rounding, the default
  context returns the same coefficients, and they are the unique minimiser of the sum of squared
  errors over the training rows.\<close>

theorem fit_is_least_squares_plane:
  assumes "fit_dam_price_lag_24h_168h_linear_regression (trap_inexact default_context) rows = Inr fit"
  shows "fit_dam_price_lag_24h_168h_linear_regression default_context rows = Inr fit \<and>
    is_least_squares_plane (dec_val (l168_lag_24h_coefficient fit))
      (dec_val (l168_lag_168h_coefficient fit)) (dec_val (l168_intercept fit))
      (\<lambda>row. dec_val (l168_lag_24h row)) (\<lambda>row. dec_val (l168_lag_168h row))
      (\<lambda>row. dec_val (l168_target row)) rows"
  using fit_lag168_untrap [OF assms] fit_lag168_exact [OF assms] by blast

definition sample_lag168_row :: "utc \<Rightarrow> nat \<Rightarrow> nat \<Rightarrow> nat \<Rightarrow> dam_lag168_row" where
  "sample_lag168_row t x1 x2 y =
     \<lparr>l168_market_id = ''AM'', l168_currency = ''AMD'', l168_target_timestamp = t,
      l168_lag_24h = DFin False x1 0, l168_lag_168h = DFin False x2 0, l168_target = DFin False y 0\<rparr>"

definition sample_lag168_rows :: "dam_lag168_row list" where
  "sample_lag168_rows = [sample_lag168_row 1 1 2 5, sample_lag168_row 2 2 1 6, sample_lag168_row 3 3 3 10]"

lemmas sample_lag168_defs = sample_lag168_row_def good_lag168_rows_def finite_lag168_row_def
  finite_lag168_fit_def one_valued_def strictly_increasing_def

lemmas gram_eval = compute_ols_168_def compute_gram_totals_def gram_solution_def gram_aggregates_def
  gram_step_def gram_zero_def add_product_def product_difference_def dec_mean_def dec_sum_def
  guard_decimal_def raise_signal_def require_all_finite_def raise_if_def
  numeral_3_eq_3 [symmetric] decimal_fast

lemma sample_lag168_fit:
  "fit_dam_price_lag_24h_168h_linear_regression (trap_inexact default_context) sample_lag168_rows
     = Inr \<lparr>l168_lag_24h_coefficient = DFin False 2 0, l168_lag_168h_coefficient = DFin False 1 0,
            l168_intercept = DFin False 1 0\<rparr>"
  by (simp add: fit_lag168_ok sample_lag168_rows_def sample_lag168_defs gram_eval
      cong: attempt_weak_cong)

theorem fit_is_least_squares_plane_witness:
  "is_least_squares_plane 2 1 1 (\<lambda>row. dec_val (l168_lag_24h row)) (\<lambda>row. dec_val (l168_lag_168h row))
     (\<lambda>row. dec_val (l168_target row)) sample_lag168_rows"
  using fit_is_least_squares_plane [OF sample_lag168_fit] by (simp add: magnitude_def)

text \<open>Without rounding, the singular-design refusal is issued only on training
  rows whose two features satisfy an affine relation.\<close>

theorem fit_singular_only_if_dependent:
  assumes "fit_dam_price_lag_24h_168h_linear_regression (trap_inexact default_context) rows
    = Inl (InvalidRequestError dam_lag168_fit_singular_design_message)"
  shows "affinely_dependent (\<lambda>row. dec_val (l168_lag_24h row)) (\<lambda>row. dec_val (l168_lag_168h row)) rows"
  using assms by (rule fit_lag168_singular)

definition dependent_lag168_rows :: "dam_lag168_row list" where
  "dependent_lag168_rows =
     [sample_lag168_row 1 1 1 5, sample_lag168_row 2 2 2 6, sample_lag168_row 3 3 3 10]"

lemma dependent_lag168_fit:
  "fit_dam_price_lag_24h_168h_linear_regression (trap_inexact default_context) dependent_lag168_rows
     = Inl (InvalidRequestError dam_lag168_fit_singular_design_message)"
  by (simp add: fit_dam_price_lag_24h_168h_linear_regression_def dependent_lag168_rows_def
      sample_lag168_row_def require_single_def require_strict_chronology_def gram_eval
      cong: attempt_weak_cong)

theorem fit_singular_only_if_dependent_witness:
  "affinely_dependent (\<lambda>row. dec_val (l168_lag_24h row)) (\<lambda>row. dec_val (l168_lag_168h row))
     dependent_lag168_rows"
  by (rule fit_singular_only_if_dependent [OF dependent_lag168_fit])

text \<open>For a constructed request, the served fit answers exactly when every target has
  one observation at each exact lag and the weighted sum is finite; each point carries the
  request's identity and currency and the amount the offline predictor computes from the same
  two observations.\<close>

theorem ols_forecast_points:
  assumes "dam_price_request_ok q"
  shows "dam_ols_forecast ctx fit q = Inr ps \<longleftrightarrow>
    list_all2 (\<lambda>t p. \<exists>r24 r168 z. 0 \<le> t - timedelta_hours 168 \<and> t - timedelta_hours 24 \<le> datetime_max \<and>
       filter (\<lambda>r. mpr_timestamp r = t - timedelta_hours 24) (dpr_history q) = [r24] \<and>
       filter (\<lambda>r. mpr_timestamp r = t - timedelta_hours 168) (dpr_history q) = [r168] \<and>
       plane_amount ctx fit (amount_per_mwh (mpr_price r24)) (amount_per_mwh (mpr_price r168)) = Inr z \<and>
       dec_is_finite z \<and>
       p = \<lparr>pfp_forecast_run_id = dpr_forecast_run_id q, pfp_market_id = dpr_market_id q,
            pfp_generated_at = dpr_generated_at q, pfp_target_timestamp = t,
            pfp_price = \<lparr>amount_per_mwh = z, price_currency = dpr_currency q\<rparr>\<rparr>)
      (dpr_target_timestamps q) ps"
  using assms by (simp add: dam_ols_forecast_def map_result_Inr_iff ols_point_ok)

definition sample_week_request :: dam_price_request where
  "sample_week_request =
     sample_request\<lparr>dpr_history := shifted_week, dpr_target_timestamps := [1209600000000]\<rparr>"

definition sample_fit168 :: dam_lag168_fit where
  "sample_fit168 = \<lparr>l168_lag_24h_coefficient = DFin False 2 0,
     l168_lag_168h_coefficient = DFin False 1 0, l168_intercept = DFin False 1 0\<rparr>"

lemma sample_week_request_ok: "dam_price_request_ok sample_week_request"
  using sample_request_ok
  by (simp add: sample_week_request_def dam_price_request_ok_def sample_request_def shifted_week_def
      sample_week_def sample_record_def sample_price_def)

theorem ols_forecast_points_witness:
  "dam_ols_forecast default_context sample_fit168 sample_week_request
     = Inr [\<lparr>pfp_forecast_run_id = ''run'', pfp_market_id = ''AM'', pfp_generated_at = 5,
             pfp_target_timestamp = 1209600000000, pfp_price = sample_price 51\<rparr>]"
  unfolding ols_forecast_points [OF sample_week_request_ok]
  by (simp add: sample_week_request_def shifted_week_def sample_week_def sample_defs sample_fit168_def
      plane_amount_def datetime_max_def decimal_fast cong: attempt_weak_cong)

text \<open>In any decimal context, whatever the rows, the two-feature fit, its
  predictions and its evaluation fail with an \<open>InvalidRequestError\<close> or not at all: no decimal
  signal and no other exception escapes.\<close>

theorem ols_fails_closed:
  "(\<forall>e. fit_dam_price_lag_24h_168h_linear_regression ctx rows = Inl e \<longrightarrow> (\<exists>m. e = InvalidRequestError m)) \<and>
   (\<forall>e. predict_dam_price_lag_24h_168h_linear_regression ctx fit rows = Inl e \<longrightarrow>
      (\<exists>m. e = InvalidRequestError m)) \<and>
   (\<forall>e. evaluate_dam_price_lag_24h_168h_linear_regression_mae ctx ps = Inl e \<longrightarrow>
      (\<exists>m. e = InvalidRequestError m))"
  using fit_lag168_error predict_lag168_error evaluate_lag168_error by blast

theorem ols_fails_closed_witness:
  "\<exists>m. InvalidRequestError dam_lag168_fit_singular_design_message = InvalidRequestError m \<and>
     fit_dam_price_lag_24h_168h_linear_regression (trap_inexact default_context) dependent_lag168_rows
       = Inl (InvalidRequestError m)"
  using ols_fails_closed [of "trap_inexact default_context" dependent_lag168_rows] dependent_lag168_fit
  by blast

end
