(* ===== verification/DAM_Comparison.thy ===== *)
theory DAM_Comparison
  imports DAM_Lag168
begin

text \<open>
  The four comparison modules of ml/dam_price: two or three cohorts over the same targets are
  checked (emptiness, length, market, currency, chronology, alignment of timestamps and actual
  amounts, in this order) and scored by their own evaluators. The checks are the same code in every
  module up to the messages, so they are defined once over the views and messages of the cohorts.
\<close>

section \<open>Views of a cohort\<close>

text \<open>What the comparators read of a row; \<open>cv_coherent\<close> is the check of the persistence cases.\<close>

record 'r cohort_view =
  cv_market :: "'r \<Rightarrow> string"
  cv_currency :: "'r \<Rightarrow> string"
  cv_timestamp :: "'r \<Rightarrow> utc"
  cv_actual :: "'r \<Rightarrow> dec"
  cv_coherent :: "'r \<Rightarrow> bool"

record cohort_messages =
  cm_empty :: string
  cm_mixed_market :: string
  cm_coherence :: string
  cm_mixed_currency :: string
  cm_duplicate :: string
  cm_out_of_order :: string

record shared_messages =
  sm_empty_all :: string
  sm_unequal_length :: string
  sm_market_mismatch :: string
  sm_currency_mismatch :: string
  sm_timestamp_mismatch :: string
  sm_actual_mismatch :: string

definition persistence_view :: "dam_backtest_case cohort_view" where
  "persistence_view =
     \<lparr>cv_market = dbc_market_id, cv_currency = actual_currency, cv_timestamp = dbc_target_timestamp,
      cv_actual = (\<lambda>c. amount_per_mwh (dbc_actual_price c)), cv_coherent = (\<lambda>c. predicted_currency c = actual_currency c)\<rparr>"

definition lag24_view :: "dam_lag24_prediction cohort_view" where
  "lag24_view =
     \<lparr>cv_market = p24_market_id, cv_currency = p24_currency, cv_timestamp = p24_target_timestamp,
      cv_actual = p24_actual, cv_coherent = (\<lambda>_. True)\<rparr>"

definition lag168_view :: "dam_lag168_prediction cohort_view" where
  "lag168_view =
     \<lparr>cv_market = p168_market_id, cv_currency = p168_currency, cv_timestamp = p168_target_timestamp,
      cv_actual = p168_actual, cv_coherent = (\<lambda>_. True)\<rparr>"

section \<open>Two cohorts\<close>

fun require_alignment ::
    "('a \<Rightarrow> 'b \<Rightarrow> bool) \<Rightarrow> ('a \<Rightarrow> 'b \<Rightarrow> bool) \<Rightarrow> string \<Rightarrow> string \<Rightarrow> ('a \<times> 'b) list \<Rightarrow> unit result" where
  "require_alignment same_time same_actual time_msg actual_msg [] = Inr ()"
| "require_alignment same_time same_actual time_msg actual_msg ((x, y) # rest) =
     (if \<not> same_time x y then Inl (InvalidRequestError time_msg)
      else if \<not> same_actual x y then Inl (InvalidRequestError actual_msg)
      else require_alignment same_time same_actual time_msg actual_msg rest)"

definition require_nonempty_equal ::
    "shared_messages \<Rightarrow> cohort_messages \<Rightarrow> cohort_messages \<Rightarrow> 'a list \<Rightarrow> 'b list \<Rightarrow> unit result" where
  "require_nonempty_equal sm am bm xs ys =
     check (raise_if (xs = [] \<and> ys = []) (InvalidRequestError (sm_empty_all sm)))
       (check (raise_if (xs = []) (InvalidRequestError (cm_empty am)))
         (check (raise_if (ys = []) (InvalidRequestError (cm_empty bm)))
           (raise_if (length xs \<noteq> length ys) (InvalidRequestError (sm_unequal_length sm)))))"

definition keys_differ :: "('a \<Rightarrow> 'k) \<Rightarrow> ('b \<Rightarrow> 'k) \<Rightarrow> 'a list \<Rightarrow> 'b list \<Rightarrow> bool" where
  "keys_differ f g xs ys \<longleftrightarrow> set (map f xs) \<noteq> set (map g ys)"

definition require_shared_market_and_currency ::
    "shared_messages \<Rightarrow> cohort_messages \<Rightarrow> cohort_messages \<Rightarrow> 'a cohort_view \<Rightarrow> 'b cohort_view \<Rightarrow>
     'a list \<Rightarrow> 'b list \<Rightarrow> string result" where
  "require_shared_market_and_currency sm am bm av bv xs ys =
     check (require_single (cv_market av) (cm_mixed_market am) xs)
      (check (require_single (cv_market bv) (cm_mixed_market bm) ys)
       (check (raise_if (keys_differ (cv_market av) (cv_market bv) xs ys)
                 (InvalidRequestError (sm_market_mismatch sm)))
        (check (raise_if (list_ex (\<lambda>x. \<not> cv_coherent av x) xs) (InvalidRequestError (cm_coherence am)))
         (check (require_single (cv_currency av) (cm_mixed_currency am) xs)
          (check (require_single (cv_currency bv) (cm_mixed_currency bm) ys)
           (check (raise_if (keys_differ (cv_currency av) (cv_currency bv) xs ys)
                     (InvalidRequestError (sm_currency_mismatch sm)))
             (Inr (cv_currency av (hd xs)))))))))"

definition same_instant :: "'a cohort_view \<Rightarrow> 'b cohort_view \<Rightarrow> 'a \<Rightarrow> 'b \<Rightarrow> bool" where
  "same_instant av bv x y \<longleftrightarrow> cv_timestamp av x = cv_timestamp bv y"

definition same_actual_amount :: "'a cohort_view \<Rightarrow> 'b cohort_view \<Rightarrow> 'a \<Rightarrow> 'b \<Rightarrow> bool" where
  "same_actual_amount av bv x y \<longleftrightarrow> dec_eq (cv_actual av x) (cv_actual bv y)"

definition require_comparable ::
    "shared_messages \<Rightarrow> cohort_messages \<Rightarrow> cohort_messages \<Rightarrow> 'a cohort_view \<Rightarrow> 'b cohort_view \<Rightarrow>
     'a list \<Rightarrow> 'b list \<Rightarrow> string result" where
  "require_comparable sm am bm av bv xs ys =
     check (require_nonempty_equal sm am bm xs ys)
      (attempt (require_shared_market_and_currency sm am bm av bv xs ys) (\<lambda>currency.
       check (require_strict_chronology (cv_timestamp av) (cm_duplicate am) (cm_out_of_order am) xs)
        (check (require_strict_chronology (cv_timestamp bv) (cm_duplicate bm) (cm_out_of_order bm) ys)
         (check (require_alignment (same_instant av bv) (same_actual_amount av bv)
                   (sm_timestamp_mismatch sm) (sm_actual_mismatch sm) (zip xs ys))
           (Inr currency)))))"

definition comparable :: "'a cohort_view \<Rightarrow> 'b cohort_view \<Rightarrow> 'a list \<Rightarrow> 'b list \<Rightarrow> bool" where
  "comparable av bv xs ys \<longleftrightarrow>
     xs \<noteq> [] \<and> one_valued (cv_market av) xs \<and> one_valued (cv_currency av) xs \<and>
     (\<forall>x \<in> set xs. cv_coherent av x) \<and>
     strictly_increasing (cv_timestamp av) xs \<and>
     list_all2 (\<lambda>x y. cv_market av x = cv_market bv y \<and> cv_currency av x = cv_currency bv y \<and>
        same_instant av bv x y \<and> same_actual_amount av bv x y) xs ys"

lemma require_alignment_ok [cohort_simps]:
  "require_alignment p q m m' ps = Inr u \<longleftrightarrow> (\<forall>(x, y) \<in> set ps. p x y \<and> q x y)"
  by (induction ps) (auto split: if_splits)

lemma require_alignment_error:
  "require_alignment p q m m' ps = Inl e \<Longrightarrow> e = InvalidRequestError m \<or> e = InvalidRequestError m'"
  by (induction ps) (auto split: if_splits)

lemma list_all2_same_key: "list_all2 (\<lambda>x y. f x = g y) xs ys \<longleftrightarrow> map f xs = map g ys"
  by (simp add: list.rel_eq [symmetric] list_all2_map1 list_all2_map2)

lemma one_valued_map: "one_valued f xs \<longleftrightarrow> (\<forall>a \<in> set (map f xs). \<forall>b \<in> set (map f xs). a = b)"
  by (auto simp: one_valued_def)

lemma one_valued_same_key: "map f xs = map g ys \<Longrightarrow> one_valued f xs \<longleftrightarrow> one_valued g ys"
  by (simp add: one_valued_map del: set_map)

lemma one_valued_shared_key:
  assumes "one_valued f xs" "set (map f xs) = set (map g ys)" "length xs = length ys"
  shows "list_all2 (\<lambda>x y. f x = g y) xs ys"
  using assms unfolding list_all2_conv_all_nth one_valued_map
  by (metis image_eqI image_set nth_mem)

lemma require_comparable_ok:
  "require_comparable sm am bm av bv xs ys = Inr c \<longleftrightarrow> comparable av bv xs ys \<and> c = cv_currency av (hd xs)"
proof
  assume run: "require_comparable sm am bm av bv xs ys = Inr c"
  then have len: "length xs = length ys" "xs \<noteq> []"
    and m: "one_valued (cv_market av) xs" "set (map (cv_market av) xs) = set (map (cv_market bv) ys)"
    and cur: "one_valued (cv_currency av) xs" "set (map (cv_currency av) xs) = set (map (cv_currency bv) ys)"
    and rest: "\<forall>x \<in> set xs. cv_coherent av x" "strictly_increasing (cv_timestamp av) xs"
      "\<forall>(x, y) \<in> set (zip xs ys). same_instant av bv x y \<and> same_actual_amount av bv x y"
      "c = cv_currency av (hd xs)"
    by (auto simp: require_comparable_def require_nonempty_equal_def keys_differ_def
        require_shared_market_and_currency_def result_simps cohort_simps list_ex_iff)
  have "list_all2 (\<lambda>x y. same_instant av bv x y \<and> same_actual_amount av bv x y) xs ys"
    using rest(3) len(1) by (auto simp: list_all2_iff)
  then show "comparable av bv xs ys \<and> c = cv_currency av (hd xs)"
    using one_valued_shared_key [OF m len(1)] one_valued_shared_key [OF cur len(1)] len m cur rest
    by (auto simp: comparable_def list_all2_conv_all_nth)
next
  assume ok: "comparable av bv xs ys \<and> c = cv_currency av (hd xs)"
  then have all2: "list_all2 (\<lambda>x y. cv_market av x = cv_market bv y) xs ys"
      "list_all2 (\<lambda>x y. cv_currency av x = cv_currency bv y) xs ys"
      "list_all2 (\<lambda>x y. cv_timestamp av x = cv_timestamp bv y) xs ys"
      "list_all2 (\<lambda>x y. same_instant av bv x y \<and> same_actual_amount av bv x y) xs ys"
    by (auto simp: comparable_def same_instant_def elim!: list_all2_mono)
  then have keys: "map (cv_market av) xs = map (cv_market bv) ys"
      "map (cv_currency av) xs = map (cv_currency bv) ys"
      "map (cv_timestamp av) xs = map (cv_timestamp bv) ys"
    by (simp_all add: list_all2_same_key)
  have "length xs = length ys" using all2(1) by (rule list_all2_lengthD)
  moreover have "strictly_increasing (cv_timestamp bv) ys"
    using ok keys(3) by (simp add: comparable_def strictly_increasing_def)
  moreover have "\<not> keys_differ (cv_market av) (cv_market bv) xs ys"
      "\<not> keys_differ (cv_currency av) (cv_currency bv) xs ys"
    using keys by (simp_all add: keys_differ_def del: set_map)
  moreover have "one_valued (cv_market bv) ys" "one_valued (cv_currency bv) ys"
    using ok one_valued_same_key [OF keys(1)] one_valued_same_key [OF keys(2)]
    by (simp_all add: comparable_def)
  moreover have "\<forall>(x, y) \<in> set (zip xs ys). same_instant av bv x y \<and> same_actual_amount av bv x y"
    using all2(4) by (auto simp: list_all2_iff)
  ultimately show "require_comparable sm am bm av bv xs ys = Inr c"
    using ok by (auto simp: require_comparable_def require_nonempty_equal_def comparable_def
        require_shared_market_and_currency_def result_simps cohort_simps list_ex_iff)
qed

lemma require_comparable_error:
  "require_comparable sm am bm av bv xs ys = Inl e \<Longrightarrow> \<exists>m. e = InvalidRequestError m"
  by (auto simp: require_comparable_def require_nonempty_equal_def require_single_error
      require_shared_market_and_currency_def attempt_Inl_iff check_Inl_iff raise_if_Inl_iff result_simps
      dest!: require_strict_chronology_errorD require_alignment_error)

section \<open>Persistence and the one-feature fit (persistence_vs_trained_ols_comparison.py)\<close>

definition dam_cmp_trained_empty_both_message :: string where
  "dam_cmp_trained_empty_both_message =
     ''DAM Price persistence-versus-trained OLS MAE comparison requires a non-empty aligned cohort.''"

definition dam_cmp_trained_empty_persistence_message :: string where
  "dam_cmp_trained_empty_persistence_message =
     ''DAM Price persistence-versus-trained OLS MAE comparison requires a non-empty persistence cohort.''"

definition dam_cmp_trained_empty_trained_message :: string where
  "dam_cmp_trained_empty_trained_message =
     ''DAM Price persistence-versus-trained OLS MAE comparison requires a non-empty trained OLS cohort.''"

definition dam_cmp_trained_unequal_length_message :: string where
  "dam_cmp_trained_unequal_length_message =
     ''DAM Price persistence-versus-trained OLS MAE comparison requires equal persistence and trained case counts.''"

definition dam_cmp_trained_mixed_persistence_market_message :: string where
  "dam_cmp_trained_mixed_persistence_market_message =
     ''DAM Price persistence-versus-trained OLS MAE comparison requires persistence cases from exactly one market.''"

definition dam_cmp_trained_mixed_trained_market_message :: string where
  "dam_cmp_trained_mixed_trained_market_message =
     ''DAM Price persistence-versus-trained OLS MAE comparison requires trained predictions from exactly one market.''"

definition dam_cmp_trained_market_mismatch_message :: string where
  "dam_cmp_trained_market_mismatch_message =
     ''DAM Price persistence-versus-trained OLS MAE comparison requires persistence cases and trained predictions from the same market.''"

definition dam_cmp_trained_persistence_currency_coherence_message :: string where
  "dam_cmp_trained_persistence_currency_coherence_message =
     ''DAM Price persistence-versus-trained OLS MAE comparison requires matching predicted and actual persistence currency.''"

definition dam_cmp_trained_mixed_persistence_currency_message :: string where
  "dam_cmp_trained_mixed_persistence_currency_message =
     ''DAM Price persistence-versus-trained OLS MAE comparison requires persistence cases in exactly one currency.''"

definition dam_cmp_trained_mixed_trained_currency_message :: string where
  "dam_cmp_trained_mixed_trained_currency_message =
     ''DAM Price persistence-versus-trained OLS MAE comparison requires trained predictions in exactly one currency.''"

definition dam_cmp_trained_currency_mismatch_message :: string where
  "dam_cmp_trained_currency_mismatch_message =
     ''DAM Price persistence-versus-trained OLS MAE comparison requires persistence cases and trained predictions in the same currency.''"

definition dam_cmp_trained_duplicate_persistence_timestamp_message :: string where
  "dam_cmp_trained_duplicate_persistence_timestamp_message =
     ''DAM Price persistence-versus-trained OLS MAE comparison requires unique persistence target timestamps.''"

definition dam_cmp_trained_duplicate_trained_timestamp_message :: string where
  "dam_cmp_trained_duplicate_trained_timestamp_message =
     ''DAM Price persistence-versus-trained OLS MAE comparison requires unique trained target timestamps.''"

definition dam_cmp_trained_out_of_order_persistence_message :: string where
  "dam_cmp_trained_out_of_order_persistence_message =
     ''DAM Price persistence-versus-trained OLS MAE comparison requires strictly increasing persistence target timestamps.''"

definition dam_cmp_trained_out_of_order_trained_message :: string where
  "dam_cmp_trained_out_of_order_trained_message =
     ''DAM Price persistence-versus-trained OLS MAE comparison requires strictly increasing trained target timestamps.''"

definition dam_cmp_trained_timestamp_mismatch_message :: string where
  "dam_cmp_trained_timestamp_mismatch_message =
     ''DAM Price persistence-versus-trained OLS MAE comparison requires matching target timestamps at each aligned index.''"

definition dam_cmp_trained_actual_mismatch_message :: string where
  "dam_cmp_trained_actual_mismatch_message =
     ''DAM Price persistence-versus-trained OLS MAE comparison requires matching actual price amounts at each aligned index.''"

definition dam_cmp_trained_shared :: shared_messages where
  "dam_cmp_trained_shared =
     \<lparr>sm_empty_all = dam_cmp_trained_empty_both_message, sm_unequal_length = dam_cmp_trained_unequal_length_message,
      sm_market_mismatch = dam_cmp_trained_market_mismatch_message, sm_currency_mismatch = dam_cmp_trained_currency_mismatch_message,
      sm_timestamp_mismatch = dam_cmp_trained_timestamp_mismatch_message, sm_actual_mismatch = dam_cmp_trained_actual_mismatch_message\<rparr>"

definition dam_cmp_trained_persistence_messages :: cohort_messages where
  "dam_cmp_trained_persistence_messages =
     \<lparr>cm_empty = dam_cmp_trained_empty_persistence_message, cm_mixed_market = dam_cmp_trained_mixed_persistence_market_message,
      cm_coherence = dam_cmp_trained_persistence_currency_coherence_message, cm_mixed_currency = dam_cmp_trained_mixed_persistence_currency_message,
      cm_duplicate = dam_cmp_trained_duplicate_persistence_timestamp_message, cm_out_of_order = dam_cmp_trained_out_of_order_persistence_message\<rparr>"

definition dam_cmp_trained_trained_messages :: cohort_messages where
  "dam_cmp_trained_trained_messages =
     \<lparr>cm_empty = dam_cmp_trained_empty_trained_message, cm_mixed_market = dam_cmp_trained_mixed_trained_market_message,
      cm_coherence = '''', cm_mixed_currency = dam_cmp_trained_mixed_trained_currency_message,
      cm_duplicate = dam_cmp_trained_duplicate_trained_timestamp_message, cm_out_of_order = dam_cmp_trained_out_of_order_trained_message\<rparr>"

record dam_cmp_trained =
  dam_cmp_trained_case_count :: nat
  dam_cmp_trained_currency :: string
  dam_cmp_trained_persistence_mae :: dec
  dam_cmp_trained_trained_mae :: dec

definition compare_dam_price_persistence_vs_trained_ols_mae ::
    "dec_context \<Rightarrow> dam_backtest_case list \<Rightarrow> dam_lag24_prediction list \<Rightarrow> dam_cmp_trained result" where
  "compare_dam_price_persistence_vs_trained_ols_mae ctx xs ys =
     attempt (require_comparable dam_cmp_trained_shared dam_cmp_trained_persistence_messages dam_cmp_trained_trained_messages
                persistence_view lag24_view xs ys) (\<lambda>currency.
     attempt (evaluate_previous_day_persistence_mae ctx xs) (\<lambda>left_result.
     attempt (evaluate_dam_price_lag_24h_linear_regression_mae ctx ys) (\<lambda>right_result.
       Inr \<lparr>dam_cmp_trained_case_count = length xs, dam_cmp_trained_currency = currency,
            dam_cmp_trained_persistence_mae = dpm_mae_amount_per_mwh left_result,
            dam_cmp_trained_trained_mae = m24_mae_amount_per_mwh right_result\<rparr>)))"

section \<open>Persistence and the two-feature fit (persistence_vs_lag_24h_168h_ols_comparison.py)\<close>

definition dam_cmp_persistence_168_empty_both_message :: string where
  "dam_cmp_persistence_168_empty_both_message =
     ''DAM Price persistence-versus-two-feature OLS MAE comparison requires a non-empty aligned cohort.''"

definition dam_cmp_persistence_168_empty_persistence_message :: string where
  "dam_cmp_persistence_168_empty_persistence_message =
     ''DAM Price persistence-versus-two-feature OLS MAE comparison requires a non-empty persistence cohort.''"

definition dam_cmp_persistence_168_empty_lag_24h_168h_message :: string where
  "dam_cmp_persistence_168_empty_lag_24h_168h_message =
     ''DAM Price persistence-versus-two-feature OLS MAE comparison requires a non-empty two-feature cohort.''"

definition dam_cmp_persistence_168_unequal_length_message :: string where
  "dam_cmp_persistence_168_unequal_length_message =
     ''DAM Price persistence-versus-two-feature OLS MAE comparison requires equal persistence and two-feature case counts.''"

definition dam_cmp_persistence_168_mixed_persistence_market_message :: string where
  "dam_cmp_persistence_168_mixed_persistence_market_message =
     ''DAM Price persistence-versus-two-feature OLS MAE comparison requires persistence cases from exactly one market.''"

definition dam_cmp_persistence_168_mixed_lag_24h_168h_market_message :: string where
  "dam_cmp_persistence_168_mixed_lag_24h_168h_market_message =
     ''DAM Price persistence-versus-two-feature OLS MAE comparison requires two-feature predictions from exactly one market.''"

definition dam_cmp_persistence_168_market_mismatch_message :: string where
  "dam_cmp_persistence_168_market_mismatch_message =
     ''DAM Price persistence-versus-two-feature OLS MAE comparison requires persistence cases and two-feature predictions from the same market.''"

definition dam_cmp_persistence_168_persistence_currency_coherence_message :: string where
  "dam_cmp_persistence_168_persistence_currency_coherence_message =
     ''DAM Price persistence-versus-two-feature OLS MAE comparison requires matching predicted and actual persistence currency.''"

definition dam_cmp_persistence_168_mixed_persistence_currency_message :: string where
  "dam_cmp_persistence_168_mixed_persistence_currency_message =
     ''DAM Price persistence-versus-two-feature OLS MAE comparison requires persistence cases in exactly one currency.''"

definition dam_cmp_persistence_168_mixed_lag_24h_168h_currency_message :: string where
  "dam_cmp_persistence_168_mixed_lag_24h_168h_currency_message =
     ''DAM Price persistence-versus-two-feature OLS MAE comparison requires two-feature predictions in exactly one currency.''"

definition dam_cmp_persistence_168_currency_mismatch_message :: string where
  "dam_cmp_persistence_168_currency_mismatch_message =
     ''DAM Price persistence-versus-two-feature OLS MAE comparison requires persistence cases and two-feature predictions in the same currency.''"

definition dam_cmp_persistence_168_duplicate_persistence_timestamp_message :: string where
  "dam_cmp_persistence_168_duplicate_persistence_timestamp_message =
     ''DAM Price persistence-versus-two-feature OLS MAE comparison requires unique persistence target timestamps.''"

definition dam_cmp_persistence_168_duplicate_lag_24h_168h_timestamp_message :: string where
  "dam_cmp_persistence_168_duplicate_lag_24h_168h_timestamp_message =
     ''DAM Price persistence-versus-two-feature OLS MAE comparison requires unique two-feature target timestamps.''"

definition dam_cmp_persistence_168_out_of_order_persistence_message :: string where
  "dam_cmp_persistence_168_out_of_order_persistence_message =
     ''DAM Price persistence-versus-two-feature OLS MAE comparison requires strictly increasing persistence target timestamps.''"

definition dam_cmp_persistence_168_out_of_order_lag_24h_168h_message :: string where
  "dam_cmp_persistence_168_out_of_order_lag_24h_168h_message =
     ''DAM Price persistence-versus-two-feature OLS MAE comparison requires strictly increasing two-feature target timestamps.''"

definition dam_cmp_persistence_168_timestamp_mismatch_message :: string where
  "dam_cmp_persistence_168_timestamp_mismatch_message =
     ''DAM Price persistence-versus-two-feature OLS MAE comparison requires matching target timestamps at each aligned index.''"

definition dam_cmp_persistence_168_actual_mismatch_message :: string where
  "dam_cmp_persistence_168_actual_mismatch_message =
     ''DAM Price persistence-versus-two-feature OLS MAE comparison requires matching actual price amounts at each aligned index.''"

definition dam_cmp_persistence_168_shared :: shared_messages where
  "dam_cmp_persistence_168_shared =
     \<lparr>sm_empty_all = dam_cmp_persistence_168_empty_both_message, sm_unequal_length = dam_cmp_persistence_168_unequal_length_message,
      sm_market_mismatch = dam_cmp_persistence_168_market_mismatch_message, sm_currency_mismatch = dam_cmp_persistence_168_currency_mismatch_message,
      sm_timestamp_mismatch = dam_cmp_persistence_168_timestamp_mismatch_message, sm_actual_mismatch = dam_cmp_persistence_168_actual_mismatch_message\<rparr>"

definition dam_cmp_persistence_168_persistence_messages :: cohort_messages where
  "dam_cmp_persistence_168_persistence_messages =
     \<lparr>cm_empty = dam_cmp_persistence_168_empty_persistence_message, cm_mixed_market = dam_cmp_persistence_168_mixed_persistence_market_message,
      cm_coherence = dam_cmp_persistence_168_persistence_currency_coherence_message, cm_mixed_currency = dam_cmp_persistence_168_mixed_persistence_currency_message,
      cm_duplicate = dam_cmp_persistence_168_duplicate_persistence_timestamp_message, cm_out_of_order = dam_cmp_persistence_168_out_of_order_persistence_message\<rparr>"

definition dam_cmp_persistence_168_lag_24h_168h_messages :: cohort_messages where
  "dam_cmp_persistence_168_lag_24h_168h_messages =
     \<lparr>cm_empty = dam_cmp_persistence_168_empty_lag_24h_168h_message, cm_mixed_market = dam_cmp_persistence_168_mixed_lag_24h_168h_market_message,
      cm_coherence = '''', cm_mixed_currency = dam_cmp_persistence_168_mixed_lag_24h_168h_currency_message,
      cm_duplicate = dam_cmp_persistence_168_duplicate_lag_24h_168h_timestamp_message, cm_out_of_order = dam_cmp_persistence_168_out_of_order_lag_24h_168h_message\<rparr>"

record dam_cmp_persistence_168 =
  dam_cmp_persistence_168_case_count :: nat
  dam_cmp_persistence_168_currency :: string
  dam_cmp_persistence_168_persistence_mae :: dec
  dam_cmp_persistence_168_lag_24h_168h_mae :: dec

definition compare_dam_price_persistence_vs_lag_24h_168h_ols_mae ::
    "dec_context \<Rightarrow> dam_backtest_case list \<Rightarrow> dam_lag168_prediction list \<Rightarrow> dam_cmp_persistence_168 result" where
  "compare_dam_price_persistence_vs_lag_24h_168h_ols_mae ctx xs ys =
     attempt (require_comparable dam_cmp_persistence_168_shared dam_cmp_persistence_168_persistence_messages dam_cmp_persistence_168_lag_24h_168h_messages
                persistence_view lag168_view xs ys) (\<lambda>currency.
     attempt (evaluate_previous_day_persistence_mae ctx xs) (\<lambda>left_result.
     attempt (evaluate_dam_price_lag_24h_168h_linear_regression_mae ctx ys) (\<lambda>right_result.
       Inr \<lparr>dam_cmp_persistence_168_case_count = length xs, dam_cmp_persistence_168_currency = currency,
            dam_cmp_persistence_168_persistence_mae = dpm_mae_amount_per_mwh left_result,
            dam_cmp_persistence_168_lag_24h_168h_mae = m168_mae_amount_per_mwh right_result\<rparr>)))"

section \<open>The two fits (lag_24h_vs_lag_24h_168h_ols_comparison.py)\<close>

definition dam_cmp_lags_empty_both_message :: string where
  "dam_cmp_lags_empty_both_message =
     ''DAM Price one-feature versus two-feature OLS MAE comparison requires a non-empty aligned cohort.''"

definition dam_cmp_lags_empty_lag_24h_message :: string where
  "dam_cmp_lags_empty_lag_24h_message =
     ''DAM Price one-feature versus two-feature OLS MAE comparison requires a non-empty one-feature cohort.''"

definition dam_cmp_lags_empty_lag_24h_168h_message :: string where
  "dam_cmp_lags_empty_lag_24h_168h_message =
     ''DAM Price one-feature versus two-feature OLS MAE comparison requires a non-empty two-feature cohort.''"

definition dam_cmp_lags_unequal_length_message :: string where
  "dam_cmp_lags_unequal_length_message =
     ''DAM Price one-feature versus two-feature OLS MAE comparison requires equal one-feature and two-feature case counts.''"

definition dam_cmp_lags_mixed_lag_24h_market_message :: string where
  "dam_cmp_lags_mixed_lag_24h_market_message =
     ''DAM Price one-feature versus two-feature OLS MAE comparison requires one-feature predictions from exactly one market.''"

definition dam_cmp_lags_mixed_lag_24h_168h_market_message :: string where
  "dam_cmp_lags_mixed_lag_24h_168h_market_message =
     ''DAM Price one-feature versus two-feature OLS MAE comparison requires two-feature predictions from exactly one market.''"

definition dam_cmp_lags_market_mismatch_message :: string where
  "dam_cmp_lags_market_mismatch_message =
     ''DAM Price one-feature versus two-feature OLS MAE comparison requires one-feature and two-feature predictions from the same market.''"

definition dam_cmp_lags_mixed_lag_24h_currency_message :: string where
  "dam_cmp_lags_mixed_lag_24h_currency_message =
     ''DAM Price one-feature versus two-feature OLS MAE comparison requires one-feature predictions in exactly one currency.''"

definition dam_cmp_lags_mixed_lag_24h_168h_currency_message :: string where
  "dam_cmp_lags_mixed_lag_24h_168h_currency_message =
     ''DAM Price one-feature versus two-feature OLS MAE comparison requires two-feature predictions in exactly one currency.''"

definition dam_cmp_lags_currency_mismatch_message :: string where
  "dam_cmp_lags_currency_mismatch_message =
     ''DAM Price one-feature versus two-feature OLS MAE comparison requires one-feature and two-feature predictions in the same currency.''"

definition dam_cmp_lags_duplicate_lag_24h_timestamp_message :: string where
  "dam_cmp_lags_duplicate_lag_24h_timestamp_message =
     ''DAM Price one-feature versus two-feature OLS MAE comparison requires unique one-feature target timestamps.''"

definition dam_cmp_lags_duplicate_lag_24h_168h_timestamp_message :: string where
  "dam_cmp_lags_duplicate_lag_24h_168h_timestamp_message =
     ''DAM Price one-feature versus two-feature OLS MAE comparison requires unique two-feature target timestamps.''"

definition dam_cmp_lags_out_of_order_lag_24h_message :: string where
  "dam_cmp_lags_out_of_order_lag_24h_message =
     ''DAM Price one-feature versus two-feature OLS MAE comparison requires strictly increasing one-feature target timestamps.''"

definition dam_cmp_lags_out_of_order_lag_24h_168h_message :: string where
  "dam_cmp_lags_out_of_order_lag_24h_168h_message =
     ''DAM Price one-feature versus two-feature OLS MAE comparison requires strictly increasing two-feature target timestamps.''"

definition dam_cmp_lags_timestamp_mismatch_message :: string where
  "dam_cmp_lags_timestamp_mismatch_message =
     ''DAM Price one-feature versus two-feature OLS MAE comparison requires matching target timestamps at each aligned index.''"

definition dam_cmp_lags_actual_mismatch_message :: string where
  "dam_cmp_lags_actual_mismatch_message =
     ''DAM Price one-feature versus two-feature OLS MAE comparison requires matching actual price amounts at each aligned index.''"

definition dam_cmp_lags_shared :: shared_messages where
  "dam_cmp_lags_shared =
     \<lparr>sm_empty_all = dam_cmp_lags_empty_both_message, sm_unequal_length = dam_cmp_lags_unequal_length_message,
      sm_market_mismatch = dam_cmp_lags_market_mismatch_message, sm_currency_mismatch = dam_cmp_lags_currency_mismatch_message,
      sm_timestamp_mismatch = dam_cmp_lags_timestamp_mismatch_message, sm_actual_mismatch = dam_cmp_lags_actual_mismatch_message\<rparr>"

definition dam_cmp_lags_lag_24h_messages :: cohort_messages where
  "dam_cmp_lags_lag_24h_messages =
     \<lparr>cm_empty = dam_cmp_lags_empty_lag_24h_message, cm_mixed_market = dam_cmp_lags_mixed_lag_24h_market_message,
      cm_coherence = '''', cm_mixed_currency = dam_cmp_lags_mixed_lag_24h_currency_message,
      cm_duplicate = dam_cmp_lags_duplicate_lag_24h_timestamp_message, cm_out_of_order = dam_cmp_lags_out_of_order_lag_24h_message\<rparr>"

definition dam_cmp_lags_lag_24h_168h_messages :: cohort_messages where
  "dam_cmp_lags_lag_24h_168h_messages =
     \<lparr>cm_empty = dam_cmp_lags_empty_lag_24h_168h_message, cm_mixed_market = dam_cmp_lags_mixed_lag_24h_168h_market_message,
      cm_coherence = '''', cm_mixed_currency = dam_cmp_lags_mixed_lag_24h_168h_currency_message,
      cm_duplicate = dam_cmp_lags_duplicate_lag_24h_168h_timestamp_message, cm_out_of_order = dam_cmp_lags_out_of_order_lag_24h_168h_message\<rparr>"

record dam_cmp_lags =
  dam_cmp_lags_case_count :: nat
  dam_cmp_lags_currency :: string
  dam_cmp_lags_lag_24h_mae :: dec
  dam_cmp_lags_lag_24h_168h_mae :: dec

definition compare_dam_price_lag_24h_vs_lag_24h_168h_ols_mae ::
    "dec_context \<Rightarrow> dam_lag24_prediction list \<Rightarrow> dam_lag168_prediction list \<Rightarrow> dam_cmp_lags result" where
  "compare_dam_price_lag_24h_vs_lag_24h_168h_ols_mae ctx xs ys =
     attempt (require_comparable dam_cmp_lags_shared dam_cmp_lags_lag_24h_messages dam_cmp_lags_lag_24h_168h_messages
                lag24_view lag168_view xs ys) (\<lambda>currency.
     attempt (evaluate_dam_price_lag_24h_linear_regression_mae ctx xs) (\<lambda>left_result.
     attempt (evaluate_dam_price_lag_24h_168h_linear_regression_mae ctx ys) (\<lambda>right_result.
       Inr \<lparr>dam_cmp_lags_case_count = length xs, dam_cmp_lags_currency = currency,
            dam_cmp_lags_lag_24h_mae = m24_mae_amount_per_mwh left_result,
            dam_cmp_lags_lag_24h_168h_mae = m168_mae_amount_per_mwh right_result\<rparr>)))"

section \<open>Three cohorts (persistence_vs_lag_24h_vs_lag_24h_168h_ols_comparison.py)\<close>

definition dam_cmp_three_empty_all_message :: string where
  "dam_cmp_three_empty_all_message =
     ''DAM Price persistence-versus-one-feature-versus-two-feature OLS MAE comparison requires a non-empty aligned cohort.''"

definition dam_cmp_three_empty_persistence_message :: string where
  "dam_cmp_three_empty_persistence_message =
     ''DAM Price persistence-versus-one-feature-versus-two-feature OLS MAE comparison requires a non-empty persistence cohort.''"

definition dam_cmp_three_empty_lag_24h_message :: string where
  "dam_cmp_three_empty_lag_24h_message =
     ''DAM Price persistence-versus-one-feature-versus-two-feature OLS MAE comparison requires a non-empty one-feature cohort.''"

definition dam_cmp_three_empty_lag_24h_168h_message :: string where
  "dam_cmp_three_empty_lag_24h_168h_message =
     ''DAM Price persistence-versus-one-feature-versus-two-feature OLS MAE comparison requires a non-empty two-feature cohort.''"

definition dam_cmp_three_unequal_length_message :: string where
  "dam_cmp_three_unequal_length_message =
     ''DAM Price persistence-versus-one-feature-versus-two-feature OLS MAE comparison requires equal persistence, one-feature, and two-feature case counts.''"

definition dam_cmp_three_mixed_persistence_market_message :: string where
  "dam_cmp_three_mixed_persistence_market_message =
     ''DAM Price persistence-versus-one-feature-versus-two-feature OLS MAE comparison requires persistence cases from exactly one market.''"

definition dam_cmp_three_mixed_lag_24h_market_message :: string where
  "dam_cmp_three_mixed_lag_24h_market_message =
     ''DAM Price persistence-versus-one-feature-versus-two-feature OLS MAE comparison requires one-feature predictions from exactly one market.''"

definition dam_cmp_three_mixed_lag_24h_168h_market_message :: string where
  "dam_cmp_three_mixed_lag_24h_168h_market_message =
     ''DAM Price persistence-versus-one-feature-versus-two-feature OLS MAE comparison requires two-feature predictions from exactly one market.''"

definition dam_cmp_three_market_mismatch_message :: string where
  "dam_cmp_three_market_mismatch_message =
     ''DAM Price persistence-versus-one-feature-versus-two-feature OLS MAE comparison requires persistence cases, one-feature predictions, and two-feature predictions from the same market.''"

definition dam_cmp_three_persistence_currency_coherence_message :: string where
  "dam_cmp_three_persistence_currency_coherence_message =
     ''DAM Price persistence-versus-one-feature-versus-two-feature OLS MAE comparison requires matching predicted and actual persistence currency.''"

definition dam_cmp_three_mixed_persistence_currency_message :: string where
  "dam_cmp_three_mixed_persistence_currency_message =
     ''DAM Price persistence-versus-one-feature-versus-two-feature OLS MAE comparison requires persistence cases in exactly one currency.''"

definition dam_cmp_three_mixed_lag_24h_currency_message :: string where
  "dam_cmp_three_mixed_lag_24h_currency_message =
     ''DAM Price persistence-versus-one-feature-versus-two-feature OLS MAE comparison requires one-feature predictions in exactly one currency.''"

definition dam_cmp_three_mixed_lag_24h_168h_currency_message :: string where
  "dam_cmp_three_mixed_lag_24h_168h_currency_message =
     ''DAM Price persistence-versus-one-feature-versus-two-feature OLS MAE comparison requires two-feature predictions in exactly one currency.''"

definition dam_cmp_three_currency_mismatch_message :: string where
  "dam_cmp_three_currency_mismatch_message =
     ''DAM Price persistence-versus-one-feature-versus-two-feature OLS MAE comparison requires persistence cases, one-feature predictions, and two-feature predictions in the same currency.''"

definition dam_cmp_three_duplicate_persistence_timestamp_message :: string where
  "dam_cmp_three_duplicate_persistence_timestamp_message =
     ''DAM Price persistence-versus-one-feature-versus-two-feature OLS MAE comparison requires unique persistence target timestamps.''"

definition dam_cmp_three_duplicate_lag_24h_timestamp_message :: string where
  "dam_cmp_three_duplicate_lag_24h_timestamp_message =
     ''DAM Price persistence-versus-one-feature-versus-two-feature OLS MAE comparison requires unique one-feature target timestamps.''"

definition dam_cmp_three_duplicate_lag_24h_168h_timestamp_message :: string where
  "dam_cmp_three_duplicate_lag_24h_168h_timestamp_message =
     ''DAM Price persistence-versus-one-feature-versus-two-feature OLS MAE comparison requires unique two-feature target timestamps.''"

definition dam_cmp_three_out_of_order_persistence_message :: string where
  "dam_cmp_three_out_of_order_persistence_message =
     ''DAM Price persistence-versus-one-feature-versus-two-feature OLS MAE comparison requires strictly increasing persistence target timestamps.''"

definition dam_cmp_three_out_of_order_lag_24h_message :: string where
  "dam_cmp_three_out_of_order_lag_24h_message =
     ''DAM Price persistence-versus-one-feature-versus-two-feature OLS MAE comparison requires strictly increasing one-feature target timestamps.''"

definition dam_cmp_three_out_of_order_lag_24h_168h_message :: string where
  "dam_cmp_three_out_of_order_lag_24h_168h_message =
     ''DAM Price persistence-versus-one-feature-versus-two-feature OLS MAE comparison requires strictly increasing two-feature target timestamps.''"

definition dam_cmp_three_timestamp_mismatch_message :: string where
  "dam_cmp_three_timestamp_mismatch_message =
     ''DAM Price persistence-versus-one-feature-versus-two-feature OLS MAE comparison requires matching target timestamps at each aligned index.''"

definition dam_cmp_three_actual_mismatch_message :: string where
  "dam_cmp_three_actual_mismatch_message =
     ''DAM Price persistence-versus-one-feature-versus-two-feature OLS MAE comparison requires matching actual price amounts at each aligned index.''"

record dam_cmp_three =
  dam_cmp_three_case_count :: nat
  dam_cmp_three_currency :: string
  dam_cmp_three_persistence_mae :: dec
  dam_cmp_three_lag_24h_mae :: dec
  dam_cmp_three_lag_24h_168h_mae :: dec

definition three_nonempty_equal ::
    "dam_backtest_case list \<Rightarrow> dam_lag24_prediction list \<Rightarrow> dam_lag168_prediction list \<Rightarrow> unit result" where
  "three_nonempty_equal xs ys zs =
     (let refuse = (\<lambda>b m. raise_if b (InvalidRequestError m)) in
      check (refuse (xs = [] \<and> ys = [] \<and> zs = []) dam_cmp_three_empty_all_message)
       (check (refuse (xs = []) dam_cmp_three_empty_persistence_message)
        (check (refuse (ys = []) dam_cmp_three_empty_lag_24h_message)
         (check (refuse (zs = []) dam_cmp_three_empty_lag_24h_168h_message)
           (refuse (length xs \<noteq> length ys \<or> length xs \<noteq> length zs \<or> length ys \<noteq> length zs)
             dam_cmp_three_unequal_length_message)))))"

definition three_market_and_currency ::
    "dam_backtest_case list \<Rightarrow> dam_lag24_prediction list \<Rightarrow> dam_lag168_prediction list \<Rightarrow> string result" where
  "three_market_and_currency xs ys zs =
     (let refuse = (\<lambda>b m. raise_if b (InvalidRequestError m)) in
      check (require_single dbc_market_id dam_cmp_three_mixed_persistence_market_message xs)
       (check (require_single p24_market_id dam_cmp_three_mixed_lag_24h_market_message ys)
        (check (require_single p168_market_id dam_cmp_three_mixed_lag_24h_168h_market_message zs)
         (check (refuse (keys_differ dbc_market_id p24_market_id xs ys \<or>
                         keys_differ dbc_market_id p168_market_id xs zs \<or>
                         keys_differ p24_market_id p168_market_id ys zs)
                   dam_cmp_three_market_mismatch_message)
          (check (require_case_currencies dam_cmp_three_persistence_currency_coherence_message xs)
           (check (require_single actual_currency dam_cmp_three_mixed_persistence_currency_message xs)
            (check (require_single p24_currency dam_cmp_three_mixed_lag_24h_currency_message ys)
             (check (require_single p168_currency dam_cmp_three_mixed_lag_24h_168h_currency_message zs)
              (check (refuse (keys_differ actual_currency p24_currency xs ys \<or>
                              keys_differ actual_currency p168_currency xs zs \<or>
                              keys_differ p24_currency p168_currency ys zs)
                        dam_cmp_three_currency_mismatch_message)
                (Inr (actual_currency (hd xs))))))))))))"

definition three_alignment ::
    "dam_backtest_case list \<Rightarrow> dam_lag24_prediction list \<Rightarrow> dam_lag168_prediction list \<Rightarrow> unit result" where
  "three_alignment xs ys zs =
     require_alignment
       (\<lambda>x (y, z). dbc_target_timestamp x = p24_target_timestamp y \<and>
          dbc_target_timestamp x = p168_target_timestamp z \<and>
          p24_target_timestamp y = p168_target_timestamp z)
       (\<lambda>x (y, z). same_actual_amount persistence_view lag24_view x y \<and>
          same_actual_amount persistence_view lag168_view x z \<and>
          same_actual_amount lag24_view lag168_view y z)
       dam_cmp_three_timestamp_mismatch_message dam_cmp_three_actual_mismatch_message
       (zip xs (zip ys zs))"

definition compare_dam_price_persistence_vs_lag_24h_vs_lag_24h_168h_ols_mae ::
    "dec_context \<Rightarrow> dam_backtest_case list \<Rightarrow> dam_lag24_prediction list \<Rightarrow>
     dam_lag168_prediction list \<Rightarrow> dam_cmp_three result" where
  "compare_dam_price_persistence_vs_lag_24h_vs_lag_24h_168h_ols_mae ctx xs ys zs =
     check (three_nonempty_equal xs ys zs)
      (attempt (three_market_and_currency xs ys zs) (\<lambda>currency.
       check (require_strict_chronology dbc_target_timestamp
                dam_cmp_three_duplicate_persistence_timestamp_message
                dam_cmp_three_out_of_order_persistence_message xs)
        (check (require_strict_chronology p24_target_timestamp
                  dam_cmp_three_duplicate_lag_24h_timestamp_message
                  dam_cmp_three_out_of_order_lag_24h_message ys)
         (check (require_strict_chronology p168_target_timestamp
                   dam_cmp_three_duplicate_lag_24h_168h_timestamp_message
                   dam_cmp_three_out_of_order_lag_24h_168h_message zs)
          (check (three_alignment xs ys zs)
           (attempt (evaluate_previous_day_persistence_mae ctx xs) (\<lambda>persistence_result.
            attempt (evaluate_dam_price_lag_24h_linear_regression_mae ctx ys) (\<lambda>lag_24h_result.
            attempt (evaluate_dam_price_lag_24h_168h_linear_regression_mae ctx zs) (\<lambda>lag_24h_168h_result.
              Inr \<lparr>dam_cmp_three_case_count = length xs, dam_cmp_three_currency = currency,
                   dam_cmp_three_persistence_mae = dpm_mae_amount_per_mwh persistence_result,
                   dam_cmp_three_lag_24h_mae = m24_mae_amount_per_mwh lag_24h_result,
                   dam_cmp_three_lag_24h_168h_mae = m168_mae_amount_per_mwh lag_24h_168h_result\<rparr>)))))))))"

section \<open>What the comparators return\<close>

lemma view_simps [simp]:
  "cv_market persistence_view = dbc_market_id" "cv_currency persistence_view = actual_currency"
  "cv_timestamp persistence_view = dbc_target_timestamp"
  "cv_coherent persistence_view = (\<lambda>c. predicted_currency c = actual_currency c)"
  "cv_actual persistence_view = (\<lambda>c. amount_per_mwh (dbc_actual_price c))"
  "cv_actual lag24_view = p24_actual" "cv_actual lag168_view = p168_actual"
  "cv_market lag24_view = p24_market_id" "cv_currency lag24_view = p24_currency"
  "cv_timestamp lag24_view = p24_target_timestamp" "cv_coherent lag24_view = (\<lambda>_. True)"
  "cv_market lag168_view = p168_market_id" "cv_currency lag168_view = p168_currency"
  "cv_timestamp lag168_view = p168_target_timestamp" "cv_coherent lag168_view = (\<lambda>_. True)"
  by (simp_all add: persistence_view_def lag24_view_def lag168_view_def)

lemma compare_trained_ok:
  "compare_dam_price_persistence_vs_trained_ols_mae ctx xs ys = Inr r \<longleftrightarrow>
   comparable persistence_view lag24_view xs ys \<and>
   (\<exists>p l. evaluate_previous_day_persistence_mae ctx xs = Inr p \<and>
      evaluate_dam_price_lag_24h_linear_regression_mae ctx ys = Inr l \<and>
      r = \<lparr>dam_cmp_trained_case_count = length xs, dam_cmp_trained_currency = actual_currency (hd xs),
           dam_cmp_trained_persistence_mae = dpm_mae_amount_per_mwh p,
           dam_cmp_trained_trained_mae = m24_mae_amount_per_mwh l\<rparr>)"
  by (auto simp: compare_dam_price_persistence_vs_trained_ols_mae_def result_simps require_comparable_ok)

lemma compare_persistence_168_ok:
  "compare_dam_price_persistence_vs_lag_24h_168h_ols_mae ctx xs zs = Inr r \<longleftrightarrow>
   comparable persistence_view lag168_view xs zs \<and>
   (\<exists>p l. evaluate_previous_day_persistence_mae ctx xs = Inr p \<and>
      evaluate_dam_price_lag_24h_168h_linear_regression_mae ctx zs = Inr l \<and>
      r = \<lparr>dam_cmp_persistence_168_case_count = length xs,
           dam_cmp_persistence_168_currency = actual_currency (hd xs),
           dam_cmp_persistence_168_persistence_mae = dpm_mae_amount_per_mwh p,
           dam_cmp_persistence_168_lag_24h_168h_mae = m168_mae_amount_per_mwh l\<rparr>)"
  by (auto simp: compare_dam_price_persistence_vs_lag_24h_168h_ols_mae_def result_simps
      require_comparable_ok)

lemma compare_lags_ok:
  "compare_dam_price_lag_24h_vs_lag_24h_168h_ols_mae ctx ys zs = Inr r \<longleftrightarrow>
   comparable lag24_view lag168_view ys zs \<and>
   (\<exists>l l'. evaluate_dam_price_lag_24h_linear_regression_mae ctx ys = Inr l \<and>
      evaluate_dam_price_lag_24h_168h_linear_regression_mae ctx zs = Inr l' \<and>
      r = \<lparr>dam_cmp_lags_case_count = length ys, dam_cmp_lags_currency = p24_currency (hd ys),
           dam_cmp_lags_lag_24h_mae = m24_mae_amount_per_mwh l,
           dam_cmp_lags_lag_24h_168h_mae = m168_mae_amount_per_mwh l'\<rparr>)"
  by (auto simp: compare_dam_price_lag_24h_vs_lag_24h_168h_ols_mae_def result_simps
      require_comparable_ok)

definition three_comparable ::
    "dam_backtest_case list \<Rightarrow> dam_lag24_prediction list \<Rightarrow> dam_lag168_prediction list \<Rightarrow> bool" where
  "three_comparable xs ys zs \<longleftrightarrow>
     comparable persistence_view lag24_view xs ys \<and> comparable persistence_view lag168_view xs zs \<and>
     comparable lag24_view lag168_view ys zs"

text \<open>The guards of the three-cohort comparator, run in sequence.\<close>

definition three_guards ::
    "dam_backtest_case list \<Rightarrow> dam_lag24_prediction list \<Rightarrow> dam_lag168_prediction list \<Rightarrow> bool" where
  "three_guards xs ys zs \<longleftrightarrow>
     three_nonempty_equal xs ys zs = Inr () \<and>
     three_market_and_currency xs ys zs = Inr (actual_currency (hd xs)) \<and>
     strictly_increasing dbc_target_timestamp xs \<and> strictly_increasing p24_target_timestamp ys \<and>
     strictly_increasing p168_target_timestamp zs \<and> three_alignment xs ys zs = Inr ()"

lemma zip3_all:
  assumes "length xs = length ys" "length ys = length zs"
  shows "(\<forall>(x, y, z) \<in> set (zip xs (zip ys zs)). P x y \<and> Q x z \<and> R y z) \<longleftrightarrow>
    (\<forall>(x, y) \<in> set (zip xs ys). P x y) \<and> (\<forall>(x, z) \<in> set (zip xs zs). Q x z) \<and>
    (\<forall>(y, z) \<in> set (zip ys zs). R y z)"
  using assms by (induction xs ys zs rule: list_induct3) auto

lemma alignment_three:
  assumes "length xs = length ys" "length xs = length zs"
  shows "three_alignment xs ys zs = Inr () \<longleftrightarrow>
    (\<forall>(x, y) \<in> set (zip xs ys). same_instant persistence_view lag24_view x y \<and>
       same_actual_amount persistence_view lag24_view x y) \<and>
    (\<forall>(x, z) \<in> set (zip xs zs). same_instant persistence_view lag168_view x z \<and>
       same_actual_amount persistence_view lag168_view x z) \<and>
    (\<forall>(y, z) \<in> set (zip ys zs). same_instant lag24_view lag168_view y z \<and>
       same_actual_amount lag24_view lag168_view y z)"
proof -
  have "three_alignment xs ys zs = Inr () \<longleftrightarrow>
    (\<forall>(x, y, z) \<in> set (zip xs (zip ys zs)).
       (same_instant persistence_view lag24_view x y \<and> same_actual_amount persistence_view lag24_view x y) \<and>
       (same_instant persistence_view lag168_view x z \<and> same_actual_amount persistence_view lag168_view x z) \<and>
       (same_instant lag24_view lag168_view y z \<and> same_actual_amount lag24_view lag168_view y z))"
    unfolding three_alignment_def require_alignment_ok by (rule ball_cong) (auto simp: same_instant_def)
  then show ?thesis using assms by (simp only: zip3_all)
qed

lemma three_guards_iff: "three_guards xs ys zs \<longleftrightarrow> three_comparable xs ys zs"
proof
  let ?sm = "dam_cmp_trained_shared"
  let ?am = "dam_cmp_trained_persistence_messages" and ?bm = "dam_cmp_trained_trained_messages"
  note unfold = require_comparable_def require_nonempty_equal_def keys_differ_def list_ex_iff
    require_shared_market_and_currency_def result_simps cohort_simps
  note unfold3 = three_guards_def three_nonempty_equal_def three_market_and_currency_def Let_def
  {
    assume g: "three_guards xs ys zs"
    then have len: "length xs = length ys" "length xs = length zs"
      by (simp_all add: unfold3 result_simps)
    have "require_comparable ?sm ?am ?bm persistence_view lag24_view xs ys = Inr (actual_currency (hd xs))"
        "require_comparable ?sm ?am ?bm persistence_view lag168_view xs zs = Inr (actual_currency (hd xs))"
        "require_comparable ?sm ?am ?bm lag24_view lag168_view ys zs = Inr (p24_currency (hd ys))"
      using g alignment_three [OF len] by (simp_all add: unfold unfold3)
    then show "three_comparable xs ys zs" by (simp add: three_comparable_def require_comparable_ok)
  }
  assume c: "three_comparable xs ys zs"
  then have runs: "require_comparable ?sm ?am ?bm persistence_view lag24_view xs ys = Inr (actual_currency (hd xs))"
      "require_comparable ?sm ?am ?bm persistence_view lag168_view xs zs = Inr (actual_currency (hd xs))"
      "require_comparable ?sm ?am ?bm lag24_view lag168_view ys zs = Inr (p24_currency (hd ys))"
    by (simp_all add: three_comparable_def require_comparable_ok)
  then have len: "length xs = length ys" "length xs = length zs" by (simp_all add: unfold)
  show "three_guards xs ys zs" using runs alignment_three [OF len] by (simp add: unfold unfold3)
qed

lemma compare_three_ok:
  "compare_dam_price_persistence_vs_lag_24h_vs_lag_24h_168h_ols_mae ctx xs ys zs = Inr r \<longleftrightarrow>
   three_comparable xs ys zs \<and>
   (\<exists>p l l'. evaluate_previous_day_persistence_mae ctx xs = Inr p \<and>
      evaluate_dam_price_lag_24h_linear_regression_mae ctx ys = Inr l \<and>
      evaluate_dam_price_lag_24h_168h_linear_regression_mae ctx zs = Inr l' \<and>
      r = \<lparr>dam_cmp_three_case_count = length xs, dam_cmp_three_currency = actual_currency (hd xs),
           dam_cmp_three_persistence_mae = dpm_mae_amount_per_mwh p,
           dam_cmp_three_lag_24h_mae = m24_mae_amount_per_mwh l,
           dam_cmp_three_lag_24h_168h_mae = m168_mae_amount_per_mwh l'\<rparr>)"
proof -
  have currency: "three_market_and_currency xs ys zs = Inr c \<Longrightarrow> c = actual_currency (hd xs)" for c
    by (auto simp: three_market_and_currency_def Let_def result_simps)
  have nonempty: "three_nonempty_equal xs ys zs = Inr () \<Longrightarrow> xs \<noteq> [] \<and> ys \<noteq> [] \<and> zs \<noteq> []"
    by (auto simp: three_nonempty_equal_def Let_def result_simps)
  show ?thesis
    unfolding three_guards_iff [symmetric] three_guards_def
      compare_dam_price_persistence_vs_lag_24h_vs_lag_24h_168h_ols_mae_def
    by (auto simp: result_simps cohort_simps dest: currency nonempty)
qed

section \<open>The experiment as a whole\<close>

lemma one_valued_image: "one_valued k (map f xs) \<longleftrightarrow> one_valued (\<lambda>x. k (f x)) xs"
  by (simp add: one_valued_def)

text \<open>
  Backtest cases and one-feature rows of one history are two images of the same records, those with
  an observation 24 hours earlier.
\<close>

definition paired_records :: "market_price_record list \<Rightarrow> market_price_record list" where
  "paired_records h = filter (complete_record mpr_timestamp [dam_lag] h) (sort_key mpr_timestamp h)"

abbreviation case_of :: "market_price_record list \<Rightarrow> market_price_record \<Rightarrow> dam_backtest_case" where
  "case_of h \<equiv> lag_row_spec mpr_timestamp [dam_lag] dam_backtest_case_for_target h"

abbreviation row_of :: "market_price_record list \<Rightarrow> market_price_record \<Rightarrow> dam_lag24_row" where
  "row_of h \<equiv> lag_row_spec mpr_timestamp [dam_lag] dam_lag24_row_for_target h"

lemma case_of_fields:
  "dbc_market_id (case_of h r) = mpr_market_id r" "dbc_target_timestamp (case_of h r) = mpr_timestamp r"
  "dbc_actual_price (case_of h r) = mpr_price r"
  "dbc_predicted_price (case_of h r) = mpr_price (record_at mpr_timestamp h (mpr_timestamp r - dam_lag))"
  by (simp_all add: lag_row_spec_def dam_backtest_case_for_target_def)

lemma row_of_fields:
  "l24_market_id (row_of h r) = mpr_market_id r" "l24_target_timestamp (row_of h r) = mpr_timestamp r"
  "l24_currency (row_of h r) = record_currency r" "l24_target (row_of h r) = amount_per_mwh (mpr_price r)"
  by (simp_all add: lag_row_spec_def dam_lag24_row_for_target_def)

lemma case_of_coherent:
  assumes "good_price_history [dam_lag] h" "r \<in> set (paired_records h)"
  shows "predicted_currency (case_of h r) = actual_currency (case_of h r)"
proof -
  have "mpr_timestamp r - dam_lag \<in> mpr_timestamp ` set h"
    using assms(2) by (simp add: paired_records_def complete_record_def)
  then have "record_at mpr_timestamp h (mpr_timestamp r - dam_lag) \<in> set h"
    using dam_backtest.record_at_mem [OF assms(1)] by blast
  moreover have "r \<in> set h" using assms(2) by (simp add: paired_records_def)
  ultimately have "record_currency (record_at mpr_timestamp h (mpr_timestamp r - dam_lag)) = record_currency r"
    using assms(1) unfolding good_price_history_def one_valued_def by blast
  then show ?thesis by (simp add: case_of_fields)
qed

lemma prediction_matches_record:
  assumes "dam_lag24_prediction_for_row ctx fit (row_of h r) = Inr p"
  shows "p24_market_id p = mpr_market_id r" "p24_currency p = record_currency r"
    "p24_target_timestamp p = mpr_timestamp r"
    "dec_eq (amount_per_mwh (mpr_price r)) (p24_actual p)"
proof -
  have ok: "finite_lag24_row (row_of h r)" "p24_actual p = amount_per_mwh (mpr_price r)"
    using assms by (simp_all add: prediction24_ok row_of_fields)
  then have "dec_is_finite (amount_per_mwh (mpr_price r))"
    by (simp add: finite_lag24_row_def row_of_fields)
  then show "dec_eq (amount_per_mwh (mpr_price r)) (p24_actual p)" using ok by (simp add: dec_eq_finite)
qed (use assms in \<open>simp_all add: prediction24_ok row_of_fields\<close>)

lemma experiment_comparable:
  assumes good: "good_price_history [dam_lag] h"
    and cases: "build_dam_backtest_cases h = Inr cases"
    and rows: "build_dam_price_lag_24h_feature_rows h = Inr rows"
    and split: "split_dam_price_feature_rows_chronologically rows cutoff = Inr s"
    and run: "predict_dam_price_lag_24h_linear_regression ctx fit (l24_evaluation_rows s) = Inr ps"
  shows "comparable persistence_view lag24_view
    (filter (\<lambda>c. cutoff \<le> dbc_target_timestamp c) cases) ps"
proof -
  define L where "L = filter (\<lambda>r. cutoff \<le> mpr_timestamp r) (paired_records h)"
  have sub: "set L \<subseteq> set (paired_records h)" "set L \<subseteq> set h" by (auto simp: L_def paired_records_def)
  have cases': "cases = map (case_of h) (paired_records h)" "rows = map (row_of h) (paired_records h)"
    using dam_backtest.build_spec [OF good] dam_lag24_features.build_spec [OF good] cases rows
    by (simp_all add: lag_rows_spec_def paired_records_def)
  have xs: "filter (\<lambda>c. cutoff \<le> dbc_target_timestamp c) cases = map (case_of h) L"
    by (simp add: cases' L_def filter_map comp_def case_of_fields)
  have ys: "l24_evaluation_rows s = map (row_of h) L"
    using split by (simp add: split_lag24_ok cases' L_def filter_map comp_def row_of_fields)
  have matched: "list_all2 (\<lambda>r p. dam_lag24_prediction_for_row ctx fit (row_of h r) = Inr p) L ps"
    using run ys by (simp add: predict_lag24_ok list_all2_map1)
  have "strictly_increasing dbc_target_timestamp (map (case_of h) L)"
    using strictly_increasing_filter [OF dam_backtest.build_order [OF good cases]]
    by (simp flip: xs)
  moreover have "L \<noteq> []" using split ys by (simp add: split_lag24_ok)
  moreover have "one_valued mpr_market_id L" "one_valued record_currency L"
    using good sub(2) by (auto simp: good_price_history_def intro: one_valued_subset)
  moreover have "\<forall>r \<in> set L. predicted_currency (case_of h r) = actual_currency (case_of h r)"
    using case_of_coherent [OF good] sub(1) by blast
  moreover have "list_all2 (\<lambda>r p. mpr_market_id r = p24_market_id p \<and> record_currency r = p24_currency p \<and>
      mpr_timestamp r = p24_target_timestamp p \<and>
      dec_eq (amount_per_mwh (mpr_price r)) (p24_actual p)) L ps"
    using matched by (rule list_all2_mono) (auto dest: prediction_matches_record)
  ultimately show ?thesis
    unfolding xs comparable_def view_simps same_instant_def same_actual_amount_def
    by (simp add: list_all2_map1 one_valued_image case_of_fields)
qed

section \<open>Properties\<close>

text \<open>C37: EXPERIMENT-ALIGNED. The backtest cases from the cutoff on and the one-feature predictions of
  the evaluation rows, both derived from one good history, always pass the comparator's checks:
  same length, market, currency, timestamps and actual amounts.\<close>

theorem experiment_cohorts_pass_comparison:
  assumes "good_price_history [dam_lag] h"
    and "build_dam_backtest_cases h = Inr cases"
    and "build_dam_price_lag_24h_feature_rows h = Inr rows"
    and "split_dam_price_feature_rows_chronologically rows cutoff = Inr s"
    and "predict_dam_price_lag_24h_linear_regression ctx fit (l24_evaluation_rows s) = Inr ps"
  shows "\<exists>currency. require_comparable dam_cmp_trained_shared dam_cmp_trained_persistence_messages
    dam_cmp_trained_trained_messages persistence_view lag24_view
    (filter (\<lambda>c. cutoff \<le> dbc_target_timestamp c) cases) ps = Inr currency"
  using experiment_comparable [OF assms] by (simp add: require_comparable_ok)

definition three_days :: "market_price_record list" where
  "three_days = [sample_record 86400000000 10, sample_record 172800000000 13, sample_record 259200000000 16]"

definition sample_fit24 :: dam_lag24_fit where
  "sample_fit24 = \<lparr>l24_slope = DFin False 1 0, l24_intercept = DFin False 2 0\<rparr>"

definition three_days_row :: "utc \<Rightarrow> nat \<Rightarrow> nat \<Rightarrow> dam_lag24_row" where
  "three_days_row t x y = sample_lag24_row t x y"

definition three_days_case :: "utc \<Rightarrow> nat \<Rightarrow> nat \<Rightarrow> dam_backtest_case" where
  "three_days_case t x y = \<lparr>dbc_market_id = ''AM'', dbc_target_timestamp = t,
     dbc_predicted_price = sample_price x, dbc_actual_price = sample_price y\<rparr>"

definition three_days_prediction :: dam_lag24_prediction where
  "three_days_prediction = \<lparr>p24_market_id = ''AM'', p24_currency = ''AMD'',
     p24_target_timestamp = 259200000000, p24_predicted = DFin False 15 0, p24_actual = DFin False 16 0\<rparr>"

lemmas three_days_defs = three_days_def three_days_row_def three_days_case_def three_days_prediction_def
  sample_defs sample_lag24_row_def dam_lag_def datetime_max_def

lemmas build_eval = require_single_def raise_if_def unique_timestamp_index_def lag_rows_def
  row_for_target_def dict_get_def datetime_minus_def

lemma three_days_good: "good_price_history [dam_lag] three_days"
  by (simp add: three_days_defs good_price_history_def one_valued_def lags_in_range_def)

lemma three_days_cases: "build_dam_backtest_cases three_days
    = Inr [three_days_case 172800000000 10 13, three_days_case 259200000000 13 16]"
  by (simp add: build_dam_backtest_cases_def three_days_defs build_eval dam_backtest_case_for_target_def)

lemma three_days_rows: "build_dam_price_lag_24h_feature_rows three_days
    = Inr [three_days_row 172800000000 10 13, three_days_row 259200000000 13 16]"
  by (simp add: build_dam_price_lag_24h_feature_rows_def three_days_defs build_eval dam_lag24_row_for_target_def)

lemma three_days_split: "split_dam_price_feature_rows_chronologically
    [three_days_row 172800000000 10 13, three_days_row 259200000000 13 16] 259200000000
    = Inr \<lparr>l24_training_rows = [three_days_row 172800000000 10 13],
           l24_evaluation_rows = [three_days_row 259200000000 13 16]\<rparr>"
  by (simp add: split_lag24_ok three_days_defs sample_lag24_defs)

lemma three_days_predictions: "predict_dam_price_lag_24h_linear_regression default_context sample_fit24
    [three_days_row 259200000000 13 16] = Inr [three_days_prediction]"
  by (simp add: predict_lag24_ok prediction24_ok three_days_defs sample_lag24_defs sample_fit24_def decimal_fast)

theorem experiment_cohorts_pass_comparison_witness:
  "\<exists>currency. require_comparable dam_cmp_trained_shared dam_cmp_trained_persistence_messages
    dam_cmp_trained_trained_messages persistence_view lag24_view
    [three_days_case 259200000000 13 16] [three_days_prediction] = Inr currency"
  using experiment_cohorts_pass_comparison [OF three_days_good three_days_cases three_days_rows
      three_days_split] three_days_predictions by (simp add: three_days_case_def)

text \<open>The three-cohort comparison succeeds exactly when the three two-cohort
  comparisons succeed, and reports the same count, currency and errors as they do.\<close>

theorem three_way_agrees_with_pairwise:
  "compare_dam_price_persistence_vs_lag_24h_vs_lag_24h_168h_ols_mae ctx xs ys zs = Inr r \<longleftrightarrow>
   (\<exists>a b c. compare_dam_price_persistence_vs_trained_ols_mae ctx xs ys = Inr a \<and>
      compare_dam_price_persistence_vs_lag_24h_168h_ols_mae ctx xs zs = Inr b \<and>
      compare_dam_price_lag_24h_vs_lag_24h_168h_ols_mae ctx ys zs = Inr c \<and>
      r = \<lparr>dam_cmp_three_case_count = dam_cmp_trained_case_count a,
           dam_cmp_three_currency = dam_cmp_trained_currency a,
           dam_cmp_three_persistence_mae = dam_cmp_persistence_168_persistence_mae b,
           dam_cmp_three_lag_24h_mae = dam_cmp_lags_lag_24h_mae c,
           dam_cmp_three_lag_24h_168h_mae = dam_cmp_persistence_168_lag_24h_168h_mae b\<rparr>)"
  by (auto simp: compare_three_ok three_comparable_def compare_trained_ok compare_persistence_168_ok
      compare_lags_ok)

end
