(* ===== verification/Float_Arith.thy ===== *)
theory Float_Arith
  imports PyFloat
begin

text \<open>
  Arithmetic on Python floats: IEEE binary64 operations rounded to nearest, ties to even, as the
  interpreter performs them, and the builtin \<open>sum\<close> of CPython 3.12 (the version pyproject.toml
  pins), which compensates a float sum in Neumaier's way. Overflow is an infinity, except where
  Python raises: division by zero and \<open>**\<close>. A significand is not normalised; equal numbers may
  have several representations, which comparison and \<open>float_val\<close> do not see.
\<close>

section \<open>Operations\<close>

definition float_round :: "bool \<Rightarrow> nat \<Rightarrow> int \<Rightarrow> pyfloat" where
  "float_round s c e =
     (if c = 0 then Fl s 0 0
      else case round_magnitude binary64 c e of
        None \<Rightarrow> FlInf s
      | Some (q, k) \<Rightarrow> Fl s q k)"

fun float_neg :: "pyfloat \<Rightarrow> pyfloat" where
  "float_neg (Fl s m e) = Fl (\<not> s) m e"
| "float_neg (FlInf s) = FlInf (\<not> s)"
| "float_neg FlNaN = FlNaN"

fun float_abs :: "pyfloat \<Rightarrow> pyfloat" where
  "float_abs (Fl s m e) = Fl False m e"
| "float_abs (FlInf s) = FlInf False"
| "float_abs FlNaN = FlNaN"

text \<open>A sum that is exactly zero is negative only when both terms are negative zeros.\<close>

fun float_add :: "pyfloat \<Rightarrow> pyfloat \<Rightarrow> pyfloat" where
  "float_add FlNaN _ = FlNaN"
| "float_add _ FlNaN = FlNaN"
| "float_add (FlInf s) (FlInf t) = (if s = t then FlInf s else FlNaN)"
| "float_add (FlInf s) (Fl _ _ _) = FlInf s"
| "float_add (Fl _ _ _) (FlInf t) = FlInf t"
| "float_add (Fl s m e) (Fl t n f) =
     (let g = min e f; v = float_aligned g s m e + float_aligned g t n f in
      if v = 0 then Fl (s \<and> t) 0 0 else float_round (v < 0) (nat \<bar>v\<bar>) g)"

definition float_sub :: "pyfloat \<Rightarrow> pyfloat \<Rightarrow> pyfloat" where
  "float_sub x y = float_add x (float_neg y)"

fun float_mul :: "pyfloat \<Rightarrow> pyfloat \<Rightarrow> pyfloat" where
  "float_mul FlNaN _ = FlNaN"
| "float_mul _ FlNaN = FlNaN"
| "float_mul (FlInf s) (FlInf t) = FlInf (s \<noteq> t)"
| "float_mul (FlInf s) (Fl t n _) = (if n = 0 then FlNaN else FlInf (s \<noteq> t))"
| "float_mul (Fl s m _) (FlInf t) = (if m = 0 then FlNaN else FlInf (s \<noteq> t))"
| "float_mul (Fl s m e) (Fl t n f) = float_round (s \<noteq> t) (m * n) (e + f)"

text \<open>
  The quotient of two significands: exact when it is an integer, otherwise at least 55 bits followed
  by a bit that says whether a remainder was dropped, which rounds like the exact quotient.
\<close>

definition float_quotient :: "bool \<Rightarrow> nat \<Rightarrow> nat \<Rightarrow> int \<Rightarrow> pyfloat" where
  "float_quotient s m n e =
     (if n dvd m then float_round s (m div n) e
      else
        let k = nat (int (digits_in 2 n) + 55 - int (digits_in 2 m));
            q = m * 2 ^ k div n;
            sticky = (if m * 2 ^ k mod n = 0 then 0 else 1)
        in float_round s (2 * q + sticky) (e - int k - 1))"

fun float_quot :: "pyfloat \<Rightarrow> pyfloat \<Rightarrow> pyfloat" where
  "float_quot FlNaN _ = FlNaN"
| "float_quot _ FlNaN = FlNaN"
| "float_quot (FlInf s) (FlInf t) = FlNaN"
| "float_quot (FlInf s) (Fl t n _) = FlInf (s \<noteq> t)"
| "float_quot (Fl s m _) (FlInf t) = Fl (s \<noteq> t) 0 0"
| "float_quot (Fl s m e) (Fl t n f) = float_quotient (s \<noteq> t) m n (e - f)"

fun float_is_zero :: "pyfloat \<Rightarrow> bool" where
  "float_is_zero (Fl s m e) = (m = 0)"
| "float_is_zero _ = False"

definition float_div :: "pyfloat \<Rightarrow> pyfloat \<Rightarrow> pyfloat result" where
  "float_div x y =
     (if float_is_zero y then Inl (OtherException ''ZeroDivisionError'') else Inr (float_quot x y))"

definition float_of_nat :: "nat \<Rightarrow> pyfloat" where
  "float_of_nat n = float_round False n 0"

text \<open>
  \<open>x ** 2\<close>: the special cases of \<open>float_pow\<close>, then the C library's \<open>pow(|x|, 2.0)\<close>, a
  parameter; an infinite answer for a finite argument sets \<open>errno\<close> and raises.
\<close>

fun float_square :: "(pyfloat \<Rightarrow> pyfloat) \<Rightarrow> pyfloat \<Rightarrow> pyfloat result" where
  "float_square c_pow2 FlNaN = Inr FlNaN"
| "float_square c_pow2 (FlInf s) = Inr (FlInf False)"
| "float_square c_pow2 (Fl s m e) =
     (if m = 0 then Inr float_zero
      else if float_isfinite (c_pow2 (Fl False m e)) then Inr (c_pow2 (Fl False m e))
      else Inl OverflowError)"

section \<open>The builtin sum\<close>

text \<open>
  The loop over C doubles: the running sum and its compensation. The start value is the integer 0,
  which is added to the first item; the compensation is applied at the end when it is finite.
\<close>

definition neumaier_step :: "pyfloat \<times> pyfloat \<Rightarrow> pyfloat \<Rightarrow> pyfloat \<times> pyfloat" where
  "neumaier_step acc x =
     (let (total, c) = acc;
          t = float_add total x;
          lost = (if float_le (float_abs x) (float_abs total)
                  then float_add (float_sub total t) x
                  else float_add (float_sub x t) total)
      in (t, float_add c lost))"

definition compensate :: "pyfloat \<times> pyfloat \<Rightarrow> pyfloat" where
  "compensate acc =
     (let (total, c) = acc in
      if \<not> float_is_zero c \<and> float_isfinite c then float_add total c else total)"

fun py_sum :: "pyfloat list \<Rightarrow> pyfloat" where
  "py_sum [] = float_zero"
| "py_sum (x # xs) = compensate (foldl neumaier_step (float_add float_zero x, float_zero) xs)"

section \<open>Rounding\<close>

lemma binary64_valid [simp]: "valid_format binary64"
  by (simp add: binary64_def valid_format_def)

lemma binary64_sel [simp]:
  "radix binary64 = 2" "precision binary64 = 53" "etiny binary64 = - 1074" "etop binary64 = 971"
  by (simp_all add: binary64_def)

lemma float_round_not_nan [simp]: "float_round s c e \<noteq> FlNaN"
  by (simp add: float_round_def split: option.split)

lemma float_round_zero [simp]: "float_round s 0 e = Fl s 0 0"
  by (simp add: float_round_def)

text \<open>A magnitude of at most 53 bits in the exponent range is kept as it is.\<close>

lemma float_round_small:
  assumes "0 < c" "c < 2 ^ 53" "- 1074 \<le> e" "e \<le> 971"
  shows "float_round s c e = Fl s c e"
proof -
  have d: "digits_in 2 c \<le> 53" using assms digits_in_le_iff [of 2 53 c] by simp
  then have "unit_exponent binary64 c e \<le> e" using assms by (simp add: unit_exponent_def)
  then show ?thesis
    using assms d by (simp add: float_round_def round_magnitude_def Let_def)
qed

lemma float_round_cases:
  "(\<exists>q k. float_round s c e = Fl s q k) \<or> float_round s c e = FlInf s"
  by (auto simp: float_round_def split: option.split)

text \<open>A finite rounding is within half a unit in the last place of the exact value.\<close>

lemma float_round_error:
  assumes "float_isfinite (float_round s c e)" "c \<noteq> 0"
  shows "2 * \<bar>float_val (float_round s c e) - (if s then - magnitude 2 c e else magnitude 2 c e)\<bar>
       \<le> 2 powi unit_exponent binary64 c e"
proof -
  obtain q k where R: "round_magnitude binary64 c e = Some (q, k)"
    using assms by (auto simp: float_round_def split: option.splits)
  have "2 * \<bar>magnitude 2 q k - magnitude 2 c e\<bar> \<le> 2 powi unit_exponent binary64 c e"
    using round_magnitude_error [OF binary64_valid R] by simp
  then show ?thesis using assms(2) R by (auto simp: float_round_def abs_minus_commute)
qed

section \<open>Signs\<close>

text \<open>Neither NaN nor below zero.\<close>

definition float_nonneg :: "pyfloat \<Rightarrow> bool" where
  "float_nonneg x \<longleftrightarrow> (case x of FlNaN \<Rightarrow> False | FlInf s \<Rightarrow> \<not> s | Fl s m e \<Rightarrow> s \<longrightarrow> m = 0)"

lemma float_val_nonneg_iff: "0 \<le> float_val (Fl s m e) \<longleftrightarrow> (s \<longrightarrow> m = 0)"
  using magnitude_nonneg [of 2 m e] magnitude_eq_0_iff [of 2 m e]
  by (cases s) (auto simp: le_less)

lemma float_nonneg_finite: "float_isfinite x \<Longrightarrow> float_nonneg x \<longleftrightarrow> 0 \<le> float_val x"
  by (cases x) (simp_all add: float_nonneg_def float_val_nonneg_iff del: float_val.simps)

lemma float_nonneg_iff_le: "float_nonneg x \<longleftrightarrow> float_le float_zero x"
proof (cases x)
  case (Fl s m e)
  then show ?thesis
    using float_le_finite [of float_zero x] float_nonneg_finite [of x] by simp
qed (simp_all add: float_nonneg_def float_zero_def)

lemma float_lt_zero_iff: "float_lt x float_zero \<longleftrightarrow> x \<noteq> FlNaN \<and> \<not> float_nonneg x"
proof (cases x)
  case (Fl s m e)
  have "float_le x float_zero \<longleftrightarrow> float_val x \<le> 0" "float_le float_zero x \<longleftrightarrow> 0 \<le> float_val x"
    using Fl float_le_finite [of x float_zero] float_le_finite [of float_zero x] by simp_all
  then show ?thesis
    using Fl float_nonneg_finite [of x] by (auto simp: float_lt_def)
qed (simp_all add: float_lt_def float_zero_def float_nonneg_def)

lemma float_nonneg_round [simp]: "float_nonneg (float_round False c e)"
  using float_round_cases [of False c e] by (auto simp: float_nonneg_def)

lemma float_nonneg_abs [simp]: "x \<noteq> FlNaN \<Longrightarrow> float_nonneg (float_abs x)"
  by (cases x) (simp_all add: float_nonneg_def)

lemma float_aligned_nonneg: "float_nonneg (Fl s m e) \<Longrightarrow> 0 \<le> float_aligned g s m e"
  by (auto simp: float_nonneg_def float_aligned_def)

lemma float_nonneg_add:
  assumes "float_nonneg x" "float_nonneg y"
  shows "float_nonneg (float_add x y)"
proof (cases x)
  case (Fl s m e)
  show ?thesis
  proof (cases y)
    case y: (Fl t n f)
    have "0 \<le> float_aligned (min e f) s m e + float_aligned (min e f) t n f"
      using assms by (simp add: Fl y float_aligned_nonneg)
    then show ?thesis
      by (auto simp: Fl y Let_def not_less [symmetric] float_nonneg_def [of "Fl _ 0 0"])
  qed (use Fl assms in \<open>simp_all add: float_nonneg_def\<close>)
next
  case (FlInf s)
  then show ?thesis using assms by (cases y) (simp_all add: float_nonneg_def)
qed (use assms in \<open>simp add: float_nonneg_def\<close>)

lemma float_nonneg_quot:
  assumes "float_nonneg x" "y = Fl False n f"
  shows "float_nonneg (float_quot x y)"
proof (cases x)
  case (Fl s m e)
  show ?thesis
  proof (cases "m = 0")
    case True
    then show ?thesis by (simp add: Fl assms(2) float_quotient_def float_nonneg_def)
  next
    case False
    then have "\<not> s" using assms(1) by (simp add: Fl float_nonneg_def)
    then show ?thesis by (simp add: Fl assms(2) float_quotient_def Let_def)
  qed
qed (use assms in \<open>simp_all add: float_nonneg_def\<close>)

lemma float_neg_simps [simp]:
  "float_isfinite (float_neg x) = float_isfinite x" "float_val (float_neg x) = - float_val x"
  "float_isfinite (float_abs x) = float_isfinite x" "float_val (float_abs x) = \<bar>float_val x\<bar>"
  "float_neg x = FlNaN \<longleftrightarrow> x = FlNaN" "float_abs x = FlNaN \<longleftrightarrow> x = FlNaN"
  by (cases x; simp)+

lemma float_add_not_nan: "float_isfinite x \<Longrightarrow> float_isfinite y \<Longrightarrow> float_add x y \<noteq> FlNaN"
  by (auto simp: float_isfinite_iff Let_def split: if_splits)

lemma float_sub_not_nan: "float_isfinite x \<Longrightarrow> float_isfinite y \<Longrightarrow> float_sub x y \<noteq> FlNaN"
  by (simp add: float_sub_def float_add_not_nan)

lemma float_of_nat_pos: "0 < n \<Longrightarrow> n < 2 ^ 53 \<Longrightarrow> float_of_nat n = Fl False n 0"
  by (simp add: float_of_nat_def float_round_small)

section \<open>Exactness\<close>

text \<open>A sum, difference or product that fits the format is computed exactly.\<close>

lemma float_add_exact:
  assumes "float_aligned (min e f) s m e + float_aligned (min e f) t n f = v"
    and "\<bar>v\<bar> < 2 ^ 53" "- 1074 \<le> min e f" "min e f \<le> 971"
  shows "float_val (float_add (Fl s m e) (Fl t n f)) = float_val (Fl s m e) + float_val (Fl t n f)"
    and "float_isfinite (float_add (Fl s m e) (Fl t n f))"
proof -
  let ?g = "min e f"
  have sum: "float_val (Fl s m e) + float_val (Fl t n f) = of_int v * 2 powi ?g"
    using float_aligned_value [of ?g e s m] float_aligned_value [of ?g f t n]
    by (simp add: distrib_right assms(1) [symmetric] del: float_val.simps)
  have "float_val (float_add (Fl s m e) (Fl t n f)) = of_int v * 2 powi ?g \<and>
        float_isfinite (float_add (Fl s m e) (Fl t n f))"
  proof (cases "v = 0")
    case True
    then show ?thesis using assms(1) by (simp add: Let_def)
  next
    case False
    then have "nat \<bar>v\<bar> < 2 ^ 53" using assms(2) by (simp add: nat_less_iff)
    moreover have "of_nat (nat \<bar>v\<bar>) = \<bar>of_int v :: rat\<bar>" by simp
    ultimately show ?thesis using assms False
      by (auto simp: Let_def float_round_small magnitude_def)
  qed
  then show "float_val (float_add (Fl s m e) (Fl t n f)) = float_val (Fl s m e) + float_val (Fl t n f)"
    and "float_isfinite (float_add (Fl s m e) (Fl t n f))" using sum by simp_all
qed

lemma float_mul_exact:
  assumes "m * n < 2 ^ 53" "- 1074 \<le> e + f" "e + f \<le> 971"
  shows "float_val (float_mul (Fl s m e) (Fl t n f)) = float_val (Fl s m e) * float_val (Fl t n f)"
    and "float_isfinite (float_mul (Fl s m e) (Fl t n f))"
proof -
  have "(2::rat) powi (e + f) = 2 powi e * 2 powi f" by (simp add: power_int_add)
  then have "float_val (float_mul (Fl s m e) (Fl t n f)) = float_val (Fl s m e) * float_val (Fl t n f) \<and>
      float_isfinite (float_mul (Fl s m e) (Fl t n f))"
    using assms by (cases "m * n = 0") (auto simp: float_round_small magnitude_def)
  then show "float_val (float_mul (Fl s m e) (Fl t n f)) = float_val (Fl s m e) * float_val (Fl t n f)"
    and "float_isfinite (float_mul (Fl s m e) (Fl t n f))" by simp_all
qed

text \<open>A full significand is recovered from any alignment, so adding zero changes nothing.\<close>

lemma float_round_scaled:
  assumes "2 ^ 52 \<le> c" "c < 2 ^ 53" "- 1074 \<le> e + int k" "e + int k \<le> 971"
  shows "float_round s (c * 2 ^ k) e = Fl s c (e + int k)"
proof -
  have "digits_in 2 (c * 2 ^ k) = 53 + k"
    using assms by (intro digits_in_eq) (simp_all add: power_add)
  then have u: "unit_exponent binary64 (c * 2 ^ k) e = e + int k"
    using assms by (simp add: unit_exponent_def)
  moreover have "dropped_weight binary64 (c * 2 ^ k) e = 2 ^ k"
    by (simp add: dropped_weight_def u)
  ultimately show ?thesis
    using assms \<open>digits_in 2 (c * 2 ^ k) = 53 + k\<close>
    by (cases "k = 0") (simp_all add: float_round_def round_magnitude_def Let_def)
qed

lemma float_add_full_zero:
  assumes "2 ^ 52 \<le> m" "m < 2 ^ 53" "- 1074 \<le> e" "e \<le> 971"
  shows "float_add (Fl s m e) (Fl t 0 f) = Fl s m e" "float_add (Fl t 0 f) (Fl s m e) = Fl s m e"
proof -
  have v: "float_aligned g s m e \<noteq> 0" "nat \<bar>float_aligned g s m e\<bar> = m * 2 ^ nat (e - g)"
    "float_aligned g s m e < 0 \<longleftrightarrow> s" "float_aligned g t 0 f = 0" for g
    using assms(1) mult_nonneg_nonneg [of "int m" "2 ^ nat (e - g)"]
    by (auto simp: float_aligned_def nat_mult_distrib nat_power_eq not_less [symmetric] simp del: mult_nonneg_nonneg)
  have "float_round s (m * 2 ^ nat (e - min e f)) (min e f) = Fl s m e"
    using float_round_scaled [of m "min e f" "nat (e - min e f)" s] assms by simp
  then show "float_add (Fl s m e) (Fl t 0 f) = Fl s m e" "float_add (Fl t 0 f) (Fl s m e) = Fl s m e"
    by (simp_all add: Let_def v min.commute)
qed

end
