(* ===== verification/Load_Persistence.thy ===== *)
theory Load_Persistence
  imports Forecast_Ports Float_Arith Cohort
begin

text \<open>
  The previous-day persistence baseline of ml/consumer_load: the live model, the builder of backtest
  cases and the mean absolute error, in float arithmetic. The evaluator checks nothing but that
  there is a case; \<open>load_trained_mae\<close> is the guarded mean that the evaluators of the fitted
  models share.
\<close>

section \<open>Live model (previous_day_persistence.py)\<close>

definition load_persistence_missing_lag_message :: string where
  "load_persistence_missing_lag_message =
     ''Previous-day persistence requires exactly one history observation at the 24-hour lag.''"

definition load_persistence_duplicate_lag_message :: string where
  "load_persistence_duplicate_lag_message =
     ''Previous-day persistence requires a unique 24-hour lag observation.''"

definition load_lag :: int where "load_lag = timedelta_hours 24"

definition load_persistence_point_for_target ::
    "consumer_load_request \<Rightarrow> utc \<Rightarrow> load_forecast_point result" where
  "load_persistence_point_for_target request target =
     attempt (datetime_minus target load_lag) (\<lambda>reference.
     attempt (unique_lag_observation cr_timestamp load_persistence_missing_lag_message
                load_persistence_duplicate_lag_message (clr_history request) reference) (\<lambda>matching.
       validate_load_forecast_point
         \<lparr>lfp_forecast_run_id = clr_forecast_run_id request, lfp_consumer_id = clr_consumer_id request,
          lfp_generated_at = clr_generated_at request, lfp_target_timestamp = target,
          lfp_value_mw = cr_value_mw matching\<rparr>))"

definition load_persistence_forecast :: "consumer_load_request \<Rightarrow> load_forecast_point list result" where
  "load_persistence_forecast request =
     map_result (load_persistence_point_for_target request) (clr_target_timestamps request)"

section \<open>Backtest cases (previous_day_persistence_backtest.py)\<close>

record load_backtest_case =
  lbc_consumer_id :: string
  lbc_target_timestamp :: utc
  lbc_predicted_value_mw :: pyfloat
  lbc_actual_value_mw :: pyfloat

definition load_backtest_mixed_consumer_message :: string where
  "load_backtest_mixed_consumer_message =
     ''Previous-day persistence backtest requires history from exactly one consumer.''"

definition load_backtest_duplicate_timestamp_message :: string where
  "load_backtest_duplicate_timestamp_message =
     ''Previous-day persistence backtest requires unique historical timestamps.''"

definition load_backtest_case_for_target ::
    "consumption_record \<Rightarrow> consumption_record list \<Rightarrow> load_backtest_case" where
  "load_backtest_case_for_target actual lagged =
     \<lparr>lbc_consumer_id = cr_consumer_id actual, lbc_target_timestamp = cr_timestamp actual,
      lbc_predicted_value_mw = cr_value_mw (lagged ! 0), lbc_actual_value_mw = cr_value_mw actual\<rparr>"

definition build_load_backtest_cases :: "consumption_record list \<Rightarrow> load_backtest_case list result" where
  "build_load_backtest_cases history =
     (if history = [] then Inr []
      else check (require_single cr_consumer_id load_backtest_mixed_consumer_message history)
        (attempt (unique_timestamp_index cr_timestamp load_backtest_duplicate_timestamp_message history)
          (lag_rows load_backtest_case_for_target [load_lag])))"

text \<open>The histories on which every load builder succeeds.\<close>

definition good_load_history :: "int list \<Rightarrow> consumption_record list \<Rightarrow> bool" where
  "good_load_history lags h \<longleftrightarrow>
     one_valued cr_consumer_id h \<and> distinct (map cr_timestamp h) \<and> lags_in_range cr_timestamp lags h"

lemma good_load_history_filter: "good_load_history lags h \<Longrightarrow> good_load_history lags (filter P h)"
  by (auto simp: good_load_history_def lags_in_range_def distinct_map_filter intro: one_valued_subset)

lemma good_load_history_mset:
  assumes "good_load_history lags h" "mset h' = mset h"
  shows "good_load_history lags h'"
proof -
  have "set h' = set h" using assms(2) by (metis mset_eq_setD)
  moreover have "mset (map cr_timestamp h') = mset (map cr_timestamp h)" using assms(2) by simp
  then have "distinct (map cr_timestamp h') = distinct (map cr_timestamp h)"
    by (metis mset_eq_imp_distinct_iff)
  ultimately show ?thesis
    using assms(1) by (auto simp: good_load_history_def lags_in_range_def intro: one_valued_subset)
qed

text \<open>The three builders are the same guards and loop over their own messages, row and lags.\<close>

lemma load_builder_spec:
  assumes "good_load_history lags h"
  shows "(if h = [] then Inr []
      else check (require_single cr_consumer_id mixed h)
        (attempt (unique_timestamp_index cr_timestamp dup h) (lag_rows mk lags)))
    = Inr (lag_rows_spec cr_timestamp lags mk h)"
  using assms unique_timestamp_index_ok [of cr_timestamp dup h "map (\<lambda>r. (cr_timestamp r, r)) h"]
  by (simp add: good_load_history_def lag_rows_correct require_single_ok [of _ _ _ "()", THEN iffD2])

lemma load_builder_laws:
  "good_load_history lags h \<Longrightarrow> distinct (map cr_timestamp h)"
  by (simp add: good_load_history_def)

interpretation load_backtest: lag_builder build_load_backtest_cases "good_load_history [load_lag]"
  cr_timestamp lbc_target_timestamp "[load_lag]" load_backtest_case_for_target
  by unfold_locales
    (simp_all add: build_load_backtest_cases_def load_builder_spec load_builder_laws
      good_load_history_filter good_load_history_mset load_backtest_case_for_target_def load_lag_def)

section \<open>Mean absolute error (previous_day_persistence_evaluation.py)\<close>

record load_persistence_mae_result =
  lpm_case_count :: nat
  lpm_mae_mw :: pyfloat

definition load_persistence_mae_empty_cases_message :: string where
  "load_persistence_mae_empty_cases_message =
     ''Previous-day persistence MAE evaluation requires at least one backtest case.''"

definition load_case_error :: "load_backtest_case \<Rightarrow> pyfloat" where
  "load_case_error c = float_abs (float_sub (lbc_predicted_value_mw c) (lbc_actual_value_mw c))"

definition evaluate_load_persistence_mae ::
    "load_backtest_case list \<Rightarrow> load_persistence_mae_result result" where
  "evaluate_load_persistence_mae cases =
     (if cases = [] then Inl (InvalidRequestError load_persistence_mae_empty_cases_message)
      else attempt (float_div (py_sum (map load_case_error cases)) (float_of_nat (length cases)))
        (\<lambda>mae. Inr \<lparr>lpm_case_count = length cases, lpm_mae_mw = mae\<rparr>))"

section \<open>The guarded mean of the fitted models' evaluators\<close>

fun load_total_abs_error ::
    "string \<Rightarrow> string \<Rightarrow> pyfloat \<Rightarrow> (pyfloat \<times> pyfloat) list \<Rightarrow> pyfloat result" where
  "load_total_abs_error values_msg mae_msg acc [] = Inr acc"
| "load_total_abs_error values_msg mae_msg acc ((predicted, actual) # rest) =
     (if \<not> float_isfinite predicted \<or> \<not> float_isfinite actual
      then Inl (InvalidRequestError values_msg)
      else
        let absolute_error = float_abs (float_sub predicted actual) in
        if \<not> float_isfinite absolute_error then Inl (InvalidRequestError mae_msg)
        else load_total_abs_error values_msg mae_msg (float_add acc absolute_error) rest)"

definition load_trained_mae :: "string \<Rightarrow> string \<Rightarrow> (pyfloat \<times> pyfloat) list \<Rightarrow> pyfloat result" where
  "load_trained_mae values_msg mae_msg pairs =
     attempt (load_total_abs_error values_msg mae_msg float_zero pairs) (\<lambda>total.
       if \<not> float_isfinite total then Inl (InvalidRequestError mae_msg)
       else attempt (float_div total (float_of_nat (length pairs))) (\<lambda>mae.
         if \<not> float_isfinite mae then Inl (InvalidRequestError mae_msg) else Inr mae))"

text \<open>Absolute errors of pairs, and the running total of the loop.\<close>

definition pair_error :: "pyfloat \<times> pyfloat \<Rightarrow> pyfloat" where
  "pair_error pa = float_abs (float_sub (fst pa) (snd pa))"

definition finite_pair :: "pyfloat \<times> pyfloat \<Rightarrow> bool" where
  "finite_pair pa \<longleftrightarrow> float_isfinite (fst pa) \<and> float_isfinite (snd pa)"

lemma load_total_abs_error_ok:
  "load_total_abs_error v m acc pairs = Inr t \<longleftrightarrow>
   (\<forall>pa \<in> set pairs. finite_pair pa \<and> float_isfinite (pair_error pa)) \<and>
   t = foldl float_add acc (map pair_error pairs)"
proof (induction pairs arbitrary: acc)
  case Nil
  then show ?case by auto
next
  case (Cons pa pairs)
  then show ?case by (cases pa) (auto simp: Let_def finite_pair_def pair_error_def)
qed

lemma load_total_abs_error_error:
  "load_total_abs_error v m acc pairs = Inl e \<Longrightarrow> e = InvalidRequestError v \<or> e = InvalidRequestError m"
proof (induction pairs arbitrary: acc)
  case (Cons pa pairs)
  then show ?case by (cases pa) (auto simp: Let_def split: if_splits)
qed simp

lemma foldl_add_nonneg:
  "float_nonneg t \<Longrightarrow> \<forall>x \<in> set xs. float_nonneg x \<Longrightarrow> float_nonneg (foldl float_add t xs)"
  by (induction xs arbitrary: t) (auto intro: float_nonneg_add)

lemma pair_error_nonneg: "finite_pair pa \<Longrightarrow> float_nonneg (pair_error pa)"
  by (simp add: finite_pair_def pair_error_def float_sub_not_nan)

lemma float_zero_nonneg [simp]: "float_nonneg float_zero"
  by (simp add: float_nonneg_def float_zero_def)

lemma float_div_count:
  assumes "0 < n" "n < 2 ^ 53"
  shows "float_div x (float_of_nat n) = Inr (float_quot x (Fl False n 0))"
  using assms by (simp add: float_div_def float_of_nat_pos)

lemma load_trained_mae_ok:
  "load_trained_mae v m pairs = Inr mae \<longleftrightarrow>
   (\<forall>pa \<in> set pairs. finite_pair pa \<and> float_isfinite (pair_error pa)) \<and>
   float_isfinite (foldl float_add float_zero (map pair_error pairs)) \<and>
   float_div (foldl float_add float_zero (map pair_error pairs)) (float_of_nat (length pairs)) = Inr mae \<and>
   float_isfinite mae"
  by (auto simp: load_trained_mae_def result_simps load_total_abs_error_ok split: if_splits)

lemma load_trained_mae_nonneg:
  assumes "load_trained_mae v m pairs = Inr mae" "0 < length pairs" "length pairs < 2 ^ 53"
  shows "float_isfinite mae \<and> 0 \<le> float_val mae"
proof -
  let ?t = "foldl float_add float_zero (map pair_error pairs)"
  have ok: "float_isfinite mae" "mae = float_quot ?t (Fl False (length pairs) 0)"
      "\<forall>pa \<in> set pairs. finite_pair pa"
    using assms by (auto simp: load_trained_mae_ok float_div_count)
  then have "float_nonneg ?t" by (intro foldl_add_nonneg) (auto intro: pair_error_nonneg)
  then have "float_nonneg mae" unfolding ok(2) by (rule float_nonneg_quot) simp
  then show ?thesis using ok(1) float_nonneg_finite by simp
qed

lemma load_trained_mae_error:
  assumes "load_trained_mae v m pairs = Inl e" "0 < length pairs" "length pairs < 2 ^ 53"
  shows "e = InvalidRequestError v \<or> e = InvalidRequestError m"
  using assms by (auto simp: load_trained_mae_def attempt_Inl_iff float_div_count
      dest: load_total_abs_error_error split: if_splits)

end
