(* ===== verification/Load_Lag24.thy ===== *)
theory Load_Lag24
  imports Load_Persistence
begin

text \<open>
  The one-feature experiment of ml/consumer_load: exact 24-hour lag rows, the chronological split,
  the ordinary least-squares fit over floats, its predictions and their mean absolute error. The
  C library's \<open>pow(x, 2.0)\<close> is the argument \<open>c_pow2\<close> of the fit.
\<close>

section \<open>Feature rows (lag_24h_features.py)\<close>

record load_lag24_row =
  ll24_consumer_id :: string
  ll24_target_timestamp :: utc
  ll24_lag_24h_mw :: pyfloat
  ll24_target_value_mw :: pyfloat

definition load_lag24_features_mixed_consumer_message :: string where
  "load_lag24_features_mixed_consumer_message =
     ''Consumer Load 24-hour lag features require history from exactly one consumer.''"

definition load_lag24_features_duplicate_timestamp_message :: string where
  "load_lag24_features_duplicate_timestamp_message =
     ''Consumer Load 24-hour lag features require unique historical timestamps.''"

definition load_lag24_row_for_target :: "consumption_record \<Rightarrow> consumption_record list \<Rightarrow> load_lag24_row" where
  "load_lag24_row_for_target actual lagged =
     \<lparr>ll24_consumer_id = cr_consumer_id actual, ll24_target_timestamp = cr_timestamp actual,
      ll24_lag_24h_mw = cr_value_mw (lagged ! 0), ll24_target_value_mw = cr_value_mw actual\<rparr>"

definition build_consumer_load_lag_24h_feature_rows :: "consumption_record list \<Rightarrow> load_lag24_row list result" where
  "build_consumer_load_lag_24h_feature_rows history =
     (if history = [] then Inr []
      else check (require_single cr_consumer_id load_lag24_features_mixed_consumer_message history)
        (attempt (unique_timestamp_index cr_timestamp load_lag24_features_duplicate_timestamp_message history)
          (lag_rows load_lag24_row_for_target [load_lag])))"

interpretation load_lag24_features: lag_builder build_consumer_load_lag_24h_feature_rows
  "good_load_history [load_lag]" cr_timestamp ll24_target_timestamp "[load_lag]" load_lag24_row_for_target
  by unfold_locales
    (simp_all add: build_consumer_load_lag_24h_feature_rows_def load_builder_spec load_builder_laws
      good_load_history_filter good_load_history_mset load_lag24_row_for_target_def load_lag_def)

section \<open>Chronological split (chronological_feature_split.py)\<close>

record load_lag24_split =
  ll24_training_rows :: "load_lag24_row list"
  ll24_evaluation_rows :: "load_lag24_row list"

definition load_lag24_split_empty_rows_message :: string where
  "load_lag24_split_empty_rows_message =
     ''Consumer Load chronological feature split requires at least one feature row.''"

definition load_lag24_split_mixed_consumer_message :: string where
  "load_lag24_split_mixed_consumer_message =
     ''Consumer Load chronological feature split requires rows from exactly one consumer.''"

definition load_lag24_split_duplicate_timestamp_message :: string where
  "load_lag24_split_duplicate_timestamp_message =
     ''Consumer Load chronological feature split requires unique target timestamps.''"

definition load_lag24_split_out_of_order_message :: string where
  "load_lag24_split_out_of_order_message =
     ''Consumer Load chronological feature split requires strictly increasing target timestamps.''"

definition load_lag24_split_empty_training_message :: string where
  "load_lag24_split_empty_training_message =
     ''Consumer Load chronological feature split requires a non-empty training partition.''"

definition load_lag24_split_empty_evaluation_message :: string where
  "load_lag24_split_empty_evaluation_message =
     ''Consumer Load chronological feature split requires a non-empty evaluation partition.''"

definition split_consumer_load_feature_rows_chronologically ::
    "load_lag24_row list \<Rightarrow> utc \<Rightarrow> load_lag24_split result" where
  "split_consumer_load_feature_rows_chronologically rows cutoff =
     (if rows = [] then Inl (InvalidRequestError load_lag24_split_empty_rows_message)
      else check (require_single ll24_consumer_id load_lag24_split_mixed_consumer_message rows)
        (check (require_strict_chronology ll24_target_timestamp
                  load_lag24_split_duplicate_timestamp_message load_lag24_split_out_of_order_message rows)
          (let training = filter (\<lambda>row. ll24_target_timestamp row < cutoff) rows;
               evaluation = filter (\<lambda>row. cutoff \<le> ll24_target_timestamp row) rows in
           if training = [] then Inl (InvalidRequestError load_lag24_split_empty_training_message)
           else if evaluation = [] then Inl (InvalidRequestError load_lag24_split_empty_evaluation_message)
           else Inr \<lparr>ll24_training_rows = training, ll24_evaluation_rows = evaluation\<rparr>)))"

section \<open>Fit (lag_24h_linear_regression.py)\<close>

record load_lag24_fit =
  ll24_slope :: pyfloat
  ll24_intercept_mw :: pyfloat

definition load_lag24_fit_too_few_rows_message :: string where
  "load_lag24_fit_too_few_rows_message =
     ''Consumer Load lag-24h linear regression requires at least two training rows.''"

definition load_lag24_fit_mixed_consumer_message :: string where
  "load_lag24_fit_mixed_consumer_message =
     ''Consumer Load lag-24h linear regression requires rows from exactly one consumer.''"

definition load_lag24_fit_duplicate_timestamp_message :: string where
  "load_lag24_fit_duplicate_timestamp_message =
     ''Consumer Load lag-24h linear regression requires unique target timestamps.''"

definition load_lag24_fit_out_of_order_message :: string where
  "load_lag24_fit_out_of_order_message =
     ''Consumer Load lag-24h linear regression requires strictly increasing target timestamps.''"

definition load_lag24_fit_zero_variance_message :: string where
  "load_lag24_fit_zero_variance_message =
     ''Consumer Load lag-24h linear regression requires non-zero variance in lag_24h_mw.''"

definition load_lag24_fit_non_finite_message :: string where
  "load_lag24_fit_non_finite_message =
     ''Consumer Load lag-24h linear regression requires finite fitted slope and intercept.''"

definition load_mean :: "pyfloat list \<Rightarrow> nat \<Rightarrow> pyfloat result" where
  "load_mean values n = float_div (py_sum values) (float_of_nat n)"

definition load_lag24_numerator ::
    "pyfloat list \<Rightarrow> pyfloat list \<Rightarrow> pyfloat \<Rightarrow> pyfloat \<Rightarrow> pyfloat" where
  "load_lag24_numerator features targets x_mean y_mean =
     py_sum (map2 (\<lambda>x y. float_mul (float_sub x x_mean) (float_sub y y_mean)) features targets)"

definition load_lag24_denominator ::
    "(pyfloat \<Rightarrow> pyfloat) \<Rightarrow> pyfloat list \<Rightarrow> pyfloat \<Rightarrow> pyfloat result" where
  "load_lag24_denominator c_pow2 features x_mean =
     attempt (map_result (\<lambda>x. float_square c_pow2 (float_sub x x_mean)) features)
       (\<lambda>squares. Inr (py_sum squares))"

definition load_lag24_line :: "pyfloat \<Rightarrow> pyfloat \<Rightarrow> pyfloat \<Rightarrow> pyfloat \<Rightarrow> load_lag24_fit result" where
  "load_lag24_line x_mean y_mean numerator denominator =
     (if float_eq denominator float_zero then Inl (InvalidRequestError load_lag24_fit_zero_variance_message)
      else attempt (float_div numerator denominator) (\<lambda>slope.
        let intercept_mw = float_sub y_mean (float_mul slope x_mean) in
        if \<not> float_isfinite slope \<or> \<not> float_isfinite intercept_mw
        then Inl (InvalidRequestError load_lag24_fit_non_finite_message)
        else Inr \<lparr>ll24_slope = slope, ll24_intercept_mw = intercept_mw\<rparr>))"

definition fit_consumer_load_lag_24h_linear_regression ::
    "(pyfloat \<Rightarrow> pyfloat) \<Rightarrow> load_lag24_row list \<Rightarrow> load_lag24_fit result" where
  "fit_consumer_load_lag_24h_linear_regression c_pow2 training_rows =
     (if length training_rows < 2 then Inl (InvalidRequestError load_lag24_fit_too_few_rows_message)
      else check (require_single ll24_consumer_id load_lag24_fit_mixed_consumer_message training_rows)
        (check (require_strict_chronology ll24_target_timestamp
                  load_lag24_fit_duplicate_timestamp_message load_lag24_fit_out_of_order_message
                  training_rows)
          (let features = map ll24_lag_24h_mw training_rows;
               targets = map ll24_target_value_mw training_rows;
               count = length training_rows in
           attempt (load_mean features count) (\<lambda>x_mean.
           attempt (load_mean targets count) (\<lambda>y_mean.
           attempt (load_lag24_denominator c_pow2 features x_mean) (\<lambda>denominator.
             load_lag24_line x_mean y_mean (load_lag24_numerator features targets x_mean y_mean)
               denominator))))))"

section \<open>Predictions (lag_24h_linear_regression_prediction.py)\<close>

record load_lag24_prediction =
  lp24_consumer_id :: string
  lp24_target_timestamp :: utc
  lp24_predicted_value_mw :: pyfloat
  lp24_actual_value_mw :: pyfloat

definition load_lag24_prediction_empty_rows_message :: string where
  "load_lag24_prediction_empty_rows_message =
     ''Consumer Load lag-24h linear regression prediction requires at least one evaluation row.''"

definition load_lag24_prediction_mixed_consumer_message :: string where
  "load_lag24_prediction_mixed_consumer_message =
     ''Consumer Load lag-24h linear regression prediction requires rows from exactly one consumer.''"

definition load_lag24_prediction_duplicate_timestamp_message :: string where
  "load_lag24_prediction_duplicate_timestamp_message =
     ''Consumer Load lag-24h linear regression prediction requires unique target timestamps.''"

definition load_lag24_prediction_out_of_order_message :: string where
  "load_lag24_prediction_out_of_order_message =
     ''Consumer Load lag-24h linear regression prediction requires strictly increasing target timestamps.''"

definition load_lag24_prediction_non_finite_fit_message :: string where
  "load_lag24_prediction_non_finite_fit_message =
     ''Consumer Load lag-24h linear regression prediction requires finite slope and intercept.''"

definition load_lag24_prediction_non_finite_prediction_message :: string where
  "load_lag24_prediction_non_finite_prediction_message =
     ''Consumer Load lag-24h linear regression prediction requires finite predicted values.''"

definition load_lag24_prediction_for_row :: "load_lag24_fit \<Rightarrow> load_lag24_row \<Rightarrow> load_lag24_prediction result" where
  "load_lag24_prediction_for_row fit row =
     (let predicted = float_add (float_mul (ll24_slope fit) (ll24_lag_24h_mw row)) (ll24_intercept_mw fit) in
      if \<not> float_isfinite predicted
      then Inl (InvalidRequestError load_lag24_prediction_non_finite_prediction_message)
      else Inr \<lparr>lp24_consumer_id = ll24_consumer_id row, lp24_target_timestamp = ll24_target_timestamp row,
                lp24_predicted_value_mw = predicted, lp24_actual_value_mw = ll24_target_value_mw row\<rparr>)"

text \<open>The fit is examined before the rows are.\<close>

definition predict_consumer_load_lag_24h_linear_regression ::
    "load_lag24_fit \<Rightarrow> load_lag24_row list \<Rightarrow> load_lag24_prediction list result" where
  "predict_consumer_load_lag_24h_linear_regression fit evaluation_rows =
     (if evaluation_rows = [] then Inl (InvalidRequestError load_lag24_prediction_empty_rows_message)
      else if \<not> float_isfinite (ll24_slope fit) \<or> \<not> float_isfinite (ll24_intercept_mw fit)
      then Inl (InvalidRequestError load_lag24_prediction_non_finite_fit_message)
      else check (require_single ll24_consumer_id load_lag24_prediction_mixed_consumer_message evaluation_rows)
        (check (require_strict_chronology ll24_target_timestamp
                  load_lag24_prediction_duplicate_timestamp_message
                  load_lag24_prediction_out_of_order_message evaluation_rows)
          (map_result (load_lag24_prediction_for_row fit) evaluation_rows)))"

section \<open>Mean absolute error (lag_24h_linear_regression_evaluation.py)\<close>

record load_lag24_mae_result =
  lm24_case_count :: nat
  lm24_mae_mw :: pyfloat

definition load_lag24_mae_empty_predictions_message :: string where
  "load_lag24_mae_empty_predictions_message =
     ''Consumer Load lag-24h linear regression MAE evaluation requires at least one prediction.''"

definition load_lag24_mae_mixed_consumer_message :: string where
  "load_lag24_mae_mixed_consumer_message =
     ''Consumer Load lag-24h linear regression MAE evaluation requires predictions from exactly one consumer.''"

definition load_lag24_mae_duplicate_timestamp_message :: string where
  "load_lag24_mae_duplicate_timestamp_message =
     ''Consumer Load lag-24h linear regression MAE evaluation requires unique target timestamps.''"

definition load_lag24_mae_out_of_order_message :: string where
  "load_lag24_mae_out_of_order_message =
     ''Consumer Load lag-24h linear regression MAE evaluation requires strictly increasing target timestamps.''"

definition load_lag24_mae_non_finite_values_message :: string where
  "load_lag24_mae_non_finite_values_message =
     ''Consumer Load lag-24h linear regression MAE evaluation requires finite predicted and actual values.''"

definition load_lag24_mae_non_finite_mae_message :: string where
  "load_lag24_mae_non_finite_mae_message =
     ''Consumer Load lag-24h linear regression MAE evaluation requires a finite MAE.''"

definition evaluate_consumer_load_lag_24h_linear_regression_mae ::
    "load_lag24_prediction list \<Rightarrow> load_lag24_mae_result result" where
  "evaluate_consumer_load_lag_24h_linear_regression_mae predictions =
     (if predictions = [] then Inl (InvalidRequestError load_lag24_mae_empty_predictions_message)
      else check (require_single lp24_consumer_id load_lag24_mae_mixed_consumer_message predictions)
        (check (require_strict_chronology lp24_target_timestamp
                  load_lag24_mae_duplicate_timestamp_message load_lag24_mae_out_of_order_message predictions)
          (attempt (load_trained_mae load_lag24_mae_non_finite_values_message load_lag24_mae_non_finite_mae_message
              (map (\<lambda>p. (lp24_predicted_value_mw p, lp24_actual_value_mw p)) predictions)) (\<lambda>mae.
            Inr \<lparr>lm24_case_count = length predictions, lm24_mae_mw = mae\<rparr>))))"

section \<open>Lemmas\<close>

definition good_load24_rows :: "load_lag24_row list \<Rightarrow> bool" where
  "good_load24_rows rows \<longleftrightarrow>
     rows \<noteq> [] \<and> one_valued ll24_consumer_id rows \<and> strictly_increasing ll24_target_timestamp rows"

lemma split_load24_ok:
  "split_consumer_load_feature_rows_chronologically rows cutoff = Inr s \<longleftrightarrow>
   good_load24_rows rows \<and>
   ll24_training_rows s = filter (\<lambda>row. ll24_target_timestamp row < cutoff) rows \<and>
   ll24_evaluation_rows s = filter (\<lambda>row. cutoff \<le> ll24_target_timestamp row) rows \<and>
   ll24_training_rows s \<noteq> [] \<and> ll24_evaluation_rows s \<noteq> []"
  by (cases s) (auto simp: split_consumer_load_feature_rows_chronologically_def good_load24_rows_def
      Let_def result_simps cohort_simps)

lemma load_lag24_line_finite:
  "load_lag24_line xm ym num den = Inr fit \<Longrightarrow>
   float_isfinite (ll24_slope fit) \<and> float_isfinite (ll24_intercept_mw fit) \<and> \<not> float_eq den float_zero"
  by (auto simp: load_lag24_line_def Let_def result_simps split: if_splits)

lemma fit_load24_ok:
  "fit_consumer_load_lag_24h_linear_regression c_pow2 rows = Inr fit \<longleftrightarrow>
   2 \<le> length rows \<and> good_load24_rows rows \<and>
   (\<exists>xm ym den. load_mean (map ll24_lag_24h_mw rows) (length rows) = Inr xm \<and>
      load_mean (map ll24_target_value_mw rows) (length rows) = Inr ym \<and>
      load_lag24_denominator c_pow2 (map ll24_lag_24h_mw rows) xm = Inr den \<and>
      load_lag24_line xm ym
        (load_lag24_numerator (map ll24_lag_24h_mw rows) (map ll24_target_value_mw rows) xm ym) den = Inr fit)"
  by (cases rows) (auto simp: fit_consumer_load_lag_24h_linear_regression_def good_load24_rows_def Let_def
      Suc_le_eq result_simps cohort_simps split: if_splits)

lemma prediction_load24_ok:
  "load_lag24_prediction_for_row fit row = Inr p \<longleftrightarrow>
   lp24_consumer_id p = ll24_consumer_id row \<and> lp24_target_timestamp p = ll24_target_timestamp row \<and>
   lp24_predicted_value_mw p
     = float_add (float_mul (ll24_slope fit) (ll24_lag_24h_mw row)) (ll24_intercept_mw fit) \<and>
   float_isfinite (lp24_predicted_value_mw p) \<and> lp24_actual_value_mw p = ll24_target_value_mw row"
  by (cases p) (auto simp: load_lag24_prediction_for_row_def Let_def)

definition good_load24_predictions :: "load_lag24_prediction list \<Rightarrow> bool" where
  "good_load24_predictions ps \<longleftrightarrow>
     ps \<noteq> [] \<and> one_valued lp24_consumer_id ps \<and> strictly_increasing lp24_target_timestamp ps"

lemma evaluate_load24_ok:
  "evaluate_consumer_load_lag_24h_linear_regression_mae ps = Inr r \<longleftrightarrow>
   good_load24_predictions ps \<and> lm24_case_count r = length ps \<and>
   load_trained_mae load_lag24_mae_non_finite_values_message load_lag24_mae_non_finite_mae_message
     (map (\<lambda>p. (lp24_predicted_value_mw p, lp24_actual_value_mw p)) ps) = Inr (lm24_mae_mw r)"
  by (cases r) (auto simp: evaluate_consumer_load_lag_24h_linear_regression_mae_def
      good_load24_predictions_def result_simps cohort_simps)

end
