(* ===== verification/Load_Lag168.thy ===== *)
theory Load_Lag168
  imports Load_Lag24
begin

text \<open>
  The two-feature experiment of ml/consumer_load (lags of 24 and 168 hours): rows, split, the
  normal-equation fit over floats, predictions, mean absolute error, and the served model
  \<open>Lag24h168hOLSConsumerLoadForecastModel\<close>.
\<close>

section \<open>Feature rows (lag_24h_168h_features.py)\<close>

record load_lag168_row =
  ll168_consumer_id :: string
  ll168_target_timestamp :: utc
  ll168_lag_24h_mw :: pyfloat
  ll168_lag_168h_mw :: pyfloat
  ll168_target_value_mw :: pyfloat

definition load_lag168_features_mixed_consumer_message :: string where
  "load_lag168_features_mixed_consumer_message =
     ''Consumer Load 24-hour and 168-hour lag features require history from exactly one consumer.''"

definition load_lag168_features_duplicate_timestamp_message :: string where
  "load_lag168_features_duplicate_timestamp_message =
     ''Consumer Load 24-hour and 168-hour lag features require unique historical timestamps.''"

definition load_lags_24h_168h :: "int list" where
  "load_lags_24h_168h = [timedelta_hours 24, timedelta_hours 168]"

definition load_lag168_row_for_target ::
    "consumption_record \<Rightarrow> consumption_record list \<Rightarrow> load_lag168_row" where
  "load_lag168_row_for_target actual lagged =
     \<lparr>ll168_consumer_id = cr_consumer_id actual, ll168_target_timestamp = cr_timestamp actual,
      ll168_lag_24h_mw = cr_value_mw (lagged ! 0), ll168_lag_168h_mw = cr_value_mw (lagged ! 1),
      ll168_target_value_mw = cr_value_mw actual\<rparr>"

definition build_consumer_load_lag_24h_168h_feature_rows ::
    "consumption_record list \<Rightarrow> load_lag168_row list result" where
  "build_consumer_load_lag_24h_168h_feature_rows history =
     (if history = [] then Inr []
      else check (require_single cr_consumer_id load_lag168_features_mixed_consumer_message history)
        (attempt (unique_timestamp_index cr_timestamp load_lag168_features_duplicate_timestamp_message history)
          (lag_rows load_lag168_row_for_target load_lags_24h_168h)))"

interpretation load_lag168_features: lag_builder build_consumer_load_lag_24h_168h_feature_rows
  "good_load_history load_lags_24h_168h" cr_timestamp ll168_target_timestamp load_lags_24h_168h
  load_lag168_row_for_target
  by unfold_locales
    (auto simp: build_consumer_load_lag_24h_168h_feature_rows_def load_builder_spec load_builder_laws
      good_load_history_filter good_load_history_mset load_lag168_row_for_target_def
      load_lags_24h_168h_def)

section \<open>Chronological split (lag_24h_168h_chronological_split.py)\<close>

record load_lag168_split =
  ll168_training_rows :: "load_lag168_row list"
  ll168_evaluation_rows :: "load_lag168_row list"

definition load_lag168_split_empty_rows_message :: string where
  "load_lag168_split_empty_rows_message =
     ''Consumer Load 24-hour and 168-hour lag chronological feature split requires at least one feature row.''"

definition load_lag168_split_mixed_consumer_message :: string where
  "load_lag168_split_mixed_consumer_message =
     ''Consumer Load 24-hour and 168-hour lag chronological feature split requires rows from exactly one consumer.''"

definition load_lag168_split_duplicate_timestamp_message :: string where
  "load_lag168_split_duplicate_timestamp_message =
     ''Consumer Load 24-hour and 168-hour lag chronological feature split requires unique target timestamps.''"

definition load_lag168_split_out_of_order_message :: string where
  "load_lag168_split_out_of_order_message =
     ''Consumer Load 24-hour and 168-hour lag chronological feature split requires strictly increasing target timestamps.''"

definition load_lag168_split_empty_training_message :: string where
  "load_lag168_split_empty_training_message =
     ''Consumer Load 24-hour and 168-hour lag chronological feature split requires a non-empty training partition.''"

definition load_lag168_split_empty_evaluation_message :: string where
  "load_lag168_split_empty_evaluation_message =
     ''Consumer Load 24-hour and 168-hour lag chronological feature split requires a non-empty evaluation partition.''"

definition split_consumer_load_lag_24h_168h_feature_rows_chronologically ::
    "load_lag168_row list \<Rightarrow> utc \<Rightarrow> load_lag168_split result" where
  "split_consumer_load_lag_24h_168h_feature_rows_chronologically rows cutoff =
     (if rows = [] then Inl (InvalidRequestError load_lag168_split_empty_rows_message)
      else check (require_single ll168_consumer_id load_lag168_split_mixed_consumer_message rows)
        (check (require_strict_chronology ll168_target_timestamp
                  load_lag168_split_duplicate_timestamp_message load_lag168_split_out_of_order_message rows)
          (let training = filter (\<lambda>row. ll168_target_timestamp row < cutoff) rows;
               evaluation = filter (\<lambda>row. cutoff \<le> ll168_target_timestamp row) rows in
           if training = [] then Inl (InvalidRequestError load_lag168_split_empty_training_message)
           else if evaluation = [] then Inl (InvalidRequestError load_lag168_split_empty_evaluation_message)
           else Inr \<lparr>ll168_training_rows = training, ll168_evaluation_rows = evaluation\<rparr>)))"

section \<open>Fit (lag_24h_168h_linear_regression.py)\<close>

record load_lag168_fit =
  ll168_lag_24h_coefficient :: pyfloat
  ll168_lag_168h_coefficient :: pyfloat
  ll168_intercept_mw :: pyfloat

definition load_lag168_fit_too_few_rows_message :: string where
  "load_lag168_fit_too_few_rows_message =
     ''Consumer Load 24-hour and 168-hour lag linear regression requires at least three training rows.''"

definition load_lag168_fit_mixed_consumer_message :: string where
  "load_lag168_fit_mixed_consumer_message =
     ''Consumer Load 24-hour and 168-hour lag linear regression requires rows from exactly one consumer.''"

definition load_lag168_fit_duplicate_timestamp_message :: string where
  "load_lag168_fit_duplicate_timestamp_message =
     ''Consumer Load 24-hour and 168-hour lag linear regression requires unique target timestamps.''"

definition load_lag168_fit_out_of_order_message :: string where
  "load_lag168_fit_out_of_order_message =
     ''Consumer Load 24-hour and 168-hour lag linear regression requires strictly increasing target timestamps.''"

definition load_lag168_fit_singular_design_message :: string where
  "load_lag168_fit_singular_design_message =
     ''Consumer Load 24-hour and 168-hour lag linear regression requires a full-rank two-feature design.''"

definition load_lag168_fit_non_finite_message :: string where
  "load_lag168_fit_non_finite_message =
     ''Consumer Load 24-hour and 168-hour lag linear regression requires finite fitted coefficients and intercept.''"

text \<open>The accumulators of the loop, and one iteration.\<close>

record load_gram =
  lg_s11 :: pyfloat
  lg_s22 :: pyfloat
  lg_s12 :: pyfloat
  lg_t1 :: pyfloat
  lg_t2 :: pyfloat

definition load_gram_step ::
    "pyfloat \<Rightarrow> pyfloat \<Rightarrow> pyfloat \<Rightarrow> load_gram \<Rightarrow> load_lag168_row \<Rightarrow> load_gram" where
  "load_gram_step x1_mean x2_mean y_mean g row =
     (let dx1 = float_sub (ll168_lag_24h_mw row) x1_mean;
          dx2 = float_sub (ll168_lag_168h_mw row) x2_mean;
          dy = float_sub (ll168_target_value_mw row) y_mean in
      \<lparr>lg_s11 = float_add (lg_s11 g) (float_mul dx1 dx1), lg_s22 = float_add (lg_s22 g) (float_mul dx2 dx2),
       lg_s12 = float_add (lg_s12 g) (float_mul dx1 dx2), lg_t1 = float_add (lg_t1 g) (float_mul dx1 dy),
       lg_t2 = float_add (lg_t2 g) (float_mul dx2 dy)\<rparr>)"

definition load_gram_zero :: load_gram where
  "load_gram_zero = \<lparr>lg_s11 = float_zero, lg_s22 = float_zero, lg_s12 = float_zero, lg_t1 = float_zero,
     lg_t2 = float_zero\<rparr>"

definition load_determinant :: "load_gram \<Rightarrow> pyfloat" where
  "load_determinant g = float_sub (float_mul (lg_s11 g) (lg_s22 g)) (float_mul (lg_s12 g) (lg_s12 g))"

definition load_lag168_plane ::
    "pyfloat \<Rightarrow> pyfloat \<Rightarrow> pyfloat \<Rightarrow> load_gram \<Rightarrow> pyfloat \<Rightarrow> load_lag168_fit result" where
  "load_lag168_plane x1_mean x2_mean y_mean g determinant =
     attempt (float_div (float_sub (float_mul (lg_t1 g) (lg_s22 g)) (float_mul (lg_t2 g) (lg_s12 g))) determinant)
       (\<lambda>lag_24h_coefficient.
     attempt (float_div (float_sub (float_mul (lg_t2 g) (lg_s11 g)) (float_mul (lg_t1 g) (lg_s12 g))) determinant)
       (\<lambda>lag_168h_coefficient.
       let intercept_mw = float_sub (float_sub y_mean (float_mul lag_24h_coefficient x1_mean))
                            (float_mul lag_168h_coefficient x2_mean) in
       if \<not> float_isfinite lag_24h_coefficient \<or> \<not> float_isfinite lag_168h_coefficient \<or>
          \<not> float_isfinite intercept_mw
       then Inl (InvalidRequestError load_lag168_fit_non_finite_message)
       else Inr \<lparr>ll168_lag_24h_coefficient = lag_24h_coefficient,
                 ll168_lag_168h_coefficient = lag_168h_coefficient, ll168_intercept_mw = intercept_mw\<rparr>))"

definition load_lag168_solve ::
    "pyfloat \<Rightarrow> pyfloat \<Rightarrow> pyfloat \<Rightarrow> load_gram \<Rightarrow> load_lag168_fit result" where
  "load_lag168_solve x1_mean x2_mean y_mean g =
     (let determinant = load_determinant g in
      if \<not> list_all float_isfinite [x1_mean, x2_mean, y_mean, lg_s11 g, lg_s22 g, lg_s12 g, lg_t1 g, lg_t2 g,
                                    determinant]
      then Inl (InvalidRequestError load_lag168_fit_non_finite_message)
      else if float_le determinant float_zero
      then Inl (InvalidRequestError load_lag168_fit_singular_design_message)
      else load_lag168_plane x1_mean x2_mean y_mean g determinant)"

definition fit_consumer_load_lag_24h_168h_linear_regression :: "load_lag168_row list \<Rightarrow> load_lag168_fit result" where
  "fit_consumer_load_lag_24h_168h_linear_regression training_rows =
     (if length training_rows < 3 then Inl (InvalidRequestError load_lag168_fit_too_few_rows_message)
      else check (require_single ll168_consumer_id load_lag168_fit_mixed_consumer_message training_rows)
        (check (require_strict_chronology ll168_target_timestamp
                  load_lag168_fit_duplicate_timestamp_message load_lag168_fit_out_of_order_message
                  training_rows)
          (let count = length training_rows in
           attempt (load_mean (map ll168_lag_24h_mw training_rows) count) (\<lambda>x1_mean.
           attempt (load_mean (map ll168_lag_168h_mw training_rows) count) (\<lambda>x2_mean.
           attempt (load_mean (map ll168_target_value_mw training_rows) count) (\<lambda>y_mean.
             load_lag168_solve x1_mean x2_mean y_mean
               (foldl (load_gram_step x1_mean x2_mean y_mean) load_gram_zero training_rows)))))))"

section \<open>Predictions (lag_24h_168h_linear_regression_prediction.py)\<close>

record load_lag168_prediction =
  lp168_consumer_id :: string
  lp168_target_timestamp :: utc
  lp168_predicted_value_mw :: pyfloat
  lp168_actual_value_mw :: pyfloat

definition load_lag168_prediction_empty_rows_message :: string where
  "load_lag168_prediction_empty_rows_message =
     ''Consumer Load 24-hour and 168-hour lag linear regression prediction requires at least one evaluation row.''"

definition load_lag168_prediction_mixed_consumer_message :: string where
  "load_lag168_prediction_mixed_consumer_message =
     ''Consumer Load 24-hour and 168-hour lag linear regression prediction requires rows from exactly one consumer.''"

definition load_lag168_prediction_duplicate_timestamp_message :: string where
  "load_lag168_prediction_duplicate_timestamp_message =
     ''Consumer Load 24-hour and 168-hour lag linear regression prediction requires unique target timestamps.''"

definition load_lag168_prediction_out_of_order_message :: string where
  "load_lag168_prediction_out_of_order_message =
     ''Consumer Load 24-hour and 168-hour lag linear regression prediction requires strictly increasing target timestamps.''"

definition load_lag168_prediction_non_finite_fit_message :: string where
  "load_lag168_prediction_non_finite_fit_message =
     ''Consumer Load 24-hour and 168-hour lag linear regression prediction requires finite fitted coefficients and intercept.''"

definition load_lag168_prediction_non_finite_prediction_message :: string where
  "load_lag168_prediction_non_finite_prediction_message =
     ''Consumer Load 24-hour and 168-hour lag linear regression prediction requires finite predicted values.''"

definition load_plane_value :: "load_lag168_fit \<Rightarrow> pyfloat \<Rightarrow> pyfloat \<Rightarrow> pyfloat" where
  "load_plane_value fit lag_24h lag_168h =
     float_add (float_add (ll168_intercept_mw fit) (float_mul (ll168_lag_24h_coefficient fit) lag_24h))
       (float_mul (ll168_lag_168h_coefficient fit) lag_168h)"

definition load_finite_fit168 :: "load_lag168_fit \<Rightarrow> bool" where
  "load_finite_fit168 fit \<longleftrightarrow>
     float_isfinite (ll168_lag_24h_coefficient fit) \<and> float_isfinite (ll168_lag_168h_coefficient fit) \<and>
     float_isfinite (ll168_intercept_mw fit)"

definition load_lag168_prediction_for_row ::
    "load_lag168_fit \<Rightarrow> load_lag168_row \<Rightarrow> load_lag168_prediction result" where
  "load_lag168_prediction_for_row fit row =
     (let predicted = load_plane_value fit (ll168_lag_24h_mw row) (ll168_lag_168h_mw row) in
      if \<not> float_isfinite predicted
      then Inl (InvalidRequestError load_lag168_prediction_non_finite_prediction_message)
      else Inr \<lparr>lp168_consumer_id = ll168_consumer_id row, lp168_target_timestamp = ll168_target_timestamp row,
                lp168_predicted_value_mw = predicted, lp168_actual_value_mw = ll168_target_value_mw row\<rparr>)"

definition predict_consumer_load_lag_24h_168h_linear_regression ::
    "load_lag168_fit \<Rightarrow> load_lag168_row list \<Rightarrow> load_lag168_prediction list result" where
  "predict_consumer_load_lag_24h_168h_linear_regression fit evaluation_rows =
     (if evaluation_rows = [] then Inl (InvalidRequestError load_lag168_prediction_empty_rows_message)
      else if \<not> load_finite_fit168 fit
      then Inl (InvalidRequestError load_lag168_prediction_non_finite_fit_message)
      else check (require_single ll168_consumer_id load_lag168_prediction_mixed_consumer_message evaluation_rows)
        (check (require_strict_chronology ll168_target_timestamp
                  load_lag168_prediction_duplicate_timestamp_message
                  load_lag168_prediction_out_of_order_message evaluation_rows)
          (map_result (load_lag168_prediction_for_row fit) evaluation_rows)))"

section \<open>Mean absolute error (lag_24h_168h_linear_regression_evaluation.py)\<close>

record load_lag168_mae_result =
  lm168_case_count :: nat
  lm168_mae_mw :: pyfloat

definition load_lag168_mae_empty_predictions_message :: string where
  "load_lag168_mae_empty_predictions_message =
     ''Consumer Load 24-hour and 168-hour lag linear regression MAE evaluation requires at least one prediction.''"

definition load_lag168_mae_mixed_consumer_message :: string where
  "load_lag168_mae_mixed_consumer_message =
     ''Consumer Load 24-hour and 168-hour lag linear regression MAE evaluation requires predictions from exactly one consumer.''"

definition load_lag168_mae_duplicate_timestamp_message :: string where
  "load_lag168_mae_duplicate_timestamp_message =
     ''Consumer Load 24-hour and 168-hour lag linear regression MAE evaluation requires unique target timestamps.''"

definition load_lag168_mae_out_of_order_message :: string where
  "load_lag168_mae_out_of_order_message =
     ''Consumer Load 24-hour and 168-hour lag linear regression MAE evaluation requires strictly increasing target timestamps.''"

definition load_lag168_mae_non_finite_values_message :: string where
  "load_lag168_mae_non_finite_values_message =
     ''Consumer Load 24-hour and 168-hour lag linear regression MAE evaluation requires finite predicted and actual values.''"

definition load_lag168_mae_non_finite_mae_message :: string where
  "load_lag168_mae_non_finite_mae_message =
     ''Consumer Load 24-hour and 168-hour lag linear regression MAE evaluation requires a finite MAE.''"

definition evaluate_consumer_load_lag_24h_168h_linear_regression_mae ::
    "load_lag168_prediction list \<Rightarrow> load_lag168_mae_result result" where
  "evaluate_consumer_load_lag_24h_168h_linear_regression_mae predictions =
     (if predictions = [] then Inl (InvalidRequestError load_lag168_mae_empty_predictions_message)
      else check (require_single lp168_consumer_id load_lag168_mae_mixed_consumer_message predictions)
        (check (require_strict_chronology lp168_target_timestamp
                  load_lag168_mae_duplicate_timestamp_message load_lag168_mae_out_of_order_message predictions)
          (attempt (load_trained_mae load_lag168_mae_non_finite_values_message load_lag168_mae_non_finite_mae_message
              (map (\<lambda>p. (lp168_predicted_value_mw p, lp168_actual_value_mw p)) predictions)) (\<lambda>mae.
            Inr \<lparr>lm168_case_count = length predictions, lm168_mae_mw = mae\<rparr>))))"

section \<open>Served model (lag_24h_168h_ols_forecast.py)\<close>

definition load_ols_forecast_missing_lag_24h_message :: string where
  "load_ols_forecast_missing_lag_24h_message =
     ''Consumer Load trained OLS live inference requires exactly one history observation at the 24-hour lag.''"

definition load_ols_forecast_missing_lag_168h_message :: string where
  "load_ols_forecast_missing_lag_168h_message =
     ''Consumer Load trained OLS live inference requires exactly one history observation at the 168-hour lag.''"

definition load_ols_forecast_duplicate_lag_24h_message :: string where
  "load_ols_forecast_duplicate_lag_24h_message =
     ''Consumer Load trained OLS live inference requires a unique 24-hour lag observation.''"

definition load_ols_forecast_duplicate_lag_168h_message :: string where
  "load_ols_forecast_duplicate_lag_168h_message =
     ''Consumer Load trained OLS live inference requires a unique 168-hour lag observation.''"

definition load_ols_forecast_non_finite_fit_message :: string where
  "load_ols_forecast_non_finite_fit_message =
     ''Consumer Load trained OLS live inference requires finite fitted coefficients and intercept.''"

definition load_ols_forecast_non_finite_prediction_message :: string where
  "load_ols_forecast_non_finite_prediction_message =
     ''Consumer Load trained OLS live inference requires a finite forecast value.''"

definition load_ols_forecast_negative_prediction_message :: string where
  "load_ols_forecast_negative_prediction_message =
     ''Consumer Load trained OLS live inference requires a non-negative forecast value.''"

text \<open>The constructor keeps the fit it was given when it is finite.\<close>

definition make_ols_load_model :: "load_lag168_fit \<Rightarrow> load_lag168_fit result" where
  "make_ols_load_model fit =
     check (raise_if (\<not> load_finite_fit168 fit) (InvalidRequestError load_ols_forecast_non_finite_fit_message))
       (Inr fit)"

definition load_ols_point_for_target ::
    "load_lag168_fit \<Rightarrow> consumer_load_request \<Rightarrow> utc \<Rightarrow> load_forecast_point result" where
  "load_ols_point_for_target fit request target =
     attempt (datetime_minus target (timedelta_hours 24)) (\<lambda>reference_24h.
     attempt (unique_lag_observation cr_timestamp load_ols_forecast_missing_lag_24h_message
                load_ols_forecast_duplicate_lag_24h_message (clr_history request) reference_24h) (\<lambda>lag_24h.
     attempt (datetime_minus target (timedelta_hours 168)) (\<lambda>reference_168h.
     attempt (unique_lag_observation cr_timestamp load_ols_forecast_missing_lag_168h_message
                load_ols_forecast_duplicate_lag_168h_message (clr_history request) reference_168h) (\<lambda>lag_168h.
       let predicted = load_plane_value fit (cr_value_mw lag_24h) (cr_value_mw lag_168h) in
       if \<not> float_isfinite predicted
       then Inl (InvalidRequestError load_ols_forecast_non_finite_prediction_message)
       else if float_lt predicted float_zero
       then Inl (InvalidRequestError load_ols_forecast_negative_prediction_message)
       else validate_load_forecast_point
         \<lparr>lfp_forecast_run_id = clr_forecast_run_id request, lfp_consumer_id = clr_consumer_id request,
          lfp_generated_at = clr_generated_at request, lfp_target_timestamp = target,
          lfp_value_mw = predicted\<rparr>))))"

definition load_ols_forecast ::
    "load_lag168_fit \<Rightarrow> consumer_load_request \<Rightarrow> load_forecast_point list result" where
  "load_ols_forecast fit request =
     map_result (load_ols_point_for_target fit request) (clr_target_timestamps request)"

section \<open>Lemmas\<close>

definition good_load168_rows :: "load_lag168_row list \<Rightarrow> bool" where
  "good_load168_rows rows \<longleftrightarrow>
     rows \<noteq> [] \<and> one_valued ll168_consumer_id rows \<and> strictly_increasing ll168_target_timestamp rows"

lemma split_load168_ok:
  "split_consumer_load_lag_24h_168h_feature_rows_chronologically rows cutoff = Inr s \<longleftrightarrow>
   good_load168_rows rows \<and>
   ll168_training_rows s = filter (\<lambda>row. ll168_target_timestamp row < cutoff) rows \<and>
   ll168_evaluation_rows s = filter (\<lambda>row. cutoff \<le> ll168_target_timestamp row) rows \<and>
   ll168_training_rows s \<noteq> [] \<and> ll168_evaluation_rows s \<noteq> []"
  by (cases s) (auto simp: split_consumer_load_lag_24h_168h_feature_rows_chronologically_def
      good_load168_rows_def Let_def result_simps cohort_simps)

definition good_load168_predictions :: "load_lag168_prediction list \<Rightarrow> bool" where
  "good_load168_predictions ps \<longleftrightarrow>
     ps \<noteq> [] \<and> one_valued lp168_consumer_id ps \<and> strictly_increasing lp168_target_timestamp ps"

lemma evaluate_load168_ok:
  "evaluate_consumer_load_lag_24h_168h_linear_regression_mae ps = Inr r \<longleftrightarrow>
   good_load168_predictions ps \<and> lm168_case_count r = length ps \<and>
   load_trained_mae load_lag168_mae_non_finite_values_message load_lag168_mae_non_finite_mae_message
     (map (\<lambda>p. (lp168_predicted_value_mw p, lp168_actual_value_mw p)) ps) = Inr (lm168_mae_mw r)"
  by (cases r) (auto simp: evaluate_consumer_load_lag_24h_168h_linear_regression_mae_def
      good_load168_predictions_def result_simps cohort_simps)

text \<open>What holds of every request that was constructed.\<close>

definition consumer_load_request_ok :: "consumer_load_request \<Rightarrow> bool" where
  "consumer_load_request_ok q \<longleftrightarrow>
     clr_forecast_run_id q \<noteq> [] \<and> py_strip (clr_forecast_run_id q) = clr_forecast_run_id q \<and>
     clr_consumer_id q \<noteq> [] \<and> py_strip (clr_consumer_id q) = clr_consumer_id q \<and>
     (\<forall>r \<in> set (clr_history q). cr_consumer_id r = clr_consumer_id q) \<and>
     clr_target_timestamps q \<noteq> []"

lemma make_consumer_load_request_ok:
  "make_consumer_load_request run gen c h ts = Inr q \<Longrightarrow> consumer_load_request_ok q \<and> clr_history q = h"
  by (auto simp: make_consumer_load_request_def consumer_load_request_ok_def result_simps
      require_history_matches_consumer_def require_target_timestamps_def list_ex_iff
      dest: map_result_length split: if_splits)

text \<open>A finite value that is not below zero passes the validation of a forecast point.\<close>

definition load_point :: "consumer_load_request \<Rightarrow> utc \<Rightarrow> pyfloat \<Rightarrow> load_forecast_point" where
  "load_point q t v =
     \<lparr>lfp_forecast_run_id = clr_forecast_run_id q, lfp_consumer_id = clr_consumer_id q,
      lfp_generated_at = clr_generated_at q, lfp_target_timestamp = t, lfp_value_mw = v\<rparr>"

lemma validate_load_point:
  assumes "consumer_load_request_ok q" "float_isfinite v" "\<not> float_lt v float_zero"
  shows "validate_load_forecast_point (load_point q t v) = Inr (load_point q t v)"
proof -
  have "v \<noteq> FlNaN" using assms(2) by auto
  then have "non_negative_mw v"
    using assms by (simp add: non_negative_mw_def float_lt_zero_iff float_nonneg_iff_le)
  then show ?thesis
    using assms(1) by (simp add: load_point_def validate_load_forecast_point_def validated_def
        consumer_load_request_ok_def entity_id_fixed raise_if_def)
qed

lemma unique_lag_observation_error:
  "unique_lag_observation ts m d h u = Inl e \<Longrightarrow> \<exists>msg. e = InvalidRequestError msg"
  by (auto simp: unique_lag_observation_def split: list.splits)

lemma load_ols_point_ok:
  assumes "consumer_load_request_ok q"
  shows "load_ols_point_for_target fit q t = Inr p \<longleftrightarrow>
    (\<exists>r24 r168.
       0 \<le> t - timedelta_hours 24 \<and> t - timedelta_hours 24 \<le> datetime_max \<and>
       0 \<le> t - timedelta_hours 168 \<and> t - timedelta_hours 168 \<le> datetime_max \<and>
       filter (\<lambda>x. cr_timestamp x = t - timedelta_hours 24) (clr_history q) = [r24] \<and>
       filter (\<lambda>x. cr_timestamp x = t - timedelta_hours 168) (clr_history q) = [r168] \<and>
       float_isfinite (load_plane_value fit (cr_value_mw r24) (cr_value_mw r168)) \<and>
       \<not> float_lt (load_plane_value fit (cr_value_mw r24) (cr_value_mw r168)) float_zero \<and>
       p = load_point q t (load_plane_value fit (cr_value_mw r24) (cr_value_mw r168)))"
  by (auto simp: load_ols_point_for_target_def result_simps unique_lag_observation_Inr Let_def
      load_point_def [symmetric] validate_load_point [OF assms] split: if_splits)

lemma load_ols_point_error:
  assumes "consumer_load_request_ok q" "load_ols_point_for_target fit q t = Inl e"
  shows "(\<exists>m. e = InvalidRequestError m) \<or> e = OverflowError"
  using assms
  by (auto simp: load_ols_point_for_target_def attempt_Inl_iff Let_def load_point_def [symmetric]
      validate_load_point [OF assms(1)] datetime_minus_def split: if_splits
      dest: unique_lag_observation_error)

section \<open>Properties\<close>

lemma good_load_history_24: "good_load_history load_lags_24h_168h h \<Longrightarrow> good_load_history [load_lag] h"
  by (auto simp: good_load_history_def lags_in_range_def load_lags_24h_168h_def load_lag_def)

lemma load24_training_from_past:
  assumes "good_load_history load_lags_24h_168h h"
    and "build_consumer_load_lag_24h_feature_rows h = Inr rows"
    and "split_consumer_load_feature_rows_chronologically rows c = Inr s"
  shows "build_consumer_load_lag_24h_feature_rows (filter (\<lambda>r. cr_timestamp r < c) h)
    = Inr (ll24_training_rows s)"
  using load_lag24_features.build_causal [OF good_load_history_24 [OF assms(1)] assms(2), of "c - 1"] assms(3)
  by (simp add: split_load24_ok)

lemma load168_training_from_past:
  assumes "good_load_history load_lags_24h_168h h"
    and "build_consumer_load_lag_24h_168h_feature_rows h = Inr rows"
    and "split_consumer_load_lag_24h_168h_feature_rows_chronologically rows c = Inr s"
  shows "build_consumer_load_lag_24h_168h_feature_rows (filter (\<lambda>r. cr_timestamp r < c) h)
    = Inr (ll168_training_rows s)"
  using load_lag168_features.build_causal [OF assms(1,2), of "c - 1"] assms(3)
  by (simp add: split_load168_ok)

text \<open>C38: LOAD-FIT-PAST. No leakage from the evaluation period into training: two histories of one
  consumer with unique timestamps that hold the same observations before the cutoff, in any order,
  give the same training rows, hence the same one-feature and the same two-feature fit.\<close>

theorem load_fits_depend_on_past_only:
  assumes "good_load_history load_lags_24h_168h h" "good_load_history load_lags_24h_168h h'"
    and "mset (filter (\<lambda>r. cr_timestamp r < c) h) = mset (filter (\<lambda>r. cr_timestamp r < c) h')"
    and "build_consumer_load_lag_24h_feature_rows h = Inr rows"
      "split_consumer_load_feature_rows_chronologically rows c = Inr s"
      "build_consumer_load_lag_24h_168h_feature_rows h = Inr rows2"
      "split_consumer_load_lag_24h_168h_feature_rows_chronologically rows2 c = Inr s2"
    and "build_consumer_load_lag_24h_feature_rows h' = Inr rows'"
      "split_consumer_load_feature_rows_chronologically rows' c = Inr s'"
      "build_consumer_load_lag_24h_168h_feature_rows h' = Inr rows2'"
      "split_consumer_load_lag_24h_168h_feature_rows_chronologically rows2' c = Inr s2'"
  shows "fit_consumer_load_lag_24h_linear_regression c_pow2 (ll24_training_rows s)
      = fit_consumer_load_lag_24h_linear_regression c_pow2 (ll24_training_rows s') \<and>
    fit_consumer_load_lag_24h_168h_linear_regression (ll168_training_rows s2)
      = fit_consumer_load_lag_24h_168h_linear_regression (ll168_training_rows s2')"
proof -
  have good: "good_load_history load_lags_24h_168h (filter (\<lambda>r. cr_timestamp r < c) h)"
    using assms(1) by (rule good_load_history_filter)
  have "ll24_training_rows s = ll24_training_rows s'"
    using load24_training_from_past [OF assms(1,4,5)] load24_training_from_past [OF assms(2,8,9)]
      load_lag24_features.build_permutation [OF good_load_history_24 [OF good] assms(3) [symmetric]]
    by simp
  moreover have "ll168_training_rows s2 = ll168_training_rows s2'"
    using load168_training_from_past [OF assms(1,6,7)] load168_training_from_past [OF assms(2,10,11)]
      load_lag168_features.build_permutation [OF good assms(3) [symmetric]]
    by simp
  ultimately show ?thesis by simp
qed

text \<open>
  Sample data: one consumer observed once a day for ten days, 0 to 9; the later of two histories
  differs in the last observation only.
\<close>

definition load_day :: "nat \<Rightarrow> utc" where "load_day n = timedelta_hours (24 * int n)"

definition sample_load :: "nat \<Rightarrow> nat \<Rightarrow> consumption_record" where
  "sample_load n v =
     \<lparr>cr_consumer_id = ''c1'', cr_timestamp = load_day n + timedelta_hours 240, cr_value_mw = Fl False v 0\<rparr>"

definition sample_load_history :: "nat \<Rightarrow> consumption_record list" where
  "sample_load_history v =
     [sample_load 0 5, sample_load 1 7, sample_load 6 2, sample_load 7 3, sample_load 8 v]"

lemmas sample_load_defs = sample_load_history_def sample_load_def load_day_def timedelta_hours_def
  microseconds_per_hour_def

lemma sample_load_good: "good_load_history load_lags_24h_168h (sample_load_history v)"
  by (simp add: sample_load_defs good_load_history_def one_valued_def lags_in_range_def
      load_lags_24h_168h_def datetime_max_def)

definition sample_load24_rows :: "nat \<Rightarrow> load_lag24_row list" where
  "sample_load24_rows v =
     [\<lparr>ll24_consumer_id = ''c1'', ll24_target_timestamp = timedelta_hours 264,
       ll24_lag_24h_mw = Fl False 5 0, ll24_target_value_mw = Fl False 7 0\<rparr>,
      \<lparr>ll24_consumer_id = ''c1'', ll24_target_timestamp = timedelta_hours 408,
       ll24_lag_24h_mw = Fl False 2 0, ll24_target_value_mw = Fl False 3 0\<rparr>,
      \<lparr>ll24_consumer_id = ''c1'', ll24_target_timestamp = timedelta_hours 432,
       ll24_lag_24h_mw = Fl False 3 0, ll24_target_value_mw = Fl False v 0\<rparr>]"

definition sample_load168_rows :: "nat \<Rightarrow> load_lag168_row list" where
  "sample_load168_rows v =
     [\<lparr>ll168_consumer_id = ''c1'', ll168_target_timestamp = timedelta_hours 408,
       ll168_lag_24h_mw = Fl False 2 0, ll168_lag_168h_mw = Fl False 5 0,
       ll168_target_value_mw = Fl False 3 0\<rparr>,
      \<lparr>ll168_consumer_id = ''c1'', ll168_target_timestamp = timedelta_hours 432,
       ll168_lag_24h_mw = Fl False 3 0, ll168_lag_168h_mw = Fl False 7 0,
       ll168_target_value_mw = Fl False v 0\<rparr>]"

lemmas sample_lag_eval = lag_rows_spec_def lag_row_spec_def complete_record_def record_at_def
  load_lag24_row_for_target_def load_lag168_row_for_target_def load_lags_24h_168h_def load_lag_def

lemma sample_load24_build:
  "build_consumer_load_lag_24h_feature_rows (sample_load_history v) = Inr (sample_load24_rows v)"
  unfolding load_lag24_features.build_spec [OF good_load_history_24 [OF sample_load_good]]
  by (simp add: sample_lag_eval sample_load_defs sample_load24_rows_def)

lemma sample_load168_build:
  "build_consumer_load_lag_24h_168h_feature_rows (sample_load_history v) = Inr (sample_load168_rows v)"
  unfolding load_lag168_features.build_spec [OF sample_load_good]
  by (simp add: sample_lag_eval sample_load_defs sample_load168_rows_def)

lemma sample_load24_split:
  "split_consumer_load_feature_rows_chronologically (sample_load24_rows v) (timedelta_hours 432)
     = Inr \<lparr>ll24_training_rows = take 2 (sample_load24_rows v),
            ll24_evaluation_rows = drop 2 (sample_load24_rows v)\<rparr>"
  by (simp add: split_load24_ok good_load24_rows_def sample_load24_rows_def one_valued_def
      strictly_increasing_def timedelta_hours_def microseconds_per_hour_def)

lemma sample_load168_split:
  "split_consumer_load_lag_24h_168h_feature_rows_chronologically (sample_load168_rows v) (timedelta_hours 432)
     = Inr \<lparr>ll168_training_rows = take 1 (sample_load168_rows v),
            ll168_evaluation_rows = drop 1 (sample_load168_rows v)\<rparr>"
  by (simp add: split_load168_ok good_load168_rows_def sample_load168_rows_def one_valued_def
      strictly_increasing_def timedelta_hours_def microseconds_per_hour_def)

theorem load_fits_depend_on_past_only_witness:
  "fit_consumer_load_lag_24h_linear_regression id (take 2 (sample_load24_rows 4))
     = fit_consumer_load_lag_24h_linear_regression id (take 2 (sample_load24_rows 9))"
proof -
  have "mset (filter (\<lambda>r. cr_timestamp r < timedelta_hours 432) (sample_load_history 4))
      = mset (filter (\<lambda>r. cr_timestamp r < timedelta_hours 432) (sample_load_history 9))"
    by (simp add: sample_load_defs)
  then show ?thesis
    using load_fits_depend_on_past_only [OF sample_load_good sample_load_good _ sample_load24_build
        sample_load24_split sample_load168_build sample_load168_split sample_load24_build
        sample_load24_split sample_load168_build sample_load168_split, of 4 9 id] by simp
qed

text \<open>For a constructed request, the served two-feature model answers exactly when
  every target has one observation at each lag inside the range of datetimes and the plane's value
  there is finite and not negative; the points carry the request's identity, the targets in order and
  that value. It fails only with an \<open>InvalidRequestError\<close> or, below the first representable
  instant, an \<open>OverflowError\<close>: the canonical model never rejects a prediction.\<close>

theorem load_ols_forecast_points:
  assumes "consumer_load_request_ok q"
  shows "(load_ols_forecast fit q = Inr ps \<longleftrightarrow>
     list_all2 (\<lambda>t p. \<exists>r24 r168.
         0 \<le> t - timedelta_hours 24 \<and> t - timedelta_hours 24 \<le> datetime_max \<and>
         0 \<le> t - timedelta_hours 168 \<and> t - timedelta_hours 168 \<le> datetime_max \<and>
         filter (\<lambda>x. cr_timestamp x = t - timedelta_hours 24) (clr_history q) = [r24] \<and>
         filter (\<lambda>x. cr_timestamp x = t - timedelta_hours 168) (clr_history q) = [r168] \<and>
         float_isfinite (load_plane_value fit (cr_value_mw r24) (cr_value_mw r168)) \<and>
         \<not> float_lt (load_plane_value fit (cr_value_mw r24) (cr_value_mw r168)) float_zero \<and>
         p = load_point q t (load_plane_value fit (cr_value_mw r24) (cr_value_mw r168)))
       (clr_target_timestamps q) ps) \<and>
    (load_ols_forecast fit q = Inl e \<longrightarrow> (\<exists>m. e = InvalidRequestError m) \<or> e = OverflowError)"
  using load_ols_point_error [OF assms]
  by (auto simp: load_ols_forecast_def map_result_Inr_iff load_ols_point_ok [OF assms]
      dest!: map_result_Inl)

definition sample_load_request :: consumer_load_request where
  "sample_load_request =
     \<lparr>clr_forecast_run_id = ''run'', clr_generated_at = 5, clr_consumer_id = ''c1'',
      clr_history = sample_load_history 4, clr_target_timestamps = [timedelta_hours 432]\<rparr>"

definition sample_load_plane :: "bool \<Rightarrow> load_lag168_fit" where
  "sample_load_plane s =
     \<lparr>ll168_lag_24h_coefficient = Fl s 2 0, ll168_lag_168h_coefficient = Fl False 1 (- 1),
      ll168_intercept_mw = Fl False 1 0\<rparr>"

lemma sample_load_request_ok: "consumer_load_request_ok sample_load_request"
  by (auto simp: sample_load_request_def consumer_load_request_ok_def sample_load_defs py_strip_def
      py_isspace_def Let_def)

lemma sample_plane_value: "load_plane_value (sample_load_plane False) (Fl False 3 0) (Fl False 7 0) = Fl False 21 (- 1)"
  by (simp add: load_plane_value_def sample_load_plane_def float_round_small float_aligned_def Let_def)

theorem load_ols_forecast_points_witness:
  "load_ols_forecast (sample_load_plane False) sample_load_request
     = Inr [load_point sample_load_request (timedelta_hours 432) (Fl False 21 (- 1))]"
  by (rule load_ols_forecast_points [OF sample_load_request_ok, THEN conjunct1, THEN iffD2])
    (simp add: sample_load_request_def sample_load_defs datetime_max_def sample_plane_value
      float_lt_zero_iff float_nonneg_def)

end
