(* ===== verification/Load_Comparison.thy ===== *)
theory Load_Comparison
  imports DAM_Comparison Load_Lag168
begin

text \<open>
  The four comparison modules of ml/consumer_load. Two or three cohorts over the same targets are
  checked (emptiness, length, consumer, chronology, alignment of timestamps and actual values, in
  this order) and scored by their own evaluators. The checks are the same code in every module up to
  the messages, so they are defined once over the views and messages of the cohorts.
\<close>

section \<open>Views and checks\<close>

record 'r load_view =
  lv_consumer :: "'r \<Rightarrow> string"
  lv_timestamp :: "'r \<Rightarrow> utc"
  lv_actual :: "'r \<Rightarrow> pyfloat"

record load_cohort_messages =
  lcm_empty :: string
  lcm_mixed_consumer :: string
  lcm_duplicate :: string
  lcm_out_of_order :: string

record load_shared_messages =
  lsm_empty_all :: string
  lsm_unequal_length :: string
  lsm_consumer_mismatch :: string
  lsm_timestamp_mismatch :: string
  lsm_actual_mismatch :: string

definition load_case_view :: "load_backtest_case load_view" where
  "load_case_view = \<lparr>lv_consumer = lbc_consumer_id, lv_timestamp = lbc_target_timestamp,
     lv_actual = lbc_actual_value_mw\<rparr>"

definition load24_view :: "load_lag24_prediction load_view" where
  "load24_view = \<lparr>lv_consumer = lp24_consumer_id, lv_timestamp = lp24_target_timestamp,
     lv_actual = lp24_actual_value_mw\<rparr>"

definition load168_view :: "load_lag168_prediction load_view" where
  "load168_view = \<lparr>lv_consumer = lp168_consumer_id, lv_timestamp = lp168_target_timestamp,
     lv_actual = lp168_actual_value_mw\<rparr>"

lemmas load_view_simps = load_case_view_def load24_view_def load168_view_def

definition load_nonempty_equal ::
    "load_shared_messages \<Rightarrow> load_cohort_messages \<Rightarrow> load_cohort_messages \<Rightarrow> 'a list \<Rightarrow> 'b list \<Rightarrow> unit result" where
  "load_nonempty_equal sm am bm xs ys =
     check (raise_if (xs = [] \<and> ys = []) (InvalidRequestError (lsm_empty_all sm)))
       (check (raise_if (xs = []) (InvalidRequestError (lcm_empty am)))
         (check (raise_if (ys = []) (InvalidRequestError (lcm_empty bm)))
           (raise_if (length xs \<noteq> length ys) (InvalidRequestError (lsm_unequal_length sm)))))"

definition load_shared_consumer ::
    "load_shared_messages \<Rightarrow> load_cohort_messages \<Rightarrow> load_cohort_messages \<Rightarrow> 'a load_view \<Rightarrow> 'b load_view \<Rightarrow>
     'a list \<Rightarrow> 'b list \<Rightarrow> unit result" where
  "load_shared_consumer sm am bm av bv xs ys =
     check (require_single (lv_consumer av) (lcm_mixed_consumer am) xs)
      (check (require_single (lv_consumer bv) (lcm_mixed_consumer bm) ys)
        (raise_if (keys_differ (lv_consumer av) (lv_consumer bv) xs ys)
          (InvalidRequestError (lsm_consumer_mismatch sm))))"

definition load_chronology :: "load_cohort_messages \<Rightarrow> 'a load_view \<Rightarrow> 'a list \<Rightarrow> unit result" where
  "load_chronology m v xs = require_strict_chronology (lv_timestamp v) (lcm_duplicate m) (lcm_out_of_order m) xs"

definition load_same_instant :: "'a load_view \<Rightarrow> 'b load_view \<Rightarrow> 'a \<Rightarrow> 'b \<Rightarrow> bool" where
  "load_same_instant av bv x y \<longleftrightarrow> lv_timestamp av x = lv_timestamp bv y"

definition load_same_actual :: "'a load_view \<Rightarrow> 'b load_view \<Rightarrow> 'a \<Rightarrow> 'b \<Rightarrow> bool" where
  "load_same_actual av bv x y \<longleftrightarrow> float_eq (lv_actual av x) (lv_actual bv y)"

definition load_require_comparable ::
    "load_shared_messages \<Rightarrow> load_cohort_messages \<Rightarrow> load_cohort_messages \<Rightarrow> 'a load_view \<Rightarrow> 'b load_view \<Rightarrow>
     'a list \<Rightarrow> 'b list \<Rightarrow> unit result" where
  "load_require_comparable sm am bm av bv xs ys =
     check (load_nonempty_equal sm am bm xs ys)
      (check (load_shared_consumer sm am bm av bv xs ys)
       (check (load_chronology am av xs)
        (check (load_chronology bm bv ys)
          (require_alignment (load_same_instant av bv) (load_same_actual av bv)
             (lsm_timestamp_mismatch sm) (lsm_actual_mismatch sm) (zip xs ys)))))"

definition load_comparable :: "'a load_view \<Rightarrow> 'b load_view \<Rightarrow> 'a list \<Rightarrow> 'b list \<Rightarrow> bool" where
  "load_comparable av bv xs ys \<longleftrightarrow>
     xs \<noteq> [] \<and> one_valued (lv_consumer av) xs \<and> strictly_increasing (lv_timestamp av) xs \<and>
     list_all2 (\<lambda>x y. lv_consumer av x = lv_consumer bv y \<and> load_same_instant av bv x y \<and>
       load_same_actual av bv x y) xs ys"

lemma load_require_comparable_ok:
  "load_require_comparable sm am bm av bv xs ys = Inr u \<longleftrightarrow> load_comparable av bv xs ys"
proof
  assume run: "load_require_comparable sm am bm av bv xs ys = Inr u"
  then have len: "length xs = length ys" "xs \<noteq> []"
    and m: "one_valued (lv_consumer av) xs" "set (map (lv_consumer av) xs) = set (map (lv_consumer bv) ys)"
    and rest: "strictly_increasing (lv_timestamp av) xs"
      "\<forall>(x, y) \<in> set (zip xs ys). load_same_instant av bv x y \<and> load_same_actual av bv x y"
    by (auto simp: load_require_comparable_def load_nonempty_equal_def keys_differ_def
        load_shared_consumer_def load_chronology_def result_simps cohort_simps)
  have "list_all2 (\<lambda>x y. load_same_instant av bv x y \<and> load_same_actual av bv x y) xs ys"
    using rest(2) len(1) by (auto simp: list_all2_iff)
  then show "load_comparable av bv xs ys"
    using one_valued_shared_key [OF m len(1)] len m rest
    by (auto simp: load_comparable_def list_all2_conv_all_nth)
next
  assume ok: "load_comparable av bv xs ys"
  then have all2: "list_all2 (\<lambda>x y. lv_consumer av x = lv_consumer bv y) xs ys"
      "list_all2 (\<lambda>x y. lv_timestamp av x = lv_timestamp bv y) xs ys"
      "list_all2 (\<lambda>x y. load_same_instant av bv x y \<and> load_same_actual av bv x y) xs ys"
    by (auto simp: load_comparable_def load_same_instant_def elim!: list_all2_mono)
  then have keys: "map (lv_consumer av) xs = map (lv_consumer bv) ys"
      "map (lv_timestamp av) xs = map (lv_timestamp bv) ys"
    by (simp_all add: list_all2_same_key)
  have "length xs = length ys" using all2(1) by (rule list_all2_lengthD)
  moreover have "strictly_increasing (lv_timestamp bv) ys"
    using ok keys(2) by (simp add: load_comparable_def strictly_increasing_def)
  moreover have "\<not> keys_differ (lv_consumer av) (lv_consumer bv) xs ys"
    using keys by (simp add: keys_differ_def del: set_map)
  moreover have "one_valued (lv_consumer bv) ys"
    using ok one_valued_same_key [OF keys(1)] by (simp add: load_comparable_def)
  moreover have "\<forall>(x, y) \<in> set (zip xs ys). load_same_instant av bv x y \<and> load_same_actual av bv x y"
    using all2(3) by (auto simp: list_all2_iff)
  ultimately show "load_require_comparable sm am bm av bv xs ys = Inr u"
    using ok by (auto simp: load_require_comparable_def load_nonempty_equal_def load_comparable_def
        load_shared_consumer_def load_chronology_def result_simps cohort_simps)
qed

section \<open>Persistence and the one-feature fit (persistence_vs_trained_ols_comparison.py)\<close>

definition load_cmp_trained_empty_both_message :: string where
  "load_cmp_trained_empty_both_message =
     ''Consumer Load persistence-versus-trained OLS MAE comparison requires a non-empty aligned cohort.''"

definition load_cmp_trained_empty_persistence_message :: string where
  "load_cmp_trained_empty_persistence_message =
     ''Consumer Load persistence-versus-trained OLS MAE comparison requires a non-empty persistence cohort.''"

definition load_cmp_trained_empty_trained_message :: string where
  "load_cmp_trained_empty_trained_message =
     ''Consumer Load persistence-versus-trained OLS MAE comparison requires a non-empty trained OLS cohort.''"

definition load_cmp_trained_unequal_length_message :: string where
  "load_cmp_trained_unequal_length_message =
     ''Consumer Load persistence-versus-trained OLS MAE comparison requires equal persistence and trained case counts.''"

definition load_cmp_trained_mixed_persistence_consumer_message :: string where
  "load_cmp_trained_mixed_persistence_consumer_message =
     ''Consumer Load persistence-versus-trained OLS MAE comparison requires persistence cases from exactly one consumer.''"

definition load_cmp_trained_mixed_trained_consumer_message :: string where
  "load_cmp_trained_mixed_trained_consumer_message =
     ''Consumer Load persistence-versus-trained OLS MAE comparison requires trained predictions from exactly one consumer.''"

definition load_cmp_trained_consumer_mismatch_message :: string where
  "load_cmp_trained_consumer_mismatch_message =
     ''Consumer Load persistence-versus-trained OLS MAE comparison requires persistence cases and trained predictions from the same consumer.''"

definition load_cmp_trained_duplicate_persistence_timestamp_message :: string where
  "load_cmp_trained_duplicate_persistence_timestamp_message =
     ''Consumer Load persistence-versus-trained OLS MAE comparison requires unique persistence target timestamps.''"

definition load_cmp_trained_duplicate_trained_timestamp_message :: string where
  "load_cmp_trained_duplicate_trained_timestamp_message =
     ''Consumer Load persistence-versus-trained OLS MAE comparison requires unique trained target timestamps.''"

definition load_cmp_trained_out_of_order_persistence_message :: string where
  "load_cmp_trained_out_of_order_persistence_message =
     ''Consumer Load persistence-versus-trained OLS MAE comparison requires strictly increasing persistence target timestamps.''"

definition load_cmp_trained_out_of_order_trained_message :: string where
  "load_cmp_trained_out_of_order_trained_message =
     ''Consumer Load persistence-versus-trained OLS MAE comparison requires strictly increasing trained target timestamps.''"

definition load_cmp_trained_timestamp_mismatch_message :: string where
  "load_cmp_trained_timestamp_mismatch_message =
     ''Consumer Load persistence-versus-trained OLS MAE comparison requires matching target timestamps at each aligned index.''"

definition load_cmp_trained_actual_mismatch_message :: string where
  "load_cmp_trained_actual_mismatch_message =
     ''Consumer Load persistence-versus-trained OLS MAE comparison requires matching actual MW values at each aligned index.''"

definition load_cmp_trained_shared :: load_shared_messages where
  "load_cmp_trained_shared =
     \<lparr>lsm_empty_all = load_cmp_trained_empty_both_message, lsm_unequal_length = load_cmp_trained_unequal_length_message,
      lsm_consumer_mismatch = load_cmp_trained_consumer_mismatch_message,
      lsm_timestamp_mismatch = load_cmp_trained_timestamp_mismatch_message,
      lsm_actual_mismatch = load_cmp_trained_actual_mismatch_message\<rparr>"

definition load_cmp_trained_persistence_messages :: load_cohort_messages where
  "load_cmp_trained_persistence_messages =
     \<lparr>lcm_empty = load_cmp_trained_empty_persistence_message,
      lcm_mixed_consumer = load_cmp_trained_mixed_persistence_consumer_message,
      lcm_duplicate = load_cmp_trained_duplicate_persistence_timestamp_message,
      lcm_out_of_order = load_cmp_trained_out_of_order_persistence_message\<rparr>"

definition load_cmp_trained_trained_messages :: load_cohort_messages where
  "load_cmp_trained_trained_messages =
     \<lparr>lcm_empty = load_cmp_trained_empty_trained_message,
      lcm_mixed_consumer = load_cmp_trained_mixed_trained_consumer_message,
      lcm_duplicate = load_cmp_trained_duplicate_trained_timestamp_message,
      lcm_out_of_order = load_cmp_trained_out_of_order_trained_message\<rparr>"

record load_cmp_trained =
  load_cmp_trained_case_count :: nat
  load_cmp_trained_persistence_mae_mw :: pyfloat
  load_cmp_trained_trained_ols_mae_mw :: pyfloat

definition compare_consumer_load_persistence_vs_trained_ols_mae ::
    "load_backtest_case list \<Rightarrow> load_lag24_prediction list \<Rightarrow> load_cmp_trained result" where
  "compare_consumer_load_persistence_vs_trained_ols_mae xs ys =
     check (load_require_comparable load_cmp_trained_shared load_cmp_trained_persistence_messages
              load_cmp_trained_trained_messages load_case_view load24_view xs ys)
      (attempt (evaluate_load_persistence_mae xs) (\<lambda>left_result.
       attempt (evaluate_consumer_load_lag_24h_linear_regression_mae ys) (\<lambda>right_result.
         Inr \<lparr>load_cmp_trained_case_count = length xs, load_cmp_trained_persistence_mae_mw = lpm_mae_mw left_result,
              load_cmp_trained_trained_ols_mae_mw = lm24_mae_mw right_result\<rparr>)))"

section \<open>Persistence and the two-feature fit (persistence_vs_lag_24h_168h_ols_comparison.py)\<close>

definition load_cmp_persistence_168_empty_both_message :: string where
  "load_cmp_persistence_168_empty_both_message =
     ''Consumer Load persistence-versus-two-feature OLS MAE comparison requires a non-empty aligned cohort.''"

definition load_cmp_persistence_168_empty_persistence_message :: string where
  "load_cmp_persistence_168_empty_persistence_message =
     ''Consumer Load persistence-versus-two-feature OLS MAE comparison requires a non-empty persistence cohort.''"

definition load_cmp_persistence_168_empty_lag_24h_168h_message :: string where
  "load_cmp_persistence_168_empty_lag_24h_168h_message =
     ''Consumer Load persistence-versus-two-feature OLS MAE comparison requires a non-empty two-feature cohort.''"

definition load_cmp_persistence_168_unequal_length_message :: string where
  "load_cmp_persistence_168_unequal_length_message =
     ''Consumer Load persistence-versus-two-feature OLS MAE comparison requires equal persistence and two-feature case counts.''"

definition load_cmp_persistence_168_mixed_persistence_consumer_message :: string where
  "load_cmp_persistence_168_mixed_persistence_consumer_message =
     ''Consumer Load persistence-versus-two-feature OLS MAE comparison requires persistence cases from exactly one consumer.''"

definition load_cmp_persistence_168_mixed_lag_24h_168h_consumer_message :: string where
  "load_cmp_persistence_168_mixed_lag_24h_168h_consumer_message =
     ''Consumer Load persistence-versus-two-feature OLS MAE comparison requires two-feature predictions from exactly one consumer.''"

definition load_cmp_persistence_168_consumer_mismatch_message :: string where
  "load_cmp_persistence_168_consumer_mismatch_message =
     ''Consumer Load persistence-versus-two-feature OLS MAE comparison requires persistence cases and two-feature predictions from the same consumer.''"

definition load_cmp_persistence_168_duplicate_persistence_timestamp_message :: string where
  "load_cmp_persistence_168_duplicate_persistence_timestamp_message =
     ''Consumer Load persistence-versus-two-feature OLS MAE comparison requires unique persistence target timestamps.''"

definition load_cmp_persistence_168_duplicate_lag_24h_168h_timestamp_message :: string where
  "load_cmp_persistence_168_duplicate_lag_24h_168h_timestamp_message =
     ''Consumer Load persistence-versus-two-feature OLS MAE comparison requires unique two-feature target timestamps.''"

definition load_cmp_persistence_168_out_of_order_persistence_message :: string where
  "load_cmp_persistence_168_out_of_order_persistence_message =
     ''Consumer Load persistence-versus-two-feature OLS MAE comparison requires strictly increasing persistence target timestamps.''"

definition load_cmp_persistence_168_out_of_order_lag_24h_168h_message :: string where
  "load_cmp_persistence_168_out_of_order_lag_24h_168h_message =
     ''Consumer Load persistence-versus-two-feature OLS MAE comparison requires strictly increasing two-feature target timestamps.''"

definition load_cmp_persistence_168_timestamp_mismatch_message :: string where
  "load_cmp_persistence_168_timestamp_mismatch_message =
     ''Consumer Load persistence-versus-two-feature OLS MAE comparison requires matching target timestamps at each aligned index.''"

definition load_cmp_persistence_168_actual_mismatch_message :: string where
  "load_cmp_persistence_168_actual_mismatch_message =
     ''Consumer Load persistence-versus-two-feature OLS MAE comparison requires matching actual MW values at each aligned index.''"

definition load_cmp_persistence_168_shared :: load_shared_messages where
  "load_cmp_persistence_168_shared =
     \<lparr>lsm_empty_all = load_cmp_persistence_168_empty_both_message, lsm_unequal_length = load_cmp_persistence_168_unequal_length_message,
      lsm_consumer_mismatch = load_cmp_persistence_168_consumer_mismatch_message,
      lsm_timestamp_mismatch = load_cmp_persistence_168_timestamp_mismatch_message,
      lsm_actual_mismatch = load_cmp_persistence_168_actual_mismatch_message\<rparr>"

definition load_cmp_persistence_168_persistence_messages :: load_cohort_messages where
  "load_cmp_persistence_168_persistence_messages =
     \<lparr>lcm_empty = load_cmp_persistence_168_empty_persistence_message,
      lcm_mixed_consumer = load_cmp_persistence_168_mixed_persistence_consumer_message,
      lcm_duplicate = load_cmp_persistence_168_duplicate_persistence_timestamp_message,
      lcm_out_of_order = load_cmp_persistence_168_out_of_order_persistence_message\<rparr>"

definition load_cmp_persistence_168_lag_24h_168h_messages :: load_cohort_messages where
  "load_cmp_persistence_168_lag_24h_168h_messages =
     \<lparr>lcm_empty = load_cmp_persistence_168_empty_lag_24h_168h_message,
      lcm_mixed_consumer = load_cmp_persistence_168_mixed_lag_24h_168h_consumer_message,
      lcm_duplicate = load_cmp_persistence_168_duplicate_lag_24h_168h_timestamp_message,
      lcm_out_of_order = load_cmp_persistence_168_out_of_order_lag_24h_168h_message\<rparr>"

record load_cmp_persistence_168 =
  load_cmp_persistence_168_case_count :: nat
  load_cmp_persistence_168_persistence_mae_mw :: pyfloat
  load_cmp_persistence_168_lag_24h_168h_mae_mw :: pyfloat

definition compare_consumer_load_persistence_vs_lag_24h_168h_ols_mae ::
    "load_backtest_case list \<Rightarrow> load_lag168_prediction list \<Rightarrow> load_cmp_persistence_168 result" where
  "compare_consumer_load_persistence_vs_lag_24h_168h_ols_mae xs ys =
     check (load_require_comparable load_cmp_persistence_168_shared load_cmp_persistence_168_persistence_messages
              load_cmp_persistence_168_lag_24h_168h_messages load_case_view load168_view xs ys)
      (attempt (evaluate_load_persistence_mae xs) (\<lambda>left_result.
       attempt (evaluate_consumer_load_lag_24h_168h_linear_regression_mae ys) (\<lambda>right_result.
         Inr \<lparr>load_cmp_persistence_168_case_count = length xs, load_cmp_persistence_168_persistence_mae_mw = lpm_mae_mw left_result,
              load_cmp_persistence_168_lag_24h_168h_mae_mw = lm168_mae_mw right_result\<rparr>)))"

section \<open>The two fits (lag_24h_vs_lag_24h_168h_ols_comparison.py)\<close>

definition load_cmp_lags_empty_both_message :: string where
  "load_cmp_lags_empty_both_message =
     ''Consumer Load one-feature versus two-feature OLS MAE comparison requires a non-empty aligned cohort.''"

definition load_cmp_lags_empty_lag_24h_message :: string where
  "load_cmp_lags_empty_lag_24h_message =
     ''Consumer Load one-feature versus two-feature OLS MAE comparison requires a non-empty one-feature cohort.''"

definition load_cmp_lags_empty_lag_24h_168h_message :: string where
  "load_cmp_lags_empty_lag_24h_168h_message =
     ''Consumer Load one-feature versus two-feature OLS MAE comparison requires a non-empty two-feature cohort.''"

definition load_cmp_lags_unequal_length_message :: string where
  "load_cmp_lags_unequal_length_message =
     ''Consumer Load one-feature versus two-feature OLS MAE comparison requires equal one-feature and two-feature case counts.''"

definition load_cmp_lags_mixed_lag_24h_consumer_message :: string where
  "load_cmp_lags_mixed_lag_24h_consumer_message =
     ''Consumer Load one-feature versus two-feature OLS MAE comparison requires one-feature predictions from exactly one consumer.''"

definition load_cmp_lags_mixed_lag_24h_168h_consumer_message :: string where
  "load_cmp_lags_mixed_lag_24h_168h_consumer_message =
     ''Consumer Load one-feature versus two-feature OLS MAE comparison requires two-feature predictions from exactly one consumer.''"

definition load_cmp_lags_consumer_mismatch_message :: string where
  "load_cmp_lags_consumer_mismatch_message =
     ''Consumer Load one-feature versus two-feature OLS MAE comparison requires one-feature and two-feature predictions from the same consumer.''"

definition load_cmp_lags_duplicate_lag_24h_timestamp_message :: string where
  "load_cmp_lags_duplicate_lag_24h_timestamp_message =
     ''Consumer Load one-feature versus two-feature OLS MAE comparison requires unique one-feature target timestamps.''"

definition load_cmp_lags_duplicate_lag_24h_168h_timestamp_message :: string where
  "load_cmp_lags_duplicate_lag_24h_168h_timestamp_message =
     ''Consumer Load one-feature versus two-feature OLS MAE comparison requires unique two-feature target timestamps.''"

definition load_cmp_lags_out_of_order_lag_24h_message :: string where
  "load_cmp_lags_out_of_order_lag_24h_message =
     ''Consumer Load one-feature versus two-feature OLS MAE comparison requires strictly increasing one-feature target timestamps.''"

definition load_cmp_lags_out_of_order_lag_24h_168h_message :: string where
  "load_cmp_lags_out_of_order_lag_24h_168h_message =
     ''Consumer Load one-feature versus two-feature OLS MAE comparison requires strictly increasing two-feature target timestamps.''"

definition load_cmp_lags_timestamp_mismatch_message :: string where
  "load_cmp_lags_timestamp_mismatch_message =
     ''Consumer Load one-feature versus two-feature OLS MAE comparison requires matching target timestamps at each aligned index.''"

definition load_cmp_lags_actual_mismatch_message :: string where
  "load_cmp_lags_actual_mismatch_message =
     ''Consumer Load one-feature versus two-feature OLS MAE comparison requires matching actual MW values at each aligned index.''"

definition load_cmp_lags_shared :: load_shared_messages where
  "load_cmp_lags_shared =
     \<lparr>lsm_empty_all = load_cmp_lags_empty_both_message, lsm_unequal_length = load_cmp_lags_unequal_length_message,
      lsm_consumer_mismatch = load_cmp_lags_consumer_mismatch_message,
      lsm_timestamp_mismatch = load_cmp_lags_timestamp_mismatch_message,
      lsm_actual_mismatch = load_cmp_lags_actual_mismatch_message\<rparr>"

definition load_cmp_lags_lag_24h_messages :: load_cohort_messages where
  "load_cmp_lags_lag_24h_messages =
     \<lparr>lcm_empty = load_cmp_lags_empty_lag_24h_message,
      lcm_mixed_consumer = load_cmp_lags_mixed_lag_24h_consumer_message,
      lcm_duplicate = load_cmp_lags_duplicate_lag_24h_timestamp_message,
      lcm_out_of_order = load_cmp_lags_out_of_order_lag_24h_message\<rparr>"

definition load_cmp_lags_lag_24h_168h_messages :: load_cohort_messages where
  "load_cmp_lags_lag_24h_168h_messages =
     \<lparr>lcm_empty = load_cmp_lags_empty_lag_24h_168h_message,
      lcm_mixed_consumer = load_cmp_lags_mixed_lag_24h_168h_consumer_message,
      lcm_duplicate = load_cmp_lags_duplicate_lag_24h_168h_timestamp_message,
      lcm_out_of_order = load_cmp_lags_out_of_order_lag_24h_168h_message\<rparr>"

record load_cmp_lags =
  load_cmp_lags_case_count :: nat
  load_cmp_lags_lag_24h_mae_mw :: pyfloat
  load_cmp_lags_lag_24h_168h_mae_mw :: pyfloat

definition compare_consumer_load_lag_24h_vs_lag_24h_168h_ols_mae ::
    "load_lag24_prediction list \<Rightarrow> load_lag168_prediction list \<Rightarrow> load_cmp_lags result" where
  "compare_consumer_load_lag_24h_vs_lag_24h_168h_ols_mae xs ys =
     check (load_require_comparable load_cmp_lags_shared load_cmp_lags_lag_24h_messages
              load_cmp_lags_lag_24h_168h_messages load24_view load168_view xs ys)
      (attempt (evaluate_consumer_load_lag_24h_linear_regression_mae xs) (\<lambda>left_result.
       attempt (evaluate_consumer_load_lag_24h_168h_linear_regression_mae ys) (\<lambda>right_result.
         Inr \<lparr>load_cmp_lags_case_count = length xs, load_cmp_lags_lag_24h_mae_mw = lm24_mae_mw left_result,
              load_cmp_lags_lag_24h_168h_mae_mw = lm168_mae_mw right_result\<rparr>)))"

section \<open>Three cohorts (persistence_vs_lag_24h_vs_lag_24h_168h_ols_comparison.py)\<close>

definition load_cmp_three_empty_all_message :: string where
  "load_cmp_three_empty_all_message =
     ''Consumer Load persistence-versus-one-feature-versus-two-feature OLS MAE comparison requires a non-empty aligned cohort.''"

definition load_cmp_three_empty_persistence_message :: string where
  "load_cmp_three_empty_persistence_message =
     ''Consumer Load persistence-versus-one-feature-versus-two-feature OLS MAE comparison requires a non-empty persistence cohort.''"

definition load_cmp_three_empty_lag_24h_message :: string where
  "load_cmp_three_empty_lag_24h_message =
     ''Consumer Load persistence-versus-one-feature-versus-two-feature OLS MAE comparison requires a non-empty one-feature cohort.''"

definition load_cmp_three_empty_lag_24h_168h_message :: string where
  "load_cmp_three_empty_lag_24h_168h_message =
     ''Consumer Load persistence-versus-one-feature-versus-two-feature OLS MAE comparison requires a non-empty two-feature cohort.''"

definition load_cmp_three_unequal_length_message :: string where
  "load_cmp_three_unequal_length_message =
     ''Consumer Load persistence-versus-one-feature-versus-two-feature OLS MAE comparison requires equal persistence, one-feature, and two-feature case counts.''"

definition load_cmp_three_mixed_persistence_consumer_message :: string where
  "load_cmp_three_mixed_persistence_consumer_message =
     ''Consumer Load persistence-versus-one-feature-versus-two-feature OLS MAE comparison requires persistence cases from exactly one consumer.''"

definition load_cmp_three_mixed_lag_24h_consumer_message :: string where
  "load_cmp_three_mixed_lag_24h_consumer_message =
     ''Consumer Load persistence-versus-one-feature-versus-two-feature OLS MAE comparison requires one-feature predictions from exactly one consumer.''"

definition load_cmp_three_mixed_lag_24h_168h_consumer_message :: string where
  "load_cmp_three_mixed_lag_24h_168h_consumer_message =
     ''Consumer Load persistence-versus-one-feature-versus-two-feature OLS MAE comparison requires two-feature predictions from exactly one consumer.''"

definition load_cmp_three_consumer_mismatch_message :: string where
  "load_cmp_three_consumer_mismatch_message =
     ''Consumer Load persistence-versus-one-feature-versus-two-feature OLS MAE comparison requires persistence cases, one-feature predictions, and two-feature predictions from the same consumer.''"

definition load_cmp_three_duplicate_persistence_timestamp_message :: string where
  "load_cmp_three_duplicate_persistence_timestamp_message =
     ''Consumer Load persistence-versus-one-feature-versus-two-feature OLS MAE comparison requires unique persistence target timestamps.''"

definition load_cmp_three_duplicate_lag_24h_timestamp_message :: string where
  "load_cmp_three_duplicate_lag_24h_timestamp_message =
     ''Consumer Load persistence-versus-one-feature-versus-two-feature OLS MAE comparison requires unique one-feature target timestamps.''"

definition load_cmp_three_duplicate_lag_24h_168h_timestamp_message :: string where
  "load_cmp_three_duplicate_lag_24h_168h_timestamp_message =
     ''Consumer Load persistence-versus-one-feature-versus-two-feature OLS MAE comparison requires unique two-feature target timestamps.''"

definition load_cmp_three_out_of_order_persistence_message :: string where
  "load_cmp_three_out_of_order_persistence_message =
     ''Consumer Load persistence-versus-one-feature-versus-two-feature OLS MAE comparison requires strictly increasing persistence target timestamps.''"

definition load_cmp_three_out_of_order_lag_24h_message :: string where
  "load_cmp_three_out_of_order_lag_24h_message =
     ''Consumer Load persistence-versus-one-feature-versus-two-feature OLS MAE comparison requires strictly increasing one-feature target timestamps.''"

definition load_cmp_three_out_of_order_lag_24h_168h_message :: string where
  "load_cmp_three_out_of_order_lag_24h_168h_message =
     ''Consumer Load persistence-versus-one-feature-versus-two-feature OLS MAE comparison requires strictly increasing two-feature target timestamps.''"

definition load_cmp_three_timestamp_mismatch_message :: string where
  "load_cmp_three_timestamp_mismatch_message =
     ''Consumer Load persistence-versus-one-feature-versus-two-feature OLS MAE comparison requires matching target timestamps at each aligned index.''"

definition load_cmp_three_actual_mismatch_message :: string where
  "load_cmp_three_actual_mismatch_message =
     ''Consumer Load persistence-versus-one-feature-versus-two-feature OLS MAE comparison requires matching actual MW values at each aligned index.''"

record load_cmp_three =
  load_cmp_three_case_count :: nat
  load_cmp_three_persistence_mae_mw :: pyfloat
  load_cmp_three_lag_24h_mae_mw :: pyfloat
  load_cmp_three_lag_24h_168h_mae_mw :: pyfloat

type_synonym load_cohorts = "load_backtest_case list \<times> load_lag24_prediction list \<times> load_lag168_prediction list"

definition load_three_nonempty_equal :: "load_cohorts \<Rightarrow> unit result" where
  "load_three_nonempty_equal cohorts =
     (let (xs, ys, zs) = cohorts in
      check (raise_if (xs = [] \<and> ys = [] \<and> zs = []) (InvalidRequestError load_cmp_three_empty_all_message))
       (check (raise_if (xs = []) (InvalidRequestError load_cmp_three_empty_persistence_message))
        (check (raise_if (ys = []) (InvalidRequestError load_cmp_three_empty_lag_24h_message))
         (check (raise_if (zs = []) (InvalidRequestError load_cmp_three_empty_lag_24h_168h_message))
           (raise_if (length xs \<noteq> length ys \<or> length xs \<noteq> length zs \<or> length ys \<noteq> length zs)
             (InvalidRequestError load_cmp_three_unequal_length_message))))))"

definition load_three_shared_consumer :: "load_cohorts \<Rightarrow> unit result" where
  "load_three_shared_consumer cohorts =
     (let (xs, ys, zs) = cohorts in
      check (require_single lbc_consumer_id load_cmp_three_mixed_persistence_consumer_message xs)
       (check (require_single lp24_consumer_id load_cmp_three_mixed_lag_24h_consumer_message ys)
        (check (require_single lp168_consumer_id load_cmp_three_mixed_lag_24h_168h_consumer_message zs)
          (raise_if (keys_differ lbc_consumer_id lp24_consumer_id xs ys \<or>
                     keys_differ lbc_consumer_id lp168_consumer_id xs zs \<or>
                     keys_differ lp24_consumer_id lp168_consumer_id ys zs)
            (InvalidRequestError load_cmp_three_consumer_mismatch_message)))))"

definition load_three_chronology :: "load_cohorts \<Rightarrow> unit result" where
  "load_three_chronology cohorts =
     (let (xs, ys, zs) = cohorts in
      check (require_strict_chronology lbc_target_timestamp load_cmp_three_duplicate_persistence_timestamp_message
               load_cmp_three_out_of_order_persistence_message xs)
       (check (require_strict_chronology lp24_target_timestamp load_cmp_three_duplicate_lag_24h_timestamp_message
                 load_cmp_three_out_of_order_lag_24h_message ys)
         (require_strict_chronology lp168_target_timestamp load_cmp_three_duplicate_lag_24h_168h_timestamp_message
            load_cmp_three_out_of_order_lag_24h_168h_message zs)))"

definition load_three_same_instant ::
    "load_backtest_case \<Rightarrow> load_lag24_prediction \<times> load_lag168_prediction \<Rightarrow> bool" where
  "load_three_same_instant x yz \<longleftrightarrow>
     lbc_target_timestamp x = lp24_target_timestamp (fst yz) \<and>
     lbc_target_timestamp x = lp168_target_timestamp (snd yz) \<and>
     lp24_target_timestamp (fst yz) = lp168_target_timestamp (snd yz)"

definition load_three_same_actual ::
    "load_backtest_case \<Rightarrow> load_lag24_prediction \<times> load_lag168_prediction \<Rightarrow> bool" where
  "load_three_same_actual x yz \<longleftrightarrow>
     float_eq (lbc_actual_value_mw x) (lp24_actual_value_mw (fst yz)) \<and>
     float_eq (lbc_actual_value_mw x) (lp168_actual_value_mw (snd yz)) \<and>
     float_eq (lp24_actual_value_mw (fst yz)) (lp168_actual_value_mw (snd yz))"

definition load_three_alignment :: "load_cohorts \<Rightarrow> unit result" where
  "load_three_alignment cohorts =
     (let (xs, ys, zs) = cohorts in
      require_alignment load_three_same_instant load_three_same_actual
        load_cmp_three_timestamp_mismatch_message load_cmp_three_actual_mismatch_message
        (zip xs (zip ys zs)))"

definition compare_consumer_load_persistence_vs_lag_24h_vs_lag_24h_168h_ols_mae ::
    "load_backtest_case list \<Rightarrow> load_lag24_prediction list \<Rightarrow> load_lag168_prediction list \<Rightarrow> load_cmp_three result" where
  "compare_consumer_load_persistence_vs_lag_24h_vs_lag_24h_168h_ols_mae xs ys zs =
     check (load_three_nonempty_equal (xs, ys, zs))
      (check (load_three_shared_consumer (xs, ys, zs))
       (check (load_three_chronology (xs, ys, zs))
        (check (load_three_alignment (xs, ys, zs))
         (attempt (evaluate_load_persistence_mae xs) (\<lambda>persistence_result.
          attempt (evaluate_consumer_load_lag_24h_linear_regression_mae ys) (\<lambda>lag_24h_result.
          attempt (evaluate_consumer_load_lag_24h_168h_linear_regression_mae zs) (\<lambda>lag_24h_168h_result.
            Inr \<lparr>load_cmp_three_case_count = length xs,
                 load_cmp_three_persistence_mae_mw = lpm_mae_mw persistence_result,
                 load_cmp_three_lag_24h_mae_mw = lm24_mae_mw lag_24h_result,
                 load_cmp_three_lag_24h_168h_mae_mw = lm168_mae_mw lag_24h_168h_result\<rparr>)))))))"

definition load_three_comparable :: "load_cohorts \<Rightarrow> bool" where
  "load_three_comparable cohorts =
     (let (xs, ys, zs) = cohorts in
      load_comparable load_case_view load24_view xs ys \<and> load_comparable load_case_view load168_view xs zs \<and>
      load_comparable load24_view load168_view ys zs)"

lemma load_three_guards_iff:
  "load_three_nonempty_equal (xs, ys, zs) = Inr () \<and> load_three_shared_consumer (xs, ys, zs) = Inr () \<and>
   load_three_chronology (xs, ys, zs) = Inr () \<and> load_three_alignment (xs, ys, zs) = Inr ()
   \<longleftrightarrow> load_three_comparable (xs, ys, zs)" (is "?guards \<longleftrightarrow> _")
proof -
  let ?sm = "load_cmp_trained_shared"
  let ?am = "load_cmp_trained_persistence_messages" and ?bm = "load_cmp_trained_trained_messages"
  let ?aligned = "\<lambda>av bv xs ys. \<forall>(x, y) \<in> set (zip xs ys). load_same_instant av bv x y \<and> load_same_actual av bv x y"
  have alignment: "load_three_alignment (xs, ys, zs) = Inr () \<longleftrightarrow>
      ?aligned load_case_view load24_view xs ys \<and> ?aligned load_case_view load168_view xs zs \<and>
      ?aligned load24_view load168_view ys zs" if "length xs = length ys" "length ys = length zs"
  proof -
    have "load_three_alignment (xs, ys, zs) = Inr () \<longleftrightarrow>
      (\<forall>(x, y, z) \<in> set (zip xs (zip ys zs)).
         (load_same_instant load_case_view load24_view x y \<and> load_same_actual load_case_view load24_view x y) \<and>
         (load_same_instant load_case_view load168_view x z \<and> load_same_actual load_case_view load168_view x z) \<and>
         (load_same_instant load24_view load168_view y z \<and> load_same_actual load24_view load168_view y z))"
      unfolding load_three_alignment_def Let_def prod.case require_alignment_ok
      by (rule ball_cong) (auto simp: load_three_same_instant_def load_three_same_actual_def
          load_same_instant_def load_same_actual_def load_view_simps)
    then show ?thesis using that by (simp only: zip3_all)
  qed
  note unfold = load_require_comparable_def load_nonempty_equal_def load_shared_consumer_def
    load_chronology_def result_simps cohort_simps
  note unfold3 = load_three_nonempty_equal_def load_three_shared_consumer_def load_three_chronology_def Let_def
  have "load_three_comparable (xs, ys, zs) \<longleftrightarrow>
      load_require_comparable ?sm ?am ?bm load_case_view load24_view xs ys = Inr () \<and>
      load_require_comparable ?sm ?am ?bm load_case_view load168_view xs zs = Inr () \<and>
      load_require_comparable ?sm ?am ?bm load24_view load168_view ys zs = Inr ()" (is "_ \<longleftrightarrow> ?pairs")
    by (simp add: load_three_comparable_def load_require_comparable_ok)
  also have "?pairs \<longleftrightarrow> ?guards"
  proof (cases "length xs = length ys \<and> length ys = length zs")
    case True
    then show ?thesis
      using alignment by (auto simp: unfold unfold3 load_view_simps)
  next
    case False
    then show ?thesis by (auto simp: unfold unfold3)
  qed
  finally show ?thesis ..
qed

lemma compare_load_three_ok:
  "compare_consumer_load_persistence_vs_lag_24h_vs_lag_24h_168h_ols_mae xs ys zs = Inr r \<longleftrightarrow>
   load_three_comparable (xs, ys, zs) \<and>
   (\<exists>p l l'. evaluate_load_persistence_mae xs = Inr p \<and>
      evaluate_consumer_load_lag_24h_linear_regression_mae ys = Inr l \<and>
      evaluate_consumer_load_lag_24h_168h_linear_regression_mae zs = Inr l' \<and>
      r = \<lparr>load_cmp_three_case_count = length xs, load_cmp_three_persistence_mae_mw = lpm_mae_mw p,
           load_cmp_three_lag_24h_mae_mw = lm24_mae_mw l, load_cmp_three_lag_24h_168h_mae_mw = lm168_mae_mw l'\<rparr>)"
  unfolding load_three_guards_iff [symmetric]
    compare_consumer_load_persistence_vs_lag_24h_vs_lag_24h_168h_ols_mae_def
  by (auto simp: result_simps)

section \<open>Properties\<close>

lemma load_comparable_maps:
  assumes "load_comparable av bv xs ys"
  shows "map (lv_consumer av) xs = map (lv_consumer bv) ys" "map (lv_timestamp av) xs = map (lv_timestamp bv) ys"
    "list_all2 (\<lambda>x y. float_eq (lv_actual av x) (lv_actual bv y)) xs ys" "xs \<noteq> []" "length xs = length ys"
  using assms
  by (auto simp: load_comparable_def load_same_instant_def load_same_actual_def
      list_all2_same_key [symmetric] elim: list_all2_mono dest: list_all2_lengthD)

lemma evaluate_load24_nonneg:
  assumes "evaluate_consumer_load_lag_24h_linear_regression_mae ps = Inr r" "length ps < 2 ^ 53"
  shows "float_isfinite (lm24_mae_mw r) \<and> 0 \<le> float_val (lm24_mae_mw r)"
  using assms unfolding evaluate_load24_ok good_load24_predictions_def
  by (elim conjE load_trained_mae_nonneg) simp_all

lemma evaluate_load168_nonneg:
  assumes "evaluate_consumer_load_lag_24h_168h_linear_regression_mae ps = Inr r" "length ps < 2 ^ 53"
  shows "float_isfinite (lm168_mae_mw r) \<and> 0 \<le> float_val (lm168_mae_mw r)"
  using assms unfolding evaluate_load168_ok good_load168_predictions_def
  by (elim conjE load_trained_mae_nonneg) simp_all

text \<open>C39: LOAD-COMPARE-SOUND. What the three-way load comparison returns compares like with like: the
  three cohorts are of one consumer, over the same instants in strictly increasing order, with equal
  actual values; the count is theirs, the persistence error is the compensated mean of the absolute
  errors, and the two fitted models' errors are finite and not negative.\<close>

theorem load_three_way_sound:
  assumes "compare_consumer_load_persistence_vs_lag_24h_vs_lag_24h_168h_ols_mae xs ys zs = Inr r"
    and "length xs < 2 ^ 53"
  shows "map lbc_consumer_id xs = map lp24_consumer_id ys \<and> map lbc_consumer_id xs = map lp168_consumer_id zs \<and>
    one_valued lbc_consumer_id xs \<and> strictly_increasing lbc_target_timestamp xs \<and>
    map lbc_target_timestamp xs = map lp24_target_timestamp ys \<and>
    map lbc_target_timestamp xs = map lp168_target_timestamp zs \<and>
    list_all2 (\<lambda>x y. float_eq (lbc_actual_value_mw x) (lp24_actual_value_mw y)) xs ys \<and>
    list_all2 (\<lambda>x z. float_eq (lbc_actual_value_mw x) (lp168_actual_value_mw z)) xs zs \<and>
    load_cmp_three_case_count r = length xs \<and>
    float_div (py_sum (map load_case_error xs)) (float_of_nat (length xs))
      = Inr (load_cmp_three_persistence_mae_mw r) \<and>
    float_isfinite (load_cmp_three_lag_24h_mae_mw r) \<and> 0 \<le> float_val (load_cmp_three_lag_24h_mae_mw r) \<and>
    float_isfinite (load_cmp_three_lag_24h_168h_mae_mw r) \<and> 0 \<le> float_val (load_cmp_three_lag_24h_168h_mae_mw r)"
proof -
  obtain p l l' where c: "load_comparable load_case_view load24_view xs ys"
      "load_comparable load_case_view load168_view xs zs"
    and runs: "evaluate_load_persistence_mae xs = Inr p"
      "evaluate_consumer_load_lag_24h_linear_regression_mae ys = Inr l"
      "evaluate_consumer_load_lag_24h_168h_linear_regression_mae zs = Inr l'"
    and r: "r = \<lparr>load_cmp_three_case_count = length xs, load_cmp_three_persistence_mae_mw = lpm_mae_mw p,
      load_cmp_three_lag_24h_mae_mw = lm24_mae_mw l, load_cmp_three_lag_24h_168h_mae_mw = lm168_mae_mw l'\<rparr>"
    using assms(1) by (auto simp: compare_load_three_ok load_three_comparable_def)
  note maps = load_comparable_maps [OF c(1)] load_comparable_maps [OF c(2)]
  have "length ys < 2 ^ 53" "length zs < 2 ^ 53" using maps assms(2) by auto
  then have "float_isfinite (lm24_mae_mw l) \<and> 0 \<le> float_val (lm24_mae_mw l)"
      "float_isfinite (lm168_mae_mw l') \<and> 0 \<le> float_val (lm168_mae_mw l')"
    using evaluate_load24_nonneg [OF runs(2)] evaluate_load168_nonneg [OF runs(3)] by blast+
  moreover have "float_div (py_sum (map load_case_error xs)) (float_of_nat (length xs)) = Inr (lpm_mae_mw p)"
    using runs(1) by (auto simp: evaluate_load_persistence_mae_def result_simps split: if_splits)
  moreover have "one_valued lbc_consumer_id xs" "strictly_increasing lbc_target_timestamp xs"
    using c(1) by (simp_all add: load_comparable_def load_case_view_def)
  ultimately show ?thesis using maps by (simp add: r load_view_simps)
qed

definition sample_load_case :: "utc \<Rightarrow> nat \<Rightarrow> nat \<Rightarrow> load_backtest_case" where
  "sample_load_case t p a = \<lparr>lbc_consumer_id = ''c1'', lbc_target_timestamp = t,
     lbc_predicted_value_mw = Fl False p 0, lbc_actual_value_mw = Fl False a 0\<rparr>"

definition sample_load24_prediction :: "utc \<Rightarrow> nat \<Rightarrow> nat \<Rightarrow> load_lag24_prediction" where
  "sample_load24_prediction t p a = \<lparr>lp24_consumer_id = ''c1'', lp24_target_timestamp = t,
     lp24_predicted_value_mw = Fl False p 0, lp24_actual_value_mw = Fl False a 0\<rparr>"

definition sample_load168_prediction :: "utc \<Rightarrow> nat \<Rightarrow> nat \<Rightarrow> load_lag168_prediction" where
  "sample_load168_prediction t p a = \<lparr>lp168_consumer_id = ''c1'', lp168_target_timestamp = t,
     lp168_predicted_value_mw = Fl False p 0, lp168_actual_value_mw = Fl False a 0\<rparr>"

lemmas sample_cohort_defs = sample_load_case_def sample_load24_prediction_def sample_load168_prediction_def
  load_view_simps one_valued_def strictly_increasing_def load_same_instant_def load_same_actual_def
  float_eq_def float_aligned_def good_load24_predictions_def good_load168_predictions_def

lemmas float_eval = float_sub_def float_div_def float_of_nat_def float_quotient_def float_aligned_def
  float_round_small float_zero_def neumaier_step_def compensate_def Let_def

lemma sample_persistence_mae:
  "evaluate_load_persistence_mae [sample_load_case 1 7 3, sample_load_case 2 3 5]
     = Inr \<lparr>lpm_case_count = 2, lpm_mae_mw = Fl False 3 0\<rparr>"
  by (simp add: evaluate_load_persistence_mae_def load_case_error_def sample_load_case_def float_eval
      numeral_2_eq_2 [symmetric])

lemma sample_load24_mae:
  "evaluate_consumer_load_lag_24h_linear_regression_mae
     [sample_load24_prediction 1 3 3, sample_load24_prediction 2 7 5]
     = Inr \<lparr>lm24_case_count = 2, lm24_mae_mw = Fl False 1 0\<rparr>"
  unfolding evaluate_load24_ok load_trained_mae_ok
  by (simp add: sample_cohort_defs pair_error_def finite_pair_def float_eval numeral_2_eq_2 [symmetric])

lemma sample_load168_mae:
  "evaluate_consumer_load_lag_24h_168h_linear_regression_mae
     [sample_load168_prediction 1 3 3, sample_load168_prediction 2 5 5]
     = Inr \<lparr>lm168_case_count = 2, lm168_mae_mw = Fl False 0 0\<rparr>"
  unfolding evaluate_load168_ok load_trained_mae_ok
  by (simp add: sample_cohort_defs pair_error_def finite_pair_def float_eval numeral_2_eq_2 [symmetric])

lemma sample_three_way:
  "compare_consumer_load_persistence_vs_lag_24h_vs_lag_24h_168h_ols_mae
     [sample_load_case 1 7 3, sample_load_case 2 3 5] [sample_load24_prediction 1 3 3, sample_load24_prediction 2 7 5]
     [sample_load168_prediction 1 3 3, sample_load168_prediction 2 5 5]
   = Inr \<lparr>load_cmp_three_case_count = 2, load_cmp_three_persistence_mae_mw = Fl False 3 0,
          load_cmp_three_lag_24h_mae_mw = Fl False 1 0, load_cmp_three_lag_24h_168h_mae_mw = Fl False 0 0\<rparr>"
  unfolding compare_load_three_ok sample_persistence_mae sample_load24_mae sample_load168_mae
  by (simp add: load_three_comparable_def sample_cohort_defs load_comparable_def Let_def)

theorem load_three_way_sound_witness:
  "float_isfinite (Fl False 1 0) \<and> (0::rat) \<le> float_val (Fl False 1 0)"
  using load_three_way_sound [OF sample_three_way] by simp

definition largest_float :: pyfloat where "largest_float = Fl False (2 ^ 53 - 1) 971"

definition huge_load_case :: "utc \<Rightarrow> load_backtest_case" where
  "huge_load_case t = \<lparr>lbc_consumer_id = ''c1'', lbc_target_timestamp = t,
     lbc_predicted_value_mw = largest_float, lbc_actual_value_mw = Fl False 0 0\<rparr>"

definition huge_load_prediction :: "utc \<Rightarrow> load_lag24_prediction" where
  "huge_load_prediction t = \<lparr>lp24_consumer_id = ''c1'', lp24_target_timestamp = t,
     lp24_predicted_value_mw = largest_float, lp24_actual_value_mw = Fl False 0 0\<rparr>"

lemma largest_float_sums:
  "float_isfinite largest_float" "float_add largest_float (Fl t 0 0) = largest_float"
  "float_add (Fl t 0 0) largest_float = largest_float"
  "float_add largest_float largest_float = FlInf False"
  "float_abs largest_float = largest_float" "float_neg (Fl False 0 0) = Fl True 0 0"
  "float_le largest_float largest_float"
proof -
  have "digits_in 2 18014398509481982 = 54" by (rule digits_in_eq) simp_all
  then have "float_round False 18014398509481982 971 = FlInf False"
    by (simp add: float_round_def round_magnitude_def)
  then show "float_add largest_float largest_float = FlInf False"
    by (simp add: largest_float_def float_aligned_def Let_def)
  show "float_add largest_float (Fl t 0 0) = largest_float" "float_add (Fl t 0 0) largest_float = largest_float"
    unfolding largest_float_def by (rule float_add_full_zero; simp)+
  show "float_le largest_float largest_float"
    by (simp add: largest_float_def float_aligned_def Let_def)
qed (simp_all add: largest_float_def)

text \<open>C40: LOAD-MAE-INFINITE. The persistence evaluator does not guard its result: two well-formed cases
  at the top of the float range give an infinite error as a result annotated \<open>NonNegativeMW\<close> (finite
  by its definition), where the one-feature evaluator refuses the same predictions.\<close>

theorem load_persistence_mae_is_infinite:
  "non_negative_mw largest_float \<and> non_negative_mw (Fl False 0 0) \<and>
   evaluate_load_persistence_mae [huge_load_case 1, huge_load_case 2]
     = Inr \<lparr>lpm_case_count = 2, lpm_mae_mw = FlInf False\<rparr> \<and> \<not> non_negative_mw (FlInf False) \<and>
   evaluate_consumer_load_lag_24h_linear_regression_mae [huge_load_prediction 1, huge_load_prediction 2]
     = Inl (InvalidRequestError load_lag24_mae_non_finite_mae_message)"
proof -
  have signs: "non_negative_mw largest_float" "non_negative_mw (Fl False 0 0)" "\<not> non_negative_mw (FlInf False)"
    by (simp_all add: non_negative_mw_def largest_float_sums float_nonneg_iff_le [symmetric])
      (simp_all add: largest_float_def float_nonneg_def)
  have "py_sum [largest_float, largest_float] = FlInf False"
    by (simp add: float_zero_def neumaier_step_def compensate_def largest_float_sums float_sub_def Let_def)
      (simp add: largest_float_def)
  then have "evaluate_load_persistence_mae [huge_load_case 1, huge_load_case 2]
      = Inr \<lparr>lpm_case_count = 2, lpm_mae_mw = FlInf False\<rparr>"
    by (simp add: evaluate_load_persistence_mae_def load_case_error_def huge_load_case_def
        largest_float_sums float_sub_def float_div_def float_of_nat_def float_round_small
        numeral_2_eq_2 [symmetric] del: py_sum.simps)
  moreover have "evaluate_consumer_load_lag_24h_linear_regression_mae
      [huge_load_prediction 1, huge_load_prediction 2]
    = Inl (InvalidRequestError load_lag24_mae_non_finite_mae_message)"
    by (simp add: evaluate_consumer_load_lag_24h_linear_regression_mae_def huge_load_prediction_def
        require_single_def raise_if_def require_strict_chronology_def load_trained_mae_def
        float_zero_def largest_float_sums float_sub_def)
  ultimately show ?thesis using signs by blast
qed

end
