(* ===== verification/Workflow_State.thy ===== *)
theory Workflow_State
  imports Domain_Models
begin

text \<open>
  The workflow snapshot (application/orchestration/state.py), the failure-policy vocabulary
  (failure_policy.py) and the four phase transitions. Phases are ordered as the workflow goes
  through them, so that progress can be stated with the library's \<open>\<le>\<close>.
\<close>

section \<open>Snapshot (state.py)\<close>

datatype workflow_phase = CONTRACT | INGESTION | FORECASTING | RISK_AND_BID | SETTLEMENT

datatype workflow_status = PENDING | RUNNING | SUCCEEDED | FAILED

record workflow_state =
  ws_workflow_id :: string
  ws_portfolio_id :: string
  ws_delivery_date :: int
  ws_correlation_id :: string
  ws_phase :: workflow_phase
  ws_status :: workflow_status
  ws_diagnostics :: "adapter_diagnostic list"

text \<open>\<open>__post_init__\<close>: the three identities are stripped and refused when blank.\<close>

definition make_workflow_state ::
    "string \<Rightarrow> string \<Rightarrow> int \<Rightarrow> string \<Rightarrow> workflow_phase \<Rightarrow> workflow_status \<Rightarrow> adapter_diagnostic list \<Rightarrow>
     workflow_state result" where
  "make_workflow_state workflow_id portfolio_id delivery_date correlation_id phase status diagnostics =
     attempt (require_non_empty ''workflow_id'' workflow_id) (\<lambda>w.
     attempt (require_non_empty ''portfolio_id'' portfolio_id) (\<lambda>p.
     attempt (require_non_empty ''correlation_id'' correlation_id) (\<lambda>c.
       Inr \<lparr>ws_workflow_id = w, ws_portfolio_id = p, ws_delivery_date = delivery_date,
            ws_correlation_id = c, ws_phase = phase, ws_status = status,
            ws_diagnostics = diagnostics\<rparr>)))"

text \<open>The invariant of a constructed snapshot.\<close>

definition workflow_state_ok :: "workflow_state \<Rightarrow> bool" where
  "workflow_state_ok s \<longleftrightarrow>
     (\<forall>i \<in> {ws_workflow_id s, ws_portfolio_id s, ws_correlation_id s}. i \<noteq> [] \<and> py_strip i = i)"

text \<open>
  \<open>dataclasses.replace(state, phase=..., status=...)\<close> builds a new snapshot, so the construction
  checks run again.
\<close>

definition replace_phase_status ::
    "workflow_state \<Rightarrow> workflow_phase \<Rightarrow> workflow_status \<Rightarrow> workflow_state result" where
  "replace_phase_status s phase status =
     make_workflow_state (ws_workflow_id s) (ws_portfolio_id s) (ws_delivery_date s)
       (ws_correlation_id s) phase status (ws_diagnostics s)"

lemma make_workflow_state_ok:
  "make_workflow_state w p d c ph st ds = Inr s \<Longrightarrow> workflow_state_ok s"
  by (auto simp: make_workflow_state_def workflow_state_ok_def result_simps)

lemma replace_phase_status_ok:
  "workflow_state_ok s \<Longrightarrow>
   replace_phase_status s ph st = Inr (s\<lparr>ws_phase := ph, ws_status := st\<rparr>)"
  by (simp add: replace_phase_status_def make_workflow_state_def workflow_state_ok_def
      require_non_empty_def Let_def)

lemma workflow_state_ok_update [simp]:
  "workflow_state_ok (s\<lparr>ws_phase := ph, ws_status := st\<rparr>) = workflow_state_ok s"
  by (simp add: workflow_state_ok_def)

section \<open>The order of the phases\<close>

fun phase_rank :: "workflow_phase \<Rightarrow> nat" where
  "phase_rank CONTRACT = 0"
| "phase_rank INGESTION = 1"
| "phase_rank FORECASTING = 2"
| "phase_rank RISK_AND_BID = 3"
| "phase_rank SETTLEMENT = 4"

lemma phase_rank_inject: "phase_rank p = phase_rank q \<Longrightarrow> p = q"
  by (cases p; cases q) simp_all

instantiation workflow_phase :: linorder
begin

definition less_eq_workflow_phase :: "workflow_phase \<Rightarrow> workflow_phase \<Rightarrow> bool" where
  "less_eq_workflow_phase p q \<longleftrightarrow> phase_rank p \<le> phase_rank q"

definition less_workflow_phase :: "workflow_phase \<Rightarrow> workflow_phase \<Rightarrow> bool" where
  "less_workflow_phase p q \<longleftrightarrow> phase_rank p < phase_rank q"

instance
  by standard (auto simp: less_eq_workflow_phase_def less_workflow_phase_def phase_rank_inject)

end

lemma phase_less_eq_simps [simp]:
  "INGESTION \<le> FORECASTING" "FORECASTING \<le> RISK_AND_BID" "INGESTION < FORECASTING"
  "FORECASTING < RISK_AND_BID" "\<not> FORECASTING \<le> INGESTION" "\<not> RISK_AND_BID \<le> FORECASTING"
  by (simp_all add: less_eq_workflow_phase_def less_workflow_phase_def)

section \<open>Failure policy vocabulary (failure_policy.py)\<close>

datatype failure_action = RETRY | FALLBACK | FAIL

record failure_policy_context =
  fpc_phase :: workflow_phase
  fpc_error_code :: string
  fpc_attempt_number :: int
  fpc_agent_name :: "agent_name option"

definition require_attempt_number :: "int \<Rightarrow> int result" where
  "require_attempt_number n =
     (if n < 1 then Inl (ValueError ''attempt_number must be greater than 0'') else Inr n)"

definition make_failure_policy_context ::
    "workflow_phase \<Rightarrow> string \<Rightarrow> int \<Rightarrow> agent_name option \<Rightarrow> failure_policy_context result" where
  "make_failure_policy_context phase error_code attempt_number agent_name =
     attempt (require_non_empty ''error_code'' error_code) (\<lambda>code.
     attempt (require_attempt_number attempt_number) (\<lambda>n.
       Inr \<lparr>fpc_phase = phase, fpc_error_code = code, fpc_attempt_number = n,
            fpc_agent_name = agent_name\<rparr>))"

definition failure_policy_context_ok :: "failure_policy_context \<Rightarrow> bool" where
  "failure_policy_context_ok c \<longleftrightarrow>
     fpc_error_code c \<noteq> [] \<and> py_strip (fpc_error_code c) = fpc_error_code c \<and> 1 \<le> fpc_attempt_number c"

lemma make_failure_policy_context_ok:
  "make_failure_policy_context ph code n a = Inr c \<longleftrightarrow>
   py_strip code \<noteq> [] \<and> 1 \<le> n \<and>
   c = \<lparr>fpc_phase = ph, fpc_error_code = py_strip code, fpc_attempt_number = n, fpc_agent_name = a\<rparr>"
  by (auto simp: make_failure_policy_context_def require_attempt_number_def result_simps)

section \<open>Transitions\<close>

definition ingestion_invalid_success_transition_message :: string where
  "ingestion_invalid_success_transition_message =
     ''Parallel-ingestion success transition requires ingestion phase and running status.''"

definition ingestion_invalid_failure_transition_message :: string where
  "ingestion_invalid_failure_transition_message =
     ''Parallel-ingestion failure transition requires ingestion phase and running status.''"

definition forecasting_invalid_success_transition_message :: string where
  "forecasting_invalid_success_transition_message =
     ''Forecasting success transition requires forecasting phase and running status.''"

definition forecasting_invalid_failure_transition_message :: string where
  "forecasting_invalid_failure_transition_message =
     ''Forecasting failure transition requires forecasting phase and running status.''"

definition advance_after_parallel_ingestion :: "workflow_state \<Rightarrow> workflow_state result" where
  "advance_after_parallel_ingestion s =
     (if ws_phase s \<noteq> INGESTION \<or> ws_status s \<noteq> RUNNING
      then Inl (InvalidRequestError ingestion_invalid_success_transition_message)
      else replace_phase_status s FORECASTING RUNNING)"

definition fail_parallel_ingestion :: "workflow_state \<Rightarrow> workflow_state result" where
  "fail_parallel_ingestion s =
     (if ws_phase s \<noteq> INGESTION \<or> ws_status s \<noteq> RUNNING
      then Inl (InvalidRequestError ingestion_invalid_failure_transition_message)
      else replace_phase_status s INGESTION FAILED)"

definition advance_after_forecasting :: "workflow_state \<Rightarrow> workflow_state result" where
  "advance_after_forecasting s =
     (if ws_phase s \<noteq> FORECASTING \<or> ws_status s \<noteq> RUNNING
      then Inl (InvalidRequestError forecasting_invalid_success_transition_message)
      else replace_phase_status s RISK_AND_BID RUNNING)"

definition fail_after_forecasting :: "workflow_state \<Rightarrow> workflow_state result" where
  "fail_after_forecasting s =
     (if ws_phase s \<noteq> FORECASTING \<or> ws_status s \<noteq> RUNNING
      then Inl (InvalidRequestError forecasting_invalid_failure_transition_message)
      else replace_phase_status s FORECASTING FAILED)"

lemmas transition_defs = advance_after_parallel_ingestion_def fail_parallel_ingestion_def
  advance_after_forecasting_def fail_after_forecasting_def

lemma transition_ok:
  assumes "workflow_state_ok s"
  shows "advance_after_parallel_ingestion s = Inr t \<longleftrightarrow> ws_phase s = INGESTION \<and> ws_status s = RUNNING \<and>
      t = s\<lparr>ws_phase := FORECASTING, ws_status := RUNNING\<rparr>"
    and "fail_parallel_ingestion s = Inr t \<longleftrightarrow> ws_phase s = INGESTION \<and> ws_status s = RUNNING \<and>
      t = s\<lparr>ws_phase := INGESTION, ws_status := FAILED\<rparr>"
    and "advance_after_forecasting s = Inr t \<longleftrightarrow> ws_phase s = FORECASTING \<and> ws_status s = RUNNING \<and>
      t = s\<lparr>ws_phase := RISK_AND_BID, ws_status := RUNNING\<rparr>"
    and "fail_after_forecasting s = Inr t \<longleftrightarrow> ws_phase s = FORECASTING \<and> ws_status s = RUNNING \<and>
      t = s\<lparr>ws_phase := FORECASTING, ws_status := FAILED\<rparr>"
  using assms by (auto simp: transition_defs replace_phase_status_ok)

end
