(* ===== verification/Ingestion_Agents.thy ===== *)
theory Ingestion_Agents
  imports Forecast_Ports
begin

text \<open>
  The five ingestion agents and the two forecast agents (application/agents/*.py), the plan and the
  success of the ingestion phase (application/orchestration/parallel_ingestion.py) and of the
  forecasting phase (forecasting_plan.py, forecasting_success.py). An agent's \<open>run\<close> forwards its
  request to the record source, which is a port and therefore an argument. Python types are HOL
  types here, so the \<open>isinstance\<close> guards hold by construction.
\<close>

section \<open>Requests\<close>

text \<open>The two bounds of a horizon, in the order the constructors check them.\<close>

definition require_horizon :: "py_datetime \<Rightarrow> py_datetime \<Rightarrow> (utc \<times> utc) result" where
  "require_horizon horizon_start horizon_end =
     attempt (require_aware_utc ''horizon_start'' horizon_start) (\<lambda>first.
     attempt (require_aware_utc ''horizon_end'' horizon_end) (\<lambda>last'.
       if last' \<le> first then Inl (ValueError ''horizon_end must be later than horizon_start'')
       else Inr (first, last')))"

record weather_request =
  wq_location_id :: string
  wq_horizon_start :: utc
  wq_horizon_end :: utc

definition make_weather_request :: "string \<Rightarrow> py_datetime \<Rightarrow> py_datetime \<Rightarrow> weather_request result" where
  "make_weather_request location_id horizon_start horizon_end =
     attempt (require_non_empty ''location_id'' location_id) (\<lambda>i.
     attempt (require_horizon horizon_start horizon_end) (\<lambda>(a, b).
       Inr \<lparr>wq_location_id = i, wq_horizon_start = a, wq_horizon_end = b\<rparr>))"

record hydro_request =
  hq_resource_id :: string
  hq_horizon_start :: utc
  hq_horizon_end :: utc

definition make_hydro_request :: "string \<Rightarrow> py_datetime \<Rightarrow> py_datetime \<Rightarrow> hydro_request result" where
  "make_hydro_request resource_id horizon_start horizon_end =
     attempt (require_non_empty ''resource_id'' resource_id) (\<lambda>i.
     attempt (require_horizon horizon_start horizon_end) (\<lambda>(a, b).
       Inr \<lparr>hq_resource_id = i, hq_horizon_start = a, hq_horizon_end = b\<rparr>))"

record generation_request =
  gq_asset_id :: string
  gq_horizon_start :: utc
  gq_horizon_end :: utc

definition make_generation_request ::
    "string \<Rightarrow> py_datetime \<Rightarrow> py_datetime \<Rightarrow> generation_request result" where
  "make_generation_request asset_id horizon_start horizon_end =
     attempt (require_non_empty ''asset_id'' asset_id) (\<lambda>i.
     attempt (require_horizon horizon_start horizon_end) (\<lambda>(a, b).
       Inr \<lparr>gq_asset_id = i, gq_horizon_start = a, gq_horizon_end = b\<rparr>))"

record news_request =
  nq_horizon_start :: utc
  nq_horizon_end :: utc

definition make_news_request :: "py_datetime \<Rightarrow> py_datetime \<Rightarrow> news_request result" where
  "make_news_request horizon_start horizon_end =
     attempt (require_horizon horizon_start horizon_end) (\<lambda>(a, b).
       Inr \<lparr>nq_horizon_start = a, nq_horizon_end = b\<rparr>)"

record market_request =
  mq_market_id :: string
  mq_horizon_start :: utc
  mq_horizon_end :: utc

definition make_market_request :: "string \<Rightarrow> py_datetime \<Rightarrow> py_datetime \<Rightarrow> market_request result" where
  "make_market_request market_id horizon_start horizon_end =
     attempt (require_non_empty ''market_id'' market_id) (\<lambda>i.
     attempt (require_horizon horizon_start horizon_end) (\<lambda>(a, b).
       Inr \<lparr>mq_market_id = i, mq_horizon_start = a, mq_horizon_end = b\<rparr>))"

lemma require_horizon_Inr_iff [result_simps]:
  "require_horizon s e = Inr h \<longleftrightarrow>
   (\<exists>a b. require_aware_utc ''horizon_start'' s = Inr a \<and> require_aware_utc ''horizon_end'' e = Inr b \<and>
      a < b \<and> h = (a, b))"
  by (cases "require_aware_utc ''horizon_start'' s"; cases "require_aware_utc ''horizon_end'' e")
    (auto simp: require_horizon_def)

text \<open>The invariants of constructed requests: a stripped identity and a horizon that is not empty.\<close>

lemma make_weather_request_ok:
  "make_weather_request i s e = Inr q \<Longrightarrow>
   wq_location_id q = py_strip i \<and> py_strip i \<noteq> [] \<and> wq_horizon_start q < wq_horizon_end q"
  by (auto simp: make_weather_request_def result_simps)

lemma make_hydro_request_ok:
  "make_hydro_request i s e = Inr q \<Longrightarrow>
   hq_resource_id q = py_strip i \<and> py_strip i \<noteq> [] \<and> hq_horizon_start q < hq_horizon_end q"
  by (auto simp: make_hydro_request_def result_simps)

lemma make_generation_request_ok:
  "make_generation_request i s e = Inr q \<Longrightarrow>
   gq_asset_id q = py_strip i \<and> py_strip i \<noteq> [] \<and> gq_horizon_start q < gq_horizon_end q"
  by (auto simp: make_generation_request_def result_simps)

lemma make_news_request_ok:
  "make_news_request s e = Inr q \<Longrightarrow> nq_horizon_start q < nq_horizon_end q"
  by (auto simp: make_news_request_def result_simps)

lemma make_market_request_ok:
  "make_market_request i s e = Inr q \<Longrightarrow>
   mq_market_id q = py_strip i \<and> py_strip i \<noteq> [] \<and> mq_horizon_start q < mq_horizon_end q"
  by (auto simp: make_market_request_def result_simps)

section \<open>Results and runs\<close>

record weather_result = wres_records :: "weather_record list"
record hydro_result = hres_records :: "hydro_record list"
record generation_result = gres_records :: "generation_availability_record list"
record news_result = nres_records :: "news_event list"
record market_result = mres_records :: "market_price_record list"

type_synonym 'r source = "string \<Rightarrow> utc \<Rightarrow> utc \<Rightarrow> 'r list result"

definition run_weather_agent :: "weather_record source \<Rightarrow> weather_request \<Rightarrow> weather_result result" where
  "run_weather_agent fetch request =
     attempt (fetch (wq_location_id request) (wq_horizon_start request) (wq_horizon_end request))
       (\<lambda>records. Inr \<lparr>wres_records = records\<rparr>)"

definition run_hydro_agent :: "hydro_record source \<Rightarrow> hydro_request \<Rightarrow> hydro_result result" where
  "run_hydro_agent fetch request =
     attempt (fetch (hq_resource_id request) (hq_horizon_start request) (hq_horizon_end request))
       (\<lambda>records. Inr \<lparr>hres_records = records\<rparr>)"

definition run_generation_agent ::
    "generation_availability_record source \<Rightarrow> generation_request \<Rightarrow> generation_result result" where
  "run_generation_agent fetch request =
     attempt (fetch (gq_asset_id request) (gq_horizon_start request) (gq_horizon_end request))
       (\<lambda>records. Inr \<lparr>gres_records = records\<rparr>)"

definition run_news_agent :: "(utc \<Rightarrow> utc \<Rightarrow> news_event list result) \<Rightarrow> news_request \<Rightarrow> news_result result" where
  "run_news_agent fetch request =
     attempt (fetch (nq_horizon_start request) (nq_horizon_end request))
       (\<lambda>records. Inr \<lparr>nres_records = records\<rparr>)"

definition run_market_agent :: "market_price_record source \<Rightarrow> market_request \<Rightarrow> market_result result" where
  "run_market_agent fetch request =
     attempt (fetch (mq_market_id request) (mq_horizon_start request) (mq_horizon_end request))
       (\<lambda>records. Inr \<lparr>mres_records = records\<rparr>)"

text \<open>The two forecast agents forward to the model port.\<close>

definition run_consumer_load_agent ::
    "(consumer_load_request \<Rightarrow> load_forecast_point list result) \<Rightarrow> consumer_load_request \<Rightarrow>
     load_forecast_point list result" where
  "run_consumer_load_agent model request = model request"

definition run_dam_price_agent ::
    "(dam_price_request \<Rightarrow> price_forecast_point list result) \<Rightarrow> dam_price_request \<Rightarrow>
     price_forecast_point list result" where
  "run_dam_price_agent model request = model request"

section \<open>Plans and successes\<close>

record ingestion_plan =
  ip_weather :: weather_request
  ip_hydro :: hydro_request
  ip_generation :: generation_request
  ip_news :: news_request
  ip_market :: market_request

record ingestion_success =
  is_weather :: weather_result
  is_hydro :: hydro_result
  is_generation :: generation_result
  is_news :: news_result
  is_market :: market_result

record forecasting_plan =
  fp_consumer_load :: consumer_load_request
  fp_dam_price :: dam_price_request

record forecasting_success =
  fs_consumer_load :: "load_forecast_point list"
  fs_dam_price :: "price_forecast_point list"

section \<open>Equality of successes\<close>

text \<open>
  \<open>existing == success\<close> compares dataclasses, tuples and pydantic models field by field; numbers
  compare by value (0.0 and -0.0, 1.0 and 1.00 are equal), and a container takes an object for equal
  to itself.
\<close>

definition same_float :: "pyfloat \<Rightarrow> pyfloat \<Rightarrow> bool" where
  "same_float x y \<longleftrightarrow> x = y \<or> float_eq x y"

definition same_option :: "pyfloat option \<Rightarrow> pyfloat option \<Rightarrow> bool" where
  "same_option x y \<longleftrightarrow> rel_option same_float x y"

definition same_price :: "energy_price \<Rightarrow> energy_price \<Rightarrow> bool" where
  "same_price p q \<longleftrightarrow> p = q \<or> energy_price_eq p q"

definition same_weather :: "weather_record \<Rightarrow> weather_record \<Rightarrow> bool" where
  "same_weather a b \<longleftrightarrow>
     wr_location_id a = wr_location_id b \<and> wr_timestamp a = wr_timestamp b \<and>
     same_float (wr_temperature_c a) (wr_temperature_c b) \<and>
     same_option (wr_solar_irradiance_w_m2 a) (wr_solar_irradiance_w_m2 b) \<and>
     same_option (wr_precipitation_mm a) (wr_precipitation_mm b)"

definition same_hydro :: "hydro_record \<Rightarrow> hydro_record \<Rightarrow> bool" where
  "same_hydro a b \<longleftrightarrow>
     hr_resource_id a = hr_resource_id b \<and> hr_timestamp a = hr_timestamp b \<and>
     same_option (hr_reservoir_level_m a) (hr_reservoir_level_m b) \<and>
     same_option (hr_river_flow_m3_s a) (hr_river_flow_m3_s b) \<and>
     same_option (hr_available_generation_mw a) (hr_available_generation_mw b)"

definition same_generation ::
    "generation_availability_record \<Rightarrow> generation_availability_record \<Rightarrow> bool" where
  "same_generation a b \<longleftrightarrow>
     ga_asset_id a = ga_asset_id b \<and> ga_timestamp a = ga_timestamp b \<and> ga_status a = ga_status b \<and>
     same_float (ga_available_capacity_mw a) (ga_available_capacity_mw b) \<and>
     same_option (ga_total_capacity_mw a) (ga_total_capacity_mw b)"

definition same_market :: "market_price_record \<Rightarrow> market_price_record \<Rightarrow> bool" where
  "same_market a b \<longleftrightarrow>
     mpr_market_id a = mpr_market_id b \<and> mpr_timestamp a = mpr_timestamp b \<and>
     same_price (mpr_price a) (mpr_price b) \<and> same_option (mpr_volume_mwh a) (mpr_volume_mwh b)"

definition same_ingestion_success :: "ingestion_success \<Rightarrow> ingestion_success \<Rightarrow> bool" where
  "same_ingestion_success a b \<longleftrightarrow>
     list_all2 same_weather (wres_records (is_weather a)) (wres_records (is_weather b)) \<and>
     list_all2 same_hydro (hres_records (is_hydro a)) (hres_records (is_hydro b)) \<and>
     list_all2 same_generation (gres_records (is_generation a)) (gres_records (is_generation b)) \<and>
     nres_records (is_news a) = nres_records (is_news b) \<and>
     list_all2 same_market (mres_records (is_market a)) (mres_records (is_market b))"

definition same_load_point :: "load_forecast_point \<Rightarrow> load_forecast_point \<Rightarrow> bool" where
  "same_load_point a b \<longleftrightarrow>
     lfp_forecast_run_id a = lfp_forecast_run_id b \<and> lfp_consumer_id a = lfp_consumer_id b \<and>
     lfp_generated_at a = lfp_generated_at b \<and> lfp_target_timestamp a = lfp_target_timestamp b \<and>
     same_float (lfp_value_mw a) (lfp_value_mw b)"

definition same_price_point :: "price_forecast_point \<Rightarrow> price_forecast_point \<Rightarrow> bool" where
  "same_price_point a b \<longleftrightarrow>
     pfp_forecast_run_id a = pfp_forecast_run_id b \<and> pfp_market_id a = pfp_market_id b \<and>
     pfp_generated_at a = pfp_generated_at b \<and> pfp_target_timestamp a = pfp_target_timestamp b \<and>
     same_price (pfp_price a) (pfp_price b)"

definition same_forecasting_success :: "forecasting_success \<Rightarrow> forecasting_success \<Rightarrow> bool" where
  "same_forecasting_success a b \<longleftrightarrow>
     list_all2 same_load_point (fs_consumer_load a) (fs_consumer_load b) \<and>
     list_all2 same_price_point (fs_dam_price a) (fs_dam_price b)"

lemma same_refl [simp]:
  "same_float x x" "same_option z z" "same_price p p" "same_weather w w" "same_hydro h h"
  "same_generation g g" "same_market m m" "same_load_point l l" "same_price_point q q"
  by (simp_all add: same_float_def same_option_def same_price_def same_weather_def same_hydro_def
      same_generation_def same_market_def same_load_point_def same_price_point_def option.rel_refl)

lemma same_success_refl [simp]: "same_ingestion_success s s" "same_forecasting_success f f"
  by (simp_all add: same_ingestion_success_def same_forecasting_success_def list.rel_refl)

end
