(* ===== verification/Task_Group.thy ===== *)
theory Task_Group
  imports Prelude "HOL-Library.Multiset"
begin

text \<open>
  \<open>asyncio.TaskGroup\<close>, which both executors use, as a step relation: the tasks of a group run to
  their own outcome in any order; the first failure asks the remaining tasks to cancel, and a task
  still running then ends cancelled or, when its outcome comes first, with that outcome. The group
  ends when no task is running: with the results, or with an exception group of the failures in the
  order they happened. \<open>run_attributed\<close> is the wrapper of the executors, which names the agent
  of every \<open>Exception\<close> and keeps the original as its cause.
\<close>

section \<open>Exceptions and attribution\<close>

text \<open>\<open>isinstance(e, Exception)\<close>; an exception group is one when all its members are.\<close>

fun is_exception :: "exn \<Rightarrow> bool" where
  "is_exception CancelledError = False"
| "is_exception (OtherBaseException _) = False"
| "is_exception (ExceptionGroup es) = list_all is_exception es"
| "is_exception _ = True"

definition run_attributed :: "(agent_name \<Rightarrow> exn option \<Rightarrow> exn) \<Rightarrow> agent_name \<Rightarrow> 'a result \<Rightarrow> 'a result" where
  "run_attributed failure agent operation =
     (case operation of
        Inr v \<Rightarrow> Inr v
      | Inl e \<Rightarrow> if is_exception e then Inl (failure agent (Some e)) else Inl e)"

text \<open>The exceptions a task group re-raises by themselves.\<close>

definition is_base_error :: "exn \<Rightarrow> bool" where
  "is_base_error e \<longleftrightarrow> e = OtherBaseException ''SystemExit'' \<or> e = OtherBaseException ''KeyboardInterrupt''"

section \<open>The group\<close>

datatype 'v task = Running | Finished 'v | Raised exn | Cancelled

record 'v task_group =
  tg_tasks :: "'v task list"
  tg_errors :: "exn list"
  tg_aborting :: bool

definition start_group :: "'v result list \<Rightarrow> 'v task_group" where
  "start_group outcomes =
     \<lparr>tg_tasks = map (\<lambda>_. Running) outcomes, tg_errors = [], tg_aborting = False\<rparr>"

definition set_task :: "nat \<Rightarrow> 'v task \<Rightarrow> 'v task_group \<Rightarrow> 'v task_group" where
  "set_task i t g = g\<lparr>tg_tasks := (tg_tasks g)[i := t]\<rparr>"

definition task_running :: "'v task_group \<Rightarrow> nat \<Rightarrow> bool" where
  "task_running g i \<longleftrightarrow> i < length (tg_tasks g) \<and> tg_tasks g ! i = Running"

inductive group_step :: "'v result list \<Rightarrow> 'v task_group \<Rightarrow> 'v task_group \<Rightarrow> bool" for outcomes where
  finish: "task_running g i \<Longrightarrow> outcomes ! i = Inr v \<Longrightarrow> group_step outcomes g (set_task i (Finished v) g)"
| fail: "task_running g i \<Longrightarrow> outcomes ! i = Inl e \<Longrightarrow> e \<noteq> CancelledError \<Longrightarrow>
    group_step outcomes g
      (set_task i (Raised e) g\<lparr>tg_errors := tg_errors g @ [e], tg_aborting := True\<rparr>)"
| self_cancel: "task_running g i \<Longrightarrow> outcomes ! i = Inl CancelledError \<Longrightarrow>
    group_step outcomes g (set_task i Cancelled g)"
| cancel: "task_running g i \<Longrightarrow> tg_aborting g \<Longrightarrow> group_step outcomes g (set_task i Cancelled g)"

inductive_cases group_stepE: "group_step outcomes g g'"

definition group_reachable :: "'v result list \<Rightarrow> 'v task_group \<Rightarrow> bool" where
  "group_reachable outcomes g \<longleftrightarrow> (group_step outcomes)\<^sup>*\<^sup>* (start_group outcomes) g"

definition group_done :: "'v task_group \<Rightarrow> bool" where
  "group_done g \<longleftrightarrow> (\<forall>t \<in> set (tg_tasks g). t \<noteq> Running)"

text \<open>\<open>task.result()\<close> of a task that has ended.\<close>

fun task_result :: "'v task \<Rightarrow> 'v result" where
  "task_result (Finished v) = Inr v"
| "task_result (Raised e) = Inl e"
| "task_result Cancelled = Inl CancelledError"
| "task_result Running = Inl (OtherException ''InvalidStateError'')"

text \<open>Leaving the \<open>async with\<close> block, then reading the results in order.\<close>

definition group_result :: "'v task_group \<Rightarrow> 'v list result" where
  "group_result g =
     (case filter is_base_error (tg_errors g) of
        e # _ \<Rightarrow> Inl e
      | [] \<Rightarrow> if tg_errors g \<noteq> [] then Inl (ExceptionGroup (tg_errors g))
              else map_result task_result (tg_tasks g))"

text \<open>Everything a run of the group can end with.\<close>

definition group_outcome :: "'v result list \<Rightarrow> 'v list result \<Rightarrow> bool" where
  "group_outcome outcomes r \<longleftrightarrow> (\<exists>g. group_reachable outcomes g \<and> group_done g \<and> group_result g = r)"

section \<open>Invariant\<close>

text \<open>What a task has become agrees with its outcome; a failure is recorded once per failed task.\<close>

definition task_ok :: "bool \<Rightarrow> 'v result \<Rightarrow> 'v task \<Rightarrow> bool" where
  "task_ok aborting r t =
     (case t of
        Running \<Rightarrow> True
      | Finished v \<Rightarrow> r = Inr v
      | Raised e \<Rightarrow> r = Inl e \<and> e \<noteq> CancelledError
      | Cancelled \<Rightarrow> aborting \<or> r = Inl CancelledError)"

fun raised_error :: "'v task \<Rightarrow> exn list" where
  "raised_error (Raised e) = [e]"
| "raised_error _ = []"

definition raised_errors :: "'v task list \<Rightarrow> exn list" where
  "raised_errors ts = concat (map raised_error ts)"

fun outcome_failure :: "'v result \<Rightarrow> exn list" where
  "outcome_failure (Inl e) = [e]"
| "outcome_failure (Inr v) = []"

definition outcome_failures :: "'v result list \<Rightarrow> exn list" where
  "outcome_failures outcomes = concat (map outcome_failure outcomes)"

definition group_inv :: "'v result list \<Rightarrow> 'v task_group \<Rightarrow> bool" where
  "group_inv outcomes g \<longleftrightarrow>
     list_all2 (task_ok (tg_aborting g)) outcomes (tg_tasks g) \<and>
     mset (tg_errors g) = mset (raised_errors (tg_tasks g)) \<and>
     (tg_aborting g \<longleftrightarrow> tg_errors g \<noteq> [])"

lemma set_task_fields [simp]:
  "tg_tasks (set_task i t g) = (tg_tasks g)[i := t]" "tg_errors (set_task i t g) = tg_errors g"
  "tg_aborting (set_task i t g) = tg_aborting g"
  by (simp_all add: set_task_def)

lemma raised_errors_simps [simp]:
  "raised_errors [] = []" "raised_errors (t # ts) = raised_error t @ raised_errors ts"
  by (simp_all add: raised_errors_def)

lemma outcome_failures_simps [simp]:
  "outcome_failures [] = []" "outcome_failures (r # rs) = outcome_failure r @ outcome_failures rs"
  by (simp_all add: outcome_failures_def)

lemma raised_errors_update:
  "i < length ts \<Longrightarrow> ts ! i = Running \<Longrightarrow>
   mset (raised_errors (ts[i := t])) = mset (raised_errors ts) + mset (raised_error t)"
proof (induction ts arbitrary: i)
  case (Cons x xs)
  then show ?case by (cases i) simp_all
qed simp

lemma outcome_failures_iff: "e \<in> set (outcome_failures outcomes) \<longleftrightarrow> Inl e \<in> set outcomes"
proof (induction outcomes)
  case (Cons r rs)
  then show ?case by (cases r) auto
qed simp

lemma raised_subset_failures:
  "list_all2 (task_ok b) outcomes ts \<Longrightarrow> mset (raised_errors ts) \<subseteq># mset (outcome_failures outcomes)"
proof (induction rule: list_all2_induct)
  case (Cons r rs t ts)
  have "mset (raised_error t) \<subseteq># mset (outcome_failure r)"
    using Cons.hyps(1) by (cases t) (auto simp: task_ok_def)
  then show ?case using Cons.IH by (simp add: subset_mset.add_mono)
qed simp

lemma group_invD:
  assumes "group_inv outcomes g"
  shows "list_all2 (task_ok (tg_aborting g)) outcomes (tg_tasks g)"
    and "mset (tg_errors g) = mset (raised_errors (tg_tasks g))"
    and "tg_aborting g \<longleftrightarrow> tg_errors g \<noteq> []"
  using assms unfolding group_inv_def by blast+

lemma group_inv_length: "group_inv outcomes g \<Longrightarrow> length (tg_tasks g) = length outcomes"
  using group_invD(1) list_all2_lengthD by metis

lemma group_inv_task:
  assumes "group_inv outcomes g" "i < length outcomes"
  shows "task_ok (tg_errors g \<noteq> []) (outcomes ! i) (tg_tasks g ! i)"
proof -
  have "task_ok (tg_aborting g) (outcomes ! i) (tg_tasks g ! i)"
    using group_invD(1) [OF assms(1)] assms(2) by (rule list_all2_nthD)
  then show ?thesis using group_invD(3) [OF assms(1)] by simp
qed

lemma task_ok_mono: "task_ok a r t \<Longrightarrow> a \<longrightarrow> b \<Longrightarrow> task_ok b r t"
  by (auto simp: task_ok_def split: task.splits)

lemma group_inv_start: "group_inv outcomes (start_group outcomes)"
proof -
  have "list_all2 (task_ok b) outcomes (tg_tasks (start_group outcomes))" for b
    by (induction outcomes) (simp_all add: task_ok_def start_group_def)
  moreover have "raised_errors (tg_tasks (start_group outcomes)) = []"
    by (induction outcomes) (simp_all add: start_group_def)
  ultimately show ?thesis by (simp add: group_inv_def start_group_def)
qed

lemma group_inv_step:
  assumes inv: "group_inv outcomes g" and step: "group_step outcomes g g'"
  shows "group_inv outcomes g'"
proof -
  have ok: "list_all2 (task_ok (tg_aborting g)) outcomes (tg_tasks g)"
    using inv unfolding group_inv_def by blast
  have upd: "list_all2 (task_ok b) outcomes ((tg_tasks g)[i := t])"
    if "task_running g i" "tg_aborting g \<longrightarrow> b" "task_ok b (outcomes ! i) t" for b i t
  proof -
    have "list_all2 (task_ok b) outcomes (tg_tasks g)"
      using ok by (rule list_all2_mono) (use task_ok_mono that(2) in blast)
    then have "list_all2 (task_ok b) (outcomes[i := outcomes ! i]) ((tg_tasks g)[i := t])"
      using that(3) by (rule list_all2_update_cong)
    then show ?thesis by simp
  qed
  show ?thesis
    using step
  proof (rule group_stepE)
    fix i v
    assume "g' = set_task i (Finished v) g" "task_running g i" "outcomes ! i = Inr v"
    then show ?thesis using inv upd [of i "tg_aborting g" "Finished v"]
      by (auto simp: group_inv_def task_ok_def task_running_def raised_errors_update)
  next
    fix i e
    assume "g' = set_task i (Raised e) g\<lparr>tg_errors := tg_errors g @ [e], tg_aborting := True\<rparr>"
      "task_running g i" "outcomes ! i = Inl e" "e \<noteq> CancelledError"
    then show ?thesis using inv upd [of i True "Raised e"]
      by (auto simp: group_inv_def task_ok_def task_running_def raised_errors_update)
  next
    fix i
    assume "g' = set_task i Cancelled g" "task_running g i" "outcomes ! i = Inl CancelledError"
    then show ?thesis using inv upd [of i "tg_aborting g" Cancelled]
      by (auto simp: group_inv_def task_ok_def task_running_def raised_errors_update)
  next
    fix i
    assume "g' = set_task i Cancelled g" "task_running g i" "tg_aborting g"
    then show ?thesis using inv upd [of i "tg_aborting g" Cancelled]
      by (auto simp: group_inv_def task_ok_def task_running_def raised_errors_update)
  qed
qed

lemma group_reachable_inv: "group_reachable outcomes g \<Longrightarrow> group_inv outcomes g"
  unfolding group_reachable_def
  by (induction rule: rtranclp_induct) (auto intro: group_inv_start group_inv_step)

section \<open>Progress and termination\<close>

lemma group_progress:
  assumes "group_reachable outcomes g" "\<not> group_done g"
  shows "\<exists>g'. group_step outcomes g g'"
proof -
  obtain i where i: "task_running g i"
    using assms(2) by (auto simp: group_done_def task_running_def in_set_conv_nth)
  show ?thesis
  proof (cases "outcomes ! i")
    case (Inl e)
    then show ?thesis using group_step.fail [OF i Inl] group_step.self_cancel [OF i]
      by (cases "e = CancelledError") auto
  next
    case (Inr v)
    show ?thesis by (rule exI) (rule group_step.finish [OF i Inr])
  qed
qed

definition running_count :: "'v task_group \<Rightarrow> nat" where
  "running_count g = length (filter (\<lambda>t. t = Running) (tg_tasks g))"

lemma filter_update_length_Suc:
  "i < length xs \<Longrightarrow> P (xs ! i) \<Longrightarrow> \<not> P y \<Longrightarrow> length (filter P xs) = Suc (length (filter P (xs[i := y])))"
proof (induction xs arbitrary: i)
  case (Cons x xs)
  then show ?case by (cases i) auto
qed simp

lemma running_count_set_task:
  assumes "task_running g i" "t \<noteq> Running"
  shows "running_count (set_task i t g) < running_count g"
  using assms filter_update_length_Suc [of i "tg_tasks g" "\<lambda>t. t = Running" t]
  by (simp add: running_count_def task_running_def)

text \<open>Every step ends one running task: a group of \<open>n\<close> tasks takes at most \<open>n\<close> steps.\<close>

lemma group_step_decreases: "group_step outcomes g g' \<Longrightarrow> running_count g' < running_count g"
  using running_count_set_task by (elim group_stepE) (fastforce simp: running_count_def)+

lemma running_count_step: "group_step outcomes g g' \<Longrightarrow> running_count g = Suc (running_count g')"
  using filter_update_length_Suc [of _ "tg_tasks g" "\<lambda>t. t = Running"]
  by (elim group_stepE) (auto simp: running_count_def task_running_def)

lemma group_steps_counted:
  "(group_step outcomes ^^ n) (start_group outcomes) g \<Longrightarrow> n + running_count g = length outcomes"
proof (induction n arbitrary: g)
  case 0
  have "filter (\<lambda>t. t = Running) (map (\<lambda>_. Running) outcomes) = map (\<lambda>_. Running) outcomes"
    by (simp add: filter_id_conv)
  then show ?case using 0 by (auto simp: running_count_def start_group_def)
next
  case (Suc n)
  then obtain h where "(group_step outcomes ^^ n) (start_group outcomes) h" "group_step outcomes h g" by auto
  then show ?case using Suc.IH running_count_step by fastforce
qed

lemma group_done_count: "group_done g \<longleftrightarrow> running_count g = 0"
  by (auto simp: group_done_def running_count_def filter_empty_conv)

lemma group_terminates: "wfP (\<lambda>g' g. group_step outcomes g g')"
  by (rule wfp_if_convertible_to_nat [where f = running_count]) (rule group_step_decreases)

lemma group_completes:
  assumes "group_reachable outcomes g"
  shows "\<exists>g'. (group_step outcomes)\<^sup>*\<^sup>* g g' \<and> group_done g'"
  using assms
proof (induction "running_count g" arbitrary: g rule: less_induct)
  case less
  show ?case
  proof (cases "group_done g")
    case False
    then obtain h where h: "group_step outcomes g h" using group_progress less.prems by blast
    then have "group_reachable outcomes h"
      using less.prems by (auto simp: group_reachable_def intro: rtranclp.rtrancl_into_rtrancl)
    then obtain g' where "(group_step outcomes)\<^sup>*\<^sup>* h g'" "group_done g'"
      using less.hyps group_step_decreases [OF h] by blast
    then show ?thesis using h by (meson converse_rtranclp_into_rtranclp)
  qed auto
qed

section \<open>What a group ends with\<close>

lemma done_task_cases:
  assumes "group_reachable outcomes g" "group_done g" "i < length outcomes"
  shows "i < length (tg_tasks g)"
    and "(\<exists>v. tg_tasks g ! i = Finished v \<and> outcomes ! i = Inr v) \<or>
      (\<exists>e. tg_tasks g ! i = Raised e \<and> outcomes ! i = Inl e \<and> e \<noteq> CancelledError) \<or>
      (tg_tasks g ! i = Cancelled \<and> (tg_errors g \<noteq> [] \<or> outcomes ! i = Inl CancelledError))"
proof -
  have inv: "group_inv outcomes g" using group_reachable_inv [OF assms(1)] .
  then show len: "i < length (tg_tasks g)"
    using assms(3) by (simp add: group_inv_length)
  have "task_ok (tg_errors g \<noteq> []) (outcomes ! i) (tg_tasks g ! i)"
    using inv assms(3) by (rule group_inv_task)
  moreover have "tg_tasks g ! i \<noteq> Running" using assms(2) len by (auto simp: group_done_def)
  ultimately show "(\<exists>v. tg_tasks g ! i = Finished v \<and> outcomes ! i = Inr v) \<or>
      (\<exists>e. tg_tasks g ! i = Raised e \<and> outcomes ! i = Inl e \<and> e \<noteq> CancelledError) \<or>
      (tg_tasks g ! i = Cancelled \<and> (tg_errors g \<noteq> [] \<or> outcomes ! i = Inl CancelledError))"
    by (auto simp: task_ok_def split: task.splits)
qed

text \<open>Errors come from the outcomes, each at most once, and cancellations are not errors.\<close>

lemma group_errors_subset:
  "group_reachable outcomes g \<Longrightarrow> mset (tg_errors g) \<subseteq># mset (outcome_failures outcomes)"
  using group_reachable_inv group_invD(1,2) raised_subset_failures by metis

lemma group_error_not_cancelled:
  assumes "group_reachable outcomes g" "e \<in> set (tg_errors g)"
  shows "e \<noteq> CancelledError"
proof -
  have inv: "group_inv outcomes g" using group_reachable_inv [OF assms(1)] .
  have "e \<in> set (raised_errors (tg_tasks g))"
    using assms(2) group_invD(2) [OF inv] by (metis set_mset_mset)
  then obtain t where t: "t \<in> set (tg_tasks g)" "e \<in> set (raised_error t)"
    by (auto simp: raised_errors_def)
  have "e \<in> set (raised_error t) \<Longrightarrow> t = Raised e" by (cases t) simp_all
  then have "t = Raised e" using t(2) .
  then obtain i where i: "i < length (tg_tasks g)" "tg_tasks g ! i = Raised e"
    using t(1) by (metis in_set_conv_nth)
  then show ?thesis
    using group_inv_task [OF inv] group_inv_length [OF inv] by (force simp: task_ok_def)
qed

lemma group_errors_nonempty:
  assumes g: "group_reachable outcomes g" "group_done g" and e: "Inl e \<in> set outcomes" "e \<noteq> CancelledError"
  shows "tg_errors g \<noteq> []"
proof
  assume none: "tg_errors g = []"
  have inv: "group_inv outcomes g" using group_reachable_inv [OF g(1)] .
  obtain i where i: "i < length outcomes" "outcomes ! i = Inl e" using e(1) by (auto simp: in_set_conv_nth)
  have "tg_tasks g ! i = Raised e" using done_task_cases(2) [OF g i(1)] i(2) e(2) none by auto
  then have "Raised e \<in> set (tg_tasks g)" using done_task_cases(1) [OF g i(1)] nth_mem by metis
  then have "e \<in> set (raised_errors (tg_tasks g))" by (force simp: raised_errors_def)
  then show False using none group_invD(2) [OF inv] by simp
qed

section \<open>Outcomes of a group\<close>

lemma group_outcome_exists: "\<exists>r. group_outcome outcomes r"
proof -
  have "group_reachable outcomes (start_group outcomes)" by (simp add: group_reachable_def)
  then obtain g where "(group_step outcomes)\<^sup>*\<^sup>* (start_group outcomes) g" "group_done g"
    using group_completes by blast
  then show ?thesis unfolding group_outcome_def group_reachable_def by blast
qed

lemma group_all_values_only:
  assumes "group_outcome (map Inr vs) r"
  shows "r = Inr vs"
proof -
  obtain g where g: "group_reachable (map Inr vs) g" "group_done g" "group_result g = r"
    using assms by (auto simp: group_outcome_def)
  have "outcome_failures (map Inr vs) = []" by (induction vs) simp_all
  then have no_errors: "tg_errors g = []" using group_errors_subset [OF g(1)] by simp
  have len: "length (tg_tasks g) = length vs"
    using group_inv_length [OF group_reachable_inv [OF g(1)]] by simp
  have "tg_tasks g = map Finished vs"
  proof (rule nth_equalityI)
    fix i assume "i < length (tg_tasks g)"
    then show "tg_tasks g ! i = map Finished vs ! i"
      using done_task_cases(2) [OF g(1,2), of i] no_errors len by auto
  qed (simp add: len)
  then have "group_result g = map_result task_result (map Finished vs)"
    by (simp add: group_result_def no_errors)
  also have "\<dots> = Inr vs" by (induction vs) auto
  finally show ?thesis using g(3) by simp
qed

text \<open>Tasks that all return: whatever the interleaving, the group returns their values in order.\<close>

lemma group_all_values: "group_outcome (map Inr vs) r \<longleftrightarrow> r = Inr vs"
  using group_all_values_only group_outcome_exists by metis

text \<open>No outcome is a cancellation or an exception the group re-raises by itself.\<close>

definition ordinary_outcomes :: "'v result list \<Rightarrow> bool" where
  "ordinary_outcomes outcomes \<longleftrightarrow>
     (\<forall>e \<in> set (outcome_failures outcomes). e \<noteq> CancelledError \<and> \<not> is_base_error e)"

text \<open>
  A failure among ordinary outcomes: the group raises an exception group of some of the failures,
  at least one and each once.
\<close>

lemma group_failure_outcome:
  assumes ord: "ordinary_outcomes outcomes" and some: "outcome_failures outcomes \<noteq> []"
    and r: "group_outcome outcomes r"
  shows "\<exists>es. es \<noteq> [] \<and> mset es \<subseteq># mset (outcome_failures outcomes) \<and> r = Inl (ExceptionGroup es)"
proof -
  obtain g where g: "group_reachable outcomes g" "group_done g" "group_result g = r"
    using r by (auto simp: group_outcome_def)
  obtain e where e: "e \<in> set (outcome_failures outcomes)" using some by (cases "outcome_failures outcomes") auto
  have ne: "tg_errors g \<noteq> []"
    using group_errors_nonempty [OF g(1,2), of e] e ord
    by (auto simp: outcome_failures_iff ordinary_outcomes_def)
  have sub: "mset (tg_errors g) \<subseteq># mset (outcome_failures outcomes)" by (rule group_errors_subset [OF g(1)])
  then have "set (tg_errors g) \<subseteq> set (outcome_failures outcomes)" using set_mset_mono by fastforce
  then have "filter is_base_error (tg_errors g) = []"
    using ord by (auto simp: filter_empty_conv ordinary_outcomes_def)
  then show ?thesis using ne sub g(3) by (auto simp: group_result_def)
qed

text \<open>Only one failure: every interleaving raises that failure alone.\<close>

lemma group_single_failure:
  assumes ord: "ordinary_outcomes outcomes" and one: "outcome_failures outcomes = [e]"
  shows "group_outcome outcomes r \<longleftrightarrow> r = Inl (ExceptionGroup [e])"
proof -
  have "r = Inl (ExceptionGroup [e])" if r: "group_outcome outcomes r" for r
  proof -
    obtain es where es: "es \<noteq> []" "mset es \<subseteq># {#e#}" "r = Inl (ExceptionGroup es)"
      using group_failure_outcome [OF ord _ r] one by auto
    have "size (mset es) \<le> 1" using size_mset_mono [OF es(2)] by simp
    then have "es = [hd es]" using es(1) by (cases es) auto
    moreover have "hd es = e" using es(1,2) mset_subset_eqD [OF es(2)] by (metis hd_in_set set_mset_mset singletonD set_mset_single)
    ultimately show ?thesis using es(3) by metis
  qed
  then show ?thesis using group_outcome_exists by metis
qed

section \<open>Schedules\<close>

lemma group_cancel_all:
  assumes "tg_aborting g"
  shows "\<exists>h. (group_step outcomes)\<^sup>*\<^sup>* g h \<and> group_done h \<and> tg_errors h = tg_errors g"
  using assms
proof (induction "running_count g" arbitrary: g rule: less_induct)
  case less
  show ?case
  proof (cases "group_done g")
    case False
    then obtain i where i: "task_running g i"
      by (auto simp: group_done_def task_running_def in_set_conv_nth)
    have "group_step outcomes g (set_task i Cancelled g)"
      using i less.prems by (rule group_step.cancel)
    moreover have "running_count (set_task i Cancelled g) < running_count g"
      using i by (rule running_count_set_task) simp
    ultimately show ?thesis
      using less.hyps [of "set_task i Cancelled g"] less.prems
      by (auto intro: converse_rtranclp_into_rtranclp)
  qed auto
qed

text \<open>Any failing task may be the only one the group reports.\<close>

lemma group_reports_first:
  assumes e: "Inl e \<in> set outcomes" and ord: "ordinary_outcomes outcomes"
  shows "group_outcome outcomes (Inl (ExceptionGroup [e]))"
proof -
  obtain i where i: "i < length outcomes" "outcomes ! i = Inl e" using e by (auto simp: in_set_conv_nth)
  let ?s = "start_group outcomes"
  let ?g = "set_task i (Raised e) ?s\<lparr>tg_errors := [e], tg_aborting := True\<rparr>"
  have e': "e \<noteq> CancelledError" "\<not> is_base_error e"
    using ord e by (auto simp: ordinary_outcomes_def outcome_failures_iff)
  have "task_running ?s i" using i(1) by (simp add: task_running_def start_group_def)
  then have "group_step outcomes ?s ?g"
    using group_step.fail [of ?s i outcomes e] i(2) e'(1) by (simp add: start_group_def set_task_def)
  moreover obtain h where "(group_step outcomes)\<^sup>*\<^sup>* ?g h" "group_done h" "tg_errors h = [e]"
    using group_cancel_all [of ?g outcomes] by auto
  ultimately have "group_reachable outcomes h" "group_done h" "tg_errors h = [e]"
    by (auto simp: group_reachable_def intro: converse_rtranclp_into_rtranclp)
  moreover from this(3) have "group_result h = Inl (ExceptionGroup [e])"
    using e'(2) by (simp add: group_result_def)
  ultimately show ?thesis by (auto simp: group_outcome_def)
qed

lemma group_runs_all:
  assumes ord: "ordinary_outcomes outcomes" and "group_reachable outcomes g" "Cancelled \<notin> set (tg_tasks g)"
  shows "\<exists>h. group_reachable outcomes h \<and> group_done h \<and> Cancelled \<notin> set (tg_tasks h)"
  using assms(2,3)
proof (induction "running_count g" arbitrary: g rule: less_induct)
  case less
  show ?case
  proof (cases "group_done g")
    case False
    then obtain i where i: "task_running g i"
      by (auto simp: group_done_def task_running_def in_set_conv_nth)
    have "i < length outcomes"
      using i group_inv_length [OF group_reachable_inv [OF less.prems(1)]] by (simp add: task_running_def)
    then have out: "outcomes ! i \<in> set outcomes" by simp
    have "\<exists>h. group_step outcomes g h \<and> Cancelled \<notin> set (tg_tasks h)"
    proof (cases "outcomes ! i")
      case (Inl e)
      have "e \<noteq> CancelledError"
        using ord out Inl by (auto simp: ordinary_outcomes_def outcome_failures_iff)
      then show ?thesis using group_step.fail [OF i Inl] less.prems(2)
        set_update_subset_insert [of "tg_tasks g" i "Raised e"] by fastforce
    next
      case (Inr v)
      then show ?thesis using group_step.finish [OF i Inr] less.prems(2)
        set_update_subset_insert [of "tg_tasks g" i "Finished v"] by fastforce
    qed
    then obtain h where h: "group_step outcomes g h" "Cancelled \<notin> set (tg_tasks h)" by blast
    moreover have "group_reachable outcomes h"
      using less.prems(1) h(1) by (auto simp: group_reachable_def intro: rtranclp.rtrancl_into_rtrancl)
    ultimately show ?thesis using less.hyps group_step_decreases [OF h(1)] by blast
  qed (use less.prems in auto)
qed

lemma raised_errors_uncancelled:
  "list_all2 (task_ok b) outcomes ts \<Longrightarrow> Running \<notin> set ts \<Longrightarrow> Cancelled \<notin> set ts \<Longrightarrow>
   raised_errors ts = outcome_failures outcomes"
proof (induction rule: list_all2_induct)
  case (Cons r rs t ts)
  then show ?case by (cases t) (auto simp: task_ok_def)
qed simp

text \<open>Another schedule reports all the failures.\<close>

lemma group_reports_all:
  assumes ord: "ordinary_outcomes outcomes" and some: "outcome_failures outcomes \<noteq> []"
  shows "\<exists>es. mset es = mset (outcome_failures outcomes) \<and> group_outcome outcomes (Inl (ExceptionGroup es))"
proof -
  have "group_reachable outcomes (start_group outcomes)" "Cancelled \<notin> set (tg_tasks (start_group outcomes))"
    by (auto simp: group_reachable_def start_group_def)
  then obtain h where h: "group_reachable outcomes h" "group_done h" "Cancelled \<notin> set (tg_tasks h)"
    using group_runs_all [OF ord] by blast
  have inv: "group_inv outcomes h" by (rule group_reachable_inv [OF h(1)])
  have "Running \<notin> set (tg_tasks h)" using h(2) by (auto simp: group_done_def)
  then have all: "mset (tg_errors h) = mset (outcome_failures outcomes)"
    using raised_errors_uncancelled [OF group_invD(1) [OF inv]] h(3) group_invD(2) [OF inv] by simp
  then have "set (tg_errors h) = set (outcome_failures outcomes)" by (metis set_mset_mset)
  then have "filter is_base_error (tg_errors h) = []"
    using ord by (auto simp: filter_empty_conv ordinary_outcomes_def)
  moreover have "tg_errors h \<noteq> []" using all some by auto
  ultimately have "group_result h = Inl (ExceptionGroup (tg_errors h))" by (simp add: group_result_def)
  then show ?thesis using all h unfolding group_outcome_def by metis
qed

text \<open>A schedule that makes the chosen failures happen in the chosen order, then cancels the rest.\<close>

fun pending_failures :: "'v result list \<Rightarrow> 'v task list \<Rightarrow> exn list" where
  "pending_failures (r # rs) (t # ts) = (if t = Running then outcome_failure r else []) @ pending_failures rs ts"
| "pending_failures _ _ = []"

lemma pending_failures_found:
  "e \<in> set (pending_failures rs ts) \<Longrightarrow>
   \<exists>i < length ts. ts ! i = Running \<and> rs ! i = Inl e \<and>
     (\<forall>t. t \<noteq> Running \<longrightarrow> mset (pending_failures rs ts) = add_mset e (mset (pending_failures rs (ts[i := t]))))"
proof (induction rs ts rule: pending_failures.induct)
  case (1 r rs t ts)
  show ?case
  proof (cases "t = Running \<and> r = Inl e")
    case True
    then show ?thesis by (intro exI [of _ 0]) simp
  next
    case False
    then have "e \<in> set (pending_failures rs ts)" using 1 by (cases r) (auto split: if_splits)
    from "1.IH" [OF this] obtain i where i: "i < length ts" "ts ! i = Running" "rs ! i = Inl e"
      "\<forall>t. t \<noteq> Running \<longrightarrow> mset (pending_failures rs ts) = add_mset e (mset (pending_failures rs (ts[i := t])))"
      by blast
    then show ?thesis by (intro exI [of _ "Suc i"]) simp
  qed
qed simp_all

lemma pending_failures_start [simp]:
  "pending_failures outcomes (tg_tasks (start_group outcomes)) = outcome_failures outcomes"
  by (induction outcomes) (simp_all add: start_group_def)

lemma group_reports_chosen_from:
  assumes ord: "ordinary_outcomes outcomes" and "mset es \<subseteq># mset (pending_failures outcomes (tg_tasks g))"
    and "tg_aborting g \<longleftrightarrow> tg_errors g \<noteq> []" "set es \<subseteq> set (outcome_failures outcomes)"
  shows "\<exists>h. (group_step outcomes)\<^sup>*\<^sup>* g h \<and> tg_errors h = tg_errors g @ es \<and> (tg_aborting h \<longleftrightarrow> tg_errors h \<noteq> [])"
  using assms(2-)
proof (induction es arbitrary: g)
  case (Cons e es)
  have "e \<in> set (pending_failures outcomes (tg_tasks g))"
    using Cons.prems(1) by (metis insert_subset_eq_iff mset.simps(2) set_mset_mset)
  then obtain i where i: "task_running g i" "outcomes ! i = Inl e"
    and less: "mset (pending_failures outcomes (tg_tasks g)) =
      add_mset e (mset (pending_failures outcomes ((tg_tasks g)[i := Raised e])))"
    using pending_failures_found [of e outcomes "tg_tasks g"] by (auto simp: task_running_def)
  let ?h = "set_task i (Raised e) g\<lparr>tg_errors := tg_errors g @ [e], tg_aborting := True\<rparr>"
  have "e \<noteq> CancelledError" using ord Cons.prems(3) by (auto simp: ordinary_outcomes_def)
  then have step: "group_step outcomes g ?h" by (rule group_step.fail [OF i])
  have "mset es \<subseteq># mset (pending_failures outcomes (tg_tasks ?h))" using Cons.prems(1) less by simp
  then obtain h where "(group_step outcomes)\<^sup>*\<^sup>* ?h h" "tg_errors h = tg_errors ?h @ es" "tg_aborting h \<longleftrightarrow> tg_errors h \<noteq> []"
    using Cons.IH [of ?h] Cons.prems(3) by auto
  then show ?case using step by (intro exI [of _ h]) (auto intro: converse_rtranclp_into_rtranclp)
next
  case Nil
  then show ?case by (intro exI [of _ g]) simp
qed

lemma group_reports_chosen:
  assumes ord: "ordinary_outcomes outcomes" and es: "es \<noteq> []" "mset es \<subseteq># mset (outcome_failures outcomes)"
  shows "group_outcome outcomes (Inl (ExceptionGroup es))"
proof -
  have sub: "set es \<subseteq> set (outcome_failures outcomes)" using es(2) by (metis set_mset_mono set_mset_mset)
  obtain g where g: "(group_step outcomes)\<^sup>*\<^sup>* (start_group outcomes) g" "tg_errors g = es" "tg_aborting g"
  proof -
    have start: "tg_errors (start_group outcomes) = []" "\<not> tg_aborting (start_group outcomes)"
      by (simp_all add: start_group_def)
    show thesis
      using group_reports_chosen_from [OF ord, of es "start_group outcomes"] es sub start that by auto
  qed
  obtain h where h: "(group_step outcomes)\<^sup>*\<^sup>* g h" "group_done h" "tg_errors h = es"
    using group_cancel_all [OF g(3), of outcomes] g(2) by auto
  have "filter is_base_error es = []" using ord sub by (auto simp: filter_empty_conv ordinary_outcomes_def)
  then have "group_result h = Inl (ExceptionGroup es)" using h(3) es(1) by (simp add: group_result_def)
  moreover have "group_reachable outcomes h" using g(1) h(1) by (simp add: group_reachable_def)
  ultimately show ?thesis using h(2) unfolding group_outcome_def by blast
qed

text \<open>With ordinary failures, a group ends with any choice of at least one of them, in any order, and with nothing else.\<close>

lemma group_outcomes_exact:
  assumes "ordinary_outcomes outcomes" "outcome_failures outcomes \<noteq> []"
  shows "group_outcome outcomes r \<longleftrightarrow>
    (\<exists>es. es \<noteq> [] \<and> mset es \<subseteq># mset (outcome_failures outcomes) \<and> r = Inl (ExceptionGroup es))"
  using group_failure_outcome [OF assms] group_reports_chosen [OF assms(1)] by blast

end
