(* ===== verification/Executors.thy ===== *)
theory Executors
  imports Ingestion_Agents Task_Group
begin

text \<open>
  The two concurrent executors (application/orchestration/parallel_ingestion_executor.py and
  forecasting_executor.py): one attributed task per agent in a task group, and the success aggregate
  built from the results in a fixed order. What an execution can end with is a relation, because it
  depends on the interleaving of the tasks.
\<close>

section \<open>Ingestion\<close>

text \<open>The tasks of the group have results of different types: one constructor for each.\<close>

datatype ingestion_output =
    WeatherOutput weather_result
  | HydroOutput hydro_result
  | GenerationOutput generation_result
  | NewsOutput news_result
  | MarketOutput market_result

record ingestion_sources =
  src_weather :: "weather_record source"
  src_hydro :: "hydro_record source"
  src_generation :: "generation_availability_record source"
  src_news :: "utc \<Rightarrow> utc \<Rightarrow> news_event list result"
  src_market :: "market_price_record source"

definition output_as :: "('a \<Rightarrow> 'b) \<Rightarrow> 'a result \<Rightarrow> 'b result" where
  "output_as f r = attempt r (\<lambda>x. Inr (f x))"

definition ingestion_tasks :: "ingestion_sources \<Rightarrow> ingestion_plan \<Rightarrow> ingestion_output result list" where
  "ingestion_tasks s plan =
     [run_attributed ParallelIngestionAgentFailure WEATHER_AND_RENEWABLE_FORECAST
        (output_as WeatherOutput (run_weather_agent (src_weather s) (ip_weather plan))),
      run_attributed ParallelIngestionAgentFailure HYDRO_RESOURCES
        (output_as HydroOutput (run_hydro_agent (src_hydro s) (ip_hydro plan))),
      run_attributed ParallelIngestionAgentFailure GENERATION_AVAILABILITY
        (output_as GenerationOutput (run_generation_agent (src_generation s) (ip_generation plan))),
      run_attributed ParallelIngestionAgentFailure NEWS_INTELLIGENCE
        (output_as NewsOutput (run_news_agent (src_news s) (ip_news plan))),
      run_attributed ParallelIngestionAgentFailure MARKET_MONITORING
        (output_as MarketOutput (run_market_agent (src_market s) (ip_market plan)))]"

text \<open>Each slot holds its own task's result; another shape cannot come out of the group.\<close>

fun collect_ingestion :: "ingestion_output list \<Rightarrow> ingestion_success result" where
  "collect_ingestion [WeatherOutput w, HydroOutput h, GenerationOutput g, NewsOutput n, MarketOutput m] =
     Inr \<lparr>is_weather = w, is_hydro = h, is_generation = g, is_news = n, is_market = m\<rparr>"
| "collect_ingestion _ = Inl (TypeError ''ingestion results'')"

definition ingestion_executes ::
    "ingestion_sources \<Rightarrow> ingestion_plan \<Rightarrow> ingestion_success result \<Rightarrow> bool" where
  "ingestion_executes s plan r \<longleftrightarrow>
     (\<exists>x. group_outcome (ingestion_tasks s plan) x \<and> r = attempt x collect_ingestion)"

section \<open>Forecasting\<close>

datatype forecasting_output =
    LoadOutput "load_forecast_point list"
  | PriceOutput "price_forecast_point list"

record forecasting_models =
  fm_consumer_load :: "consumer_load_request \<Rightarrow> load_forecast_point list result"
  fm_dam_price :: "dam_price_request \<Rightarrow> price_forecast_point list result"

definition forecasting_tasks :: "forecasting_models \<Rightarrow> forecasting_plan \<Rightarrow> forecasting_output result list" where
  "forecasting_tasks models plan =
     [run_attributed ForecastingAgentFailure CONSUMER_LOAD_FORECAST
        (output_as LoadOutput (run_consumer_load_agent (fm_consumer_load models) (fp_consumer_load plan))),
      run_attributed ForecastingAgentFailure DAM_PRICE_FORECAST
        (output_as PriceOutput (run_dam_price_agent (fm_dam_price models) (fp_dam_price plan)))]"

fun collect_forecasting :: "forecasting_output list \<Rightarrow> forecasting_success result" where
  "collect_forecasting [LoadOutput l, PriceOutput p] = Inr \<lparr>fs_consumer_load = l, fs_dam_price = p\<rparr>"
| "collect_forecasting _ = Inl (TypeError ''forecasting results'')"

definition forecasting_executes ::
    "forecasting_models \<Rightarrow> forecasting_plan \<Rightarrow> forecasting_success result \<Rightarrow> bool" where
  "forecasting_executes models plan r \<longleftrightarrow>
     (\<exists>x. group_outcome (forecasting_tasks models plan) x \<and> r = attempt x collect_forecasting)"

section \<open>Attribution\<close>

lemma run_attributed_simps [simp]:
  "run_attributed failure agent (Inr v) = Inr v"
  "is_exception e \<Longrightarrow> run_attributed failure agent (Inl e) = Inl (failure agent (Some e))"
  by (simp_all add: run_attributed_def)

lemma output_as_simps [simp]: "output_as f (Inr x) = Inr (f x)" "output_as f (Inl e) = Inl e"
  by (simp_all add: output_as_def)

lemma output_as_Inl_iff [simp]: "output_as f r = Inl e \<longleftrightarrow> r = Inl e"
  by (cases r) simp_all

text \<open>A task whose failures are all ordinary exceptions never shows the group anything else.\<close>

definition fails_ordinarily :: "'a result \<Rightarrow> bool" where
  "fails_ordinarily r \<longleftrightarrow> (case r of Inl e \<Rightarrow> is_exception e | Inr _ \<Rightarrow> True)"

lemma attributed_failure:
  assumes "fails_ordinarily r"
  shows "outcome_failure (run_attributed failure agent (output_as f r)) =
    (case r of Inl e \<Rightarrow> [failure agent (Some e)] | Inr _ \<Rightarrow> [])"
  using assms by (cases r) (simp_all add: fails_ordinarily_def)

lemma attributed_not_base [simp]:
  "\<not> is_base_error (ParallelIngestionAgentFailure a c)" "\<not> is_base_error (ForecastingAgentFailure a c)"
  by (simp_all add: is_base_error_def)

lemma ordinary_from_attributed:
  assumes "\<And>e. e \<in> set (outcome_failures outcomes) \<Longrightarrow>
    \<exists>a c. e = ParallelIngestionAgentFailure a c \<or> e = ForecastingAgentFailure a c"
  shows "ordinary_outcomes outcomes"
  using assms by (fastforce simp: ordinary_outcomes_def)

text \<open>What each ingestion agent raises, in the order of the tasks.\<close>

definition ingestion_failures :: "ingestion_sources \<Rightarrow> ingestion_plan \<Rightarrow> exn list" where
  "ingestion_failures s plan = outcome_failures (ingestion_tasks s plan)"

definition forecasting_failures :: "forecasting_models \<Rightarrow> forecasting_plan \<Rightarrow> exn list" where
  "forecasting_failures models plan = outcome_failures (forecasting_tasks models plan)"

definition ingestion_ordinary :: "ingestion_sources \<Rightarrow> ingestion_plan \<Rightarrow> bool" where
  "ingestion_ordinary s plan \<longleftrightarrow>
     fails_ordinarily (run_weather_agent (src_weather s) (ip_weather plan)) \<and>
     fails_ordinarily (run_hydro_agent (src_hydro s) (ip_hydro plan)) \<and>
     fails_ordinarily (run_generation_agent (src_generation s) (ip_generation plan)) \<and>
     fails_ordinarily (run_news_agent (src_news s) (ip_news plan)) \<and>
     fails_ordinarily (run_market_agent (src_market s) (ip_market plan))"

definition forecasting_ordinary :: "forecasting_models \<Rightarrow> forecasting_plan \<Rightarrow> bool" where
  "forecasting_ordinary models plan \<longleftrightarrow>
     fails_ordinarily (fm_consumer_load models (fp_consumer_load plan)) \<and>
     fails_ordinarily (fm_dam_price models (fp_dam_price plan))"

lemma ingestion_failures_attributed:
  assumes "ingestion_ordinary s plan" "e \<in> set (ingestion_failures s plan)"
  shows "\<exists>a c. e = ParallelIngestionAgentFailure a (Some c)"
  using assms unfolding ingestion_ordinary_def ingestion_failures_def ingestion_tasks_def
  by (auto simp: attributed_failure split: sum.splits)

lemma forecasting_failures_attributed:
  assumes "forecasting_ordinary models plan" "e \<in> set (forecasting_failures models plan)"
  shows "\<exists>a c. e = ForecastingAgentFailure a (Some c)"
  using assms unfolding forecasting_ordinary_def forecasting_failures_def forecasting_tasks_def
    run_consumer_load_agent_def run_dam_price_agent_def
  by (auto simp: attributed_failure split: sum.splits)

lemma ingestion_tasks_ordinary: "ingestion_ordinary s plan \<Longrightarrow> ordinary_outcomes (ingestion_tasks s plan)"
  using ingestion_failures_attributed unfolding ingestion_failures_def
  by (intro ordinary_from_attributed) blast

lemma forecasting_tasks_ordinary:
  "forecasting_ordinary models plan \<Longrightarrow> ordinary_outcomes (forecasting_tasks models plan)"
  using forecasting_failures_attributed unfolding forecasting_failures_def
  by (intro ordinary_from_attributed) blast

section \<open>What an execution ends with\<close>

lemma ingestion_executes_something: "\<exists>r. ingestion_executes s plan r"
  using group_outcome_exists unfolding ingestion_executes_def by metis

lemma forecasting_executes_something: "\<exists>r. forecasting_executes models plan r"
  using group_outcome_exists unfolding forecasting_executes_def by metis

lemma ingestion_fails_with_group:
  assumes "ingestion_ordinary s plan" "ingestion_failures s plan \<noteq> []" "ingestion_executes s plan r"
  shows "\<exists>es. es \<noteq> [] \<and> mset es \<subseteq># mset (ingestion_failures s plan) \<and> r = Inl (ExceptionGroup es)"
  using group_failure_outcome [OF ingestion_tasks_ordinary [OF assms(1)]] assms(2,3)
  unfolding ingestion_failures_def ingestion_executes_def by fastforce

lemma forecasting_fails_with_group:
  assumes "forecasting_ordinary models plan" "forecasting_failures models plan \<noteq> []"
    and "forecasting_executes models plan r"
  shows "\<exists>es. es \<noteq> [] \<and> mset es \<subseteq># mset (forecasting_failures models plan) \<and> r = Inl (ExceptionGroup es)"
  using group_failure_outcome [OF forecasting_tasks_ordinary [OF assms(1)]] assms(2,3)
  unfolding forecasting_failures_def forecasting_executes_def by fastforce

lemma forecasting_executes_values:
  assumes "fm_consumer_load models (fp_consumer_load plan) = Inr l"
    and "fm_dam_price models (fp_dam_price plan) = Inr p"
  shows "forecasting_executes models plan r \<longleftrightarrow> r = Inr \<lparr>fs_consumer_load = l, fs_dam_price = p\<rparr>"
proof -
  have "forecasting_tasks models plan = map Inr [LoadOutput l, PriceOutput p]"
    using assms by (simp add: forecasting_tasks_def run_consumer_load_agent_def run_dam_price_agent_def)
  then show ?thesis by (simp add: forecasting_executes_def group_all_values del: list.map)
qed

lemma ingestion_executes_values:
  assumes "src_weather s (wq_location_id (ip_weather plan)) (wq_horizon_start (ip_weather plan))
      (wq_horizon_end (ip_weather plan)) = Inr w"
    and "src_hydro s (hq_resource_id (ip_hydro plan)) (hq_horizon_start (ip_hydro plan))
      (hq_horizon_end (ip_hydro plan)) = Inr h"
    and "src_generation s (gq_asset_id (ip_generation plan)) (gq_horizon_start (ip_generation plan))
      (gq_horizon_end (ip_generation plan)) = Inr g"
    and "src_news s (nq_horizon_start (ip_news plan)) (nq_horizon_end (ip_news plan)) = Inr n"
    and "src_market s (mq_market_id (ip_market plan)) (mq_horizon_start (ip_market plan))
      (mq_horizon_end (ip_market plan)) = Inr m"
  shows "ingestion_executes s plan r \<longleftrightarrow>
    r = Inr \<lparr>is_weather = \<lparr>wres_records = w\<rparr>, is_hydro = \<lparr>hres_records = h\<rparr>,
             is_generation = \<lparr>gres_records = g\<rparr>, is_news = \<lparr>nres_records = n\<rparr>,
             is_market = \<lparr>mres_records = m\<rparr>\<rparr>"
proof -
  have "ingestion_tasks s plan = map Inr [WeatherOutput \<lparr>wres_records = w\<rparr>, HydroOutput \<lparr>hres_records = h\<rparr>,
      GenerationOutput \<lparr>gres_records = g\<rparr>, NewsOutput \<lparr>nres_records = n\<rparr>, MarketOutput \<lparr>mres_records = m\<rparr>]"
    using assms by (simp add: ingestion_tasks_def run_weather_agent_def run_hydro_agent_def
        run_generation_agent_def run_news_agent_def run_market_agent_def)
  then show ?thesis by (simp add: ingestion_executes_def group_all_values del: list.map)
qed

text \<open>What one agent's answer adds to the failures of the phase.\<close>

definition attributed :: "agent_name \<Rightarrow> 'a result \<Rightarrow> exn list" where
  "attributed agent answer =
     (case answer of Inl e \<Rightarrow> [ParallelIngestionAgentFailure agent (Some e)] | Inr _ \<Rightarrow> [])"

lemma attributed_Nil [simp]: "attributed agent answer = [] \<longleftrightarrow> (\<exists>v. answer = Inr v)"
  by (cases answer) (simp_all add: attributed_def)

lemma fails_ordinarily_attempt [simp]: "fails_ordinarily (attempt r (\<lambda>x. Inr (f x))) \<longleftrightarrow> fails_ordinarily r"
  by (cases r) (simp_all add: fails_ordinarily_def)

lemma attributed_attempt [simp]: "attributed agent (attempt r (\<lambda>x. Inr (f x))) = attributed agent r"
  by (cases r) (simp_all add: attributed_def)

lemma attributed_task:
  "fails_ordinarily r \<Longrightarrow>
   outcome_failure (run_attributed ParallelIngestionAgentFailure agent (output_as f r)) = attributed agent r"
  by (simp add: attributed_failure attributed_def)

section \<open>Properties\<close>


text \<open>Sample data for the witnesses: one wind-still day, and a hydro source that is unavailable.\<close>

definition sample_weather_record :: weather_record where
  "sample_weather_record = \<lparr>wr_location_id = ''YVN'', wr_timestamp = 5, wr_temperature_c = Fl False 20 0,
     wr_solar_irradiance_w_m2 = None, wr_precipitation_mm = None\<rparr>"

definition sample_sources :: ingestion_sources where
  "sample_sources = \<lparr>src_weather = (\<lambda>_ _ _. Inr [sample_weather_record]), src_hydro = (\<lambda>_ _ _. Inr []),
     src_generation = (\<lambda>_ _ _. Inr []), src_news = (\<lambda>_ _. Inr []), src_market = (\<lambda>_ _ _. Inr [])\<rparr>"

definition failing_sources :: ingestion_sources where
  "failing_sources =
     sample_sources\<lparr>src_hydro := (\<lambda>_ _ _. Inl (DependencyUnavailableError ''hydro backend''))\<rparr>"

definition sample_plan :: ingestion_plan where
  "sample_plan = \<lparr>ip_weather = \<lparr>wq_location_id = ''YVN'', wq_horizon_start = 0, wq_horizon_end = 10\<rparr>,
     ip_hydro = \<lparr>hq_resource_id = ''SEVAN'', hq_horizon_start = 0, hq_horizon_end = 10\<rparr>,
     ip_generation = \<lparr>gq_asset_id = ''ANPP'', gq_horizon_start = 0, gq_horizon_end = 10\<rparr>,
     ip_news = \<lparr>nq_horizon_start = 0, nq_horizon_end = 10\<rparr>,
     ip_market = \<lparr>mq_market_id = ''AM'', mq_horizon_start = 0, mq_horizon_end = 10\<rparr>\<rparr>"

definition sample_success :: ingestion_success where
  "sample_success = \<lparr>is_weather = \<lparr>wres_records = [sample_weather_record]\<rparr>, is_hydro = \<lparr>hres_records = []\<rparr>,
     is_generation = \<lparr>gres_records = []\<rparr>, is_news = \<lparr>nres_records = []\<rparr>, is_market = \<lparr>mres_records = []\<rparr>\<rparr>"


text \<open>When one agent fails with an ordinary exception and the others answer, every
  interleaving ends with a group holding that agent's attributed failure, its cause kept, and
  nothing else.\<close>

theorem ingestion_single_failure_any_schedule:
  assumes "ingestion_ordinary s plan" "ingestion_failures s plan = [e]"
  shows "ingestion_executes s plan r \<longleftrightarrow> r = Inl (ExceptionGroup [e])"
  using group_single_failure [OF ingestion_tasks_ordinary [OF assms(1)]] assms(2)
  unfolding ingestion_failures_def ingestion_executes_def by auto

lemma failing_sources_failures:
  "ingestion_ordinary failing_sources plan"
  "ingestion_failures failing_sources plan =
     [ParallelIngestionAgentFailure HYDRO_RESOURCES (Some (DependencyUnavailableError ''hydro backend''))]"
  by (simp_all add: ingestion_ordinary_def fails_ordinarily_def ingestion_failures_def ingestion_tasks_def
      failing_sources_def sample_sources_def run_weather_agent_def run_hydro_agent_def
      run_generation_agent_def run_news_agent_def run_market_agent_def)

theorem ingestion_single_failure_any_schedule_witness:
  "ingestion_executes failing_sources sample_plan (Inl (ExceptionGroup
     [ParallelIngestionAgentFailure HYDRO_RESOURCES (Some (DependencyUnavailableError ''hydro backend''))]))"
  using ingestion_single_failure_any_schedule [OF failing_sources_failures] by simp

text \<open>C7: INGESTION-OUTCOMES. Let the five sources answer, each with records or an ordinary exception. An
  execution ends when the five agents have ended, and not before; when all sources answer with records it
  ends with those; otherwise it can end with a group of any of the failures, at least one, in any order,
  and with nothing else, and every failure in the group names the agent that was asked and keeps what
  its own source raised.\<close>

theorem ingestion_outcomes_exact:
  assumes "src_weather s (wq_location_id (ip_weather plan)) (wq_horizon_start (ip_weather plan))
      (wq_horizon_end (ip_weather plan)) = w" "fails_ordinarily w"
    and "src_hydro s (hq_resource_id (ip_hydro plan)) (hq_horizon_start (ip_hydro plan))
      (hq_horizon_end (ip_hydro plan)) = h" "fails_ordinarily h"
    and "src_generation s (gq_asset_id (ip_generation plan)) (gq_horizon_start (ip_generation plan))
      (gq_horizon_end (ip_generation plan)) = g" "fails_ordinarily g"
    and "src_news s (nq_horizon_start (ip_news plan)) (nq_horizon_end (ip_news plan)) = n" "fails_ordinarily n"
    and "src_market s (mq_market_id (ip_market plan)) (mq_horizon_start (ip_market plan))
      (mq_horizon_end (ip_market plan)) = m" "fails_ordinarily m"
    and "failures = attributed WEATHER_AND_RENEWABLE_FORECAST w @ attributed HYDRO_RESOURCES h @
      attributed GENERATION_AVAILABILITY g @ attributed NEWS_INTELLIGENCE n @ attributed MARKET_MONITORING m"
  shows "(ingestion_executes s plan r \<longleftrightarrow>
      (if failures = []
       then r = Inr \<lparr>is_weather = \<lparr>wres_records = projr w\<rparr>, is_hydro = \<lparr>hres_records = projr h\<rparr>,
              is_generation = \<lparr>gres_records = projr g\<rparr>, is_news = \<lparr>nres_records = projr n\<rparr>,
              is_market = \<lparr>mres_records = projr m\<rparr>\<rparr>
       else \<exists>es. es \<noteq> [] \<and> mset es \<subseteq># mset failures \<and> r = Inl (ExceptionGroup es))) \<and>
    ((group_step (ingestion_tasks s plan) ^^ k) (start_group (ingestion_tasks s plan)) t \<longrightarrow>
      k \<le> 5 \<and> (group_done t \<longleftrightarrow> k = 5))"
proof
  have failures: "ingestion_failures s plan = failures"
    using assms by (simp add: ingestion_failures_def ingestion_tasks_def attributed_task
        run_weather_agent_def run_hydro_agent_def run_generation_agent_def run_news_agent_def run_market_agent_def)
  have ordinary: "ingestion_ordinary s plan"
    using assms by (simp add: ingestion_ordinary_def run_weather_agent_def run_hydro_agent_def
        run_generation_agent_def run_news_agent_def run_market_agent_def)
  show "ingestion_executes s plan r \<longleftrightarrow>
      (if failures = []
       then r = Inr \<lparr>is_weather = \<lparr>wres_records = projr w\<rparr>, is_hydro = \<lparr>hres_records = projr h\<rparr>,
              is_generation = \<lparr>gres_records = projr g\<rparr>, is_news = \<lparr>nres_records = projr n\<rparr>,
              is_market = \<lparr>mres_records = projr m\<rparr>\<rparr>
       else \<exists>es. es \<noteq> [] \<and> mset es \<subseteq># mset failures \<and> r = Inl (ExceptionGroup es))"
  proof (cases "failures = []")
    case True
    then show ?thesis using assms ingestion_executes_values by auto
  next
    case False
    then show ?thesis
      using group_outcomes_exact [OF ingestion_tasks_ordinary [OF ordinary]] failures
      by (auto simp: ingestion_failures_def ingestion_executes_def)
  qed
  show "(group_step (ingestion_tasks s plan) ^^ k) (start_group (ingestion_tasks s plan)) t \<longrightarrow>
      k \<le> 5 \<and> (group_done t \<longleftrightarrow> k = 5)"
    using group_steps_counted [of k "ingestion_tasks s plan" t] by (auto simp: group_done_count ingestion_tasks_def)
qed

text \<open>Two sources that fail: the market's failure alone, and both in either order.\<close>

definition twice_failing_sources :: ingestion_sources where
  "twice_failing_sources = failing_sources\<lparr>src_market := (\<lambda>_ _ _. Inl (ValueError ''market''))\<rparr>"

theorem ingestion_outcomes_exact_witness:
  "ingestion_executes twice_failing_sources sample_plan (Inl (ExceptionGroup
     [ParallelIngestionAgentFailure MARKET_MONITORING (Some (ValueError ''market''))])) \<and>
   ingestion_executes twice_failing_sources sample_plan (Inl (ExceptionGroup
     [ParallelIngestionAgentFailure MARKET_MONITORING (Some (ValueError ''market'')),
      ParallelIngestionAgentFailure HYDRO_RESOURCES (Some (DependencyUnavailableError ''hydro backend''))])) \<and>
   \<not> ingestion_executes twice_failing_sources sample_plan (Inr sample_success)"
  using ingestion_outcomes_exact [of twice_failing_sources sample_plan, OF refl _ refl _ refl _ refl _ refl _ refl]
  by (simp add: twice_failing_sources_def failing_sources_def sample_sources_def fails_ordinarily_def attributed_def
      add_mset_commute)

text \<open>When both forecast agents fail, what the executor raises depends on the
  schedule: the group may hold either failure alone or both.\<close>

theorem forecasting_failures_race:
  assumes "fm_consumer_load models (fp_consumer_load plan) = Inl a" "is_exception a"
    and "fm_dam_price models (fp_dam_price plan) = Inl b" "is_exception b"
  shows "forecasting_executes models plan
      (Inl (ExceptionGroup [ForecastingAgentFailure CONSUMER_LOAD_FORECAST (Some a)])) \<and>
    forecasting_executes models plan
      (Inl (ExceptionGroup [ForecastingAgentFailure DAM_PRICE_FORECAST (Some b)])) \<and>
    (\<exists>es. mset es = {#ForecastingAgentFailure CONSUMER_LOAD_FORECAST (Some a),
                   ForecastingAgentFailure DAM_PRICE_FORECAST (Some b)#} \<and>
       forecasting_executes models plan (Inl (ExceptionGroup es)))"
proof -
  have tasks: "forecasting_tasks models plan = [Inl (ForecastingAgentFailure CONSUMER_LOAD_FORECAST (Some a)),
      Inl (ForecastingAgentFailure DAM_PRICE_FORECAST (Some b))]"
    using assms by (simp add: forecasting_tasks_def run_consumer_load_agent_def run_dam_price_agent_def)
  have ord: "ordinary_outcomes (forecasting_tasks models plan)"
    by (rule forecasting_tasks_ordinary) (use assms in \<open>simp add: forecasting_ordinary_def fails_ordinarily_def\<close>)
  have run: "forecasting_executes models plan (Inl e)" if "group_outcome (forecasting_tasks models plan) (Inl e)" for e
    using that unfolding forecasting_executes_def by fastforce
  show ?thesis
    using run [OF group_reports_first [OF _ ord]] group_reports_all [OF ord] run
    by (auto simp: tasks)
qed

definition failing_models :: forecasting_models where
  "failing_models = \<lparr>fm_consumer_load = (\<lambda>_. Inl (ValueError ''load'')),
     fm_dam_price = (\<lambda>_. Inl (InvalidRequestError ''price''))\<rparr>"

definition sample_forecasting_plan :: forecasting_plan where
  "sample_forecasting_plan =
     \<lparr>fp_consumer_load = \<lparr>clr_forecast_run_id = ''run'', clr_generated_at = 5, clr_consumer_id = ''C'',
        clr_history = [], clr_target_timestamps = [10]\<rparr>,
      fp_dam_price = \<lparr>dpr_forecast_run_id = ''run'', dpr_generated_at = 5, dpr_market_id = ''AM'',
        dpr_currency = ''AMD'', dpr_history = [], dpr_target_timestamps = [10]\<rparr>\<rparr>"

theorem forecasting_failures_race_witness:
  "(\<exists>e. forecasting_executes failing_models sample_forecasting_plan (Inl (ExceptionGroup [e]))) \<and>
   (\<exists>es. size (mset es) = 2 \<and>
      forecasting_executes failing_models sample_forecasting_plan (Inl (ExceptionGroup es)))"
proof -
  have "fm_consumer_load failing_models (fp_consumer_load sample_forecasting_plan) = Inl (ValueError ''load'')"
    "fm_dam_price failing_models (fp_dam_price sample_forecasting_plan) = Inl (InvalidRequestError ''price'')"
    by (simp_all add: failing_models_def)
  note race = forecasting_failures_race [OF this(1) _ this(2)]
  obtain es where "mset es = {#ForecastingAgentFailure CONSUMER_LOAD_FORECAST (Some (ValueError ''load'')),
      ForecastingAgentFailure DAM_PRICE_FORECAST (Some (InvalidRequestError ''price''))#}"
    "forecasting_executes failing_models sample_forecasting_plan (Inl (ExceptionGroup es))"
    using race by auto
  moreover from this(1) have "size (mset es) = 2" by (simp only: size_add_mset size_empty)
  moreover have "\<exists>e. forecasting_executes failing_models sample_forecasting_plan (Inl (ExceptionGroup [e]))"
    using race by auto
  ultimately show ?thesis by blast
qed

end
