(* ===== verification/Failure_Handling.thy ===== *)
theory Failure_Handling
  imports Workflow_State Executors
begin

text \<open>
  What happens to the exception group of a failed phase: extraction of the attributed failures,
  classification into facts, selection of one fact, attempt number, policy context, decision, action
  and transition (application/orchestration/parallel\_ingestion\_*.py and forecasting\_*.py). The two
  phases have twin modules that differ in the failure class, the messages and the transition; a
  \<open>failure_family\<close> holds those, and every operation is stated once and named for both phases.
  The selection, attempt-number and policy ports are arguments, with the contract of a locale.
\<close>

section \<open>Families\<close>

text \<open>A failure as the modules pass it on: the agent and the cause of its failure.\<close>

type_synonym agent_failure = "agent_name \<times> exn option"

record failure_family =
  ff_attributed :: "exn \<Rightarrow> agent_failure option"
  ff_unattributed_message :: string
  ff_unexpected_code :: string
  ff_exactly_one_message :: string
  ff_retry_message :: string
  ff_fallback_message :: string
  ff_fail :: "workflow_state \<Rightarrow> workflow_state result"

fun parallel_ingestion_attributed :: "exn \<Rightarrow> agent_failure option" where
  "parallel_ingestion_attributed (ParallelIngestionAgentFailure a c) = Some (a, c)"
| "parallel_ingestion_attributed _ = None"

fun forecasting_attributed :: "exn \<Rightarrow> agent_failure option" where
  "forecasting_attributed (ForecastingAgentFailure a c) = Some (a, c)"
| "forecasting_attributed _ = None"

definition parallel_ingestion_family :: failure_family where
  "parallel_ingestion_family =
     \<lparr>ff_attributed = parallel_ingestion_attributed,
      ff_unattributed_message = ''Parallel-ingestion failure group contains an unattributed failure.'',
      ff_unexpected_code = ''parallel_ingestion_unexpected_failure'',
      ff_exactly_one_message = ''Parallel-ingestion failure selection requires exactly one failure fact.'',
      ff_retry_message = ''Parallel-ingestion retry action is not implemented.'',
      ff_fallback_message = ''Parallel-ingestion fallback action is not implemented.'',
      ff_fail = fail_parallel_ingestion\<rparr>"

definition forecasting_family :: failure_family where
  "forecasting_family =
     \<lparr>ff_attributed = forecasting_attributed,
      ff_unattributed_message = ''Forecasting failure group contains an unattributed failure.'',
      ff_unexpected_code = ''forecasting_unexpected_failure'',
      ff_exactly_one_message = ''Forecasting failure selection requires exactly one failure fact.'',
      ff_retry_message = ''Forecasting retry action is not implemented.'',
      ff_fallback_message = ''Forecasting fallback action is not implemented.'',
      ff_fail = fail_after_forecasting\<rparr>"

section \<open>Extraction (*_exception_group.py)\<close>

text \<open>
  The members in order: a nested group is flattened in place, an attributed failure is kept, anything
  else stops the extraction.
\<close>

fun extract_agent_failures :: "failure_family \<Rightarrow> exn list \<Rightarrow> agent_failure list result" where
  "extract_agent_failures F [] = Inr []"
| "extract_agent_failures F (ExceptionGroup es # items) =
     attempt (extract_agent_failures F es) (\<lambda>xs.
     attempt (extract_agent_failures F items) (\<lambda>ys. Inr (xs @ ys)))"
| "extract_agent_failures F (e # items) =
     (case ff_attributed F e of
        Some f \<Rightarrow> attempt (extract_agent_failures F items) (\<lambda>ys. Inr (f # ys))
      | None \<Rightarrow> Inl (InvalidRequestError (ff_unattributed_message F)))"

definition extract_parallel_ingestion_agent_failures :: "exn list \<Rightarrow> agent_failure list result" where
  "extract_parallel_ingestion_agent_failures = extract_agent_failures parallel_ingestion_family"

definition extract_forecasting_agent_failures :: "exn list \<Rightarrow> agent_failure list result" where
  "extract_forecasting_agent_failures = extract_agent_failures forecasting_family"

section \<open>Classification (*_failure_fact.py, *_failure_classification.py)\<close>

record failure_fact =
  fact_agent_name :: agent_name
  fact_error_code :: string

definition make_failure_fact :: "agent_name \<Rightarrow> string \<Rightarrow> failure_fact result" where
  "make_failure_fact agent code =
     attempt (require_non_empty ''error_code'' code) (\<lambda>c.
       Inr \<lparr>fact_agent_name = agent, fact_error_code = c\<rparr>)"

definition classify_agent_failure :: "failure_family \<Rightarrow> agent_failure \<Rightarrow> failure_fact result" where
  "classify_agent_failure F failure =
     make_failure_fact (fst failure)
       (case snd failure of
          Some (ApplicationError cls m) \<Rightarrow> application_error_code cls
        | _ \<Rightarrow> ff_unexpected_code F)"

definition classify_agent_failures :: "failure_family \<Rightarrow> agent_failure list \<Rightarrow> failure_fact list result" where
  "classify_agent_failures F = map_result (classify_agent_failure F)"

definition classify_parallel_ingestion_agent_failure :: "agent_failure \<Rightarrow> failure_fact result" where
  "classify_parallel_ingestion_agent_failure = classify_agent_failure parallel_ingestion_family"

definition classify_forecasting_agent_failure :: "agent_failure \<Rightarrow> failure_fact result" where
  "classify_forecasting_agent_failure = classify_agent_failure forecasting_family"

definition classify_parallel_ingestion_agent_failures :: "agent_failure list \<Rightarrow> failure_fact list result" where
  "classify_parallel_ingestion_agent_failures = classify_agent_failures parallel_ingestion_family"

definition classify_forecasting_agent_failures :: "agent_failure list \<Rightarrow> failure_fact list result" where
  "classify_forecasting_agent_failures = classify_agent_failures forecasting_family"

section \<open>Ports and their initial implementations\<close>

type_synonym failure_selector = "failure_fact list \<Rightarrow> failure_fact result"
type_synonym attempt_source = "string \<Rightarrow> int result"
type_synonym failure_decider = "failure_policy_context \<Rightarrow> failure_action result"

definition select_single_failure :: "failure_family \<Rightarrow> failure_selector" where
  "select_single_failure F facts =
     (if length facts \<noteq> 1 then Inl (InvalidRequestError (ff_exactly_one_message F))
      else Inr (facts ! 0))"

definition strict_single_parallel_ingestion_selector :: failure_selector where
  "strict_single_parallel_ingestion_selector = select_single_failure parallel_ingestion_family"

definition strict_single_forecasting_selector :: failure_selector where
  "strict_single_forecasting_selector = select_single_failure forecasting_family"

definition initial_parallel_ingestion_attempt_number :: attempt_source where
  "initial_parallel_ingestion_attempt_number workflow_id = Inr 1"

definition initial_forecasting_attempt_number :: attempt_source where
  "initial_forecasting_attempt_number workflow_id = Inr 1"

definition initial_parallel_ingestion_policy :: failure_decider where
  "initial_parallel_ingestion_policy context = Inr FAIL"

definition initial_forecasting_policy :: failure_decider where
  "initial_forecasting_policy context = Inr FAIL"

section \<open>Context resolution and preparation\<close>

definition build_failure_policy_context ::
    "workflow_phase \<Rightarrow> string \<Rightarrow> int \<Rightarrow> agent_name option \<Rightarrow> failure_policy_context result" where
  "build_failure_policy_context = make_failure_policy_context"

definition resolve_failure_context ::
    "failure_selector \<Rightarrow> attempt_source \<Rightarrow> string \<Rightarrow> workflow_phase \<Rightarrow> failure_fact list \<Rightarrow>
     failure_policy_context result" where
  "resolve_failure_context select attempt_number workflow_id phase facts =
     attempt (select facts) (\<lambda>selected.
     attempt (attempt_number workflow_id) (\<lambda>n.
       build_failure_policy_context phase (fact_error_code selected) n (Some (fact_agent_name selected))))"

definition prepare_failure_context ::
    "failure_family \<Rightarrow> failure_selector \<Rightarrow> attempt_source \<Rightarrow> string \<Rightarrow> workflow_phase \<Rightarrow> exn list \<Rightarrow>
     failure_policy_context result" where
  "prepare_failure_context F select attempt_number workflow_id phase es =
     attempt (extract_agent_failures F es) (\<lambda>failures.
     attempt (classify_agent_failures F failures) (\<lambda>facts.
       resolve_failure_context select attempt_number workflow_id phase facts))"

definition build_forecasting_failure_policy_context ::
    "workflow_phase \<Rightarrow> string \<Rightarrow> int \<Rightarrow> agent_name option \<Rightarrow> failure_policy_context result" where
  "build_forecasting_failure_policy_context = make_failure_policy_context"

definition resolve_forecasting_failure_context ::
    "failure_selector \<Rightarrow> attempt_source \<Rightarrow> string \<Rightarrow> workflow_phase \<Rightarrow> failure_fact list \<Rightarrow>
     failure_policy_context result" where
  "resolve_forecasting_failure_context select attempt_number workflow_id phase facts =
     attempt (select facts) (\<lambda>selected.
     attempt (attempt_number workflow_id) (\<lambda>n.
       build_forecasting_failure_policy_context phase (fact_error_code selected) n
         (Some (fact_agent_name selected))))"

definition prepare_forecasting_failure_context ::
    "failure_selector \<Rightarrow> attempt_source \<Rightarrow> string \<Rightarrow> workflow_phase \<Rightarrow> exn list \<Rightarrow>
     failure_policy_context result" where
  "prepare_forecasting_failure_context select attempt_number workflow_id phase es =
     attempt (extract_forecasting_agent_failures es) (\<lambda>failures.
     attempt (classify_forecasting_agent_failures failures) (\<lambda>facts.
       resolve_forecasting_failure_context select attempt_number workflow_id phase facts))"

section \<open>Decision, action, handling\<close>

definition execute_failure_action ::
    "failure_family \<Rightarrow> workflow_state \<Rightarrow> failure_action \<Rightarrow> workflow_state result" where
  "execute_failure_action F s action =
     (case action of
        FAIL \<Rightarrow> ff_fail F s
      | RETRY \<Rightarrow> Inl (InvalidRequestError (ff_retry_message F))
      | FALLBACK \<Rightarrow> Inl (InvalidRequestError (ff_fallback_message F)))"

definition decide_failure :: "failure_decider \<Rightarrow> failure_policy_context \<Rightarrow> failure_action result" where
  "decide_failure policy context = policy context"

definition handle_failure ::
    "failure_family \<Rightarrow> failure_decider \<Rightarrow> workflow_state \<Rightarrow> failure_policy_context \<Rightarrow>
     workflow_state result" where
  "handle_failure F policy s context =
     attempt (decide_failure policy context) (\<lambda>action. execute_failure_action F s action)"

definition handle_failure_group ::
    "failure_family \<Rightarrow> failure_selector \<Rightarrow> attempt_source \<Rightarrow> failure_decider \<Rightarrow> workflow_state \<Rightarrow>
     exn list \<Rightarrow> workflow_state result" where
  "handle_failure_group F select attempt_number policy s es =
     attempt (prepare_failure_context F select attempt_number (ws_workflow_id s) (ws_phase s) es)
       (\<lambda>context. handle_failure F policy s context)"

definition execute_parallel_ingestion_failure_action ::
    "workflow_state \<Rightarrow> failure_action \<Rightarrow> workflow_state result" where
  "execute_parallel_ingestion_failure_action = execute_failure_action parallel_ingestion_family"

definition execute_forecasting_failure_action ::
    "workflow_state \<Rightarrow> failure_action \<Rightarrow> workflow_state result" where
  "execute_forecasting_failure_action = execute_failure_action forecasting_family"

definition decide_forecasting_failure :: "failure_decider \<Rightarrow> failure_policy_context \<Rightarrow> failure_action result" where
  "decide_forecasting_failure policy context = policy context"

definition handle_forecasting_failure ::
    "failure_decider \<Rightarrow> workflow_state \<Rightarrow> failure_policy_context \<Rightarrow> workflow_state result" where
  "handle_forecasting_failure policy s context =
     attempt (decide_forecasting_failure policy context)
       (\<lambda>action. execute_forecasting_failure_action s action)"

definition parallel_ingestion_failure_runtime_handle ::
    "failure_selector \<Rightarrow> attempt_source \<Rightarrow> failure_decider \<Rightarrow> workflow_state \<Rightarrow> exn list \<Rightarrow>
     workflow_state result" where
  "parallel_ingestion_failure_runtime_handle = handle_failure_group parallel_ingestion_family"

definition forecasting_failure_runtime_handle ::
    "failure_selector \<Rightarrow> attempt_source \<Rightarrow> failure_decider \<Rightarrow> workflow_state \<Rightarrow> exn list \<Rightarrow>
     workflow_state result" where
  "forecasting_failure_runtime_handle select attempt_number policy s es =
     attempt (prepare_forecasting_failure_context select attempt_number (ws_workflow_id s) (ws_phase s) es)
       (\<lambda>context. handle_forecasting_failure policy s context)"

lemmas forecasting_handling_defs = prepare_forecasting_failure_context_def
  resolve_forecasting_failure_context_def build_forecasting_failure_policy_context_def
  extract_forecasting_agent_failures_def classify_forecasting_agent_failures_def
  handle_forecasting_failure_def decide_forecasting_failure_def execute_forecasting_failure_action_def

lemma forecasting_runtime_handle_eq:
  "forecasting_failure_runtime_handle = handle_failure_group forecasting_family"
  by (intro ext) (simp add: forecasting_failure_runtime_handle_def handle_failure_group_def
      prepare_failure_context_def resolve_failure_context_def build_failure_policy_context_def
      handle_failure_def decide_failure_def forecasting_handling_defs)

section \<open>Extraction against its specification\<close>

text \<open>The leaves of a nested group, left to right.\<close>

fun group_leaves :: "exn list \<Rightarrow> exn list" where
  "group_leaves [] = []"
| "group_leaves (ExceptionGroup es # items) = group_leaves es @ group_leaves items"
| "group_leaves (e # items) = e # group_leaves items"

definition family_separates :: "failure_family \<Rightarrow> bool" where
  "family_separates F \<longleftrightarrow> (\<forall>es. ff_attributed F (ExceptionGroup es) = None)"

lemma families_separate [simp]: "family_separates parallel_ingestion_family" "family_separates forecasting_family"
  by (simp_all add: family_separates_def parallel_ingestion_family_def forecasting_family_def)

definition all_attributed :: "failure_family \<Rightarrow> exn list \<Rightarrow> bool" where
  "all_attributed F es \<longleftrightarrow> list_all (\<lambda>e. ff_attributed F e \<noteq> None) es"

lemma all_attributed_simps [simp]:
  "all_attributed F []" "all_attributed F (e # es) \<longleftrightarrow> ff_attributed F e \<noteq> None \<and> all_attributed F es"
  "all_attributed F (xs @ ys) \<longleftrightarrow> all_attributed F xs \<and> all_attributed F ys"
  by (simp_all add: all_attributed_def)

lemma extract_leaves:
  "extract_agent_failures F es =
     (if all_attributed F (group_leaves es) then Inr (map (\<lambda>e. the (ff_attributed F e)) (group_leaves es))
      else Inl (InvalidRequestError (ff_unattributed_message F)))"
  by (induction F es rule: extract_agent_failures.induct) (simp_all split: option.splits)

lemma group_leaves_plain: "(\<And>e. e \<in> set es \<Longrightarrow> \<nexists>xs. e = ExceptionGroup xs) \<Longrightarrow> group_leaves es = es"
  by (induction es rule: group_leaves.induct) auto

section \<open>Classification never fails\<close>

definition failure_code :: "failure_family \<Rightarrow> agent_failure \<Rightarrow> string" where
  "failure_code F failure =
     (case snd failure of
        Some (ApplicationError cls m) \<Rightarrow> application_error_code cls
      | _ \<Rightarrow> ff_unexpected_code F)"

definition coded_family :: "failure_family \<Rightarrow> bool" where
  "coded_family F \<longleftrightarrow> py_strip (ff_unexpected_code F) = ff_unexpected_code F \<and> ff_unexpected_code F \<noteq> []"

lemma families_coded [simp]: "coded_family parallel_ingestion_family" "coded_family forecasting_family"
  by (simp_all add: coded_family_def parallel_ingestion_family_def forecasting_family_def py_strip_def
      py_isspace_def)

lemma application_codes: "py_strip (application_error_code cls) = application_error_code cls"
  "application_error_code cls \<noteq> []"
  by (cases cls; simp add: py_strip_def py_isspace_def)+

lemma failure_code_ok:
  "coded_family F \<Longrightarrow> py_strip (failure_code F f) = failure_code F f \<and> failure_code F f \<noteq> []"
  by (auto simp: failure_code_def coded_family_def application_codes split: option.splits exn.splits)

lemma classify_agent_failure_ok:
  "coded_family F \<Longrightarrow> classify_agent_failure F f =
     Inr \<lparr>fact_agent_name = fst f, fact_error_code = failure_code F f\<rparr>"
  using failure_code_ok [of F f]
  by (simp add: classify_agent_failure_def make_failure_fact_def require_non_empty_def Let_def
      failure_code_def [symmetric])

lemma classify_agent_failures_ok:
  "coded_family F \<Longrightarrow> classify_agent_failures F fs =
     Inr (map (\<lambda>f. \<lparr>fact_agent_name = fst f, fact_error_code = failure_code F f\<rparr>) fs)"
  unfolding classify_agent_failures_def by (induction fs) (simp_all add: classify_agent_failure_ok)

section \<open>The contract of the ports\<close>

text \<open>
  A selector returns one of the facts it is given and attempt numbers start at 1; then a prepared
  context is well formed and names an agent that failed, with the code of its cause.
\<close>

locale failure_ports =
  fixes family :: failure_family
    and select :: failure_selector
    and attempt_number :: attempt_source
  assumes coded: "coded_family family"
    and select_from: "select facts = Inr f \<Longrightarrow> f \<in> set facts"
    and attempt_positive: "attempt_number w = Inr n \<Longrightarrow> 1 \<le> n"
begin

lemma resolved_context:
  assumes "resolve_failure_context select attempt_number w phase facts = Inr c"
  shows "failure_policy_context_ok c \<and> fpc_phase c = phase \<and>
    (\<exists>f \<in> set facts. fpc_agent_name c = Some (fact_agent_name f) \<and>
       fpc_error_code c = py_strip (fact_error_code f))"
proof -
  obtain f n where f: "select facts = Inr f" and n: "attempt_number w = Inr n"
    and c: "make_failure_policy_context phase (fact_error_code f) n (Some (fact_agent_name f)) = Inr c"
    using assms by (auto simp: resolve_failure_context_def build_failure_policy_context_def result_simps)
  show ?thesis
    using c select_from [OF f]
    by (auto simp: make_failure_policy_context_ok failure_policy_context_ok_def)
qed

lemma prepared_context:
  assumes "prepare_failure_context family select attempt_number w phase es = Inr c"
  shows "failure_policy_context_ok c \<and> fpc_phase c = phase \<and>
    (\<exists>e \<in> set (group_leaves es). \<exists>a cause. ff_attributed family e = Some (a, cause) \<and>
       fpc_agent_name c = Some a \<and> fpc_error_code c = failure_code family (a, cause))"
proof -
  let ?failures = "map (\<lambda>e. the (ff_attributed family e)) (group_leaves es)"
  let ?facts = "map (\<lambda>f. \<lparr>fact_agent_name = fst f, fact_error_code = failure_code family f\<rparr>) ?failures"
  have attributed: "all_attributed family (group_leaves es)"
    and resolved: "resolve_failure_context select attempt_number w phase ?facts = Inr c"
    using assms by (auto simp: prepare_failure_context_def extract_leaves classify_agent_failures_ok
        coded split: if_splits)
  note resolved_ok = resolved_context [OF resolved]
  then obtain e where e: "e \<in> set (group_leaves es)"
    and agent: "fpc_agent_name c = Some (fst (the (ff_attributed family e)))"
    and code: "fpc_error_code c = py_strip (failure_code family (the (ff_attributed family e)))"
    by auto
  obtain a cause where ac: "ff_attributed family e = Some (a, cause)"
    using attributed e by (auto simp: all_attributed_def list_all_iff)
  then have "fpc_error_code c = failure_code family (a, cause)"
    using code failure_code_ok [OF coded, of "(a, cause)"] by simp
  then show ?thesis using resolved_ok e ac agent by auto
qed

end

lemma select_single_from: "select_single_failure F facts = Inr f \<Longrightarrow> f \<in> set facts"
  by (auto simp: select_single_failure_def split: if_splits)

interpretation ingestion_ports:
  failure_ports parallel_ingestion_family strict_single_parallel_ingestion_selector
    initial_parallel_ingestion_attempt_number
  by unfold_locales (auto simp: strict_single_parallel_ingestion_selector_def
      initial_parallel_ingestion_attempt_number_def dest: select_single_from)

interpretation forecasting_ports:
  failure_ports forecasting_family strict_single_forecasting_selector initial_forecasting_attempt_number
  by unfold_locales (auto simp: strict_single_forecasting_selector_def
      initial_forecasting_attempt_number_def dest: select_single_from)

section \<open>The pipeline as one step\<close>

lemma single_selection:
  assumes "coded_family F" "all_attributed F (group_leaves es)" "select = select_single_failure F"
    and "\<And>w. attempts w = Inr 1" "\<And>c. policy c = Inr FAIL"
  shows "handle_failure_group F select attempts policy s es =
    (if length (group_leaves es) = 1 then ff_fail F s
     else Inl (InvalidRequestError (ff_exactly_one_message F)))"
proof (cases "length (group_leaves es) = 1")
  case True
  then obtain e where e: "group_leaves es = [e]" by (auto simp: length_Suc_conv)
  then show ?thesis
    using assms failure_code_ok [OF assms(1)]
    by (simp add: handle_failure_group_def prepare_failure_context_def extract_leaves
        classify_agent_failures_ok resolve_failure_context_def select_single_failure_def
        build_failure_policy_context_def make_failure_policy_context_def require_non_empty_def Let_def
        require_attempt_number_def handle_failure_def decide_failure_def execute_failure_action_def)
next
  case False
  then show ?thesis
    using assms by (simp add: handle_failure_group_def prepare_failure_context_def extract_leaves
        classify_agent_failures_ok resolve_failure_context_def select_single_failure_def)
qed

lemma unattributed_group:
  "\<not> all_attributed F (group_leaves es) \<Longrightarrow>
   handle_failure_group F select attempts policy s es = Inl (InvalidRequestError (ff_unattributed_message F))"
  by (simp add: handle_failure_group_def prepare_failure_context_def extract_leaves)

section \<open>Properties\<close>

text \<open>C4: FAILURE-PIPELINE. With the initial ports, the pipeline of extraction, classification,
  selection, context, decision and action refines one rule, for both phases: a group with an
  unattributed leaf is refused, a group with exactly one attributed leaf applies the failure
  transition, any other number of leaves is refused.\<close>

theorem failure_pipeline_refines:
  "parallel_ingestion_failure_runtime_handle strict_single_parallel_ingestion_selector
     initial_parallel_ingestion_attempt_number initial_parallel_ingestion_policy s es =
     (if \<not> all_attributed parallel_ingestion_family (group_leaves es)
      then Inl (InvalidRequestError (ff_unattributed_message parallel_ingestion_family))
      else if length (group_leaves es) = 1 then fail_parallel_ingestion s
      else Inl (InvalidRequestError (ff_exactly_one_message parallel_ingestion_family))) \<and>
   forecasting_failure_runtime_handle strict_single_forecasting_selector
     initial_forecasting_attempt_number initial_forecasting_policy s es =
     (if \<not> all_attributed forecasting_family (group_leaves es)
      then Inl (InvalidRequestError (ff_unattributed_message forecasting_family))
      else if length (group_leaves es) = 1 then fail_after_forecasting s
      else Inl (InvalidRequestError (ff_exactly_one_message forecasting_family)))"
proof
  show "parallel_ingestion_failure_runtime_handle strict_single_parallel_ingestion_selector
     initial_parallel_ingestion_attempt_number initial_parallel_ingestion_policy s es =
     (if \<not> all_attributed parallel_ingestion_family (group_leaves es)
      then Inl (InvalidRequestError (ff_unattributed_message parallel_ingestion_family))
      else if length (group_leaves es) = 1 then fail_parallel_ingestion s
      else Inl (InvalidRequestError (ff_exactly_one_message parallel_ingestion_family)))"
    using single_selection [of parallel_ingestion_family es strict_single_parallel_ingestion_selector
        initial_parallel_ingestion_attempt_number initial_parallel_ingestion_policy]
    by (simp add: parallel_ingestion_failure_runtime_handle_def unattributed_group
        strict_single_parallel_ingestion_selector_def initial_parallel_ingestion_attempt_number_def
        initial_parallel_ingestion_policy_def)
      (simp add: parallel_ingestion_family_def)
  show "forecasting_failure_runtime_handle strict_single_forecasting_selector
     initial_forecasting_attempt_number initial_forecasting_policy s es =
     (if \<not> all_attributed forecasting_family (group_leaves es)
      then Inl (InvalidRequestError (ff_unattributed_message forecasting_family))
      else if length (group_leaves es) = 1 then fail_after_forecasting s
      else Inl (InvalidRequestError (ff_exactly_one_message forecasting_family)))"
    using single_selection [of forecasting_family es strict_single_forecasting_selector
        initial_forecasting_attempt_number initial_forecasting_policy]
    by (simp add: forecasting_runtime_handle_eq unattributed_group
        strict_single_forecasting_selector_def initial_forecasting_attempt_number_def
        initial_forecasting_policy_def)
      (simp add: forecasting_family_def)
qed

text \<open>A policy context prepared for a failed ingestion group is well formed, has
  the workflow's phase, and names an agent whose failure is in the group, with the application
  error code of its cause or the code for unexpected failures.\<close>

theorem prepared_context_names_failed_agent:
  assumes "prepare_failure_context parallel_ingestion_family strict_single_parallel_ingestion_selector
    initial_parallel_ingestion_attempt_number w phase es = Inr c"
  shows "failure_policy_context_ok c \<and> fpc_phase c = phase \<and>
    (\<exists>a cause. ParallelIngestionAgentFailure a cause \<in> set (group_leaves es) \<and>
       fpc_agent_name c = Some a \<and>
       fpc_error_code c = failure_code parallel_ingestion_family (a, cause))"
proof -
  obtain e a cause where e: "e \<in> set (group_leaves es)"
    and ac: "ff_attributed parallel_ingestion_family e = Some (a, cause)"
    and c: "fpc_agent_name c = Some a" "fpc_error_code c = failure_code parallel_ingestion_family (a, cause)"
    using ingestion_ports.prepared_context [OF assms] by blast
  have "e = ParallelIngestionAgentFailure a cause"
    using ac by (cases e) (simp_all add: parallel_ingestion_family_def)
  then show ?thesis using e c ingestion_ports.prepared_context [OF assms] by blast
qed

theorem prepared_context_names_failed_agent_witness:
  "\<exists>a. fpc_agent_name
       \<lparr>fpc_phase = INGESTION, fpc_error_code = ''dependency_unavailable'', fpc_attempt_number = 1,
        fpc_agent_name = Some HYDRO_RESOURCES\<rparr> = Some a \<and>
     ParallelIngestionAgentFailure a (Some (DependencyUnavailableError ''x'')) \<in>
       set (group_leaves [ExceptionGroup
         [ParallelIngestionAgentFailure HYDRO_RESOURCES (Some (DependencyUnavailableError ''x''))]])"
  using prepared_context_names_failed_agent [of "''w''" INGESTION
      "[ExceptionGroup [ParallelIngestionAgentFailure HYDRO_RESOURCES (Some (DependencyUnavailableError ''x''))]]"
      "\<lparr>fpc_phase = INGESTION, fpc_error_code = ''dependency_unavailable'', fpc_attempt_number = 1,
        fpc_agent_name = Some HYDRO_RESOURCES\<rparr>"]
  by (simp add: prepare_failure_context_def extract_leaves classify_agent_failures_ok
      resolve_failure_context_def strict_single_parallel_ingestion_selector_def
      select_single_failure_def initial_parallel_ingestion_attempt_number_def
      build_failure_policy_context_def make_failure_policy_context_def require_non_empty_def Let_def
      require_attempt_number_def failure_code_def parallel_ingestion_family_def coded_family_def
      py_strip_def py_isspace_def)

end
