(* ===== verification/Write_Once.thy ===== *)
theory Write_Once
  imports Prelude
begin

text \<open>
  The interface of the program's write-once stores: the workflow contexts, which keep one success per
  workflow, and the consumption repository, which keeps one observation per consumer and instant.
\<close>

section \<open>The write-once contract\<close>

text \<open>
  A store of values per key: a write to an unwritten key succeeds and stores the value, a write to
  a written key never changes the store, and succeeds exactly when the value is the same; other keys
  are never touched. The laws hold of the values that fit their key. What follows from it holds for every store of the program.
\<close>

locale write_once_store =
  fixes lookup :: "'c \<Rightarrow> 'k \<Rightarrow> 's option"
    and put :: "'c \<Rightarrow> 'k \<Rightarrow> 's \<Rightarrow> unit result \<times> 'c"
    and same :: "'s \<Rightarrow> 's \<Rightarrow> bool"
    and conflict :: exn
    and ok :: "'c \<Rightarrow> bool"
    and fit :: "'k \<Rightarrow> 's \<Rightarrow> bool"
  assumes same_refl: "fit w s \<Longrightarrow> same s s"
    and write_fresh: "ok c \<Longrightarrow> fit w s \<Longrightarrow> lookup c w = None \<Longrightarrow>
      fst (put c w s) = Inr () \<and> lookup (snd (put c w s)) w = Some s"
    and write_again: "ok c \<Longrightarrow> fit w s \<Longrightarrow> lookup c w = Some t \<Longrightarrow>
      fst (put c w s) = (if same t s then Inr () else Inl conflict) \<and> lookup (snd (put c w s)) w = Some t"
    and write_other: "ok c \<Longrightarrow> fit w s \<Longrightarrow> v \<noteq> w \<Longrightarrow> lookup (snd (put c w s)) v = lookup c v"
    and write_ok: "ok c \<Longrightarrow> fit w s \<Longrightarrow> ok (snd (put c w s))"
begin

lemma write_keeps: "ok c \<Longrightarrow> fit w s \<Longrightarrow> lookup c v = Some t \<Longrightarrow> lookup (snd (put c w s)) v = Some t"
  by (cases "v = w") (simp_all add: write_again write_other)

lemma write_read:
  assumes "ok c" "fit w s" "fst (put c w s) = Inr ()"
  shows "\<exists>t. lookup (snd (put c w s)) w = Some t \<and> (t = s \<or> same t s)"
proof (cases "lookup c w")
  case None
  then show ?thesis using write_fresh [OF assms(1,2)] by simp
next
  case (Some t)
  then show ?thesis using write_again [OF assms(1,2) Some] assms(3) by (auto split: if_splits)
qed

lemma write_repeat:
  assumes "ok c" "fit w s" "fst (put c w s) = Inr ()"
  shows "fst (put (snd (put c w s)) w s) = Inr ()"
proof (cases "lookup c w")
  case None
  then have "lookup (snd (put c w s)) w = Some s" using write_fresh [OF assms(1,2)] by simp
  from write_again [OF write_ok [OF assms(1,2)] assms(2) this] show ?thesis by (simp add: same_refl [OF assms(2)])
next
  case (Some t)
  note again = write_again [OF assms(1,2) Some]
  then have "same t s" using assms(3) by (auto split: if_splits)
  moreover have "lookup (snd (put c w s)) w = Some t" using again by simp
  ultimately show ?thesis using write_again [OF write_ok [OF assms(1,2)] assms(2)] by simp
qed

text \<open>The history of a key: whatever sequence of writes, the first value written stays.\<close>

fun writes :: "'c \<Rightarrow> ('k \<times> 's) list \<Rightarrow> 'c" where
  "writes c [] = c"
| "writes c ((w, s) # rest) = writes (snd (put c w s)) rest"

lemma writes_ok: "ok c \<Longrightarrow> list_all (\<lambda>(w, s). fit w s) ws \<Longrightarrow> ok (writes c ws)"
  by (induction c ws rule: writes.induct) (simp_all add: write_ok)

lemma writes_keep: "ok c \<Longrightarrow> list_all (\<lambda>(w, s). fit w s) ws \<Longrightarrow> lookup c v = Some t \<Longrightarrow> lookup (writes c ws) v = Some t"
  by (induction c ws rule: writes.induct) (simp_all add: write_ok write_keeps)

lemma first_write_wins:
  "ok c \<Longrightarrow> list_all (\<lambda>(w, s). fit w s) ws \<Longrightarrow> lookup c v = None \<Longrightarrow> lookup (writes c ws) v = map_of ws v"
proof (induction c ws rule: writes.induct)
  case (2 c w s rest)
  show ?case
  proof (cases "v = w")
    case True
    then show ?thesis
      using write_fresh [OF 2(2), of w s] 2(3,4) write_ok [OF 2(2)] by (simp add: writes_keep)
  next
    case False
    then show ?thesis using 2 write_other [OF 2(2)] write_ok [OF 2(2)] by simp
  qed
qed simp

end

end
