(* ===== verification/Workflow_Context.thy ===== *)
theory Workflow_Context
  imports Workflow_State Ingestion_Agents Write_Once
begin

text \<open>
  The in-memory workflow contexts (infrastructure/orchestration/*.py): plans that were given at
  construction and write-once successes per workflow, the read-after-write context that mirrors what
  it records, and the success reader. A write holds the context's lock from the lookup to the
  assignment, so it is one step here; it returns the new state together with the value or the error,
  since the state outlives an exception.
\<close>

section \<open>Write-once memory\<close>

record ('p, 's) memory_context =
  mc_plans :: "string \<rightharpoonup> 'p"
  mc_successes :: "string \<rightharpoonup> 's"

definition empty_memory_context :: "(string \<rightharpoonup> 'p) \<Rightarrow> ('p, 's) memory_context" where
  "empty_memory_context plans = \<lparr>mc_plans = plans, mc_successes = Map.empty\<rparr>"

definition memory_resolve_plan :: "string \<Rightarrow> ('p, 's) memory_context \<Rightarrow> string \<Rightarrow> 'p result" where
  "memory_resolve_plan not_found c w =
     (case mc_plans c w of Some plan \<Rightarrow> Inr plan | None \<Rightarrow> Inl (ResourceNotFoundError not_found))"

definition memory_record_success ::
    "('s \<Rightarrow> 's \<Rightarrow> bool) \<Rightarrow> string \<Rightarrow> ('p, 's) memory_context \<Rightarrow> string \<Rightarrow> 's \<Rightarrow>
     unit result \<times> ('p, 's) memory_context" where
  "memory_record_success same conflict c w success =
     (case mc_successes c w of
        None \<Rightarrow> (Inr (), c\<lparr>mc_successes := (mc_successes c)(w \<mapsto> success)\<rparr>)
      | Some existing \<Rightarrow>
          if same existing success then (Inr (), c) else (Inl (ConflictError conflict), c))"

section \<open>The contexts of the two phases\<close>

type_synonym ingestion_context = "(ingestion_plan, ingestion_success) memory_context"
type_synonym forecasting_context = "(forecasting_plan, forecasting_success) memory_context"

definition ingestion_resolve_plan :: "ingestion_context \<Rightarrow> string \<Rightarrow> ingestion_plan result" where
  "ingestion_resolve_plan c w =
     memory_resolve_plan ''Parallel-ingestion plan was not found.'' c w"

definition ingestion_record_success ::
    "ingestion_context \<Rightarrow> string \<Rightarrow> ingestion_success \<Rightarrow> unit result \<times> ingestion_context" where
  "ingestion_record_success c w success =
     memory_record_success same_ingestion_success
       ''Parallel-ingestion success conflicts with the recorded result.'' c w success"

definition forecasting_resolve_plan :: "forecasting_context \<Rightarrow> workflow_state \<Rightarrow> forecasting_plan result" where
  "forecasting_resolve_plan c s =
     memory_resolve_plan ''Forecasting plan was not found.'' c (ws_workflow_id s)"

definition forecasting_record_success ::
    "forecasting_context \<Rightarrow> workflow_state \<Rightarrow> forecasting_success \<Rightarrow>
     unit result \<times> forecasting_context" where
  "forecasting_record_success c s success =
     memory_record_success same_forecasting_success
       ''Forecasting success conflicts with the recorded result.'' c (ws_workflow_id s) success"

section \<open>Reading successes back\<close>

definition forecasting_success_not_found_message :: string where
  "forecasting_success_not_found_message = ''Forecasting success was not found.''"

definition reader_get_success :: "(string \<rightharpoonup> forecasting_success) \<Rightarrow> string \<Rightarrow> forecasting_success result" where
  "reader_get_success successes w =
     (case successes w of
        Some s \<Rightarrow> Inr s
      | None \<Rightarrow> Inl (ResourceNotFoundError forecasting_success_not_found_message))"

record read_after_write_context =
  rw_context :: forecasting_context
  rw_successes :: "string \<rightharpoonup> forecasting_success"

definition empty_read_after_write :: "forecasting_context \<Rightarrow> read_after_write_context" where
  "empty_read_after_write c = \<lparr>rw_context = c, rw_successes = Map.empty\<rparr>"

definition rw_resolve_plan :: "read_after_write_context \<Rightarrow> workflow_state \<Rightarrow> forecasting_plan result" where
  "rw_resolve_plan c s = forecasting_resolve_plan (rw_context c) s"

text \<open>The inner context decides first; the mirror keeps the first success of the workflow.\<close>

definition rw_record_success ::
    "read_after_write_context \<Rightarrow> workflow_state \<Rightarrow> forecasting_success \<Rightarrow>
     unit result \<times> read_after_write_context" where
  "rw_record_success c s success =
     (case forecasting_record_success (rw_context c) s success of
        (Inl e, inner) \<Rightarrow> (Inl e, c\<lparr>rw_context := inner\<rparr>)
      | (Inr _, inner) \<Rightarrow>
          (Inr (), c\<lparr>rw_context := inner,
                     rw_successes := (if ws_workflow_id s \<notin> dom (rw_successes c)
                                      then (rw_successes c)(ws_workflow_id s \<mapsto> success)
                                      else rw_successes c)\<rparr>))"

definition rw_get_success :: "read_after_write_context \<Rightarrow> string \<Rightarrow> forecasting_success result" where
  "rw_get_success c w =
     (case rw_successes c w of
        Some s \<Rightarrow> Inr s
      | None \<Rightarrow> Inl (ResourceNotFoundError forecasting_success_not_found_message))"

section \<open>The contexts are write-once stores\<close>

lemma memory_record_laws:
  assumes "\<And>s. same s s"
  shows "mc_successes c w = None \<Longrightarrow> memory_record_success same m c w s =
      (Inr (), c\<lparr>mc_successes := (mc_successes c)(w \<mapsto> s)\<rparr>)"
    and "mc_successes c w = Some t \<Longrightarrow> memory_record_success same m c w s =
      ((if same t s then Inr () else Inl (ConflictError m)), c)"
  by (simp_all add: memory_record_success_def)

interpretation ingestion_store:
  write_once_store mc_successes ingestion_record_success same_ingestion_success
    "ConflictError ''Parallel-ingestion success conflicts with the recorded result.''" "\<lambda>_. True" "\<lambda>_ _. True"
  by unfold_locales (auto simp: ingestion_record_success_def memory_record_success_def split: option.splits)

text \<open>Only the workflow identity of a state matters to the forecasting context.\<close>

definition state_of_workflow :: "string \<Rightarrow> workflow_state" where
  "state_of_workflow w = \<lparr>ws_workflow_id = w, ws_portfolio_id = [], ws_delivery_date = 0,
     ws_correlation_id = [], ws_phase = FORECASTING, ws_status = RUNNING, ws_diagnostics = []\<rparr>"

lemma state_of_workflow_id [simp]: "ws_workflow_id (state_of_workflow w) = w"
  by (simp add: state_of_workflow_def)

interpretation forecasting_store:
  write_once_store mc_successes "\<lambda>c w. forecasting_record_success c (state_of_workflow w)"
    same_forecasting_success
    "ConflictError ''Forecasting success conflicts with the recorded result.''" "\<lambda>_. True" "\<lambda>_ _. True"
  by unfold_locales (auto simp: forecasting_record_success_def memory_record_success_def split: option.splits)

text \<open>The invariant of the read-after-write context: the mirror holds what the inner context holds.\<close>

definition rw_ok :: "read_after_write_context \<Rightarrow> bool" where
  "rw_ok c \<longleftrightarrow> rw_successes c = mc_successes (rw_context c)"

lemma rw_ok_update [simp]:
  "rw_ok (c\<lparr>rw_context := d, rw_successes := m\<rparr>) \<longleftrightarrow> m = mc_successes d"
  by (simp add: rw_ok_def)

lemma rw_ok_empty [simp]: "rw_ok (empty_read_after_write (empty_memory_context plans))"
  by (simp add: rw_ok_def empty_read_after_write_def empty_memory_context_def)

lemma rw_record_cases:
  assumes "rw_ok c"
  shows "rw_record_success c s x =
    (case rw_successes c (ws_workflow_id s) of
       None \<Rightarrow> (Inr (), c\<lparr>rw_context := (rw_context c)\<lparr>mc_successes := (rw_successes c)(ws_workflow_id s \<mapsto> x)\<rparr>,
                         rw_successes := (rw_successes c)(ws_workflow_id s \<mapsto> x)\<rparr>)
     | Some t \<Rightarrow> ((if same_forecasting_success t x then Inr ()
                   else Inl (ConflictError ''Forecasting success conflicts with the recorded result.'')), c))"
  using assms by (auto simp: rw_ok_def rw_record_success_def forecasting_record_success_def
      memory_record_success_def dom_def split: option.splits)

lemma rw_record_ok: "rw_ok c \<Longrightarrow> rw_ok (snd (rw_record_success c s x))"
  by (auto simp: rw_record_cases rw_ok_def split: option.splits)

interpretation read_after_write_store:
  write_once_store rw_successes "\<lambda>c w. rw_record_success c (state_of_workflow w)"
    same_forecasting_success
    "ConflictError ''Forecasting success conflicts with the recorded result.''" rw_ok "\<lambda>_ _. True"
  by unfold_locales (auto simp: rw_record_cases rw_record_ok split: option.splits)

section \<open>Properties\<close>

text \<open>A run of the context: every record attempt of a history of states, refused ones included.\<close>

fun rw_record_all ::
    "read_after_write_context \<Rightarrow> (workflow_state \<times> forecasting_success) list \<Rightarrow> read_after_write_context" where
  "rw_record_all c [] = c"
| "rw_record_all c ((s, x) # rest) = rw_record_all (snd (rw_record_success c s x)) rest"

lemma rw_record_by_id: "rw_record_success c s x = rw_record_success c (state_of_workflow (ws_workflow_id s)) x"
  unfolding rw_record_success_def forecasting_record_success_def state_of_workflow_id by (rule refl)

lemma rw_record_all_writes:
  "rw_record_all c h = read_after_write_store.writes c (map (\<lambda>(s, x). (ws_workflow_id s, x)) h)"
  by (induction c h rule: rw_record_all.induct) (simp_all add: rw_record_by_id [symmetric])

text \<open>C8: FIRST-SUCCESS-WINS. Whatever forecasting successes are recorded, in whatever order and however
  often, reading a workflow's success returns the first one recorded for it, and a workflow without
  one is not found.\<close>

theorem first_recorded_success_is_read:
  "rw_get_success (rw_record_all (empty_read_after_write (empty_memory_context plans)) h) w =
     (case map_of (map (\<lambda>(s, x). (ws_workflow_id s, x)) h) w of
        Some x \<Rightarrow> Inr x
      | None \<Rightarrow> Inl (ResourceNotFoundError forecasting_success_not_found_message))"
proof -
  have "rw_successes (empty_read_after_write (empty_memory_context plans)) w = None"
    by (simp add: empty_read_after_write_def)
  from read_after_write_store.first_write_wins [OF rw_ok_empty _ this]
  show ?thesis unfolding rw_get_success_def rw_record_all_writes by (simp add: list_all_iff)
qed

end
