(* ===== verification/Documents.thy ===== *)
theory Documents
  imports Domain_Models
begin

text \<open>
  The document contracts (application/ports/document\_*.py) and the services that move a document
  from extraction to the vector index (application/orchestration/document\_*.py). The extraction,
  embedding and index ports are arguments; the index is a state that a port call returns updated.
\<close>

section \<open>Contracts\<close>

record document_chunk =
  chunk_document_id :: string
  chunk_chunk_id :: string
  chunk_ordinal :: int
  chunk_text :: string
  chunk_page_number :: "int option"

definition require_non_negative_int :: "string \<Rightarrow> int \<Rightarrow> int result" where
  "require_non_negative_int field_name value =
     (if value < 0 then Inl (ValueError (field_name @ '' must be greater than or equal to 0'')) else Inr value)"

definition require_positive_int :: "string \<Rightarrow> int \<Rightarrow> int result" where
  "require_positive_int field_name value =
     (if value < 1 then Inl (ValueError (field_name @ '' must be greater than or equal to 1'')) else Inr value)"

definition make_document_chunk ::
    "string \<Rightarrow> string \<Rightarrow> int \<Rightarrow> string \<Rightarrow> int option \<Rightarrow> document_chunk result" where
  "make_document_chunk document_id chunk_id ordinal body page_number =
     attempt (require_non_empty ''document_id'' document_id) (\<lambda>d.
     attempt (require_non_empty ''chunk_id'' chunk_id) (\<lambda>c.
     attempt (require_non_empty ''text'' body) (\<lambda>t.
     attempt (require_non_negative_int ''ordinal'' ordinal) (\<lambda>n.
     attempt (case page_number of
                None \<Rightarrow> Inr None
              | Some p \<Rightarrow> attempt (require_positive_int ''page_number'' p) (\<lambda>q. Inr (Some q))) (\<lambda>pn.
       Inr \<lparr>chunk_document_id = d, chunk_chunk_id = c, chunk_ordinal = n, chunk_text = t,
            chunk_page_number = pn\<rparr>)))))"

record extraction_result =
  er_source_name :: string
  er_document_id :: string
  er_chunks :: "document_chunk list"
  er_diagnostics :: "adapter_diagnostic list"
  er_dlq_records :: "dlq_record list"

definition make_extraction_result ::
    "string \<Rightarrow> string \<Rightarrow> document_chunk list \<Rightarrow> adapter_diagnostic list \<Rightarrow> dlq_record list \<Rightarrow>
     extraction_result result" where
  "make_extraction_result source_name document_id chunks diagnostics dlq_records =
     attempt (require_non_empty ''source_name'' source_name) (\<lambda>s.
     attempt (require_non_empty ''document_id'' document_id) (\<lambda>d.
       if list_ex (\<lambda>c. chunk_document_id c \<noteq> d) chunks
       then Inl (ValueError ''chunk document_id must match the result document_id'')
       else if \<not> distinct (map chunk_chunk_id chunks)
       then Inl (ValueError ''chunk_id values must be unique within one result'')
       else Inr \<lparr>er_source_name = s, er_document_id = d, er_chunks = chunks,
                 er_diagnostics = diagnostics, er_dlq_records = dlq_records\<rparr>))"

text \<open>Embedding vectors are not empty and finite; the same guard serves chunks, queries and searches.\<close>

definition require_embedding_vector :: "pyfloat list \<Rightarrow> pyfloat list result" where
  "require_embedding_vector value =
     (if length value < 1 then Inl (ValueError ''vector must contain at least one element'')
      else if \<not> list_all float_isfinite value
      then Inl (ValueError ''vector elements must be finite floating-point values'')
      else Inr value)"

record chunk_embedding =
  emb_document_id :: string
  emb_chunk_id :: string
  emb_vector :: "pyfloat list"

definition make_chunk_embedding :: "string \<Rightarrow> string \<Rightarrow> pyfloat list \<Rightarrow> chunk_embedding result" where
  "make_chunk_embedding document_id chunk_id vector =
     attempt (require_non_empty ''document_id'' document_id) (\<lambda>d.
     attempt (require_non_empty ''chunk_id'' chunk_id) (\<lambda>c.
     attempt (require_embedding_vector vector) (\<lambda>v.
       Inr \<lparr>emb_document_id = d, emb_chunk_id = c, emb_vector = v\<rparr>)))"

record query_embedding = qe_vector :: "pyfloat list"

definition make_query_embedding :: "pyfloat list \<Rightarrow> query_embedding result" where
  "make_query_embedding vector = attempt (require_embedding_vector vector) (\<lambda>v. Inr \<lparr>qe_vector = v\<rparr>)"

record search_query =
  sq_vector :: "pyfloat list"
  sq_limit :: int

definition require_positive_limit :: "int \<Rightarrow> int result" where
  "require_positive_limit value =
     (if value < 1 then Inl (ValueError ''limit must be greater than 0'') else Inr value)"

definition make_search_query :: "pyfloat list \<Rightarrow> int \<Rightarrow> search_query result" where
  "make_search_query vector limit =
     attempt (require_embedding_vector vector) (\<lambda>v.
     attempt (require_positive_limit limit) (\<lambda>n. Inr \<lparr>sq_vector = v, sq_limit = n\<rparr>))"

record index_entry =
  entry_chunk :: document_chunk
  entry_embedding :: chunk_embedding

definition make_index_entry :: "document_chunk \<Rightarrow> chunk_embedding \<Rightarrow> index_entry result" where
  "make_index_entry chunk embedding =
     (if chunk_document_id chunk \<noteq> emb_document_id embedding
      then Inl (ValueError ''chunk document_id must match embedding document_id'')
      else if chunk_chunk_id chunk \<noteq> emb_chunk_id embedding
      then Inl (ValueError ''chunk chunk_id must match embedding chunk_id'')
      else Inr \<lparr>entry_chunk = chunk, entry_embedding = embedding\<rparr>)"

section \<open>Entry preparation (document_vector_index_entry_preparation.py)\<close>

definition index_preparation_message :: string where
  "index_preparation_message = ''Document vector index entries could not be prepared.''"

fun pair_entries :: "document_chunk list \<Rightarrow> chunk_embedding list \<Rightarrow> index_entry list result" where
  "pair_entries (c # cs) (e # es) =
     (if emb_document_id e \<noteq> chunk_document_id c \<or> emb_chunk_id e \<noteq> chunk_chunk_id c
      then Inl (DependencyUnavailableError index_preparation_message)
      else attempt (make_index_entry c e) (\<lambda>x. attempt (pair_entries cs es) (\<lambda>xs. Inr (x # xs))))"
| "pair_entries _ _ = Inr []"

definition to_index_entries :: "document_chunk list \<Rightarrow> chunk_embedding list \<Rightarrow> index_entry list result" where
  "to_index_entries chunks embeddings =
     (if length embeddings \<noteq> length chunks
      then Inl (DependencyUnavailableError index_preparation_message)
      else pair_entries chunks embeddings)"

type_synonym embedding_port = "document_chunk list \<Rightarrow> chunk_embedding list result"

definition prepare_index_entries :: "embedding_port \<Rightarrow> document_chunk list \<Rightarrow> index_entry list result" where
  "prepare_index_entries embedding_of chunks = attempt (embedding_of chunks) (\<lambda>es. to_index_entries chunks es)"

section \<open>Indexing (document_vector_index_execution.py, document_extraction_index_execution.py)\<close>

text \<open>The index port: what a call does to the index, and whether it raises.\<close>

type_synonym 'i index_port = "'i \<Rightarrow> index_entry list \<Rightarrow> unit result \<times> 'i"

definition execute_index ::
    "embedding_port \<Rightarrow> 'i index_port \<Rightarrow> 'i \<Rightarrow> document_chunk list \<Rightarrow> unit result \<times> 'i" where
  "execute_index embedding_of index i chunks =
     (case prepare_index_entries embedding_of chunks of
        Inl e \<Rightarrow> (Inl e, i)
      | Inr entries \<Rightarrow> index i entries)"

definition execute_extraction_index ::
    "extraction_result result \<Rightarrow> embedding_port \<Rightarrow> 'i index_port \<Rightarrow> 'i \<Rightarrow> extraction_result result \<times> 'i" where
  "execute_extraction_index extract embedding_of index i =
     (case extract of
        Inl e \<Rightarrow> (Inl e, i)
      | Inr r \<Rightarrow>
          if er_chunks r = [] then (Inr r, i)
          else (case execute_index embedding_of index i (er_chunks r) of
                  (Inl e, j) \<Rightarrow> (Inl e, j)
                | (Inr _, j) \<Rightarrow> (Inr r, j)))"

section \<open>Query preparation (document_vector_search_query_preparation.py)\<close>

definition prepare_search_query ::
    "(string \<Rightarrow> query_embedding result) \<Rightarrow> string \<Rightarrow> int \<Rightarrow> search_query result" where
  "prepare_search_query embed_query query_text limit =
     attempt (embed_query query_text) (\<lambda>e. make_search_query (qe_vector e) limit)"

section \<open>Lemmas\<close>

lemma make_document_chunk_ok:
  "make_document_chunk d c n t p = Inr x \<Longrightarrow>
   chunk_document_id x = py_strip d \<and> chunk_chunk_id x = py_strip c \<and> chunk_text x = py_strip t \<and>
   chunk_document_id x \<noteq> [] \<and> chunk_chunk_id x \<noteq> [] \<and> chunk_text x \<noteq> [] \<and> 0 \<le> chunk_ordinal x \<and>
   chunk_page_number x = p"
  by (auto simp: make_document_chunk_def require_non_negative_int_def require_positive_int_def result_simps
      split: if_splits option.splits)

lemma require_embedding_vector_Inr_iff [result_simps]:
  "require_embedding_vector v = Inr w \<longleftrightarrow> v \<noteq> [] \<and> list_all float_isfinite v \<and> w = v"
  by (auto simp: require_embedding_vector_def Suc_le_eq)

lemma make_search_query_ok [result_simps]:
  "make_search_query v n = Inr q \<longleftrightarrow>
   v \<noteq> [] \<and> list_all float_isfinite v \<and> 1 \<le> n \<and> q = \<lparr>sq_vector = v, sq_limit = n\<rparr>"
  by (auto simp: make_search_query_def require_positive_limit_def result_simps)

text \<open>An embedding belongs to a chunk when it names it.\<close>

definition embeds :: "document_chunk \<Rightarrow> chunk_embedding \<Rightarrow> bool" where
  "embeds c e \<longleftrightarrow> emb_document_id e = chunk_document_id c \<and> emb_chunk_id e = chunk_chunk_id c"

lemma make_index_entry_embeds: "embeds c e \<Longrightarrow> make_index_entry c e = Inr \<lparr>entry_chunk = c, entry_embedding = e\<rparr>"
  by (simp add: embeds_def make_index_entry_def)

lemma pair_entries_ok:
  "length cs = length es \<Longrightarrow> pair_entries cs es =
     (if list_all2 embeds cs es then Inr (map2 (\<lambda>c e. \<lparr>entry_chunk = c, entry_embedding = e\<rparr>) cs es)
      else Inl (DependencyUnavailableError index_preparation_message))"
proof (induction cs es rule: list_induct2)
  case (Cons c cs e es)
  then show ?case by (cases "embeds c e") (auto simp: make_index_entry_embeds embeds_def)
qed simp

text \<open>Entries exist exactly for answers that embedding_of every chunk, in order; anything else is unavailable.\<close>

lemma to_index_entries_spec:
  "to_index_entries cs es =
     (if list_all2 embeds cs es then Inr (map2 (\<lambda>c e. \<lparr>entry_chunk = c, entry_embedding = e\<rparr>) cs es)
      else Inl (DependencyUnavailableError index_preparation_message))"
proof (cases "length es = length cs")
  case True
  then show ?thesis by (simp add: to_index_entries_def pair_entries_ok)
next
  case False
  then have "\<not> list_all2 embeds cs es" by (auto dest: list_all2_lengthD)
  then show ?thesis using False by (simp add: to_index_entries_def)
qed

section \<open>Properties\<close>

text \<open>C10: INDEX-PIPELINE. Running extraction into the index changes the index only when extraction
  answered with chunks and the embedding port answered with one embedding per chunk, each naming
  its chunk; then exactly the paired entries are handed to the index once, in document order. In
  every other case the index is untouched, and the result is the extraction's own or an error.\<close>

theorem extraction_index_pipeline:
  "execute_extraction_index extract embedding_of index i =
     (case extract of
        Inl e \<Rightarrow> (Inl e, i)
      | Inr r \<Rightarrow>
          if er_chunks r = [] then (Inr r, i)
          else case embedding_of (er_chunks r) of
            Inl e \<Rightarrow> (Inl e, i)
          | Inr es \<Rightarrow>
              if list_all2 embeds (er_chunks r) es
              then map_prod (\<lambda>u. attempt u (\<lambda>_. Inr r)) id
                     (index i (map2 (\<lambda>c e. \<lparr>entry_chunk = c, entry_embedding = e\<rparr>) (er_chunks r) es))
              else (Inl (DependencyUnavailableError index_preparation_message), i))"
  by (auto simp: execute_extraction_index_def execute_index_def prepare_index_entries_def
      to_index_entries_spec split: sum.splits prod.splits)

end
