(* ===== verification/Regulatory.thy ===== *)
theory Regulatory
  imports Documents Workflow_State
begin

text \<open>
  Regulatory intelligence: the agent (application/agents/regulatory\_intelligence.py), the query
  execution, the workflow step and the graph node adapter
  (application/orchestration/regulatory\_intelligence\_*.py), and the inference adapter's treatment of
  a provider answer (infrastructure/regulatory/openai\_constraint\_inference.py). Search, inference,
  query embedding and the workflow context are ports and therefore arguments.
\<close>

section \<open>Agent\<close>

record regulatory_ports =
  rp_embed_query :: "string \<Rightarrow> query_embedding result"
  rp_search :: "search_query \<Rightarrow> document_chunk list result"
  rp_infer :: "document_chunk list \<Rightarrow> regulatory_constraint list result"

record regulatory_result = rr_constraints :: "regulatory_constraint list"

definition run_regulatory_agent ::
    "(search_query \<Rightarrow> document_chunk list result) \<Rightarrow> (document_chunk list \<Rightarrow> regulatory_constraint list result) \<Rightarrow>
     search_query \<Rightarrow> regulatory_result result" where
  "run_regulatory_agent search infer query =
     attempt (search query) (\<lambda>chunks.
       if chunks = [] then Inr \<lparr>rr_constraints = []\<rparr>
       else attempt (infer chunks) (\<lambda>constraints. Inr \<lparr>rr_constraints = constraints\<rparr>))"

section \<open>Query execution, step and node\<close>

definition execute_regulatory_query :: "regulatory_ports \<Rightarrow> string \<Rightarrow> int \<Rightarrow> regulatory_result result" where
  "execute_regulatory_query ports query_text limit =
     attempt (prepare_search_query (rp_embed_query ports) query_text limit) (\<lambda>query.
       run_regulatory_agent (rp_search ports) (rp_infer ports) query)"

record regulatory_request =
  rq_query_text :: string
  rq_limit :: int

definition run_regulatory_step :: "regulatory_ports \<Rightarrow> regulatory_request \<Rightarrow> regulatory_result result" where
  "run_regulatory_step ports request =
     execute_regulatory_query ports (rq_query_text request) (rq_limit request)"

text \<open>The context port: it resolves a request and records a result, in a state of its own.\<close>

record 'k regulatory_context =
  rc_resolve :: "'k \<Rightarrow> workflow_state \<Rightarrow> regulatory_request result"
  rc_record :: "'k \<Rightarrow> workflow_state \<Rightarrow> regulatory_result \<Rightarrow> unit result \<times> 'k"

definition run_regulatory_node ::
    "'k regulatory_context \<Rightarrow> regulatory_ports \<Rightarrow> 'k \<Rightarrow> workflow_state \<Rightarrow> workflow_state result \<times> 'k" where
  "run_regulatory_node context ports k s =
     (case rc_resolve context k s of
        Inl e \<Rightarrow> (Inl e, k)
      | Inr request \<Rightarrow>
          (case run_regulatory_step ports request of
             Inl e \<Rightarrow> (Inl e, k)
           | Inr r \<Rightarrow>
               (case rc_record context k s r of
                  (Inl e, k') \<Rightarrow> (Inl e, k')
                | (Inr _, k') \<Rightarrow> (Inr s, k'))))"

lemma run_regulatory_node_state: "fst (run_regulatory_node context ports k s) = Inr t \<Longrightarrow> t = s"
  by (auto simp: run_regulatory_node_def split: sum.splits prod.splits)

section \<open>Inference adapter\<close>

text \<open>
  The provider's candidates, after their own schema (ids stripped, at least one evidence chunk, finite
  bounds). The schema's parse is the provider library's; what the adapter does with the candidates is
  modelled here: evidence must be known, and every candidate must make a canonical constraint.
\<close>

definition inference_unavailable_message :: string where
  "inference_unavailable_message = ''Regulatory constraint inference is unavailable.''"

record constraint_candidate =
  cc_constraint :: regulatory_constraint
  cc_evidence_chunk_ids :: "string list"

definition evidence_is_known :: "string list \<Rightarrow> string set \<Rightarrow> bool" where
  "evidence_is_known evidence known \<longleftrightarrow> list_all (\<lambda>i. i \<in> known) evidence"

text \<open>A constraint that the canonical model refuses is a provider failure.\<close>

definition to_canonical :: "constraint_candidate \<Rightarrow> regulatory_constraint result" where
  "to_canonical candidate =
     (case validate_regulatory_constraint (cc_constraint candidate) of
        Inr c \<Rightarrow> Inr c
      | Inl _ \<Rightarrow> Inl (DependencyUnavailableError inference_unavailable_message))"

text \<open>The provider's answer: a refusal, no parsed output, or the candidates of a valid envelope.\<close>

datatype provider_answer = Refusal | Unparsed | Candidates "constraint_candidate list"

definition to_constraints ::
    "provider_answer \<Rightarrow> document_chunk list \<Rightarrow> regulatory_constraint list result" where
  "to_constraints answer chunks =
     (case answer of
        Refusal \<Rightarrow> Inl (DependencyUnavailableError inference_unavailable_message)
      | Unparsed \<Rightarrow> Inl (DependencyUnavailableError inference_unavailable_message)
      | Candidates cs \<Rightarrow>
          map_result
            (\<lambda>c. if \<not> evidence_is_known (cc_evidence_chunk_ids c) (chunk_chunk_id ` set chunks)
                 then Inl (DependencyUnavailableError inference_unavailable_message)
                 else to_canonical c) cs)"

text \<open>\<open>except OpenAIError\<close>: the vendor's errors become the application's; others pass.\<close>

definition openai_error :: exn where "openai_error = OtherException ''OpenAIError''"

definition translate_openai_error :: "string \<Rightarrow> 'a result \<Rightarrow> 'a result" where
  "translate_openai_error msg r =
     (case r of
        Inl e \<Rightarrow> Inl (if e = openai_error then DependencyUnavailableError msg else e)
      | Inr x \<Rightarrow> Inr x)"

lemma translate_openai_error_Inr_iff [result_simps]:
  "translate_openai_error msg r = Inr x \<longleftrightarrow> r = Inr x"
  by (cases r) (simp_all add: translate_openai_error_def)

definition infer_constraints ::
    "(document_chunk list \<Rightarrow> provider_answer result) \<Rightarrow> document_chunk list \<Rightarrow>
     regulatory_constraint list result" where
  "infer_constraints parse chunks =
     (if chunks = [] then Inr []
      else attempt (translate_openai_error inference_unavailable_message (parse chunks))
             (\<lambda>answer. to_constraints answer chunks))"

section \<open>Properties\<close>

text \<open>C20: EVIDENCE-GROUNDED. When the inference adapter answers, there is one canonical constraint per
  candidate of the provider, in order, and all evidence a candidate cites is a chunk it was given;
  one invented citation refuses the whole answer.\<close>

theorem inference_cites_supplied_chunks:
  "infer_constraints parse chunks = Inr constraints \<longleftrightarrow>
     (if chunks = [] then constraints = []
      else \<exists>cs. parse chunks = Inr (Candidates cs) \<and>
        list_all2 (\<lambda>c r. set (cc_evidence_chunk_ids c) \<subseteq> chunk_chunk_id ` set chunks \<and>
             validate_regulatory_constraint (cc_constraint c) = Inr r) cs constraints)"
proof -
  have element: "(if \<not> evidence_is_known (cc_evidence_chunk_ids c) known
         then Inl (DependencyUnavailableError inference_unavailable_message) else to_canonical c) = Inr r \<longleftrightarrow>
      set (cc_evidence_chunk_ids c) \<subseteq> known \<and> validate_regulatory_constraint (cc_constraint c) = Inr r"
    for c known r
    by (auto simp: evidence_is_known_def list_all_iff to_canonical_def split: sum.splits)
  show ?thesis
    unfolding infer_constraints_def to_constraints_def
    by (cases "parse chunks")
      (auto simp: map_result_Inr_iff element translate_openai_error_def split: provider_answer.splits)
qed

end
