(* ===== verification/Workflow_Graph.thy ===== *)
theory Workflow_Graph
  imports Failure_Handling Workflow_Context Regulatory
begin

text \<open>
  The workflow graph (application/orchestration/graph.py) with the two phase steps it runs
  (parallel\_ingestion\_workflow.py, forecasting\_workflow.py) and the ports those use. A graph
  invocation starts at the entry node and follows the declared edges to \<open>END\<close>, one node at a
  time, each node's answer becoming the state: the LangGraph runtime's documented meaning of this
  topology. What the nodes change outside the workflow state (the recorded successes and the
  regulatory context) is the memory of the run and survives an exception.
\<close>

section \<open>Environment and memory\<close>

text \<open>The services injected into \<open>build_workflow_graph\<close>, down to their ports.\<close>

record 'k workflow_services =
  svc_regulatory_context :: "'k regulatory_context"
  svc_regulatory_ports :: regulatory_ports
  svc_ingestion_execute :: "ingestion_plan \<Rightarrow> ingestion_success result"
  svc_ingestion_select :: failure_selector
  svc_ingestion_attempts :: attempt_source
  svc_ingestion_policy :: failure_decider
  svc_forecasting_execute :: "forecasting_plan \<Rightarrow> forecasting_success result"
  svc_forecasting_select :: failure_selector
  svc_forecasting_attempts :: attempt_source
  svc_forecasting_policy :: failure_decider

record 'k workflow_memory =
  wm_regulatory :: 'k
  wm_ingestion :: ingestion_context
  wm_forecasting :: read_after_write_context

section \<open>Phase steps\<close>

definition run_parallel_ingestion_step ::
    "(ingestion_plan \<Rightarrow> ingestion_success result) \<Rightarrow> ingestion_context \<Rightarrow> workflow_state \<Rightarrow>
     workflow_state result \<times> ingestion_context" where
  "run_parallel_ingestion_step execute c s =
     (case ingestion_resolve_plan c (ws_workflow_id s) of
        Inl e \<Rightarrow> (Inl e, c)
      | Inr plan \<Rightarrow>
          (case execute plan of
             Inl e \<Rightarrow> (Inl e, c)
           | Inr success \<Rightarrow>
               (case ingestion_record_success c (ws_workflow_id s) success of
                  (Inl e, c') \<Rightarrow> (Inl e, c')
                | (Inr _, c') \<Rightarrow> (Inr s, c'))))"

definition run_forecasting_step ::
    "(forecasting_plan \<Rightarrow> forecasting_success result) \<Rightarrow> read_after_write_context \<Rightarrow> workflow_state \<Rightarrow>
     workflow_state result \<times> read_after_write_context" where
  "run_forecasting_step execute c s =
     (case rw_resolve_plan c s of
        Inl e \<Rightarrow> (Inl e, c)
      | Inr plan \<Rightarrow>
          (case execute plan of
             Inl e \<Rightarrow> (Inl e, c)
           | Inr success \<Rightarrow>
               (case rw_record_success c s success of
                  (Inl e, c') \<Rightarrow> (Inl e, c')
                | (Inr _, c') \<Rightarrow> (Inr s, c'))))"

section \<open>Nodes\<close>

datatype graph_node =
    WorkflowEntry
  | RegulatoryIntelligence
  | ParallelIngestion
  | ParallelIngestionSuccessTransition
  | Forecasting
  | ForecastingSuccessTransition

text \<open>\<open>except BaseExceptionGroup\<close>: a group goes to the handler, any other exception passes.\<close>

definition catch_group ::
    "(exn list \<Rightarrow> workflow_state result) \<Rightarrow> workflow_state result \<Rightarrow> workflow_state result" where
  "catch_group handler r =
     (case r of
        Inl e \<Rightarrow> (case e of ExceptionGroup es \<Rightarrow> handler es | _ \<Rightarrow> Inl e)
      | Inr t \<Rightarrow> Inr t)"

definition regulatory_intelligence_node ::
    "'k workflow_services \<Rightarrow> 'k workflow_memory \<Rightarrow> workflow_state \<Rightarrow> workflow_state result \<times> 'k workflow_memory" where
  "regulatory_intelligence_node v m s =
     (case run_regulatory_node (svc_regulatory_context v) (svc_regulatory_ports v) (wm_regulatory m) s of
        (r, k) \<Rightarrow> (r, m\<lparr>wm_regulatory := k\<rparr>))"

definition parallel_ingestion_node ::
    "'k workflow_services \<Rightarrow> 'k workflow_memory \<Rightarrow> workflow_state \<Rightarrow> workflow_state result \<times> 'k workflow_memory" where
  "parallel_ingestion_node v m s =
     (case run_parallel_ingestion_step (svc_ingestion_execute v) (wm_ingestion m) s of
        (r, c) \<Rightarrow>
          (catch_group
             (parallel_ingestion_failure_runtime_handle (svc_ingestion_select v) (svc_ingestion_attempts v)
                (svc_ingestion_policy v) s) r,
           m\<lparr>wm_ingestion := c\<rparr>))"

definition forecasting_node ::
    "'k workflow_services \<Rightarrow> 'k workflow_memory \<Rightarrow> workflow_state \<Rightarrow> workflow_state result \<times> 'k workflow_memory" where
  "forecasting_node v m s =
     (case run_forecasting_step (svc_forecasting_execute v) (wm_forecasting m) s of
        (r, c) \<Rightarrow>
          (catch_group
             (forecasting_failure_runtime_handle (svc_forecasting_select v) (svc_forecasting_attempts v)
                (svc_forecasting_policy v) s) r,
           m\<lparr>wm_forecasting := c\<rparr>))"

fun run_node ::
    "'k workflow_services \<Rightarrow> graph_node \<Rightarrow> 'k workflow_memory \<Rightarrow> workflow_state \<Rightarrow>
     workflow_state result \<times> 'k workflow_memory" where
  "run_node v WorkflowEntry m s = (Inr s, m)"
| "run_node v RegulatoryIntelligence m s = regulatory_intelligence_node v m s"
| "run_node v ParallelIngestion m s = parallel_ingestion_node v m s"
| "run_node v ParallelIngestionSuccessTransition m s = (advance_after_parallel_ingestion s, m)"
| "run_node v Forecasting m s = forecasting_node v m s"
| "run_node v ForecastingSuccessTransition m s = (advance_after_forecasting s, m)"

section \<open>Routing and edges\<close>

definition invalid_entry_route_message :: string where
  "invalid_entry_route_message =
     ''Workflow entry routing requires contract running, ingestion running, or forecasting running status.''"

definition invalid_post_phase2_route_message :: string where
  "invalid_post_phase2_route_message =
     ''Parallel-ingestion routing requires ingestion phase and running or failed status.''"

definition invalid_post_phase3_route_message :: string where
  "invalid_post_phase3_route_message =
     ''Forecasting routing requires forecasting phase and running or failed status.''"

text \<open>\<open>None\<close> stands for \<open>END\<close>.\<close>

definition route_after_workflow_entry :: "workflow_state \<Rightarrow> graph_node option result" where
  "route_after_workflow_entry s =
     (if ws_phase s = CONTRACT \<and> ws_status s = RUNNING then Inr (Some RegulatoryIntelligence)
      else if ws_phase s = INGESTION \<and> ws_status s = RUNNING then Inr (Some ParallelIngestion)
      else if ws_phase s = FORECASTING \<and> ws_status s = RUNNING then Inr (Some Forecasting)
      else Inl (InvalidRequestError invalid_entry_route_message))"

definition route_after_parallel_ingestion :: "workflow_state \<Rightarrow> graph_node option result" where
  "route_after_parallel_ingestion s =
     (if ws_phase s = INGESTION \<and> ws_status s = RUNNING then Inr (Some ParallelIngestionSuccessTransition)
      else if ws_phase s = INGESTION \<and> ws_status s = FAILED then Inr None
      else Inl (InvalidRequestError invalid_post_phase2_route_message))"

definition route_after_forecasting :: "workflow_state \<Rightarrow> graph_node option result" where
  "route_after_forecasting s =
     (if ws_phase s = FORECASTING \<and> ws_status s = RUNNING then Inr (Some ForecastingSuccessTransition)
      else if ws_phase s = FORECASTING \<and> ws_status s = FAILED then Inr None
      else Inl (InvalidRequestError invalid_post_phase3_route_message))"

fun next_node :: "graph_node \<Rightarrow> workflow_state \<Rightarrow> graph_node option result" where
  "next_node WorkflowEntry s = route_after_workflow_entry s"
| "next_node RegulatoryIntelligence s = Inr None"
| "next_node ParallelIngestion s = route_after_parallel_ingestion s"
| "next_node ParallelIngestionSuccessTransition s = Inr None"
| "next_node Forecasting s = route_after_forecasting s"
| "next_node ForecastingSuccessTransition s = Inr None"

section \<open>Invocation\<close>

text \<open>
  Each node leads to nodes of a later rank, so an invocation visits at most three: the recursion is on
  the rank left, and \<open>graph_depth\<close> of the entry node is enough.
\<close>

fun graph_depth :: "graph_node \<Rightarrow> nat" where
  "graph_depth WorkflowEntry = 3"
| "graph_depth ParallelIngestion = 2"
| "graph_depth Forecasting = 2"
| "graph_depth _ = 1"

lemma next_node_depth: "next_node n s = Inr (Some n') \<Longrightarrow> graph_depth n' < graph_depth n"
  by (cases n) (auto simp: route_after_workflow_entry_def route_after_parallel_ingestion_def
      route_after_forecasting_def split: if_splits)

function run_from ::
    "'k workflow_services \<Rightarrow> graph_node \<Rightarrow> 'k workflow_memory \<Rightarrow> workflow_state \<Rightarrow>
     workflow_state result \<times> 'k workflow_memory" where
  "run_from v n m s =
     (case run_node v n m s of
        (Inl e, m') \<Rightarrow> (Inl e, m')
      | (Inr t, m') \<Rightarrow>
          (case next_node n t of
             Inl e \<Rightarrow> (Inl e, m')
           | Inr None \<Rightarrow> (Inr t, m')
           | Inr (Some n') \<Rightarrow> run_from v n' m' t))"
  by pat_completeness auto
termination
  by (relation "measure (\<lambda>(v, n, m, s). graph_depth n)") (auto dest: next_node_depth)

declare run_from.simps [simp del]

definition invoke ::
    "'k workflow_services \<Rightarrow> 'k workflow_memory \<Rightarrow> workflow_state \<Rightarrow> workflow_state result \<times> 'k workflow_memory" where
  "invoke v m s = run_from v WorkflowEntry m s"

section \<open>What an invocation does, by phase\<close>

lemma run_from_Inr:
  "run_node v n m s = (Inr t, m') \<Longrightarrow> run_from v n m s =
     (case next_node n t of
        Inl e \<Rightarrow> (Inl e, m')
      | Inr None \<Rightarrow> (Inr t, m')
      | Inr (Some n') \<Rightarrow> run_from v n' m' t)"
  by (subst run_from.simps) simp

lemma run_from_Inl: "run_node v n m s = (Inl e, m') \<Longrightarrow> run_from v n m s = (Inl e, m')"
  by (subst run_from.simps) simp

lemma invoke_entry:
  "invoke v m s =
     (case route_after_workflow_entry s of
        Inl e \<Rightarrow> (Inl e, m)
      | Inr None \<Rightarrow> (Inr s, m)
      | Inr (Some n) \<Rightarrow> run_from v n m s)"
  unfolding invoke_def by (subst run_from_Inr [of v WorkflowEntry m s s m]) simp_all

text \<open>The nodes with an edge to \<open>END\<close>.\<close>

lemma run_last_node:
  "run_from v RegulatoryIntelligence m s = regulatory_intelligence_node v m s"
  "run_from v ParallelIngestionSuccessTransition m s = (advance_after_parallel_ingestion s, m)"
  "run_from v ForecastingSuccessTransition m s = (advance_after_forecasting s, m)"
  by (subst run_from.simps, simp split: sum.split prod.split)+

lemma invoke_contract:
  assumes "ws_phase s = CONTRACT" "ws_status s = RUNNING"
  shows "invoke v m s = regulatory_intelligence_node v m s"
  using assms by (simp add: invoke_entry route_after_workflow_entry_def run_last_node)

lemma invoke_refused:
  assumes "ws_status s \<noteq> RUNNING \<or> ws_phase s \<notin> {CONTRACT, INGESTION, FORECASTING}"
  shows "invoke v m s = (Inl (InvalidRequestError invalid_entry_route_message), m)"
proof -
  have "route_after_workflow_entry s = Inl (InvalidRequestError invalid_entry_route_message)"
    using assms unfolding route_after_workflow_entry_def
    by (cases "ws_phase s"; cases "ws_status s") simp_all
  then show ?thesis by (simp add: invoke_entry)
qed

text \<open>A node followed by its routing and, when routed on, by a transition node that ends the run.\<close>

definition then_transition ::
    "(workflow_state \<Rightarrow> graph_node option result) \<Rightarrow> (workflow_state \<Rightarrow> workflow_state result) \<Rightarrow>
     workflow_state result \<times> 'm \<Rightarrow> workflow_state result \<times> 'm" where
  "then_transition route advance rm =
     (attempt (fst rm) (\<lambda>t. attempt (route t) (\<lambda>n. case n of None \<Rightarrow> Inr t | Some _ \<Rightarrow> advance t)), snd rm)"

lemma invoke_ingestion:
  assumes "ws_phase s = INGESTION" "ws_status s = RUNNING"
  shows "invoke v m s = then_transition route_after_parallel_ingestion advance_after_parallel_ingestion
    (parallel_ingestion_node v m s)"
proof -
  have *: "invoke v m s = run_from v ParallelIngestion m s"
    using assms by (simp add: invoke_entry route_after_workflow_entry_def)
  obtain r m' where r: "parallel_ingestion_node v m s = (r, m')" by fastforce
  show ?thesis
  proof (cases r)
    case (Inl e)
    then show ?thesis using * r run_from_Inl [of v ParallelIngestion m s]
      by (simp add: then_transition_def)
  next
    case (Inr t)
    then have "run_from v ParallelIngestion m s =
        (case route_after_parallel_ingestion t of
           Inl e \<Rightarrow> (Inl e, m') | Inr None \<Rightarrow> (Inr t, m') | Inr (Some n) \<Rightarrow> run_from v n m' t)"
      using r by (subst run_from_Inr [of v ParallelIngestion m s t m']) simp_all
    then show ?thesis using * r Inr
      by (auto simp: then_transition_def route_after_parallel_ingestion_def run_last_node)
  qed
qed

lemma invoke_forecasting:
  assumes "ws_phase s = FORECASTING" "ws_status s = RUNNING"
  shows "invoke v m s = then_transition route_after_forecasting advance_after_forecasting
    (forecasting_node v m s)"
proof -
  have *: "invoke v m s = run_from v Forecasting m s"
    using assms by (simp add: invoke_entry route_after_workflow_entry_def)
  obtain r m' where r: "forecasting_node v m s = (r, m')" by fastforce
  show ?thesis
  proof (cases r)
    case (Inl e)
    then show ?thesis using * r run_from_Inl [of v Forecasting m s] by (simp add: then_transition_def)
  next
    case (Inr t)
    then have "run_from v Forecasting m s =
        (case route_after_forecasting t of
           Inl e \<Rightarrow> (Inl e, m') | Inr None \<Rightarrow> (Inr t, m') | Inr (Some n) \<Rightarrow> run_from v n m' t)"
      using r by (subst run_from_Inr [of v Forecasting m s t m']) simp_all
    then show ?thesis using * r Inr
      by (auto simp: then_transition_def route_after_forecasting_def run_last_node)
  qed
qed

section \<open>What the nodes leave behind\<close>

text \<open>A handler that answers has applied its failure transition, whatever the ports.\<close>

lemma handle_failure_group_Inr:
  assumes "handle_failure_group F select attempts policy s es = Inr t"
  shows "ff_fail F s = Inr t"
proof -
  obtain action where "execute_failure_action F s action = Inr t"
    using assms by (auto simp: handle_failure_group_def handle_failure_def result_simps)
  then show ?thesis by (cases action) (simp_all add: execute_failure_action_def)
qed

lemma runtime_handle_Inr:
  "parallel_ingestion_failure_runtime_handle select attempts policy s es = Inr t \<Longrightarrow> fail_parallel_ingestion s = Inr t"
  "forecasting_failure_runtime_handle select attempts policy s es = Inr t \<Longrightarrow> fail_after_forecasting s = Inr t"
  by (auto simp: parallel_ingestion_failure_runtime_handle_def forecasting_runtime_handle_eq
      parallel_ingestion_family_def forecasting_family_def dest: handle_failure_group_Inr)

lemma catch_group_Inr:
  "catch_group h r = Inr t \<longleftrightarrow> r = Inr t \<or> (\<exists>es. r = Inl (ExceptionGroup es) \<and> h es = Inr t)"
  by (auto simp: catch_group_def split: sum.splits exn.splits)

text \<open>A phase step returns its state, and then the workflow's success is recorded.\<close>

lemma snd_after_record [simp]:
  "snd (case p of (Inl e, c) \<Rightarrow> (Inl e, c) | (Inr u, c) \<Rightarrow> (Inr s, c)) = snd p"
  by (simp split: prod.split sum.split)

lemma ingestion_step_cases:
  obtains e where "run_parallel_ingestion_step execute c s = (Inl e, c)"
  | success where "run_parallel_ingestion_step execute c s =
      (case ingestion_record_success c (ws_workflow_id s) success of
         (Inl e, c') \<Rightarrow> (Inl e, c') | (Inr _, c') \<Rightarrow> (Inr s, c'))"
proof (cases "ingestion_resolve_plan c (ws_workflow_id s)")
  case (Inl e)
  then show ?thesis using that(1) by (simp add: run_parallel_ingestion_step_def)
next
  case (Inr plan)
  then show ?thesis using that by (cases "execute plan") (simp_all add: run_parallel_ingestion_step_def)
qed

lemma ingestion_step_memory:
  "snd (run_parallel_ingestion_step execute c s) = c \<or>
   (\<exists>success. snd (run_parallel_ingestion_step execute c s) =
      snd (ingestion_record_success c (ws_workflow_id s) success))"
  by (rule ingestion_step_cases [of execute c s]) auto

lemma ingestion_step_ok:
  assumes "run_parallel_ingestion_step execute c s = (Inr t, c')"
  shows "t = s \<and> mc_successes c' (ws_workflow_id s) \<noteq> None"
proof (rule ingestion_step_cases [of execute c s])
  fix e assume "run_parallel_ingestion_step execute c s = (Inl e, c)"
  then show ?thesis using assms by simp
next
  fix success
  assume step: "run_parallel_ingestion_step execute c s =
      (case ingestion_record_success c (ws_workflow_id s) success of
         (Inl e, c') \<Rightarrow> (Inl e, c') | (Inr _, c') \<Rightarrow> (Inr s, c'))"
  obtain r d where rd: "ingestion_record_success c (ws_workflow_id s) success = (r, d)" by fastforce
  then have "r = Inr ()" "d = c'" "t = s" using assms step by (cases r; simp)+
  then show ?thesis using ingestion_store.write_read [of c "ws_workflow_id s" success] rd by auto
qed

lemma ingestion_step_keeps:
  "mc_successes c w = Some x \<Longrightarrow> mc_successes (snd (run_parallel_ingestion_step execute c s)) w = Some x"
  using ingestion_step_memory [of execute c s] ingestion_store.write_keeps [of c w x] by auto

lemma forecasting_step_cases:
  obtains e where "run_forecasting_step execute c s = (Inl e, c)"
  | success where "run_forecasting_step execute c s =
      (case rw_record_success c s success of
         (Inl e, c') \<Rightarrow> (Inl e, c') | (Inr _, c') \<Rightarrow> (Inr s, c'))"
proof (cases "rw_resolve_plan c s")
  case (Inl e)
  then show ?thesis using that(1) by (simp add: run_forecasting_step_def)
next
  case (Inr plan)
  then show ?thesis using that by (cases "execute plan") (simp_all add: run_forecasting_step_def)
qed

lemma forecasting_step_memory:
  "snd (run_forecasting_step execute c s) = c \<or>
   (\<exists>success. snd (run_forecasting_step execute c s) = snd (rw_record_success c s success))"
  by (rule forecasting_step_cases [of execute c s]) auto

lemma rw_record_read:
  assumes "rw_ok c" "rw_record_success c s success = (Inr (), d)"
  shows "rw_successes d (ws_workflow_id s) \<noteq> None"
  using read_after_write_store.write_read [OF assms(1), of "ws_workflow_id s" success] assms(2)
  by (auto simp: rw_record_by_id [symmetric])

lemma rw_record_keeps:
  "rw_ok c \<Longrightarrow> rw_successes c w = Some x \<Longrightarrow> rw_successes (snd (rw_record_success c s success)) w = Some x"
  using read_after_write_store.write_keeps [of c w x "ws_workflow_id s" success]
  by (simp add: rw_record_by_id [symmetric])

lemma forecasting_step_ok:
  assumes "rw_ok c" "run_forecasting_step execute c s = (Inr t, c')"
  shows "t = s \<and> rw_successes c' (ws_workflow_id s) \<noteq> None"
proof (rule forecasting_step_cases [of execute c s])
  fix e assume "run_forecasting_step execute c s = (Inl e, c)"
  then show ?thesis using assms by simp
next
  fix success
  assume step: "run_forecasting_step execute c s =
      (case rw_record_success c s success of (Inl e, c') \<Rightarrow> (Inl e, c') | (Inr _, c') \<Rightarrow> (Inr s, c'))"
  obtain r d where rd: "rw_record_success c s success = (r, d)" by fastforce
  then have "r = Inr ()" "d = c'" "t = s" using assms step by (cases r; simp)+
  then show ?thesis using rw_record_read [OF assms(1)] rd by auto
qed

lemma forecasting_step_keeps:
  assumes "rw_ok c"
  shows "rw_ok (snd (run_forecasting_step execute c s))"
    and "rw_successes c w = Some x \<Longrightarrow> rw_successes (snd (run_forecasting_step execute c s)) w = Some x"
  using forecasting_step_memory [of execute c s] rw_record_ok [OF assms] rw_record_keeps [OF assms] assms
  by auto

section \<open>Invocations\<close>

text \<open>Everything a successful invocation can do to a well-formed state, and what it has recorded by then.\<close>

definition invocation_effect :: "workflow_state \<Rightarrow> 'k workflow_memory \<Rightarrow> workflow_state \<Rightarrow> bool" where
  "invocation_effect s m' t \<longleftrightarrow>
     ws_phase s = CONTRACT \<and> t = s \<or>
     ws_phase s = INGESTION \<and> t = s\<lparr>ws_phase := INGESTION, ws_status := FAILED\<rparr> \<or>
     ws_phase s = INGESTION \<and> t = s\<lparr>ws_phase := FORECASTING, ws_status := RUNNING\<rparr> \<and>
       mc_successes (wm_ingestion m') (ws_workflow_id s) \<noteq> None \<or>
     ws_phase s = FORECASTING \<and> t = s\<lparr>ws_phase := FORECASTING, ws_status := FAILED\<rparr> \<or>
     ws_phase s = FORECASTING \<and> t = s\<lparr>ws_phase := RISK_AND_BID, ws_status := RUNNING\<rparr> \<and>
       rw_successes (wm_forecasting m') (ws_workflow_id s) \<noteq> None"

lemma then_transition_Inr:
  "then_transition route advance (r, m') = (Inr t, m'') \<longleftrightarrow>
   m'' = m' \<and> (\<exists>u n. r = Inr u \<and> route u = Inr n \<and> (case n of None \<Rightarrow> t = u | Some _ \<Rightarrow> advance u = Inr t))"
  by (auto simp: then_transition_def result_simps split: option.splits)

lemma ingestion_invocation:
  assumes ok: "workflow_state_ok s" and s: "ws_phase s = INGESTION" "ws_status s = RUNNING"
    and inv: "invoke v m s = (Inr t, m')"
  shows "invocation_effect s m' t"
proof -
  obtain r c where step: "run_parallel_ingestion_step (svc_ingestion_execute v) (wm_ingestion m) s = (r, c)"
    by fastforce
  let ?h = "parallel_ingestion_failure_runtime_handle (svc_ingestion_select v) (svc_ingestion_attempts v)
      (svc_ingestion_policy v) s"
  have node: "parallel_ingestion_node v m s = (catch_group ?h r, m\<lparr>wm_ingestion := c\<rparr>)"
    by (simp add: parallel_ingestion_node_def step)
  obtain u n where m': "m' = m\<lparr>wm_ingestion := c\<rparr>" and u: "catch_group ?h r = Inr u"
    and n: "route_after_parallel_ingestion u = Inr n"
    and t: "case n of None \<Rightarrow> t = u | Some _ \<Rightarrow> advance_after_parallel_ingestion u = Inr t"
    using inv unfolding invoke_ingestion [OF s] node then_transition_Inr by blast
  from u consider "r = Inr u" | es where "?h es = Inr u" by (auto simp: catch_group_Inr)
  then show ?thesis
  proof cases
    case 1
    with step have "u = s" "mc_successes c (ws_workflow_id s) \<noteq> None"
      using ingestion_step_ok [of _ _ _ u c] by auto
    then show ?thesis using n t s ok m'
      by (auto simp: route_after_parallel_ingestion_def transition_ok invocation_effect_def)
  next
    case 2
    then have "fail_parallel_ingestion s = Inr u" by (rule runtime_handle_Inr)
    then have "u = s\<lparr>ws_phase := INGESTION, ws_status := FAILED\<rparr>" using ok by (simp add: transition_ok)
    then show ?thesis using n t s by (auto simp: route_after_parallel_ingestion_def invocation_effect_def)
  qed
qed

lemma forecasting_invocation:
  assumes ok: "workflow_state_ok s" "rw_ok (wm_forecasting m)"
    and s: "ws_phase s = FORECASTING" "ws_status s = RUNNING"
    and inv: "invoke v m s = (Inr t, m')"
  shows "invocation_effect s m' t"
proof -
  obtain r c where step: "run_forecasting_step (svc_forecasting_execute v) (wm_forecasting m) s = (r, c)"
    by fastforce
  let ?h = "forecasting_failure_runtime_handle (svc_forecasting_select v) (svc_forecasting_attempts v)
      (svc_forecasting_policy v) s"
  have node: "forecasting_node v m s = (catch_group ?h r, m\<lparr>wm_forecasting := c\<rparr>)"
    by (simp add: forecasting_node_def step)
  obtain u n where m': "m' = m\<lparr>wm_forecasting := c\<rparr>" and u: "catch_group ?h r = Inr u"
    and n: "route_after_forecasting u = Inr n"
    and t: "case n of None \<Rightarrow> t = u | Some _ \<Rightarrow> advance_after_forecasting u = Inr t"
    using inv unfolding invoke_forecasting [OF s] node then_transition_Inr by blast
  from u consider "r = Inr u" | es where "?h es = Inr u" by (auto simp: catch_group_Inr)
  then show ?thesis
  proof cases
    case 1
    with step have "u = s" "rw_successes c (ws_workflow_id s) \<noteq> None"
      using forecasting_step_ok [OF ok(2)] by auto
    then show ?thesis using n t s ok(1) m'
      by (auto simp: route_after_forecasting_def transition_ok invocation_effect_def)
  next
    case 2
    then have "fail_after_forecasting s = Inr u" by (rule runtime_handle_Inr)
    then have "u = s\<lparr>ws_phase := FORECASTING, ws_status := FAILED\<rparr>" using ok(1) by (simp add: transition_ok)
    then show ?thesis using n t s by (auto simp: route_after_forecasting_def invocation_effect_def)
  qed
qed

text \<open>The memory only grows: what is recorded stays, whatever a node or an invocation does.\<close>

definition memory_grows :: "'k workflow_memory \<Rightarrow> 'k workflow_memory \<Rightarrow> bool" where
  "memory_grows m m' \<longleftrightarrow>
     (\<forall>w x. mc_successes (wm_ingestion m) w = Some x \<longrightarrow> mc_successes (wm_ingestion m') w = Some x) \<and>
     (rw_ok (wm_forecasting m) \<longrightarrow> rw_ok (wm_forecasting m') \<and>
        (\<forall>w x. rw_successes (wm_forecasting m) w = Some x \<longrightarrow> rw_successes (wm_forecasting m') w = Some x))"

lemma memory_grows_refl [simp]: "memory_grows m m"
  by (simp add: memory_grows_def)

lemma memory_grows_trans: "memory_grows m m' \<Longrightarrow> memory_grows m' m'' \<Longrightarrow> memory_grows m m''"
  by (simp add: memory_grows_def)

lemma snd_node:
  "snd (parallel_ingestion_node v m s) =
     m\<lparr>wm_ingestion := snd (run_parallel_ingestion_step (svc_ingestion_execute v) (wm_ingestion m) s)\<rparr>"
  "snd (forecasting_node v m s) =
     m\<lparr>wm_forecasting := snd (run_forecasting_step (svc_forecasting_execute v) (wm_forecasting m) s)\<rparr>"
  "snd (regulatory_intelligence_node v m s) =
     m\<lparr>wm_regulatory := snd (run_regulatory_node (svc_regulatory_context v) (svc_regulatory_ports v)
                              (wm_regulatory m) s)\<rparr>"
  by (simp_all add: parallel_ingestion_node_def forecasting_node_def regulatory_intelligence_node_def
      split: prod.split)

lemma run_node_grows: "memory_grows m (snd (run_node v n m s))"
  by (cases n) (simp_all add: snd_node memory_grows_def ingestion_step_keeps forecasting_step_keeps)

lemma run_from_grows: "memory_grows m (snd (run_from v n m s))"
proof (induction v n m s rule: run_from.induct)
  case (1 v n m s)
  obtain r m' where node: "run_node v n m s = (r, m')" by fastforce
  then have grows: "memory_grows m m'" using run_node_grows [of m v n s] by simp
  show ?case
  proof (cases r)
    case (Inl e)
    then show ?thesis using run_from_Inl [of v n m s e m'] node grows by simp
  next
    case (Inr t)
    have onward: "memory_grows m' (snd (run_from v n' m' t))" if "next_node n t = Inr (Some n')" for n'
      by (rule 1 [OF node [symmetric] Inr that]) simp
    show ?thesis using onward grows memory_grows_trans [OF grows]
      by (subst run_from_Inr [of v n m s t m'])
        (auto simp: node Inr split: sum.split option.split)
  qed
qed

lemma invoke_grows: "memory_grows m (snd (invoke v m s))"
  unfolding invoke_def by (rule run_from_grows)

lemma invocation_effect_cases:
  assumes "workflow_state_ok s" "rw_ok (wm_forecasting m)" "invoke v m s = (Inr t, m')"
  shows "ws_status s = RUNNING" "invocation_effect s m' t"
proof -
  have "\<not> (ws_status s \<noteq> RUNNING \<or> ws_phase s \<notin> {CONTRACT, INGESTION, FORECASTING})"
    using invoke_refused [of s v m] assms(3) by force
  then have running: "ws_status s = RUNNING" and phase: "ws_phase s \<in> {CONTRACT, INGESTION, FORECASTING}"
    by simp_all
  then consider "ws_phase s = CONTRACT" | "ws_phase s = INGESTION" | "ws_phase s = FORECASTING" by blast
  then show "invocation_effect s m' t"
  proof cases
    case 1
    then have "regulatory_intelligence_node v m s = (Inr t, m')"
      using assms(3) by (simp add: invoke_contract [OF 1 running])
    then have "fst (run_regulatory_node (svc_regulatory_context v) (svc_regulatory_ports v)
        (wm_regulatory m) s) = Inr t"
      by (auto simp: regulatory_intelligence_node_def split: prod.splits)
    then show ?thesis using 1 run_regulatory_node_state by (auto simp: invocation_effect_def)
  next
    case 2
    then show ?thesis using ingestion_invocation [OF assms(1) 2 running assms(3)] by simp
  next
    case 3
    then show ?thesis using forecasting_invocation [OF assms(1,2) 3 running assms(3)] by simp
  qed
  show "ws_status s = RUNNING" by (rule running)
qed

section \<open>Workflows sharing one memory\<close>

text \<open>
  The deployed system: several workflows, each with its latest snapshot, and the memory they share.
  A workflow is submitted in its contract or ingestion phase; an invocation that returns replaces the
  snapshot, one that raises leaves it, and either may have written the memory. The services may
  differ from one invocation to the next, so every behaviour of the ports is covered.
\<close>

record 'k workflow_system =
  sys_memory :: "'k workflow_memory"
  sys_states :: "string \<rightharpoonup> workflow_state"

inductive system_step :: "'k workflow_system \<Rightarrow> 'k workflow_system \<Rightarrow> bool" where
  submit: "workflow_state_ok s \<Longrightarrow> ws_phase s = CONTRACT \<or> ws_phase s = INGESTION \<Longrightarrow>
    sys_states \<sigma> (ws_workflow_id s) = None \<Longrightarrow>
    system_step \<sigma> (\<sigma>\<lparr>sys_states := (sys_states \<sigma>)(ws_workflow_id s \<mapsto> s)\<rparr>)"
| returned: "sys_states \<sigma> w = Some s \<Longrightarrow> invoke v (sys_memory \<sigma>) s = (Inr t, m') \<Longrightarrow>
    system_step \<sigma> (\<sigma>\<lparr>sys_memory := m', sys_states := (sys_states \<sigma>)(w \<mapsto> t)\<rparr>)"
| raised: "sys_states \<sigma> w = Some s \<Longrightarrow> invoke v (sys_memory \<sigma>) s = (Inl e, m') \<Longrightarrow>
    system_step \<sigma> (\<sigma>\<lparr>sys_memory := m'\<rparr>)"

inductive_cases system_stepE: "system_step \<sigma> \<sigma>'"

definition initial_system ::
    "'k \<Rightarrow> (string \<rightharpoonup> ingestion_plan) \<Rightarrow> (string \<rightharpoonup> forecasting_plan) \<Rightarrow> 'k workflow_system" where
  "initial_system k ingestion_plans forecasting_plans =
     \<lparr>sys_memory = \<lparr>wm_regulatory = k, wm_ingestion = empty_memory_context ingestion_plans,
        wm_forecasting = empty_read_after_write (empty_memory_context forecasting_plans)\<rparr>,
      sys_states = Map.empty\<rparr>"

text \<open>How far a workflow is, against what is recorded for it.\<close>

definition workflow_backed :: "'k workflow_memory \<Rightarrow> string \<Rightarrow> workflow_state \<Rightarrow> bool" where
  "workflow_backed m w s \<longleftrightarrow>
     ws_workflow_id s = w \<and> workflow_state_ok s \<and> ws_phase s \<le> RISK_AND_BID \<and>
     (FORECASTING \<le> ws_phase s \<longrightarrow> mc_successes (wm_ingestion m) w \<noteq> None) \<and>
     (RISK_AND_BID \<le> ws_phase s \<longrightarrow> rw_successes (wm_forecasting m) w \<noteq> None)"

definition system_ok :: "'k workflow_system \<Rightarrow> bool" where
  "system_ok \<sigma> \<longleftrightarrow> rw_ok (wm_forecasting (sys_memory \<sigma>)) \<and>
     (\<forall>w s. sys_states \<sigma> w = Some s \<longrightarrow> workflow_backed (sys_memory \<sigma>) w s)"

lemma phase_order_simps [simp]:
  "CONTRACT \<le> p" "\<not> FORECASTING \<le> CONTRACT" "\<not> RISK_AND_BID \<le> CONTRACT" "INGESTION \<le> RISK_AND_BID"
  "\<not> RISK_AND_BID \<le> INGESTION"
  by (cases p; simp add: less_eq_workflow_phase_def)+

lemma workflow_backed_grows:
  assumes "workflow_backed m w s" "memory_grows m m'" "rw_ok (wm_forecasting m)"
  shows "workflow_backed m' w s"
  using assms unfolding workflow_backed_def memory_grows_def by blast

lemma workflow_backed_effect:
  assumes b: "workflow_backed m w s" and g: "memory_grows m m'" "rw_ok (wm_forecasting m)"
    and e: "invocation_effect s m' t"
  shows "workflow_backed m' w t"
proof -
  have "workflow_backed m' w s" using b g by (rule workflow_backed_grows)
  then show ?thesis using e unfolding invocation_effect_def
    by (elim disjE conjE) (simp_all add: workflow_backed_def)
qed

lemma system_ok_step:
  assumes "system_ok \<sigma>" "system_step \<sigma> \<sigma>'"
  shows "system_ok \<sigma>'"
  using assms(2)
proof (rule system_stepE)
  fix s
  assume "\<sigma>' = \<sigma>\<lparr>sys_states := (sys_states \<sigma>)(ws_workflow_id s \<mapsto> s)\<rparr>" "workflow_state_ok s"
    "ws_phase s = CONTRACT \<or> ws_phase s = INGESTION"
  then show ?thesis using assms(1) by (auto simp: system_ok_def workflow_backed_def)
next
  fix w s v t m'
  assume \<sigma>': "\<sigma>' = \<sigma>\<lparr>sys_memory := m', sys_states := (sys_states \<sigma>)(w \<mapsto> t)\<rparr>"
    and s: "sys_states \<sigma> w = Some s" and inv: "invoke v (sys_memory \<sigma>) s = (Inr t, m')"
  have rw: "rw_ok (wm_forecasting (sys_memory \<sigma>))" and b: "workflow_backed (sys_memory \<sigma>) w s"
    using assms(1) s by (auto simp: system_ok_def)
  have g: "memory_grows (sys_memory \<sigma>) m'" using invoke_grows [of "sys_memory \<sigma>" v s] inv by simp
  have "invocation_effect s m' t"
    using invocation_effect_cases(2) [OF _ rw inv] b by (simp add: workflow_backed_def)
  then have "workflow_backed m' w t" by (rule workflow_backed_effect [OF b g rw])
  moreover have "rw_ok (wm_forecasting m')" using g rw by (simp add: memory_grows_def)
  ultimately show ?thesis
    using assms(1) workflow_backed_grows [OF _ g rw] by (auto simp: system_ok_def \<sigma>')
next
  fix w s v e m'
  assume \<sigma>': "\<sigma>' = \<sigma>\<lparr>sys_memory := m'\<rparr>"
    and inv: "invoke v (sys_memory \<sigma>) s = (Inl e, m')"
  have rw: "rw_ok (wm_forecasting (sys_memory \<sigma>))" using assms(1) by (simp add: system_ok_def)
  have g: "memory_grows (sys_memory \<sigma>) m'" using invoke_grows [of "sys_memory \<sigma>" v s] inv by simp
  moreover have "rw_ok (wm_forecasting m')" using g rw by (simp add: memory_grows_def)
  ultimately show ?thesis
    using assms(1) workflow_backed_grows [OF _ g rw] by (auto simp: system_ok_def \<sigma>')
qed

lemma system_ok_initial: "system_ok (initial_system k ip fp)"
  by (simp add: system_ok_def initial_system_def)

lemma system_ok_reachable: "system_step\<^sup>*\<^sup>* (initial_system k ip fp) \<sigma> \<Longrightarrow> system_ok \<sigma>"
  by (induction rule: rtranclp_induct) (auto intro: system_ok_initial system_ok_step)

section \<open>Properties\<close>

text \<open>C1: PHASE-BACKED. In every reachable state of the system, however the ports behave, a workflow past
  ingestion has its ingestion success recorded, and a workflow past forecasting has a forecasting
  success that the read side returns.\<close>

theorem reachable_phase_is_backed:
  assumes "system_step\<^sup>*\<^sup>* (initial_system k ip fp) \<sigma>" "sys_states \<sigma> w = Some s"
  shows "(FORECASTING \<le> ws_phase s \<longrightarrow> (\<exists>x. mc_successes (wm_ingestion (sys_memory \<sigma>)) w = Some x)) \<and>
    (RISK_AND_BID \<le> ws_phase s \<longrightarrow> (\<exists>x. rw_get_success (wm_forecasting (sys_memory \<sigma>)) w = Inr x))"
proof -
  have "workflow_backed (sys_memory \<sigma>) w s"
    using system_ok_reachable [OF assms(1)] assms(2) by (simp add: system_ok_def)
  then show ?thesis by (auto simp: workflow_backed_def rw_get_success_def)
qed

text \<open>Sample services for the witnesses: both executors answer, the initial failure ports are wired.\<close>

definition with_initial_ports :: "'k workflow_services \<Rightarrow> 'k workflow_services" where
  "with_initial_ports v = v\<lparr>
     svc_ingestion_select := strict_single_parallel_ingestion_selector,
     svc_ingestion_attempts := initial_parallel_ingestion_attempt_number,
     svc_ingestion_policy := initial_parallel_ingestion_policy,
     svc_forecasting_select := strict_single_forecasting_selector,
     svc_forecasting_attempts := initial_forecasting_attempt_number,
     svc_forecasting_policy := initial_forecasting_policy\<rparr>"

definition sample_forecast :: forecasting_success where
  "sample_forecast = \<lparr>fs_consumer_load = [], fs_dam_price = []\<rparr>"

definition sample_services :: "unit workflow_services" where
  "sample_services = with_initial_ports
     \<lparr>svc_regulatory_context = \<lparr>rc_resolve = (\<lambda>_ _. Inl (ResourceNotFoundError ''request'')),
                               rc_record = (\<lambda>k _ _. (Inr (), k))\<rparr>,
      svc_regulatory_ports = \<lparr>rp_embed_query = (\<lambda>_. Inl ValidationError), rp_search = (\<lambda>_. Inr []),
                             rp_infer = (\<lambda>_. Inr [])\<rparr>,
      svc_ingestion_execute = (\<lambda>_. Inr sample_success),
      svc_ingestion_select = strict_single_parallel_ingestion_selector,
      svc_ingestion_attempts = initial_parallel_ingestion_attempt_number,
      svc_ingestion_policy = initial_parallel_ingestion_policy,
      svc_forecasting_execute = (\<lambda>_. Inr sample_forecast),
      svc_forecasting_select = strict_single_forecasting_selector,
      svc_forecasting_attempts = initial_forecasting_attempt_number,
      svc_forecasting_policy = initial_forecasting_policy\<rparr>"

definition sample_state :: workflow_state where
  "sample_state = \<lparr>ws_workflow_id = ''w'', ws_portfolio_id = ''p'', ws_delivery_date = 1,
     ws_correlation_id = ''c'', ws_phase = INGESTION, ws_status = RUNNING, ws_diagnostics = []\<rparr>"

lemma sample_state_ok: "workflow_state_ok sample_state"
  by (simp add: workflow_state_ok_def sample_state_def py_strip_def py_isspace_def)

definition sample_memory :: "unit workflow_memory" where
  "sample_memory = sys_memory (initial_system () [''w'' \<mapsto> sample_plan] [''w'' \<mapsto> sample_forecasting_plan])"

definition sample_memory_ingested :: "unit workflow_memory" where
  "sample_memory_ingested = sample_memory\<lparr>wm_ingestion :=
     \<lparr>mc_plans = [''w'' \<mapsto> sample_plan], mc_successes = [''w'' \<mapsto> sample_success]\<rparr>\<rparr>"

lemma sample_invocation:
  "invoke sample_services sample_memory sample_state =
     (Inr (sample_state\<lparr>ws_phase := FORECASTING, ws_status := RUNNING\<rparr>), sample_memory_ingested)"
proof -
  have "parallel_ingestion_node sample_services sample_memory sample_state = (Inr sample_state, sample_memory_ingested)"
    by (simp add: parallel_ingestion_node_def run_parallel_ingestion_step_def ingestion_resolve_plan_def
        memory_resolve_plan_def ingestion_record_success_def memory_record_success_def catch_group_def
        sample_services_def with_initial_ports_def sample_memory_def initial_system_def
        empty_memory_context_def sample_memory_ingested_def sample_state_def)
  then show ?thesis
    using transition_ok(1) [OF sample_state_ok]
    by (subst invoke_ingestion)
      (simp_all add: then_transition_Inr route_after_parallel_ingestion_def sample_state_def)
qed

theorem reachable_phase_is_backed_witness:
  "\<exists>\<sigma>. system_step\<^sup>*\<^sup>* (initial_system () [''w'' \<mapsto> sample_plan] [''w'' \<mapsto> sample_forecasting_plan]) \<sigma> \<and>
     (\<exists>s x. sys_states \<sigma> ''w'' = Some s \<and> ws_phase s = FORECASTING \<and>
        mc_successes (wm_ingestion (sys_memory \<sigma>)) ''w'' = Some x)"
proof -
  let ?i = "initial_system () [''w'' \<mapsto> sample_plan] [''w'' \<mapsto> sample_forecasting_plan]"
  let ?j = "?i\<lparr>sys_states := (sys_states ?i)(''w'' \<mapsto> sample_state)\<rparr>"
  let ?t = "sample_state\<lparr>ws_phase := FORECASTING, ws_status := RUNNING\<rparr>"
  let ?f = "?j\<lparr>sys_memory := sample_memory_ingested, sys_states := (sys_states ?j)(''w'' \<mapsto> ?t)\<rparr>"
  have "system_step ?i ?j"
    using system_step.submit [OF sample_state_ok, of ?i] by (simp add: sample_state_def initial_system_def)
  moreover have "system_step ?j ?f"
    using system_step.returned [of ?j "''w''" sample_state sample_services ?t sample_memory_ingested]
      sample_invocation by (simp add: sample_memory_def)
  ultimately have reach: "system_step\<^sup>*\<^sup>* ?i ?f" by simp
  have w: "sys_states ?f ''w'' = Some ?t" by simp
  have "\<exists>x. mc_successes (wm_ingestion (sys_memory ?f)) ''w'' = Some x"
    using reachable_phase_is_backed [OF reach w] by simp
  then show ?thesis using reach w by (intro exI [of _ ?f]) auto
qed

text \<open>C6: GRAPH-TRANSITIONS. An invocation that answers started from a running state and made one of five
  moves: a contract state unchanged, ingestion to failed, ingestion to forecasting, forecasting to
  failed, forecasting to risk and bid; identity, portfolio, date, correlation and diagnostics are
  untouched and the phase never goes back.\<close>

theorem invocation_transitions:
  assumes "workflow_state_ok s" "rw_ok (wm_forecasting m)" "invoke v m s = (Inr t, m')"
  shows "ws_status s = RUNNING \<and> ws_phase s \<le> ws_phase t \<and>
    t = s\<lparr>ws_phase := ws_phase t, ws_status := ws_status t\<rparr> \<and>
    (ws_phase s, ws_phase t, ws_status t) \<in>
      {(CONTRACT, CONTRACT, RUNNING), (INGESTION, INGESTION, FAILED), (INGESTION, FORECASTING, RUNNING),
       (FORECASTING, FORECASTING, FAILED), (FORECASTING, RISK_AND_BID, RUNNING)}"
proof -
  have running: "ws_status s = RUNNING" and "invocation_effect s m' t"
    using invocation_effect_cases [OF assms] by blast+
  then show ?thesis unfolding invocation_effect_def by (elim disjE conjE) simp_all
qed

theorem invocation_transitions_witness:
  "(ws_phase sample_state, FORECASTING, RUNNING) \<in>
      {(CONTRACT, CONTRACT, RUNNING), (INGESTION, INGESTION, FAILED), (INGESTION, FORECASTING, RUNNING),
       (FORECASTING, FORECASTING, FAILED), (FORECASTING, RISK_AND_BID, RUNNING)}"
proof -
  have "rw_ok (wm_forecasting sample_memory)" by (simp add: sample_memory_def initial_system_def)
  from invocation_transitions [OF sample_state_ok this sample_invocation] show ?thesis by simp
qed

text \<open>C3: FAILURE-RACE. When both forecast agents fail, the same workflow invoked with the same ports can
  end failed, or raise and stay where it was, depending only on the schedule of the two tasks: a
  single failure is handled, two are refused by the strict selector.\<close>

theorem forecasting_race_decides_workflow:
  assumes s: "workflow_state_ok s" "ws_phase s = FORECASTING" "ws_status s = RUNNING"
    and plan: "rw_resolve_plan (wm_forecasting m) s = Inr plan"
    and fails: "fm_consumer_load models (fp_consumer_load plan) = Inl a" "is_exception a"
      "fm_dam_price models (fp_dam_price plan) = Inl b" "is_exception b"
  shows "(\<exists>r. forecasting_executes models plan r \<and>
      invoke (with_initial_ports v\<lparr>svc_forecasting_execute := (\<lambda>_. r)\<rparr>) m s =
        (Inr (s\<lparr>ws_phase := FORECASTING, ws_status := FAILED\<rparr>), m)) \<and>
    (\<exists>r. forecasting_executes models plan r \<and>
      invoke (with_initial_ports v\<lparr>svc_forecasting_execute := (\<lambda>_. r)\<rparr>) m s =
        (Inl (InvalidRequestError (ff_exactly_one_message forecasting_family)), m))"
proof -
  let ?a = "ForecastingAgentFailure CONSUMER_LOAD_FORECAST (Some a)"
  let ?b = "ForecastingAgentFailure DAM_PRICE_FORECAST (Some b)"
  have invoked: "invoke (with_initial_ports v\<lparr>svc_forecasting_execute := (\<lambda>_. Inl (ExceptionGroup es))\<rparr>) m s =
      then_transition route_after_forecasting advance_after_forecasting
        (if length es = 1 then fail_after_forecasting s
         else Inl (InvalidRequestError (ff_exactly_one_message forecasting_family)), m)"
    if es: "set es \<subseteq> {?a, ?b}" for es
  proof -
    have leaves: "group_leaves es = es" using es by (intro group_leaves_plain) auto
    have "all_attributed forecasting_family es"
      using es by (auto simp: all_attributed_def list_all_iff forecasting_family_def)
    then show ?thesis
      unfolding invoke_forecasting [OF s(2,3)]
      using conjunct2 [OF failure_pipeline_refines [of s es]] leaves plan
      by (simp add: forecasting_node_def run_forecasting_step_def catch_group_def with_initial_ports_def)
  qed
  note race = forecasting_failures_race [OF fails]
  have one: "forecasting_executes models plan (Inl (ExceptionGroup [?a]))" using race by blast
  obtain es where es: "mset es = {#?a, ?b#}" "forecasting_executes models plan (Inl (ExceptionGroup es))"
    using race by blast
  have "size (mset es) = 2" by (simp only: es(1) size_add_mset size_empty)
  then have len: "length es = 2" by simp
  have set: "set es \<subseteq> {?a, ?b}" using es(1) by (metis set_mset_add_mset_insert set_mset_empty set_mset_mset order_refl)
  have "invoke (with_initial_ports v\<lparr>svc_forecasting_execute := (\<lambda>_. Inl (ExceptionGroup [?a]))\<rparr>) m s =
      (Inr (s\<lparr>ws_phase := FORECASTING, ws_status := FAILED\<rparr>), m)"
    using invoked [of "[?a]"] transition_ok(4) [OF s(1)] s
    by (simp add: then_transition_Inr route_after_forecasting_def)
  moreover have "invoke (with_initial_ports v\<lparr>svc_forecasting_execute := (\<lambda>_. Inl (ExceptionGroup es))\<rparr>) m s =
      (Inl (InvalidRequestError (ff_exactly_one_message forecasting_family)), m)"
    using invoked [OF set] len by (simp add: then_transition_def)
  ultimately show ?thesis using one es(2) by blast
qed

abbreviation sample_forecasting_state :: workflow_state where
  "sample_forecasting_state \<equiv> sample_state\<lparr>ws_phase := FORECASTING, ws_status := RUNNING\<rparr>"

lemma sample_forecasting_state_plan:
  "rw_resolve_plan (wm_forecasting sample_memory) sample_forecasting_state = Inr sample_forecasting_plan"
  by (simp add: rw_resolve_plan_def forecasting_resolve_plan_def memory_resolve_plan_def sample_memory_def
      initial_system_def empty_read_after_write_def empty_memory_context_def sample_state_def)

theorem forecasting_race_decides_workflow_witness:
  "(\<exists>r. forecasting_executes failing_models sample_forecasting_plan r \<and>
      invoke (with_initial_ports sample_services\<lparr>svc_forecasting_execute := (\<lambda>_. r)\<rparr>)
        sample_memory sample_forecasting_state =
      (Inr (sample_forecasting_state\<lparr>ws_phase := FORECASTING, ws_status := FAILED\<rparr>), sample_memory)) \<and>
   (\<exists>r. forecasting_executes failing_models sample_forecasting_plan r \<and>
      invoke (with_initial_ports sample_services\<lparr>svc_forecasting_execute := (\<lambda>_. r)\<rparr>)
        sample_memory sample_forecasting_state =
      (Inl (InvalidRequestError (ff_exactly_one_message forecasting_family)), sample_memory))"
proof (rule forecasting_race_decides_workflow)
  show "workflow_state_ok sample_forecasting_state" using sample_state_ok by simp
  show "rw_resolve_plan (wm_forecasting sample_memory) sample_forecasting_state = Inr sample_forecasting_plan"
    by (rule sample_forecasting_state_plan)
  show "fm_consumer_load failing_models (fp_consumer_load sample_forecasting_plan) = Inl (ValueError ''load'')"
    "fm_dam_price failing_models (fp_dam_price sample_forecasting_plan) = Inl (InvalidRequestError ''price'')"
    by (simp_all add: failing_models_def)
qed simp_all

text \<open>C2: WORKFLOW-COMPLETES. With plans registered and nothing recorded yet, an ingestion executor that
  answers and two models that answer, two invocations take a workflow from ingestion to risk and
  bid; the ingestion success is recorded as it came, and the read side then returns exactly the two
  models' forecasts.\<close>

theorem two_invocations_reach_risk_and_bid:
  assumes s: "workflow_state_ok s" "ws_phase s = INGESTION" "ws_status s = RUNNING"
    and memory: "rw_ok (wm_forecasting m)"
      "mc_successes (wm_ingestion m) (ws_workflow_id s) = None"
      "rw_successes (wm_forecasting m) (ws_workflow_id s) = None"
    and plans: "mc_plans (wm_ingestion m) (ws_workflow_id s) = Some ip"
      "mc_plans (rw_context (wm_forecasting m)) (ws_workflow_id s) = Some fp"
    and answers: "svc_ingestion_execute v ip = Inr x"
      "fm_consumer_load models (fp_consumer_load fp) = Inr l" "fm_dam_price models (fp_dam_price fp) = Inr p"
      "forecasting_executes models fp (svc_forecasting_execute v fp)"
  shows "\<exists>m' m''. invoke v m s = (Inr (s\<lparr>ws_phase := FORECASTING, ws_status := RUNNING\<rparr>), m') \<and>
    invoke v m' (s\<lparr>ws_phase := FORECASTING, ws_status := RUNNING\<rparr>) =
      (Inr (s\<lparr>ws_phase := RISK_AND_BID, ws_status := RUNNING\<rparr>), m'') \<and>
    mc_successes (wm_ingestion m'') (ws_workflow_id s) = Some x \<and>
    rw_get_success (wm_forecasting m'') (ws_workflow_id s) = Inr \<lparr>fs_consumer_load = l, fs_dam_price = p\<rparr>"
proof -
  let ?y = "\<lparr>fs_consumer_load = l, fs_dam_price = p\<rparr>"
  let ?s = "s\<lparr>ws_phase := FORECASTING, ws_status := RUNNING\<rparr>"
  let ?c = "(wm_ingestion m)\<lparr>mc_successes := (mc_successes (wm_ingestion m))(ws_workflow_id s \<mapsto> x)\<rparr>"
  let ?m = "m\<lparr>wm_ingestion := ?c\<rparr>"
  have y: "svc_forecasting_execute v fp = Inr ?y"
    using answers(4) forecasting_executes_values [OF answers(2,3)] by simp
  have "parallel_ingestion_node v m s = (Inr s, ?m)"
    using memory(2) plans(1) answers(1)
    by (simp add: parallel_ingestion_node_def run_parallel_ingestion_step_def ingestion_resolve_plan_def
        memory_resolve_plan_def ingestion_record_success_def memory_record_success_def catch_group_def)
  then have first: "invoke v m s = (Inr ?s, ?m)"
    unfolding invoke_ingestion [OF s(2,3)]
    using transition_ok(1) [OF s(1)] s by (simp add: then_transition_Inr route_after_parallel_ingestion_def)
  obtain d where recorded: "rw_record_success (wm_forecasting m) ?s ?y = (Inr (), d)"
    "rw_successes d (ws_workflow_id s) = Some ?y"
    using memory(3) by (simp add: rw_record_cases [OF memory(1)])
  let ?m' = "?m\<lparr>wm_forecasting := d\<rparr>"
  have "forecasting_node v ?m ?s = (Inr ?s, ?m')"
    using plans(2) y recorded(1)
    by (simp add: forecasting_node_def run_forecasting_step_def rw_resolve_plan_def forecasting_resolve_plan_def
        memory_resolve_plan_def catch_group_def)
  then have second: "invoke v ?m ?s = (Inr (?s\<lparr>ws_phase := RISK_AND_BID, ws_status := RUNNING\<rparr>), ?m')"
    using transition_ok(3) [of ?s] s
    by (subst invoke_forecasting) (simp_all add: then_transition_Inr route_after_forecasting_def)
  show ?thesis using first second recorded(2) by (intro exI [of _ ?m] exI [of _ ?m']) (simp add: rw_get_success_def)
qed

theorem two_invocations_reach_risk_and_bid_witness:
  "\<exists>m' m''. invoke sample_services sample_memory sample_state = (Inr sample_forecasting_state, m') \<and>
     invoke sample_services m' sample_forecasting_state =
       (Inr (sample_state\<lparr>ws_phase := RISK_AND_BID, ws_status := RUNNING\<rparr>), m'') \<and>
     mc_successes (wm_ingestion m'') (ws_workflow_id sample_state) = Some sample_success \<and>
     rw_get_success (wm_forecasting m'') (ws_workflow_id sample_state) =
       Inr \<lparr>fs_consumer_load = [], fs_dam_price = []\<rparr>"
proof (rule two_invocations_reach_risk_and_bid)
  let ?models = "\<lparr>fm_consumer_load = (\<lambda>_. Inr []), fm_dam_price = (\<lambda>_. Inr [])\<rparr>"
  show "forecasting_executes ?models sample_forecasting_plan
      (svc_forecasting_execute sample_services sample_forecasting_plan)"
    by (subst forecasting_executes_values)
      (simp_all add: sample_services_def with_initial_ports_def sample_forecast_def)
  show "workflow_state_ok sample_state" by (rule sample_state_ok)
qed (simp_all add: sample_memory_def initial_system_def empty_read_after_write_def empty_memory_context_def
      sample_services_def with_initial_ports_def sample_state_def rw_ok_def)

text \<open>A workflow that is not running, or is past forecasting, is refused at entry:
  no service is called, nothing is recorded, and the same refusal is given every time.\<close>

theorem stopped_workflow_is_refused:
  assumes "ws_status s \<noteq> RUNNING \<or> RISK_AND_BID \<le> ws_phase s"
  shows "invoke v m s = (Inl (InvalidRequestError invalid_entry_route_message), m)"
  using assms by (intro invoke_refused) (auto simp: less_eq_workflow_phase_def)

theorem stopped_workflow_is_refused_witness:
  "invoke sample_services sample_memory (sample_state\<lparr>ws_status := FAILED\<rparr>) =
     (Inl (InvalidRequestError invalid_entry_route_message), sample_memory)"
  by (rule stopped_workflow_is_refused) (simp add: sample_state_def)

end
