(* ===== verification/Proposal_Handoff.thy ===== *)
theory Proposal_Handoff
  imports Workflow_Graph
begin

text \<open>
  From recorded forecasts to bid proposals: the risk assessment request and execution
  (application/ports/portfolio\_risk\_assessment.py, application/orchestration/portfolio\_risk\_execution.py),
  the bid request and execution (trading\_strategy\_bid.py, trading\_strategy\_execution.py) and the
  handoff (risk\_and\_bid\_proposal\_handoff.py, trading\_strategy\_proposal\_handoff.py). The two agents
  forward to ports, which are arguments.
\<close>

section \<open>Requests\<close>

text \<open>\<open>_require_non_blank\<close> checks the stripped value and keeps the original.\<close>

definition require_non_blank :: "string \<Rightarrow> string \<Rightarrow> unit result" where
  "require_non_blank field_name value =
     raise_if (py_strip value = []) (ValueError (field_name @ '' must be a non-empty string''))"

record risk_request =
  rkr_workflow_id :: string
  rkr_portfolio_id :: string
  rkr_delivery_date :: py_date
  rkr_forecasting_success :: forecasting_success
  rkr_generation_availability :: "generation_availability_record list"
  rkr_hydro_resources :: "hydro_record list"
  rkr_regulatory_constraints :: "regulatory_constraint list"

definition make_risk_request :: "risk_request \<Rightarrow> risk_request result" where
  "make_risk_request q =
     check (require_non_blank ''workflow_id'' (rkr_workflow_id q))
       (check (require_non_blank ''portfolio_id'' (rkr_portfolio_id q)) (Inr q))"

record bid_request =
  bdr_workflow_id :: string
  bdr_portfolio_id :: string
  bdr_delivery_date :: py_date
  bdr_risk_assessment :: risk_assessment
  bdr_forecasting_success :: forecasting_success
  bdr_generation_availability :: "generation_availability_record list"
  bdr_regulatory_constraints :: "regulatory_constraint list"

definition make_bid_request :: "bid_request \<Rightarrow> bid_request result" where
  "make_bid_request q =
     check (require_non_blank ''workflow_id'' (bdr_workflow_id q))
       (check (require_non_blank ''portfolio_id'' (bdr_portfolio_id q)) (Inr q))"

record proposal_handoff =
  ph_workflow_id :: string
  ph_portfolio_id :: string
  ph_delivery_date :: py_date
  ph_forecasting_success :: forecasting_success
  ph_risk_assessment :: risk_assessment
  ph_bid_proposals :: "market_bid list"

definition make_proposal_handoff :: "proposal_handoff \<Rightarrow> proposal_handoff result" where
  "make_proposal_handoff h =
     check (require_non_blank ''workflow_id'' (ph_workflow_id h))
       (check (require_non_blank ''portfolio_id'' (ph_portfolio_id h)) (Inr h))"

section \<open>Executions\<close>

definition run_portfolio_risk_agent ::
    "(risk_request \<Rightarrow> risk_assessment result) \<Rightarrow> risk_request \<Rightarrow> risk_assessment result" where
  "run_portfolio_risk_agent assess request = assess request"

definition run_trading_strategy_agent ::
    "(bid_request \<Rightarrow> market_bid list result) \<Rightarrow> bid_request \<Rightarrow> market_bid list result" where
  "run_trading_strategy_agent propose_bids request = propose_bids request"

definition execute_portfolio_risk ::
    "(string \<Rightarrow> forecasting_success result) \<Rightarrow> (risk_request \<Rightarrow> risk_assessment result) \<Rightarrow>
     string \<Rightarrow> string \<Rightarrow> py_date \<Rightarrow> generation_availability_record list \<Rightarrow> hydro_record list \<Rightarrow>
     regulatory_constraint list \<Rightarrow> risk_assessment result" where
  "execute_portfolio_risk get_success assess workflow_id portfolio_id delivery_date generation hydro constraints =
     attempt (get_success workflow_id) (\<lambda>forecast.
     attempt (make_risk_request
                \<lparr>rkr_workflow_id = workflow_id, rkr_portfolio_id = portfolio_id,
                 rkr_delivery_date = delivery_date, rkr_forecasting_success = forecast,
                 rkr_generation_availability = generation, rkr_hydro_resources = hydro,
                 rkr_regulatory_constraints = constraints\<rparr>) (\<lambda>request.
       run_portfolio_risk_agent assess request))"

definition execute_trading_strategy ::
    "(bid_request \<Rightarrow> market_bid list result) \<Rightarrow> bid_request \<Rightarrow> market_bid list result" where
  "execute_trading_strategy propose_bids q =
     attempt (make_bid_request q) (\<lambda>request. run_trading_strategy_agent propose_bids request)"

definition execute_proposal_handoff ::
    "(bid_request \<Rightarrow> market_bid list result) \<Rightarrow> bid_request \<Rightarrow> proposal_handoff result" where
  "execute_proposal_handoff propose_bids q =
     attempt (execute_trading_strategy propose_bids q) (\<lambda>bids.
       make_proposal_handoff
         \<lparr>ph_workflow_id = bdr_workflow_id q, ph_portfolio_id = bdr_portfolio_id q,
          ph_delivery_date = bdr_delivery_date q, ph_forecasting_success = bdr_forecasting_success q,
          ph_risk_assessment = bdr_risk_assessment q, ph_bid_proposals = bids\<rparr>)"

section \<open>Lemmas\<close>

lemma require_non_blank_ok [result_simps]: "require_non_blank f v = Inr u \<longleftrightarrow> py_strip v \<noteq> []"
  by (auto simp: require_non_blank_def raise_if_def)

lemma make_requests_ok [result_simps]:
  "make_risk_request q = Inr q' \<longleftrightarrow> q' = q \<and> py_strip (rkr_workflow_id q) \<noteq> [] \<and> py_strip (rkr_portfolio_id q) \<noteq> []"
  "make_bid_request b = Inr b' \<longleftrightarrow> b' = b \<and> py_strip (bdr_workflow_id b) \<noteq> [] \<and> py_strip (bdr_portfolio_id b) \<noteq> []"
  "make_proposal_handoff h = Inr h' \<longleftrightarrow> h' = h \<and> py_strip (ph_workflow_id h) \<noteq> [] \<and> py_strip (ph_portfolio_id h) \<noteq> []"
  by (auto simp: make_risk_request_def make_bid_request_def make_proposal_handoff_def result_simps)

section \<open>A sample run up to risk and bid\<close>

definition sample_memory_forecast :: "unit workflow_memory" where
  "sample_memory_forecast = sample_memory_ingested\<lparr>wm_forecasting :=
     \<lparr>rw_context = \<lparr>mc_plans = [''w'' \<mapsto> sample_forecasting_plan], mc_successes = [''w'' \<mapsto> sample_forecast]\<rparr>,
      rw_successes = [''w'' \<mapsto> sample_forecast]\<rparr>\<rparr>"

abbreviation sample_risk_state :: workflow_state where
  "sample_risk_state \<equiv> sample_state\<lparr>ws_phase := RISK_AND_BID, ws_status := RUNNING\<rparr>"

lemma sample_second_invocation:
  "invoke sample_services sample_memory_ingested sample_forecasting_state =
     (Inr sample_risk_state, sample_memory_forecast)"
proof -
  have "forecasting_node sample_services sample_memory_ingested sample_forecasting_state =
      (Inr sample_forecasting_state, sample_memory_forecast)"
    by (simp add: forecasting_node_def run_forecasting_step_def rw_resolve_plan_def
        forecasting_resolve_plan_def memory_resolve_plan_def rw_record_success_def
        forecasting_record_success_def memory_record_success_def catch_group_def sample_services_def
        with_initial_ports_def sample_memory_ingested_def sample_memory_def initial_system_def
        empty_read_after_write_def empty_memory_context_def sample_memory_forecast_def sample_state_def)
  moreover have ok: "workflow_state_ok sample_forecasting_state" using sample_state_ok by simp
  ultimately show ?thesis
    using transition_ok(3) [OF ok]
    by (subst invoke_forecasting)
      (simp_all add: then_transition_Inr route_after_forecasting_def sample_state_def)
qed

definition sample_risk_system :: "unit workflow_system" where
  "sample_risk_system = \<lparr>sys_memory = sample_memory_forecast, sys_states = [''w'' \<mapsto> sample_risk_state]\<rparr>"

lemma sample_risk_system_reachable:
  "system_step\<^sup>*\<^sup>* (initial_system () [''w'' \<mapsto> sample_plan] [''w'' \<mapsto> sample_forecasting_plan]) sample_risk_system"
proof -
  let ?i = "initial_system () [''w'' \<mapsto> sample_plan] [''w'' \<mapsto> sample_forecasting_plan]"
  let ?j = "?i\<lparr>sys_states := (sys_states ?i)(''w'' \<mapsto> sample_state)\<rparr>"
  let ?f = "?j\<lparr>sys_memory := sample_memory_ingested, sys_states := (sys_states ?j)(''w'' \<mapsto> sample_forecasting_state)\<rparr>"
  have "system_step ?i ?j"
    using system_step.submit [OF sample_state_ok, of ?i] by (simp add: sample_state_def initial_system_def)
  moreover have "system_step ?j ?f"
    using system_step.returned [of ?j "''w''" sample_state sample_services sample_forecasting_state
        sample_memory_ingested] sample_invocation by (simp add: sample_memory_def)
  moreover have "system_step ?f sample_risk_system"
    using system_step.returned [of ?f "''w''" sample_forecasting_state sample_services sample_risk_state
        sample_memory_forecast] sample_second_invocation
    by (simp add: sample_risk_system_def initial_system_def)
  ultimately show ?thesis by (meson rtranclp.rtrancl_into_rtrancl rtranclp.rtrancl_refl)
qed

section \<open>Properties\<close>

text \<open>C9: HANDOFF. From a workflow that two invocations brought to risk and bid, the risk port sees the
  very forecasts the models gave, and the handoff carries them, the assessment and the bids
  unchanged; a handoff exists exactly when both ports answer.\<close>

theorem handoff_carries_recorded_forecast:
  assumes "system_step\<^sup>*\<^sup>* (initial_system k ip fp) \<sigma>" "sys_states \<sigma> w = Some s" "ws_phase s = RISK_AND_BID"
  shows "\<exists>forecast. rw_successes (wm_forecasting (sys_memory \<sigma>)) w = Some forecast \<and>
    execute_portfolio_risk (rw_get_success (wm_forecasting (sys_memory \<sigma>))) assess w
      (ws_portfolio_id s) d generation hydro constraints =
      assess \<lparr>rkr_workflow_id = w, rkr_portfolio_id = ws_portfolio_id s, rkr_delivery_date = d,
              rkr_forecasting_success = forecast, rkr_generation_availability = generation,
              rkr_hydro_resources = hydro, rkr_regulatory_constraints = constraints\<rparr> \<and>
    (\<forall>risk h. execute_proposal_handoff propose_bids
        \<lparr>bdr_workflow_id = w, bdr_portfolio_id = ws_portfolio_id s, bdr_delivery_date = d,
         bdr_risk_assessment = risk, bdr_forecasting_success = forecast,
         bdr_generation_availability = generation, bdr_regulatory_constraints = constraints\<rparr> = Inr h \<longleftrightarrow>
      propose_bids
        \<lparr>bdr_workflow_id = w, bdr_portfolio_id = ws_portfolio_id s, bdr_delivery_date = d,
         bdr_risk_assessment = risk, bdr_forecasting_success = forecast,
         bdr_generation_availability = generation, bdr_regulatory_constraints = constraints\<rparr>
        = Inr (ph_bid_proposals h) \<and>
      h = \<lparr>ph_workflow_id = w, ph_portfolio_id = ws_portfolio_id s, ph_delivery_date = d,
           ph_forecasting_success = forecast, ph_risk_assessment = risk,
           ph_bid_proposals = ph_bid_proposals h\<rparr>)"
proof -
  have backed: "workflow_backed (sys_memory \<sigma>) w s"
    using system_ok_reachable [OF assms(1)] assms(2) by (simp add: system_ok_def)
  then obtain forecast where f: "rw_successes (wm_forecasting (sys_memory \<sigma>)) w = Some forecast"
    using assms(3) by (auto simp: workflow_backed_def)
  have ids: "py_strip w \<noteq> []" "py_strip (ws_portfolio_id s) \<noteq> []"
    using backed by (auto simp: workflow_backed_def workflow_state_ok_def)
  have risk: "execute_portfolio_risk (rw_get_success (wm_forecasting (sys_memory \<sigma>))) assess w
      (ws_portfolio_id s) d generation hydro constraints =
      assess \<lparr>rkr_workflow_id = w, rkr_portfolio_id = ws_portfolio_id s, rkr_delivery_date = d,
              rkr_forecasting_success = forecast, rkr_generation_availability = generation,
              rkr_hydro_resources = hydro, rkr_regulatory_constraints = constraints\<rparr>"
    using f ids by (simp add: execute_portfolio_risk_def rw_get_success_def make_risk_request_def
        require_non_blank_def raise_if_def check_def run_portfolio_risk_agent_def)
  show ?thesis
    using f risk ids
    by (auto simp: execute_proposal_handoff_def execute_trading_strategy_def run_trading_strategy_agent_def
        result_simps)
qed

theorem handoff_carries_recorded_forecast_witness:
  "\<exists>forecast. rw_successes (wm_forecasting (sys_memory sample_risk_system)) ''w'' = Some forecast \<and>
     execute_portfolio_risk (rw_get_success (wm_forecasting (sys_memory sample_risk_system)))
       (\<lambda>q. Inl (DependencyUnavailableError (rkr_portfolio_id q))) ''w'' ''p'' 1 [] [] [] =
       Inl (DependencyUnavailableError ''p'')"
  using handoff_carries_recorded_forecast [OF sample_risk_system_reachable, of "''w''" sample_risk_state
      "\<lambda>q. Inl (DependencyUnavailableError (rkr_portfolio_id q))" 1 "[]" "[]" "[]" "\<lambda>_. Inr []"]
  by (auto simp: sample_risk_system_def) (simp add: sample_state_def)

end
