(* ===== verification/Json_Text.thy ===== *)
theory Json_Text
  imports Prelude
begin

text \<open>
  JSON text as \<open>json.dumps\<close> writes it with \<open>ensure_ascii=True\<close> and compact separators: the
  escapes of strings, integers, null, arrays, and objects whose members are given in key order. A
  string is a list of characters of code point below 256. A decoder of one string literal gives the
  injectivity the point identities of the vector index rest on.
\<close>

datatype json =
    JNull
  | JBool bool
  | JInt int
  | JStr string
  | JArray "json list"
  | JObject "(string \<times> json) list"
  | JOther string

section \<open>Strings\<close>

definition hex_digit :: "nat \<Rightarrow> char" where
  "hex_digit k = char_of (if k < 10 then 48 + k else 87 + k)"

definition hex_value :: "char \<Rightarrow> nat" where
  "hex_value c = (let k = of_char c :: nat in if k < 58 then k - 48 else k - 87)"

abbreviation backslash :: char where "backslash \<equiv> CHR 0x5C"
abbreviation quote_mark :: char where "quote_mark \<equiv> CHR 0x22"

definition json_escape :: "char \<Rightarrow> string" where
  "json_escape c =
     (if c = quote_mark then [backslash, quote_mark]
      else if c = backslash then [backslash, backslash]
      else if c = CHR 0x0A then [backslash, CHR ''n'']
      else if c = CHR 0x0D then [backslash, CHR ''r'']
      else if c = CHR 0x09 then [backslash, CHR ''t'']
      else if c = CHR 0x08 then [backslash, CHR ''b'']
      else if c = CHR 0x0C then [backslash, CHR ''f'']
      else if 32 \<le> (of_char c :: nat) \<and> (of_char c :: nat) \<le> 126 then [c]
      else [backslash, CHR ''u'', CHR ''0'', CHR ''0'', hex_digit (of_char c div 16), hex_digit (of_char c mod 16)])"

definition json_string :: "string \<Rightarrow> string" where
  "json_string s = quote_mark # concat (map json_escape s) @ [quote_mark]"

section \<open>Values\<close>

function decimal_digits :: "nat \<Rightarrow> string" where
  "decimal_digits n = (if n < 10 then [char_of (48 + n)] else decimal_digits (n div 10) @ [char_of (48 + n mod 10)])"
  by pat_completeness auto
termination by (relation "measure id") auto

declare decimal_digits.simps [simp del]

definition json_int :: "int \<Rightarrow> string" where
  "json_int i = (if i < 0 then CHR ''-'' # decimal_digits (nat (- i)) else decimal_digits (nat i))"

fun join_with :: "char \<Rightarrow> string list \<Rightarrow> string" where
  "join_with sep [] = []"
| "join_with sep [x] = x"
| "join_with sep (x # y # ys) = x @ sep # join_with sep (y # ys)"

fun json_dumps :: "json \<Rightarrow> string" where
  "json_dumps JNull = ''null''"
| "json_dumps (JBool b) = (if b then ''true'' else ''false'')"
| "json_dumps (JInt i) = json_int i"
| "json_dumps (JStr s) = json_string s"
| "json_dumps (JArray vs) = CHR ''['' # join_with (CHR '','') (map json_dumps vs) @ '']''"
| "json_dumps (JObject ms) =
     CHR ''{'' # join_with (CHR '','') (map (\<lambda>(k, v). json_string k @ CHR '':'' # json_dumps v) ms) @ ''}''"
| "json_dumps (JOther s) = s"

section \<open>Reading a string literal back\<close>

fun json_unescape :: "string \<Rightarrow> (char \<times> string) option" where
  "json_unescape [] = None"
| "json_unescape (c # r) =
     (if c \<noteq> backslash then Some (c, r)
      else case r of
        d # r' \<Rightarrow>
          if d = CHR ''n'' then Some (CHR 0x0A, r')
          else if d = CHR ''r'' then Some (CHR 0x0D, r')
          else if d = CHR ''t'' then Some (CHR 0x09, r')
          else if d = CHR ''b'' then Some (CHR 0x08, r')
          else if d = CHR ''f'' then Some (CHR 0x0C, r')
          else if d = CHR ''u'' then
            (case r' of _ # _ # h # l # r'' \<Rightarrow> Some (char_of (16 * hex_value h + hex_value l), r'') | _ \<Rightarrow> None)
          else Some (d, r')
      | [] \<Rightarrow> None)"

lemma hex_value_digit: "k < 16 \<Longrightarrow> hex_value (hex_digit k) = k"
  by (simp add: hex_value_def hex_digit_def Let_def)

lemma json_unescape_escape: "json_unescape (json_escape c @ r) = Some (c, r)"
proof -
  have n: "of_char c < (256::nat)" by simp
  then have "hex_value (hex_digit (of_char c div 16)) = of_char c div 16"
      "hex_value (hex_digit (of_char c mod 16)) = of_char c mod 16"
    by (simp_all add: hex_value_digit less_mult_imp_div_less)
  moreover have "16 * (of_char c div 16) + of_char c mod 16 = (of_char c :: nat)" by simp
  ultimately have "char_of (16 * hex_value (hex_digit (of_char c div 16)) + hex_value (hex_digit (of_char c mod 16))) = c"
    by (simp only: char_of_char)
  then show ?thesis by (simp add: json_escape_def)
qed

lemma json_escape_not_quote: "json_escape c @ r \<noteq> quote_mark # s"
  by (auto simp: json_escape_def)

lemma json_escape_nonempty: "json_escape c \<noteq> []"
  by (simp add: json_escape_def)

lemma json_escape_inject:
  assumes "json_escape c @ r = json_escape d @ s"
  shows "c = d \<and> r = s"
proof -
  have "Some (c, r) = Some (d, s)"
    by (metis assms json_unescape_escape)
  then show ?thesis by simp
qed

lemma json_body_inject:
  "concat (map json_escape s) @ quote_mark # r = concat (map json_escape t) @ quote_mark # u \<Longrightarrow> s = t \<and> r = u"
proof (induction s arbitrary: t)
  case Nil
  show ?case
  proof (cases t)
    case (Cons d t')
    then have "json_escape d @ (concat (map json_escape t') @ quote_mark # u) = quote_mark # r"
      using Nil.prems by simp
    then show ?thesis using json_escape_not_quote by blast
  qed (use Nil.prems in simp)
next
  case (Cons c s)
  show ?case
  proof (cases t)
    case Nil
    then have "json_escape c @ (concat (map json_escape s) @ quote_mark # r) = quote_mark # u"
      using Cons.prems by simp
    then show ?thesis using json_escape_not_quote by blast
  next
    case (Cons d t')
    then have "json_escape c @ (concat (map json_escape s) @ quote_mark # r)
        = json_escape d @ (concat (map json_escape t') @ quote_mark # u)"
      using Cons.prems by simp
    then show ?thesis using json_escape_inject Cons.IH [of t'] Cons by blast
  qed
qed

lemma json_string_inject: "json_string s @ r = json_string t @ u \<longleftrightarrow> s = t \<and> r = u"
  using json_body_inject [of s r t u] by (auto simp: json_string_def)

text \<open>The text of a pair of strings determines the pair, wherever commas and quotes occur in them.\<close>

lemma json_pair_inject:
  "json_dumps (JArray [JStr a, JStr b]) = json_dumps (JArray [JStr a', JStr b']) \<longleftrightarrow> a = a' \<and> b = b'"
  using json_string_inject [of a "CHR '','' # json_string b @ '']''" a' "CHR '','' # json_string b' @ '']''"]
    json_string_inject [of b "'']''" b' "'']''"]
  by auto

section \<open>Decimal digits read back\<close>

definition digits_number :: "string \<Rightarrow> nat" where
  "digits_number s = foldl (\<lambda>n c. 10 * n + (of_char c - 48)) 0 s"

lemma digits_number_decimal [simp]: "digits_number (decimal_digits n) = n"
proof (induction n rule: decimal_digits.induct)
  case (1 n)
  then show ?case by (subst decimal_digits.simps) (simp add: digits_number_def)
qed

lemma decimal_digits_inject: "decimal_digits n = decimal_digits m \<longleftrightarrow> n = m"
  by (metis digits_number_decimal)

lemma decimal_digits_visible:
  "decimal_digits n \<noteq> [] \<and> (\<forall>c \<in> set (decimal_digits n). \<not> py_isspace c)"
proof (induction n rule: decimal_digits.induct)
  case (1 n)
  have "\<not> py_isspace (char_of (48 + k))" if "k < 10" for k :: nat
    using that by (simp add: py_isspace_def Let_def)
  then show ?case using 1 by (subst (1 2) decimal_digits.simps) auto
qed

end
