(* ===== verification/Vector_Index.thy ===== *)
theory Vector_Index
  imports Documents Json_Text PyDecimal
begin

text \<open>
  The Qdrant document index and search (infrastructure/vector\_store/qdrant). Qdrant itself is an
  argument: a record of client calls over a state, in which every call may change the state, so that
  the writes of other clients between two calls are covered. The hash functions and the UUID parser
  of the standard library, and \<open>float.hex\<close>, are the record \<open>content_hash\<close>.
\<close>

section \<open>Messages and configuration\<close>

definition index_unavailable_message :: string where
  "index_unavailable_message = ''Document vector index is unavailable.''"

definition search_unavailable_message :: string where
  "search_unavailable_message = ''Document vector search is unavailable.''"

definition index_conflict_message :: string where
  "index_conflict_message = ''A conflicting document chunk is already indexed.''"

definition index_dimension_message :: string where
  "index_dimension_message = ''Index entries must match the configured vector dimension.''"

definition query_dimension_message :: string where
  "query_dimension_message = ''Query vector dimension is incompatible with the index.''"

record qdrant_config =
  qcfg_collection_name :: string
  qcfg_vector_size :: int

definition require_collection_name :: "string \<Rightarrow> string result" where
  "require_collection_name value =
     (if py_strip value = [] then Inl (ValueError ''collection_name must not be blank'') else Inr (py_strip value))"

definition require_vector_size :: "int \<Rightarrow> int result" where
  "require_vector_size value =
     (if value < 1 then Inl (ValueError ''vector_size must be greater than 0'') else Inr value)"

definition make_qdrant_config :: "string \<Rightarrow> int \<Rightarrow> qdrant_config result" where
  "make_qdrant_config name dimension =
     attempt (require_collection_name name) (\<lambda>n.
     attempt (require_vector_size dimension) (\<lambda>k.
       Inr \<lparr>qcfg_collection_name = n, qcfg_vector_size = k\<rparr>))"

text \<open>The three exceptions of qdrant-client that are translated.\<close>

definition qdrant_backend_errors :: "exn list" where
  "qdrant_backend_errors =
     [OtherException ''UnexpectedResponse'', OtherException ''ResponseHandlingException'',
      OtherException ''ResourceExhaustedResponse'']"

definition translate_backend :: "string \<Rightarrow> exn \<Rightarrow> exn" where
  "translate_backend msg e = (if e \<in> set qdrant_backend_errors then DependencyUnavailableError msg else e)"

section \<open>Identities and fingerprints\<close>

record content_hash =
  uuid5_text :: "string \<Rightarrow> string"
  uuid_text :: "string \<Rightarrow> string option"
  sha256_hex :: "string \<Rightarrow> string"
  float_hex :: "pyfloat \<Rightarrow> string"

definition point_identity_text :: "string \<Rightarrow> string \<Rightarrow> string" where
  "point_identity_text document_id chunk_id = json_dumps (JArray [JStr document_id, JStr chunk_id])"

definition point_uuid :: "content_hash \<Rightarrow> string \<Rightarrow> string \<Rightarrow> string" where
  "point_uuid h document_id chunk_id = uuid5_text h (point_identity_text document_id chunk_id)"

definition page_number_json :: "int option \<Rightarrow> json" where
  "page_number_json p = (case p of None \<Rightarrow> JNull | Some n \<Rightarrow> JInt n)"

text \<open>The members in the order of their keys, as \<open>sort_keys\<close> writes them.\<close>

definition canonical_entry :: "content_hash \<Rightarrow> index_entry \<Rightarrow> json" where
  "canonical_entry h entry =
     (let chunk = entry_chunk entry in
      JObject
        [(''chunk_id'', JStr (chunk_chunk_id chunk)),
         (''document_id'', JStr (chunk_document_id chunk)),
         (''ordinal'', JInt (chunk_ordinal chunk)),
         (''page_number'', page_number_json (chunk_page_number chunk)),
         (''text'', JStr (chunk_text chunk)),
         (''vector'', JArray (map (\<lambda>v. JStr (float_hex h v)) (emb_vector (entry_embedding entry))))])"

definition entry_fingerprint :: "content_hash \<Rightarrow> index_entry \<Rightarrow> string" where
  "entry_fingerprint h entry = sha256_hex h (json_dumps (canonical_entry h entry))"

definition entry_identity :: "index_entry \<Rightarrow> string \<times> string" where
  "entry_identity entry = (chunk_document_id (entry_chunk entry), chunk_chunk_id (entry_chunk entry))"

definition entry_point_id :: "content_hash \<Rightarrow> index_entry \<Rightarrow> string" where
  "entry_point_id h entry = point_uuid h (chunk_document_id (entry_chunk entry)) (chunk_chunk_id (entry_chunk entry))"

section \<open>Points\<close>

type_synonym payload = "(string \<times> json) list"

text \<open>A record a call returns: \<open>str\<close> of its id, and its payload when that is a mapping.\<close>

record raw_point =
  rp_id :: string
  rp_payload :: "payload option"

record point_struct =
  ps_id :: string
  ps_vector :: "pyfloat list"
  ps_payload :: payload

definition encode_payload :: "content_hash \<Rightarrow> index_entry \<Rightarrow> payload" where
  "encode_payload h entry =
     (let chunk = entry_chunk entry in
      [(''document_id'', JStr (chunk_document_id chunk)),
       (''chunk_id'', JStr (chunk_chunk_id chunk)),
       (''ordinal'', JInt (chunk_ordinal chunk)),
       (''text'', JStr (chunk_text chunk)),
       (''page_number'', page_number_json (chunk_page_number chunk)),
       (''content_sha256'', JStr (entry_fingerprint h entry))])"

definition to_point_struct :: "content_hash \<Rightarrow> index_entry \<Rightarrow> point_struct" where
  "to_point_struct h entry =
     \<lparr>ps_id = entry_point_id h entry, ps_vector = emb_vector (entry_embedding entry),
      ps_payload = encode_payload h entry\<rparr>"

definition payload_keys :: "string list" where
  "payload_keys =
     [''document_id'', ''chunk_id'', ''ordinal'', ''text'', ''page_number'', ''content_sha256'']"

fun require_payload_str :: "json \<Rightarrow> string result" where
  "require_payload_str (JStr s) = Inr s"
| "require_payload_str _ = Inl (TypeError ''payload field must be a string'')"

fun require_payload_int :: "json \<Rightarrow> bool \<Rightarrow> int result" where
  "require_payload_int (JInt value) allow_zero =
     (if allow_zero \<and> value < 0 then Inl (ValueError ''payload ordinal must be non-negative'')
      else if \<not> allow_zero \<and> value < 1 then Inl (ValueError ''payload integer must be positive'')
      else Inr value)"
| "require_payload_int _ allow_zero = Inl (TypeError ''payload field must be an integer'')"

definition require_payload_page_number :: "json \<Rightarrow> int option result" where
  "require_payload_page_number value =
     (case value of JNull \<Rightarrow> Inr None
      | _ \<Rightarrow> attempt (require_payload_int value False) (\<lambda>n. Inr (Some n)))"

text \<open>What \<open>int(digest, 16)\<close> accepts: blanks around, a sign, a prefix, single underscores.\<close>

definition is_hex_digit :: "char \<Rightarrow> bool" where
  "is_hex_digit c \<longleftrightarrow> is_digit c \<or> c \<in> set ''abcdef''"

fun hex_body :: "string \<Rightarrow> bool" where
  "hex_body [] = False"
| "hex_body [c] = is_hex_digit c"
| "hex_body (c # d # r) = (is_hex_digit c \<and> (if d = CHR ''_'' then hex_body r else hex_body (d # r)))"

definition drop_prefix :: "string \<Rightarrow> string" where
  "drop_prefix s =
     (if take 3 s = ''0x_'' then drop 3 s else if take 2 s = ''0x'' then drop 2 s else s)"

definition parses_as_hex :: "string \<Rightarrow> bool" where
  "parses_as_hex s \<longleftrightarrow>
     (let t = py_strip s;
          u = (case t of c # r \<Rightarrow> if c \<in> set ''+-'' then r else t | [] \<Rightarrow> [])
      in hex_body (drop_prefix u))"

definition require_fingerprint :: "json \<Rightarrow> string result" where
  "require_fingerprint value =
     (case value of
        JStr s \<Rightarrow>
          (let digest = map lower_char s in
           if length digest \<noteq> 64 \<or> \<not> parses_as_hex digest
           then Inl (ValueError ''content_sha256 must be a SHA-256 hex digest'')
           else Inr digest)
      | _ \<Rightarrow> Inl (TypeError ''content_sha256 must be a string''))"

definition payload_get :: "payload \<Rightarrow> string \<Rightarrow> json result" where
  "payload_get payload k = (case map_of payload k of None \<Rightarrow> Inl (OtherException ''KeyError'') | Some v \<Rightarrow> Inr v)"

definition parse_payload :: "payload \<Rightarrow> (document_chunk \<times> string) result" where
  "parse_payload payload =
     attempt (attempt (payload_get payload ''document_id'') require_payload_str) (\<lambda>document_id.
     attempt (attempt (payload_get payload ''chunk_id'') require_payload_str) (\<lambda>chunk_id.
     attempt (attempt (payload_get payload ''ordinal'') (\<lambda>v. require_payload_int v True)) (\<lambda>ordinal.
     attempt (attempt (payload_get payload ''text'') require_payload_str) (\<lambda>body.
     attempt (attempt (payload_get payload ''page_number'') require_payload_page_number) (\<lambda>page_number.
     attempt (make_document_chunk document_id chunk_id ordinal body page_number) (\<lambda>chunk.
     attempt (attempt (payload_get payload ''content_sha256'') require_fingerprint) (\<lambda>fingerprint.
       Inr (chunk, fingerprint))))))))"

text \<open>\<open>except (TypeError, ValueError)\<close>.\<close>

definition translate_value_errors :: "string \<Rightarrow> 'a result \<Rightarrow> 'a result" where
  "translate_value_errors msg r =
     (case r of Inl (TypeError _) \<Rightarrow> Inl (DependencyUnavailableError msg)
      | Inl (ValueError _) \<Rightarrow> Inl (DependencyUnavailableError msg)
      | _ \<Rightarrow> r)"

record stored_point =
  st_point_id :: string
  st_chunk :: document_chunk
  st_fingerprint :: string

definition normalize_point_id :: "content_hash \<Rightarrow> string \<Rightarrow> string \<Rightarrow> string result" where
  "normalize_point_id h msg value =
     (case uuid_text h value of None \<Rightarrow> Inl (DependencyUnavailableError msg) | Some i \<Rightarrow> Inr i)"

definition parse_stored_point :: "content_hash \<Rightarrow> string \<Rightarrow> raw_point \<Rightarrow> stored_point result" where
  "parse_stored_point h msg r =
     attempt (normalize_point_id h msg (rp_id r)) (\<lambda>point_id.
       case rp_payload r of
         None \<Rightarrow> Inl (DependencyUnavailableError msg)
       | Some payload \<Rightarrow>
           if set (map fst payload) \<noteq> set payload_keys then Inl (DependencyUnavailableError msg)
           else attempt (translate_value_errors msg (parse_payload payload)) (\<lambda>(chunk, fingerprint).
             if point_id \<noteq> point_uuid h (chunk_document_id chunk) (chunk_chunk_id chunk)
             then Inl (DependencyUnavailableError msg)
             else Inr \<lparr>st_point_id = point_id, st_chunk = chunk, st_fingerprint = fingerprint\<rparr>))"

section \<open>Index (QdrantDocumentVectorIndex)\<close>

text \<open>Dataclass equality of entries: the vectors are compared as floats.\<close>

definition same_entry :: "index_entry \<Rightarrow> index_entry \<Rightarrow> bool" where
  "same_entry e e' \<longleftrightarrow>
     entry_chunk e = entry_chunk e' \<and>
     emb_document_id (entry_embedding e) = emb_document_id (entry_embedding e') \<and>
     emb_chunk_id (entry_embedding e) = emb_chunk_id (entry_embedding e') \<and>
     list_all2 float_eq (emb_vector (entry_embedding e)) (emb_vector (entry_embedding e'))"

type_synonym identity = "string \<times> string"

text \<open>A dictionary assignment keeps the place of a key that is present.\<close>

definition dict_set :: "('k \<times> 'v) list \<Rightarrow> 'k \<Rightarrow> 'v \<Rightarrow> ('k \<times> 'v) list" where
  "dict_set d k v = (if k \<in> fst ` set d then map (\<lambda>(k', v'). (k', if k' = k then v else v')) d else d @ [(k, v)])"

fun coalesce_from :: "(identity \<times> index_entry) list \<Rightarrow> index_entry list \<Rightarrow> index_entry list result" where
  "coalesce_from d [] = Inr (map snd d)"
| "coalesce_from d (entry # rest) =
     (case map_of d (entry_identity entry) of
        Some existing \<Rightarrow>
          if \<not> same_entry existing entry then Inl (ConflictError index_conflict_message)
          else coalesce_from (dict_set d (entry_identity entry) entry) rest
      | None \<Rightarrow> coalesce_from (dict_set d (entry_identity entry) entry) rest)"

definition coalesce_entries :: "index_entry list \<Rightarrow> index_entry list result" where
  "coalesce_entries entries = coalesce_from [] entries"

definition require_configured_dimension :: "pyfloat list list \<Rightarrow> int \<Rightarrow> string \<Rightarrow> unit result" where
  "require_configured_dimension vectors expected msg =
     raise_if (list_ex (\<lambda>v. int (length v) \<noteq> expected) vectors) (InvalidRequestError msg)"

record 's qdrant_client =
  qc_retrieve :: "'s \<Rightarrow> string list \<Rightarrow> raw_point list result \<times> 's"
  qc_upsert_new :: "'s \<Rightarrow> point_struct list \<Rightarrow> unit result \<times> 's"

fun collect_stored :: "content_hash \<Rightarrow> (string \<times> stored_point) list \<Rightarrow> raw_point list \<Rightarrow> (string \<times> stored_point) list result" where
  "collect_stored h d [] = Inr d"
| "collect_stored h d (r # rest) =
     attempt (parse_stored_point h index_unavailable_message r) (\<lambda>parsed.
       if st_point_id parsed \<in> set (map fst d) then Inl (DependencyUnavailableError index_unavailable_message)
       else collect_stored h (d @ [(st_point_id parsed, parsed)]) rest)"

definition retrieve_by_entries ::
    "content_hash \<Rightarrow> 's qdrant_client \<Rightarrow> 's \<Rightarrow> index_entry list \<Rightarrow> (string \<times> stored_point) list result \<times> 's" where
  "retrieve_by_entries h client s entries =
     (case qc_retrieve client s (map (entry_point_id h) entries) of
        (Inl e, s') \<Rightarrow> (Inl (translate_backend index_unavailable_message e), s')
      | (Inr records, s') \<Rightarrow> (collect_stored h [] records, s'))"

fun select_new :: "content_hash \<Rightarrow> (string \<times> stored_point) list \<Rightarrow> index_entry list \<Rightarrow> index_entry list result" where
  "select_new h existing [] = Inr []"
| "select_new h existing (entry # rest) =
     (case map_of existing (entry_point_id h entry) of
        None \<Rightarrow> attempt (select_new h existing rest) (\<lambda>new. Inr (entry # new))
      | Some stored \<Rightarrow>
          if st_fingerprint stored = entry_fingerprint h entry then select_new h existing rest
          else Inl (ConflictError index_conflict_message))"

fun verify_inserted :: "content_hash \<Rightarrow> (string \<times> stored_point) list \<Rightarrow> index_entry list \<Rightarrow> unit result" where
  "verify_inserted h present [] = Inr ()"
| "verify_inserted h present (entry # rest) =
     (case map_of present (entry_point_id h entry) of
        None \<Rightarrow> Inl (DependencyUnavailableError index_unavailable_message)
      | Some stored \<Rightarrow>
          if st_fingerprint stored \<noteq> entry_fingerprint h entry then Inl (ConflictError index_conflict_message)
          else verify_inserted h present rest)"

definition insert_and_verify ::
    "content_hash \<Rightarrow> 's qdrant_client \<Rightarrow> 's \<Rightarrow> index_entry list \<Rightarrow> unit result \<times> 's" where
  "insert_and_verify h client s new =
     (case qc_upsert_new client s (map (to_point_struct h) new) of
        (Inl e, s') \<Rightarrow> (Inl (translate_backend index_unavailable_message e), s')
      | (Inr _, s') \<Rightarrow>
          (case retrieve_by_entries h client s' new of
             (Inl e, s'') \<Rightarrow> (Inl e, s'')
           | (Inr present, s'') \<Rightarrow> (verify_inserted h present new, s'')))"

definition index_coalesced ::
    "content_hash \<Rightarrow> 's qdrant_client \<Rightarrow> 's \<Rightarrow> index_entry list \<Rightarrow> unit result \<times> 's" where
  "index_coalesced h client s coalesced =
     (case retrieve_by_entries h client s coalesced of
        (Inl e, s') \<Rightarrow> (Inl e, s')
      | (Inr existing, s') \<Rightarrow>
          (case select_new h existing coalesced of
             Inl e \<Rightarrow> (Inl e, s')
           | Inr new \<Rightarrow> if new = [] then (Inr (), s') else insert_and_verify h client s' new))"

definition qdrant_index ::
    "content_hash \<Rightarrow> 's qdrant_client \<Rightarrow> qdrant_config \<Rightarrow> 's \<Rightarrow> index_entry list \<Rightarrow> unit result \<times> 's" where
  "qdrant_index h client config s entries =
     (if entries = [] then (Inr (), s)
      else case attempt (coalesce_entries entries) (\<lambda>coalesced.
              check (require_configured_dimension (map (\<lambda>e. emb_vector (entry_embedding e)) coalesced)
                       (qcfg_vector_size config) index_dimension_message) (Inr coalesced)) of
        Inl e \<Rightarrow> (Inl e, s)
      | Inr coalesced \<Rightarrow> index_coalesced h client s coalesced)"

section \<open>Search (QdrantDocumentVectorSearch)\<close>

text \<open>The client's answer is \<open>None\<close> when its points are not a sequence.\<close>

fun collect_results :: "content_hash \<Rightarrow> identity list \<Rightarrow> raw_point list \<Rightarrow> document_chunk list result" where
  "collect_results h seen [] = Inr []"
| "collect_results h seen (point # rest) =
     attempt (parse_stored_point h search_unavailable_message point) (\<lambda>stored.
       let identity = (chunk_document_id (st_chunk stored), chunk_chunk_id (st_chunk stored)) in
       if identity \<in> set seen then Inl (DependencyUnavailableError search_unavailable_message)
       else attempt (collect_results h (identity # seen) rest) (\<lambda>chunks. Inr (st_chunk stored # chunks)))"

definition qdrant_search ::
    "content_hash \<Rightarrow> (pyfloat list \<Rightarrow> int \<Rightarrow> raw_point list option result) \<Rightarrow> qdrant_config \<Rightarrow> search_query \<Rightarrow>
     document_chunk list result" where
  "qdrant_search h query_points config query =
     check (require_configured_dimension [sq_vector query] (qcfg_vector_size config) query_dimension_message)
      (case query_points (sq_vector query) (sq_limit query) of
         Inl e \<Rightarrow> Inl (translate_backend search_unavailable_message e)
       | Inr None \<Rightarrow> Inl (DependencyUnavailableError search_unavailable_message)
       | Inr (Some points) \<Rightarrow>
           if sq_limit query < int (length points)
           then Inl (DependencyUnavailableError search_unavailable_message)
           else collect_results h [] points)"

section \<open>Collections (collection\_creation.py, collection\_readiness.py, collection\_ensure.py)\<close>

record vector_params =
  vp_size :: int
  vp_distance :: string

text \<open>\<open>cc_info\<close> answers the \<open>vectors\<close> of the collection when they are one \<open>VectorParams\<close>.\<close>

record 's collection_client =
  cc_create :: "'s \<Rightarrow> string \<Rightarrow> vector_params \<Rightarrow> bool result \<times> 's"
  cc_info :: "'s \<Rightarrow> string \<Rightarrow> vector_params option result \<times> 's"
  cc_exists :: "'s \<Rightarrow> string \<Rightarrow> bool result \<times> 's"

definition collection_create_message :: string where
  "collection_create_message = ''Document vector collection could not be created.''"

definition collection_readiness_message :: string where
  "collection_readiness_message = ''Document vector collection is unavailable.''"

definition collection_ensure_message :: string where
  "collection_ensure_message = ''Document vector collection availability could not be determined.''"

definition create_qdrant_document_collection ::
    "'s collection_client \<Rightarrow> qdrant_config \<Rightarrow> string \<Rightarrow> 's \<Rightarrow> unit result \<times> 's" where
  "create_qdrant_document_collection client config distance s =
     (case cc_create client s (qcfg_collection_name config)
             \<lparr>vp_size = qcfg_vector_size config, vp_distance = distance\<rparr> of
        (Inl e, s') \<Rightarrow> (Inl (translate_backend collection_create_message e), s')
      | (Inr created, s') \<Rightarrow>
          (raise_if (\<not> created) (DependencyUnavailableError collection_create_message), s'))"

definition verify_qdrant_document_collection_ready ::
    "'s collection_client \<Rightarrow> qdrant_config \<Rightarrow> string \<Rightarrow> 's \<Rightarrow> unit result \<times> 's" where
  "verify_qdrant_document_collection_ready client config distance s =
     (case cc_info client s (qcfg_collection_name config) of
        (Inl e, s') \<Rightarrow> (Inl (translate_backend collection_readiness_message e), s')
      | (Inr None, s') \<Rightarrow> (Inl (DependencyUnavailableError collection_readiness_message), s')
      | (Inr (Some vectors), s') \<Rightarrow>
          (check (raise_if (vp_size vectors \<noteq> qcfg_vector_size config)
                    (DependencyUnavailableError collection_readiness_message))
             (raise_if (vp_distance vectors \<noteq> distance)
                (DependencyUnavailableError collection_readiness_message)), s'))"

definition ensure_qdrant_document_collection_ready ::
    "'s collection_client \<Rightarrow> qdrant_config \<Rightarrow> string \<Rightarrow> 's \<Rightarrow> unit result \<times> 's" where
  "ensure_qdrant_document_collection_ready client config distance s =
     (case cc_exists client s (qcfg_collection_name config) of
        (Inl e, s') \<Rightarrow> (Inl (translate_backend collection_ensure_message e), s')
      | (Inr exists, s') \<Rightarrow>
          if \<not> exists then create_qdrant_document_collection client config distance s'
          else verify_qdrant_document_collection_ready client config distance s')"

section \<open>Stored points\<close>

lemma translate_value_errors_Inr [simp]: "translate_value_errors msg r = Inr x \<longleftrightarrow> r = Inr x"
  by (auto simp: translate_value_errors_def split: sum.splits exn.splits)

lemma parse_stored_point_Inr:
  "parse_stored_point h msg r = Inr st \<longleftrightarrow>
   (\<exists>payload. uuid_text h (rp_id r) = Some (st_point_id st) \<and> rp_payload r = Some payload \<and>
      set (map fst payload) = set payload_keys \<and> parse_payload payload = Inr (st_chunk st, st_fingerprint st) \<and>
      st_point_id st = point_uuid h (chunk_document_id (st_chunk st)) (chunk_chunk_id (st_chunk st)))"
  by (cases st) (auto simp: parse_stored_point_def normalize_point_id_def result_simps split: option.splits)

lemma parse_stored_point_cong:
  "uuid_text h (rp_id r) = uuid_text h (rp_id r') \<Longrightarrow> rp_payload r = rp_payload r' \<Longrightarrow>
   parse_stored_point h msg r = parse_stored_point h msg r'"
  by (simp add: parse_stored_point_def normalize_point_id_def)

text \<open>The store holds the entry: the payload under its point id parses and has its fingerprint.\<close>

definition holds_entry :: "content_hash \<Rightarrow> ('s \<Rightarrow> string \<Rightarrow> payload option) \<Rightarrow> 's \<Rightarrow> index_entry \<Rightarrow> bool" where
  "holds_entry h lookup s e \<longleftrightarrow>
     (\<exists>raw st. uuid_text h (rp_id raw) = Some (entry_point_id h e) \<and>
        lookup s (entry_point_id h e) = rp_payload raw \<and>
        parse_stored_point h index_unavailable_message raw = Inr st \<and>
        st_fingerprint st = entry_fingerprint h e)"

text \<open>What other writers may do: add points, never change or remove one.\<close>

definition store_grows :: "('s \<Rightarrow> string \<Rightarrow> payload option) \<Rightarrow> 's \<Rightarrow> 's \<Rightarrow> bool" where
  "store_grows lookup s s' \<longleftrightarrow> (\<forall>i p. lookup s i = Some p \<longrightarrow> lookup s' i = Some p)"

lemma store_grows_refl [simp]: "store_grows lookup s s"
  by (simp add: store_grows_def)

lemma store_grows_trans [trans]:
  "store_grows lookup s t \<Longrightarrow> store_grows lookup t u \<Longrightarrow> store_grows lookup s u"
  by (simp add: store_grows_def)

lemma holds_entry_grows: "holds_entry h lookup s e \<Longrightarrow> store_grows lookup s s' \<Longrightarrow> holds_entry h lookup s' e"
  unfolding holds_entry_def store_grows_def parse_stored_point_Inr by (metis option.distinct(1))

text \<open>
  The documented behaviour of the client: retrieving answers stored points among the requested ones,
  each once, and all that were there before; an insert-only upsert adds points.
\<close>

definition insert_only_client ::
    "content_hash \<Rightarrow> 's qdrant_client \<Rightarrow> ('s \<Rightarrow> string \<Rightarrow> payload option) \<Rightarrow> bool" where
  "insert_only_client h client lookup \<longleftrightarrow>
     (\<forall>s ids r s'. qc_retrieve client s ids = (r, s') \<longrightarrow> store_grows lookup s s') \<and>
     (\<forall>s ps r s'. qc_upsert_new client s ps = (r, s') \<longrightarrow> store_grows lookup s s') \<and>
     (\<forall>s ids rs s'. qc_retrieve client s ids = (Inr rs, s') \<longrightarrow>
        (\<forall>p \<in> set rs. \<exists>i. uuid_text h (rp_id p) = Some i \<and> i \<in> set ids \<and>
           rp_payload p \<noteq> None \<and> lookup s' i = rp_payload p) \<and>
        distinct (map (\<lambda>p. uuid_text h (rp_id p)) rs) \<and>
        (\<forall>i \<in> set ids. lookup s i \<noteq> None \<longrightarrow> (\<exists>p \<in> set rs. uuid_text h (rp_id p) = Some i)))"

lemma collect_stored_from:
  "collect_stored h d rs = Inr d' \<Longrightarrow> map_of d' i = Some st \<Longrightarrow>
   map_of d i = Some st \<or>
   (\<exists>r \<in> set rs. parse_stored_point h index_unavailable_message r = Inr st \<and> i = st_point_id st)"
proof (induction rs arbitrary: d)
  case (Cons r rs)
  then obtain st' where "parse_stored_point h index_unavailable_message r = Inr st'"
      "collect_stored h (d @ [(st_point_id st', st')]) rs = Inr d'"
    by (auto simp: result_simps split: if_splits)
  then show ?case using Cons.IH [of "d @ [(st_point_id st', st')]"] Cons.prems(2)
    by (auto simp: map_add_def split: option.splits if_splits)
qed simp

lemma collect_stored_all:
  "\<forall>r \<in> set rs. parse_stored_point h index_unavailable_message r = Inr (f r) \<Longrightarrow>
   distinct (map (\<lambda>r. st_point_id (f r)) rs) \<Longrightarrow>
   set (map fst d) \<inter> set (map (\<lambda>r. st_point_id (f r)) rs) = {} \<Longrightarrow>
   collect_stored h d rs = Inr (d @ map (\<lambda>r. (st_point_id (f r), f r)) rs)"
  by (induction rs arbitrary: d) auto

lemma retrieve_by_entries_holds:
  assumes "insert_only_client h client lookup" "retrieve_by_entries h client s es = (Inr d, s')"
    and "map_of d (entry_point_id h e) = Some st" "st_fingerprint st = entry_fingerprint h e"
  shows "holds_entry h lookup s' e"
proof -
  obtain rs where rs: "qc_retrieve client s (map (entry_point_id h) es) = (Inr rs, s')"
      "collect_stored h [] rs = Inr d"
    using assms(2) by (auto simp: retrieve_by_entries_def split: prod.splits sum.splits)
  obtain r where r: "r \<in> set rs" "parse_stored_point h index_unavailable_message r = Inr st"
      "entry_point_id h e = st_point_id st"
    using collect_stored_from [OF rs(2) assms(3)] by auto
  then have "uuid_text h (rp_id r) = Some (entry_point_id h e)" by (auto simp: parse_stored_point_Inr)
  moreover have "lookup s' (entry_point_id h e) = rp_payload r"
    using assms(1) rs(1) r(1) calculation unfolding insert_only_client_def by (metis option.inject)
  ultimately show ?thesis using r(2) assms(4) unfolding holds_entry_def by blast
qed

lemma retrieve_by_entries_grows:
  "insert_only_client h client lookup \<Longrightarrow> retrieve_by_entries h client s es = (r, s') \<Longrightarrow> store_grows lookup s s'"
  by (auto simp: retrieve_by_entries_def insert_only_client_def split: prod.splits sum.splits)

section \<open>The index operation\<close>

lemma select_new_ok:
  "select_new h existing es = Inr new \<Longrightarrow>
   set new \<subseteq> set es \<and> (\<forall>e \<in> set es. e \<in> set new \<or>
     (\<exists>st. map_of existing (entry_point_id h e) = Some st \<and> st_fingerprint st = entry_fingerprint h e))"
  by (induction es arbitrary: new) (fastforce simp: result_simps split: option.splits if_splits)+

lemma select_new_none:
  "\<forall>e \<in> set es. \<exists>st. map_of existing (entry_point_id h e) = Some st \<and> st_fingerprint st = entry_fingerprint h e \<Longrightarrow>
   select_new h existing es = Inr []"
  by (induction es) auto

lemma verify_inserted_ok:
  "verify_inserted h present es = Inr u \<Longrightarrow> e \<in> set es \<Longrightarrow>
   \<exists>st. map_of present (entry_point_id h e) = Some st \<and> st_fingerprint st = entry_fingerprint h e"
  by (induction es) (auto split: option.splits if_splits)

lemma insert_and_verify_spec:
  assumes "insert_only_client h client lookup" "insert_and_verify h client s new = (r, s')"
  shows "store_grows lookup s s' \<and> (r = Inr () \<longrightarrow> (\<forall>e \<in> set new. holds_entry h lookup s' e))"
proof -
  obtain u s1 where up: "qc_upsert_new client s (map (to_point_struct h) new) = (u, s1)" by fastforce
  then have g1: "store_grows lookup s s1" using assms(1) by (auto simp: insert_only_client_def)
  show ?thesis
  proof (cases u)
    case (Inl e)
    then show ?thesis using assms(2) up g1 by (auto simp: insert_and_verify_def)
  next
    case (Inr v)
    obtain d s2 where re: "retrieve_by_entries h client s1 new = (d, s2)" by fastforce
    then have s': "s' = s2" using assms(2) up Inr by (auto simp: insert_and_verify_def split: sum.splits)
    have "holds_entry h lookup s' e" if ok: "r = Inr ()" and e: "e \<in> set new" for e
    proof -
      obtain present where p: "d = Inr present" "verify_inserted h present new = Inr ()"
        using assms(2) up Inr re ok by (auto simp: insert_and_verify_def split: sum.splits)
      then show ?thesis
        using verify_inserted_ok [OF p(2) e] retrieve_by_entries_holds [OF assms(1), of s1 new present s2 e] re s'
        by auto
    qed
    then show ?thesis
      using store_grows_trans [OF g1 retrieve_by_entries_grows [OF assms(1) re]] s' by blast
  qed
qed

lemma index_coalesced_spec:
  assumes "insert_only_client h client lookup" "index_coalesced h client s es = (r, s')"
  shows "store_grows lookup s s' \<and> (r = Inr () \<longrightarrow> (\<forall>e \<in> set es. holds_entry h lookup s' e))"
proof -
  obtain d s1 where re: "retrieve_by_entries h client s es = (d, s1)" by fastforce
  note g1 = retrieve_by_entries_grows [OF assms(1) re]
  show ?thesis
  proof (cases d)
    case (Inl e)
    then show ?thesis using assms(2) re g1 by (auto simp: index_coalesced_def)
  next
    case (Inr existing)
    show ?thesis
    proof (cases "select_new h existing es")
      case (Inl e)
      then show ?thesis using assms(2) re g1 \<open>d = Inr existing\<close> by (auto simp: index_coalesced_def)
    next
      case sel: (Inr new)
      have old: "holds_entry h lookup s1 e" if "e \<in> set es" "e \<notin> set new" for e
        using select_new_ok [OF sel] that retrieve_by_entries_holds [OF assms(1)] re Inr by blast
      show ?thesis
      proof (cases "new = []")
        case True
        then show ?thesis using assms(2) re g1 Inr sel old by (auto simp: index_coalesced_def)
      next
        case False
        then have "insert_and_verify h client s1 new = (r, s')"
          using assms(2) re Inr sel by (simp add: index_coalesced_def)
        note ins = insert_and_verify_spec [OF assms(1) this]
        then show ?thesis using store_grows_trans [OF g1] holds_entry_grows [OF old] by blast
      qed
    qed
  qed
qed

text \<open>Coalescing keeps, for every entry, one of the same chunk.\<close>

lemma coalesce_from_ok:
  "coalesce_from d es = Inr co \<Longrightarrow> distinct (map fst d) \<Longrightarrow>
   (\<forall>(k, e) \<in> set d. \<exists>e' \<in> set co. entry_chunk e' = entry_chunk e) \<and>
   (\<forall>e \<in> set es. \<exists>e' \<in> set co. entry_chunk e' = entry_chunk e) \<and>
   set co \<subseteq> snd ` set d \<union> set es"
proof (induction es arbitrary: d)
  case Nil
  then show ?case by force
next
  case (Cons e es)
  let ?k = "entry_identity e" and ?d = "dict_set d (entry_identity e) e"
  have run: "coalesce_from ?d es = Inr co"
    and same: "\<forall>x. map_of d ?k = Some x \<longrightarrow> entry_chunk x = entry_chunk e"
    using Cons.prems(1) by (auto simp: same_entry_def split: option.splits if_splits)
  have "map fst (map (\<lambda>(k', v'). (k', if k' = ?k then e else v')) d) = map fst d"
    by (simp add: comp_def split_def)
  then have "distinct (map fst ?d)" using Cons.prems(2) unfolding dict_set_def
    by (auto simp del: map_map)
  note IH = Cons.IH [OF run this]
  have put: "(?k, e) \<in> set ?d" by (force simp: dict_set_def)
  have sub: "snd ` set ?d \<subseteq> snd ` set d \<union> {e}" by (auto simp: dict_set_def split: if_splits)
  have kept: "\<exists>x. (k, x) \<in> set ?d \<and> entry_chunk x = entry_chunk v" if "(k, v) \<in> set d" for k v
  proof (cases "k = ?k")
    case True
    then have "entry_chunk v = entry_chunk e"
      using same that Cons.prems(2) by (metis map_of_is_SomeI)
    then show ?thesis using put True by force
  next
    case False
    then have "(k, v) \<in> set ?d" using that by (force simp: dict_set_def)
    then show ?thesis by blast
  qed
  have "\<exists>e' \<in> set co. entry_chunk e' = entry_chunk v" if kv: "(k, v) \<in> set d" for k v
  proof -
    obtain x where "(k, x) \<in> set ?d" "entry_chunk x = entry_chunk v" using kept [OF kv] by blast
    then show ?thesis using IH by fastforce
  qed
  moreover have "\<exists>e' \<in> set co. entry_chunk e' = entry_chunk e" using IH put by fastforce
  moreover have "set co \<subseteq> snd ` set d \<union> set (e # es)"
  proof -
    have "set co \<subseteq> snd ` set ?d \<union> set es" using IH by blast
    also have "\<dots> \<subseteq> snd ` set d \<union> {e} \<union> set es" using sub by (intro Un_mono) simp_all
    finally show ?thesis by (simp add: Un_commute Un_left_commute)
  qed
  moreover have "\<forall>e \<in> set es. \<exists>e' \<in> set co. entry_chunk e' = entry_chunk e" using IH by blast
  ultimately show ?case by auto
qed

lemma coalesce_entries_ok:
  assumes "coalesce_entries es = Inr co"
  shows "set co \<subseteq> set es" "e \<in> set es \<Longrightarrow> \<exists>e' \<in> set co. entry_chunk e' = entry_chunk e"
  using coalesce_from_ok [of "[]" es co] assms by (auto simp: coalesce_entries_def)

lemma qdrant_index_cases:
  assumes "qdrant_index h client config s es = (r, s')"
  obtains "r \<noteq> Inr ()" "s' = s" | "es = []" "r = Inr ()" "s' = s"
    | co where "es \<noteq> []" "coalesce_entries es = Inr co" "index_coalesced h client s co = (r, s')"
        "require_configured_dimension (map (\<lambda>e. emb_vector (entry_embedding e)) co)
           (qcfg_vector_size config) index_dimension_message = Inr ()"
  using assms by (auto simp: qdrant_index_def attempt_Inr_iff check_Inr_iff split: if_splits sum.splits)

section \<open>Writing and reading back\<close>

text \<open>A chunk as its constructor leaves it, and a digest as \<open>hexdigest\<close> writes it.\<close>

definition chunk_ok :: "document_chunk \<Rightarrow> bool" where
  "chunk_ok c \<longleftrightarrow>
     make_document_chunk (chunk_document_id c) (chunk_chunk_id c) (chunk_ordinal c) (chunk_text c)
       (chunk_page_number c) = Inr c"

definition hex_digest :: "string \<Rightarrow> bool" where
  "hex_digest d \<longleftrightarrow> length d = 64 \<and> list_all is_hex_digit d"

lemma make_document_chunk_chunk_ok: "make_document_chunk d c n t p = Inr x \<Longrightarrow> chunk_ok x"
  by (auto simp: chunk_ok_def make_document_chunk_def require_non_negative_int_def require_positive_int_def
      result_simps split: if_splits option.splits)

lemma is_hex_digit_code:
  "is_hex_digit c \<Longrightarrow> (let n = (of_char c :: nat) in (48 \<le> n \<and> n \<le> 57) \<or> (97 \<le> n \<and> n \<le> 102))"
  by (auto simp: is_hex_digit_def is_digit_def Let_def)

lemma is_hex_digit_plain:
  assumes "is_hex_digit c"
  shows "lower_char c = c" "\<not> py_isspace c" "c \<noteq> CHR ''+''" "c \<noteq> CHR ''-''" "c \<noteq> CHR ''x''" "c \<noteq> CHR ''_''"
  using is_hex_digit_code [OF assms] by (auto simp: lower_char_def py_isspace_def Let_def)

lemma hex_body_digits: "list_all is_hex_digit s \<Longrightarrow> s \<noteq> [] \<Longrightarrow> hex_body s"
  by (induction s rule: hex_body.induct) (auto dest: is_hex_digit_plain(6))

lemma dropWhile_none: "\<forall>x \<in> set xs. \<not> P x \<Longrightarrow> dropWhile P xs = xs"
  by (cases xs) auto

lemma hex_digest_parses:
  assumes "hex_digest d"
  shows "require_fingerprint (JStr d) = Inr d"
proof -
  have hex: "\<forall>c \<in> set d. is_hex_digit c" "length d = 64" using assms by (simp_all add: hex_digest_def list_all_iff)
  then obtain a b r where d: "d = a # b # r" by (cases d rule: remdups_adj.cases) auto
  have lower: "map lower_char d = d" using hex(1) is_hex_digit_plain(1) by (intro map_idI) blast
  have "\<forall>c \<in> set d. \<not> py_isspace c" using hex(1) is_hex_digit_plain(2) by blast
  then have strip: "py_strip d = d" by (simp add: py_strip_def dropWhile_none)
  have "is_hex_digit a" "is_hex_digit b" using hex(1) by (simp_all add: d)
  then have "drop_prefix d = d" "a \<noteq> CHR ''+''" "a \<noteq> CHR ''-''"
    using is_hex_digit_plain [of a] is_hex_digit_plain [of b] by (simp_all add: drop_prefix_def d numeral_3_eq_3)
  then have "parses_as_hex d"
    using hex hex_body_digits [of d] by (simp add: parses_as_hex_def strip list_all_iff) (simp add: d)
  then show ?thesis using lower hex(2) by (simp add: require_fingerprint_def Let_def)
qed

lemma require_payload_page_number_json:
  "chunk_ok c \<Longrightarrow> require_payload_page_number (page_number_json (chunk_page_number c)) = Inr (chunk_page_number c)"
  by (auto simp: chunk_ok_def require_payload_page_number_def page_number_json_def make_document_chunk_def
      require_positive_int_def result_simps split: option.splits if_splits)

lemma parse_encode_payload:
  assumes "chunk_ok (entry_chunk e)" "hex_digest (entry_fingerprint h e)"
  shows "parse_payload (encode_payload h e) = Inr (entry_chunk e, entry_fingerprint h e)"
proof -
  have "0 \<le> chunk_ordinal (entry_chunk e)"
    using assms(1) make_document_chunk_ok unfolding chunk_ok_def by blast
  then show ?thesis
    using assms require_payload_page_number_json [OF assms(1)] hex_digest_parses [OF assms(2)]
    by (simp add: parse_payload_def payload_get_def encode_payload_def Let_def chunk_ok_def)
qed

lemma encode_payload_keys: "set (map fst (encode_payload h e)) = set payload_keys"
  by (simp add: encode_payload_def payload_keys_def Let_def)

lemma parse_written_point:
  assumes "chunk_ok (entry_chunk e)" "hex_digest (entry_fingerprint h e)"
    and "uuid_text h (entry_point_id h e) = Some (entry_point_id h e)"
  shows "parse_stored_point h msg \<lparr>rp_id = entry_point_id h e, rp_payload = Some (encode_payload h e)\<rparr>
    = Inr \<lparr>st_point_id = entry_point_id h e, st_chunk = entry_chunk e, st_fingerprint = entry_fingerprint h e\<rparr>"
  using assms parse_encode_payload [OF assms(1,2)] encode_payload_keys [of h e]
  by (simp add: parse_stored_point_Inr entry_point_id_def)

lemma qdrant_index_spec:
  assumes "insert_only_client h client lookup" "qdrant_index h client config s es = (r, s')"
  shows "store_grows lookup s s' \<and>
    (r = Inr () \<longrightarrow> (\<forall>e \<in> set es. \<exists>e' \<in> set es. entry_chunk e' = entry_chunk e \<and> holds_entry h lookup s' e'))"
  using assms(2)
proof (cases rule: qdrant_index_cases)
  case (3 co)
  then show ?thesis
    using index_coalesced_spec [OF assms(1) 3(3)] coalesce_entries_ok [OF 3(2)] by blast
qed auto

section \<open>Properties\<close>

text \<open>C19: POINT-ROUNDTRIP. Reading a point back from the payload written for an entry gives its chunk
  and fingerprint under its own point id; and the text hashed into a point id determines the document
  and chunk ids, whatever quotes, commas or control characters they contain.\<close>

theorem stored_point_roundtrip:
  assumes "chunk_ok (entry_chunk e)" "hex_digest (entry_fingerprint h e)"
    and "uuid_text h (entry_point_id h e) = Some (entry_point_id h e)"
  shows "parse_stored_point h msg \<lparr>rp_id = ps_id (to_point_struct h e), rp_payload = Some (ps_payload (to_point_struct h e))\<rparr>
      = Inr \<lparr>st_point_id = entry_point_id h e, st_chunk = entry_chunk e, st_fingerprint = entry_fingerprint h e\<rparr> \<and>
    (point_identity_text d c = point_identity_text d' c' \<longleftrightarrow> d = d' \<and> c = c')"
  using parse_written_point [OF assms] json_pair_inject [of d c d' c']
  by (simp add: to_point_struct_def point_identity_text_def del: json_dumps.simps)

text \<open>Concrete parameters for the witnesses: an in-memory store, identities kept as text.\<close>

definition sample_hash :: content_hash where
  "sample_hash = \<lparr>uuid5_text = id, uuid_text = Some, sha256_hex = (\<lambda>_. replicate 64 (CHR ''0'')), float_hex = (\<lambda>_. '''')\<rparr>"

type_synonym memory_store = "string \<Rightarrow> payload option"

definition memory_upsert :: "memory_store \<Rightarrow> point_struct list \<Rightarrow> memory_store" where
  "memory_upsert s ps = foldl (\<lambda>t p. if t (ps_id p) = None then t(ps_id p \<mapsto> ps_payload p) else t) s ps"

definition memory_client :: "memory_store qdrant_client" where
  "memory_client =
     \<lparr>qc_retrieve = (\<lambda>s ids. (Inr (map (\<lambda>i. \<lparr>rp_id = i, rp_payload = s i\<rparr>) (filter (\<lambda>i. s i \<noteq> None) (remdups ids))), s)),
      qc_upsert_new = (\<lambda>s ps. (Inr (), memory_upsert s ps))\<rparr>"

definition sample_entry :: index_entry where
  "sample_entry =
     \<lparr>entry_chunk = \<lparr>chunk_document_id = ''d'', chunk_chunk_id = ''c'', chunk_ordinal = 0, chunk_text = ''t'',
        chunk_page_number = Some 1\<rparr>,
      entry_embedding = \<lparr>emb_document_id = ''d'', emb_chunk_id = ''c'', emb_vector = [float_one]\<rparr>\<rparr>"

definition sample_qdrant_config :: qdrant_config where
  "sample_qdrant_config = \<lparr>qcfg_collection_name = ''docs'', qcfg_vector_size = 1\<rparr>"

lemma sample_entry_ok:
  "chunk_ok (entry_chunk sample_entry)" "hex_digest (entry_fingerprint sample_hash sample_entry)"
  "uuid_text sample_hash i = Some i"
  by (simp_all add: sample_entry_def chunk_ok_def make_document_chunk_def require_non_empty_def py_strip_def
      py_isspace_def Let_def require_non_negative_int_def require_positive_int_def hex_digest_def
      entry_fingerprint_def sample_hash_def list_all_iff is_hex_digit_def is_digit_def)

theorem stored_point_roundtrip_witness:
  "parse_stored_point sample_hash '''' \<lparr>rp_id = entry_point_id sample_hash sample_entry,
      rp_payload = Some (encode_payload sample_hash sample_entry)\<rparr>
    = Inr \<lparr>st_point_id = entry_point_id sample_hash sample_entry, st_chunk = entry_chunk sample_entry,
           st_fingerprint = entry_fingerprint sample_hash sample_entry\<rparr>"
  using stored_point_roundtrip [OF sample_entry_ok, of "''''"] by (simp add: to_point_struct_def)

lemma memory_upsert_grows: "store_grows (\<lambda>s. s) s (memory_upsert s ps)"
  unfolding memory_upsert_def
proof (induction ps arbitrary: s)
  case (Cons p ps)
  have "store_grows (\<lambda>s. s) s (if s (ps_id p) = None then s(ps_id p \<mapsto> ps_payload p) else s)"
    by (auto simp: store_grows_def)
  then show ?case using store_grows_trans [OF _ Cons.IH] by simp
qed simp

lemma memory_client_insert_only: "insert_only_client sample_hash memory_client (\<lambda>s. s)"
  by (auto simp: insert_only_client_def memory_client_def memory_upsert_grows sample_hash_def comp_def
      distinct_map inj_on_def)

definition sample_store :: memory_store where
  "sample_store = [entry_point_id sample_hash sample_entry \<mapsto> encode_payload sample_hash sample_entry]"

lemma sample_index: "qdrant_index sample_hash memory_client sample_qdrant_config Map.empty [sample_entry] = (Inr (), sample_store)"
proof -
  have "require_configured_dimension [emb_vector (entry_embedding sample_entry)]
      (qcfg_vector_size sample_qdrant_config) index_dimension_message = Inr ()"
    by (simp add: sample_entry_def sample_qdrant_config_def require_configured_dimension_def raise_if_def)
  then show ?thesis
    by (simp add: qdrant_index_def coalesce_entries_def dict_set_def index_coalesced_def insert_and_verify_def
        retrieve_by_entries_def memory_client_def memory_upsert_def parse_written_point sample_entry_ok
        sample_store_def to_point_struct_def)
qed

text \<open>C11: INDEX-WRITE-ONCE. Against an insert-only store that other writers may extend at any moment,
  indexing never changes a stored point, whatever its outcome; and when it returns, the store holds,
  for every entry, an entry handed in for the same chunk with its own fingerprint.\<close>

theorem index_is_write_once:
  assumes "insert_only_client h client lookup" "qdrant_index h client config s es = (r, s')"
  shows "store_grows lookup s s' \<and>
    (r = Inr () \<longrightarrow> (\<forall>e \<in> set es. \<exists>e' \<in> set es. entry_chunk e' = entry_chunk e \<and> holds_entry h lookup s' e'))"
  by (rule qdrant_index_spec [OF assms])

theorem index_is_write_once_witness:
  "holds_entry sample_hash (\<lambda>s. s) sample_store sample_entry"
  using index_is_write_once [OF memory_client_insert_only sample_index] by simp

text \<open>C12: REINDEX-NOOP. Once an index call has returned, repeating it later, after any further writes by
  others, returns as soon as the backend answers the first retrieval: nothing is upserted and no
  conflict is raised.\<close>

theorem reindexing_is_noop:
  assumes "insert_only_client h client lookup"
    and "qdrant_index h client config s es = (Inr (), s')" "es \<noteq> []" "coalesce_entries es = Inr co"
    and "store_grows lookup s' t"
    and "qc_retrieve client t (map (entry_point_id h) co) = (Inr rs, t')"
  shows "qdrant_index h client config t es = (Inr (), t')"
proof -
  have co: "index_coalesced h client s co = (Inr (), s')"
      "require_configured_dimension (map (\<lambda>e. emb_vector (entry_embedding e)) co)
         (qcfg_vector_size config) index_dimension_message = Inr ()"
    using assms(2-4) by (auto elim!: qdrant_index_cases)
  have "store_grows lookup t t'" using assms(1,6) unfolding insert_only_client_def by blast
  then have held: "holds_entry h lookup t' e" if "e \<in> set co" for e
    using index_coalesced_spec [OF assms(1) co(1)] that
      holds_entry_grows [OF _ store_grows_trans [OF assms(5)]] by blast
  let ?parse = "parse_stored_point h index_unavailable_message"
  have answers: "\<forall>p \<in> set rs. \<exists>i. uuid_text h (rp_id p) = Some i \<and> i \<in> set (map (entry_point_id h) co) \<and>
        rp_payload p \<noteq> None \<and> lookup t' i = rp_payload p"
    and once: "distinct (map (\<lambda>p. uuid_text h (rp_id p)) rs)"
    and complete: "\<forall>i \<in> set (map (entry_point_id h) co). lookup t i \<noteq> None \<longrightarrow> (\<exists>p \<in> set rs. uuid_text h (rp_id p) = Some i)"
    using assms(1,6) unfolding insert_only_client_def by blast+
  have parses: "\<exists>st. ?parse p = Inr st \<and> st_fingerprint st = entry_fingerprint h e"
    if p: "p \<in> set rs" "uuid_text h (rp_id p) = Some (entry_point_id h e)" and e: "e \<in> set co" for p e
  proof -
    obtain raw st where raw: "uuid_text h (rp_id raw) = Some (entry_point_id h e)"
        "lookup t' (entry_point_id h e) = rp_payload raw" "?parse raw = Inr st"
        "st_fingerprint st = entry_fingerprint h e"
      using held [OF e] unfolding holds_entry_def by blast
    then have "?parse p = ?parse raw"
      using answers p by (intro parse_stored_point_cong) auto
    then show ?thesis using raw by simp
  qed
  define f where "f p = projr (?parse p)" for p
  have fp: "?parse p = Inr (f p)" "uuid_text h (rp_id p) = Some (st_point_id (f p))" if p: "p \<in> set rs" for p
  proof -
    obtain e where "e \<in> set co" "uuid_text h (rp_id p) = Some (entry_point_id h e)"
      using answers p by fastforce
    then show "?parse p = Inr (f p)" using parses [OF p, of e] by (auto simp: f_def)
    then show "uuid_text h (rp_id p) = Some (st_point_id (f p))" by (simp add: parse_stored_point_Inr)
  qed
  let ?d = "map (\<lambda>r. (st_point_id (f r), f r)) rs"
  have "map (\<lambda>p. uuid_text h (rp_id p)) rs = map Some (map (\<lambda>p. st_point_id (f p)) rs)"
    using fp by simp
  then have keys: "distinct (map (\<lambda>p. st_point_id (f p)) rs)"
    using once by (metis distinct_map)
  then have "collect_stored h [] rs = Inr ?d" using collect_stored_all [of rs h f "[]"] fp by simp
  then have re: "retrieve_by_entries h client t co = (Inr ?d, t')"
    using assms(6) by (simp add: retrieve_by_entries_def)
  have "\<exists>st. map_of ?d (entry_point_id h e) = Some st \<and> st_fingerprint st = entry_fingerprint h e"
    if e: "e \<in> set co" for e
  proof -
    have "holds_entry h lookup t e"
      using index_coalesced_spec [OF assms(1) co(1)] e holds_entry_grows [OF _ assms(5)] by blast
    then have "lookup t (entry_point_id h e) \<noteq> None"
      by (auto simp: holds_entry_def parse_stored_point_Inr)
    then obtain p where p: "p \<in> set rs" "uuid_text h (rp_id p) = Some (entry_point_id h e)"
      using complete e by auto
    then have "(entry_point_id h e, f p) \<in> set ?d" using fp by force
    then have "map_of ?d (entry_point_id h e) = Some (f p)"
      using keys by (intro map_of_is_SomeI) (simp_all add: comp_def)
    then show ?thesis using parses [OF p e] fp [OF p(1)] by auto
  qed
  then have "select_new h ?d co = Inr []" by (intro select_new_none) blast
  then show ?thesis using assms(3,4) co(2) re by (simp add: qdrant_index_def index_coalesced_def)
qed

theorem reindexing_is_noop_witness:
  "qdrant_index sample_hash memory_client sample_qdrant_config sample_store [sample_entry] = (Inr (), sample_store)"
  by (rule reindexing_is_noop [OF memory_client_insert_only sample_index, where co = "[sample_entry]"])
    (simp_all add: coalesce_entries_def dict_set_def memory_client_def sample_store_def)

section \<open>The search result\<close>

text \<open>A search answers at most the requested number of chunks, no identity twice.\<close>

lemma collect_results_ok:
  "collect_results h seen ps = Inr cs \<Longrightarrow>
   length cs = length ps \<and> distinct (map (\<lambda>c. (chunk_document_id c, chunk_chunk_id c)) cs) \<and>
   set (map (\<lambda>c. (chunk_document_id c, chunk_chunk_id c)) cs) \<inter> set seen = {}"
proof (induction ps arbitrary: seen cs)
  case (Cons p ps)
  then obtain st cs' where run: "parse_stored_point h search_unavailable_message p = Inr st"
      "cs = st_chunk st # cs'"
      "collect_results h ((chunk_document_id (st_chunk st), chunk_chunk_id (st_chunk st)) # seen) ps = Inr cs'"
      "(chunk_document_id (st_chunk st), chunk_chunk_id (st_chunk st)) \<notin> set seen"
    by (auto simp: result_simps Let_def split: if_splits)
  then show ?case using Cons.IH [OF run(3)] by auto
qed simp

lemma qdrant_search_bounded:
  assumes "qdrant_search h query_points config query = Inr cs"
  shows "int (length cs) \<le> sq_limit query \<and> distinct (map (\<lambda>c. (chunk_document_id c, chunk_chunk_id c)) cs)"
  using assms by (auto simp: qdrant_search_def result_simps split: sum.splits option.splits if_splits
      dest: collect_results_ok)

end
