(* ===== verification/Document_Adapters.thy ===== *)
theory Document_Adapters
  imports Regulatory Vector_Index "HOL-Library.Multiset"
begin

text \<open>
  The vendor-facing document adapters: OpenAI embeddings of chunks and of queries
  (infrastructure/embeddings) and PDF text extraction (infrastructure/adapters/unstructured). The
  provider's response and the PDF reader are arguments.
\<close>

section \<open>Provider items\<close>

text \<open>What \<open>getattr\<close> finds: an index that is absent, an integer or something else, and an
  embedding that is absent, not iterable, of elements that are not floats, or a list of floats.\<close>

datatype provider_index = NoIndex | IntIndex int | OtherIndex

datatype provider_vector = NoEmbedding | NotIterable | OtherElements | Floats "pyfloat list"

record provider_item =
  pi_index :: provider_index
  pi_embedding :: provider_vector

text \<open>\<open>None\<close>: the response's data is not a sequence.\<close>

type_synonym provider_data = "provider_item list option"

section \<open>Document embedding (openai\_document\_embedding.py)\<close>

definition embedding_unavailable_message :: string where
  "embedding_unavailable_message = ''Document embedding is unavailable.''"

fun indexed_items :: "int \<Rightarrow> provider_item list \<Rightarrow> (int \<times> provider_item) list result" where
  "indexed_items position [] = Inr []"
| "indexed_items position (item # rest) =
     (case pi_index item of
        NoIndex \<Rightarrow> attempt (indexed_items (position + 1) rest) (\<lambda>xs. Inr ((position, item) # xs))
      | IntIndex i \<Rightarrow> attempt (indexed_items (position + 1) rest) (\<lambda>xs. Inr ((i, item) # xs))
      | OtherIndex \<Rightarrow> Inl (DependencyUnavailableError embedding_unavailable_message))"

definition ordered_provider_items :: "provider_data \<Rightarrow> nat \<Rightarrow> provider_item list result" where
  "ordered_provider_items data expected =
     (case data of
        None \<Rightarrow> Inl (DependencyUnavailableError embedding_unavailable_message)
      | Some items \<Rightarrow>
          if length items \<noteq> expected then Inl (DependencyUnavailableError embedding_unavailable_message)
          else attempt (indexed_items 0 items) (\<lambda>indexed.
            if set (map fst indexed) \<noteq> {0..<int expected}
            then Inl (DependencyUnavailableError embedding_unavailable_message)
            else Inr (map snd (sort_key fst indexed))))"

definition provider_vector_of :: "string \<Rightarrow> provider_item \<Rightarrow> pyfloat list result" where
  "provider_vector_of msg item =
     (case pi_embedding item of
        Floats v \<Rightarrow> Inr v
      | _ \<Rightarrow> Inl (DependencyUnavailableError msg))"

definition chunk_embedding_of :: "document_chunk \<times> provider_item \<Rightarrow> chunk_embedding result" where
  "chunk_embedding_of ci =
     attempt (provider_vector_of embedding_unavailable_message (snd ci)) (\<lambda>v.
       translate_value_errors embedding_unavailable_message
         (make_chunk_embedding (chunk_document_id (fst ci)) (chunk_chunk_id (fst ci)) v))"

definition to_chunk_embeddings :: "document_chunk list \<Rightarrow> provider_data \<Rightarrow> chunk_embedding list result" where
  "to_chunk_embeddings chunks data =
     attempt (ordered_provider_items data (length chunks)) (\<lambda>items.
     attempt (map_result chunk_embedding_of (zip chunks items)) (\<lambda>embeddings.
       if card (set (map (\<lambda>e. length (emb_vector e)) embeddings)) \<noteq> 1
       then Inl (DependencyUnavailableError embedding_unavailable_message)
       else Inr embeddings))"

definition embed_chunks ::
    "(string list \<Rightarrow> provider_data result) \<Rightarrow> document_chunk list \<Rightarrow> chunk_embedding list result" where
  "embed_chunks provider chunks =
     (if chunks = [] then Inr []
      else attempt (translate_openai_error embedding_unavailable_message (provider (map chunk_text chunks)))
             (to_chunk_embeddings chunks))"

section \<open>Query embedding (openai\_query\_embedding.py)\<close>

definition invalid_query_message :: string where
  "invalid_query_message = ''Query text must be a non-empty string.''"

definition query_embedding_unavailable_message :: string where
  "query_embedding_unavailable_message = ''Document query embedding is unavailable.''"

definition to_query_embedding :: "provider_data \<Rightarrow> query_embedding result" where
  "to_query_embedding data =
     (case data of
        Some [item] \<Rightarrow>
          attempt (provider_vector_of query_embedding_unavailable_message item) (\<lambda>v.
            translate_value_errors query_embedding_unavailable_message (make_query_embedding v))
      | _ \<Rightarrow> Inl (DependencyUnavailableError query_embedding_unavailable_message))"

definition embed_query :: "(string \<Rightarrow> provider_data result) \<Rightarrow> string \<Rightarrow> query_embedding result" where
  "embed_query provider query_text =
     (if py_strip query_text = [] then Inl (InvalidRequestError invalid_query_message)
      else attempt (translate_openai_error query_embedding_unavailable_message (provider query_text))
             to_query_embedding)"

section \<open>PDF text extraction (pdf\_text\_extraction.py)\<close>

record pdf_adapter =
  pdf_document_id :: string
  pdf_source_name :: string

text \<open>The suffix of the path is an argument; \<open>lower\<close> is applied to it.\<close>

definition require_pdf_path :: "string \<Rightarrow> unit result" where
  "require_pdf_path suffix =
     raise_if (map lower_char suffix \<noteq> ''.pdf'') (ValueError ''PDF adapter accepts .pdf sources only'')"

definition make_pdf_adapter :: "string \<Rightarrow> string \<Rightarrow> string \<Rightarrow> pdf_adapter result" where
  "make_pdf_adapter suffix document_id source_name =
     check (require_pdf_path suffix)
      (attempt (require_non_empty ''document_id'' document_id) (\<lambda>d.
       attempt (require_non_empty ''source_name'' source_name) (\<lambda>s.
         Inr \<lparr>pdf_document_id = d, pdf_source_name = s\<rparr>)))"

definition pdf_unavailable_message :: string where
  "pdf_unavailable_message = ''PDF source is unavailable''"

definition pdf_format_errors :: "exn list" where
  "pdf_format_errors = [OtherException ''PdfReadError'', OtherException ''ParseError'']"

definition os_error :: exn where "os_error = OtherException ''OSError''"

text \<open>
  A reader: whether it is encrypted, the text of each page that the iteration over its pages delivers,
  and the exception the iteration itself ends with, if any.
\<close>

record pdf_reader =
  pdf_is_encrypted :: "bool result"
  pdf_pages :: "string option result list"
  pdf_pages_error :: "exn option"

fun replace_crlf :: "string \<Rightarrow> string" where
  "replace_crlf [] = []"
| "replace_crlf [c] = [c]"
| "replace_crlf (c # d # r) =
     (if c = CHR 0x0D \<and> d = CHR 0x0A then CHR 0x0A # replace_crlf r else c # replace_crlf (d # r))"

definition normalize_extracted_text :: "string option \<Rightarrow> string" where
  "normalize_extracted_text raw =
     (case raw of None \<Rightarrow> []
      | Some s \<Rightarrow> py_strip (map (\<lambda>c. if c = CHR 0x0D then CHR 0x0A else c) (replace_crlf s)))"

definition pdf_chunk_id :: "string \<Rightarrow> nat \<Rightarrow> string" where
  "pdf_chunk_id document_id page_number = document_id @ '':page:'' @ decimal_digits page_number"

definition pdf_error :: "string \<Rightarrow> string \<Rightarrow> adapter_diagnostic result" where
  "pdf_error code msg =
     validate_adapter_diagnostic
       \<lparr>ad_code = code, ad_message = msg, ad_severity = SEVERITY_ERROR, ad_field_name = None\<rparr>"

definition pdf_source_dlq :: "pdf_adapter \<Rightarrow> utc \<Rightarrow> adapter_diagnostic list \<Rightarrow> dlq_record result" where
  "pdf_source_dlq a now diagnostics =
     validate_dlq_record
       \<lparr>dlq_record_id = pdf_source_name a @ '':source'', dlq_failed_at = now,
        dlq_source_name = pdf_source_name a, dlq_adapter_name = ''pdf_text_extraction'',
        dlq_diagnostics = diagnostics, dlq_payload_reference = ''pdf://'' @ pdf_source_name a @ ''/source'',
        dlq_correlation_id = None\<rparr>"

definition pdf_result ::
    "pdf_adapter \<Rightarrow> document_chunk list \<Rightarrow> adapter_diagnostic list \<Rightarrow> dlq_record list \<Rightarrow> extraction_result result" where
  "pdf_result a chunks diagnostics dlq_records =
     make_extraction_result (pdf_source_name a) (pdf_document_id a) chunks diagnostics dlq_records"

definition pdf_failure :: "pdf_adapter \<Rightarrow> utc \<Rightarrow> string \<Rightarrow> string \<Rightarrow> extraction_result result" where
  "pdf_failure a now code msg =
     attempt (pdf_error code msg) (\<lambda>diagnostic.
     attempt (pdf_source_dlq a now [diagnostic]) (\<lambda>dlq.
       pdf_result a [] [diagnostic] [dlq]))"

definition pdf_parse_failure :: "pdf_adapter \<Rightarrow> utc \<Rightarrow> extraction_result result" where
  "pdf_parse_failure a now = pdf_failure a now ''pdf_invalid'' ''PDF source could not be parsed.''"

definition pdf_page_failure :: "pdf_adapter \<Rightarrow> utc \<Rightarrow> extraction_result result" where
  "pdf_page_failure a now =
     pdf_failure a now ''pdf_page_extraction_failed'' ''PDF page text could not be extracted.''"

text \<open>The page loop; \<open>None\<close> is its early return on a page that cannot be extracted.\<close>

fun pdf_page_chunks ::
    "string \<Rightarrow> nat \<Rightarrow> document_chunk list \<Rightarrow> string option result list \<Rightarrow> document_chunk list option result" where
  "pdf_page_chunks doc index chunks [] = Inr (Some chunks)"
| "pdf_page_chunks doc index chunks (page # pages) =
     (case page of
        Inl e \<Rightarrow> if e \<in> set pdf_format_errors then Inr None else Inl e
      | Inr raw_text \<Rightarrow>
          (let body = normalize_extracted_text raw_text; page_number = index + 1 in
           if body = [] then pdf_page_chunks doc (index + 1) chunks pages
           else attempt (make_document_chunk doc (pdf_chunk_id doc page_number) (int (length chunks)) body
                          (Some (int page_number))) (\<lambda>chunk.
             pdf_page_chunks doc (index + 1) (chunks @ [chunk]) pages)))"

definition pdf_extract_from_reader :: "pdf_adapter \<Rightarrow> utc \<Rightarrow> pdf_reader \<Rightarrow> extraction_result result" where
  "pdf_extract_from_reader a now reader =
     attempt (pdf_is_encrypted reader) (\<lambda>encrypted.
       if encrypted then pdf_parse_failure a now
       else attempt (pdf_page_chunks (pdf_document_id a) 0 [] (pdf_pages reader)) (\<lambda>outcome.
         case outcome of
           None \<Rightarrow> pdf_page_failure a now
         | Some chunks \<Rightarrow>
             (case pdf_pages_error reader of
                Some e \<Rightarrow> Inl e
              | None \<Rightarrow>
                  if chunks = []
                  then attempt (pdf_error ''pdf_no_extractable_text'' ''PDF contains no extractable text.'') (\<lambda>d.
                         pdf_result a [] [d] [])
                  else pdf_result a chunks [] [])))"

definition pdf_read_and_extract ::
    "pdf_adapter \<Rightarrow> utc \<Rightarrow> pdf_reader result \<Rightarrow> extraction_result result" where
  "pdf_read_and_extract a now opened =
     (case attempt opened (pdf_extract_from_reader a now) of
        Inl e \<Rightarrow> if e \<in> set pdf_format_errors then pdf_parse_failure a now else Inl e
      | Inr r \<Rightarrow> Inr r)"

definition pdf_extract :: "pdf_adapter \<Rightarrow> utc \<Rightarrow> pdf_reader result \<Rightarrow> extraction_result result" where
  "pdf_extract a now opened =
     (case pdf_read_and_extract a now opened of
        Inl e \<Rightarrow> Inl (if e = os_error then DependencyUnavailableError pdf_unavailable_message else e)
      | Inr r \<Rightarrow> Inr r)"

section \<open>Lemmas\<close>

lemma pdf_chunk_id_inject: "pdf_chunk_id d n = pdf_chunk_id d m \<longleftrightarrow> n = m"
  by (simp add: pdf_chunk_id_def decimal_digits_inject)

lemma pdf_chunk_id_strip:
  assumes "visible_ends d"
  shows "py_strip (pdf_chunk_id d n) = pdf_chunk_id d n"
  using assms decimal_digits_visible [of n]
  by (intro py_strip_ends) (auto simp: pdf_chunk_id_def visible_ends_def)


subsection \<open>Provider items\<close>

text \<open>The position an item claims: its own index, or where it stands when it has none.\<close>

definition claimed_position :: "nat \<Rightarrow> provider_item \<Rightarrow> int" where
  "claimed_position j item = (case pi_index item of IntIndex i \<Rightarrow> i | _ \<Rightarrow> int j)"

lemma indexed_items_Inr:
  "indexed_items (int p) items = Inr xs \<Longrightarrow>
   xs = map (\<lambda>(j, item). (claimed_position j item, item)) (enumerate p items)"
proof (induction items arbitrary: p xs)
  case (Cons item rest)
  have shift: "int p + 1 = int (Suc p)" by simp
  from Cons.prems obtain ys where ys: "indexed_items (int (Suc p)) rest = Inr ys"
    and xs: "xs = (claimed_position p item, item) # ys"
    by (auto simp: attempt_Inr_iff claimed_position_def shift simp del: of_nat_Suc
        split: provider_index.splits)
  show ?case using Cons.IH [OF ys] xs by simp
qed simp

lemma sorted_keys_nth:
  fixes xs :: "(int \<times> 'b) list"
  assumes "set (map fst xs) = {0..<int n}" "length xs = n" "i < n"
  shows "fst (sort_key fst xs ! i) = int i"
proof -
  have d: "distinct (map fst xs)" using assms(1,2) by (intro card_distinct) simp
  have "map fst (sort_key fst xs) = map int [0..<n]"
  proof (rule sorted_distinct_set_unique)
    show "distinct (map fst (sort_key fst xs))" using d by (simp add: distinct_map)
    have "int ` {0..<n} = {0..<int n}" by (simp add: image_int_atLeastLessThan)
    then show "set (map fst (sort_key fst xs)) = set (map int [0..<n])" using assms(1) by simp
    show "sorted (map int [0..<n])" by (simp add: sorted_wrt_iff_nth_less)
  qed (simp_all add: distinct_map)
  then have "map fst (sort_key fst xs) ! i = map int [0..<n] ! i" by simp
  then show ?thesis using assms by simp
qed

lemma ordered_provider_items_Inr:
  assumes "ordered_provider_items (Some items) n = Inr ord"
  shows "length items = n" "length ord = n"
    and "i < n \<Longrightarrow> \<exists>j < n. claimed_position j (items ! j) = int i \<and> ord ! i = items ! j"
proof -
  from assms obtain xs where len: "length items = n" and xs: "indexed_items 0 items = Inr xs"
    and keys: "set (map fst xs) = {0..<int n}" and ord: "ord = map snd (sort_key fst xs)"
    by (auto simp: ordered_provider_items_def attempt_Inr_iff split: if_splits)
  have xs_eq: "xs = map (\<lambda>(j, item). (claimed_position j item, item)) (enumerate 0 items)"
    using indexed_items_Inr [of 0] xs by simp
  show "length items = n" "length ord = n" using len ord xs_eq by simp_all
  show "\<exists>j < n. claimed_position j (items ! j) = int i \<and> ord ! i = items ! j" if i: "i < n"
  proof -
    have lenx: "length xs = n" using len xs_eq by simp
    have key: "fst (sort_key fst xs ! i) = int i"
      using sorted_keys_nth [of xs n i] keys lenx i by simp
    have "sort_key fst xs ! i \<in> set xs" using i lenx by (metis length_sort nth_mem set_sort)
    then obtain j where "j < length items" "sort_key fst xs ! i = (claimed_position j (items ! j), items ! j)"
      unfolding xs_eq by (auto simp: in_set_conv_nth nth_enumerate_eq)
    then show ?thesis using key ord i lenx len by auto
  qed
qed

text \<open>The order in which indexed items arrive is irrelevant.\<close>

lemma indexed_items_indexed:
  "\<forall>item \<in> set items. \<exists>i. pi_index item = IntIndex i \<Longrightarrow>
   indexed_items p items = Inr (map (\<lambda>item. (claimed_position 0 item, item)) items)"
  by (induction items arbitrary: p) (auto simp: claimed_position_def)

lemma sort_key_mset_eq:
  assumes "mset xs = mset ys" "distinct (map k xs)"
  shows "sort_key k xs = sort_key k ys"
proof (rule map_sorted_distinct_set_unique)
  have "set xs = set ys" using assms(1) by (rule mset_eq_setD)
  then have "distinct (map k ys)" using assms
    by (metis mset_map distinct_map mset_eq_imp_distinct_iff)
  then show "distinct (map k (sort_key k ys))" "distinct (map k (sort_key k xs))"
    using assms(2) by (simp_all add: distinct_map)
  show "inj_on k (set (sort_key k xs) \<union> set (sort_key k ys))"
    using assms(2) \<open>set xs = set ys\<close> by (simp add: distinct_map)
  show "set (sort_key k xs) = set (sort_key k ys)" using \<open>set xs = set ys\<close> by simp
qed simp_all

lemma ordered_provider_items_mset:
  assumes "mset items = mset items'" "\<forall>item \<in> set items. \<exists>i. pi_index item = IntIndex i"
  shows "ordered_provider_items (Some items) n = ordered_provider_items (Some items') n"
proof -
  let ?key = "\<lambda>item. (claimed_position 0 item, item)"
  have sets: "set items = set items'" and lens: "length items = length items'"
    using assms(1) by (rule mset_eq_setD, rule mset_eq_length)
  have ix: "indexed_items 0 items = Inr (map ?key items)" "indexed_items 0 items' = Inr (map ?key items')"
    using assms(2) sets by (simp_all add: indexed_items_indexed)
  show ?thesis
  proof (cases "set (map fst (map ?key items)) = {0..<int n} \<and> length items = n")
    case True
    then have "distinct (map fst (map ?key items))" by (intro card_distinct) simp
    then have "sort_key fst (map ?key items) = sort_key fst (map ?key items')"
      using assms(1) by (intro sort_key_mset_eq) (simp_all add: comp_def)
    then show ?thesis using ix sets lens by (simp add: ordered_provider_items_def)
  next
    case False
    then show ?thesis using ix sets lens by (simp add: ordered_provider_items_def image_image)
  qed
qed

lemma chunk_embedding_of_Inr:
  assumes "chunk_embedding_of (c, item) = Inr e" "py_strip (chunk_document_id c) = chunk_document_id c"
    "py_strip (chunk_chunk_id c) = chunk_chunk_id c"
  shows "embeds c e" "pi_embedding item = Floats (emb_vector e)" "emb_vector e \<noteq> []"
    "list_all float_isfinite (emb_vector e)"
  using assms by (auto simp: chunk_embedding_of_def provider_vector_of_def make_chunk_embedding_def embeds_def
      translate_value_errors_def result_simps split: provider_vector.splits sum.splits exn.splits if_splits)

subsection \<open>Pages\<close>

text \<open>What extraction means: the non-blank normalised pages in order, numbered from one.\<close>

definition pdf_page_texts :: "nat \<Rightarrow> string option list \<Rightarrow> (nat \<times> string) list" where
  "pdf_page_texts index texts =
     filter (\<lambda>(n, body). body \<noteq> []) (enumerate (index + 1) (map normalize_extracted_text texts))"

definition pdf_expected_chunks :: "string \<Rightarrow> nat \<Rightarrow> (nat \<times> string) list \<Rightarrow> document_chunk list" where
  "pdf_expected_chunks d ordinal pages =
     map (\<lambda>(k, n, body). \<lparr>chunk_document_id = d, chunk_chunk_id = pdf_chunk_id d n, chunk_ordinal = int k,
                          chunk_text = body, chunk_page_number = Some (int n)\<rparr>) (enumerate ordinal pages)"

lemma normalize_extracted_text_strip [simp]:
  "py_strip (normalize_extracted_text raw) = normalize_extracted_text raw"
proof (cases raw)
  case None
  then show ?thesis by (simp add: normalize_extracted_text_def py_strip_def)
qed (simp add: normalize_extracted_text_def)

lemma pdf_page_chunks_ok:
  assumes "visible_ends d"
  shows "pdf_page_chunks d index chunks (map Inr texts) =
    Inr (Some (chunks @ pdf_expected_chunks d (length chunks) (pdf_page_texts index texts)))"
proof (induction texts arbitrary: index chunks)
  case Nil
  then show ?case by (simp add: pdf_expected_chunks_def pdf_page_texts_def)
next
  case (Cons t ts)
  have ne: "pdf_chunk_id d n \<noteq> []" for n by (simp add: pdf_chunk_id_def)
  show ?case using Cons assms pdf_chunk_id_strip [OF assms] ne
    by (simp add: visible_ends_iff pdf_expected_chunks_def pdf_page_texts_def Let_def make_document_chunk_def
        require_non_empty_def require_non_negative_int_def require_positive_int_def)
qed

lemma pdf_page_chunks_format_error:
  assumes "visible_ends d" "e \<in> set pdf_format_errors"
  shows "pdf_page_chunks d index chunks (map Inr texts @ Inl e # pages) = Inr None"
  using assms(2)
proof (induction texts arbitrary: index chunks)
  case (Cons t ts)
  have ne: "pdf_chunk_id d n \<noteq> []" for n by (simp add: pdf_chunk_id_def)
  show ?case using Cons assms pdf_chunk_id_strip [OF assms(1)] ne
    by (simp add: visible_ends_iff Let_def make_document_chunk_def require_non_empty_def require_non_negative_int_def
        require_positive_int_def)
qed simp

lemma pdf_expected_chunks_ids:
  "distinct (map chunk_chunk_id (pdf_expected_chunks d k (pdf_page_texts index texts)))"
proof -
  have "map chunk_chunk_id (pdf_expected_chunks d k pages) = map (\<lambda>(n, body). pdf_chunk_id d n) pages" for k pages
    by (induction pages arbitrary: k) (auto simp: pdf_expected_chunks_def)
  moreover have "distinct (map fst (pdf_page_texts index texts))"
    by (simp add: pdf_page_texts_def distinct_map_filter)
  then have "distinct (map (pdf_chunk_id d) (map fst (pdf_page_texts index texts)))"
    by (simp add: distinct_map inj_on_def pdf_chunk_id_inject)
  ultimately show ?thesis by (simp add: comp_def case_prod_beta')
qed

lemma pdf_expected_chunks_document:
  "c \<in> set (pdf_expected_chunks d k pages) \<Longrightarrow> chunk_document_id c = d"
  by (auto simp: pdf_expected_chunks_def)

text \<open>The identity of an adapter that was constructed.\<close>

definition pdf_adapter_ok :: "pdf_adapter \<Rightarrow> bool" where
  "pdf_adapter_ok a \<longleftrightarrow>
     visible_ends (pdf_document_id a) \<and> visible_ends (pdf_source_name a)"

lemma make_pdf_adapter_ok: "make_pdf_adapter suffix d s = Inr a \<Longrightarrow> pdf_adapter_ok a"
  by (auto simp: make_pdf_adapter_def pdf_adapter_ok_def visible_ends_iff result_simps)

definition pdf_failure_result :: "pdf_adapter \<Rightarrow> utc \<Rightarrow> string \<Rightarrow> string \<Rightarrow> extraction_result" where
  "pdf_failure_result a now code msg =
     (let d = \<lparr>ad_code = code, ad_message = msg, ad_severity = SEVERITY_ERROR, ad_field_name = None\<rparr> in
      \<lparr>er_source_name = pdf_source_name a, er_document_id = pdf_document_id a, er_chunks = [],
       er_diagnostics = [d],
       er_dlq_records = [\<lparr>dlq_record_id = pdf_source_name a @ '':source'', dlq_failed_at = now,
         dlq_source_name = pdf_source_name a, dlq_adapter_name = ''pdf_text_extraction'', dlq_diagnostics = [d],
         dlq_payload_reference = ''pdf://'' @ pdf_source_name a @ ''/source'', dlq_correlation_id = None\<rparr>]\<rparr>)"

lemma pdf_result_ok:
  "pdf_adapter_ok a \<Longrightarrow> \<forall>c \<in> set chunks. chunk_document_id c = pdf_document_id a \<Longrightarrow>
   distinct (map chunk_chunk_id chunks) \<Longrightarrow>
   pdf_result a chunks ds dlqs = Inr \<lparr>er_source_name = pdf_source_name a, er_document_id = pdf_document_id a,
     er_chunks = chunks, er_diagnostics = ds, er_dlq_records = dlqs\<rparr>"
  by (auto simp: pdf_result_def make_extraction_result_def pdf_adapter_ok_def require_non_empty_visible list_ex_iff)

lemma pdf_failure_ok:
  assumes "pdf_adapter_ok a" "visible_ends code" "visible_ends msg"
  shows "pdf_failure a now code msg = Inr (pdf_failure_result a now code msg)"
proof -
  let ?s = "pdf_source_name a"
  have s: "visible_ends ?s" using assms(1) by (simp add: pdf_adapter_ok_def)
  have literals: "visible_ends '':source''" "visible_ends ''pdf://''" "visible_ends ''/source''"
    "visible_ends ''pdf_text_extraction''"
    by (simp_all add: visible_ends_def py_isspace_def)
  have "visible_ends (?s @ '':source'')" "visible_ends (''pdf://'' @ ?s @ ''/source'')"
    by (rule visible_ends_append visible_ends_around; (rule s literals))+
  with assms s literals show ?thesis
    by (simp add: pdf_failure_def pdf_error_def pdf_source_dlq_def validate_adapter_diagnostic_def
        validate_dlq_record_def visible_strings_accepted validated_def optional_result_def
        require_diagnostics_def pdf_result_ok pdf_failure_result_def raise_if_def Let_def)
qed

abbreviation answered :: "'a result \<Rightarrow> bool" where
  "answered r \<equiv> \<not> isl r"

text \<open>The result an extraction has when the reader fails, if at all, with a format error.\<close>

definition pdf_extraction_spec :: "pdf_adapter \<Rightarrow> utc \<Rightarrow> pdf_reader result \<Rightarrow> extraction_result" where
  "pdf_extraction_spec a now opened =
     (case opened of
        Inl _ \<Rightarrow> pdf_failure_result a now ''pdf_invalid'' ''PDF source could not be parsed.''
      | Inr reader \<Rightarrow>
          if pdf_is_encrypted reader \<noteq> Inr False
          then pdf_failure_result a now ''pdf_invalid'' ''PDF source could not be parsed.''
          else if \<not> list_all answered (pdf_pages reader)
          then pdf_failure_result a now ''pdf_page_extraction_failed'' ''PDF page text could not be extracted.''
          else if pdf_pages_error reader \<noteq> None
          then pdf_failure_result a now ''pdf_invalid'' ''PDF source could not be parsed.''
          else (let pages = pdf_page_texts 0 (map projr (pdf_pages reader)) in
            \<lparr>er_source_name = pdf_source_name a, er_document_id = pdf_document_id a,
             er_chunks = pdf_expected_chunks (pdf_document_id a) 0 pages,
             er_diagnostics =
               (if pages \<noteq> [] then []
                else [\<lparr>ad_code = ''pdf_no_extractable_text'', ad_message = ''PDF contains no extractable text.'',
                       ad_severity = SEVERITY_ERROR, ad_field_name = None\<rparr>]),
             er_dlq_records = []\<rparr>))"

definition only_format_errors :: "'a result \<Rightarrow> bool" where
  "only_format_errors r \<longleftrightarrow> (case r of Inl e \<Rightarrow> e \<in> set pdf_format_errors | Inr _ \<Rightarrow> True)"

lemma pages_split:
  "list_all only_format_errors pages \<Longrightarrow>
   pages = map Inr (map projr pages) \<and> list_all answered pages \<or>
   (\<exists>texts e rest. pages = map Inr texts @ Inl e # rest \<and> e \<in> set pdf_format_errors \<and> \<not> list_all answered pages)"
proof (induction pages)
  case (Cons page pages)
  show ?case
  proof (cases page)
    case (Inl e)
    then have "page # pages = map Inr [] @ Inl e # pages" "e \<in> set pdf_format_errors" "\<not> list_all answered (page # pages)"
      using Cons.prems by (simp_all add: only_format_errors_def)
    then show ?thesis by blast
  next
    case (Inr t)
    from Cons consider "pages = map Inr (map projr pages) \<and> list_all answered pages"
      | texts e rest where "pages = map Inr texts @ Inl e # rest" "e \<in> set pdf_format_errors" "\<not> list_all answered pages"
      by fastforce
    then show ?thesis
    proof cases
      case 1
      then show ?thesis using Inr by simp
    next
      case 2
      then have "page # pages = map Inr (t # texts) @ Inl e # rest" "\<not> list_all answered (page # pages)"
        using Inr by simp_all
      then show ?thesis using 2(2) by blast
    qed
  qed
qed simp

lemma pdf_failure_results:
  assumes "pdf_adapter_ok a"
  shows "pdf_parse_failure a now =
      Inr (pdf_failure_result a now ''pdf_invalid'' ''PDF source could not be parsed.'')"
    and "pdf_page_failure a now =
      Inr (pdf_failure_result a now ''pdf_page_extraction_failed'' ''PDF page text could not be extracted.'')"
    and "pdf_error ''pdf_no_extractable_text'' ''PDF contains no extractable text.'' =
      Inr \<lparr>ad_code = ''pdf_no_extractable_text'', ad_message = ''PDF contains no extractable text.'',
           ad_severity = SEVERITY_ERROR, ad_field_name = None\<rparr>"
proof -
  have literals: "visible_ends ''pdf_invalid''" "visible_ends ''PDF source could not be parsed.''"
    "visible_ends ''pdf_page_extraction_failed''" "visible_ends ''PDF page text could not be extracted.''"
    "visible_ends ''pdf_no_extractable_text''" "visible_ends ''PDF contains no extractable text.''"
    by (simp_all add: visible_ends_def py_isspace_def)
  show "pdf_parse_failure a now = Inr (pdf_failure_result a now ''pdf_invalid'' ''PDF source could not be parsed.'')"
    unfolding pdf_parse_failure_def by (rule pdf_failure_ok [OF assms literals(1,2)])
  show "pdf_page_failure a now =
      Inr (pdf_failure_result a now ''pdf_page_extraction_failed'' ''PDF page text could not be extracted.'')"
    unfolding pdf_page_failure_def by (rule pdf_failure_ok [OF assms literals(3,4)])
  show "pdf_error ''pdf_no_extractable_text'' ''PDF contains no extractable text.'' =
      Inr \<lparr>ad_code = ''pdf_no_extractable_text'', ad_message = ''PDF contains no extractable text.'',
           ad_severity = SEVERITY_ERROR, ad_field_name = None\<rparr>"
    using literals(5,6)
    by (simp add: pdf_error_def validate_adapter_diagnostic_def visible_strings_accepted optional_result_def)
qed

lemma pdf_expected_chunks_Nil [simp]: "pdf_expected_chunks d k [] = []"
  by (simp add: pdf_expected_chunks_def)

lemma pdf_expected_chunks_empty [simp]: "pdf_expected_chunks d k pages = [] \<longleftrightarrow> pages = []"
  by (cases pages) (simp_all add: pdf_expected_chunks_def)

lemma pdf_extract_from_reader_pages:
  assumes "pdf_adapter_ok a" "pdf_is_encrypted reader = Inr False" "list_all only_format_errors (pdf_pages reader)"
  shows "pdf_extract_from_reader a now reader =
    (case pdf_pages_error reader of
       Some e \<Rightarrow> if list_all answered (pdf_pages reader) then Inl e else Inr (pdf_extraction_spec a now (Inr reader))
     | None \<Rightarrow> Inr (pdf_extraction_spec a now (Inr reader)))"
proof -
  have d: "visible_ends (pdf_document_id a)" using assms(1) by (simp add: pdf_adapter_ok_def)
  from pages_split [OF assms(3)] show ?thesis
  proof
    assume p: "pdf_pages reader = map Inr (map projr (pdf_pages reader)) \<and> list_all answered (pdf_pages reader)"
    let ?texts = "map projr (pdf_pages reader)"
    let ?chunks = "pdf_expected_chunks (pdf_document_id a) 0 (pdf_page_texts 0 ?texts)"
    have "pdf_page_chunks (pdf_document_id a) 0 [] (pdf_pages reader) = Inr (Some ?chunks)"
      using p pdf_page_chunks_ok [OF d, of 0 "[]" ?texts] by simp
    moreover have "pdf_result a ?chunks [] [] = Inr \<lparr>er_source_name = pdf_source_name a,
        er_document_id = pdf_document_id a, er_chunks = ?chunks, er_diagnostics = [], er_dlq_records = []\<rparr>"
      using pdf_expected_chunks_ids pdf_expected_chunks_document by (intro pdf_result_ok assms) blast+
    ultimately show ?thesis using assms p pdf_result_ok [OF assms(1), of "[]"]
      by (simp add: pdf_extract_from_reader_def pdf_extraction_spec_def Let_def pdf_failure_results split: option.split)
  next
    assume "\<exists>texts e rest. pdf_pages reader = map Inr texts @ Inl e # rest \<and> e \<in> set pdf_format_errors \<and>
      \<not> list_all answered (pdf_pages reader)"
    then obtain texts e rest where p: "pdf_pages reader = map Inr texts @ Inl e # rest"
      and e: "e \<in> set pdf_format_errors" and "\<not> list_all answered (pdf_pages reader)" by blast
    then show ?thesis using assms pdf_page_chunks_format_error [OF d e, of 0 "[]" texts rest]
      by (simp add: pdf_extract_from_reader_def pdf_extraction_spec_def pdf_failure_results split: option.split)
  qed
qed

section \<open>Properties\<close>

text \<open>C32: PDF-EXTRACTION. For a constructed adapter and a reader that fails, at any point, only with
  pypdf's format errors, extraction answers. Without a failure the chunks are exactly the non-blank
  normalised pages in page order, with consecutive ordinals, one-based page numbers and identifiers
  built from them; a document without text has one diagnostic and no dead letter; a document that
  cannot be opened, is encrypted, has an unreadable page or pages that cannot be listed yields no chunk, one error diagnostic and one
  dead letter that carries it.\<close>

theorem pdf_extraction_answers:
  assumes "make_pdf_adapter suffix d s = Inr a"
    and "only_format_errors opened"
    and "\<forall>reader. opened = Inr reader \<longrightarrow>
           only_format_errors (pdf_is_encrypted reader) \<and> list_all only_format_errors (pdf_pages reader) \<and>
           optional (\<lambda>e. e \<in> set pdf_format_errors) (pdf_pages_error reader)"
  shows "pdf_extract a now opened = Inr (pdf_extraction_spec a now opened)"
proof -
  have ok: "pdf_adapter_ok a" using assms(1) by (rule make_pdf_adapter_ok)
  show ?thesis
  proof (cases opened)
    case (Inl e)
    then show ?thesis using assms(2) ok
      by (simp add: pdf_extract_def pdf_read_and_extract_def pdf_extraction_spec_def pdf_failure_results
          only_format_errors_def)
  next
    case (Inr reader)
    show ?thesis
    proof (cases "pdf_is_encrypted reader = Inr False")
      case True
      then show ?thesis using pdf_extract_from_reader_pages [OF ok True] assms(3) Inr ok
        by (auto simp: pdf_extract_def pdf_read_and_extract_def pdf_extraction_spec_def pdf_failure_results
            split: option.splits)
    next
      case False
      then show ?thesis using assms(3) Inr ok
        by (auto simp: pdf_extract_def pdf_read_and_extract_def pdf_extract_from_reader_def
            pdf_extraction_spec_def pdf_failure_results only_format_errors_def split: sum.splits)
    qed
  qed
qed

lemma pdf_extraction_answers_witness:
  "map chunk_text (er_chunks (projr (pdf_extract \<lparr>pdf_document_id = ''law'', pdf_source_name = ''gov''\<rparr> 5
     (Inr \<lparr>pdf_is_encrypted = Inr False,
           pdf_pages = [Inr (Some ''one''), Inr None, Inr (Some '' three '')], pdf_pages_error = None\<rparr>)))) = [''one'', ''three'']"
  by (subst pdf_extraction_answers [of "''.pdf''" "''law''" "''gov''"])
     (simp_all add: make_pdf_adapter_def require_pdf_path_def raise_if_def require_non_empty_def py_strip_def
       py_isspace_def lower_char_def only_format_errors_def pdf_extraction_spec_def pdf_page_texts_def
       char_of_def pdf_expected_chunks_def normalize_extracted_text_def Let_def)

text \<open>C33: EMBEDDING-ATTRIBUTION. When the embedding adapter answers for chunks whose identifiers are
  stripped, there is one embedding per chunk, in order, that names it; its vector is the one of the
  provider item that claims the chunk's position, all vectors are finite, not empty and of one
  dimension. Items that carry their index may arrive in any order without changing the outcome.\<close>

theorem chunk_embeddings_attributed:
  assumes "\<forall>c \<in> set chunks. visible_ends (chunk_document_id c) \<and> visible_ends (chunk_chunk_id c)"
    and "chunks \<noteq> []"
    and "embed_chunks provider chunks = Inr es"
  shows "\<exists>items. provider (map chunk_text chunks) = Inr (Some items) \<and> list_all2 embeds chunks es \<and>
      (\<forall>i < length chunks. \<exists>j < length items.
          claimed_position j (items ! j) = int i \<and> pi_embedding (items ! j) = Floats (emb_vector (es ! i))) \<and>
      (\<exists>n > 0. \<forall>e \<in> set es. length (emb_vector e) = n \<and> list_all float_isfinite (emb_vector e)) \<and>
      (\<forall>items'. mset items' = mset items \<longrightarrow> (\<forall>item \<in> set items. \<exists>i. pi_index item = IntIndex i) \<longrightarrow>
          embed_chunks (\<lambda>_. Inr (Some items')) chunks = Inr es)"
proof -
  from assms(2,3) obtain data where pd: "provider (map chunk_text chunks) = Inr data"
    and conv: "to_chunk_embeddings chunks data = Inr es"
    by (auto simp: embed_chunks_def translate_openai_error_def attempt_Inr_iff split: sum.splits if_splits)
  from conv obtain ord where ord: "ordered_provider_items data (length chunks) = Inr ord"
    and es: "map_result chunk_embedding_of (zip chunks ord) = Inr es"
    and dim: "card (set (map (\<lambda>e. length (emb_vector e)) es)) = 1"
    by (auto simp: to_chunk_embeddings_def attempt_Inr_iff split: if_splits)
  from ord obtain items where items: "data = Some items"
    by (auto simp: ordered_provider_items_def split: option.splits)
  note pos = ordered_provider_items_Inr [OF ord [unfolded items]]
  have es2: "list_all2 (\<lambda>ci e. chunk_embedding_of ci = Inr e) (zip chunks ord) es"
    using es by (simp add: map_result_Inr_iff)
  have len: "length es = length chunks" using es2 pos(2) by (auto dest: list_all2_lengthD)
  have each: "embeds (chunks ! i) (es ! i)" "pi_embedding (ord ! i) = Floats (emb_vector (es ! i))"
    "emb_vector (es ! i) \<noteq> []" "list_all float_isfinite (emb_vector (es ! i))" if i: "i < length chunks" for i
  proof -
    have "chunk_embedding_of (chunks ! i, ord ! i) = Inr (es ! i)"
      using es2 i pos(2) by (auto simp: list_all2_conv_all_nth)
    moreover have "visible_ends (chunk_document_id (chunks ! i))" "visible_ends (chunk_chunk_id (chunks ! i))"
      using assms(1) i by simp_all
    ultimately show "embeds (chunks ! i) (es ! i)" "pi_embedding (ord ! i) = Floats (emb_vector (es ! i))"
      "emb_vector (es ! i) \<noteq> []" "list_all float_isfinite (emb_vector (es ! i))"
      using chunk_embedding_of_Inr by (simp_all add: visible_ends_iff)
  qed
  have "list_all2 embeds chunks es" using each(1) len by (simp add: list_all2_conv_all_nth)
  moreover have "\<forall>i < length chunks. \<exists>j < length items.
      claimed_position j (items ! j) = int i \<and> pi_embedding (items ! j) = Floats (emb_vector (es ! i))"
    using pos each(2) by metis
  moreover have "\<exists>n > 0. \<forall>e \<in> set es. length (emb_vector e) = n \<and> list_all float_isfinite (emb_vector e)"
  proof -
    obtain n where n: "(\<lambda>e. length (emb_vector e)) ` set es = {n}" using dim by (auto simp: card_1_singleton_iff)
    then have "\<forall>e \<in> set es. length (emb_vector e) = n" by auto
    moreover have "\<forall>e \<in> set es. emb_vector e \<noteq> [] \<and> list_all float_isfinite (emb_vector e)"
      using each(3,4) len by (auto simp: in_set_conv_nth)
    moreover have "es \<noteq> []" using len assms(2) by auto
    ultimately show ?thesis by (metis length_greater_0_conv list.set_intros(1) neq_Nil_conv)
  qed
  moreover have "embed_chunks (\<lambda>_. Inr (Some items')) chunks = Inr es"
    if "mset items' = mset items" "\<forall>item \<in> set items. \<exists>i. pi_index item = IntIndex i" for items'
    using conv ordered_provider_items_mset [OF that(1) [symmetric] that(2), of "length chunks"] items assms(2)
    by (simp add: embed_chunks_def translate_openai_error_def to_chunk_embeddings_def)
  ultimately show ?thesis using pd items by blast
qed

definition sample_chunk :: "string \<Rightarrow> document_chunk" where
  "sample_chunk i = \<lparr>chunk_document_id = ''d'', chunk_chunk_id = i, chunk_ordinal = 0, chunk_text = i,
     chunk_page_number = None\<rparr>"

definition sample_items :: "provider_item list" where
  "sample_items = [\<lparr>pi_index = IntIndex 1, pi_embedding = Floats [float_one]\<rparr>,
     \<lparr>pi_index = IntIndex 0, pi_embedding = Floats [float_zero]\<rparr>]"

lemma chunk_embeddings_attributed_witness:
  "list_all2 embeds [sample_chunk ''a'', sample_chunk ''b'']
     (projr (embed_chunks (\<lambda>_. Inr (Some sample_items)) [sample_chunk ''a'', sample_chunk ''b'']))"
proof -
  have ends: "visible_ends ''a''" "visible_ends ''b''" "visible_ends ''d''"
    by (simp_all add: visible_ends_def py_isspace_def)
  have range2: "{0..<2} = {0, 1 :: int}" by auto
  have run: "embed_chunks (\<lambda>_. Inr (Some sample_items)) [sample_chunk ''a'', sample_chunk ''b''] =
      Inr [\<lparr>emb_document_id = ''d'', emb_chunk_id = ''a'', emb_vector = [float_zero]\<rparr>,
           \<lparr>emb_document_id = ''d'', emb_chunk_id = ''b'', emb_vector = [float_one]\<rparr>]"
    using ends by (simp add: embed_chunks_def to_chunk_embeddings_def ordered_provider_items_def sample_items_def
        sample_chunk_def translate_openai_error_def chunk_embedding_of_def provider_vector_of_def
        make_chunk_embedding_def require_non_empty_visible require_embedding_vector_def translate_value_errors_def
        float_zero_def float_one_def range2 insert_commute)
  have "\<forall>c \<in> set [sample_chunk ''a'', sample_chunk ''b'']. visible_ends (chunk_document_id c) \<and> visible_ends (chunk_chunk_id c)"
    using ends by (simp add: sample_chunk_def)
  from chunk_embeddings_attributed [OF this _ run] show ?thesis unfolding run by (simp del: list_all2_Cons)
qed

end
