(* ===== verification/Source_Values.thy ===== *)
theory Source_Values
  imports PyDecimal Float_Arith Domain
begin

text \<open>
  Source values of the structured adapters (infrastructure/adapters/structured/normalization and
  consumption\_values.py): cells as the readers deliver them, power in kilowatts or megawatts through
  decimal arithmetic, timestamps through \<open>datetime.fromisoformat\<close> and a time zone. The text parser
  of timestamps and the zone's offsets (the IANA data base) are arguments; conversion between decimals
  and floats is modelled.
\<close>

section \<open>Errors (normalization/errors.py, consumption\_values.py)\<close>

abbreviation NormalizationConfigurationError :: "string \<Rightarrow> exn" where
  "NormalizationConfigurationError m \<equiv> OtherException (''NormalizationConfigurationError: '' @ m)"

abbreviation SourceValueNormalizationError :: "string \<Rightarrow> exn" where
  "SourceValueNormalizationError m \<equiv> OtherException (''SourceValueNormalizationError: '' @ m)"

abbreviation UnrecognizedConsumptionSourceValue :: exn where
  "UnrecognizedConsumptionSourceValue \<equiv> OtherException ''UnrecognizedConsumptionSourceValue''"

text \<open>Which errors the row handlers catch.\<close>

fun is_source_value_error :: "exn \<Rightarrow> bool" where
  "is_source_value_error (OtherException m) =
     (take 30 m = ''SourceValueNormalizationError:'')"
| "is_source_value_error _ = False"

section \<open>Cells\<close>

text \<open>
  A datetime is its wall clock in microseconds since 0001-01-01T00:00, with an offset from UTC when it
  is aware. A spreadsheet cell is whatever openpyxl delivers; a CSV cell is text.
\<close>

datatype py_datetime = Aware int int | Naive int

datatype cell =
    CellNone
  | CellBool bool
  | CellInt int
  | CellFloat pyfloat
  | CellText string
  | CellDatetime py_datetime
  | CellOther

definition astimezone_utc :: "int \<Rightarrow> int \<Rightarrow> utc result" where
  "astimezone_utc wall offset = datetime_minus wall offset"

section \<open>Decimals and floats\<close>

text \<open>\<open>float(Decimal)\<close> reads the decimal's text, so it rounds the exact value to nearest, to an
  infinity beyond the largest float.\<close>

fun float_of_dec :: "dec \<Rightarrow> pyfloat" where
  "float_of_dec (DFin s c e) =
     (if 0 \<le> e then float_round s (c * 10 ^ nat e) 0 else float_quotient s c (10 ^ nat (- e)) 0)"
| "float_of_dec (DInf s) = FlInf s"
| "float_of_dec DNaN = FlNaN"

text \<open>
  \<open>repr(float)\<close>: the shortest digits that read back as the number, the closest such digits when
  there are several. \<open>decimal_order\<close> is the exponent of the number's first decimal digit;
  \<open>shortest_digits\<close> tries one digit, then two, up to seventeen, which always suffice.
\<close>

definition decimal_order :: "nat \<Rightarrow> int \<Rightarrow> int" where
  "decimal_order m e =
     (if 0 \<le> e then int (digits_in 10 (m * 2 ^ nat e)) - 1
      else if 2 ^ nat (- e) \<le> m then int (digits_in 10 (m div 2 ^ nat (- e))) - 1
      else - int (digits_in 10 ((2 ^ nat (- e) - 1) div m)))"

text \<open>Rounding up to a power of ten leaves a single digit.\<close>

fun carry :: "nat \<Rightarrow> nat \<times> int \<Rightarrow> nat \<times> int" where
  "carry n (c, k) = (if c = 10 ^ n then (1, k + int n) else (c, k))"

text \<open>The two neighbours of the number among the decimals with \<open>n\<close> digits, the closer one first.\<close>

definition decimal_neighbours :: "nat \<Rightarrow> int \<Rightarrow> nat \<Rightarrow> (nat \<times> int) list" where
  "decimal_neighbours m e n =
     (let k = decimal_order m e - int n + 1;
          num = m * 2 ^ nat e * 10 ^ nat (- k);
          den = 2 ^ nat (- e) * 10 ^ nat k;
          low = num div den;
          near = round_half_even num den in
      map (carry n) [(near, k), (if near = low then low + 1 else low, k)])"

fun reads_back :: "nat \<Rightarrow> int \<Rightarrow> nat \<times> int \<Rightarrow> bool" where
  "reads_back m e (c, k) = float_eq (float_of_dec (DFin False c k)) (Fl False m e)"

fun shortest_digits :: "nat \<Rightarrow> int \<Rightarrow> nat list \<Rightarrow> nat \<times> int" where
  "shortest_digits m e [] = hd (decimal_neighbours m e 17)"
| "shortest_digits m e (n # ns) =
     (case filter (reads_back m e) (decimal_neighbours m e n) of
        d # _ \<Rightarrow> d
      | [] \<Rightarrow> shortest_digits m e ns)"

text \<open>
  \<open>Decimal(str(value))\<close> of a finite float: positional notation when the decimal point lies within
  \<open>-4\<close> to \<open>16\<close> digits (with \<open>.0\<close> for an integer), scientific notation otherwise.
\<close>

definition dec_of_digits :: "bool \<Rightarrow> nat \<times> int \<Rightarrow> dec" where
  "dec_of_digits s d =
     (let (c, k) = d; point = int (digits_in 10 c) + k in
      if 0 \<le> k \<and> - 4 < point \<and> point \<le> 16 then DFin s (c * 10 ^ (nat k + 1)) (- 1)
      else DFin s c k)"

definition dec_of_float_text :: "bool \<Rightarrow> nat \<Rightarrow> int \<Rightarrow> dec" where
  "dec_of_float_text s m e =
     (if m = 0 then DFin s 0 (- 1)
      else dec_of_digits s (shortest_digits m e [1..<17]))"

section \<open>Power (normalization/power.py)\<close>

datatype power_unit = MW | KW

definition invalid_power_message :: string where
  "invalid_power_message = ''power source representation is invalid''"

fun decimal_power :: "cell \<Rightarrow> dec result" where
  "decimal_power (CellInt i) = Inr (dec_of_int i)"
| "decimal_power (CellFloat x) =
     (case x of
        Fl s m e \<Rightarrow> Inr (dec_of_float_text s m e)
      | _ \<Rightarrow> Inl (SourceValueNormalizationError invalid_power_message))"
| "decimal_power (CellText t) =
     (let body = py_strip t in
      if body = [] then Inl (SourceValueNormalizationError invalid_power_message)
      else case dec_of_string body of
        None \<Rightarrow> Inl (SourceValueNormalizationError invalid_power_message)
      | Some parsed \<Rightarrow>
          if dec_is_finite parsed then Inr parsed
          else Inl (SourceValueNormalizationError invalid_power_message))"
| "decimal_power _ = Inl (SourceValueNormalizationError invalid_power_message)"

definition kw_per_mw :: dec where "kw_per_mw = DFin False 1000 0"

definition lift_decimal :: "dec_signal + 'a \<Rightarrow> 'a result" where
  "lift_decimal r = map_sum DecimalException id r"

definition normalize_power_to_mw :: "cell \<Rightarrow> power_unit \<Rightarrow> pyfloat result" where
  "normalize_power_to_mw value unit =
     attempt (decimal_power value) (\<lambda>amount.
     attempt (if unit = KW then lift_decimal (dec_div default_context amount kw_per_mw) else Inr amount)
       (\<lambda>amount. Inr (float_of_dec amount)))"

section \<open>Text that reads as a number\<close>

text \<open>
  \<open>float(text)\<close> accepts the numerals of \<open>Decimal(text)\<close> without payloads, and underscores only
  between digits.
\<close>

fun underscores_between_digits :: "bool \<Rightarrow> string \<Rightarrow> bool" where
  "underscores_between_digits after_digit [] = True"
| "underscores_between_digits after_digit (c # cs) =
     (if c = CHR ''_''
      then after_digit \<and> cs \<noteq> [] \<and> is_digit (hd cs) \<and> underscores_between_digits False cs
      else underscores_between_digits (is_digit c) cs)"

definition numeral_syntax :: "string \<Rightarrow> bool" where
  "numeral_syntax t =
     (let i = takeWhile is_digit t; r = dropWhile is_digit t;
          dot = r \<noteq> [] \<and> hd r = CHR ''.'';
          f = (if dot then takeWhile is_digit (tl r) else []);
          r' = (if dot then dropWhile is_digit (tl r) else r) in
      i @ f \<noteq> [] \<and> parse_exponent r' \<noteq> None)"

definition float_accepts :: "string \<Rightarrow> bool" where
  "float_accepts text =
     (let body = py_strip text; t = snd (split_sign (filter (\<lambda>c. c \<noteq> CHR ''_'') body)); l = map lower_char t in
      underscores_between_digits False body \<and>
      (l = ''inf'' \<or> l = ''infinity'' \<or> l = ''nan'' \<or> numeral_syntax t))"

definition is_bare_numeric_text :: "string \<Rightarrow> bool" where
  "is_bare_numeric_text value \<longleftrightarrow> py_strip value \<noteq> [] \<and> float_accepts (py_strip value)"

section \<open>Timestamps (normalization/timezone.py)\<close>

text \<open>
  A zone gives the offset of a wall clock reading (with its fold, which selects the earlier or the
  later of two readings) and the offset in force at a UTC instant.
\<close>

record zone =
  zone_wall_offset :: "int \<Rightarrow> bool \<Rightarrow> int"
  zone_utc_offset :: "int \<Rightarrow> int"

type_synonym timestamp_parser = "string \<Rightarrow> py_datetime option"

definition invalid_timestamp_message :: string where
  "invalid_timestamp_message = ''timestamp source representation is invalid''"

definition is_date_only_text :: "string \<Rightarrow> bool" where
  "is_date_only_text value \<longleftrightarrow> CHR ''T'' \<notin> set value \<and> CHR '' '' \<notin> set value"

definition parse_timestamp_text :: "timestamp_parser \<Rightarrow> string \<Rightarrow> py_datetime result" where
  "parse_timestamp_text fromisoformat value =
     (let body = py_strip value in
      if body = [] \<or> float_accepts body \<or> is_date_only_text body
      then Inl (SourceValueNormalizationError invalid_timestamp_message)
      else case fromisoformat body of
        None \<Rightarrow> Inl (SourceValueNormalizationError invalid_timestamp_message)
      | Some parsed \<Rightarrow> Inr parsed)"

fun parse_timestamp :: "timestamp_parser \<Rightarrow> cell \<Rightarrow> py_datetime result" where
  "parse_timestamp fromisoformat (CellDatetime d) = Inr d"
| "parse_timestamp fromisoformat (CellText t) = parse_timestamp_text fromisoformat t"
| "parse_timestamp fromisoformat _ = Inl (SourceValueNormalizationError invalid_timestamp_message)"

text \<open>The wall clock of a UTC instant in a zone.\<close>

definition zone_wall :: "zone \<Rightarrow> utc \<Rightarrow> int result" where
  "zone_wall z u = datetime_minus u (- zone_utc_offset z u)"

definition localize_naive :: "zone \<Rightarrow> int \<Rightarrow> utc result" where
  "localize_naive z value =
     attempt (astimezone_utc value (zone_wall_offset z value False)) (\<lambda>utc_first.
     attempt (astimezone_utc value (zone_wall_offset z value True)) (\<lambda>utc_second.
       if utc_first \<noteq> utc_second
       then Inl (SourceValueNormalizationError ''local timestamp is DST-ambiguous'')
       else attempt (zone_wall z utc_first) (\<lambda>wall.
         if wall \<noteq> value
         then Inl (SourceValueNormalizationError ''local timestamp does not exist in timezone'')
         else Inr utc_first)))"

definition normalize_timestamp_to_utc ::
    "timestamp_parser \<Rightarrow> cell \<Rightarrow> zone option \<Rightarrow> utc result" where
  "normalize_timestamp_to_utc fromisoformat value source_timezone =
     attempt (parse_timestamp fromisoformat value) (\<lambda>parsed.
       case parsed of
         Aware wall offset \<Rightarrow> astimezone_utc wall offset
       | Naive wall \<Rightarrow>
           (case source_timezone of
              None \<Rightarrow> Inl (SourceValueNormalizationError ''naive timestamp has no source timezone'')
            | Some z \<Rightarrow> localize_naive z wall))"

text \<open>The IANA data base is an argument: the zone of a name, if there is one.\<close>

definition resolve_source_timezone :: "(string \<Rightarrow> zone option) \<Rightarrow> string option \<Rightarrow> zone option result" where
  "resolve_source_timezone zoneinfo name =
     (case name of
        None \<Rightarrow> Inr None
      | Some n \<Rightarrow>
          (let cleaned = py_strip n in
           if cleaned = []
           then Inl (NormalizationConfigurationError ''source_timezone must be a non-empty IANA timezone name'')
           else case zoneinfo cleaned of
             None \<Rightarrow> Inl (NormalizationConfigurationError ''source_timezone is not a known IANA timezone'')
           | Some z \<Rightarrow> Inr (Some z)))"

section \<open>Consumption cells (consumption\_values.py)\<close>

definition consumption_timestamp_from_csv :: "string \<Rightarrow> cell result" where
  "consumption_timestamp_from_csv value =
     (if is_bare_numeric_text value then Inl UnrecognizedConsumptionSourceValue else Inr (CellText value))"

fun consumption_timestamp_from_excel :: "cell \<Rightarrow> cell result" where
  "consumption_timestamp_from_excel (CellDatetime d) = Inr (CellDatetime d)"
| "consumption_timestamp_from_excel (CellText t) = consumption_timestamp_from_csv t"
| "consumption_timestamp_from_excel _ = Inl UnrecognizedConsumptionSourceValue"

text \<open>Defined by the module and used by neither adapter.\<close>

fun consumption_mw_from_excel :: "cell \<Rightarrow> cell result" where
  "consumption_mw_from_excel (CellBool b) = Inl UnrecognizedConsumptionSourceValue"
| "consumption_mw_from_excel value = Inr value"

section \<open>Lemmas\<close>

text \<open>A zone is coherent when the wall clock of an instant, read back with one of the two folds, gives
  the instant again: \<open>zoneinfo\<close> derives both offsets from one list of transitions.\<close>

definition coherent_zone :: "zone \<Rightarrow> bool" where
  "coherent_zone z \<longleftrightarrow> (\<forall>u. \<exists>fold. zone_wall_offset z (u + zone_utc_offset z u) fold = zone_utc_offset z u)"

lemma zone_wall_Inr_iff: "zone_wall z u = Inr w \<longleftrightarrow> 0 \<le> w \<and> w \<le> datetime_max \<and> w = u + zone_utc_offset z u"
  by (auto simp: zone_wall_def datetime_minus_Inr_iff)

lemma localize_naive_Inr_iff:
  "localize_naive z v = Inr u \<longleftrightarrow>
     (\<forall>fold. u = v - zone_wall_offset z v fold) \<and> valid_utc u \<and> valid_utc v \<and> v = u + zone_utc_offset z u"
  by (auto simp: localize_naive_def astimezone_utc_def result_simps zone_wall_Inr_iff valid_utc_def
      all_bool_eq split: if_splits)

lemma localize_naive_unique:
  assumes "coherent_zone z" "localize_naive z v = Inr u" "zone_wall z u' = Inr v"
  shows "u' = u"
proof -
  from assms(3) have v: "v = u' + zone_utc_offset z u'" by (simp add: zone_wall_Inr_iff)
  obtain fold where "zone_wall_offset z v fold = zone_utc_offset z u'"
    using assms(1) unfolding coherent_zone_def v by blast
  then show ?thesis using assms(2) v unfolding localize_naive_Inr_iff by (metis add_diff_cancel_right')
qed

text \<open>Equations that let the simplifier read numerals and print floats.\<close>

lemmas text_eval =
  py_strip_def py_isspace_def dec_of_string_def is_digit_def digit_value_def lower_char_def digits_value_def
  parse_numeral_def digits_in_small digits_in_step Let_def

lemmas float_text_eval =
  dec_of_float_text_def dec_of_digits_def decimal_neighbours_def decimal_order_def digits_in_small digits_in_step
  round_half_even_def Let_def float_quotient_def float_round_def round_magnitude_def binary64_def
  unit_exponent_def dropped_weight_def float_eq_def float_aligned_def upt_rec

text \<open>A clear-cut negative example: a kilowatt cell beyond the decimal context's exponent range.\<close>

lemma kilowatt_overflow_escapes:
  "normalize_power_to_mw (CellText ''9e1000003'') KW = Inl (DecimalException Overflow)"
proof -
  have "decimal_power (CellText ''9e1000003'') = Inr (DFin False 9 1000003)"
    by (simp add: text_eval)
  moreover have "dec_div default_context (DFin False 9 1000003) kw_per_mw = Inl Overflow"
    by (simp add: kw_per_mw_def dec_div.simps decimal_eval)
  ultimately show ?thesis by (simp add: normalize_power_to_mw_def lift_decimal_def)
qed

lemma float_text_samples:
  "dec_of_float_text False 1 (- 1) = DFin False 5 (- 1)"
  "dec_of_float_text True 5 2 = DFin True 200 (- 1)"
  by (simp_all add: float_text_eval)

lemma float_text_tenth: "dec_of_float_text False 3602879701896397 (- 55) = DFin False 1 (- 1)"
  by (simp add: float_text_eval)

section \<open>Properties\<close>

text \<open>C25: LOCAL-TIME. In a zone whose two offset functions belong together, a local timestamp that is
  accepted denotes one instant only: its wall clock in the zone is the timestamp as written, and no other
  instant has it. The ambiguous and the skipped hour of a clock change are refused.\<close>

theorem local_timestamp_is_unambiguous:
  assumes "coherent_zone z" and "parse_timestamp fromisoformat value = Inr (Naive w)"
    and "normalize_timestamp_to_utc fromisoformat value (Some z) = Inr u"
  shows "zone_wall z u = Inr w \<and> (\<forall>u'. zone_wall z u' = Inr w \<longrightarrow> u' = u)"
proof -
  have l: "localize_naive z w = Inr u" using assms(2,3) by (simp add: normalize_timestamp_to_utc_def)
  then have "zone_wall z u = Inr w" by (auto simp: localize_naive_Inr_iff zone_wall_Inr_iff valid_utc_def)
  then show ?thesis using localize_naive_unique [OF assms(1) l] by blast
qed

text \<open>A zone that moves its clock forward by one hour at one instant, four hours after midnight.\<close>

definition sample_zone :: zone where
  "sample_zone =
     \<lparr>zone_wall_offset = (\<lambda>w fold. if w < 14400000000 then 0
        else if w < 18000000000 then (if fold then 3600000000 else 0) else 3600000000),
      zone_utc_offset = (\<lambda>u. if u < 14400000000 then 0 else 3600000000)\<rparr>"

lemma sample_zone_coherent: "coherent_zone sample_zone"
  unfolding coherent_zone_def
proof
  fix u show "\<exists>fold. zone_wall_offset sample_zone (u + zone_utc_offset sample_zone u) fold = zone_utc_offset sample_zone u"
    by (cases "u < 14400000000") (simp_all add: sample_zone_def)
qed

lemma local_timestamp_is_unambiguous_witness:
  "normalize_timestamp_to_utc (\<lambda>_. None) (CellDatetime (Naive 18000000000)) (Some sample_zone) = Inr 14400000000 \<and>
   normalize_timestamp_to_utc (\<lambda>_. None) (CellDatetime (Naive 15000000000)) (Some sample_zone) =
     Inl (SourceValueNormalizationError ''local timestamp is DST-ambiguous'') \<and>
   {u'. zone_wall sample_zone u' = Inr 18000000000} = {14400000000}"
proof -
  have n: "normalize_timestamp_to_utc (\<lambda>_. None) (CellDatetime (Naive 18000000000)) (Some sample_zone) = Inr 14400000000"
    "normalize_timestamp_to_utc (\<lambda>_. None) (CellDatetime (Naive 15000000000)) (Some sample_zone) =
     Inl (SourceValueNormalizationError ''local timestamp is DST-ambiguous'')"
    by (simp_all add: normalize_timestamp_to_utc_def localize_naive_def astimezone_utc_def datetime_minus_def
        datetime_max_def sample_zone_def zone_wall_def)
  have "zone_wall sample_zone 14400000000 = Inr 18000000000 \<and>
      (\<forall>u'. zone_wall sample_zone u' = Inr 18000000000 \<longrightarrow> u' = 14400000000)"
    using local_timestamp_is_unambiguous [OF sample_zone_coherent _ n(1)] by simp
  with n show ?thesis by blast
qed

end
