(* ===== verification/Schema_Mapping.thy ===== *)
theory Schema_Mapping
  imports Source_Values Json_Text "HOL-Library.List_Lexorder" "HOL-Library.Char_ord" "HOL-Library.Product_Lexorder"
begin

text \<open>
  Deterministic mapping of source headers to canonical fields
  (infrastructure/adapters/structured/schema\_mapping and consumption\_mapping.py): normalisation of
  field names, \<open>difflib\<close>'s similarity ratio, the resolver with its exact index and fuzzy ranking, and
  the unit policy of consumption headers. Unicode normalisation, case folding and character categories
  are the record \<open>unicode_text\<close>, the \<open>unicodedata\<close> of the interpreter.
\<close>

section \<open>Field names (normalization.py)\<close>

record unicode_text =
  ut_nfkc :: "string \<Rightarrow> string"
  ut_casefold :: "string \<Rightarrow> string"
  ut_letter_number_mark :: "char \<Rightarrow> bool"

text \<open>\<open>str.split()\<close>: the runs of visible characters.\<close>

function py_split :: "string \<Rightarrow> string list" where
  "py_split s =
     (let r = dropWhile py_isspace s in
      if r = [] then []
      else takeWhile (\<lambda>c. \<not> py_isspace c) r # py_split (dropWhile (\<lambda>c. \<not> py_isspace c) r))"
  by pat_completeness auto
termination
proof (relation "measure length", goal_cases)
  case (2 s r)
  then have r: "r \<noteq> []" "\<not> py_isspace (hd r)" by (auto simp: hd_dropWhile)
  have "length (dropWhile (\<lambda>c. \<not> py_isspace c) r) < length r"
    using r by (cases r) (auto simp: le_imp_less_Suc length_dropWhile_le)
  also have "length r \<le> length s" using 2 by (simp add: length_dropWhile_le)
  finally show ?case by simp
qed simp

declare py_split.simps [simp del]

definition normalize_field_name :: "unicode_text \<Rightarrow> string \<Rightarrow> string" where
  "normalize_field_name u value =
     (let normalized = ut_casefold u (py_strip (ut_nfkc u value));
          pieces = map (\<lambda>c. if ut_letter_number_mark u c then c else CHR '' '') normalized in
      join_with (CHR '' '') (py_split pieces))"

section \<open>Similarity (difflib.SequenceMatcher without junk)\<close>

fun common_prefix :: "string \<Rightarrow> string \<Rightarrow> nat" where
  "common_prefix (x # xs) (y # ys) = (if x = y then Suc (common_prefix xs ys) else 0)"
| "common_prefix _ _ = 0"

text \<open>The longest common block, the earliest in the first text, then in the second, among equals.\<close>

definition better_match :: "string \<Rightarrow> string \<Rightarrow> nat \<times> nat \<times> nat \<Rightarrow> nat \<times> nat \<Rightarrow> nat \<times> nat \<times> nat" where
  "better_match a b best ij =
     (let k = common_prefix (drop (fst ij) a) (drop (snd ij) b) in
      if snd (snd best) < k then (fst ij, snd ij, k) else best)"

definition find_longest_match :: "string \<Rightarrow> string \<Rightarrow> nat \<times> nat \<times> nat" where
  "find_longest_match a b =
     foldl (better_match a b) (0, 0, 0) (List.product [0..<length a] [0..<length b])"

lemma common_prefix_le: "common_prefix a b \<le> length a \<and> common_prefix a b \<le> length b"
  by (induction a b rule: common_prefix.induct) auto

lemma better_matches_fit:
  "i + k \<le> length a \<and> j + k \<le> length b \<Longrightarrow>
   foldl (better_match a b) (i, j, k) ps = (i', j', k') \<Longrightarrow> i' + k' \<le> length a \<and> j' + k' \<le> length b"
proof (induction ps arbitrary: i j k)
  case (Cons p ps)
  obtain x y z where m: "better_match a b (i, j, k) p = (x, y, z)" by (cases "better_match a b (i, j, k) p")
  have "x + z \<le> length a \<and> y + z \<le> length b"
    using m Cons.prems(1) common_prefix_le [of "drop (fst p) a" "drop (snd p) b"]
    by (auto simp: better_match_def Let_def split: if_splits)
  then show ?case using Cons.IH Cons.prems(2) m by simp
qed simp

lemma find_longest_match_fits:
  "find_longest_match a b = (i, j, k) \<Longrightarrow> i + k \<le> length a \<and> j + k \<le> length b"
  unfolding find_longest_match_def by (rule better_matches_fit [of 0 0 a 0 b]) simp_all

text \<open>The total size of the matching blocks, recursively to the left and to the right of the longest.\<close>

function matched_size :: "string \<Rightarrow> string \<Rightarrow> nat" where
  "matched_size a b =
     (case find_longest_match a b of (i, j, k) \<Rightarrow>
        if k = 0 then 0
        else matched_size (take i a) (take j b) + k + matched_size (drop (i + k) a) (drop (j + k) b))"
  by pat_completeness auto
termination
  by (relation "measure (\<lambda>(a, b). length a)") (auto dest!: sym [THEN find_longest_match_fits])

declare matched_size.simps [simp del]

definition similarity_ratio :: "string \<Rightarrow> string \<Rightarrow> pyfloat" where
  "similarity_ratio a b =
     (let length_sum = length a + length b in
      if length_sum = 0 then float_one
      else float_quot (float_mul (Fl False 2 0) (float_of_nat (matched_size a b))) (float_of_nat length_sum))"

section \<open>Data (models.py)\<close>

datatype resolution_status = RESOLVED | AMBIGUOUS | UNRESOLVED

datatype resolution_method = EXACT | FUZZY

record field_spec =
  fs_canonical_name :: string
  fs_aliases :: "string list"
  fs_required :: bool

record field_candidate =
  fc_canonical_field :: string
  fc_confidence :: pyfloat
  fc_matched_representation :: string

record field_resolution =
  fr_source_field :: string
  fr_normalized_source_field :: string
  fr_status :: resolution_status
  fr_canonical_field :: "string option"
  fr_method :: "resolution_method option"
  fr_confidence :: pyfloat
  fr_candidates :: "field_candidate list"

record field_collision =
  co_canonical_field :: string
  co_source_fields :: "string list"

record schema_resolution =
  sch_field_resolutions :: "field_resolution list"
  sch_missing_required_fields :: "string list"
  sch_collisions :: "field_collision list"

section \<open>Building the index (resolver.py)\<close>

text \<open>\<open>repr\<close> of a string with code points below 256, as the error messages quote it.\<close>

definition repr_char :: "char \<Rightarrow> char \<Rightarrow> string" where
  "repr_char quote c =
     (let n = (of_char c :: nat) in
      if c = quote \<or> c = backslash then [backslash, c]
      else if n = 9 then [backslash, CHR ''t'']
      else if n = 10 then [backslash, CHR ''n'']
      else if n = 13 then [backslash, CHR ''r'']
      else if n < 32 \<or> (126 < n \<and> n < 161) \<or> n = 173
      then [backslash, CHR ''x'', hex_digit (n div 16), hex_digit (n mod 16)]
      else [c])"

definition py_repr :: "string \<Rightarrow> string" where
  "py_repr s =
     (let quote = (if CHR 0x27 \<in> set s \<and> CHR 0x22 \<notin> set s then CHR 0x22 else CHR 0x27) in
      quote # concat (map (repr_char quote) s) @ [quote])"

text \<open>\<open>ResolverConfigurationError\<close> is a \<open>ValueError\<close>, and nothing tells them apart.\<close>

abbreviation ResolverConfigurationError :: "string \<Rightarrow> exn" where
  "ResolverConfigurationError m \<equiv> ValueError m"

type_synonym exact_index = "string \<rightharpoonup> string \<times> string"

record indexed_field =
  ix_spec :: field_spec
  ix_match_targets :: "(string \<times> string) list"

definition register_exact :: "exact_index \<Rightarrow> string \<Rightarrow> string \<Rightarrow> string \<Rightarrow> exact_index result" where
  "register_exact lookup token canonical_name original =
     (case lookup token of
        None \<Rightarrow> Inr (lookup(token \<mapsto> (canonical_name, original)))
      | Some (existing_canonical, _) \<Rightarrow>
          if existing_canonical \<noteq> canonical_name
          then Inl (ResolverConfigurationError (''normalized alias '' @ py_repr token @ '' is assigned to both ''
                 @ py_repr existing_canonical @ '' and '' @ py_repr canonical_name))
          else Inr lookup)"

fun register_canonicals ::
    "unicode_text \<Rightarrow> (string \<rightharpoonup> string) \<Rightarrow> exact_index \<Rightarrow> field_spec list \<Rightarrow> exact_index result" where
  "register_canonicals u seen lookup [] = Inr lookup"
| "register_canonicals u seen lookup (spec # specs) =
     (let normalized = normalize_field_name u (fs_canonical_name spec) in
      if normalized = []
      then Inl (ResolverConfigurationError ''canonical field name is empty after normalization'')
      else case seen normalized of
        Some previous \<Rightarrow> Inl (ResolverConfigurationError (''duplicate canonical field definition: ''
            @ py_repr (fs_canonical_name spec) @ '' collides with '' @ py_repr previous))
      | None \<Rightarrow>
          attempt (register_exact lookup normalized (fs_canonical_name spec) (fs_canonical_name spec)) (\<lambda>lookup.
            register_canonicals u (seen(normalized \<mapsto> fs_canonical_name spec)) lookup specs))"

fun index_aliases ::
    "unicode_text \<Rightarrow> field_spec \<Rightarrow> exact_index \<Rightarrow> (string \<times> string) list \<Rightarrow> string set \<Rightarrow> string list \<Rightarrow>
     (exact_index \<times> (string \<times> string) list) result" where
  "index_aliases u spec lookup targets seen_tokens [] = Inr (lookup, targets)"
| "index_aliases u spec lookup targets seen_tokens (alias # aliases) =
     (let normalized = normalize_field_name u alias in
      if normalized = []
      then Inl (ResolverConfigurationError (''alias '' @ py_repr alias @ '' for canonical field ''
             @ py_repr (fs_canonical_name spec) @ '' is empty after normalization''))
      else attempt (register_exact lookup normalized (fs_canonical_name spec) alias) (\<lambda>lookup.
        if normalized \<notin> seen_tokens
        then index_aliases u spec lookup (targets @ [(normalized, alias)]) (insert normalized seen_tokens) aliases
        else index_aliases u spec lookup targets seen_tokens aliases))"

fun index_fields ::
    "unicode_text \<Rightarrow> exact_index \<Rightarrow> field_spec list \<Rightarrow> (indexed_field list \<times> exact_index) result" where
  "index_fields u lookup [] = Inr ([], lookup)"
| "index_fields u lookup (spec # specs) =
     (let token = normalize_field_name u (fs_canonical_name spec) in
      attempt (index_aliases u spec lookup [(token, fs_canonical_name spec)] {token} (fs_aliases spec))
        (\<lambda>(lookup, targets).
      attempt (index_fields u lookup specs) (\<lambda>(fields, lookup).
        Inr (\<lparr>ix_spec = spec, ix_match_targets = targets\<rparr> # fields, lookup))))"

definition build_mapping_index ::
    "unicode_text \<Rightarrow> field_spec list \<Rightarrow> (indexed_field list \<times> exact_index) result" where
  "build_mapping_index u specs =
     attempt (register_canonicals u Map.empty Map.empty specs) (\<lambda>lookup. index_fields u lookup specs)"

section \<open>Resolver (DeterministicFieldResolver)\<close>

record resolver =
  rv_unicode :: unicode_text
  rv_fuzzy_threshold :: pyfloat
  rv_ambiguity_margin :: pyfloat
  rv_specs :: "field_spec list"
  rv_fields :: "indexed_field list"
  rv_exact_lookup :: exact_index

definition default_fuzzy_threshold :: pyfloat where
  "default_fuzzy_threshold = float_of_dec (DFin False 85 (- 2))"

definition default_ambiguity_margin :: pyfloat where
  "default_ambiguity_margin = float_of_dec (DFin False 5 (- 2))"

definition require_unit_interval :: "string \<Rightarrow> pyfloat \<Rightarrow> pyfloat result" where
  "require_unit_interval name number =
     (if \<not> float_isfinite number \<or> float_lt number float_zero \<or> float_lt float_one number
      then Inl (ResolverConfigurationError (name @ '' must be a finite number in [0, 1]''))
      else Inr number)"

definition make_resolver :: "unicode_text \<Rightarrow> field_spec list \<Rightarrow> pyfloat \<Rightarrow> pyfloat \<Rightarrow> resolver result" where
  "make_resolver u specs fuzzy_threshold ambiguity_margin =
     attempt (require_unit_interval ''fuzzy_threshold'' fuzzy_threshold) (\<lambda>t.
     attempt (require_unit_interval ''ambiguity_margin'' ambiguity_margin) (\<lambda>m.
     attempt (build_mapping_index u specs) (\<lambda>(fields, lookup).
       Inr \<lparr>rv_unicode = u, rv_fuzzy_threshold = t, rv_ambiguity_margin = m, rv_specs = specs,
            rv_fields = fields, rv_exact_lookup = lookup\<rparr>)))"

fun best_target :: "string \<Rightarrow> pyfloat \<times> string \<Rightarrow> (string \<times> string) list \<Rightarrow> pyfloat \<times> string" where
  "best_target source best [] = best"
| "best_target source best ((target, original) # targets) =
     (let score = similarity_ratio source target in
      best_target source (if float_lt (fst best) score then (score, original) else best) targets)"

definition field_score :: "string \<Rightarrow> indexed_field \<Rightarrow> field_candidate" where
  "field_score source indexed =
     (let best = best_target source (Fl True 1 0, fs_canonical_name (ix_spec indexed)) (ix_match_targets indexed) in
      \<lparr>fc_canonical_field = fs_canonical_name (ix_spec indexed), fc_confidence = fst best,
       fc_matched_representation = snd best\<rparr>)"

definition rank_fuzzy_candidates :: "resolver \<Rightarrow> string \<Rightarrow> field_candidate list" where
  "rank_fuzzy_candidates r source =
     sort_key (\<lambda>c. (- float_val (fc_confidence c), fc_canonical_field c)) (map (field_score source) (rv_fields r))"

definition is_ambiguous :: "field_candidate list \<Rightarrow> pyfloat \<Rightarrow> bool" where
  "is_ambiguous credible margin =
     (if length credible < 2 then False
      else float_lt (float_sub (fc_confidence (credible ! 0)) (fc_confidence (credible ! 1))) margin)"

definition relevant_ambiguous_candidates :: "field_candidate list \<Rightarrow> pyfloat \<Rightarrow> field_candidate list" where
  "relevant_ambiguous_candidates credible margin =
     (let best_score = fc_confidence (credible ! 0) in
      filter (\<lambda>c. float_lt (float_sub best_score (fc_confidence c)) margin) credible)"

definition unresolved_field :: "string \<Rightarrow> string \<Rightarrow> pyfloat \<Rightarrow> field_candidate list \<Rightarrow> field_resolution" where
  "unresolved_field source normalized confidence candidates =
     \<lparr>fr_source_field = source, fr_normalized_source_field = normalized, fr_status = UNRESOLVED,
      fr_canonical_field = None, fr_method = None, fr_confidence = confidence, fr_candidates = candidates\<rparr>"

definition resolve_fuzzy :: "resolver \<Rightarrow> string \<Rightarrow> string \<Rightarrow> field_resolution" where
  "resolve_fuzzy r source normalized =
     (let ranked = rank_fuzzy_candidates r normalized in
      if ranked = [] then unresolved_field source normalized float_zero []
      else let best = ranked ! 0 in
        if float_lt (fc_confidence best) (rv_fuzzy_threshold r)
        then unresolved_field source normalized (fc_confidence best) [best]
        else let credible = filter (\<lambda>c. float_le (rv_fuzzy_threshold r) (fc_confidence c)) ranked in
          if is_ambiguous credible (rv_ambiguity_margin r)
          then \<lparr>fr_source_field = source, fr_normalized_source_field = normalized, fr_status = AMBIGUOUS,
                fr_canonical_field = None, fr_method = None, fr_confidence = fc_confidence best,
                fr_candidates = relevant_ambiguous_candidates credible (rv_ambiguity_margin r)\<rparr>
          else \<lparr>fr_source_field = source, fr_normalized_source_field = normalized, fr_status = RESOLVED,
                fr_canonical_field = Some (fc_canonical_field best), fr_method = Some FUZZY,
                fr_confidence = fc_confidence best, fr_candidates = [best]\<rparr>)"

definition resolve_field :: "resolver \<Rightarrow> string \<Rightarrow> field_resolution" where
  "resolve_field r source =
     (let normalized = normalize_field_name (rv_unicode r) source in
      if normalized = [] then unresolved_field source normalized float_zero []
      else case rv_exact_lookup r normalized of
        Some (canonical_name, original) \<Rightarrow>
          \<lparr>fr_source_field = source, fr_normalized_source_field = normalized, fr_status = RESOLVED,
           fr_canonical_field = Some canonical_name, fr_method = Some EXACT, fr_confidence = float_one,
           fr_candidates = [\<lparr>fc_canonical_field = canonical_name, fc_confidence = float_one,
                             fc_matched_representation = original\<rparr>]\<rparr>
      | None \<Rightarrow> resolve_fuzzy r source normalized)"

text \<open>The dictionary of resolved sources: canonical names with their source fields in header order.\<close>

definition resolved_pairs :: "field_resolution list \<Rightarrow> (string \<times> string) list" where
  "resolved_pairs resolutions =
     concat (map (\<lambda>r. case (fr_status r, fr_canonical_field r) of
       (RESOLVED, Some c) \<Rightarrow> [(c, fr_source_field r)] | _ \<Rightarrow> []) resolutions)"

definition sources_of :: "(string \<times> string) list \<Rightarrow> string \<Rightarrow> string list" where
  "sources_of pairs c = map snd (filter (\<lambda>p. fst p = c) pairs)"

definition field_collisions :: "(string \<times> string) list \<Rightarrow> field_collision list" where
  "field_collisions pairs =
     map (\<lambda>c. \<lparr>co_canonical_field = c, co_source_fields = sources_of pairs c\<rparr>)
       (filter (\<lambda>c. 1 < length (sources_of pairs c)) (sort (remdups (map fst pairs))))"

definition resolve_schema :: "resolver \<Rightarrow> string list \<Rightarrow> schema_resolution" where
  "resolve_schema r source_fields =
     (let resolutions = map (resolve_field r) source_fields; pairs = resolved_pairs resolutions in
      \<lparr>sch_field_resolutions = resolutions,
       sch_missing_required_fields =
         map fs_canonical_name
           (filter (\<lambda>s. fs_required s \<and> fs_canonical_name s \<notin> fst ` set pairs) (rv_specs r)),
       sch_collisions = field_collisions pairs\<rparr>)"

section \<open>Consumption headers (consumption\_mapping.py)\<close>

definition required_canonical_order :: "string list" where
  "required_canonical_order = [''consumer_id'', ''timestamp'', ''value_mw'']"

definition energy_last_tokens :: "string list" where
  "energy_last_tokens = [''mwh'', ''kwh'', ''wh'', ''w'', ''hour'']"

fun power_token :: "power_unit \<Rightarrow> string" where
  "power_token MW = ''mw''"
| "power_token KW = ''kw''"

definition known_power_tokens :: "string list" where
  "known_power_tokens = [power_token MW, power_token KW]"

definition default_consumption_field_specs :: "power_unit \<Rightarrow> field_spec list" where
  "default_consumption_field_specs unit =
     [\<lparr>fs_canonical_name = ''consumer_id'', fs_aliases = [], fs_required = True\<rparr>,
      \<lparr>fs_canonical_name = ''timestamp'', fs_aliases = [], fs_required = True\<rparr>,
      \<lparr>fs_canonical_name = ''value_mw'',
       fs_aliases = [if unit = MW then ''Consumption_MW'' else ''Consumption_kW''], fs_required = True\<rparr>]"

definition validated_consumption_field_specs :: "field_spec list \<Rightarrow> field_spec list result" where
  "validated_consumption_field_specs specs =
     (let names = map fs_canonical_name specs in
      if set names \<noteq> set required_canonical_order \<or> length names \<noteq> length required_canonical_order
      then Inl (ValueError ''Consumption field specs must be exactly consumer_id, timestamp, and value_mw'')
      else if \<not> list_all fs_required specs
      then Inl (ValueError ''Consumption canonical fields must all be required'')
      else Inr specs)"

definition is_energy_like :: "string list \<Rightarrow> bool" where
  "is_energy_like tokens =
     (if tokens = [] then False
      else if last tokens \<in> set energy_last_tokens then True
      else 2 \<le> length tokens \<and> drop (length tokens - 2) tokens = [''mw'', ''h''])"

definition header_claims_conflicting_unit :: "string list \<Rightarrow> string \<Rightarrow> bool" where
  "header_claims_conflicting_unit tokens expected =
     (if tokens = [] then False
      else if is_energy_like tokens then True
      else last tokens \<in> set known_power_tokens \<and> last tokens \<noteq> expected)"

definition unresolved_resolution :: "field_resolution \<Rightarrow> field_resolution" where
  "unresolved_resolution r = r\<lparr>fr_status := UNRESOLVED, fr_canonical_field := None, fr_method := None\<rparr>"

definition apply_header_unit_policy :: "string \<Rightarrow> field_resolution \<Rightarrow> field_resolution" where
  "apply_header_unit_policy expected r =
     (if fr_status r \<noteq> RESOLVED \<or> fr_canonical_field r \<noteq> Some ''value_mw'' then r
      else let tokens = py_split (fr_normalized_source_field r);
               last_token = (if tokens \<noteq> [] then last tokens else []) in
        if fr_method r = Some FUZZY
        then (if last_token \<noteq> expected \<or> is_energy_like tokens then unresolved_resolution r else r)
        else if header_claims_conflicting_unit tokens expected then unresolved_resolution r
        else r)"

definition apply_consumption_unit_safety :: "schema_resolution \<Rightarrow> power_unit \<Rightarrow> schema_resolution" where
  "apply_consumption_unit_safety schema unit =
     (let resolutions = map (apply_header_unit_policy (power_token unit)) (sch_field_resolutions schema);
          pairs = resolved_pairs resolutions in
      \<lparr>sch_field_resolutions = resolutions,
       sch_missing_required_fields = filter (\<lambda>n. n \<notin> fst ` set pairs) required_canonical_order,
       sch_collisions = field_collisions pairs\<rparr>)"

definition column_step :: "(string \<rightharpoonup> nat) \<Rightarrow> nat \<times> field_resolution \<Rightarrow> (string \<rightharpoonup> nat)" where
  "column_step m ir =
     (case (fr_status (snd ir), fr_canonical_field (snd ir)) of
        (RESOLVED, Some c) \<Rightarrow> m(c \<mapsto> fst ir) | _ \<Rightarrow> m)"

definition canonical_column_index :: "schema_resolution \<Rightarrow> (string \<rightharpoonup> nat)" where
  "canonical_column_index schema = foldl column_step Map.empty (enumerate 0 (sch_field_resolutions schema))"

section \<open>The exact index\<close>

text \<open>The names under which a specification is known.\<close>

definition names_of :: "field_spec \<Rightarrow> string list" where
  "names_of spec = fs_canonical_name spec # fs_aliases spec"

definition sound_index :: "unicode_text \<Rightarrow> field_spec list \<Rightarrow> exact_index \<Rightarrow> bool" where
  "sound_index u specs lookup \<longleftrightarrow>
     (\<forall>t c n. lookup t = Some (c, n) \<longrightarrow>
        (\<exists>spec \<in> set specs. c = fs_canonical_name spec \<and> n \<in> set (names_of spec) \<and> t = normalize_field_name u n))"

definition indexes :: "unicode_text \<Rightarrow> exact_index \<Rightarrow> field_spec \<Rightarrow> string \<Rightarrow> bool" where
  "indexes u lookup spec n \<longleftrightarrow>
     normalize_field_name u n \<noteq> [] \<and> (\<exists>m. lookup (normalize_field_name u n) = Some (fs_canonical_name spec, m))"

lemma register_exact_Inr:
  assumes "register_exact lookup t c n = Inr lookup'"
  shows "lookup \<subseteq>\<^sub>m lookup'" "\<exists>m. lookup' t = Some (c, m)"
    "lookup' t' = Some x \<Longrightarrow> lookup t' = Some x \<or> (t' = t \<and> x = (c, n))"
  using assms by (auto simp: register_exact_def map_le_def split: option.splits if_splits)

lemma indexes_mono: "indexes u lookup spec n \<Longrightarrow> lookup \<subseteq>\<^sub>m lookup' \<Longrightarrow> indexes u lookup' spec n"
  unfolding indexes_def map_le_def by (metis domI)

lemma sound_index_register:
  assumes "sound_index u specs lookup" "spec \<in> set specs" "n \<in> set (names_of spec)"
    and "register_exact lookup (normalize_field_name u n) (fs_canonical_name spec) n = Inr lookup'"
  shows "sound_index u specs lookup'"
  unfolding sound_index_def
proof (intro allI impI)
  fix t c m assume "lookup' t = Some (c, m)"
  with register_exact_Inr(3) [OF assms(4)]
  have "lookup t = Some (c, m) \<or> (t = normalize_field_name u n \<and> c = fs_canonical_name spec \<and> m = n)" by blast
  then show "\<exists>spec \<in> set specs. c = fs_canonical_name spec \<and> m \<in> set (names_of spec) \<and> t = normalize_field_name u m"
    using assms(1-3) unfolding sound_index_def by blast
qed

lemma register_canonicals_Inr:
  "register_canonicals u seen lookup specs = Inr lookup' \<Longrightarrow> sound_index u all lookup \<Longrightarrow> set specs \<subseteq> set all \<Longrightarrow>
   sound_index u all lookup' \<and> lookup \<subseteq>\<^sub>m lookup' \<and> (\<forall>spec \<in> set specs. indexes u lookup' spec (fs_canonical_name spec))"
proof (induction u seen lookup specs rule: register_canonicals.induct)
  case (2 u seen lookup spec specs)
  from 2(2) obtain lookup1 where ne: "normalize_field_name u (fs_canonical_name spec) \<noteq> []"
    and seen: "seen (normalize_field_name u (fs_canonical_name spec)) = None"
    and r: "register_exact lookup (normalize_field_name u (fs_canonical_name spec)) (fs_canonical_name spec)
        (fs_canonical_name spec) = Inr lookup1"
    and rest: "register_canonicals u (seen(normalize_field_name u (fs_canonical_name spec) \<mapsto> fs_canonical_name spec))
        lookup1 specs = Inr lookup'"
    by (auto simp: Let_def attempt_Inr_iff split: if_splits option.splits)
  have s1: "sound_index u all lookup1"
    by (rule sound_index_register [OF 2(3) _ _ r]) (use 2(4) in \<open>auto simp: names_of_def\<close>)
  have ih: "sound_index u all lookup' \<and> lookup1 \<subseteq>\<^sub>m lookup' \<and>
      (\<forall>spec \<in> set specs. indexes u lookup' spec (fs_canonical_name spec))"
    using 2(1) [OF refl ne seen rest s1] 2(4) by simp
  moreover have "indexes u lookup1 spec (fs_canonical_name spec)"
    using ne register_exact_Inr(2) [OF r] by (simp add: indexes_def)
  ultimately show ?case using register_exact_Inr(1) [OF r] indexes_mono map_le_trans by (metis set_ConsD)
qed simp

lemma index_aliases_Inr:
  "index_aliases u spec lookup targets seen aliases = Inr (lookup', targets') \<Longrightarrow> sound_index u all lookup \<Longrightarrow>
   spec \<in> set all \<Longrightarrow> set aliases \<subseteq> set (names_of spec) \<Longrightarrow>
   sound_index u all lookup' \<and> lookup \<subseteq>\<^sub>m lookup' \<and> (\<forall>n \<in> set aliases. indexes u lookup' spec n)"
proof (induction aliases arbitrary: lookup targets seen)
  case (Cons a rest)
  from Cons.prems(1) obtain lookup1 targets1 seen1 where ne: "normalize_field_name u a \<noteq> []"
    and r: "register_exact lookup (normalize_field_name u a) (fs_canonical_name spec) a = Inr lookup1"
    and run: "index_aliases u spec lookup1 targets1 seen1 rest = Inr (lookup', targets')"
    by (auto simp: Let_def attempt_Inr_iff split: if_splits)
  have "sound_index u all lookup1"
    by (rule sound_index_register [OF Cons.prems(2,3) _ r]) (use Cons.prems(4) in simp)
  then have ih: "sound_index u all lookup' \<and> lookup1 \<subseteq>\<^sub>m lookup' \<and> (\<forall>n \<in> set rest. indexes u lookup' spec n)"
    using Cons.IH [OF run] Cons.prems by simp
  moreover have "indexes u lookup1 spec a"
    using ne register_exact_Inr(2) [OF r] by (simp add: indexes_def)
  ultimately show ?case using register_exact_Inr(1) [OF r] indexes_mono map_le_trans by (metis set_ConsD)
qed simp

lemma index_fields_Inr:
  "index_fields u lookup specs = Inr (ixs, lookup') \<Longrightarrow> sound_index u all lookup \<Longrightarrow> set specs \<subseteq> set all \<Longrightarrow>
   sound_index u all lookup' \<and> lookup \<subseteq>\<^sub>m lookup' \<and> map ix_spec ixs = specs \<and>
   (\<forall>spec \<in> set specs. \<forall>n \<in> set (fs_aliases spec). indexes u lookup' spec n)"
proof (induction specs arbitrary: lookup ixs)
  case (Cons spec specs)
  from Cons.prems(1) obtain lookup1 targets ixs1 where
    a: "index_aliases u spec lookup [(normalize_field_name u (fs_canonical_name spec), fs_canonical_name spec)]
        {normalize_field_name u (fs_canonical_name spec)} (fs_aliases spec) = Inr (lookup1, targets)"
    and rest: "index_fields u lookup1 specs = Inr (ixs1, lookup')"
    and ixs: "ixs = \<lparr>ix_spec = spec, ix_match_targets = targets\<rparr> # ixs1"
    by (auto simp: Let_def attempt_Inr_iff)
  have one: "sound_index u all lookup1 \<and> lookup \<subseteq>\<^sub>m lookup1 \<and> (\<forall>n \<in> set (fs_aliases spec). indexes u lookup1 spec n)"
    by (rule index_aliases_Inr [OF a Cons.prems(2)]) (use Cons.prems(3) in \<open>auto simp: names_of_def\<close>)
  have ih: "sound_index u all lookup' \<and> lookup1 \<subseteq>\<^sub>m lookup' \<and> map ix_spec ixs1 = specs \<and>
      (\<forall>spec \<in> set specs. \<forall>n \<in> set (fs_aliases spec). indexes u lookup' spec n)"
    by (rule Cons.IH [OF rest]) (use one Cons.prems(3) in auto)
  then show ?case using one ixs indexes_mono map_le_trans
    by (metis (no_types, lifting) indexed_field.select_convs(1) list.simps(9) set_ConsD)
qed simp

lemma build_mapping_index_Inr:
  assumes "build_mapping_index u specs = Inr (ixs, lookup)"
  shows "sound_index u specs lookup" "map ix_spec ixs = specs"
    and "spec \<in> set specs \<Longrightarrow> n \<in> set (names_of spec) \<Longrightarrow> indexes u lookup spec n"
proof -
  from assms obtain lookup1 where c: "register_canonicals u Map.empty Map.empty specs = Inr lookup1"
    and f: "index_fields u lookup1 specs = Inr (ixs, lookup)"
    by (auto simp: build_mapping_index_def attempt_Inr_iff)
  have c1: "sound_index u specs lookup1 \<and> (\<forall>spec \<in> set specs. indexes u lookup1 spec (fs_canonical_name spec))"
    using register_canonicals_Inr [OF c, of specs] by (simp add: sound_index_def)
  note f1 = index_fields_Inr [OF f conjunct1 [OF c1] subset_refl]
  show "sound_index u specs lookup" "map ix_spec ixs = specs" using f1 by simp_all
  show "spec \<in> set specs \<Longrightarrow> n \<in> set (names_of spec) \<Longrightarrow> indexes u lookup spec n"
    using c1 f1 indexes_mono [of u lookup1 spec n lookup] by (auto simp: names_of_def)
qed

lemma make_resolver_Inr:
  assumes "make_resolver u specs t m = Inr r"
  shows "build_mapping_index u specs = Inr (rv_fields r, rv_exact_lookup r)" "rv_unicode r = u" "rv_specs r = specs"
    "rv_fuzzy_threshold r = t" "rv_ambiguity_margin r = m"
  using assms by (auto simp: make_resolver_def require_unit_interval_def result_simps split: if_splits)

text \<open>What the resolver may answer.\<close>

lemma field_score_name [simp]: "fc_canonical_field (field_score source i) = fs_canonical_name (ix_spec i)"
  by (simp add: field_score_def Let_def)

lemma ranked_names: "fc_canonical_field ` set (rank_fuzzy_candidates r normalized) = fs_canonical_name ` ix_spec ` set (rv_fields r)"
  by (simp add: rank_fuzzy_candidates_def image_image)

lemma resolve_fuzzy_names_spec:
  assumes "map ix_spec (rv_fields r) = rv_specs r" "fr_canonical_field (resolve_fuzzy r source normalized) = Some c"
  shows "c \<in> fs_canonical_name ` set (rv_specs r)"
proof -
  have "c = fc_canonical_field (rank_fuzzy_candidates r normalized ! 0)" "rank_fuzzy_candidates r normalized \<noteq> []"
    using assms(2) by (auto simp: resolve_fuzzy_def Let_def unresolved_field_def split: if_splits)
  then have "c \<in> fc_canonical_field ` set (rank_fuzzy_candidates r normalized)"
    by (metis imageI length_greater_0_conv nth_mem)
  then show ?thesis unfolding ranked_names using assms(1) by (metis list.set_map)
qed

lemma resolve_field_cases:
  fixes source
  assumes "make_resolver u specs t m = Inr r"
  shows "fr_source_field (resolve_field r source) = source"
    and "fr_normalized_source_field (resolve_field r source) = normalize_field_name u source"
    and "fr_canonical_field (resolve_field r source) = Some c \<longleftrightarrow>
      fr_status (resolve_field r source) = RESOLVED \<and> fr_canonical_field (resolve_field r source) = Some c"
    and "fr_canonical_field (resolve_field r source) = Some c \<Longrightarrow> c \<in> fs_canonical_name ` set specs"
proof -
  note r = make_resolver_Inr [OF assms]
  note b = build_mapping_index_Inr [OF r(1)]
  show "fr_source_field (resolve_field r source) = source"
    "fr_normalized_source_field (resolve_field r source) = normalize_field_name u source"
    "fr_canonical_field (resolve_field r source) = Some c \<longleftrightarrow>
      fr_status (resolve_field r source) = RESOLVED \<and> fr_canonical_field (resolve_field r source) = Some c"
    using r(2) by (auto simp: resolve_field_def resolve_fuzzy_def unresolved_field_def Let_def split: option.splits)
  assume c: "fr_canonical_field (resolve_field r source) = Some c"
  show "c \<in> fs_canonical_name ` set specs"
  proof (cases "rv_exact_lookup r (normalize_field_name u source)")
    case None
    then have "fr_canonical_field (resolve_fuzzy r source (normalize_field_name u source)) = Some c"
      using c r(2) by (auto simp: resolve_field_def unresolved_field_def Let_def split: if_splits)
    then show ?thesis using resolve_fuzzy_names_spec [of r] b(2) r(3) by simp
  next
    case (Some x)
    then have "fst x = c" using c r(2)
      by (cases x) (auto simp: resolve_field_def unresolved_field_def Let_def split: if_splits)
    then show ?thesis using b(1) Some unfolding sound_index_def by (metis imageI prod.collapse)
  qed
qed

section \<open>Columns\<close>

definition resolved_to :: "string \<Rightarrow> field_resolution \<Rightarrow> bool" where
  "resolved_to c r \<longleftrightarrow> fr_status r = RESOLVED \<and> fr_canonical_field r = Some c"

lemma resolved_pairs_Cons:
  "resolved_pairs (r # rs) =
     (case (fr_status r, fr_canonical_field r) of (RESOLVED, Some c) \<Rightarrow> [(c, fr_source_field r)] | _ \<Rightarrow> []) @ resolved_pairs rs"
  by (simp add: resolved_pairs_def)

lemma sources_of_resolved: "sources_of (resolved_pairs rs) c = map fr_source_field (filter (resolved_to c) rs)"
proof (induction rs)
  case (Cons r rs)
  then show ?case
    by (auto simp: resolved_pairs_Cons sources_of_def resolved_to_def split: resolution_status.splits option.splits)
qed (simp add: sources_of_def resolved_pairs_def)

lemma resolved_keys: "c \<in> fst ` set (resolved_pairs rs) \<longleftrightarrow> (\<exists>r \<in> set rs. resolved_to c r)"
proof (induction rs)
  case (Cons r rs)
  then show ?case
    by (auto simp: resolved_pairs_Cons resolved_to_def split: resolution_status.splits option.splits)
qed (simp add: resolved_pairs_def)

lemma column_step_other: "\<not> resolved_to c (snd ir) \<Longrightarrow> column_step m ir c = m c"
  by (auto simp: column_step_def resolved_to_def split: resolution_status.splits option.splits)

lemma column_step_same: "resolved_to c (snd ir) \<Longrightarrow> column_step m ir c = Some (fst ir)"
  by (auto simp: column_step_def resolved_to_def)

lemma column_steps:
  "foldl column_step m (enumerate k rs) c = Some i \<Longrightarrow>
   (k \<le> i \<and> i < k + length rs \<and> resolved_to c (rs ! (i - k))) \<or> (m c = Some i \<and> (\<forall>r \<in> set rs. \<not> resolved_to c r))"
proof (induction rs arbitrary: m k)
  case (Cons r rs)
  then have "foldl column_step (column_step m (k, r)) (enumerate (Suc k) rs) c = Some i" by simp
  from Cons.IH [OF this] show ?case
  proof
    assume "Suc k \<le> i \<and> i < Suc k + length rs \<and> resolved_to c (rs ! (i - Suc k))"
    then show ?thesis by (auto simp: nth_Cons')
  next
    assume i: "column_step m (k, r) c = Some i \<and> (\<forall>r \<in> set rs. \<not> resolved_to c r)"
    show ?thesis
    proof (cases "resolved_to c r")
      case True
      then show ?thesis using i column_step_same [of c "(k, r)" m] by simp
    next
      case False
      then show ?thesis using i column_step_other [of c "(k, r)" m] by simp
    qed
  qed
qed simp

lemma column_steps_defined:
  "m c \<noteq> None \<or> (\<exists>r \<in> set rs. resolved_to c r) \<Longrightarrow> foldl column_step m (enumerate k rs) c \<noteq> None"
proof (induction rs arbitrary: m k)
  case (Cons r rs)
  have "column_step m (k, r) c \<noteq> None \<or> (\<exists>r \<in> set rs. resolved_to c r)"
    using Cons.prems column_step_same [of c "(k, r)" m] column_step_other [of c "(k, r)" m]
    by (cases "resolved_to c r") auto
  then show ?case using Cons.IH by simp
qed simp

lemma collision_free_unique:
  assumes "field_collisions (resolved_pairs rs) = []" "i < length rs" "j < length rs"
    "resolved_to c (rs ! i)" "resolved_to c (rs ! j)"
  shows "i = j"
proof (rule ccontr)
  assume ij: "i \<noteq> j"
  have "c \<in> set (sort (remdups (map fst (resolved_pairs rs))))"
    using resolved_keys [of c rs] assms(2,4) by auto
  then have "\<not> 1 < length (sources_of (resolved_pairs rs) c)"
    using assms(1) by (auto simp: field_collisions_def filter_empty_conv)
  moreover have "length (filter (resolved_to c) rs) = card {k. k < length rs \<and> resolved_to c (rs ! k)}"
    by (simp add: length_filter_conv_card)
  moreover have "card {i, j} \<le> card {k. k < length rs \<and> resolved_to c (rs ! k)}"
    using assms by (intro card_mono) auto
  ultimately show False using ij by (simp add: sources_of_resolved)
qed

text \<open>The header of a megawatt column does not claim energy or the other power unit.\<close>

definition unit_safe :: "power_unit \<Rightarrow> field_resolution \<Rightarrow> bool" where
  "unit_safe unit r \<longleftrightarrow>
     (let tokens = py_split (fr_normalized_source_field r) in
      \<not> is_energy_like tokens \<and>
      (tokens \<noteq> [] \<longrightarrow> last tokens \<in> set known_power_tokens \<longrightarrow> last tokens = power_token unit) \<and>
      (fr_method r = Some FUZZY \<longrightarrow> tokens \<noteq> [] \<and> last tokens = power_token unit))"

lemma power_token_nonempty [simp]: "power_token unit \<noteq> []" "[] \<noteq> power_token unit"
  by (cases unit; simp)+

lemma unresolved_resolution_status: "fr_status (unresolved_resolution r) = UNRESOLVED"
  by (simp add: unresolved_resolution_def)

lemma unit_policy_safe:
  assumes "resolved_to ''value_mw'' (apply_header_unit_policy (power_token unit) r)"
  shows "unit_safe unit (apply_header_unit_policy (power_token unit) r)"
proof -
  let ?e = "power_token unit" and ?t = "py_split (fr_normalized_source_field r)"
  have "\<not> resolved_to ''value_mw'' (unresolved_resolution r)"
    by (simp add: resolved_to_def unresolved_resolution_def)
  moreover have "apply_header_unit_policy ?e r \<in> {r, unresolved_resolution r}"
    by (simp add: apply_header_unit_policy_def Let_def)
  ultimately have eq: "apply_header_unit_policy ?e r = r" using assms by auto
  then have kept: "fr_status r = RESOLVED" "fr_canonical_field r = Some ''value_mw''"
    using assms by (simp_all add: resolved_to_def)
  have differs: "unresolved_resolution r \<noteq> r"
    using kept(1) unresolved_resolution_status [of r] by auto
  have policy: "\<not> is_energy_like ?t \<and> (?t \<noteq> [] \<longrightarrow> last ?t \<in> set known_power_tokens \<longrightarrow> last ?t = ?e) \<and>
      (fr_method r = Some FUZZY \<longrightarrow> ?t \<noteq> [] \<and> last ?t = ?e)"
  proof (cases "fr_method r = Some FUZZY")
    case True
    then have "\<not> ((if ?t \<noteq> [] then last ?t else []) \<noteq> ?e \<or> is_energy_like ?t)"
      using eq kept differs by (simp add: apply_header_unit_policy_def Let_def split: if_splits)
    then show ?thesis by (auto split: if_splits)
  next
    case False
    then have "\<not> header_claims_conflicting_unit ?t ?e"
      using eq kept differs by (simp add: apply_header_unit_policy_def Let_def split: if_splits)
    then show ?thesis using False
      by (cases "?t = []") (auto simp: header_claims_conflicting_unit_def is_energy_like_def split: if_splits)
  qed
  then show ?thesis unfolding eq unit_safe_def Let_def .
qed

lemma unit_policy_other:
  "c \<noteq> ''value_mw'' \<Longrightarrow> resolved_to c (apply_header_unit_policy e r) \<longleftrightarrow> resolved_to c r"
  by (auto simp: apply_header_unit_policy_def Let_def resolved_to_def unresolved_resolution_def)

lemma unit_policy_resolved: "resolved_to c (apply_header_unit_policy e r) \<Longrightarrow> resolved_to c r"
  by (auto simp: apply_header_unit_policy_def Let_def resolved_to_def unresolved_resolution_def split: if_splits)

lemma accepted_header_columns:
  assumes "make_resolver u specs t m = Inr r" and "validated_consumption_field_specs specs = Inr specs'"
    and "schema = apply_consumption_unit_safety (resolve_schema r header) unit"
    and "sch_missing_required_fields schema = []" and "sch_collisions schema = []"
  shows "dom (canonical_column_index schema) = set required_canonical_order \<and>
    (\<forall>c i. canonical_column_index schema c = Some i \<longleftrightarrow>
       i < length header \<and> resolved_to c (sch_field_resolutions schema ! i)) \<and>
    (\<forall>i. canonical_column_index schema ''value_mw'' = Some i \<longrightarrow> unit_safe unit (sch_field_resolutions schema ! i))"
proof -
  let ?e = "power_token unit"
  let ?rs = "sch_field_resolutions schema"
  have rs: "?rs = map (apply_header_unit_policy ?e) (map (resolve_field r) header)"
    and coll: "field_collisions (resolved_pairs ?rs) = []"
    and miss: "filter (\<lambda>n. n \<notin> fst ` set (resolved_pairs ?rs)) required_canonical_order = []"
    using assms(3-5) by (simp_all add: apply_consumption_unit_safety_def resolve_schema_def Let_def)
  have len: "length ?rs = length header" by (simp add: rs)
  have names: "fs_canonical_name ` set specs = set required_canonical_order"
    using assms(2) by (auto simp: validated_consumption_field_specs_def Let_def split: if_splits)
  have iff: "canonical_column_index schema c = Some i \<longleftrightarrow> i < length header \<and> resolved_to c (?rs ! i)" for c i
  proof
    assume "canonical_column_index schema c = Some i"
    then show "i < length header \<and> resolved_to c (?rs ! i)"
      using column_steps [of Map.empty 0 ?rs c i] by (simp add: canonical_column_index_def len)
  next
    assume i: "i < length header \<and> resolved_to c (?rs ! i)"
    then have "\<exists>x \<in> set ?rs. resolved_to c x" by (metis len nth_mem)
    then obtain j where j: "canonical_column_index schema c = Some j"
      using column_steps_defined [of Map.empty c ?rs 0] by (auto simp: canonical_column_index_def)
    then have "j < length ?rs \<and> resolved_to c (?rs ! j)"
      using column_steps [of Map.empty 0 ?rs c j] by (simp add: canonical_column_index_def)
    then show "canonical_column_index schema c = Some i"
      using collision_free_unique [OF coll, of i j c] i j by (simp add: len)
  qed
  have dom: "dom (canonical_column_index schema) = set required_canonical_order"
  proof (intro equalityI subsetI)
    fix c assume "c \<in> dom (canonical_column_index schema)"
    then obtain i where "i < length header" "resolved_to c (?rs ! i)" using iff by auto
    then have "fr_canonical_field (resolve_field r (header ! i)) = Some c"
      using unit_policy_resolved [of c ?e "resolve_field r (header ! i)"] by (simp add: rs resolved_to_def)
    then show "c \<in> set required_canonical_order" using resolve_field_cases(4) [OF assms(1)] names by blast
  next
    fix c assume "c \<in> set required_canonical_order"
    then have "\<exists>x \<in> set ?rs. resolved_to c x"
      using miss resolved_keys [of c ?rs] by (auto simp: filter_empty_conv)
    then show "c \<in> dom (canonical_column_index schema)"
      using column_steps_defined [of Map.empty c ?rs 0] by (auto simp: canonical_column_index_def)
  qed
  have "unit_safe unit (?rs ! i)" if "canonical_column_index schema ''value_mw'' = Some i" for i
  proof -
    have "?rs ! i = apply_header_unit_policy ?e (resolve_field r (header ! i))" using that iff by (simp add: rs)
    then show ?thesis using that iff unit_policy_safe by metis
  qed
  then show ?thesis using iff dom by blast
qed

section \<open>Properties\<close>

text \<open>A resolver that was built resolves every source field whose normal form is
  that of a canonical name or alias, by exact lookup, with confidence one, to the specification it
  belongs to, before any fuzzy comparison; whatever it resolves names one of its specifications, and no
  normal form belongs to names of two canonical fields.\<close>

theorem known_names_resolve_exactly:
  assumes "make_resolver u specs t m = Inr r"
  shows "(\<forall>spec \<in> set specs. \<forall>n \<in> set (names_of spec). \<forall>source.
        normalize_field_name u source = normalize_field_name u n \<longrightarrow>
          fr_status (resolve_field r source) = RESOLVED \<and> fr_method (resolve_field r source) = Some EXACT \<and>
          fr_canonical_field (resolve_field r source) = Some (fs_canonical_name spec) \<and>
          fr_confidence (resolve_field r source) = float_one) \<and>
    (\<forall>source c. fr_canonical_field (resolve_field r source) = Some c \<longrightarrow>
        fr_status (resolve_field r source) = RESOLVED \<and> c \<in> fs_canonical_name ` set specs) \<and>
    (\<forall>spec \<in> set specs. \<forall>spec' \<in> set specs. \<forall>n \<in> set (names_of spec). \<forall>n' \<in> set (names_of spec').
        normalize_field_name u n = normalize_field_name u n' \<longrightarrow> fs_canonical_name spec = fs_canonical_name spec')"
proof (intro conjI ballI allI impI)
  note r = make_resolver_Inr [OF assms]
  note known = build_mapping_index_Inr(3) [OF r(1)]
  fix spec n source
  assume spec: "spec \<in> set specs" "n \<in> set (names_of spec)"
    and same: "normalize_field_name u source = normalize_field_name u n"
  obtain o' where "rv_exact_lookup r (normalize_field_name u source) = Some (fs_canonical_name spec, o')"
    "normalize_field_name u source \<noteq> []"
    using known [OF spec] unfolding indexes_def same by blast
  then show "fr_status (resolve_field r source) = RESOLVED" "fr_method (resolve_field r source) = Some EXACT"
    "fr_canonical_field (resolve_field r source) = Some (fs_canonical_name spec)"
    "fr_confidence (resolve_field r source) = float_one"
    using r(2) by (simp_all add: resolve_field_def)
next
  fix source c assume "fr_canonical_field (resolve_field r source) = Some c"
  then show "fr_status (resolve_field r source) = RESOLVED" "c \<in> fs_canonical_name ` set specs"
    using resolve_field_cases(3,4) [OF assms, of source c] by simp_all
next
  note known = build_mapping_index_Inr(3) [OF make_resolver_Inr(1) [OF assms]]
  fix spec spec' n n'
  assume "spec \<in> set specs" "spec' \<in> set specs" "n \<in> set (names_of spec)" "n' \<in> set (names_of spec')"
    "normalize_field_name u n = normalize_field_name u n'"
  then show "fs_canonical_name spec = fs_canonical_name spec'"
    using known [of spec n] known [of spec' n'] by (auto simp: indexes_def)
qed

text \<open>C24: ACCEPTED-HEADER. When the unit policy leaves a resolved header without missing fields and
  without collisions, every canonical field has one column of the header, the column index gives it,
  and the header of the value column neither claims energy nor another power unit; a fuzzy match is
  accepted only for a header that ends in the configured unit.\<close>

theorem accepted_header_maps_columns:
  assumes "make_resolver u specs t m = Inr r" and "validated_consumption_field_specs specs = Inr specs'"
    and "schema = apply_consumption_unit_safety (resolve_schema r header) unit"
    and "sch_missing_required_fields schema = []" and "sch_collisions schema = []"
  shows "dom (canonical_column_index schema) = set required_canonical_order \<and>
    (\<forall>c i. canonical_column_index schema c = Some i \<longleftrightarrow>
       i < length header \<and> resolved_to c (sch_field_resolutions schema ! i)) \<and>
    (\<forall>i. canonical_column_index schema ''value_mw'' = Some i \<longrightarrow> unit_safe unit (sch_field_resolutions schema ! i))"
  using assms by (rule accepted_header_columns)

subsection \<open>A header in ASCII\<close>

definition ascii_text :: unicode_text where
  "ascii_text = \<lparr>ut_nfkc = id, ut_casefold = map lower_char,
     ut_letter_number_mark = (\<lambda>c. let n = (of_char c :: nat) in (48 \<le> n \<and> n \<le> 57) \<or> (97 \<le> n \<and> n \<le> 122))\<rparr>"

lemma lower_char_same: "\<not> (65 \<le> (of_char c :: nat) \<and> (of_char c :: nat) \<le> 90) \<Longrightarrow> lower_char c = c"
  by (auto simp: lower_char_def Let_def)

lemma lower_chars: "lower_char CHR ''C'' = CHR ''c''" "lower_char CHR ''M'' = CHR ''m''" "lower_char CHR ''W'' = CHR ''w''"
  by code_simp+

lemmas header_eval =
  normalize_field_name_def ascii_text_def py_strip_def py_isspace_def lower_char_same lower_chars py_split.simps Let_def

lemma sample_names:
  "normalize_field_name ascii_text ''consumer_id'' = ''consumer id''"
  "normalize_field_name ascii_text ''timestamp'' = ''timestamp''"
  "normalize_field_name ascii_text ''value_mw'' = ''value mw''"
  "normalize_field_name ascii_text ''Consumption_MW'' = ''consumption mw''"
     apply (simp add: header_eval)
    apply (simp add: header_eval)
   apply (simp add: header_eval)
  apply (simp add: header_eval)
  done

lemma default_thresholds:
  "default_fuzzy_threshold = Fl False 7656119366529843 (- 53)"
  "default_ambiguity_margin = Fl False 7205759403792794 (- 57)"
  by (simp_all add: default_fuzzy_threshold_def default_ambiguity_margin_def float_text_eval)

lemma default_thresholds_accepted:
  "require_unit_interval n default_fuzzy_threshold = Inr default_fuzzy_threshold"
  "require_unit_interval n default_ambiguity_margin = Inr default_ambiguity_margin"
  by (simp_all add: require_unit_interval_def default_thresholds float_lt_def float_aligned_def float_zero_def
      float_one_def)

definition sample_exact_lookup :: exact_index where
  "sample_exact_lookup = [''consumer id'' \<mapsto> (''consumer_id'', ''consumer_id''), ''timestamp'' \<mapsto> (''timestamp'', ''timestamp''),
     ''value mw'' \<mapsto> (''value_mw'', ''value_mw''), ''consumption mw'' \<mapsto> (''value_mw'', ''Consumption_MW'')]"

lemma sample_resolver:
  obtains r where "make_resolver ascii_text (default_consumption_field_specs MW) default_fuzzy_threshold
      default_ambiguity_margin = Inr r"
    "rv_unicode r = ascii_text" "rv_exact_lookup r = sample_exact_lookup"
proof -
  note default_thresholds_accepted
  moreover obtain ixs where "build_mapping_index ascii_text (default_consumption_field_specs MW) =
      Inr (ixs, sample_exact_lookup)"
    by (simp add: build_mapping_index_def default_consumption_field_specs_def sample_names register_exact_def
        sample_exact_lookup_def Let_def)
  ultimately show ?thesis using that by (simp add: make_resolver_def)
qed

text \<open>A header of the three required columns in ASCII, the value column under its alias.\<close>

definition sample_header :: "string list" where
  "sample_header = [''consumer_id'', ''timestamp'', ''Consumption_MW'']"

lemma sample_header_resolved:
  assumes "rv_unicode r = ascii_text" "rv_exact_lookup r = sample_exact_lookup"
  shows "map (resolve_field r) sample_header =
    [\<lparr>fr_source_field = ''consumer_id'', fr_normalized_source_field = ''consumer id'', fr_status = RESOLVED,
      fr_canonical_field = Some ''consumer_id'', fr_method = Some EXACT, fr_confidence = float_one,
      fr_candidates = [\<lparr>fc_canonical_field = ''consumer_id'', fc_confidence = float_one,
        fc_matched_representation = ''consumer_id''\<rparr>]\<rparr>,
     \<lparr>fr_source_field = ''timestamp'', fr_normalized_source_field = ''timestamp'', fr_status = RESOLVED,
      fr_canonical_field = Some ''timestamp'', fr_method = Some EXACT, fr_confidence = float_one,
      fr_candidates = [\<lparr>fc_canonical_field = ''timestamp'', fc_confidence = float_one,
        fc_matched_representation = ''timestamp''\<rparr>]\<rparr>,
     \<lparr>fr_source_field = ''Consumption_MW'', fr_normalized_source_field = ''consumption mw'', fr_status = RESOLVED,
      fr_canonical_field = Some ''value_mw'', fr_method = Some EXACT, fr_confidence = float_one,
      fr_candidates = [\<lparr>fc_canonical_field = ''value_mw'', fc_confidence = float_one,
        fc_matched_representation = ''Consumption_MW''\<rparr>]\<rparr>]"
  using assms by (simp add: sample_header_def resolve_field_def sample_names sample_exact_lookup_def Let_def)

lemma sample_header_columns:
  assumes "rv_unicode r = ascii_text" "rv_exact_lookup r = sample_exact_lookup"
    and "rv_specs r = default_consumption_field_specs MW"
  shows "apply_consumption_unit_safety (resolve_schema r sample_header) MW =
      \<lparr>sch_field_resolutions = map (resolve_field r) sample_header, sch_missing_required_fields = [], sch_collisions = []\<rparr>"
proof -
  have tokens: "py_split ''consumption mw'' = [''consumption'', ''mw'']" by (simp add: header_eval)
  have policy: "map (apply_header_unit_policy ''mw'') (map (resolve_field r) sample_header) = map (resolve_field r) sample_header"
    unfolding sample_header_resolved [OF assms(1,2)]
    by (simp add: apply_header_unit_policy_def tokens header_claims_conflicting_unit_def is_energy_like_def
        energy_last_tokens_def known_power_tokens_def)
  have pairs: "resolved_pairs (map (resolve_field r) sample_header) =
      [(''consumer_id'', ''consumer_id''), (''timestamp'', ''timestamp''), (''value_mw'', ''Consumption_MW'')]"
    unfolding sample_header_resolved [OF assms(1,2)] by (simp add: resolved_pairs_def)
  have coll: "field_collisions [(''consumer_id'', ''consumer_id''), (''timestamp'', ''timestamp''), (''value_mw'', ''Consumption_MW'')] = []"
    by (simp add: field_collisions_def filter_empty_conv sources_of_def)
  show ?thesis
    by (simp add: apply_consumption_unit_safety_def resolve_schema_def Let_def policy pairs coll
        required_canonical_order_def del: map_map list.map)
qed

lemma known_names_resolve_exactly_witness:
  "\<exists>r. make_resolver ascii_text (default_consumption_field_specs MW) default_fuzzy_threshold default_ambiguity_margin = Inr r \<and>
     fr_canonical_field (resolve_field r ''timestamp'') = Some ''timestamp''"
proof -
  obtain r where r: "make_resolver ascii_text (default_consumption_field_specs MW) default_fuzzy_threshold
      default_ambiguity_margin = Inr r" using sample_resolver by metis
  have "\<lparr>fs_canonical_name = ''timestamp'', fs_aliases = [], fs_required = True\<rparr> \<in> set (default_consumption_field_specs MW)"
    by (simp add: default_consumption_field_specs_def)
  from conjunct1 [OF known_names_resolve_exactly [OF r], rule_format, OF this, of "''timestamp''" "''timestamp''"]
  show ?thesis using r by (simp add: names_of_def)
qed

lemma accepted_header_maps_columns_witness:
  "\<exists>r. make_resolver ascii_text (default_consumption_field_specs MW) default_fuzzy_threshold default_ambiguity_margin = Inr r \<and>
     dom (canonical_column_index (apply_consumption_unit_safety (resolve_schema r sample_header) MW)) =
       {''consumer_id'', ''timestamp'', ''value_mw''}"
proof -
  obtain r where r: "make_resolver ascii_text (default_consumption_field_specs MW) default_fuzzy_threshold
      default_ambiguity_margin = Inr r" "rv_unicode r = ascii_text" "rv_exact_lookup r = sample_exact_lookup"
    by (rule sample_resolver)
  have v: "validated_consumption_field_specs (default_consumption_field_specs MW) = Inr (default_consumption_field_specs MW)"
    by (simp add: validated_consumption_field_specs_def default_consumption_field_specs_def required_canonical_order_def)
  note cols = sample_header_columns [OF r(2,3) make_resolver_Inr(3) [OF r(1)]]
  show ?thesis
    using accepted_header_maps_columns [OF r(1) v refl, of sample_header MW] r(1)
    by (simp add: cols required_canonical_order_def)
qed

end
