(* ===== verification/Time_Series.thy ===== *)
theory Time_Series
  imports Source_Values Domain_Models Json_Text "HOL-Library.List_Lexorder" "HOL-Library.Char_ord"
begin

text \<open>
  Time-series validation of consumption candidates
  (infrastructure/adapters/structured/time\_series): the interval grid, duplicate and misaligned
  timestamps, and the gaps of each consumer's series. Instants and intervals are microseconds.
\<close>

section \<open>Interval grid (IntervalGrid)\<close>

record interval_grid =
  ig_interval :: int
  ig_anchor :: utc

definition require_positive_interval :: "int \<Rightarrow> int result" where
  "require_positive_interval value =
     (if value \<le> 0 then Inl (NormalizationConfigurationError ''interval must be a positive timedelta'')
      else Inr value)"

definition require_aware_anchor :: "py_datetime \<Rightarrow> utc result" where
  "require_aware_anchor value =
     (case value of
        Naive _ \<Rightarrow> Inl (NormalizationConfigurationError ''anchor must be a timezone-aware datetime'')
      | Aware wall offset \<Rightarrow> astimezone_utc wall offset)"

definition make_interval_grid :: "int \<Rightarrow> py_datetime \<Rightarrow> interval_grid result" where
  "make_interval_grid interval anchor =
     attempt (require_positive_interval interval) (\<lambda>i.
     attempt (require_aware_anchor anchor) (\<lambda>a.
       Inr \<lparr>ig_interval = i, ig_anchor = a\<rparr>))"

definition is_aligned :: "interval_grid \<Rightarrow> utc \<Rightarrow> bool" where
  "is_aligned g timestamp \<longleftrightarrow> (timestamp - ig_anchor g) mod ig_interval g = 0"

definition step_count_between :: "interval_grid \<Rightarrow> utc \<Rightarrow> utc \<Rightarrow> int" where
  "step_count_between g earlier later = (later - earlier) div ig_interval g"

definition grid_offset :: "interval_grid \<Rightarrow> utc \<Rightarrow> int \<Rightarrow> utc result" where
  "grid_offset g timestamp steps = datetime_minus timestamp (- (ig_interval g * steps))"

section \<open>Candidates, issues and gaps\<close>

record candidate =
  cand_record :: consumption_record
  cand_source_position :: nat

datatype issue_code = DUPLICATE_TIMESTAMP | INTERVAL_MISALIGNED

fun issue_code_text :: "issue_code \<Rightarrow> string" where
  "issue_code_text DUPLICATE_TIMESTAMP = ''consumption_duplicate_timestamp''"
| "issue_code_text INTERVAL_MISALIGNED = ''consumption_interval_misaligned''"

record series_issue =
  si_source_position :: nat
  si_code :: issue_code
  si_field_name :: string
  si_message :: string

definition make_series_issue :: "nat \<Rightarrow> issue_code \<Rightarrow> string \<Rightarrow> string \<Rightarrow> series_issue result" where
  "make_series_issue position code field_name msg =
     attempt (require_non_empty ''field_name'' field_name) (\<lambda>f.
     attempt (require_non_empty ''message'' msg) (\<lambda>m.
       Inr \<lparr>si_source_position = position, si_code = code, si_field_name = f, si_message = m\<rparr>))"

definition duplicate_timestamp_issue :: "nat \<Rightarrow> series_issue result" where
  "duplicate_timestamp_issue position =
     make_series_issue position DUPLICATE_TIMESTAMP ''timestamp''
       ''Consumption source contains a duplicate canonical timestamp.''"

definition interval_misaligned_issue :: "nat \<Rightarrow> series_issue result" where
  "interval_misaligned_issue position =
     make_series_issue position INTERVAL_MISALIGNED ''timestamp''
       ''Consumption timestamp is not aligned to the configured interval grid.''"

record consumption_gap =
  gap_consumer_id :: string
  gap_first_missing :: utc
  gap_last_missing :: utc
  gap_missing_count :: int

definition require_positive_count :: "int \<Rightarrow> int result" where
  "require_positive_count value =
     (if value < 1 then Inl (ValueError ''missing_count must be a positive int'') else Inr value)"

definition make_consumption_gap :: "string \<Rightarrow> utc \<Rightarrow> utc \<Rightarrow> int \<Rightarrow> consumption_gap result" where
  "make_consumption_gap consumer first_missing last_missing missing_count =
     attempt (require_non_empty ''consumer_id'' consumer) (\<lambda>c.
     attempt (require_positive_count missing_count) (\<lambda>n.
       if last_missing < first_missing
       then Inl (ValueError ''first_missing_timestamp must not be after last_missing_timestamp'')
       else if n = 1 \<and> first_missing \<noteq> last_missing
       then Inl (ValueError ''single-interval gaps must have identical first and last timestamps'')
       else Inr \<lparr>gap_consumer_id = c, gap_first_missing = first_missing, gap_last_missing = last_missing,
                 gap_missing_count = n\<rparr>))"

definition gap_diagnostic_message :: "consumption_gap \<Rightarrow> string" where
  "gap_diagnostic_message g =
     ''Consumption series is missing '' @ json_int (gap_missing_count g) @ '' ''
       @ (if gap_missing_count g = 1 then ''interval'' else ''intervals'') @ '' on the configured grid.''"

record series_result =
  sv_valid :: "candidate list"
  sv_issues :: "series_issue list"
  sv_gaps :: "consumption_gap list"

section \<open>Validation (time\_series/consumption.py)\<close>

text \<open>The observation key; a dictionary of groups is the list of keys, a group the positions of its key.\<close>

definition observation_key :: "candidate \<Rightarrow> string \<times> utc" where
  "observation_key c = (cr_consumer_id (cand_record c), cr_timestamp (cand_record c))"

definition is_duplicate :: "candidate list \<Rightarrow> candidate \<Rightarrow> bool" where
  "is_duplicate candidates c \<longleftrightarrow> 1 < length (filter (\<lambda>d. observation_key d = observation_key c) candidates)"

fun classify_candidates ::
    "candidate list \<Rightarrow> interval_grid option \<Rightarrow> candidate list \<Rightarrow> (candidate list \<times> series_issue list) result" where
  "classify_candidates all_candidates grid [] = Inr ([], [])"
| "classify_candidates all_candidates grid (c # cs) =
     (if is_duplicate all_candidates c
      then attempt (duplicate_timestamp_issue (cand_source_position c)) (\<lambda>i.
           attempt (classify_candidates all_candidates grid cs) (\<lambda>(valid, issues). Inr (valid, i # issues)))
      else if (case grid of None \<Rightarrow> False | Some g \<Rightarrow> \<not> is_aligned g (cr_timestamp (cand_record c)))
      then attempt (interval_misaligned_issue (cand_source_position c)) (\<lambda>i.
           attempt (classify_candidates all_candidates grid cs) (\<lambda>(valid, issues). Inr (valid, i # issues)))
      else attempt (classify_candidates all_candidates grid cs) (\<lambda>(valid, issues). Inr (c # valid, issues)))"

definition gap_between ::
    "string \<Rightarrow> utc \<Rightarrow> utc \<Rightarrow> interval_grid \<Rightarrow> consumption_gap option result" where
  "gap_between consumer previous current g =
     (let step_count = step_count_between g previous current in
      if step_count \<le> 1 then Inr None
      else attempt (grid_offset g previous 1) (\<lambda>first_missing.
           attempt (grid_offset g current (- 1)) (\<lambda>last_missing.
           attempt (make_consumption_gap consumer first_missing last_missing (step_count - 1)) (\<lambda>gap.
             Inr (Some gap)))))"

fun series_gaps :: "string \<Rightarrow> interval_grid \<Rightarrow> utc list \<Rightarrow> consumption_gap list result" where
  "series_gaps consumer g (previous # current # rest) =
     attempt (gap_between consumer previous current g) (\<lambda>gap.
     attempt (series_gaps consumer g (current # rest)) (\<lambda>gaps.
       Inr (case gap of None \<Rightarrow> gaps | Some x \<Rightarrow> x # gaps)))"
| "series_gaps consumer g _ = Inr []"

definition consumer_timestamps :: "candidate list \<Rightarrow> string \<Rightarrow> utc list" where
  "consumer_timestamps candidates consumer =
     map (\<lambda>c. cr_timestamp (cand_record c))
       (filter (\<lambda>c. cr_consumer_id (cand_record c) = consumer) candidates)"

definition detect_gaps :: "candidate list \<Rightarrow> interval_grid option \<Rightarrow> consumption_gap list result" where
  "detect_gaps candidates grid =
     (case grid of
        None \<Rightarrow> Inr []
      | Some g \<Rightarrow>
          attempt (map_result (\<lambda>consumer. series_gaps consumer g (sort (consumer_timestamps candidates consumer)))
                     (sort (remdups (map (\<lambda>c. cr_consumer_id (cand_record c)) candidates))))
            (\<lambda>gaps. Inr (concat gaps)))"

definition validate_consumption_series ::
    "candidate list \<Rightarrow> interval_grid option \<Rightarrow> series_result result" where
  "validate_consumption_series candidates grid =
     attempt (classify_candidates candidates grid candidates) (\<lambda>(surviving, issues).
     attempt (detect_gaps surviving grid) (\<lambda>gaps.
       Inr \<lparr>sv_valid = surviving, sv_issues = issues, sv_gaps = gaps\<rparr>))"

section \<open>Classification\<close>

definition acceptable :: "candidate list \<Rightarrow> interval_grid option \<Rightarrow> candidate \<Rightarrow> bool" where
  "acceptable candidates grid c \<longleftrightarrow> \<not> is_duplicate candidates c \<and>
     (case grid of None \<Rightarrow> True | Some g \<Rightarrow> is_aligned g (cr_timestamp (cand_record c)))"

definition issue_of :: "candidate list \<Rightarrow> candidate \<Rightarrow> series_issue" where
  "issue_of candidates c =
     \<lparr>si_source_position = cand_source_position c,
      si_code = (if is_duplicate candidates c then DUPLICATE_TIMESTAMP else INTERVAL_MISALIGNED),
      si_field_name = ''timestamp'',
      si_message = (if is_duplicate candidates c
        then ''Consumption source contains a duplicate canonical timestamp.''
        else ''Consumption timestamp is not aligned to the configured interval grid.'')\<rparr>"

lemma issue_texts_visible:
  "visible_ends ''timestamp''"
  "visible_ends ''Consumption source contains a duplicate canonical timestamp.''"
  "visible_ends ''Consumption timestamp is not aligned to the configured interval grid.''"
  by (simp_all add: visible_ends_def py_isspace_def)

lemma classify_candidates_spec:
  "classify_candidates all_candidates grid cs =
     Inr (filter (acceptable all_candidates grid) cs,
          map (issue_of all_candidates) (filter (\<lambda>c. \<not> acceptable all_candidates grid c) cs))"
  by (induction cs)
     (auto simp: acceptable_def issue_of_def duplicate_timestamp_issue_def interval_misaligned_issue_def
       make_series_issue_def require_non_empty_visible issue_texts_visible split: option.splits)

section \<open>Gaps\<close>

definition valid_grid :: "interval_grid \<Rightarrow> bool" where
  "valid_grid g \<longleftrightarrow> 0 < ig_interval g"

lemma make_interval_grid_valid: "make_interval_grid i a = Inr g \<Longrightarrow> valid_grid g"
  by (auto simp: make_interval_grid_def require_positive_interval_def valid_grid_def result_simps split: if_splits)

text \<open>The instants a gap stands for.\<close>

definition gap_instants :: "interval_grid \<Rightarrow> consumption_gap \<Rightarrow> utc set" where
  "gap_instants g gap = {gap_first_missing gap + k * ig_interval g | k. 0 \<le> k \<and> k < gap_missing_count gap}"

text \<open>The instants of the grid that lie between two observed ones and are not observed.\<close>

definition missing_instants :: "interval_grid \<Rightarrow> utc set \<Rightarrow> utc set" where
  "missing_instants g ts =
     {t. is_aligned g t \<and> (\<exists>a \<in> ts. a < t) \<and> (\<exists>b \<in> ts. t < b) \<and> t \<notin> ts}"

definition gap_closed_by :: "interval_grid \<Rightarrow> utc set \<Rightarrow> consumption_gap \<Rightarrow> bool" where
  "gap_closed_by g ts gap \<longleftrightarrow>
     gap_first_missing gap - ig_interval g \<in> ts \<and> gap_last_missing gap + ig_interval g \<in> ts \<and>
     gap_last_missing gap = gap_first_missing gap + (gap_missing_count gap - 1) * ig_interval g \<and>
     0 < gap_missing_count gap"

lemma aligned_difference:
  "is_aligned g a \<Longrightarrow> is_aligned g b \<longleftrightarrow> ig_interval g dvd b - a"
proof -
  assume "is_aligned g a"
  then have a: "ig_interval g dvd a - ig_anchor g" by (simp add: is_aligned_def dvd_eq_mod_eq_0)
  have "b - ig_anchor g = (b - a) + (a - ig_anchor g)" by simp
  then show ?thesis using a unfolding is_aligned_def
    by (metis dvd_add_left_iff dvd_eq_mod_eq_0)
qed

lemma card_gap_instants:
  assumes "valid_grid g" "0 \<le> gap_missing_count gap"
  shows "int (card (gap_instants g gap)) = gap_missing_count gap"
proof -
  have "gap_instants g gap = (\<lambda>k. gap_first_missing gap + k * ig_interval g) ` {0..<gap_missing_count gap}"
    by (auto simp: gap_instants_def)
  moreover have "inj_on (\<lambda>k. gap_first_missing gap + k * ig_interval g) {0..<gap_missing_count gap}"
    using assms(1) by (auto simp: inj_on_def valid_grid_def)
  ultimately show ?thesis using assms(2) by (simp add: card_image)
qed

lemma gap_between_spec:
  assumes "valid_grid g" "visible_ends consumer" "p < q" "ig_interval g dvd q - p" "valid_utc p" "valid_utc q"
  obtains "gap_between consumer p q g = Inr None" "{t. p < t \<and> t < q \<and> ig_interval g dvd t - p} = {}"
  | gap where "gap_between consumer p q g = Inr (Some gap)" "gap_consumer_id gap = consumer"
      "gap_instants g gap = {t. p < t \<and> t < q \<and> ig_interval g dvd t - p}" "gap_closed_by g {p, q} gap"
proof -
  let ?d = "ig_interval g"
  have d: "0 < ?d" using assms(1) by (simp add: valid_grid_def)
  obtain n where n: "q - p = ?d * n" using assms(4) by (elim dvdE)
  have n0: "0 < n" using n assms(3) d by (metis diff_gt_0_iff_gt zero_less_mult_pos)
  have steps: "step_count_between g p q = n" using d by (simp add: step_count_between_def n)
  have inside: "{t. p < t \<and> t < q \<and> ?d dvd t - p} = {p + ?d * k | k. 0 < k \<and> k < n}"
  proof (intro equalityI subsetI)
    fix t assume t: "t \<in> {t. p < t \<and> t < q \<and> ?d dvd t - p}"
    then obtain k where k: "t - p = ?d * k" by auto
    have "0 < ?d * k" "?d * k < ?d * n" using t k n by auto
    then have "0 < k" "k < n" using d by (auto simp: zero_less_mult_iff mult_less_cancel_left_pos)
    then show "t \<in> {p + ?d * k | k. 0 < k \<and> k < n}" using k by (auto intro!: exI [of _ k])
  next
    fix t assume "t \<in> {p + ?d * k | k. 0 < k \<and> k < n}"
    then obtain k where k: "t = p + ?d * k" "0 < k" "k < n" by blast
    have "?d * k < ?d * n" "0 < ?d * k" using k(2,3) d by (simp_all only: mult_strict_left_mono mult_pos_pos)
    then have "p < p + ?d * k" "p + ?d * k < q" using n by linarith+
    then show "t \<in> {t. p < t \<and> t < q \<and> ?d dvd t - p}" by (simp add: k(1))
  qed
  show ?thesis
  proof (cases "n \<le> 1")
    case True
    then have "gap_between consumer p q g = Inr None" by (simp add: gap_between_def steps)
    moreover have "{p + ?d * k | k. 0 < k \<and> k < n} = {}" using True by auto
    ultimately show ?thesis using that(1) inside by simp
  next
    case False
    let ?gap = "\<lparr>gap_consumer_id = consumer, gap_first_missing = p + ?d, gap_last_missing = q - ?d,
        gap_missing_count = n - 1\<rparr>"
    have q: "q = p + ?d * n" using n by simp
    have mono: "?d * 2 \<le> ?d * n" "?d \<le> ?d * n" using False d by simp_all
    have bounds: "0 \<le> p" "q \<le> datetime_max" using assms(5,6) by (simp_all add: valid_utc_def)
    have mid: "p + ?d \<le> q - ?d" using mono(1) q by linarith
    have "grid_offset g p 1 = Inr (p + ?d)" "grid_offset g q (- 1) = Inr (q - ?d)"
      using d mid bounds by (simp_all add: grid_offset_def datetime_minus_def)
    moreover have "make_consumption_gap consumer (p + ?d) (q - ?d) (n - 1) = Inr ?gap"
      using False mid q require_non_empty_visible [OF assms(2)]
      by (auto simp: make_consumption_gap_def require_positive_count_def)
    ultimately have "gap_between consumer p q g = Inr (Some ?gap)"
      using False by (simp add: gap_between_def steps)
    moreover have "gap_instants g ?gap = {p + ?d * k | k. 0 < k \<and> k < n}"
    proof (intro equalityI subsetI)
      fix t assume "t \<in> gap_instants g ?gap"
      then obtain k where "t = p + ?d + k * ?d" "0 \<le> k" "k < n - 1" by (auto simp: gap_instants_def)
      then show "t \<in> {p + ?d * k | k. 0 < k \<and> k < n}" by (auto intro!: exI [of _ "k + 1"] simp: algebra_simps)
    next
      fix t assume "t \<in> {p + ?d * k | k. 0 < k \<and> k < n}"
      then obtain k where "t = p + ?d * k" "0 < k" "k < n" by blast
      then show "t \<in> gap_instants g ?gap"
        by (auto simp: gap_instants_def algebra_simps intro!: exI [of _ "k - 1"])
    qed
    moreover have "gap_closed_by g {p, q} ?gap"
      using False q by (simp add: gap_closed_by_def algebra_simps)
    ultimately show ?thesis using that(2) [of ?gap] inside by simp
  qed
qed

lemma missing_instants_step:
  assumes "is_aligned g p" "p < q" "\<forall>t \<in> ts. q \<le> t"
  shows "missing_instants g (insert p (insert q ts)) =
    {t. p < t \<and> t < q \<and> ig_interval g dvd t - p} \<union> missing_instants g (insert q ts)"
proof (intro equalityI subsetI)
  fix t assume t: "t \<in> missing_instants g (insert p (insert q ts))"
  have "p < t" using t assms(2,3) by (fastforce simp: missing_instants_def)
  show "t \<in> {t. p < t \<and> t < q \<and> ig_interval g dvd t - p} \<union> missing_instants g (insert q ts)"
  proof (cases "t < q")
    case True
    then show ?thesis using t \<open>p < t\<close> aligned_difference [OF assms(1)] by (auto simp: missing_instants_def)
  next
    case False
    then have "q < t" using t by (auto simp: missing_instants_def)
    then show ?thesis using t assms(2) by (fastforce simp: missing_instants_def)
  qed
next
  fix t assume "t \<in> {t. p < t \<and> t < q \<and> ig_interval g dvd t - p} \<union> missing_instants g (insert q ts)"
  then show "t \<in> missing_instants g (insert p (insert q ts))"
  proof
    assume "t \<in> {t. p < t \<and> t < q \<and> ig_interval g dvd t - p}"
    then show ?thesis using assms aligned_difference [OF assms(1)] by (fastforce simp: missing_instants_def)
  next
    assume "t \<in> missing_instants g (insert q ts)"
    then show ?thesis using assms(2,3) by (fastforce simp: missing_instants_def)
  qed
qed

lemma gap_closed_by_mono: "gap_closed_by g ts gap \<Longrightarrow> ts \<subseteq> us \<Longrightarrow> gap_closed_by g us gap"
  by (auto simp: gap_closed_by_def)

lemma missing_instants_single: "missing_instants g {} = {}" "missing_instants g {p} = {}"
  by (auto simp: missing_instants_def)

lemma series_gaps_spec:
  assumes "valid_grid g" "visible_ends consumer"
  shows "sorted_wrt (<) ts \<Longrightarrow> \<forall>t \<in> set ts. is_aligned g t \<and> valid_utc t \<Longrightarrow>
    \<exists>gaps. series_gaps consumer g ts = Inr gaps \<and> (\<Union>gap \<in> set gaps. gap_instants g gap) = missing_instants g (set ts) \<and>
      (\<forall>gap \<in> set gaps. gap_consumer_id gap = consumer \<and> gap_closed_by g (set ts) gap)"
proof (induction ts rule: induct_list012)
  case (3 p q rest)
  have pq: "p < q" "is_aligned g p" "is_aligned g q" "valid_utc p" "valid_utc q" "\<forall>t \<in> set rest. q \<le> t"
    using 3(3,4) by auto
  obtain gaps where gaps: "series_gaps consumer g (q # rest) = Inr gaps"
    "(\<Union>gap \<in> set gaps. gap_instants g gap) = missing_instants g (insert q (set rest))"
    "\<forall>gap \<in> set gaps. gap_consumer_id gap = consumer \<and> gap_closed_by g (insert q (set rest)) gap"
    using 3(2-4) by auto
  note step = missing_instants_step [OF pq(2,1,6)]
  have later: "\<forall>gap \<in> set gaps. gap_consumer_id gap = consumer \<and> gap_closed_by g (insert p (insert q (set rest))) gap"
    using gaps(3) gap_closed_by_mono by blast
  have dvd: "ig_interval g dvd q - p" using pq(3) aligned_difference [OF pq(2)] by simp
  from gap_between_spec [OF assms pq(1) dvd pq(4,5)] show ?case
  proof cases
    case 1
    then show ?thesis using gaps(1,2) later step unfolding 1(2) by simp
  next
    case (2 gap)
    have "gap_closed_by g (insert p (insert q (set rest))) gap" using gap_closed_by_mono [OF 2(4)] by blast
    then show ?thesis using 2 gaps(1,2) later step by simp
  qed
qed (simp_all add: missing_instants_single)

lemma validate_consumption_series_spec:
  "validate_consumption_series candidates grid =
     attempt (detect_gaps (filter (acceptable candidates grid) candidates) grid) (\<lambda>gaps.
       Inr \<lparr>sv_valid = filter (acceptable candidates grid) candidates,
            sv_issues = map (issue_of candidates) (filter (\<lambda>c. \<not> acceptable candidates grid c) candidates),
            sv_gaps = gaps\<rparr>)"
  by (simp add: validate_consumption_series_def classify_candidates_spec)

text \<open>What survives has unique keys, so each consumer's timestamps are distinct.\<close>

lemma length_filter_key_le:
  assumes "c \<in> set xs"
  shows "length (filter (\<lambda>d. k d = k c) xs) = 1 \<or> 1 < length (filter (\<lambda>d. k d = k c) xs)"
proof -
  have "filter (\<lambda>d. k d = k c) xs \<noteq> []" using assms by (auto simp: filter_empty_conv)
  then show ?thesis by (metis length_0_conv less_one linorder_neqE_nat)
qed

lemma distinct_keys_filter:
  "(\<forall>c \<in> set xs. P c \<longrightarrow> length (filter (\<lambda>d. k d = k c) xs) \<le> 1) \<Longrightarrow> distinct (map k (filter P xs))"
proof (induction xs)
  case (Cons x xs)
  have "\<forall>c \<in> set xs. P c \<longrightarrow> length (filter (\<lambda>d. k d = k c) xs) \<le> 1"
    using Cons.prems by (fastforce split: if_splits)
  moreover have "k x \<notin> k ` set (filter P xs)" if "P x"
  proof
    assume "k x \<in> k ` set (filter P xs)"
    then obtain y where "y \<in> set xs" "k y = k x" by auto
    then have "filter (\<lambda>d. k d = k x) xs \<noteq> []" by (auto simp: filter_empty_conv)
    then show False using Cons.prems that by simp
  qed
  ultimately show ?case using Cons.IH by simp
qed simp

lemma acceptable_distinct_keys: "distinct (map observation_key (filter (acceptable candidates grid) candidates))"
  by (rule distinct_keys_filter) (auto simp: acceptable_def is_duplicate_def)

lemma consumer_timestamps_distinct:
  "distinct (map observation_key cs) \<Longrightarrow> distinct (consumer_timestamps cs consumer)"
proof (induction cs)
  case (Cons c cs)
  then have "observation_key c \<notin> observation_key ` set cs" by simp
  have "cr_timestamp (cand_record c) \<notin> set (consumer_timestamps cs consumer)"
    if "cr_consumer_id (cand_record c) = consumer"
  proof
    assume "cr_timestamp (cand_record c) \<in> set (consumer_timestamps cs consumer)"
    then obtain x where x: "x \<in> set cs" "cr_consumer_id (cand_record x) = consumer"
      "cr_timestamp (cand_record x) = cr_timestamp (cand_record c)"
      by (auto simp: consumer_timestamps_def)
    then have "observation_key x = observation_key c" using that by (simp add: observation_key_def)
    then show False using \<open>observation_key c \<notin> observation_key ` set cs\<close> x(1) by (metis imageI)
  qed
  then show ?case using Cons by (simp add: consumer_timestamps_def)
qed (simp add: consumer_timestamps_def)

definition sane_candidate :: "candidate \<Rightarrow> bool" where
  "sane_candidate c \<longleftrightarrow> visible_ends (cr_consumer_id (cand_record c)) \<and> valid_utc (cr_timestamp (cand_record c))"

lemma keyed_concat:
  assumes "\<And>j x. j \<in> set ids \<Longrightarrow> x \<in> set (f j) \<Longrightarrow> key x = j"
  shows "{x \<in> set (concat (map f ids)). key x = i} = (if i \<in> set ids then set (f i) else {})"
  using assms by auto

lemma detect_gaps_spec:
  assumes "valid_grid g" "\<forall>c \<in> set cs. sane_candidate c \<and> is_aligned g (cr_timestamp (cand_record c))"
    and "distinct (map observation_key cs)"
  shows "\<exists>gaps. detect_gaps cs (Some g) = Inr gaps \<and>
    (\<forall>consumer. (\<Union>gap \<in> {gap \<in> set gaps. gap_consumer_id gap = consumer}. gap_instants g gap) =
       missing_instants g (set (consumer_timestamps cs consumer))) \<and>
    (\<forall>gap \<in> set gaps. gap_closed_by g (set (consumer_timestamps cs (gap_consumer_id gap))) gap)"
proof -
  let ?ids = "sort (remdups (map (\<lambda>c. cr_consumer_id (cand_record c)) cs))"
  let ?run = "\<lambda>consumer. series_gaps consumer g (sort (consumer_timestamps cs consumer))"
  have one: "\<exists>gaps. ?run i = Inr gaps \<and>
      (\<Union>gap \<in> set gaps. gap_instants g gap) = missing_instants g (set (consumer_timestamps cs i)) \<and>
      (\<forall>gap \<in> set gaps. gap_consumer_id gap = i \<and> gap_closed_by g (set (consumer_timestamps cs i)) gap)"
    if i: "i \<in> set ?ids" for i
  proof -
    have "visible_ends i" using i assms(2) by (auto simp: sane_candidate_def)
    moreover have "sorted_wrt (<) (sort (consumer_timestamps cs i))"
      using consumer_timestamps_distinct [OF assms(3)] by (simp add: strict_sorted_iff)
    moreover have "\<forall>t \<in> set (sort (consumer_timestamps cs i)). is_aligned g t \<and> valid_utc t"
      using assms(2) by (auto simp: consumer_timestamps_def sane_candidate_def)
    ultimately show ?thesis using series_gaps_spec [OF assms(1)] by fastforce
  qed
  then obtain f where f: "\<And>i. i \<in> set ?ids \<Longrightarrow> ?run i = Inr (f i) \<and>
      (\<Union>gap \<in> set (f i). gap_instants g gap) = missing_instants g (set (consumer_timestamps cs i)) \<and>
      (\<forall>gap \<in> set (f i). gap_consumer_id gap = i \<and> gap_closed_by g (set (consumer_timestamps cs i)) gap)"
    by metis
  have "map_result ?run ?ids = Inr (map f ?ids)" using f by (intro map_result_all_Inr) blast
  then have run: "detect_gaps cs (Some g) = Inr (concat (map f ?ids))" by (simp add: detect_gaps_def)
  have members: "{gap \<in> set (concat (map f ?ids)). gap_consumer_id gap = i} = (if i \<in> set ?ids then set (f i) else {})" for i
    by (rule keyed_concat) (use f in blast)
  have none: "consumer_timestamps cs i = []" if "i \<notin> set ?ids" for i
    using that by (auto simp: consumer_timestamps_def filter_empty_conv)
  show ?thesis
  proof (intro exI conjI)
    show "detect_gaps cs (Some g) = Inr (concat (map f ?ids))" by (rule run)
    show "\<forall>i. (\<Union>gap \<in> {gap \<in> set (concat (map f ?ids)). gap_consumer_id gap = i}. gap_instants g gap) =
        missing_instants g (set (consumer_timestamps cs i))"
      unfolding members using f none by (simp add: missing_instants_single)
    show "\<forall>gap \<in> set (concat (map f ?ids)). gap_closed_by g (set (consumer_timestamps cs (gap_consumer_id gap))) gap"
    proof
      fix gap assume "gap \<in> set (concat (map f ?ids))"
      then obtain j where j: "j \<in> set ?ids" "gap \<in> set (f j)" by auto
      then show "gap_closed_by g (set (consumer_timestamps cs (gap_consumer_id gap))) gap" using f [OF j(1)] by simp
    qed
  qed
qed

section \<open>Properties\<close>

text \<open>C23: SERIES-GAPS. Against a grid, and for candidates whose consumers and instants are canonical,
  validation answers; it keeps, in order, exactly the candidates whose observation key is unique and
  whose timestamp lies on the grid, and reports one issue for each other one. For every consumer the
  reported gaps cover exactly the grid instants between two kept observations that no kept observation
  has; each gap is bounded by observations on both sides and counts its instants.\<close>

theorem series_gaps_exact:
  assumes "make_interval_grid interval anchor = Inr g" and "\<forall>c \<in> set candidates. sane_candidate c"
  shows "\<exists>r. validate_consumption_series candidates (Some g) = Inr r \<and>
    sv_valid r = filter (acceptable candidates (Some g)) candidates \<and>
    sv_issues r = map (issue_of candidates) (filter (\<lambda>c. \<not> acceptable candidates (Some g) c) candidates) \<and>
    (\<forall>consumer. (\<Union>gap \<in> {gap \<in> set (sv_gaps r). gap_consumer_id gap = consumer}. gap_instants g gap) =
       missing_instants g (set (consumer_timestamps (sv_valid r) consumer))) \<and>
    (\<forall>gap \<in> set (sv_gaps r). int (card (gap_instants g gap)) = gap_missing_count gap \<and>
       gap_closed_by g (set (consumer_timestamps (sv_valid r) (gap_consumer_id gap))) gap)"
proof -
  have g: "valid_grid g" using assms(1) by (rule make_interval_grid_valid)
  let ?valid = "filter (acceptable candidates (Some g)) candidates"
  have "\<forall>c \<in> set ?valid. sane_candidate c \<and> is_aligned g (cr_timestamp (cand_record c))"
    using assms(2) by (simp add: acceptable_def)
  from detect_gaps_spec [OF g this acceptable_distinct_keys] obtain gaps
    where gaps: "detect_gaps ?valid (Some g) = Inr gaps"
      "\<forall>consumer. (\<Union>gap \<in> {gap \<in> set gaps. gap_consumer_id gap = consumer}. gap_instants g gap) =
        missing_instants g (set (consumer_timestamps ?valid consumer))"
      "\<forall>gap \<in> set gaps. gap_closed_by g (set (consumer_timestamps ?valid (gap_consumer_id gap))) gap" by blast
  have "\<forall>gap \<in> set gaps. int (card (gap_instants g gap)) = gap_missing_count gap"
    using gaps(3) card_gap_instants [OF g] unfolding gap_closed_by_def by (meson order_less_imp_le)
  then show ?thesis using gaps by (simp add: validate_consumption_series_spec)
qed

definition sample_candidate :: "int \<Rightarrow> nat \<Rightarrow> candidate" where
  "sample_candidate t n = \<lparr>cand_record = \<lparr>cr_consumer_id = ''c'', cr_timestamp = t, cr_value_mw = float_one\<rparr>,
     cand_source_position = n\<rparr>"

lemma series_gaps_exact_witness:
  "\<exists>r. validate_consumption_series [sample_candidate 0 2, sample_candidate 7 3, sample_candidate 30 4]
      (Some \<lparr>ig_interval = 10, ig_anchor = 0\<rparr>) = Inr r \<and>
    sv_valid r = [sample_candidate 0 2, sample_candidate 30 4] \<and>
    (\<Union>gap \<in> {gap \<in> set (sv_gaps r). gap_consumer_id gap = ''c''}.
       gap_instants \<lparr>ig_interval = 10, ig_anchor = 0\<rparr> gap) =
      missing_instants \<lparr>ig_interval = 10, ig_anchor = 0\<rparr> {0, 30}"
proof -
  let ?g = "\<lparr>ig_interval = 10, ig_anchor = 0\<rparr>"
  let ?cs = "[sample_candidate 0 2, sample_candidate 7 3, sample_candidate 30 4]"
  have g: "make_interval_grid 10 (Aware 0 0) = Inr ?g"
    by (simp add: make_interval_grid_def require_positive_interval_def require_aware_anchor_def astimezone_utc_def
        datetime_minus_def datetime_max_def)
  have sane: "\<forall>c \<in> set ?cs. sane_candidate c"
    by (simp add: sane_candidate_def sample_candidate_def visible_ends_def py_isspace_def valid_utc_def datetime_max_def)
  have kept: "filter (acceptable ?cs (Some ?g)) ?cs = [sample_candidate 0 2, sample_candidate 30 4]"
    by (simp add: acceptable_def is_duplicate_def observation_key_def sample_candidate_def is_aligned_def)
  have "set (consumer_timestamps [sample_candidate 0 2, sample_candidate 30 4] ''c'') = {0, 30}"
    by (simp add: consumer_timestamps_def sample_candidate_def)
  moreover obtain r where r: "validate_consumption_series ?cs (Some ?g) = Inr r"
    "sv_valid r = [sample_candidate 0 2, sample_candidate 30 4]"
    and gaps: "\<forall>consumer. (\<Union>gap \<in> {gap \<in> set (sv_gaps r). gap_consumer_id gap = consumer}. gap_instants ?g gap) =
      missing_instants ?g (set (consumer_timestamps (sv_valid r) consumer))"
    using series_gaps_exact [OF g sane] unfolding kept by (elim exE conjE) (rule that)
  ultimately show ?thesis using spec [OF gaps, of "''c''"] by (intro exI [of _ r]) (simp only: r simp_thms)
qed

text \<open>A consumer identifier of separators is canonical, and yet refused by the gap it belongs to.\<close>

lemma separator_consumer_breaks_gaps:
  "validate_consumption_record \<lparr>cr_consumer_id = [CHR 0x1F], cr_timestamp = 0, cr_value_mw = float_one\<rparr> =
     Inr \<lparr>cr_consumer_id = [CHR 0x1F], cr_timestamp = 0, cr_value_mw = float_one\<rparr>"
  "make_consumption_gap [CHR 0x1F] 0 0 1 = Inl (ValueError ''consumer_id must be a non-empty string'')"
  by (simp_all add: validate_consumption_record_def entity_id_def strip_whitespace_def white_space_def
      validated_def raise_if_def non_negative_mw_def make_consumption_gap_def require_non_empty_def py_strip_def
      py_isspace_def float_zero_def float_one_def float_aligned_def)

end
