(* ===== verification/Consumption_Adapters.thy ===== *)
theory Consumption_Adapters
  imports Schema_Mapping Time_Series "HOL-Library.Multiset"
begin

text \<open>
  The structured consumption adapters (infrastructure/adapters/structured/csv/consumption.py and
  excel/consumption.py) and the port's result (application/ports/structured\_ingestion.py). The two
  modules repeat their schema diagnostics, dead letters and series validation with other texts: these
  are written once, over a record of texts, and the reading loops once per module. The rows
  \<open>csv.reader\<close> and \<open>openpyxl\<close> deliver, the file suffix, the clock, the time zone data base
  and the text parser of timestamps are arguments.
\<close>

section \<open>Result (StructuredIngestionResult)\<close>

record structured_result =
  sir_source_name :: string
  sir_records :: "consumption_record list"
  sir_diagnostics :: "adapter_diagnostic list"
  sir_dlq_records :: "dlq_record list"

definition make_structured_result ::
    "string \<Rightarrow> consumption_record list \<Rightarrow> adapter_diagnostic list \<Rightarrow> dlq_record list \<Rightarrow> structured_result result" where
  "make_structured_result source_name records diagnostics dlq_records =
     (let cleaned = py_strip source_name in
      if cleaned = [] then Inl (ValueError ''source_name must be a non-empty string'')
      else Inr \<lparr>sir_source_name = cleaned, sir_records = records, sir_diagnostics = diagnostics,
                sir_dlq_records = dlq_records\<rparr>)"

section \<open>Texts of the two modules\<close>

text \<open>Each entry is a diagnostic code with its message.\<close>

record adapter_texts =
  at_adapter_name :: string
  at_scheme :: string
  at_missing_required :: "string \<times> string"
  at_ambiguous :: "string \<times> string"
  at_collision :: "string \<times> string"
  at_unresolved :: "string \<times> string"
  at_fuzzy :: "string \<times> string"
  at_row_shape :: "string \<times> string"
  at_row_validation :: "string \<times> string"

definition csv_texts :: adapter_texts where
  "csv_texts =
     \<lparr>at_adapter_name = ''consumption_csv'', at_scheme = ''csv://'',
      at_missing_required = (''csv_missing_required_field'', ''CSV schema is missing a required canonical field.''),
      at_ambiguous = (''csv_schema_ambiguous'', ''CSV schema contains an ambiguous header mapping.''),
      at_collision = (''csv_schema_collision'', ''CSV schema maps multiple columns to the same canonical field.''),
      at_unresolved = (''csv_unresolved_column'', ''CSV schema contains an unresolved extra column.''),
      at_fuzzy = (''csv_fuzzy_field_resolution'', ''CSV header was resolved with deterministic fuzzy matching.''),
      at_row_shape = (''csv_row_shape_invalid'', ''CSV row does not match the resolved header width.''),
      at_row_validation = (''csv_row_validation_failed'', ''CSV row could not be converted to ConsumptionRecord.'')\<rparr>"

definition csv_decode_failed :: "string \<times> string" where
  "csv_decode_failed = (''csv_decode_failed'', ''CSV source is not valid UTF-8.'')"

definition csv_parse_failed :: "string \<times> string" where
  "csv_parse_failed = (''csv_parse_failed'', ''CSV source could not be parsed.'')"

definition csv_unavailable_message :: string where
  "csv_unavailable_message = ''CSV source is unavailable''"

definition excel_texts :: adapter_texts where
  "excel_texts =
     \<lparr>at_adapter_name = ''consumption_excel'', at_scheme = ''excel://'',
      at_missing_required = (''excel_missing_required_field'', ''Excel schema is missing a required canonical field.''),
      at_ambiguous = (''excel_schema_ambiguous'', ''Excel schema contains an ambiguous header mapping.''),
      at_collision = (''excel_schema_collision'', ''Excel schema maps multiple columns to the same canonical field.''),
      at_unresolved = (''excel_unresolved_column'', ''Excel schema contains an unresolved extra column.''),
      at_fuzzy = (''excel_fuzzy_field_resolution'', ''Excel header was resolved with deterministic fuzzy matching.''),
      at_row_shape = (''excel_row_shape_invalid'', ''Excel row is missing a required mapped column.''),
      at_row_validation = (''excel_row_validation_failed'', ''Excel row could not be converted to ConsumptionRecord.'')\<rparr>"

definition excel_workbook_invalid :: "string \<times> string" where
  "excel_workbook_invalid = (''excel_workbook_invalid'', ''Excel workbook could not be parsed.'')"

definition excel_worksheet_missing :: "string \<times> string" where
  "excel_worksheet_missing = (''excel_worksheet_missing'', ''Configured Excel worksheet is unavailable.'')"

definition excel_unavailable_message :: string where
  "excel_unavailable_message = ''Excel source is unavailable''"

section \<open>Adapter\<close>

record consumption_adapter =
  ca_source_name :: string
  ca_power_unit :: power_unit
  ca_timezone :: "zone option"
  ca_interval_grid :: "interval_grid option"
  ca_resolver :: resolver

text \<open>What the environment provides: the zone data base, the timestamp parser, and Unicode data.\<close>

record environment =
  env_zoneinfo :: "string \<Rightarrow> zone option"
  env_fromisoformat :: timestamp_parser
  env_unicode :: unicode_text

definition make_consumption_adapter ::
    "environment \<Rightarrow> string \<Rightarrow> field_spec list option \<Rightarrow> power_unit \<Rightarrow> string option \<Rightarrow> interval_grid option \<Rightarrow>
     consumption_adapter result" where
  "make_consumption_adapter env cleaned_source field_specs unit timezone grid =
     attempt (resolve_source_timezone (env_zoneinfo env) timezone) (\<lambda>z.
     attempt (validated_consumption_field_specs
                (case field_specs of None \<Rightarrow> default_consumption_field_specs unit | Some s \<Rightarrow> s)) (\<lambda>specs.
     attempt (make_resolver (env_unicode env) specs default_fuzzy_threshold default_ambiguity_margin) (\<lambda>r.
       Inr \<lparr>ca_source_name = cleaned_source, ca_power_unit = unit, ca_timezone = z, ca_interval_grid = grid,
            ca_resolver = r\<rparr>)))"

definition make_csv_adapter ::
    "environment \<Rightarrow> string \<Rightarrow> field_spec list option \<Rightarrow> power_unit \<Rightarrow> string option \<Rightarrow> interval_grid option \<Rightarrow>
     consumption_adapter result" where
  "make_csv_adapter env source_name field_specs unit timezone grid =
     (let cleaned = py_strip source_name in
      if cleaned = [] then Inl (ValueError ''source_name must be a non-empty string'')
      else make_consumption_adapter env cleaned field_specs unit timezone grid)"

definition require_xlsx_path :: "string \<Rightarrow> unit result" where
  "require_xlsx_path suffix =
     raise_if (map lower_char suffix \<noteq> ''.xlsx'') (ValueError ''Excel adapter accepts .xlsx sources only'')"

definition optional_sheet_name :: "string option \<Rightarrow> string option result" where
  "optional_sheet_name value =
     (case value of
        None \<Rightarrow> Inr None
      | Some s \<Rightarrow>
          (let cleaned = py_strip s in
           if cleaned = [] then Inl (ValueError ''sheet_name must be a non-empty string when provided'')
           else Inr (Some cleaned)))"

definition make_excel_adapter ::
    "environment \<Rightarrow> string \<Rightarrow> string \<Rightarrow> string option \<Rightarrow> field_spec list option \<Rightarrow> power_unit \<Rightarrow> string option \<Rightarrow>
     interval_grid option \<Rightarrow> (consumption_adapter \<times> string option) result" where
  "make_excel_adapter env suffix source_name sheet_name field_specs unit timezone grid =
     check (require_xlsx_path suffix)
      (let cleaned = py_strip source_name in
       if cleaned = [] then Inl (ValueError ''source_name must be a non-empty string'')
       else attempt (optional_sheet_name sheet_name) (\<lambda>sheet.
            attempt (make_consumption_adapter env cleaned field_specs unit timezone grid) (\<lambda>a.
              Inr (a, sheet))))"

section \<open>Diagnostics and dead letters\<close>

definition make_diagnostic ::
    "string \<times> string \<Rightarrow> diagnostic_severity \<Rightarrow> string option \<Rightarrow> adapter_diagnostic result" where
  "make_diagnostic code_message severity field_name =
     validate_adapter_diagnostic
       \<lparr>ad_code = fst code_message, ad_message = snd code_message, ad_severity = severity, ad_field_name = field_name\<rparr>"

abbreviation adapter_error :: "string \<times> string \<Rightarrow> adapter_diagnostic result" where
  "adapter_error code_message \<equiv> make_diagnostic code_message SEVERITY_ERROR None"

text \<open>The dead letter of a part of the source; \<open>now\<close> is the clock's answer.\<close>

definition adapter_dlq ::
    "adapter_texts \<Rightarrow> consumption_adapter \<Rightarrow> utc \<Rightarrow> string \<Rightarrow> string \<Rightarrow> adapter_diagnostic list \<Rightarrow> dlq_record result" where
  "adapter_dlq x a now record_id payload_reference diagnostics =
     validate_dlq_record
       \<lparr>dlq_record_id = record_id, dlq_failed_at = now, dlq_source_name = ca_source_name a,
        dlq_adapter_name = at_adapter_name x, dlq_diagnostics = diagnostics,
        dlq_payload_reference = payload_reference, dlq_correlation_id = None\<rparr>"

definition schema_dlq :: "adapter_texts \<Rightarrow> consumption_adapter \<Rightarrow> utc \<Rightarrow> adapter_diagnostic list \<Rightarrow> dlq_record result" where
  "schema_dlq x a now =
     adapter_dlq x a now (ca_source_name a @ '':schema'') (at_scheme x @ ca_source_name a @ ''/schema'')"

definition source_dlq :: "adapter_texts \<Rightarrow> consumption_adapter \<Rightarrow> utc \<Rightarrow> adapter_diagnostic list \<Rightarrow> dlq_record result" where
  "source_dlq x a now =
     adapter_dlq x a now (ca_source_name a @ '':source'') (at_scheme x @ ca_source_name a @ ''/source'')"

definition row_dlq ::
    "adapter_texts \<Rightarrow> consumption_adapter \<Rightarrow> utc \<Rightarrow> nat \<Rightarrow> adapter_diagnostic list \<Rightarrow> dlq_record result" where
  "row_dlq x a now logical_row =
     adapter_dlq x a now (ca_source_name a @ '':row:'' @ decimal_digits logical_row)
       (at_scheme x @ ca_source_name a @ ''/row/'' @ decimal_digits logical_row)"

section \<open>State of an ingestion\<close>

text \<open>The three lists the loop appends to. The clock is read once per dead letter, so its answers are
  numbered by the dead letters already made.\<close>

record ingest_state =
  in_candidates :: "candidate list"
  in_diagnostics :: "adapter_diagnostic list"
  in_dlqs :: "dlq_record list"

definition empty_ingest :: ingest_state where
  "empty_ingest = \<lparr>in_candidates = [], in_diagnostics = [], in_dlqs = []\<rparr>"

definition add_diagnostic :: "adapter_diagnostic \<Rightarrow> ingest_state \<Rightarrow> ingest_state" where
  "add_diagnostic d st = st\<lparr>in_diagnostics := in_diagnostics st @ [d]\<rparr>"

definition add_dlq :: "dlq_record \<Rightarrow> ingest_state \<Rightarrow> ingest_state" where
  "add_dlq q st = st\<lparr>in_dlqs := in_dlqs st @ [q]\<rparr>"

definition add_candidate :: "candidate \<Rightarrow> ingest_state \<Rightarrow> ingest_state" where
  "add_candidate c st = st\<lparr>in_candidates := in_candidates st @ [c]\<rparr>"

definition reject_row ::
    "adapter_texts \<Rightarrow> consumption_adapter \<Rightarrow> (nat \<Rightarrow> utc) \<Rightarrow> nat \<Rightarrow> adapter_diagnostic result \<Rightarrow> ingest_state \<Rightarrow>
     ingest_state result" where
  "reject_row x a clock logical_row diagnostic st =
     attempt diagnostic (\<lambda>d.
     attempt (row_dlq x a (clock (length (in_dlqs st))) logical_row [d]) (\<lambda>q.
       Inr (add_dlq q (add_diagnostic d st))))"

section \<open>Schema diagnostics\<close>

definition missing_diagnostics :: "adapter_texts \<Rightarrow> schema_resolution \<Rightarrow> adapter_diagnostic list result" where
  "missing_diagnostics x schema =
     map_result (\<lambda>c. make_diagnostic (at_missing_required x) SEVERITY_ERROR (Some c)) (sch_missing_required_fields schema)"

definition collision_diagnostics :: "adapter_texts \<Rightarrow> schema_resolution \<Rightarrow> adapter_diagnostic list result" where
  "collision_diagnostics x schema =
     map_result (\<lambda>c. make_diagnostic (at_collision x) SEVERITY_ERROR (Some (co_canonical_field c))) (sch_collisions schema)"

text \<open>Per header cell: its diagnostic, if any, and whether it is fatal.\<close>

definition field_diagnostic :: "adapter_texts \<Rightarrow> field_resolution \<Rightarrow> (adapter_diagnostic \<times> bool) list result" where
  "field_diagnostic x r =
     (case fr_status r of
        AMBIGUOUS \<Rightarrow> attempt (adapter_error (at_ambiguous x)) (\<lambda>d. Inr [(d, True)])
      | UNRESOLVED \<Rightarrow> attempt (make_diagnostic (at_unresolved x) SEVERITY_WARNING None) (\<lambda>d. Inr [(d, False)])
      | RESOLVED \<Rightarrow>
          (case fr_canonical_field r of
             None \<Rightarrow> Inr []
           | Some c \<Rightarrow>
               if fr_method r = Some FUZZY
               then attempt (make_diagnostic (at_fuzzy x) SEVERITY_WARNING (Some c)) (\<lambda>d. Inr [(d, False)])
               else Inr []))"

definition schema_diagnostics ::
    "adapter_texts \<Rightarrow> schema_resolution \<Rightarrow> (adapter_diagnostic list \<times> adapter_diagnostic list) result" where
  "schema_diagnostics x schema =
     attempt (missing_diagnostics x schema) (\<lambda>missing.
     attempt (map_result (field_diagnostic x) (sch_field_resolutions schema)) (\<lambda>cells.
     attempt (collision_diagnostics x schema) (\<lambda>colliding.
       Inr (missing @ map fst (concat cells) @ colliding,
            missing @ map fst (filter snd (concat cells)) @ colliding))))"

section \<open>Series validation\<close>

definition series_diagnostic :: "series_issue \<Rightarrow> adapter_diagnostic result" where
  "series_diagnostic i =
     make_diagnostic (issue_code_text (si_code i), si_message i) SEVERITY_ERROR (Some (si_field_name i))"

definition gap_diagnostic :: "consumption_gap \<Rightarrow> adapter_diagnostic result" where
  "gap_diagnostic g =
     make_diagnostic (''consumption_missing_interval_gap'', gap_diagnostic_message g) SEVERITY_ERROR (Some ''timestamp'')"

definition structured_result_of :: "consumption_adapter \<Rightarrow> consumption_record list \<Rightarrow> ingest_state \<Rightarrow> structured_result result" where
  "structured_result_of a records st =
     make_structured_result (ca_source_name a) records (in_diagnostics st) (in_dlqs st)"

definition with_series_validation ::
    "adapter_texts \<Rightarrow> consumption_adapter \<Rightarrow> (nat \<Rightarrow> utc) \<Rightarrow> ingest_state \<Rightarrow> structured_result result" where
  "with_series_validation x a clock st =
     attempt (validate_consumption_series (in_candidates st) (ca_interval_grid a)) (\<lambda>series.
     attempt (fold_result (\<lambda>st i. reject_row x a clock (si_source_position i) (series_diagnostic i) st) st (sv_issues series)) (\<lambda>st.
     attempt (map_result gap_diagnostic (sv_gaps series)) (\<lambda>gaps.
       structured_result_of a (map cand_record (sv_valid series)) (st\<lparr>in_diagnostics := in_diagnostics st @ gaps\<rparr>))))"

section \<open>Rows\<close>

datatype row_outcome = RowAccepted candidate | RowShapeInvalid | RowInvalid

text \<open>The errors a row handler turns into a dead letter; every other one leaves the ingestion.\<close>

definition is_row_error :: "exn \<Rightarrow> bool" where
  "is_row_error e \<longleftrightarrow> e = UnrecognizedConsumptionSourceValue \<or> e = ValidationError \<or> is_source_value_error e"

definition row_result :: "candidate result \<Rightarrow> row_outcome result" where
  "row_result r =
     (case r of
        Inr c \<Rightarrow> Inr (RowAccepted c)
      | Inl e \<Rightarrow> if is_row_error e then Inr RowInvalid else Inl e)"

definition apply_outcome ::
    "adapter_texts \<Rightarrow> consumption_adapter \<Rightarrow> (nat \<Rightarrow> utc) \<Rightarrow> nat \<Rightarrow> ingest_state \<Rightarrow> row_outcome \<Rightarrow> ingest_state result" where
  "apply_outcome x a clock logical_row st outcome =
     (case outcome of
        RowAccepted c \<Rightarrow> Inr (add_candidate c st)
      | RowShapeInvalid \<Rightarrow> reject_row x a clock logical_row (adapter_error (at_row_shape x)) st
      | RowInvalid \<Rightarrow> reject_row x a clock logical_row (adapter_error (at_row_validation x)) st)"

text \<open>\<open>row[column_index[name]]\<close>.\<close>

definition column_cell :: "(string \<rightharpoonup> nat) \<Rightarrow> string \<Rightarrow> 'a list \<Rightarrow> 'a result" where
  "column_cell columns name row =
     (case columns name of
        None \<Rightarrow> Inl (OtherException ''KeyError'')
      | Some i \<Rightarrow> if i < length row then Inr (row ! i) else Inl (OtherException ''IndexError''))"

text \<open>The candidate of a row, from its three cells; only text is a consumer identifier.\<close>

definition make_candidate :: "cell \<Rightarrow> utc \<Rightarrow> pyfloat \<Rightarrow> nat \<Rightarrow> candidate result" where
  "make_candidate consumer timestamp value_mw logical_row =
     (case consumer of
        CellText c \<Rightarrow>
          attempt (validate_consumption_record
                     \<lparr>cr_consumer_id = c, cr_timestamp = timestamp, cr_value_mw = value_mw\<rparr>) (\<lambda>r.
            Inr \<lparr>cand_record = r, cand_source_position = logical_row\<rparr>)
      | _ \<Rightarrow> Inl ValidationError)"

subsection \<open>CSV\<close>

definition csv_row_outcome ::
    "environment \<Rightarrow> consumption_adapter \<Rightarrow> (string \<rightharpoonup> nat) \<Rightarrow> nat \<Rightarrow> nat \<Rightarrow> string list \<Rightarrow> row_outcome result" where
  "csv_row_outcome env a columns expected_width logical_row row =
     (if length row \<noteq> expected_width then Inr RowShapeInvalid
      else row_result
        (attempt (column_cell columns ''consumer_id'' row) (\<lambda>consumer.
         attempt (column_cell columns ''timestamp'' row) (\<lambda>raw_timestamp.
         attempt (attempt (consumption_timestamp_from_csv raw_timestamp) (\<lambda>v.
                    normalize_timestamp_to_utc (env_fromisoformat env) v (ca_timezone a))) (\<lambda>timestamp.
         attempt (column_cell columns ''value_mw'' row) (\<lambda>raw_mw.
         attempt (normalize_power_to_mw (CellText raw_mw) (ca_power_unit a)) (\<lambda>value_mw.
           make_candidate (CellText consumer) timestamp value_mw logical_row)))))))"

definition csv_blank_row :: "string list \<Rightarrow> bool" where
  "csv_blank_row row \<longleftrightarrow> list_all (\<lambda>c. py_strip c = []) row"

text \<open>What a header gives: the early return of a fatal schema, or the columns to read.\<close>

definition read_header ::
    "adapter_texts \<Rightarrow> consumption_adapter \<Rightarrow> (nat \<Rightarrow> utc) \<Rightarrow> string list \<Rightarrow> ingest_state \<Rightarrow>
     (structured_result + ((string \<rightharpoonup> nat) \<times> ingest_state)) result" where
  "read_header x a clock header st =
     (let schema = apply_consumption_unit_safety (resolve_schema (ca_resolver a) header) (ca_power_unit a) in
      attempt (schema_diagnostics x schema) (\<lambda>(diagnostics, fatal).
        let st = st\<lparr>in_diagnostics := in_diagnostics st @ diagnostics\<rparr> in
        if fatal \<noteq> []
        then attempt (schema_dlq x a (clock (length (in_dlqs st))) fatal) (\<lambda>q.
             attempt (structured_result_of a [] (add_dlq q st)) (\<lambda>r. Inr (Inl r)))
        else Inr (Inr (canonical_column_index schema, st))))"

fun csv_data_rows ::
    "environment \<Rightarrow> consumption_adapter \<Rightarrow> (nat \<Rightarrow> utc) \<Rightarrow> (string \<rightharpoonup> nat) \<Rightarrow> nat \<Rightarrow> nat \<Rightarrow> ingest_state \<Rightarrow>
     string list list \<Rightarrow> ingest_state result" where
  "csv_data_rows env a clock columns expected_width logical_row st [] = Inr st"
| "csv_data_rows env a clock columns expected_width logical_row st (row # rows) =
     (if csv_blank_row row then csv_data_rows env a clock columns expected_width logical_row st rows
      else attempt (csv_row_outcome env a columns expected_width (logical_row + 1) row) (\<lambda>outcome.
           attempt (apply_outcome csv_texts a clock (logical_row + 1) st outcome) (\<lambda>st.
             csv_data_rows env a clock columns expected_width (logical_row + 1) st rows)))"

text \<open>The loop before and at the header; \<open>Inl\<close> is the early return.\<close>

fun csv_rows ::
    "environment \<Rightarrow> consumption_adapter \<Rightarrow> (nat \<Rightarrow> utc) \<Rightarrow> string list list \<Rightarrow> (structured_result + ingest_state) result" where
  "csv_rows env a clock [] = Inr (Inr empty_ingest)"
| "csv_rows env a clock (row # rows) =
     (if csv_blank_row row then csv_rows env a clock rows
      else attempt (read_header csv_texts a clock row empty_ingest) (\<lambda>header.
        case header of
          Inl r \<Rightarrow> Inr (Inl r)
        | Inr (columns, st) \<Rightarrow>
            attempt (csv_data_rows env a clock columns (length row) 1 st rows) (\<lambda>st. Inr (Inr st))))"

text \<open>A source delivers rows and then ends, or raises: undecodable bytes, a malformed record, I/O.\<close>

type_synonym csv_source = "string list list \<times> exn option"

definition unicode_decode_error :: exn where "unicode_decode_error = OtherException ''UnicodeDecodeError''"

definition csv_error :: exn where "csv_error = OtherException ''csv.Error''"

definition source_failure ::
    "adapter_texts \<Rightarrow> consumption_adapter \<Rightarrow> (nat \<Rightarrow> utc) \<Rightarrow> string \<times> string \<Rightarrow> ingest_state \<Rightarrow> ingest_state result" where
  "source_failure x a clock code_message st =
     attempt (adapter_error code_message) (\<lambda>d.
     attempt (source_dlq x a (clock (length (in_dlqs st))) [d]) (\<lambda>q.
       Inr (add_dlq q (add_diagnostic d st))))"

definition csv_read_and_normalize ::
    "environment \<Rightarrow> consumption_adapter \<Rightarrow> (nat \<Rightarrow> utc) \<Rightarrow> csv_source \<Rightarrow> structured_result result" where
  "csv_read_and_normalize env a clock source =
     attempt (csv_rows env a clock (fst source)) (\<lambda>outcome.
       case outcome of
         Inl r \<Rightarrow> Inr r
       | Inr st \<Rightarrow>
           attempt (case snd source of
                      None \<Rightarrow> Inr st
                    | Some e \<Rightarrow>
                        if e = unicode_decode_error then source_failure csv_texts a clock csv_decode_failed st
                        else if e = csv_error then source_failure csv_texts a clock csv_parse_failed st
                        else Inl e)
             (with_series_validation csv_texts a clock))"

definition os_error_unavailable :: "string \<Rightarrow> 'a result \<Rightarrow> 'a result" where
  "os_error_unavailable msg r =
     (case r of
        Inl e \<Rightarrow> Inl (if e = OtherException ''OSError'' then DependencyUnavailableError msg else e)
      | Inr v \<Rightarrow> Inr v)"

definition csv_ingest ::
    "environment \<Rightarrow> consumption_adapter \<Rightarrow> (nat \<Rightarrow> utc) \<Rightarrow> csv_source result \<Rightarrow> structured_result result" where
  "csv_ingest env a clock opened =
     os_error_unavailable csv_unavailable_message (attempt opened (csv_read_and_normalize env a clock))"

subsection \<open>Excel\<close>

text \<open>The Excel module's copies of the shared functions.\<close>

abbreviation excel_schema_diagnostics :: "schema_resolution \<Rightarrow> (adapter_diagnostic list \<times> adapter_diagnostic list) result" where
  "excel_schema_diagnostics \<equiv> schema_diagnostics excel_texts"

abbreviation excel_schema_dlq :: "consumption_adapter \<Rightarrow> utc \<Rightarrow> adapter_diagnostic list \<Rightarrow> dlq_record result" where
  "excel_schema_dlq \<equiv> schema_dlq excel_texts"

abbreviation excel_source_dlq :: "consumption_adapter \<Rightarrow> utc \<Rightarrow> adapter_diagnostic list \<Rightarrow> dlq_record result" where
  "excel_source_dlq \<equiv> source_dlq excel_texts"

abbreviation excel_row_dlq :: "consumption_adapter \<Rightarrow> utc \<Rightarrow> nat \<Rightarrow> adapter_diagnostic list \<Rightarrow> dlq_record result" where
  "excel_row_dlq \<equiv> row_dlq excel_texts"

abbreviation excel_with_series_validation ::
    "consumption_adapter \<Rightarrow> (nat \<Rightarrow> utc) \<Rightarrow> ingest_state \<Rightarrow> structured_result result" where
  "excel_with_series_validation \<equiv> with_series_validation excel_texts"

definition excel_row_outcome ::
    "environment \<Rightarrow> consumption_adapter \<Rightarrow> (string \<rightharpoonup> nat) \<Rightarrow> nat \<Rightarrow> cell list \<Rightarrow> row_outcome result" where
  "excel_row_outcome env a columns logical_row row =
     (case attempt (column_cell columns ''consumer_id'' row) (\<lambda>consumer.
           attempt (column_cell columns ''timestamp'' row) (\<lambda>raw_timestamp.
           attempt (column_cell columns ''value_mw'' row) (\<lambda>raw_mw.
             Inr (consumer, raw_timestamp, raw_mw)))) of
        Inl e \<Rightarrow> if e = OtherException ''IndexError'' then Inr RowShapeInvalid else Inl e
      | Inr (consumer, raw_timestamp, raw_mw) \<Rightarrow>
          row_result
            (attempt (attempt (consumption_timestamp_from_excel raw_timestamp) (\<lambda>v.
                        normalize_timestamp_to_utc (env_fromisoformat env) v (ca_timezone a))) (\<lambda>timestamp.
             attempt (normalize_power_to_mw raw_mw (ca_power_unit a)) (\<lambda>value_mw.
               make_candidate consumer timestamp value_mw logical_row))))"

fun is_blank_cell :: "cell \<Rightarrow> bool" where
  "is_blank_cell CellNone = True"
| "is_blank_cell (CellText t) = (py_strip t = [])"
| "is_blank_cell _ = False"

definition excel_blank_row :: "cell list \<Rightarrow> bool" where
  "excel_blank_row row \<longleftrightarrow> list_all is_blank_cell row"

definition trim_trailing_blank :: "cell list \<Rightarrow> cell list" where
  "trim_trailing_blank row = rev (dropWhile is_blank_cell (rev row))"

fun header_cell_as_source_field :: "cell \<Rightarrow> string" where
  "header_cell_as_source_field (CellText t) = t"
| "header_cell_as_source_field _ = []"

definition header_source_fields :: "cell list \<Rightarrow> string list" where
  "header_source_fields row = map header_cell_as_source_field (trim_trailing_blank row)"

fun excel_data_rows ::
    "environment \<Rightarrow> consumption_adapter \<Rightarrow> (nat \<Rightarrow> utc) \<Rightarrow> (string \<rightharpoonup> nat) \<Rightarrow> nat \<Rightarrow> ingest_state \<Rightarrow> cell list list \<Rightarrow>
     ingest_state result" where
  "excel_data_rows env a clock columns logical_row st [] = Inr st"
| "excel_data_rows env a clock columns logical_row st (row # rows) =
     (if excel_blank_row row then excel_data_rows env a clock columns logical_row st rows
      else attempt (excel_row_outcome env a columns (logical_row + 1) row) (\<lambda>outcome.
           attempt (apply_outcome excel_texts a clock (logical_row + 1) st outcome) (\<lambda>st.
             excel_data_rows env a clock columns (logical_row + 1) st rows)))"

fun excel_rows ::
    "environment \<Rightarrow> consumption_adapter \<Rightarrow> (nat \<Rightarrow> utc) \<Rightarrow> cell list list \<Rightarrow> (structured_result + ingest_state) result" where
  "excel_rows env a clock [] = Inr (Inr empty_ingest)"
| "excel_rows env a clock (row # rows) =
     (if excel_blank_row row then excel_rows env a clock rows
      else attempt (read_header excel_texts a clock (header_source_fields row) empty_ingest) (\<lambda>header.
        case header of
          Inl r \<Rightarrow> Inr (Inl r)
        | Inr (columns, st) \<Rightarrow>
            attempt (excel_data_rows env a clock columns 1 st rows) (\<lambda>st. Inr (Inr st))))"

text \<open>A worksheet delivers rows and then ends, or raises.\<close>

type_synonym worksheet = "cell list list \<times> exn option"

record workbook =
  wb_active :: "worksheet option"
  wb_sheetnames :: "string list option"
  wb_sheet :: "string \<Rightarrow> worksheet result"

definition select_worksheet :: "workbook \<Rightarrow> string option \<Rightarrow> worksheet option result" where
  "select_worksheet wb sheet_name =
     (case sheet_name of
        None \<Rightarrow> Inr (wb_active wb)
      | Some name \<Rightarrow>
          (case wb_sheetnames wb of
             None \<Rightarrow> Inr None
           | Some names \<Rightarrow> if name \<notin> set names then Inr None
                            else attempt (wb_sheet wb name) (\<lambda>s. Inr (Some s))))"

definition ingest_worksheet ::
    "environment \<Rightarrow> consumption_adapter \<Rightarrow> (nat \<Rightarrow> utc) \<Rightarrow> worksheet \<Rightarrow> structured_result result" where
  "ingest_worksheet env a clock sheet =
     attempt (excel_rows env a clock (fst sheet)) (\<lambda>outcome.
       case outcome of
         Inl r \<Rightarrow> Inr r
       | Inr st \<Rightarrow>
           (case snd sheet of
              None \<Rightarrow> excel_with_series_validation a clock st
            | Some e \<Rightarrow> Inl e))"

definition workbook_format_errors :: "exn list" where
  "workbook_format_errors =
     [OtherException ''BadZipFile'', OtherException ''InvalidFileException'', OtherException ''ParseError'']"

definition excel_read_and_normalize ::
    "environment \<Rightarrow> consumption_adapter \<Rightarrow> string option \<Rightarrow> (nat \<Rightarrow> utc) \<Rightarrow> workbook result \<Rightarrow> structured_result result" where
  "excel_read_and_normalize env a sheet_name clock loaded =
     (case loaded of
        Inl e \<Rightarrow>
          if e \<in> set workbook_format_errors
          then attempt (source_failure excel_texts a clock excel_workbook_invalid empty_ingest) (structured_result_of a [])
          else Inl e
      | Inr wb \<Rightarrow>
          attempt (select_worksheet wb sheet_name) (\<lambda>sheet.
            case sheet of
              None \<Rightarrow>
                attempt (adapter_error excel_worksheet_missing) (\<lambda>d.
                attempt (excel_schema_dlq a (clock 0) [d]) (\<lambda>q.
                  structured_result_of a [] (add_dlq q (add_diagnostic d empty_ingest))))
            | Some s \<Rightarrow> ingest_worksheet env a clock s))"

definition excel_ingest ::
    "environment \<Rightarrow> consumption_adapter \<Rightarrow> string option \<Rightarrow> (nat \<Rightarrow> utc) \<Rightarrow> workbook result \<Rightarrow> structured_result result" where
  "excel_ingest env a sheet_name clock loaded =
     os_error_unavailable excel_unavailable_message (excel_read_and_normalize env a sheet_name clock loaded)"

section \<open>Diagnostics and dead letters never fail\<close>

definition text_ok :: "string \<times> string \<Rightarrow> bool" where
  "text_ok t \<longleftrightarrow> visible_ends (fst t) \<and> visible_ends (snd t)"

definition texts_ok :: "adapter_texts \<Rightarrow> bool" where
  "texts_ok x \<longleftrightarrow> visible_ends (at_adapter_name x) \<and> visible_ends (at_scheme x) \<and>
     list_all text_ok [at_missing_required x, at_ambiguous x, at_collision x, at_unresolved x, at_fuzzy x,
       at_row_shape x, at_row_validation x]"

lemma csv_texts_ok [simp]: "texts_ok csv_texts"
  by (simp add: texts_ok_def text_ok_def csv_texts_def visible_ends_def py_isspace_def)

lemma excel_texts_ok [simp]: "texts_ok excel_texts"
  by (simp add: texts_ok_def text_ok_def excel_texts_def visible_ends_def py_isspace_def)

lemma source_texts_ok [simp]:
  "text_ok csv_decode_failed" "text_ok csv_parse_failed" "text_ok excel_workbook_invalid" "text_ok excel_worksheet_missing"
  by (simp_all add: text_ok_def csv_decode_failed_def csv_parse_failed_def excel_workbook_invalid_def
      excel_worksheet_missing_def visible_ends_def py_isspace_def)

lemma texts_okD:
  assumes "texts_ok x"
  shows "text_ok (at_missing_required x)" "text_ok (at_ambiguous x)" "text_ok (at_collision x)"
    "text_ok (at_unresolved x)" "text_ok (at_fuzzy x)" "text_ok (at_row_shape x)" "text_ok (at_row_validation x)"
  using assms by (simp_all add: texts_ok_def)

definition diagnostic_of :: "string \<times> string \<Rightarrow> diagnostic_severity \<Rightarrow> string option \<Rightarrow> adapter_diagnostic" where
  "diagnostic_of t severity field_name =
     \<lparr>ad_code = fst t, ad_message = snd t, ad_severity = severity, ad_field_name = field_name\<rparr>"

lemma make_diagnostic_ok:
  "text_ok t \<Longrightarrow> make_diagnostic t severity None = Inr (diagnostic_of t severity None)"
  "text_ok t \<Longrightarrow> visible_ends n \<Longrightarrow> make_diagnostic t severity (Some n) = Inr (diagnostic_of t severity (Some n))"
  by (simp_all add: make_diagnostic_def validate_adapter_diagnostic_def text_ok_def visible_strings_accepted
      optional_result_def diagnostic_of_def)

definition dlq_of ::
    "adapter_texts \<Rightarrow> consumption_adapter \<Rightarrow> utc \<Rightarrow> string \<Rightarrow> string \<Rightarrow> adapter_diagnostic list \<Rightarrow> dlq_record" where
  "dlq_of x a now record_id payload_reference diagnostics =
     \<lparr>dlq_record_id = record_id, dlq_failed_at = now, dlq_source_name = ca_source_name a,
      dlq_adapter_name = at_adapter_name x, dlq_diagnostics = diagnostics,
      dlq_payload_reference = payload_reference, dlq_correlation_id = None\<rparr>"

definition row_id :: "consumption_adapter \<Rightarrow> nat \<Rightarrow> string" where
  "row_id a n = ca_source_name a @ '':row:'' @ decimal_digits n"

definition row_dlq_of :: "adapter_texts \<Rightarrow> consumption_adapter \<Rightarrow> utc \<Rightarrow> nat \<Rightarrow> adapter_diagnostic list \<Rightarrow> dlq_record" where
  "row_dlq_of x a now n =
     dlq_of x a now (row_id a n) (at_scheme x @ ca_source_name a @ ''/row/'' @ decimal_digits n)"

lemma adapter_dlq_ok:
  assumes "texts_ok x" "visible_ends (ca_source_name a)" "visible_ends record_id" "visible_ends payload_reference"
    and "diagnostics \<noteq> []"
  shows "adapter_dlq x a now record_id payload_reference diagnostics =
    Inr (dlq_of x a now record_id payload_reference diagnostics)"
  using assms
  by (simp add: adapter_dlq_def validate_dlq_record_def visible_strings_accepted texts_ok_def optional_result_def
      validated_def require_diagnostics_def raise_if_def dlq_of_def Suc_le_eq)

lemma visible_decimal_digits: "visible_ends (decimal_digits n)"
  using decimal_digits_visible [of n] by (simp add: visible_ends_def)

lemma visible_suffixes:
  "visible_ends '':schema''" "visible_ends ''/schema''" "visible_ends '':source''" "visible_ends ''/source''"
  "visible_ends '':row:''" "visible_ends ''/row/''"
  by (simp_all add: visible_ends_def py_isspace_def)

lemma dlqs_ok:
  assumes "texts_ok x" "visible_ends (ca_source_name a)" "ds \<noteq> []"
  shows "row_dlq x a now n ds = Inr (row_dlq_of x a now n ds)"
    and "schema_dlq x a now ds = Inr (dlq_of x a now (ca_source_name a @ '':schema'')
          (at_scheme x @ ca_source_name a @ ''/schema'') ds)"
    and "source_dlq x a now ds = Inr (dlq_of x a now (ca_source_name a @ '':source'')
          (at_scheme x @ ca_source_name a @ ''/source'') ds)"
proof -
  have v: "visible_ends (at_scheme x)" using assms(1) by (simp add: texts_ok_def)
  show "row_dlq x a now n ds = Inr (row_dlq_of x a now n ds)"
    unfolding row_dlq_def row_dlq_of_def row_id_def
    by (intro adapter_dlq_ok assms visible_ends_append visible_suffixes visible_decimal_digits v)
  show "schema_dlq x a now ds = Inr (dlq_of x a now (ca_source_name a @ '':schema'')
      (at_scheme x @ ca_source_name a @ ''/schema'') ds)"
    unfolding schema_dlq_def by (intro adapter_dlq_ok assms visible_ends_append visible_suffixes v)
  show "source_dlq x a now ds = Inr (dlq_of x a now (ca_source_name a @ '':source'')
      (at_scheme x @ ca_source_name a @ ''/source'') ds)"
    unfolding source_dlq_def by (intro adapter_dlq_ok assms visible_ends_append visible_suffixes v)
qed

text \<open>What rejecting a row adds to the state.\<close>

definition rejected ::
    "adapter_texts \<Rightarrow> consumption_adapter \<Rightarrow> (nat \<Rightarrow> utc) \<Rightarrow> nat \<Rightarrow> adapter_diagnostic \<Rightarrow> ingest_state \<Rightarrow> ingest_state" where
  "rejected x a clock n d st =
     add_dlq (row_dlq_of x a (clock (length (in_dlqs st))) n [d]) (add_diagnostic d st)"

lemma reject_row_ok:
  "texts_ok x \<Longrightarrow> visible_ends (ca_source_name a) \<Longrightarrow> diagnostic = Inr d \<Longrightarrow>
   reject_row x a clock n diagnostic st = Inr (rejected x a clock n d st)"
  by (simp add: reject_row_def dlqs_ok rejected_def)

definition applied ::
    "adapter_texts \<Rightarrow> consumption_adapter \<Rightarrow> (nat \<Rightarrow> utc) \<Rightarrow> ingest_state \<Rightarrow> nat \<times> row_outcome \<Rightarrow> ingest_state" where
  "applied x a clock st no =
     (case snd no of
        RowAccepted c \<Rightarrow> add_candidate c st
      | RowShapeInvalid \<Rightarrow> rejected x a clock (fst no) (diagnostic_of (at_row_shape x) SEVERITY_ERROR None) st
      | RowInvalid \<Rightarrow> rejected x a clock (fst no) (diagnostic_of (at_row_validation x) SEVERITY_ERROR None) st)"

lemma apply_outcome_ok:
  assumes "texts_ok x" "visible_ends (ca_source_name a)"
  shows "apply_outcome x a clock n st outcome = Inr (applied x a clock st (n, outcome))"
proof -
  have "adapter_error (at_row_shape x) = Inr (diagnostic_of (at_row_shape x) SEVERITY_ERROR None)"
    "adapter_error (at_row_validation x) = Inr (diagnostic_of (at_row_validation x) SEVERITY_ERROR None)"
    using texts_okD [OF assms(1)] by (simp_all add: make_diagnostic_ok)
  then show ?thesis using reject_row_ok [OF assms]
    by (auto simp: apply_outcome_def applied_def split: row_outcome.splits)
qed

section \<open>Data rows\<close>

text \<open>The rows that count, with their logical numbers.\<close>

definition numbered_rows :: "('a \<Rightarrow> bool) \<Rightarrow> nat \<Rightarrow> 'a list \<Rightarrow> (nat \<times> 'a) list" where
  "numbered_rows blank n rows = enumerate (n + 1) (filter (\<lambda>r. \<not> blank r) rows)"

lemma numbered_rows_simps [simp]:
  "numbered_rows blank n [] = []"
  "numbered_rows blank n (r # rs) =
     (if blank r then numbered_rows blank n rs else (n + 1, r) # numbered_rows blank (n + 1) rs)"
  by (simp_all add: numbered_rows_def)

text \<open>Every row has an outcome before any is applied: an outcome never depends on the state.\<close>

definition row_outcomes ::
    "(nat \<Rightarrow> 'a \<Rightarrow> row_outcome result) \<Rightarrow> (nat \<times> 'a) list \<Rightarrow> (nat \<times> row_outcome) list result" where
  "row_outcomes f = map_result (\<lambda>(n, row). attempt (f n row) (\<lambda>outcome. Inr (n, outcome)))"

lemma row_outcomes_Nil [simp]: "row_outcomes f [] = Inr []"
  by (simp add: row_outcomes_def)

lemma row_outcomes_Cons [simp]:
  "row_outcomes f ((n, row) # rows) =
     attempt (f n row) (\<lambda>outcome. attempt (row_outcomes f rows) (\<lambda>outcomes. Inr ((n, outcome) # outcomes)))"
  by (cases "f n row") (simp_all add: row_outcomes_def)

lemma csv_data_rows_spec:
  assumes "visible_ends (ca_source_name a)"
  shows "csv_data_rows env a clock columns w n st rows =
    attempt (row_outcomes (csv_row_outcome env a columns w) (numbered_rows csv_blank_row n rows))
      (\<lambda>outcomes. Inr (foldl (applied csv_texts a clock) st outcomes))"
proof (induction rows arbitrary: n st)
  case (Cons row rows)
  show ?case
    by (cases "csv_row_outcome env a columns w (n + 1) row";
        cases "row_outcomes (csv_row_outcome env a columns w) (numbered_rows csv_blank_row (n + 1) rows)")
       (simp_all add: Cons apply_outcome_ok assms)
qed simp

lemma excel_data_rows_spec:
  assumes "visible_ends (ca_source_name a)"
  shows "excel_data_rows env a clock columns n st rows =
    attempt (row_outcomes (excel_row_outcome env a columns) (numbered_rows excel_blank_row n rows))
      (\<lambda>outcomes. Inr (foldl (applied excel_texts a clock) st outcomes))"
proof (induction rows arbitrary: n st)
  case (Cons row rows)
  show ?case
    by (cases "excel_row_outcome env a columns (n + 1) row";
        cases "row_outcomes (excel_row_outcome env a columns) (numbered_rows excel_blank_row (n + 1) rows)")
       (simp_all add: Cons apply_outcome_ok assms)
qed simp

definition accepted_candidates :: "(nat \<times> row_outcome) list \<Rightarrow> candidate list" where
  "accepted_candidates outcomes = concat (map (\<lambda>(n, outcome). case outcome of RowAccepted c \<Rightarrow> [c] | _ \<Rightarrow> []) outcomes)"

definition rejected_numbers :: "(nat \<times> row_outcome) list \<Rightarrow> nat list" where
  "rejected_numbers outcomes = concat (map (\<lambda>(n, outcome). case outcome of RowAccepted c \<Rightarrow> [] | _ \<Rightarrow> [n]) outcomes)"

lemma rejected_sel [simp]:
  "in_candidates (rejected x a clock n d st) = in_candidates st"
  "map dlq_record_id (in_dlqs (rejected x a clock n d st)) = map dlq_record_id (in_dlqs st) @ [row_id a n]"
  by (simp_all add: rejected_def add_dlq_def add_diagnostic_def row_dlq_of_def dlq_of_def)

lemma accepted_candidates_Cons:
  "accepted_candidates ((n, outcome) # outcomes) =
     (case outcome of RowAccepted c \<Rightarrow> [c] | _ \<Rightarrow> []) @ accepted_candidates outcomes"
  by (simp add: accepted_candidates_def)

lemma rejected_numbers_Cons:
  "rejected_numbers ((n, outcome) # outcomes) =
     (case outcome of RowAccepted c \<Rightarrow> [] | _ \<Rightarrow> [n]) @ rejected_numbers outcomes"
  by (simp add: rejected_numbers_def)

lemma applied_sel:
  "in_candidates (applied x a clock st (n, outcome)) =
     in_candidates st @ (case outcome of RowAccepted c \<Rightarrow> [c] | _ \<Rightarrow> [])"
  "map dlq_record_id (in_dlqs (applied x a clock st (n, outcome))) =
     map dlq_record_id (in_dlqs st) @ map (row_id a) (case outcome of RowAccepted c \<Rightarrow> [] | _ \<Rightarrow> [n])"
  by (simp_all add: applied_def add_candidate_def split: row_outcome.splits)

lemma applied_all:
  "in_candidates (foldl (applied x a clock) st outcomes) = in_candidates st @ accepted_candidates outcomes \<and>
   map dlq_record_id (in_dlqs (foldl (applied x a clock) st outcomes)) =
     map dlq_record_id (in_dlqs st) @ map (row_id a) (rejected_numbers outcomes)"
proof (induction outcomes arbitrary: st)
  case (Cons no outcomes)
  obtain n outcome where no: "no = (n, outcome)" by (cases no)
  show ?case using Cons [of "applied x a clock st no"]
    by (simp add: no applied_sel accepted_candidates_Cons rejected_numbers_Cons)
qed (simp add: accepted_candidates_def rejected_numbers_def)

section \<open>Series validation of the candidates\<close>

lemma issue_diagnostic_ok:
  "series_diagnostic (issue_of cs c) =
     Inr (diagnostic_of (issue_code_text (si_code (issue_of cs c)), si_message (issue_of cs c)) SEVERITY_ERROR (Some ''timestamp''))"
proof -
  have "text_ok (issue_code_text (si_code (issue_of cs c)), si_message (issue_of cs c))"
    using issue_texts_visible by (simp add: issue_of_def text_ok_def visible_ends_def py_isspace_def)
  moreover have "si_field_name (issue_of cs c) = ''timestamp''" by (simp add: issue_of_def)
  ultimately show ?thesis using issue_texts_visible(1) by (simp add: series_diagnostic_def make_diagnostic_ok)
qed

lemma visible_json_int: "visible_ends (json_int i)"
proof (cases "i < 0")
  case True
  have "visible_ends (''-'' @ decimal_digits (nat (- i)))"
    by (intro visible_ends_append visible_decimal_digits) (simp add: visible_ends_def py_isspace_def)
  then show ?thesis using True by (simp add: json_int_def)
qed (simp add: json_int_def visible_decimal_digits)

lemma gap_diagnostic_ok: "\<exists>d. gap_diagnostic g = Inr d"
proof -
  have code: "visible_ends ''consumption_missing_interval_gap''" "visible_ends ''timestamp''"
    by (simp_all add: visible_ends_def py_isspace_def)
  have "visible_ends (gap_diagnostic_message g)"
    by (auto simp: visible_ends_def gap_diagnostic_message_def py_isspace_def)
  then show ?thesis using code(1,2) by (simp add: gap_diagnostic_def make_diagnostic_ok text_ok_def)
qed

lemma reject_issues:
  assumes "texts_ok x" "visible_ends (ca_source_name a)"
  shows "\<exists>st'. fold_result (\<lambda>st i. reject_row x a clock (si_source_position i) (series_diagnostic i) st) st (map (issue_of cs) bad) = Inr st'
    \<and> in_candidates st' = in_candidates st
    \<and> map dlq_record_id (in_dlqs st') = map dlq_record_id (in_dlqs st) @ map (\<lambda>c. row_id a (cand_source_position c)) bad"
proof (induction bad arbitrary: st)
  case (Cons c bad)
  let ?d = "diagnostic_of (issue_code_text (si_code (issue_of cs c)), si_message (issue_of cs c)) SEVERITY_ERROR (Some ''timestamp'')"
  have "reject_row x a clock (si_source_position (issue_of cs c)) (series_diagnostic (issue_of cs c)) st =
      Inr (rejected x a clock (cand_source_position c) ?d st)"
    using reject_row_ok [OF assms issue_diagnostic_ok] by (simp add: issue_of_def)
  then show ?case using Cons [of "rejected x a clock (cand_source_position c) ?d st"] by auto
qed simp

definition series_split :: "consumption_adapter \<Rightarrow> candidate list \<Rightarrow> candidate list \<times> candidate list" where
  "series_split a cs = (filter (acceptable cs (ca_interval_grid a)) cs, filter (\<lambda>c. \<not> acceptable cs (ca_interval_grid a) c) cs)"

lemma with_series_validation_Inr:
  assumes "texts_ok x" "visible_ends (ca_source_name a)"
  shows "case with_series_validation x a clock st of
      Inl e \<Rightarrow> detect_gaps (fst (series_split a (in_candidates st))) (ca_interval_grid a) = Inl e
    | Inr r \<Rightarrow> detect_gaps (fst (series_split a (in_candidates st))) (ca_interval_grid a) \<in> range Inr \<and>
        sir_records r = map cand_record (fst (series_split a (in_candidates st))) \<and>
        map dlq_record_id (sir_dlq_records r) = map dlq_record_id (in_dlqs st) @
          map (\<lambda>c. row_id a (cand_source_position c)) (snd (series_split a (in_candidates st)))"
proof (cases "detect_gaps (fst (series_split a (in_candidates st))) (ca_interval_grid a)")
  case (Inl e)
  then show ?thesis
    by (simp add: with_series_validation_def validate_consumption_series_spec series_split_def)
next
  case (Inr gaps)
  obtain st' where st': "fold_result (\<lambda>st i. reject_row x a clock (si_source_position i) (series_diagnostic i) st) st
      (map (issue_of (in_candidates st)) (snd (series_split a (in_candidates st)))) = Inr st'"
    "map dlq_record_id (in_dlqs st') = map dlq_record_id (in_dlqs st) @
      map (\<lambda>c. row_id a (cand_source_position c)) (snd (series_split a (in_candidates st)))"
    using reject_issues [OF assms] by metis
  have "map_result gap_diagnostic gaps = Inr (map (\<lambda>g. projr (gap_diagnostic g)) gaps)"
    using gap_diagnostic_ok by (intro map_result_all_Inr) (metis sum.sel(2))
  then show ?thesis using Inr st' assms(2)
    by (simp add: with_series_validation_def validate_consumption_series_spec series_split_def
        structured_result_of_def make_structured_result_def visible_ends_iff)
qed

lemma os_error_unavailable_Inr [simp]: "os_error_unavailable msg r = Inr v \<longleftrightarrow> r = Inr v"
  by (simp add: os_error_unavailable_def split: sum.splits)

section \<open>Headers\<close>

text \<open>Blank rows before the header are skipped.\<close>

lemma csv_rows_header:
  "filter (\<lambda>r. \<not> csv_blank_row r) rows = header # data \<Longrightarrow>
   \<exists>rest. filter (\<lambda>r. \<not> csv_blank_row r) rest = data \<and> csv_rows env a clock rows =
     attempt (read_header csv_texts a clock header empty_ingest) (\<lambda>h. case h of
        Inl r \<Rightarrow> Inr (Inl r)
      | Inr (columns, st) \<Rightarrow>
          attempt (csv_data_rows env a clock columns (length header) (Suc 0) st rest) (\<lambda>st. Inr (Inr st)))"
proof (induction rows)
  case (Cons row rows)
  show ?case
  proof (cases "csv_blank_row row")
    case True
    then have "filter (\<lambda>r. \<not> csv_blank_row r) rows = header # data" using Cons.prems by simp
    from Cons.IH [OF this] show ?thesis using True by (simp only: csv_rows.simps if_True)
  next
    case False
    then show ?thesis using Cons.prems by (intro exI [of _ rows]) simp
  qed
qed simp

lemma excel_rows_header:
  "filter (\<lambda>r. \<not> excel_blank_row r) rows = header # data \<Longrightarrow>
   \<exists>rest. filter (\<lambda>r. \<not> excel_blank_row r) rest = data \<and> excel_rows env a clock rows =
     attempt (read_header excel_texts a clock (header_source_fields header) empty_ingest) (\<lambda>h. case h of
        Inl r \<Rightarrow> Inr (Inl r)
      | Inr (columns, st) \<Rightarrow> attempt (excel_data_rows env a clock columns (Suc 0) st rest) (\<lambda>st. Inr (Inr st)))"
proof (induction rows)
  case (Cons row rows)
  show ?case
  proof (cases "excel_blank_row row")
    case True
    then have "filter (\<lambda>r. \<not> excel_blank_row r) rows = header # data" using Cons.prems by simp
    from Cons.IH [OF this] show ?thesis using True by (simp only: excel_rows.simps if_True)
  next
    case False
    then show ?thesis using Cons.prems by (intro exI [of _ rows]) simp
  qed
qed simp

lemma read_header_accepted:
  "read_header x a clock header st = Inr (Inr (columns, st')) \<Longrightarrow>
   in_candidates st' = in_candidates st \<and> in_dlqs st' = in_dlqs st \<and>
   columns = canonical_column_index
     (apply_consumption_unit_safety (resolve_schema (ca_resolver a) header) (ca_power_unit a))"
  by (auto simp: read_header_def Let_def attempt_Inr_iff split: if_splits)

section \<open>Accounting for the rows\<close>

lemma row_outcomes_Inr:
  "row_outcomes f (enumerate k data) = Inr outcomes \<Longrightarrow>
   map fst outcomes = [k..<k + length data] \<and>
   (\<forall>(n, outcome) \<in> set outcomes. k \<le> n \<and> f n (data ! (n - k)) = Inr outcome)"
proof (induction data arbitrary: k outcomes)
  case (Cons row data)
  from Cons.prems obtain outcome rest where o: "f k row = Inr outcome" "outcomes = (k, outcome) # rest"
    and rest: "row_outcomes f (enumerate (Suc k) data) = Inr rest"
    by (auto simp: attempt_Inr_iff)
  have "f n ((row # data) ! (n - k)) = Inr x" if "(n, x) \<in> set rest" for n x
  proof -
    have "Suc k \<le> n" "f n (data ! (n - Suc k)) = Inr x" using Cons.IH [OF rest] that by auto
    then show ?thesis by (simp add: nth_Cons')
  qed
  moreover have "map fst rest = [Suc k..<Suc k + length data]" "\<forall>(n, x) \<in> set rest. Suc k \<le> n"
    using Cons.IH [OF rest] by auto
  ultimately show ?case using o upt_conv_Cons [of k "k + length (row # data)"] by fastforce
qed simp

lemma outcome_numbers:
  assumes "\<forall>(n, outcome) \<in> set outcomes. \<forall>c. outcome = RowAccepted c \<longrightarrow> cand_source_position c = n"
  shows "mset (map cand_source_position (accepted_candidates outcomes)) + mset (rejected_numbers outcomes) =
    mset (map fst outcomes)"
  using assms
proof (induction outcomes)
  case (Cons no outcomes)
  then show ?case
    by (cases no; cases "snd no") (auto simp: accepted_candidates_Cons rejected_numbers_Cons)
qed (simp add: accepted_candidates_def rejected_numbers_def)

lemma accepted_member: "c \<in> set (accepted_candidates outcomes) \<Longrightarrow> \<exists>n. (n, RowAccepted c) \<in> set outcomes"
  by (auto simp: accepted_candidates_def split: row_outcome.splits prod.splits)

lemma make_candidate_position: "make_candidate x t v n = Inr c \<Longrightarrow> cand_source_position c = n"
  by (auto simp: make_candidate_def attempt_Inr_iff split: cell.splits)

lemma row_result_accepted: "row_result r = Inr (RowAccepted c) \<longleftrightarrow> r = Inr c"
  by (auto simp: row_result_def split: sum.splits if_splits)

lemma csv_row_position: "csv_row_outcome env a columns w n row = Inr (RowAccepted c) \<Longrightarrow> cand_source_position c = n"
  by (auto simp: csv_row_outcome_def row_result_accepted attempt_Inr_iff split: if_splits dest: make_candidate_position)

lemma excel_row_position: "excel_row_outcome env a columns n row = Inr (RowAccepted c) \<Longrightarrow> cand_source_position c = n"
  by (auto simp: excel_row_outcome_def row_result_accepted attempt_Inr_iff split: if_splits sum.splits
      dest: make_candidate_position)

lemma row_id_inject: "row_id a n = row_id a m \<longleftrightarrow> n = m"
  by (simp add: row_id_def decimal_digits_inject)

lemma row_id_not_source: "row_id a n \<noteq> ca_source_name a @ '':source''"
  by (simp add: row_id_def)

text \<open>Given the outcomes of the data rows: who is kept, who is rejected.\<close>

definition kept_numbers :: "consumption_adapter \<Rightarrow> (nat \<times> row_outcome) list \<Rightarrow> nat list" where
  "kept_numbers a outcomes = map cand_source_position (fst (series_split a (accepted_candidates outcomes)))"

definition dropped_numbers :: "consumption_adapter \<Rightarrow> (nat \<times> row_outcome) list \<Rightarrow> nat list" where
  "dropped_numbers a outcomes =
     rejected_numbers outcomes @ map cand_source_position (snd (series_split a (accepted_candidates outcomes)))"

lemma kept_and_dropped:
  assumes "\<forall>(n, outcome) \<in> set outcomes. \<forall>c. outcome = RowAccepted c \<longrightarrow> cand_source_position c = n"
  shows "mset (kept_numbers a outcomes @ dropped_numbers a outcomes) = mset (map fst outcomes)"
proof -
  let ?cs = "accepted_candidates outcomes"
  have "mset (fst (series_split a ?cs)) + mset (snd (series_split a ?cs)) = mset ?cs"
    by (simp add: series_split_def)
  then have "mset (map cand_source_position (fst (series_split a ?cs))) +
      mset (map cand_source_position (snd (series_split a ?cs))) = mset (map cand_source_position ?cs)"
    by (metis image_mset_union mset_map)
  then show ?thesis using outcome_numbers [OF assms]
    by (simp add: kept_numbers_def dropped_numbers_def ac_simps)
qed

lemma make_csv_adapter_visible: "make_csv_adapter env name specs unit tz grid = Inr a \<Longrightarrow> visible_ends (ca_source_name a)"
  by (auto simp: make_csv_adapter_def make_consumption_adapter_def Let_def attempt_Inr_iff visible_ends_iff split: if_splits)

lemma kept_records:
  assumes "\<forall>(n, outcome) \<in> set outcomes. f n = Inr outcome"
    and "\<forall>(n, outcome) \<in> set outcomes. \<forall>c. outcome = RowAccepted c \<longrightarrow> cand_source_position c = n"
  shows "list_all2 (\<lambda>n r. f n = Inr (RowAccepted \<lparr>cand_record = r, cand_source_position = n\<rparr>))
    (kept_numbers a outcomes) (map cand_record (fst (series_split a (accepted_candidates outcomes))))"
proof -
  have "f (cand_source_position c) =
      Inr (RowAccepted \<lparr>cand_record = cand_record c, cand_source_position = cand_source_position c\<rparr>)"
    if "c \<in> set (fst (series_split a (accepted_candidates outcomes)))" for c
  proof -
    have "c \<in> set (accepted_candidates outcomes)" using that by (auto simp: series_split_def)
    then obtain n where n: "(n, RowAccepted c) \<in> set outcomes" using accepted_member by blast
    then have "f n = Inr (RowAccepted c)" "cand_source_position c = n" using assms by auto
    then show ?thesis by simp
  qed
  then show ?thesis by (simp add: kept_numbers_def list_all2_map1 list_all2_map2 list_all2_same)
qed

lemma distinct_ids:
  assumes "mset (kept @ dropped) = mset [2..<k]"
  shows "distinct (map (row_id a) dropped)" "ca_source_name a @ '':source'' \<notin> row_id a ` set dropped"
proof -
  have "distinct (kept @ dropped)" using assms by (metis distinct_upt mset_eq_imp_distinct_iff)
  then show "distinct (map (row_id a) dropped)"
    by (simp add: distinct_map inj_on_def row_id_inject)
  show "ca_source_name a @ '':source'' \<notin> row_id a ` set dropped" using row_id_not_source by (metis imageE)
qed

section \<open>Fatal schemas\<close>

text \<open>What construction gives: a stripped source name, and a resolver of the three required fields.\<close>

definition adapter_ok :: "consumption_adapter \<Rightarrow> bool" where
  "adapter_ok a \<longleftrightarrow> visible_ends (ca_source_name a) \<and>
     (\<exists>u specs t m. make_resolver u specs t m = Inr (ca_resolver a) \<and> validated_consumption_field_specs specs = Inr specs)"

lemma validated_specs_same: "validated_consumption_field_specs specs = Inr specs' \<Longrightarrow> specs' = specs"
  by (simp add: validated_consumption_field_specs_def Let_def split: if_splits)

lemma make_csv_adapter_ok: "make_csv_adapter env name specs unit tz grid = Inr a \<Longrightarrow> adapter_ok a"
proof -
  assume "make_csv_adapter env name specs unit tz grid = Inr a"
  then have m: "make_consumption_adapter env (py_strip name) specs unit tz grid = Inr a" "py_strip name \<noteq> []"
    by (auto simp: make_csv_adapter_def Let_def split: if_splits)
  then obtain z s r where "validated_consumption_field_specs (case specs of None \<Rightarrow> default_consumption_field_specs unit | Some s \<Rightarrow> s) = Inr s"
    "make_resolver (env_unicode env) s default_fuzzy_threshold default_ambiguity_margin = Inr r"
    "a = \<lparr>ca_source_name = py_strip name, ca_power_unit = unit, ca_timezone = z, ca_interval_grid = grid, ca_resolver = r\<rparr>"
    unfolding make_consumption_adapter_def attempt_Inr_iff by blast
  then show ?thesis using m(2) validated_specs_same by (auto simp: adapter_ok_def visible_ends_iff)
qed

definition header_schema :: "consumption_adapter \<Rightarrow> string list \<Rightarrow> schema_resolution" where
  "header_schema a header = apply_consumption_unit_safety (resolve_schema (ca_resolver a) header) (ca_power_unit a)"

definition schema_fatal :: "schema_resolution \<Rightarrow> bool" where
  "schema_fatal schema \<longleftrightarrow> sch_missing_required_fields schema \<noteq> [] \<or> sch_collisions schema \<noteq> [] \<or>
     (\<exists>r \<in> set (sch_field_resolutions schema). fr_status r = AMBIGUOUS)"

lemma required_visible: "c \<in> set required_canonical_order \<Longrightarrow> visible_ends c"
  by (auto simp: required_canonical_order_def visible_ends_def py_isspace_def)

lemma header_canonical_visible:
  assumes "adapter_ok a" "r \<in> set (sch_field_resolutions (header_schema a header))" "resolved_to c r"
  shows "visible_ends c"
proof -
  obtain u specs t m where mk: "make_resolver u specs t m = Inr (ca_resolver a)"
    and v: "validated_consumption_field_specs specs = Inr specs"
    using assms(1) by (auto simp: adapter_ok_def)
  have names: "fs_canonical_name ` set specs = set required_canonical_order"
    using v by (auto simp: validated_consumption_field_specs_def Let_def split: if_splits)
  obtain f where "r = apply_header_unit_policy (power_token (ca_power_unit a)) (resolve_field (ca_resolver a) f)"
    using assms(2) by (auto simp: header_schema_def apply_consumption_unit_safety_def resolve_schema_def Let_def)
  with assms(3) have "resolved_to c (resolve_field (ca_resolver a) f)" by (simp only: unit_policy_resolved)
  then have "fr_canonical_field (resolve_field (ca_resolver a) f) = Some c" by (simp add: resolved_to_def)
  then have "c \<in> fs_canonical_name ` set specs" by (rule resolve_field_cases(4) [OF mk])
  then show ?thesis unfolding names by (rule required_visible)
qed

lemma collision_keys: "c \<in> set (field_collisions pairs) \<Longrightarrow> co_canonical_field c \<in> fst ` set pairs"
proof -
  assume "c \<in> set (field_collisions pairs)"
  then obtain d where "co_canonical_field c = d" "d \<in> set (sort (remdups (map fst pairs)))"
    unfolding field_collisions_def by (auto simp del: set_sort set_remdups)
  then show ?thesis by simp
qed

lemma header_collision_visible:
  assumes "adapter_ok a" "c \<in> set (sch_collisions (header_schema a header))"
  shows "visible_ends (co_canonical_field c)"
proof -
  have "co_canonical_field c \<in> fst ` set (resolved_pairs (sch_field_resolutions (header_schema a header)))"
    using assms(2) by (intro collision_keys) (simp add: header_schema_def apply_consumption_unit_safety_def Let_def)
  then obtain r where "r \<in> set (sch_field_resolutions (header_schema a header))" "resolved_to (co_canonical_field c) r"
    using resolved_keys by blast
  then show ?thesis by (rule header_canonical_visible [OF assms(1)])
qed

lemma header_missing_visible: "c \<in> set (sch_missing_required_fields (header_schema a header)) \<Longrightarrow> visible_ends c"
  by (auto simp: header_schema_def apply_consumption_unit_safety_def Let_def intro: required_visible)

lemma field_diagnostic_ok:
  assumes "texts_ok x" "\<And>c. resolved_to c r \<Longrightarrow> visible_ends c"
  shows "\<exists>ds. field_diagnostic x r = Inr ds \<and> (filter snd ds \<noteq> [] \<longleftrightarrow> fr_status r = AMBIGUOUS)"
proof (cases "fr_status r")
  case RESOLVED
  then show ?thesis using texts_okD [OF assms(1)] assms(2)
    by (cases "fr_canonical_field r") (auto simp: field_diagnostic_def make_diagnostic_ok resolved_to_def)
next
  case AMBIGUOUS
  then show ?thesis using texts_okD [OF assms(1)] by (simp add: field_diagnostic_def make_diagnostic_ok)
next
  case UNRESOLVED
  then show ?thesis using texts_okD [OF assms(1)] by (simp add: field_diagnostic_def make_diagnostic_ok)
qed

lemma map_result_pointwise:
  "(\<And>x. x \<in> set xs \<Longrightarrow> \<exists>y. f x = Inr y \<and> P x y) \<Longrightarrow> \<exists>ys. map_result f xs = Inr ys \<and> list_all2 P xs ys"
proof (induction xs)
  case (Cons x xs)
  obtain y where "f x = Inr y \<and> P x y" using Cons.prems by fastforce
  moreover obtain ys where "map_result f xs = Inr ys \<and> list_all2 P xs ys" using Cons by fastforce
  ultimately show ?case by simp
qed simp

lemma list_all2_nonempty_filter:
  "list_all2 (\<lambda>x ds. filter snd ds \<noteq> [] \<longleftrightarrow> P x) xs dss \<Longrightarrow> filter snd (concat dss) = [] \<longleftrightarrow> (\<forall>x \<in> set xs. \<not> P x)"
  by (induction rule: list_all2_induct) auto

lemma schema_diagnostics_ok:
  assumes "texts_ok x" "adapter_ok a"
  shows "\<exists>ds fatal. schema_diagnostics x (header_schema a header) = Inr (ds, fatal) \<and>
    (fatal \<noteq> [] \<longleftrightarrow> schema_fatal (header_schema a header))"
proof -
  let ?s = "header_schema a header"
  note ok = texts_okD [OF assms(1)]
  have "missing_diagnostics x ?s =
      Inr (map (\<lambda>c. diagnostic_of (at_missing_required x) SEVERITY_ERROR (Some c)) (sch_missing_required_fields ?s))"
    unfolding missing_diagnostics_def
    by (intro map_result_all_Inr make_diagnostic_ok ok) (rule header_missing_visible)
  moreover have "collision_diagnostics x ?s =
      Inr (map (\<lambda>c. diagnostic_of (at_collision x) SEVERITY_ERROR (Some (co_canonical_field c))) (sch_collisions ?s))"
    unfolding collision_diagnostics_def
    by (intro map_result_all_Inr make_diagnostic_ok ok) (rule header_collision_visible [OF assms(2)])
  moreover have "\<exists>dss. map_result (field_diagnostic x) (sch_field_resolutions ?s) = Inr dss \<and>
      list_all2 (\<lambda>r ds. filter snd ds \<noteq> [] \<longleftrightarrow> fr_status r = AMBIGUOUS) (sch_field_resolutions ?s) dss"
    by (rule map_result_pointwise) (rule field_diagnostic_ok [OF assms(1) header_canonical_visible [OF assms(2)]])
  ultimately show ?thesis using list_all2_nonempty_filter
    by (force simp: schema_diagnostics_def schema_fatal_def)
qed

text \<open>The header is read on if and only if its schema is not fatal.\<close>

lemma read_header_spec:
  assumes "texts_ok x" "adapter_ok a"
  shows "schema_fatal (header_schema a header) \<Longrightarrow>
      \<exists>r. read_header x a clock header empty_ingest = Inr (Inl r) \<and> sir_records r = [] \<and>
        map dlq_record_id (sir_dlq_records r) = [ca_source_name a @ '':schema'']"
    and "\<not> schema_fatal (header_schema a header) \<Longrightarrow>
      \<exists>st. read_header x a clock header empty_ingest = Inr (Inr (canonical_column_index (header_schema a header), st))"
proof -
  obtain ds fatal where d: "schema_diagnostics x (header_schema a header) = Inr (ds, fatal)"
    "fatal \<noteq> [] \<longleftrightarrow> schema_fatal (header_schema a header)"
    using schema_diagnostics_ok [OF assms] by blast
  have v: "visible_ends (ca_source_name a)" using assms(2) by (simp add: adapter_ok_def)
  show "\<exists>r. read_header x a clock header empty_ingest = Inr (Inl r) \<and> sir_records r = [] \<and>
      map dlq_record_id (sir_dlq_records r) = [ca_source_name a @ '':schema'']"
    if "schema_fatal (header_schema a header)"
    using that d dlqs_ok(2) [OF assms(1) v, of fatal] v
    by (simp add: read_header_def header_schema_def [symmetric] Let_def structured_result_of_def
        make_structured_result_def visible_ends_iff add_dlq_def empty_ingest_def dlq_of_def)
  show "\<exists>st. read_header x a clock header empty_ingest = Inr (Inr (canonical_column_index (header_schema a header), st))"
    if "\<not> schema_fatal (header_schema a header)"
    using that d by (simp add: read_header_def header_schema_def [symmetric] Let_def)
qed

lemma accepted_columns:
  assumes "adapter_ok a" "\<not> schema_fatal (header_schema a header)" "c \<in> set required_canonical_order"
  shows "\<exists>i < length header. canonical_column_index (header_schema a header) c = Some i"
proof -
  obtain u specs t m where mk: "make_resolver u specs t m = Inr (ca_resolver a)"
    and v: "validated_consumption_field_specs specs = Inr specs"
    using assms(1) by (auto simp: adapter_ok_def)
  have s: "sch_missing_required_fields (header_schema a header) = []" "sch_collisions (header_schema a header) = []"
    using assms(2) by (simp_all add: schema_fatal_def)
  note cols = accepted_header_columns [OF mk v header_schema_def s]
  show ?thesis using cols assms(3) by (metis domD)
qed

section \<open>The two formats\<close>

lemma excel_blank_text [simp]: "excel_blank_row (map CellText row) \<longleftrightarrow> csv_blank_row row"
  by (simp add: excel_blank_row_def csv_blank_row_def list_all_iff)

lemma header_text:
  assumes "row \<noteq> []" "py_strip (last row) \<noteq> []"
  shows "header_source_fields (map CellText row) = row"
proof -
  have "rev (map CellText row) \<noteq> []" "\<not> is_blank_cell (hd (rev (map CellText row)))"
    using assms by (simp_all add: hd_rev last_map)
  then have "trim_trailing_blank (map CellText row) = map CellText row"
    by (simp add: trim_trailing_blank_def dropWhile_hd del: rev_is_Nil_conv)
  then show ?thesis by (simp add: header_source_fields_def comp_def)
qed

lemma row_outcome_text:
  assumes "length row = w" "columns ''consumer_id'' = Some i" "columns ''timestamp'' = Some j"
    "columns ''value_mw'' = Some k" "i < w" "j < w" "k < w"
  shows "excel_row_outcome env a columns n (map CellText row) = csv_row_outcome env a columns w n row"
  using assms by (simp add: excel_row_outcome_def csv_row_outcome_def column_cell_def)

lemma row_outcomes_map:
  "(\<And>n row. (n, row) \<in> set rows \<Longrightarrow> g n (h row) = f n row) \<Longrightarrow>
   row_outcomes g (map (\<lambda>(n, row). (n, h row)) rows) = row_outcomes f rows"
  by (induction rows) auto

lemma enumerate_map: "enumerate n (map f xs) = map (\<lambda>(n, x). (n, f x)) (enumerate n xs)"
  by (induction xs arbitrary: n) auto

text \<open>What a result says of the rows: records and dead letter identifiers.\<close>

definition ingested :: "structured_result \<Rightarrow> consumption_record list \<times> string list" where
  "ingested r = (sir_records r, map dlq_record_id (sir_dlq_records r))"

lemma with_series_validation_ingested:
  assumes "texts_ok x" "texts_ok y" "visible_ends (ca_source_name a)" "in_candidates st = in_candidates st'"
    "map dlq_record_id (in_dlqs st) = map dlq_record_id (in_dlqs st')"
  shows "map_sum id ingested (with_series_validation x a clock st) = map_sum id ingested (with_series_validation y a clock st')"
  using with_series_validation_Inr [OF assms(1,3), where clock = clock and st = st]
    with_series_validation_Inr [OF assms(2,3), where clock = clock and st = st'] assms(4,5)
  by (auto simp: ingested_def split: sum.splits)

text \<open>Without a grid, and when no row raises, an accepted header leads to an answer.\<close>

lemma csv_ingest_answers:
  assumes "adapter_ok a" "ca_interval_grid a = None" "filter (\<lambda>r. \<not> csv_blank_row r) rows = header # data"
    and "\<not> schema_fatal (header_schema a header)"
    and "\<forall>row \<in> set data. \<forall>n. \<exists>outcome.
      csv_row_outcome env a (canonical_column_index (header_schema a header)) (length header) n row = Inr outcome"
  shows "\<exists>r. csv_ingest env a clock (Inr (rows, None)) = Inr r"
proof -
  have v: "visible_ends (ca_source_name a)" using assms(1) by (simp add: adapter_ok_def)
  let ?columns = "canonical_column_index (header_schema a header)"
  obtain st0 where st0: "read_header csv_texts a clock header empty_ingest = Inr (Inr (?columns, st0))"
    using read_header_spec(2) [OF csv_texts_ok assms(1,4)] by blast
  obtain rest where rest: "filter (\<lambda>r. \<not> csv_blank_row r) rest = data" and rows: "csv_rows env a clock rows =
     attempt (csv_data_rows env a clock ?columns (length header) (Suc 0) st0 rest) (\<lambda>st. Inr (Inr st))"
    using csv_rows_header [OF assms(3), of env a clock] st0 by auto
  have "\<exists>outcomes. row_outcomes (csv_row_outcome env a ?columns (length header)) (enumerate n data) = Inr outcomes" for n
    using assms(5)
  proof (induction data arbitrary: n)
    case (Cons row data)
    obtain outcome where "csv_row_outcome env a ?columns (length header) n row = Inr outcome"
      using Cons.prems by (meson list.set_intros(1))
    moreover obtain outcomes where "row_outcomes (csv_row_outcome env a ?columns (length header)) (enumerate (Suc n) data) = Inr outcomes"
      using Cons by (meson list.set_intros(2))
    ultimately show ?case by simp
  qed simp
  then obtain outcomes where out: "row_outcomes (csv_row_outcome env a ?columns (length header)) (enumerate 2 data) = Inr outcomes"
    by blast
  have num: "numbered_rows csv_blank_row (Suc 0) rest = enumerate 2 data"
    using rest by (simp add: numbered_rows_def numeral_2_eq_2)
  let ?st = "foldl (applied csv_texts a clock) st0 outcomes"
  have "\<exists>r. with_series_validation csv_texts a clock ?st = Inr r"
    using with_series_validation_Inr [OF csv_texts_ok v, where clock = clock and st = ?st] assms(2)
    by (cases "with_series_validation csv_texts a clock ?st") (simp_all add: detect_gaps_def)
  then show ?thesis
    by (simp add: csv_ingest_def csv_read_and_normalize_def rows csv_data_rows_spec [OF v] num out)
qed

section \<open>Properties\<close>

text \<open>C21: ROW-ACCOUNTING. When a CSV ingestion answers past its header, every non-blank data row is
  counted exactly once: it is a record, converted from that row alone, or it has one dead letter under
  its own row number. A source that breaks off adds one dead letter for the source, keeping the rows
  read before; no two dead letters share an identifier.\<close>

theorem csv_rows_accounted:
  assumes "make_csv_adapter env name specs unit tz grid = Inr a"
    and "filter (\<lambda>r. \<not> csv_blank_row r) rows = header # data"
    and "read_header csv_texts a clock header empty_ingest = Inr (Inr (columns, st0))"
    and "csv_ingest env a clock (Inr (rows, ending)) = Inr r"
  shows "\<exists>kept dropped. mset (kept @ dropped) = mset [2..<length data + 2] \<and>
    list_all2 (\<lambda>n record_of. csv_row_outcome env a columns (length header) n (data ! (n - 2)) =
        Inr (RowAccepted \<lparr>cand_record = record_of, cand_source_position = n\<rparr>)) kept (sir_records r) \<and>
    mset (map dlq_record_id (sir_dlq_records r)) =
      mset (map (row_id a) dropped) + (if ending = None then {#} else {#ca_source_name a @ '':source''#}) \<and>
    distinct (map dlq_record_id (sir_dlq_records r))"
proof -
  have v: "visible_ends (ca_source_name a)" using assms(1) by (rule make_csv_adapter_visible)
  obtain rest where rest: "filter (\<lambda>r. \<not> csv_blank_row r) rest = data"
    and rows: "csv_rows env a clock rows =
      attempt (csv_data_rows env a clock columns (length header) (Suc 0) st0 rest) (\<lambda>st. Inr (Inr st))"
    using csv_rows_header [OF assms(2), of env a clock] assms(3) by auto
  let ?f = "csv_row_outcome env a columns (length header)"
  have numbered: "numbered_rows csv_blank_row (Suc 0) rest = enumerate 2 data"
    using rest by (simp add: numbered_rows_def numeral_2_eq_2)
  from assms(4) obtain outcomes where out: "row_outcomes ?f (enumerate 2 data) = Inr outcomes"
    by (auto simp: csv_ingest_def csv_read_and_normalize_def rows csv_data_rows_spec [OF v] numbered attempt_Inr_iff)
  let ?st = "foldl (applied csv_texts a clock) st0 outcomes"
  note facts = row_outcomes_Inr [OF out]
  have pos: "\<forall>(n, outcome) \<in> set outcomes. \<forall>c. outcome = RowAccepted c \<longrightarrow> cand_source_position c = n"
    using facts csv_row_position by fast
  have st: "in_candidates ?st = accepted_candidates outcomes"
    "map dlq_record_id (in_dlqs ?st) = map (row_id a) (rejected_numbers outcomes)"
    using applied_all [of csv_texts a clock st0 outcomes] read_header_accepted [OF assms(3)]
    by (simp_all add: empty_ingest_def)
  have "\<exists>st'. with_series_validation csv_texts a clock st' = Inr r \<and> in_candidates st' = in_candidates ?st \<and>
      map dlq_record_id (in_dlqs st') = map dlq_record_id (in_dlqs ?st) @
        (if ending = None then [] else [ca_source_name a @ '':source''])"
  proof (cases ending)
    case None
    then show ?thesis using assms(4) out
      by (auto simp: csv_ingest_def csv_read_and_normalize_def rows csv_data_rows_spec [OF v] numbered)
  next
    case (Some e)
    have fail: "\<exists>st'. source_failure csv_texts a clock t ?st = Inr st' \<and> in_candidates st' = in_candidates ?st \<and>
        map dlq_record_id (in_dlqs st') = map dlq_record_id (in_dlqs ?st) @ [ca_source_name a @ '':source'']"
      if "text_ok t" for t
      using that dlqs_ok(3) [OF csv_texts_ok v]
      by (simp add: source_failure_def make_diagnostic_ok add_dlq_def add_diagnostic_def dlq_of_def)
    from assms(4) out Some
    have "attempt (source_failure csv_texts a clock csv_decode_failed ?st) (with_series_validation csv_texts a clock) = Inr r
      \<or> attempt (source_failure csv_texts a clock csv_parse_failed ?st) (with_series_validation csv_texts a clock) = Inr r"
      by (auto simp: csv_ingest_def csv_read_and_normalize_def rows csv_data_rows_spec [OF v] numbered
          split: if_splits)
    then obtain t where t: "text_ok t"
      "attempt (source_failure csv_texts a clock t ?st) (with_series_validation csv_texts a clock) = Inr r"
      using source_texts_ok(1,2) by blast
    then show ?thesis using fail [OF t(1)] Some by auto
  qed
  then obtain st' where w: "with_series_validation csv_texts a clock st' = Inr r"
    "in_candidates st' = accepted_candidates outcomes"
    "map dlq_record_id (in_dlqs st') = map (row_id a) (rejected_numbers outcomes) @
        (if ending = None then [] else [ca_source_name a @ '':source''])"
    using st by auto
  let ?kept = "kept_numbers a outcomes" and ?dropped = "dropped_numbers a outcomes"
  have nums: "mset (?kept @ ?dropped) = mset [2..<length data + 2]"
    using kept_and_dropped [OF pos, of a] facts by (simp add: add.commute)
  have res: "sir_records r = map cand_record (fst (series_split a (accepted_candidates outcomes)))"
    "map dlq_record_id (sir_dlq_records r) = map (row_id a) (rejected_numbers outcomes) @
        (if ending = None then [] else [ca_source_name a @ '':source'']) @
        map (\<lambda>c. row_id a (cand_source_position c)) (snd (series_split a (accepted_candidates outcomes)))"
    using with_series_validation_Inr [OF csv_texts_ok v, where clock = clock and st = st'] w by simp_all
  have ids: "mset (map dlq_record_id (sir_dlq_records r)) =
      mset (map (row_id a) ?dropped) + (if ending = None then {#} else {#ca_source_name a @ '':source''#})"
    unfolding res(2) by (simp add: dropped_numbers_def comp_def)
  have "distinct (map dlq_record_id (sir_dlq_records r))"
    using distinct_ids [OF nums, of a] unfolding res(2) dropped_numbers_def by (auto simp: comp_def)
  moreover have "list_all2 (\<lambda>n record_of. ?f n (data ! (n - 2)) =
        Inr (RowAccepted \<lparr>cand_record = record_of, cand_source_position = n\<rparr>)) ?kept (sir_records r)"
    unfolding res(1) by (rule kept_records [OF _ pos]) (use facts in blast)
  ultimately show ?thesis using nums ids by blast
qed

text \<open>C22: FORMATS-AGREE. A rectangular table of text, with no blank cell at the end of its header,
  gives the same records and the same dead letter identifiers, in the same order, whether it comes as
  CSV or as the active worksheet of a workbook; the two adapters answer for the same tables.\<close>

theorem csv_and_excel_agree:
  assumes "make_csv_adapter env name specs unit tz grid = Inr a"
    and "filter (\<lambda>r. \<not> csv_blank_row r) rows = header # data"
    and "\<forall>row \<in> set data. length row = length header" and "py_strip (last header) \<noteq> []"
    and "wb_active wb = Some (map (map CellText) rows, None)"
  shows "(\<exists>r. csv_ingest env a clock (Inr (rows, None)) = Inr r \<and> ingested r = result_of) \<longleftrightarrow>
    (\<exists>r. excel_ingest env a None clock (Inr wb) = Inr r \<and> ingested r = result_of)"
proof -
  have ok: "adapter_ok a" using assms(1) by (rule make_csv_adapter_ok)
  then have v: "visible_ends (ca_source_name a)" by (simp add: adapter_ok_def)
  have "header \<noteq> []"
  proof
    assume "header = []"
    then have "csv_blank_row header" by (simp add: csv_blank_row_def)
    moreover have "header \<in> set (filter (\<lambda>r. \<not> csv_blank_row r) rows)" unfolding assms(2) by simp
    ultimately show False by simp
  qed
  then have hdr: "header_source_fields (map CellText header) = header" using assms(4) by (rule header_text)
  have efilter: "filter (\<lambda>r. \<not> excel_blank_row r) (map (map CellText) rows) = map CellText header # map (map CellText) data"
    using assms(2) by (simp add: filter_map comp_def)
  obtain crest where crest: "filter (\<lambda>r. \<not> csv_blank_row r) crest = data"
    and crows: "csv_rows env a clock rows =
     attempt (read_header csv_texts a clock header empty_ingest) (\<lambda>h. case h of
        Inl r \<Rightarrow> Inr (Inl r)
      | Inr (columns, st) \<Rightarrow>
          attempt (csv_data_rows env a clock columns (length header) (Suc 0) st crest) (\<lambda>st. Inr (Inr st)))"
    using csv_rows_header [OF assms(2)] by blast
  obtain erest where erest: "filter (\<lambda>r. \<not> excel_blank_row r) erest = map (map CellText) data"
    and erows: "excel_rows env a clock (map (map CellText) rows) =
     attempt (read_header excel_texts a clock header empty_ingest) (\<lambda>h. case h of
        Inl r \<Rightarrow> Inr (Inl r)
      | Inr (columns, st) \<Rightarrow>
          attempt (excel_data_rows env a clock columns (Suc 0) st erest) (\<lambda>st. Inr (Inr st)))"
    using excel_rows_header [OF efilter] unfolding hdr by blast
  have equal: "map_sum id ingested (csv_read_and_normalize env a clock (rows, None)) =
      map_sum id ingested (excel_read_and_normalize env a None clock (Inr wb))"
  proof (cases "schema_fatal (header_schema a header)")
    case True
    show ?thesis
      using read_header_spec(1) [OF csv_texts_ok ok True, of clock] read_header_spec(1) [OF excel_texts_ok ok True, of clock]
      by (auto simp: csv_read_and_normalize_def excel_read_and_normalize_def select_worksheet_def assms(5)
          ingest_worksheet_def crows erows ingested_def)
  next
    case False
    let ?columns = "canonical_column_index (header_schema a header)"
    obtain cst where cst: "read_header csv_texts a clock header empty_ingest = Inr (Inr (?columns, cst))"
      using read_header_spec(2) [OF csv_texts_ok ok False] by blast
    obtain est where est: "read_header excel_texts a clock header empty_ingest = Inr (Inr (?columns, est))"
      using read_header_spec(2) [OF excel_texts_ok ok False] by blast
    let ?f = "csv_row_outcome env a ?columns (length header)" and ?g = "excel_row_outcome env a ?columns"
    obtain i j k where cols: "?columns ''consumer_id'' = Some i" "?columns ''timestamp'' = Some j"
      "?columns ''value_mw'' = Some k" "i < length header" "j < length header" "k < length header"
      using accepted_columns [OF ok False] unfolding required_canonical_order_def by (meson list.set_intros)
    have same: "row_outcomes ?g (enumerate 2 (map (map CellText) data)) = row_outcomes ?f (enumerate 2 data)"
      unfolding enumerate_map
    proof (rule row_outcomes_map)
      fix n row assume "(n, row) \<in> set (enumerate 2 data)"
      then have "length row = length header" using assms(3) by (metis in_set_enumerate_eq nth_mem fst_conv snd_conv less_diff_conv2)
      then show "?g n (map CellText row) = ?f n row" using row_outcome_text cols by blast
    qed
    have cnum: "numbered_rows csv_blank_row (Suc 0) crest = enumerate 2 data"
      "numbered_rows excel_blank_row (Suc 0) erest = enumerate 2 (map (map CellText) data)"
      using crest erest by (simp_all add: numbered_rows_def numeral_2_eq_2)
    show ?thesis
    proof (cases "row_outcomes ?f (enumerate 2 data)")
      case (Inl e)
      then show ?thesis using same
        by (simp add: csv_read_and_normalize_def excel_read_and_normalize_def select_worksheet_def assms(5)
            ingest_worksheet_def crows erows cst est csv_data_rows_spec [OF v] excel_data_rows_spec [OF v] cnum)
    next
      case (Inr outcomes)
      let ?c = "foldl (applied csv_texts a clock) cst outcomes" and ?e = "foldl (applied excel_texts a clock) est outcomes"
      have "in_candidates ?c = in_candidates ?e" "map dlq_record_id (in_dlqs ?c) = map dlq_record_id (in_dlqs ?e)"
        using applied_all [of csv_texts a clock cst outcomes] applied_all [of excel_texts a clock est outcomes]
          read_header_accepted [OF cst] read_header_accepted [OF est] by simp_all
      from with_series_validation_ingested [OF csv_texts_ok excel_texts_ok v this, of clock] Inr same show ?thesis
        by (simp add: csv_read_and_normalize_def excel_read_and_normalize_def select_worksheet_def assms(5)
            ingest_worksheet_def crows erows cst est csv_data_rows_spec [OF v] excel_data_rows_spec [OF v] cnum)
    qed
  qed
  have inr: "(\<exists>r. x = Inr r \<and> ingested r = result_of) \<longleftrightarrow> map_sum id ingested x = Inr result_of" for x :: "structured_result result"
    by (cases x) simp_all
  have "csv_ingest env a clock (Inr (rows, None)) = Inr r \<longleftrightarrow> csv_read_and_normalize env a clock (rows, None) = Inr r"
    "excel_ingest env a None clock (Inr wb) = Inr r \<longleftrightarrow> excel_read_and_normalize env a None clock (Inr wb) = Inr r" for r
    by (simp_all add: csv_ingest_def excel_ingest_def)
  then show ?thesis by (simp only: inr equal)
qed

text \<open>A header with a missing or doubly mapped canonical field or an ambiguous cell
  ends the ingestion: no record, and one dead letter for the schema, whatever rows and whatever failure
  of the source follow.\<close>

theorem fatal_schema_ends_ingestion:
  assumes "make_csv_adapter env name specs unit tz grid = Inr a"
    and "filter (\<lambda>r. \<not> csv_blank_row r) rows = header # data" and "schema_fatal (header_schema a header)"
  shows "\<exists>r. csv_ingest env a clock (Inr (rows, ending)) = Inr r \<and> ingested r = ([], [ca_source_name a @ '':schema''])"
proof -
  have ok: "adapter_ok a" using assms(1) by (rule make_csv_adapter_ok)
  obtain rest where "csv_rows env a clock rows =
     attempt (read_header csv_texts a clock header empty_ingest) (\<lambda>h. case h of
        Inl r \<Rightarrow> Inr (Inl r)
      | Inr (columns, st) \<Rightarrow>
          attempt (csv_data_rows env a clock columns (length header) (Suc 0) st rest) (\<lambda>st. Inr (Inr st)))"
    using csv_rows_header [OF assms(2)] by blast
  then show ?thesis using read_header_spec(1) [OF csv_texts_ok ok assms(3), of clock]
    by (auto simp: csv_ingest_def csv_read_and_normalize_def ingested_def)
qed

text \<open>A kilowatt cell whose decimal leaves the context's exponent range
  is not rejected with its row: the decimal overflow leaves the adapter, and no row is reported.\<close>

theorem kilowatt_cell_aborts_ingestion:
  assumes "make_csv_adapter env name specs KW tz grid = Inr a"
    and "filter (\<lambda>r. \<not> csv_blank_row r) rows = header # data"
    and "\<not> schema_fatal (header_schema a header)"
    and "canonical_column_index (header_schema a header) ''value_mw'' = Some k"
    and "canonical_column_index (header_schema a header) ''timestamp'' = Some j"
    and "data = before @ row # after" and "length row = length header" and "row ! k = ''9e1000003''"
    and "attempt (consumption_timestamp_from_csv (row ! j)) (\<lambda>v.
           normalize_timestamp_to_utc (env_fromisoformat env) v (ca_timezone a)) = Inr t"
    and "\<forall>r \<in> set before. \<forall>n. \<exists>outcome.
           csv_row_outcome env a (canonical_column_index (header_schema a header)) (length header) n r = Inr outcome"
  shows "csv_ingest env a clock (Inr (rows, ending)) = Inl (DecimalException Overflow)"
proof -
  have ok: "adapter_ok a" and v: "visible_ends (ca_source_name a)" and unit: "ca_power_unit a = KW"
    using make_csv_adapter_ok [OF assms(1)] make_csv_adapter_visible [OF assms(1)] assms(1)
    by (auto simp: make_csv_adapter_def make_consumption_adapter_def Let_def attempt_Inr_iff split: if_splits)
  let ?columns = "canonical_column_index (header_schema a header)"
  let ?f = "csv_row_outcome env a ?columns (length header)"
  obtain st0 where st0: "read_header csv_texts a clock header empty_ingest = Inr (Inr (?columns, st0))"
    using read_header_spec(2) [OF csv_texts_ok ok assms(3)] by blast
  obtain rest where rest: "filter (\<lambda>r. \<not> csv_blank_row r) rest = data" and rows: "csv_rows env a clock rows =
     attempt (csv_data_rows env a clock ?columns (length header) (Suc 0) st0 rest) (\<lambda>st. Inr (Inr st))"
    using csv_rows_header [OF assms(2), of env a clock] st0 by auto
  have num: "numbered_rows csv_blank_row (Suc 0) rest = enumerate 2 data"
    using rest by (simp add: numbered_rows_def numeral_2_eq_2)
  obtain i where i: "?columns ''consumer_id'' = Some i" "i < length header"
    using accepted_columns [OF ok assms(3), of "''consumer_id''"] by (auto simp: required_canonical_order_def)
  have jk: "j < length header" "k < length header"
    using accepted_columns [OF ok assms(3), of "''timestamp''"] accepted_columns [OF ok assms(3), of "''value_mw''"] assms(4,5)
    by (auto simp: required_canonical_order_def)
  have bad: "?f n row = Inl (DecimalException Overflow)" for n
  proof -
    have "\<exists>v. consumption_timestamp_from_csv (row ! j) = Inr v \<and>
        normalize_timestamp_to_utc (env_fromisoformat env) v (ca_timezone a) = Inr t"
      using assms(9) by (simp add: attempt_Inr_iff)
    then show ?thesis using i jk assms(4,5,7,8) kilowatt_overflow_escapes
      by (auto simp: csv_row_outcome_def column_cell_def unit row_result_def is_row_error_def)
  qed
  have "row_outcomes ?f (enumerate m (before @ row # after)) = Inl (DecimalException Overflow)" for m
    using assms(10)
  proof (induction before arbitrary: m)
    case (Cons b before)
    obtain outcome where "?f m b = Inr outcome" using Cons.prems by (meson list.set_intros(1))
    then show ?case using Cons by simp
  qed (simp add: bad)
  then show ?thesis
    by (simp add: csv_ingest_def csv_read_and_normalize_def rows csv_data_rows_spec [OF v] num assms(6)
        os_error_unavailable_def)
qed

subsection \<open>A sample adapter\<close>

definition sample_specs :: "field_spec list" where
  "sample_specs =
     [\<lparr>fs_canonical_name = ''consumer_id'', fs_aliases = [], fs_required = True\<rparr>,
      \<lparr>fs_canonical_name = ''timestamp'', fs_aliases = [], fs_required = True\<rparr>,
      \<lparr>fs_canonical_name = ''value_mw'', fs_aliases = [''load''], fs_required = True\<rparr>]"

definition sample_environment :: environment where
  "sample_environment = \<lparr>env_zoneinfo = (\<lambda>_. None),
     env_fromisoformat = (\<lambda>t. if t = ''T1'' then Some (Aware 3600000000 0) else None), env_unicode = ascii_text\<rparr>"

definition sample_columns :: "string list" where
  "sample_columns = [''consumer_id'', ''timestamp'', ''load'']"

lemma sample_load_name: "normalize_field_name ascii_text ''load'' = ''load''"
  by (simp add: header_eval)

lemma sample_adapter:
  obtains a where "make_csv_adapter sample_environment ''s'' (Some sample_specs) unit None None = Inr a"
    "ca_source_name a = ''s''" "ca_power_unit a = unit" "ca_timezone a = None" "ca_interval_grid a = None"
    "\<not> schema_fatal (header_schema a sample_columns)"
    "canonical_column_index (header_schema a sample_columns) = [''consumer_id'' \<mapsto> 0, ''timestamp'' \<mapsto> 1, ''value_mw'' \<mapsto> 2]"
proof -
  let ?lookup = "[''consumer id'' \<mapsto> (''consumer_id'', ''consumer_id''), ''timestamp'' \<mapsto> (''timestamp'', ''timestamp''),
     ''value mw'' \<mapsto> (''value_mw'', ''value_mw''), ''load'' \<mapsto> (''value_mw'', ''load'')]"
  have index: "\<exists>ixs. build_mapping_index ascii_text sample_specs = Inr (ixs, ?lookup)"
    by (simp add: build_mapping_index_def sample_specs_def sample_names sample_load_name register_exact_def Let_def)
  then obtain r where r: "make_resolver ascii_text sample_specs default_fuzzy_threshold default_ambiguity_margin = Inr r"
    "rv_unicode r = ascii_text" "rv_exact_lookup r = ?lookup"
    using default_thresholds_accepted by (auto simp: make_resolver_def)
  let ?a = "\<lparr>ca_source_name = ''s'', ca_power_unit = unit, ca_timezone = None, ca_interval_grid = None, ca_resolver = r\<rparr>"
  have "validated_consumption_field_specs sample_specs = Inr sample_specs"
    by (simp add: validated_consumption_field_specs_def sample_specs_def required_canonical_order_def)
  then have made: "make_csv_adapter sample_environment ''s'' (Some sample_specs) unit None None = Inr ?a"
    using r(1) by (simp add: make_csv_adapter_def make_consumption_adapter_def sample_environment_def py_strip_def
        py_isspace_def resolve_source_timezone_def)
  let ?field = "\<lambda>source normalized c. \<lparr>fr_source_field = source, fr_normalized_source_field = normalized,
      fr_status = RESOLVED, fr_canonical_field = Some c, fr_method = Some EXACT, fr_confidence = float_one,
      fr_candidates = [\<lparr>fc_canonical_field = c, fc_confidence = float_one, fc_matched_representation = source\<rparr>]\<rparr>"
  let ?rs = "[?field ''consumer_id'' ''consumer id'' ''consumer_id'', ?field ''timestamp'' ''timestamp'' ''timestamp'',
      ?field ''load'' ''load'' ''value_mw'']"
  have resolved: "map (resolve_field r) sample_columns = ?rs"
    using r(2,3) by (simp add: sample_columns_def resolve_field_def sample_names sample_load_name Let_def)
  have tokens: "py_split ''load'' = [''load'']" by (simp add: header_eval)
  have policy: "map (apply_header_unit_policy (power_token unit)) ?rs = ?rs"
    by (simp add: apply_header_unit_policy_def tokens header_claims_conflicting_unit_def is_energy_like_def
        energy_last_tokens_def known_power_tokens_def)
  have pairs: "resolved_pairs ?rs =
      [(''consumer_id'', ''consumer_id''), (''timestamp'', ''timestamp''), (''value_mw'', ''load'')]"
    by (simp add: resolved_pairs_def)
  have coll: "field_collisions [(''consumer_id'', ''consumer_id''), (''timestamp'', ''timestamp''), (''value_mw'', ''load'')] = []"
    by (simp add: field_collisions_def filter_empty_conv sources_of_def)
  have schema: "header_schema ?a sample_columns =
      \<lparr>sch_field_resolutions = ?rs, sch_missing_required_fields = [], sch_collisions = []\<rparr>"
    unfolding header_schema_def apply_consumption_unit_safety_def resolve_schema_def Let_def
    by (simp only: resolved policy pairs coll consumption_adapter.select_convs schema_resolution.select_convs
        required_canonical_order_def) simp
  have "\<not> schema_fatal (header_schema ?a sample_columns)" unfolding schema by (simp add: schema_fatal_def)
  moreover have "canonical_column_index (header_schema ?a sample_columns) =
      [''consumer_id'' \<mapsto> 0, ''timestamp'' \<mapsto> 1, ''value_mw'' \<mapsto> 2]"
    unfolding schema by (simp add: canonical_column_index_def column_step_def numeral_2_eq_2)
  ultimately show ?thesis using that [OF made] by simp
qed

lemma sample_values:
  "attempt (consumption_timestamp_from_csv ''T1'') (\<lambda>v.
     normalize_timestamp_to_utc (env_fromisoformat sample_environment) v None) = Inr 3600000000"
  "normalize_power_to_mw (CellText ''2'') MW = Inr (Fl False 2 0)"
proof -
  have p: "py_strip ''T1'' = ''T1''" by (simp add: py_strip_def py_isspace_def)
  have "float_accepts ''T1'' = False"
    by (simp add: float_accepts_def p lower_char_def char_of_def numeral_syntax_def is_digit_def Let_def)
  then show "attempt (consumption_timestamp_from_csv ''T1'') (\<lambda>v.
     normalize_timestamp_to_utc (env_fromisoformat sample_environment) v None) = Inr 3600000000"
    by (simp add: consumption_timestamp_from_csv_def is_bare_numeric_text_def p normalize_timestamp_to_utc_def
        parse_timestamp_text_def is_date_only_text_def sample_environment_def astimezone_utc_def datetime_minus_def
        datetime_max_def Let_def)
  show "normalize_power_to_mw (CellText ''2'') MW = Inr (Fl False 2 0)"
    by (simp add: normalize_power_to_mw_def text_eval float_round_def round_magnitude_def binary64_def unit_exponent_def
        dropped_weight_def)
qed

lemma sample_row_outcomes:
  assumes "ca_power_unit a = MW" "ca_timezone a = None"
  shows "csv_row_outcome sample_environment a [''consumer_id'' \<mapsto> 0, ''timestamp'' \<mapsto> 1, ''value_mw'' \<mapsto> 2] 3 n
      [''c'', ''T1'', ''2''] = Inr (RowAccepted \<lparr>cand_record = \<lparr>cr_consumer_id = ''c'', cr_timestamp = 3600000000,
        cr_value_mw = Fl False 2 0\<rparr>, cand_source_position = n\<rparr>)"
    and "csv_row_outcome sample_environment a columns 3 n [''c'', ''T1''] = Inr RowShapeInvalid"
proof -
  have c: "entity_id ''c'' = Inr ''c''" by (simp add: entity_id_def strip_whitespace_def white_space_def)
  have v: "validate_consumption_record \<lparr>cr_consumer_id = ''c'', cr_timestamp = 3600000000, cr_value_mw = Fl False 2 0\<rparr> =
      Inr \<lparr>cr_consumer_id = ''c'', cr_timestamp = 3600000000, cr_value_mw = Fl False 2 0\<rparr>"
    by (simp add: validate_consumption_record_def c validated_def raise_if_def non_negative_mw_def float_zero_def
        float_aligned_def)
  obtain w where w: "consumption_timestamp_from_csv ''T1'' = Inr w"
    "normalize_timestamp_to_utc (env_fromisoformat sample_environment) w None = Inr 3600000000"
    using sample_values(1) by (auto simp: attempt_Inr_iff)
  show "csv_row_outcome sample_environment a [''consumer_id'' \<mapsto> 0, ''timestamp'' \<mapsto> 1, ''value_mw'' \<mapsto> 2] 3 n
      [''c'', ''T1'', ''2''] = Inr (RowAccepted \<lparr>cand_record = \<lparr>cr_consumer_id = ''c'', cr_timestamp = 3600000000,
        cr_value_mw = Fl False 2 0\<rparr>, cand_source_position = n\<rparr>)"
    using assms w sample_values(2) v
    by (simp add: csv_row_outcome_def column_cell_def make_candidate_def row_result_def)
  show "csv_row_outcome sample_environment a columns 3 n [''c'', ''T1''] = Inr RowShapeInvalid"
    by (simp add: csv_row_outcome_def)
qed

text \<open>A table with a good row and one that lacks a cell.\<close>

definition sample_rows :: "string list list" where
  "sample_rows = [sample_columns, [''c'', ''T1'', ''2''], [''''], [''c'', ''T1'']]"

lemma sample_nonblank:
  "filter (\<lambda>r. \<not> csv_blank_row r) sample_rows = sample_columns # [[''c'', ''T1'', ''2''], [''c'', ''T1'']]"
  by (simp add: sample_rows_def sample_columns_def csv_blank_row_def py_strip_def py_isspace_def)

lemma csv_rows_accounted_witness:
  "\<exists>a r. make_csv_adapter sample_environment ''s'' (Some sample_specs) MW None None = Inr a \<and>
     csv_ingest sample_environment a (\<lambda>_. 0) (Inr (sample_rows, None)) = Inr r \<and>
     distinct (map dlq_record_id (sir_dlq_records r))"
proof -
  obtain a where a: "make_csv_adapter sample_environment ''s'' (Some sample_specs) MW None None = Inr a"
    "ca_power_unit a = MW" "ca_timezone a = None" "ca_interval_grid a = None"
    "\<not> schema_fatal (header_schema a sample_columns)"
    and cols: "canonical_column_index (header_schema a sample_columns) =
      [''consumer_id'' \<mapsto> 0, ''timestamp'' \<mapsto> 1, ''value_mw'' \<mapsto> 2]"
    by (rule sample_adapter [of MW])
  have ok: "adapter_ok a" using a(1) by (rule make_csv_adapter_ok)
  have len: "length sample_columns = 3" by (simp add: sample_columns_def)
  obtain r where r: "csv_ingest sample_environment a (\<lambda>_. 0) (Inr (sample_rows, None)) = Inr r"
    using csv_ingest_answers [OF ok a(4) sample_nonblank a(5), of sample_environment "\<lambda>_. 0"]
      sample_row_outcomes [OF a(2,3)] unfolding cols len by auto
  obtain st where "read_header csv_texts a (\<lambda>_. 0) sample_columns empty_ingest =
      Inr (Inr (canonical_column_index (header_schema a sample_columns), st))"
    using read_header_spec(2) [OF csv_texts_ok ok a(5)] by blast
  from csv_rows_accounted [OF a(1) sample_nonblank this r] show ?thesis using a(1) r by blast
qed

lemma fatal_schema_ends_ingestion_witness:
  "\<exists>a r. make_csv_adapter sample_environment ''s'' (Some sample_specs) MW None None = Inr a \<and>
     csv_ingest sample_environment a (\<lambda>_. 0) (Inr ([[''load'', ''load'']], None)) = Inr r \<and> sir_records r = []"
proof -
  obtain a where a: "make_csv_adapter sample_environment ''s'' (Some sample_specs) MW None None = Inr a"
    by (rule sample_adapter [of MW])
  have nb: "filter (\<lambda>r. \<not> csv_blank_row r) [[''load'', ''load'']] = [''load'', ''load''] # []"
    by (simp add: csv_blank_row_def py_strip_def py_isspace_def)
  let ?s = "header_schema a [''load'', ''load'']"
  have "schema_fatal ?s"
  proof (rule ccontr)
    assume f: "\<not> schema_fatal ?s"
    have ok: "adapter_ok a" using a by (rule make_csv_adapter_ok)
    have len: "length [''load'', ''load''] = 2" by simp
    obtain i j k where ijk: "canonical_column_index ?s ''consumer_id'' = Some i" "i < 2"
      "canonical_column_index ?s ''timestamp'' = Some j" "j < 2"
      "canonical_column_index ?s ''value_mw'' = Some k" "k < 2"
      using accepted_columns [OF ok f] unfolding len required_canonical_order_def by (meson list.set_intros)
    have inj: "canonical_column_index ?s c = Some x \<Longrightarrow> canonical_column_index ?s d = Some x \<Longrightarrow> c = d" for c d x
      using column_steps [of Map.empty 0 "sch_field_resolutions ?s" c x] column_steps [of Map.empty 0 "sch_field_resolutions ?s" d x]
      by (simp add: canonical_column_index_def resolved_to_def)
    have "i \<noteq> j" using inj [of "''consumer_id''" i "''timestamp''"] ijk by auto
    moreover have "i \<noteq> k" using inj [of "''consumer_id''" i "''value_mw''"] ijk by auto
    moreover have "j \<noteq> k" using inj [of "''timestamp''" j "''value_mw''"] ijk by auto
    ultimately show False using ijk by simp
  qed
  from fatal_schema_ends_ingestion [OF a nb this, of "\<lambda>_. 0" None] show ?thesis using a by (auto simp: ingested_def)
qed


lemma kilowatt_cell_aborts_ingestion_witness:
  "\<exists>a. make_csv_adapter sample_environment ''s'' (Some sample_specs) KW None None = Inr a \<and>
     csv_ingest sample_environment a (\<lambda>_. 0)
       (Inr ([sample_columns, [''c'', ''T1''], [''c'', ''T1'', ''9e1000003'']], None)) = Inl (DecimalException Overflow)"
proof -
  obtain a where a: "make_csv_adapter sample_environment ''s'' (Some sample_specs) KW None None = Inr a"
    "ca_timezone a = None" "\<not> schema_fatal (header_schema a sample_columns)"
    and cols: "canonical_column_index (header_schema a sample_columns) =
      [''consumer_id'' \<mapsto> 0, ''timestamp'' \<mapsto> 1, ''value_mw'' \<mapsto> 2]"
    by (rule sample_adapter [of KW])
  have nb: "filter (\<lambda>r. \<not> csv_blank_row r) [sample_columns, [''c'', ''T1''], [''c'', ''T1'', ''9e1000003'']] =
      sample_columns # ([[''c'', ''T1'']] @ [''c'', ''T1'', ''9e1000003''] # [])"
    by (simp add: sample_columns_def csv_blank_row_def py_strip_def py_isspace_def)
  have k: "canonical_column_index (header_schema a sample_columns) ''value_mw'' = Some 2"
    "canonical_column_index (header_schema a sample_columns) ''timestamp'' = Some 1" by (simp_all add: cols)
  have short: "\<forall>r \<in> set [[''c'', ''T1'']]. \<forall>n. \<exists>outcome. csv_row_outcome sample_environment a
      (canonical_column_index (header_schema a sample_columns)) (length sample_columns) n r = Inr outcome"
    by (simp add: csv_row_outcome_def sample_columns_def)
  have t: "attempt (consumption_timestamp_from_csv ([''c'', ''T1'', ''9e1000003''] ! 1)) (\<lambda>v.
      normalize_timestamp_to_utc (env_fromisoformat sample_environment) v (ca_timezone a)) = Inr 3600000000"
    using sample_values(1) a(2) by simp
  show ?thesis
    using kilowatt_cell_aborts_ingestion [OF a(1) nb a(3) k refl _ _ t short] a(1) by (auto simp: sample_columns_def)
qed

lemma csv_and_excel_agree_witness:
  "\<exists>a r. make_csv_adapter sample_environment ''s'' (Some sample_specs) MW None None = Inr a \<and>
     excel_ingest sample_environment a None (\<lambda>_. 0)
       (Inr \<lparr>wb_active = Some (map (map CellText) [sample_columns, [''c'', ''T1'', ''2'']], None), wb_sheetnames = None,
             wb_sheet = (\<lambda>_. Inl CancelledError)\<rparr>) = Inr r"
proof -
  obtain a where a: "make_csv_adapter sample_environment ''s'' (Some sample_specs) MW None None = Inr a"
    "ca_power_unit a = MW" "ca_timezone a = None" "ca_interval_grid a = None"
    "\<not> schema_fatal (header_schema a sample_columns)"
    and cols: "canonical_column_index (header_schema a sample_columns) =
      [''consumer_id'' \<mapsto> 0, ''timestamp'' \<mapsto> 1, ''value_mw'' \<mapsto> 2]"
    by (rule sample_adapter [of MW])
  have ok: "adapter_ok a" using a(1) by (rule make_csv_adapter_ok)
  have len: "length sample_columns = 3" by (simp add: sample_columns_def)
  have nb: "filter (\<lambda>r. \<not> csv_blank_row r) [sample_columns, [''c'', ''T1'', ''2'']] = sample_columns # [[''c'', ''T1'', ''2'']]"
    by (simp add: sample_columns_def csv_blank_row_def py_strip_def py_isspace_def)
  obtain r where r: "csv_ingest sample_environment a (\<lambda>_. 0) (Inr ([sample_columns, [''c'', ''T1'', ''2'']], None)) = Inr r"
    using csv_ingest_answers [OF ok a(4) nb a(5), of sample_environment "\<lambda>_. 0"]
      sample_row_outcomes [OF a(2,3)] unfolding cols len by auto
  let ?wb = "\<lparr>wb_active = Some (map (map CellText) [sample_columns, [''c'', ''T1'', ''2'']], None), wb_sheetnames = None,
      wb_sheet = (\<lambda>_. Inl CancelledError)\<rparr>"
  have "py_strip (last sample_columns) \<noteq> []" by (simp add: sample_columns_def py_strip_def py_isspace_def)
  moreover have "wb_active ?wb = Some (map (map CellText) [sample_columns, [''c'', ''T1'', ''2'']], None)" by simp
  moreover have "\<forall>row \<in> set [[''c'', ''T1'', ''2'']]. length row = length sample_columns" by (simp add: len)
  ultimately have "\<exists>r'. excel_ingest sample_environment a None (\<lambda>_. 0) (Inr ?wb) = Inr r' \<and> ingested r' = ingested r"
    using csv_and_excel_agree [OF a(1) nb, of ?wb "\<lambda>_. 0" "ingested r"] r by blast
  then show ?thesis using a(1) by blast
qed

end
