(* ===== verification/Consumption_Repository.thy ===== *)
theory Consumption_Repository
  imports Domain_Models Write_Once
begin

text \<open>
  The consumption repository (infrastructure/persistence/postgres/consumption_repository.py and
  tables.py, behind application/ports/consumption_repository.py): observations are normalised by
  identity, inserted with ON CONFLICT DO NOTHING, read back and reconciled, all in one transaction.
  SQLAlchemy and PostgreSQL are an argument: what executing a statement and committing do to the
  state of the database. What the repository relies on is the locale \<open>consumption_database\<close>;
  \<open>table_database\<close> is the table that tables.py declares.
\<close>

section \<open>Statements and rows\<close>

type_synonym consumption_identity = "string \<times> utc"

definition record_identity :: "consumption_record \<Rightarrow> consumption_identity" where
  "record_identity r = (cr_consumer_id r, cr_timestamp r)"

text \<open>Equality of two observations is equality of their fields, with Python's \<open>==\<close> on floats.\<close>

definition same_consumption :: "consumption_record \<Rightarrow> consumption_record \<Rightarrow> bool" where
  "same_consumption r s \<longleftrightarrow>
     cr_consumer_id r = cr_consumer_id s \<and> cr_timestamp r = cr_timestamp s
     \<and> float_eq (cr_value_mw r) (cr_value_mw s)"

type_synonym row_values = "consumption_identity \<times> pyfloat"

definition record_values :: "consumption_record \<Rightarrow> row_values" where
  "record_values r = (record_identity r, cr_value_mw r)"

text \<open>The two statements: values with the index columns of the conflict, and identities.\<close>

datatype statement =
    InsertOnConflictDoNothing "row_values list" "string list"
  | SelectWhereIdentityIn "consumption_identity list"

text \<open>
  A column of a mapping: not there, holding an object the model's field does not convert, or holding
  one that converts to a value.
\<close>

datatype 'a cell = Absent | Unusable | Holds 'a

record mapping_row =
  mr_consumer_id :: "string cell"
  mr_timestamp :: "utc cell"
  mr_value_mw :: "pyfloat cell"

text \<open>What a call can raise: SQLAlchemy's timeout, a driver error, or anything else.\<close>

datatype database_failure = SQLAlchemyTimeoutError | DBAPIError | Raised exn

text \<open>
  \<open>db_commit before working\<close> ends the transaction that turned \<open>before\<close> into
  \<open>working\<close>; when it fails, its second component is the state it leaves, since a commit can be
  lost before or after the server applied it.
\<close>

record 'd database =
  db_execute :: "statement \<Rightarrow> 'd \<Rightarrow> database_failure + (mapping_row list \<times> 'd)"
  db_commit :: "'d \<Rightarrow> 'd \<Rightarrow> database_failure option \<times> 'd"

definition consumption_conflict_message :: string where
  "consumption_conflict_message = ''A conflicting consumption observation already exists''"

definition consumption_unavailable_message :: string where
  "consumption_unavailable_message = ''Consumption persistence is unavailable''"

abbreviation consumption_conflict :: exn where
  "consumption_conflict \<equiv> ConflictError consumption_conflict_message"

abbreviation consumption_unavailable :: exn where
  "consumption_unavailable \<equiv> DependencyUnavailableError consumption_unavailable_message"

section \<open>The repository\<close>

text \<open>
  An argument of \<open>save_many\<close>: \<open>None\<close> is an object that is not a tuple, and \<open>None\<close> as an
  element one that is not a \<open>ConsumptionRecord\<close>. The dictionary is its values in insertion order.
\<close>

fun normalize_onto ::
    "consumption_record list \<Rightarrow> consumption_record option list \<Rightarrow> consumption_record list result" where
  "normalize_onto seen [] = Inr seen"
| "normalize_onto seen (None # items) = Inl (TypeError ''records must contain ConsumptionRecord values only'')"
| "normalize_onto seen (Some r # items) =
     (case find (\<lambda>s. record_identity s = record_identity r) seen of
        None \<Rightarrow> normalize_onto (seen @ [r]) items
      | Some existing \<Rightarrow>
          if \<not> same_consumption existing r then Inl consumption_conflict
          else normalize_onto seen items)"

definition normalize_records :: "consumption_record option list option \<Rightarrow> consumption_record list result" where
  "normalize_records records =
     (case records of
        None \<Rightarrow> Inl (TypeError ''records must be a tuple of ConsumptionRecord'')
      | Some items \<Rightarrow> normalize_onto [] items)"

text \<open>KeyError, TypeError, ValueError and ValidationError are one branch of the source.\<close>

definition canonical_from_row :: "mapping_row \<Rightarrow> consumption_record result" where
  "canonical_from_row row =
     (case (mr_consumer_id row, mr_timestamp row, mr_value_mw row) of
        (Holds i, Holds t, Holds v) \<Rightarrow>
          (case validate_consumption_record \<lparr>cr_consumer_id = i, cr_timestamp = t, cr_value_mw = v\<rparr> of
             Inl _ \<Rightarrow> Inl consumption_unavailable
           | Inr r \<Rightarrow> Inr r)
      | _ \<Rightarrow> Inl consumption_unavailable)"

text \<open>A later row of an identity replaces an earlier one, as in the dictionary.\<close>

fun persisted_by_identity ::
    "mapping_row list \<Rightarrow> (consumption_identity \<rightharpoonup> consumption_record) \<Rightarrow>
     (consumption_identity \<rightharpoonup> consumption_record) result" where
  "persisted_by_identity [] m = Inr m"
| "persisted_by_identity (row # rows) m =
     attempt (canonical_from_row row) (\<lambda>persisted.
       persisted_by_identity rows (m(record_identity persisted \<mapsto> persisted)))"

fun reconcile_records ::
    "(consumption_identity \<rightharpoonup> consumption_record) \<Rightarrow> consumption_record list \<Rightarrow> unit result" where
  "reconcile_records m [] = Inr ()"
| "reconcile_records m (r # rs) =
     (case m (record_identity r) of
        None \<Rightarrow> Inl consumption_unavailable
      | Some stored \<Rightarrow>
          if \<not> same_consumption stored r then Inl consumption_conflict else reconcile_records m rs)"

definition raised :: "'a result \<Rightarrow> database_failure + 'a" where
  "raised r = (case r of Inl e \<Rightarrow> Inl (Raised e) | Inr x \<Rightarrow> Inr x)"

definition persist_records :: "'d database \<Rightarrow> consumption_record list \<Rightarrow> 'd \<Rightarrow> database_failure + 'd" where
  "persist_records db records d =
     attempt (db_execute db
         (InsertOnConflictDoNothing (map record_values records) [''consumer_id'', ''timestamp'']) d)
       (\<lambda>(_, d1).
     attempt (db_execute db (SelectWhereIdentityIn (map record_identity records)) d1) (\<lambda>(rows, d2).
     attempt (raised (persisted_by_identity rows Map.empty)) (\<lambda>m.
     attempt (raised (reconcile_records m records)) (\<lambda>_. Inr d2))))"

fun translate_failure :: "database_failure \<Rightarrow> exn" where
  "translate_failure (Raised e) = e"
| "translate_failure SQLAlchemyTimeoutError = consumption_unavailable"
| "translate_failure DBAPIError = consumption_unavailable"

text \<open>An exception inside the transaction rolls it back: the database is as it was.\<close>

definition save_transaction ::
    "'d database \<Rightarrow> consumption_record list \<Rightarrow> 'd \<Rightarrow> unit result \<times> 'd" where
  "save_transaction db records d =
     (case persist_records db records d of
        Inl f \<Rightarrow> (Inl (translate_failure f), d)
      | Inr working \<Rightarrow>
          (case db_commit db d working of
             (None, d') \<Rightarrow> (Inr (), d')
           | (Some f, d') \<Rightarrow> (Inl (translate_failure f), d')))"

definition save_many ::
    "'d database \<Rightarrow> consumption_record option list option \<Rightarrow> 'd \<Rightarrow> unit result \<times> 'd" where
  "save_many db records d =
     (case normalize_records records of
        Inl e \<Rightarrow> (Inl e, d)
      | Inr normalized \<Rightarrow> if normalized = [] then (Inr (), d) else save_transaction db normalized d)"

section \<open>Normalisation\<close>

text \<open>Canonical records are those whose construction returns them unchanged.\<close>

definition canonical_consumption :: "consumption_record \<Rightarrow> bool" where
  "canonical_consumption r \<longleftrightarrow> validate_consumption_record r = Inr r"

lemma canonical_consumption_iff:
  "canonical_consumption r \<longleftrightarrow> entity_id (cr_consumer_id r) = Inr (cr_consumer_id r) \<and> non_negative_mw (cr_value_mw r)"
  by (cases r) (auto simp: canonical_consumption_def validate_consumption_record_def validated_Inr
      result_simps)

lemma float_eq_finite:
  "float_isfinite x \<Longrightarrow> float_isfinite y \<Longrightarrow> float_eq x y \<longleftrightarrow> float_val x = float_val y"
  by (auto simp: float_eq_def float_le_finite)

lemma canonical_finite: "canonical_consumption r \<Longrightarrow> float_isfinite (cr_value_mw r)"
  by (simp add: canonical_consumption_iff non_negative_mw_def)

lemma same_consumption_iff:
  "canonical_consumption r \<Longrightarrow> canonical_consumption s \<Longrightarrow>
   same_consumption r s \<longleftrightarrow> record_identity r = record_identity s \<and> float_val (cr_value_mw r) = float_val (cr_value_mw s)"
  by (auto simp: same_consumption_def record_identity_def float_eq_finite canonical_finite)

definition agreeing :: "consumption_record list \<Rightarrow> bool" where
  "agreeing rs \<longleftrightarrow> (\<forall>r \<in> set rs. \<forall>s \<in> set rs. record_identity r = record_identity s \<longrightarrow> same_consumption r s)"

text \<open>The first record of every identity.\<close>

fun first_records :: "consumption_record list \<Rightarrow> consumption_record list \<Rightarrow> consumption_record list" where
  "first_records seen [] = seen"
| "first_records seen (r # rs) =
     (if record_identity r \<in> record_identity ` set seen then first_records seen rs
      else first_records (seen @ [r]) rs)"

lemma find_identity:
  "find (\<lambda>s. record_identity s = k) xs = None \<longleftrightarrow> k \<notin> record_identity ` set xs"
  "find (\<lambda>s. record_identity s = k) xs = Some x \<Longrightarrow> x \<in> set xs \<and> record_identity x = k"
  by (auto simp: find_None_iff find_Some_iff)

lemma agreeing_subset: "agreeing ys \<Longrightarrow> set xs \<subseteq> set ys \<Longrightarrow> agreeing xs"
  by (auto simp: agreeing_def)

lemma agreeing_repeat:
  assumes "\<forall>s \<in> set seen \<union> insert r (set rs). canonical_consumption s"
    and "x \<in> set seen" "same_consumption x r"
  shows "agreeing (seen @ r # rs) \<longleftrightarrow> agreeing (seen @ rs)"
proof -
  let ?A = "set (seen @ rs)"
  let ?like = "\<lambda>s t. record_identity s = record_identity t \<longrightarrow> float_val (cr_value_mw s) = float_val (cr_value_mw t)"
  have c: "canonical_consumption s" if "s \<in> insert r ?A" for s using assms(1) that by auto
  have like: "agreeing l \<longleftrightarrow> (\<forall>s \<in> set l. \<forall>t \<in> set l. ?like s t)" if "set l \<subseteq> insert r ?A" for l
    using c that by (auto simp: agreeing_def same_consumption_iff subset_iff)
  have x: "x \<in> ?A" "record_identity x = record_identity r" "float_val (cr_value_mw x) = float_val (cr_value_mw r)"
    using assms(2,3) c by (auto simp: same_consumption_iff)
  have "agreeing (seen @ r # rs) \<longleftrightarrow> (\<forall>s \<in> insert r ?A. \<forall>t \<in> insert r ?A. ?like s t)" by (subst like) auto
  also have "\<dots> \<longleftrightarrow> (\<forall>s \<in> ?A. \<forall>t \<in> ?A. ?like s t)"
  proof
    assume like: "\<forall>s \<in> ?A. \<forall>t \<in> ?A. ?like s t"
    have "?like s t" if "s \<in> insert r ?A" "t \<in> insert r ?A" for s t
    proof -
      have "\<exists>s' \<in> ?A. record_identity s' = record_identity s \<and> float_val (cr_value_mw s') = float_val (cr_value_mw s)"
        "\<exists>t' \<in> ?A. record_identity t' = record_identity t \<and> float_val (cr_value_mw t') = float_val (cr_value_mw t)"
        using that x by blast+
      with like show ?thesis by metis
    qed
    then show "\<forall>s \<in> insert r ?A. \<forall>t \<in> insert r ?A. ?like s t" by blast
  qed blast
  also have "\<dots> \<longleftrightarrow> agreeing (seen @ rs)" by (subst like) auto
  finally show ?thesis .
qed

text \<open>
  Normalisation of canonical records keeps the first record of each identity when all agree, and is a
  conflict when two records of one identity differ.
\<close>

lemma normalize_onto_iff:
  assumes "\<forall>r \<in> set (seen @ rs). canonical_consumption r" "agreeing seen"
  shows "normalize_onto seen (map Some rs) =
    (if agreeing (seen @ rs) then Inr (first_records seen rs) else Inl consumption_conflict)"
  using assms
proof (induction rs arbitrary: seen)
  case (Cons r rs)
  show ?case
  proof (cases "find (\<lambda>s. record_identity s = record_identity r) seen")
    case None
    then have new: "record_identity r \<notin> record_identity ` set seen" by (simp only: find_identity(1) not_False_eq_True)
    moreover have "agreeing (seen @ [r])"
    proof -
      have "same_consumption r r" using Cons.prems(1) by (simp add: same_consumption_iff)
      moreover have "\<forall>s \<in> set seen. record_identity s \<noteq> record_identity r" using new by (metis imageI)
      ultimately show ?thesis using Cons.prems(2) unfolding agreeing_def by (metis rotate1.simps(2) set_ConsD set_rotate1)
    qed
    ultimately show ?thesis using None Cons.IH [of "seen @ [r]"] Cons.prems by simp
  next
    case (Some x)
    then have x: "x \<in> set seen" "record_identity x = record_identity r" using find_identity(2) by blast+
    have c: "\<forall>s \<in> set seen \<union> insert r (set rs). canonical_consumption s" using Cons.prems(1) by auto
    show ?thesis
    proof (cases "same_consumption x r")
      case True
      have "agreeing (seen @ r # rs) \<longleftrightarrow> agreeing (seen @ rs)" using agreeing_repeat [OF c x(1) True] .
      then show ?thesis using Some x True Cons.IH [of seen] Cons.prems by (auto simp: image_iff)
    next
      case False
      then show ?thesis using Some x by (auto simp: agreeing_def)
    qed
  qed
qed simp

section \<open>The table (tables.py)\<close>

text \<open>
  The primary key makes the table a map from identities to values, no column is null, and the check
  constraint holds of every value; a text value cannot hold the NUL character.
\<close>

definition consumption_primary_key :: "string list" where
  "consumption_primary_key = [''consumer_id'', ''timestamp'']"

definition value_mw_finite_non_negative :: "pyfloat \<Rightarrow> bool" where
  "value_mw_finite_non_negative v \<longleftrightarrow> float_le float_zero v \<and> float_lt v (FlInf False)"

definition storable_values :: "row_values \<Rightarrow> bool" where
  "storable_values kv \<longleftrightarrow> CHR 0x00 \<notin> set (fst (fst kv)) \<and> value_mw_finite_non_negative (snd kv)"

lemma value_check_canonical: "value_mw_finite_non_negative v \<longleftrightarrow> non_negative_mw v"
  by (cases v) (auto simp: value_mw_finite_non_negative_def non_negative_mw_def float_lt_def float_zero_def)

section \<open>What PostgreSQL promises\<close>

text \<open>The stored observations, as a map: identity is the primary key of the table.\<close>

type_synonym observations = "consumption_identity \<rightharpoonup> pyfloat"

fun insert_missing :: "row_values list \<Rightarrow> observations \<Rightarrow> observations" where
  "insert_missing [] m = m"
| "insert_missing ((k, v) # vs) m = insert_missing vs (if m k = None then m(k \<mapsto> v) else m)"

lemma insert_missing_apply: "insert_missing vs m = map_of vs ++ m"
  by (induction vs m rule: insert_missing.induct) (auto simp: map_add_def fun_eq_iff split: option.splits)

definition stored_row :: "row_values \<Rightarrow> mapping_row" where
  "stored_row kv = \<lparr>mr_consumer_id = Holds (fst (fst kv)), mr_timestamp = Holds (snd (fst kv)), mr_value_mw = Holds (snd kv)\<rparr>"

definition consistent_with :: "observations \<Rightarrow> consumption_record list \<Rightarrow> bool" where
  "consistent_with m rs \<longleftrightarrow>
     (\<forall>r \<in> set rs. \<forall>v. m (record_identity r) = Some v \<longrightarrow> float_eq v (cr_value_mw r))"

text \<open>What a whole call means: all or nothing, and nothing stored is ever replaced.\<close>

definition acceptable :: "observations \<Rightarrow> consumption_record list \<Rightarrow> bool" where
  "acceptable m rs \<longleftrightarrow> agreeing rs \<and> consistent_with m rs"

definition saved :: "observations \<Rightarrow> consumption_record list \<Rightarrow> observations" where
  "saved m rs = map_of (map record_values rs) ++ m"

lemma first_records_map_of:
  "map_of (map record_values (first_records seen rs)) = map_of (map record_values (seen @ rs))"
proof (induction rs arbitrary: seen)
  case (Cons r rs)
  show ?case
  proof (cases "record_identity r \<in> record_identity ` set seen")
    case True
    then have "record_identity r \<in> dom (map_of (map record_values seen))"
      by (auto simp: dom_map_of_conv_image_fst record_values_def image_image)
    then obtain y where y: "map_of (map record_values seen) (record_identity r) = Some y" by blast
    have "map_of (map record_values (seen @ r # rs)) k = map_of (map record_values (seen @ rs)) k" for k
      using y by (cases "k = record_identity r") (simp_all add: map_add_def record_values_def split: option.splits)
    then show ?thesis using True Cons.IH by (simp add: fun_eq_iff del: map_append map_of_append)
  next
    case False
    then show ?thesis using Cons.IH [of "seen @ [r]"] by simp
  qed
qed simp

lemma first_records_set: "set (first_records seen rs) \<subseteq> set (seen @ rs)"
proof (induction rs arbitrary: seen)
  case (Cons r rs)
  show ?case using Cons.IH [of seen] Cons.IH [of "seen @ [r]"] by auto
qed simp

lemma first_records_covers:
  "record_identity ` set (first_records seen rs) = record_identity ` set (seen @ rs)"
  by (induction rs arbitrary: seen) (auto simp: image_iff)

lemma map_of_record_values:
  "map_of (map record_values rs) k = Some v \<Longrightarrow> \<exists>r \<in> set rs. record_identity r = k \<and> cr_value_mw r = v"
  by (induction rs) (auto simp: record_values_def split: if_splits)

lemma map_of_record_values_dom:
  "r \<in> set rs \<Longrightarrow> \<exists>v. map_of (map record_values rs) (record_identity r) = Some v"
  by (induction rs) (auto simp: record_values_def)

text \<open>After a save, every record of the call is stored with its value.\<close>

lemma saved_holds:
  assumes "acceptable m rs" "r \<in> set rs"
  shows "\<exists>v. saved m rs (record_identity r) = Some v \<and> float_eq v (cr_value_mw r)"
proof (cases "m (record_identity r)")
  case None
  obtain v s where s: "map_of (map record_values rs) (record_identity r) = Some v" "s \<in> set rs"
      "record_identity s = record_identity r" "cr_value_mw s = v"
    using map_of_record_values_dom [OF assms(2)] map_of_record_values by blast
  then have "same_consumption s r" using assms by (auto simp: acceptable_def agreeing_def)
  then show ?thesis using s None by (auto simp: saved_def same_consumption_def map_add_def)
next
  case (Some v)
  then show ?thesis using assms by (auto simp: saved_def acceptable_def consistent_with_def)
qed

lemma saved_keeps: "m \<subseteq>\<^sub>m saved m rs"
  by (simp add: saved_def)

lemma saved_again:
  assumes "acceptable m rs" "saved m rs \<subseteq>\<^sub>m m'"
  shows "acceptable m' rs \<and> saved m' rs = m'"
proof -
  have present: "\<exists>v. m' (record_identity r) = Some v \<and> float_eq v (cr_value_mw r)" if "r \<in> set rs" for r
    using saved_holds [OF assms(1) that] assms(2) unfolding map_le_def by (metis domI)
  have "dom (map_of (map record_values rs)) \<subseteq> dom m'"
    using present map_of_record_values by (metis (no_types, lifting) domIff not_None_eq subsetI)
  then have "saved m' rs = m'" by (auto simp: saved_def map_add_def fun_eq_iff dom_def split: option.splits)
  moreover have "acceptable m' rs"
    using present assms(1) by (auto simp: acceptable_def consistent_with_def) (metis option.inject)
  ultimately show ?thesis by simp
qed

lemma saved_present: "r \<in> set rs \<Longrightarrow> \<exists>v. saved m rs (record_identity r) = Some v"
  using map_of_record_values_dom [of r rs] by (cases "m (record_identity r)") (auto simp: saved_def map_add_def)

lemma saved_first: "saved m (first_records [] rs) = saved m rs"
  by (simp add: saved_def first_records_map_of)

lemma float_le_trans: "float_le x y \<Longrightarrow> float_le y z \<Longrightarrow> float_le x z"
proof (cases "float_isfinite x \<and> float_isfinite y \<and> float_isfinite z")
  case True
  then show "float_le x y \<Longrightarrow> float_le y z \<Longrightarrow> float_le x z" by (auto simp: float_le_finite)
next
  case False
  then show "float_le x y \<Longrightarrow> float_le y z \<Longrightarrow> float_le x z" by (cases x; cases y; cases z) auto
qed

lemma float_eq_trans: "float_eq x y \<Longrightarrow> float_eq y z \<Longrightarrow> float_eq x z"
  unfolding float_eq_def using float_le_trans by blast

lemma consistent_saved:
  assumes "agreeing rs"
  shows "consistent_with (saved m rs) rs \<longleftrightarrow> consistent_with m rs"
proof
  assume "consistent_with m rs"
  then show "consistent_with (saved m rs) rs"
    using saved_holds [of m rs] assms by (fastforce simp: consistent_with_def acceptable_def)
next
  assume "consistent_with (saved m rs) rs"
  then show "consistent_with m rs" by (auto simp: consistent_with_def saved_def)
qed

lemma acceptable_first:
  assumes "agreeing rs"
  shows "consistent_with (saved m (first_records [] rs)) (first_records [] rs) \<longleftrightarrow> acceptable m rs"
proof -
  let ?fs = "first_records [] rs"
  have fs: "set ?fs \<subseteq> set rs" "record_identity ` set ?fs = record_identity ` set rs"
    using first_records_set [of "[]" rs] first_records_covers [of "[]" rs] by simp_all
  have "consistent_with m rs" if c: "consistent_with m ?fs"
    unfolding consistent_with_def
  proof (intro ballI allI impI)
    fix r v assume r: "r \<in> set rs" "m (record_identity r) = Some v"
    then have "record_identity r \<in> record_identity ` set ?fs" using fs(2) by simp
    then obtain f where f: "f \<in> set ?fs" "record_identity f = record_identity r" by auto
    then have "same_consumption f r" using assms r(1) fs(1) by (auto simp: agreeing_def)
    moreover have "float_eq v (cr_value_mw f)" using c f r(2) by (auto simp: consistent_with_def)
    ultimately show "float_eq v (cr_value_mw r)" using float_eq_trans by (auto simp: same_consumption_def)
  qed
  moreover have "consistent_with m ?fs" if "consistent_with m rs"
    using that fs(1) by (auto simp: consistent_with_def)
  moreover have "agreeing ?fs" using assms fs(1) by (rule agreeing_subset)
  ultimately show ?thesis using assms by (auto simp: consistent_saved acceptable_def)
qed

section \<open>Reading back\<close>

lemma canonical_stored_row:
  assumes "entity_id i = Inr i" "non_negative_mw v"
  shows "canonical_from_row (stored_row ((i, t), v)) = Inr \<lparr>cr_consumer_id = i, cr_timestamp = t, cr_value_mw = v\<rparr>"
  using assms by (simp add: canonical_from_row_def stored_row_def validate_consumption_record_def validated_def raise_if_def)

lemma persisted_rows:
  assumes "\<forall>row \<in> set rows. \<exists>i t v. row = stored_row ((i, t), v) \<and> m (i, t) = Some v \<and> entity_id i = Inr i \<and> non_negative_mw v"
  shows "\<exists>p. persisted_by_identity rows q = Inr p \<and>
    (\<forall>i t. (\<forall>v. m (i, t) = Some v \<and> stored_row ((i, t), v) \<in> set rows \<longrightarrow>
          p (i, t) = Some \<lparr>cr_consumer_id = i, cr_timestamp = t, cr_value_mw = v\<rparr>) \<and>
      ((\<forall>v. stored_row ((i, t), v) \<notin> set rows) \<longrightarrow> p (i, t) = q (i, t)))"
  using assms
proof (induction rows arbitrary: q)
  case (Cons row rows)
  obtain i t v where row: "row = stored_row ((i, t), v)" "m (i, t) = Some v" "entity_id i = Inr i" "non_negative_mw v"
    using Cons.prems by auto
  let ?r = "\<lparr>cr_consumer_id = i, cr_timestamp = t, cr_value_mw = v\<rparr>"
  obtain p where p: "persisted_by_identity rows (q((i, t) \<mapsto> ?r)) = Inr p"
    "\<And>j u w. m (j, u) = Some w \<Longrightarrow> stored_row ((j, u), w) \<in> set rows \<Longrightarrow>
        p (j, u) = Some \<lparr>cr_consumer_id = j, cr_timestamp = u, cr_value_mw = w\<rparr>"
    "\<And>j u. \<forall>w. stored_row ((j, u), w) \<notin> set rows \<Longrightarrow> p (j, u) = (q((i, t) \<mapsto> ?r)) (j, u)"
    using Cons.IH [of "q((i, t) \<mapsto> ?r)"] Cons.prems by (auto simp del: fun_upd_apply)
  have inj: "stored_row ((j, u), w) = row \<longleftrightarrow> j = i \<and> u = t \<and> w = v" for j u w
    using row(1) by (auto simp: stored_row_def)
  have first: "p (j, u) = Some \<lparr>cr_consumer_id = j, cr_timestamp = u, cr_value_mw = w\<rparr>"
    if "m (j, u) = Some w" "stored_row ((j, u), w) \<in> set (row # rows)" for j u w
  proof (cases "stored_row ((j, u), w) \<in> set rows")
    case True
    then show ?thesis using p(2) that(1) by blast
  next
    case False
    then have e: "j = i" "u = t" "w = v" using that inj by auto
    have "\<forall>x. stored_row ((j, u), x) \<notin> set rows"
      using Cons.prems False that(1) by (auto simp: stored_row_def)
    then show ?thesis using p(3) e by simp
  qed
  have "p (j, u) = q (j, u)" if "\<forall>w. stored_row ((j, u), w) \<notin> set (row # rows)" for j u
    using that p(3) [of j u] row(1) by auto
  moreover have "persisted_by_identity (row # rows) q = Inr p"
    using p(1) row canonical_stored_row by (simp add: record_identity_def)
  ultimately show ?case using first by blast
qed simp

lemma reconcile_records_iff:
  assumes "\<forall>r \<in> set rs. m (record_identity r) \<noteq> None"
  shows "reconcile_records m rs =
    (if \<forall>r \<in> set rs. same_consumption (the (m (record_identity r))) r then Inr () else Inl consumption_conflict)"
  using assms by (induction rs) auto


lemma save_many_cases:
  assumes "\<forall>r \<in> set rs. canonical_consumption r"
  shows "save_many db (Some (map Some rs)) d =
    (if \<not> agreeing rs then (Inl consumption_conflict, d)
     else if rs = [] then (Inr (), d) else save_transaction db (first_records [] rs) d)"
proof -
  have "agreeing []" by (simp add: agreeing_def)
  moreover have "first_records [] rs = [] \<longleftrightarrow> rs = []" using first_records_covers [of "[]" rs] by auto
  ultimately show ?thesis using normalize_onto_iff [of "[]" rs] assms
    by (simp add: save_many_def normalize_records_def)
qed

text \<open>A database that answers: no statement the repository builds fails, and commits succeed.\<close>

definition answering_database :: "'d database \<Rightarrow> ('d \<Rightarrow> bool) \<Rightarrow> bool" where
  "answering_database db ready \<longleftrightarrow>
     (\<forall>d vs. ready d \<longrightarrow> list_all storable_values vs \<longrightarrow>
       (\<exists>x. db_execute db (InsertOnConflictDoNothing vs [''consumer_id'', ''timestamp'']) d = Inr x)) \<and>
     (\<forall>d ks. ready d \<longrightarrow> (\<exists>x. db_execute db (SelectWhereIdentityIn ks) d = Inr x)) \<and>
     (\<forall>d w. ready d \<longrightarrow> ready w \<longrightarrow> fst (db_commit db d w) = None)"

locale consumption_database =
  fixes db :: "'d database"
    and stored :: "'d \<Rightarrow> observations"
    and ready :: "'d \<Rightarrow> bool"
  assumes insert_law: "ready d \<Longrightarrow>
      db_execute db (InsertOnConflictDoNothing vs [''consumer_id'', ''timestamp'']) d = Inr (rows, d') \<Longrightarrow>
      ready d' \<and> stored d' = insert_missing vs (stored d)"
    and select_law: "ready d \<Longrightarrow> db_execute db (SelectWhereIdentityIn ks) d = Inr (rows, d') \<Longrightarrow>
      ready d' \<and> stored d' = stored d \<and>
      set rows = {stored_row (k, v) | k v. k \<in> set ks \<and> stored d k = Some v}"
    and commit_law: "ready d \<Longrightarrow> ready w \<Longrightarrow> db_commit db d w = (f, d') \<Longrightarrow>
      ready d' \<and> (stored d' = stored w \<or> f \<noteq> None \<and> stored d' = stored d)"
    and check_law: "ready d \<Longrightarrow> stored d k = Some v \<Longrightarrow> non_negative_mw v"
begin

lemma reconciled:
  assumes "ready d" "\<forall>r \<in> set rs. canonical_consumption r"
    and "db_execute db (InsertOnConflictDoNothing (map record_values rs) [''consumer_id'', ''timestamp'']) d = Inr (x, d1)"
    and "db_execute db (SelectWhereIdentityIn (map record_identity rs)) d1 = Inr (rows, d2)"
  shows "ready d2 \<and> stored d2 = saved (stored d) rs \<and>
    attempt (raised (persisted_by_identity rows Map.empty)) (\<lambda>m.
      attempt (raised (reconcile_records m rs)) (\<lambda>_. Inr d2)) =
    (if consistent_with (saved (stored d) rs) rs then Inr d2 else Inl (Raised consumption_conflict))"
proof -
  let ?m = "saved (stored d) rs"
  have d1: "ready d1" "stored d1 = ?m" using insert_law [OF assms(1,3)] by (simp_all add: saved_def insert_missing_apply)
  note sel = select_law [OF d1(1) assms(4)]
  have rows: "set rows = {stored_row (k, v) | k v. k \<in> set (map record_identity rs) \<and> ?m k = Some v}"
    using sel d1(2) by simp
  have "\<forall>row \<in> set rows. \<exists>i t v. row = stored_row ((i, t), v) \<and> ?m (i, t) = Some v \<and> entity_id i = Inr i \<and> non_negative_mw v"
    using rows assms(2) check_law [OF d1(1)] d1(2)
    by (fastforce simp: record_identity_def canonical_consumption_iff)
  from persisted_rows [OF this, of Map.empty] obtain p where p: "persisted_by_identity rows Map.empty = Inr p"
    "\<And>i t v. ?m (i, t) = Some v \<Longrightarrow> stored_row ((i, t), v) \<in> set rows \<Longrightarrow>
       p (i, t) = Some \<lparr>cr_consumer_id = i, cr_timestamp = t, cr_value_mw = v\<rparr>" by blast
  have found: "\<exists>v. ?m (record_identity r) = Some v \<and>
      p (record_identity r) = Some \<lparr>cr_consumer_id = cr_consumer_id r, cr_timestamp = cr_timestamp r, cr_value_mw = v\<rparr>"
    if r: "r \<in> set rs" for r
  proof -
    obtain v where v: "?m (record_identity r) = Some v"
      using saved_present [OF r] by blast
    then have "stored_row (record_identity r, v) \<in> set rows"
      unfolding rows using r by (intro CollectI exI conjI) (rule refl, simp, assumption)
    then show ?thesis using p(2) v by (auto simp: record_identity_def)
  qed
  have same: "same_consumption (the (p (record_identity r))) r \<longleftrightarrow> float_eq (the (?m (record_identity r))) (cr_value_mw r)"
    if "r \<in> set rs" for r using found [OF that] by (auto simp: same_consumption_def)
  have "reconcile_records p rs =
      (if \<forall>r \<in> set rs. same_consumption (the (p (record_identity r))) r then Inr () else Inl consumption_conflict)"
    using found by (intro reconcile_records_iff) fastforce
  also have "(\<forall>r \<in> set rs. same_consumption (the (p (record_identity r))) r) \<longleftrightarrow> consistent_with ?m rs"
    unfolding consistent_with_def using same found by (metis option.sel)
  finally show ?thesis using p(1) sel d1(2) by (simp add: raised_def)
qed


lemma transaction_ok:
  assumes "ready d" "agreeing rs" "\<forall>r \<in> set rs. canonical_consumption r"
    and "save_transaction db (first_records [] rs) d = (res, d')"
  shows "ready d' \<and> (stored d' = stored d \<or> acceptable (stored d) rs \<and> stored d' = saved (stored d) rs) \<and>
    (res = Inr () \<longrightarrow> acceptable (stored d) rs \<and> stored d' = saved (stored d) rs)"
proof (cases "persist_records db (first_records [] rs) d")
  case (Inl x)
  then show ?thesis using assms by (auto simp: save_transaction_def)
next
  case (Inr w)
  let ?fs = "first_records [] rs"
  have fs: "\<forall>r \<in> set ?fs. canonical_consumption r" using first_records_set [of "[]" rs] assms(3) by auto
  obtain x d1 rows d2 where
    ins: "db_execute db (InsertOnConflictDoNothing (map record_values ?fs) [''consumer_id'', ''timestamp'']) d = Inr (x, d1)"
    and sel: "db_execute db (SelectWhereIdentityIn (map record_identity ?fs)) d1 = Inr (rows, d2)"
    and rest: "attempt (raised (persisted_by_identity rows Map.empty)) (\<lambda>m.
      attempt (raised (reconcile_records m ?fs)) (\<lambda>_. Inr d2)) = Inr w"
    using Inr unfolding persist_records_def attempt_Inr_iff by (auto simp: attempt_Inr_iff)
  note rec = reconciled [OF assms(1) fs ins sel]
  have w: "ready w" "stored w = saved (stored d) rs" "acceptable (stored d) rs"
    using rec rest acceptable_first [OF assms(2)] by (auto simp: saved_first split: if_splits)
  obtain f' d'' where c: "db_commit db d w = (f', d'')" by fastforce
  then have "d'' = d'" "res = Inr () \<longrightarrow> f' = None"
    using Inr assms(4) by (auto simp: save_transaction_def split: option.splits)
  then show ?thesis using commit_law [OF assms(1) w(1) c] w by auto
qed

lemma save_many_ok:
  assumes "ready d" "\<forall>r \<in> set rs. canonical_consumption r"
    and "save_many db (Some (map Some rs)) d = (res, d')"
  shows "ready d' \<and> (stored d' = stored d \<or> acceptable (stored d) rs \<and> stored d' = saved (stored d) rs) \<and>
    (res = Inr () \<longrightarrow> acceptable (stored d) rs \<and> stored d' = saved (stored d) rs)"
proof (cases "agreeing rs \<and> rs \<noteq> []")
  case True
  then have "save_transaction db (first_records [] rs) d = (res, d')"
    using assms(3) save_many_cases [OF assms(2), of db d] by auto
  with True assms(1,2) show ?thesis using transaction_ok by blast
next
  case False
  then show ?thesis using assms save_many_cases [OF assms(2), of db d]
    by (auto simp: acceptable_def agreeing_def consistent_with_def saved_def split: if_splits)
qed

lemma transaction_answers:
  assumes "answering_database db ready" "ready d" "agreeing rs" "\<forall>r \<in> set rs. canonical_consumption r \<and> CHR 0x00 \<notin> set (cr_consumer_id r)"
  shows "fst (save_transaction db (first_records [] rs) d) =
    (if acceptable (stored d) rs then Inr () else Inl consumption_conflict)"
proof -
  let ?fs = "first_records [] rs"
  have fs: "\<forall>r \<in> set ?fs. canonical_consumption r \<and> CHR 0x00 \<notin> set (cr_consumer_id r)"
    using first_records_set [of "[]" rs] assms(4) by auto
  then have "list_all storable_values (map record_values ?fs)"
    by (auto simp: list_all_iff storable_values_def value_check_canonical record_values_def
        record_identity_def canonical_consumption_iff)
  then obtain x d1 where
    ins: "db_execute db (InsertOnConflictDoNothing (map record_values ?fs) [''consumer_id'', ''timestamp'']) d = Inr (x, d1)"
    using assms(1,2) unfolding answering_database_def by (metis surj_pair)
  then have d1: "ready d1" using insert_law assms(2) by blast
  then obtain rows d2 where sel: "db_execute db (SelectWhereIdentityIn (map record_identity ?fs)) d1 = Inr (rows, d2)"
    using assms(1) unfolding answering_database_def by (metis surj_pair)
  have "\<forall>r \<in> set ?fs. canonical_consumption r" using fs by blast
  note rec = reconciled [OF assms(2) this ins sel]
  have p: "persist_records db ?fs d =
      (if acceptable (stored d) rs then Inr d2 else Inl (Raised consumption_conflict))"
    using rec ins sel acceptable_first [OF assms(3)] by (simp add: persist_records_def)
  obtain f d' where c: "db_commit db d d2 = (f, d')" by fastforce
  have "f = None" using assms(1,2) rec c unfolding answering_database_def by (metis fst_conv)
  then show ?thesis using p c by (simp add: save_transaction_def)
qed

text \<open>Then a call is the write-once update of the stored map, or a conflict that changes nothing.\<close>

lemma save_many_answers:
  assumes "answering_database db ready" "ready d" "\<forall>r \<in> set rs. canonical_consumption r \<and> CHR 0x00 \<notin> set (cr_consumer_id r)"
    and "save_many db (Some (map Some rs)) d = (res, d')"
  shows "res = (if acceptable (stored d) rs then Inr () else Inl consumption_conflict) \<and>
    stored d' = (if acceptable (stored d) rs then saved (stored d) rs else stored d)"
proof -
  have c: "\<forall>r \<in> set rs. canonical_consumption r" using assms(3) by blast
  have "res = (if acceptable (stored d) rs then Inr () else Inl consumption_conflict)"
  proof (cases "agreeing rs \<and> rs \<noteq> []")
    case True
    then show ?thesis
      using save_many_cases [OF c, of db d] transaction_answers [OF assms(1,2) _ assms(3)] assms(4)
      by (metis fst_conv)
  next
    case False
    then consider "\<not> agreeing rs" | "agreeing []" "rs = []" by (auto simp: agreeing_def)
    then show ?thesis using save_many_cases [OF c, of db d] assms(4)
      by cases (auto simp: acceptable_def consistent_with_def)
  qed
  then show ?thesis using save_many_ok [OF assms(2) c assms(4)] by auto
qed

end

section \<open>The declared table as a database\<close>

text \<open>
  An insert whose conflict columns are not those of the primary key names no index of the table and is
  refused, as is one of values the table cannot hold.
\<close>

fun table_execute :: "statement \<Rightarrow> observations \<Rightarrow> database_failure + (mapping_row list \<times> observations)" where
  "table_execute (InsertOnConflictDoNothing vs columns) m =
     (if columns \<noteq> consumption_primary_key \<or> \<not> list_all storable_values vs
      then Inl DBAPIError
      else Inr ([], insert_missing vs m))"
| "table_execute (SelectWhereIdentityIn ks) m =
     Inr (concat (map (\<lambda>k. case m k of None \<Rightarrow> [] | Some v \<Rightarrow> [stored_row (k, v)]) (remdups ks)), m)"

definition table_database :: "observations database" where
  "table_database = \<lparr>db_execute = table_execute, db_commit = (\<lambda>before working. (None, working))\<rparr>"

definition table_ready :: "observations \<Rightarrow> bool" where
  "table_ready m \<longleftrightarrow> (\<forall>k v. m k = Some v \<longrightarrow> value_mw_finite_non_negative v)"

lemma table_ready_insert:
  assumes "table_ready m" "list_all storable_values vs"
  shows "table_ready (insert_missing vs m)"
  unfolding table_ready_def insert_missing_apply
proof (intro allI impI)
  fix k v assume "(map_of vs ++ m) k = Some v"
  then consider "m k = Some v" | "(k, v) \<in> set vs" by (auto dest: map_of_SomeD)
  then show "value_mw_finite_non_negative v"
    using assms by cases (auto simp: table_ready_def list_all_iff storable_values_def simp del: split_paired_All)
qed

lemma selected_rows:
  "set (concat (map (\<lambda>k. case m k of None \<Rightarrow> [] | Some v \<Rightarrow> [stored_row (k, v)]) ks)) =
   {stored_row (k, v) | k v. k \<in> set ks \<and> m k = Some v}" (is "?l = ?r")
proof
  show "?l \<subseteq> ?r"
  proof
    fix row assume "row \<in> ?l"
    then obtain k where k: "k \<in> set ks" "row \<in> set (case m k of None \<Rightarrow> [] | Some v \<Rightarrow> [stored_row (k, v)])"
      by auto
    then obtain v where "m k = Some v" "row = stored_row (k, v)" by (cases "m k") auto
    with k(1) show "row \<in> ?r" by blast
  qed
  show "?r \<subseteq> ?l" by (force split: option.splits)
qed

interpretation table: consumption_database table_database "\<lambda>m. m" table_ready
proof
  fix d d' :: observations and vs rows
  assume "table_ready d"
    "db_execute table_database (InsertOnConflictDoNothing vs [''consumer_id'', ''timestamp'']) d = Inr (rows, d')"
  then show "table_ready d' \<and> d' = insert_missing vs d"
    using table_ready_insert [of d vs] by (auto simp: table_database_def split: if_splits)
next
  fix d d' :: observations and ks rows
  assume d: "table_ready d" "db_execute table_database (SelectWhereIdentityIn ks) d = Inr (rows, d')"
  then have "d' = d" "rows = concat (map (\<lambda>k. case d k of None \<Rightarrow> [] | Some v \<Rightarrow> [stored_row (k, v)]) (remdups ks))"
    by (auto simp: table_database_def)
  then show "table_ready d' \<and> d' = d \<and> set rows = {stored_row (k, v) | k v. k \<in> set ks \<and> d k = Some v}"
    using selected_rows [of d "remdups ks"] d(1) by (simp only: set_remdups simp_thms)
next
  fix d w d' :: observations and f
  assume "table_ready d" "table_ready w" "db_commit table_database d w = (f, d')"
  then show "table_ready d' \<and> (d' = w \<or> f \<noteq> None \<and> d' = d)" by (simp add: table_database_def)
next
  fix d :: observations and k v
  assume "table_ready d" "d k = Some v"
  then show "non_negative_mw v" unfolding table_ready_def value_check_canonical by blast
qed

lemma table_answers: "answering_database table_database table_ready"
  by (auto simp: answering_database_def table_database_def consumption_primary_key_def)

text \<open>
  Saves of one observation make the table a write-once store of the program.
\<close>

definition save_observation :: "observations \<Rightarrow> consumption_identity \<Rightarrow> pyfloat \<Rightarrow> unit result \<times> observations" where
  "save_observation m k v =
     save_many table_database (Some [Some \<lparr>cr_consumer_id = fst k, cr_timestamp = snd k, cr_value_mw = v\<rparr>]) m"


lemma same_observation_acceptable:
  assumes "canonical_consumption r"
  shows "acceptable m [r] \<longleftrightarrow> (\<forall>v. m (record_identity r) = Some v \<longrightarrow> float_eq v (cr_value_mw r))"
  using assms by (auto simp: acceptable_def agreeing_def consistent_with_def same_consumption_iff)

definition storable_observation :: "consumption_identity \<Rightarrow> pyfloat \<Rightarrow> bool" where
  "storable_observation k v \<longleftrightarrow> entity_id (fst k) = Inr (fst k) \<and> CHR 0x00 \<notin> set (fst k) \<and> non_negative_mw v"

lemma save_observation_step:
  assumes "table_ready m" "storable_observation k v"
  shows "save_observation m k v =
    (case m k of
       None \<Rightarrow> (Inr (), m(k \<mapsto> v))
     | Some w \<Rightarrow> (if float_eq w v then Inr () else Inl consumption_conflict, m))"
proof -
  let ?r = "\<lparr>cr_consumer_id = fst k, cr_timestamp = snd k, cr_value_mw = v\<rparr>"
  obtain res d' where s: "save_many table_database (Some (map Some [?r])) m = (res, d')" by fastforce
  have r: "canonical_consumption ?r" "record_identity ?r = k"
    using assms(2) by (auto simp: canonical_consumption_iff storable_observation_def record_identity_def)
  have "\<forall>r \<in> set [?r]. canonical_consumption r \<and> CHR 0x00 \<notin> set (cr_consumer_id r)"
    using r assms(2) by (auto simp: storable_observation_def)
  from table.save_many_answers [OF table_answers assms(1) this s] same_observation_acceptable [OF r(1), of m]
  have a: "res = (if \<forall>w. m k = Some w \<longrightarrow> float_eq w v then Inr () else Inl consumption_conflict)"
    "d' = (if \<forall>w. m k = Some w \<longrightarrow> float_eq w v then saved m [?r] else m)" using r(2) by simp_all
  have "saved m [?r] = (if m k = None then m(k \<mapsto> v) else m)"
    using r(2) by (auto simp: saved_def record_values_def map_add_def fun_eq_iff split: option.splits)
  then show ?thesis using a s by (auto simp: save_observation_def split: option.splits)
qed


lemma table_ready_update:
  "table_ready m \<Longrightarrow> storable_observation k v \<Longrightarrow> table_ready (m(k \<mapsto> v))"
  by (simp add: table_ready_def storable_observation_def value_check_canonical del: split_paired_All)

interpretation observation_store:
  write_once_store "\<lambda>m. m" save_observation float_eq consumption_conflict table_ready
    "\<lambda>k v. storable_observation k v"
proof
  fix k v assume "storable_observation k v"
  then show "float_eq v v" by (simp add: storable_observation_def non_negative_mw_def float_eq_finite)
qed (auto simp: save_observation_step table_ready_update split: option.splits)


text \<open>In a history of saved observations the first one of an identity stays.\<close>

lemma first_observation_wins:
  assumes "list_all (\<lambda>(k, v). storable_observation k v) ws"
  shows "observation_store.writes Map.empty ws k = map_of ws k"
  by (rule observation_store.first_write_wins) (use assms in \<open>simp_all add: table_ready_def\<close>)

section \<open>Properties\<close>

text \<open>C26: ALL-OR-NOTHING. Whatever fails - a statement, the commit, or its acknowledgement - a call of
  the repository leaves the observations as they were or adds all the missing ones of the call; it
  never changes a stored observation, and when it returns every record of the call is stored with its
  value.\<close>

theorem save_many_all_or_nothing:
  assumes "consumption_database db stored ready" and "ready d"
    and "\<forall>r \<in> set rs. canonical_consumption r"
    and "save_many db (Some (map Some rs)) d = (res, d')"
  shows "stored d \<subseteq>\<^sub>m stored d' \<and> (stored d' = stored d \<or> stored d' = saved (stored d) rs) \<and>
    (res = Inr () \<longrightarrow>
      (\<forall>r \<in> set rs. \<exists>v. stored d' (record_identity r) = Some v \<and> float_eq v (cr_value_mw r)))"
  using consumption_database.save_many_ok [OF assms] saved_holds saved_keeps by fastforce

definition sample_observation :: "string \<Rightarrow> utc \<Rightarrow> nat \<Rightarrow> consumption_record" where
  "sample_observation i t m = \<lparr>cr_consumer_id = i, cr_timestamp = t, cr_value_mw = Fl False m 0\<rparr>"

lemma sample_observation_canonical:
  "canonical_consumption (sample_observation ''C1'' t m)"
  by (simp add: canonical_consumption_def sample_observation_def validate_consumption_record_def
      validated_def raise_if_def entity_id_def strip_whitespace_def white_space_def non_negative_mw_def
      float_zero_def float_aligned_def)

text \<open>A database that applies every commit and loses the acknowledgement.\<close>

definition losing_database :: "observations database" where
  "losing_database = table_database\<lparr>db_commit := (\<lambda>before working. (Some DBAPIError, working))\<rparr>"

lemma losing_consumption_database: "consumption_database losing_database (\<lambda>m. m) table_ready"
proof -
  have e: "db_execute losing_database = db_execute table_database" by (simp add: losing_database_def)
  show ?thesis
    by (rule consumption_database.intro; (unfold e)?)
      (erule (1) table.insert_law, erule (1) table.select_law, force simp: losing_database_def, erule (1) table.check_law)
qed

text \<open>With an observation stored, a call whose commit is lost, and the retry on the table.\<close>

lemmas repository_eval =
  save_many_def normalize_records_def save_transaction_def persist_records_def table_database_def losing_database_def
  consumption_primary_key_def storable_values_def value_mw_finite_non_negative_def record_values_def
  record_identity_def stored_row_def canonical_from_row_def raised_def same_consumption_def float_eq_def float_lt_def
  float_zero_def float_aligned_def sample_observation_def validate_consumption_record_def validated_def
  raise_if_def entity_id_def strip_whitespace_def white_space_def non_negative_mw_def

definition sample_table :: observations where
  "sample_table = [(''C1'', 0) \<mapsto> Fl False 5 0]"

lemma sample_save:
  "save_many losing_database
     (Some (map Some [sample_observation ''C1'' 0 5, sample_observation ''C1'' 7 6, sample_observation ''C1'' 7 6]))
     sample_table =
   (Inl consumption_unavailable, sample_table((''C1'', 7) \<mapsto> Fl False 6 0))"
  by (simp add: repository_eval sample_table_def)

lemma save_many_all_or_nothing_witness:
  "fst (save_many losing_database
     (Some (map Some [sample_observation ''C1'' 0 5, sample_observation ''C1'' 7 6, sample_observation ''C1'' 7 6]))
     sample_table) = Inl consumption_unavailable \<and>
   sample_table \<subseteq>\<^sub>m sample_table((''C1'', 7) \<mapsto> Fl False 6 0)"
proof -
  let ?rs = "[sample_observation ''C1'' 0 5, sample_observation ''C1'' 7 6, sample_observation ''C1'' 7 6]"
  have "table_ready sample_table"
    by (simp add: sample_table_def table_ready_def value_mw_finite_non_negative_def float_lt_def float_zero_def float_aligned_def)
  moreover have "\<forall>r \<in> set ?rs. canonical_consumption r" using sample_observation_canonical by simp
  ultimately show ?thesis
    using save_many_all_or_nothing [OF losing_consumption_database _ _ sample_save] sample_save by simp
qed

text \<open>C27: REPOSITORY-REFINES-MAP. Over a database that answers, a call of the repository is one step of
  the write-once map: when the records agree with each other and with what is stored, it returns and
  the map gains the missing observations, and otherwise it is a conflict and the map stays; a repeat
  after any further growth returns and changes nothing.\<close>

theorem repository_refines_map:
  assumes "consumption_database db stored ready" and "answering_database db ready" and "ready d"
    and "\<forall>r \<in> set rs. canonical_consumption r \<and> CHR 0x00 \<notin> set (cr_consumer_id r)"
    and "save_many db (Some (map Some rs)) d = (res, d')"
  shows "res = (if acceptable (stored d) rs then Inr () else Inl consumption_conflict) \<and>
    stored d' = (if acceptable (stored d) rs then saved (stored d) rs else stored d) \<and>
    (\<forall>e res' e'. res = Inr () \<and> ready e \<and> stored d' \<subseteq>\<^sub>m stored e \<and>
      save_many db (Some (map Some rs)) e = (res', e') \<longrightarrow> res' = Inr () \<and> stored e' = stored e)"
proof -
  note spec = consumption_database.save_many_answers [OF assms(1,2) _ assms(4)]
  note first = spec [OF assms(3,5)]
  have "res' = Inr () \<and> stored e' = stored e"
    if "res = Inr ()" "ready e" "stored d' \<subseteq>\<^sub>m stored e" "save_many db (Some (map Some rs)) e = (res', e')" for e res' e'
  proof -
    have a: "acceptable (stored d) rs" using that(1) first by (auto split: if_splits)
    then have "saved (stored d) rs \<subseteq>\<^sub>m stored e" using first that(3) by simp
    with saved_again [OF a] spec [OF that(2,4)] show ?thesis by simp
  qed
  with first show ?thesis by blast
qed

definition saved_table :: observations where
  "saved_table = [(''C1'', 0) \<mapsto> Fl False 5 0, (''C1'', 7) \<mapsto> Fl False 6 0]"

lemma sample_repository_refines:
  "save_many table_database (Some (map Some [sample_observation ''C1'' 0 5, sample_observation ''C1'' 7 6])) Map.empty =
   (Inr (), saved_table)"
  by (simp add: repository_eval saved_table_def)

lemma repository_refines_map_witness:
  "fst (save_many table_database (Some (map Some [sample_observation ''C1'' 0 5, sample_observation ''C1'' 7 6]))
     (saved_table((''C1'', 8) \<mapsto> Fl False 1 0))) = Inr ()"
proof -
  let ?rs = "[sample_observation ''C1'' 0 5, sample_observation ''C1'' 7 6]"
  let ?m = "(saved_table((''C1'', 8) \<mapsto> Fl False 1 0))"
  have c: "\<forall>r \<in> set ?rs. canonical_consumption r \<and> CHR 0x00 \<notin> set (cr_consumer_id r)"
    using sample_observation_canonical by (simp add: sample_observation_def)
  have r: "table_ready Map.empty" "table_ready ?m"
    by (simp_all add: saved_table_def table_ready_def value_mw_finite_non_negative_def float_lt_def float_zero_def float_aligned_def)
  obtain res' e' where s: "save_many table_database (Some (map Some ?rs)) ?m = (res', e')" by fastforce
  have "saved_table \<subseteq>\<^sub>m ?m" by (simp add: map_le_def saved_table_def)
  with repository_refines_map [OF table.consumption_database_axioms table_answers r(1) c sample_repository_refines] r(2) s
  show ?thesis by simp
qed

end
