(* ===== verification/Iso_Time.thy ===== *)
theory Iso_Time
  imports Json_Text
begin

text \<open>
  The text of a canonical instant: \<open>utc_isoformat\<close> of domain/value_objects/time.py, which is
  \<open>datetime.isoformat\<close> of the UTC datetime. The calendar is the proleptic Gregorian one of the
  \<open>datetime\<close> module, computed from the day's ordinal as CPython's \<open>_ord2ymd\<close> does; the inverse
  shows that the text determines the instant.
\<close>

section \<open>The calendar\<close>

definition is_leap_year :: "nat \<Rightarrow> bool" where
  "is_leap_year y \<longleftrightarrow> y mod 4 = 0 \<and> (y mod 100 \<noteq> 0 \<or> y mod 400 = 0)"

definition month_lengths :: "bool \<Rightarrow> nat list" where
  "month_lengths leap = [31, if leap then 29 else 28, 31, 30, 31, 30, 31, 31, 30, 31, 30, 31]"

text \<open>The month and day of the day of a year, counted from 0.\<close>

fun month_day :: "nat list \<Rightarrow> nat \<Rightarrow> nat \<Rightarrow> nat \<times> nat" where
  "month_day [] month n = (month, n + 1)"
| "month_day (k # ks) month n = (if n < k then (month, n + 1) else month_day ks (month + 1) (n - k))"

definition days_before_year :: "nat \<Rightarrow> nat" where
  "days_before_year y = (y - 1) * 365 + (y - 1) div 4 - (y - 1) div 100 + (y - 1) div 400"

text \<open>Days are counted from 0 for January 1 of year 1.\<close>

definition year_of_day :: "nat \<Rightarrow> nat \<times> nat" where
  "year_of_day n =
     (let n400 = n div 146097; n = n mod 146097;
          n100 = n div 36524; n = n mod 36524;
          n4 = n div 1461; n = n mod 1461;
          n1 = n div 365; n = n mod 365;
          year = n400 * 400 + 1 + n100 * 100 + n4 * 4 + n1
      in if n1 = 4 \<or> n100 = 4 then (year - 1, 365) else (year, n))"

definition date_of_day :: "nat \<Rightarrow> nat \<times> nat \<times> nat" where
  "date_of_day n = (let (y, k) = year_of_day n in (y, month_day (month_lengths (is_leap_year y)) 1 k))"

lemma year_of_day_inverse:
  assumes "year_of_day n = (y, k)"
  shows "days_before_year y + k = n"
proof -
  define a m1 where "a = n div 146097" and "m1 = n mod 146097"
  define b m2 where "b = m1 div 36524" and "m2 = m1 mod 36524"
  define c m3 where "c = m2 div 1461" and "m3 = m2 mod 1461"
  define d r where "d = m3 div 365" and "r = m3 mod 365"
  note defs = a_def m1_def b_def m2_def c_def m3_def d_def r_def
  have n: "n = 146097 * a + m1" "m1 < 146097" "m1 = 36524 * b + m2" "m2 < 36524"
    "m2 = 1461 * c + m3" "m3 < 1461" "m3 = 365 * d + r" "r < 365"
    by (simp_all add: defs)
  then have bounds: "b \<le> 4" "c \<le> 24" "d \<le> 4" by linarith+
  have four: "b = 4 \<Longrightarrow> m2 = 0" and leap: "d = 4 \<Longrightarrow> r = 0" using n by linarith+
  have y: "(y, k) = (if d = 4 \<or> b = 4 then (a * 400 + b * 100 + c * 4 + d, 365) else (a * 400 + 1 + b * 100 + c * 4 + d, r))"
    using assms by (auto simp: year_of_day_def Let_def defs split: if_splits)
  have before: "days_before_year (400 * a + 100 * b + 4 * c + d + 1) = 146097 * a + 36524 * b + 1461 * c + 365 * d"
    if "b \<le> 3" "c \<le> 24" "d \<le> 3" for b c d
  proof -
    have "(400 * a + 100 * b + 4 * c + d) div 4 = 100 * a + 25 * b + c"
      "(400 * a + 100 * b + 4 * c + d) div 100 = 4 * a + b"
      "(400 * a + 100 * b + 4 * c + d) div 400 = a"
      using that by linarith+
    then show ?thesis by (simp add: days_before_year_def)
  qed
  consider "b = 4" | "d = 4" "b \<le> 3" | "b \<le> 3" "d \<le> 3" using bounds by linarith
  then show ?thesis
  proof cases
    case 1
    then have "c = 0" "d = 0" "r = 0" using four n by auto
    then show ?thesis using y 1 n before [of 3 24 3] by (simp add: days_before_year_def)
  next
    case 2
    then show ?thesis using y n leap before [of b c 3] bounds by (simp add: algebra_simps)
  next
    case 3
    then show ?thesis using y n before [of b c d] bounds by (simp add: algebra_simps)
  qed
qed

lemma month_day_month: "month \<le> fst (month_day ks month n)"
  by (induction ks month n rule: month_day.induct) auto

lemma month_day_inject: "month_day ks month n = month_day ks month n' \<longleftrightarrow> n = n'"
proof (induction ks arbitrary: month n n')
  case (Cons k ks)
  have "Suc month \<le> fst (month_day ks (month + 1) x)" for x using month_day_month [of "month + 1" ks x] by simp
  then have "(month, a) \<noteq> month_day ks (month + 1) x" "month_day ks (month + 1) x \<noteq> (month, a)" for a x
    by (metis Suc_n_not_le_n fst_conv)+
  then show ?case using Cons.IH [of "month + 1" "n - k" "n' - k"] by auto
qed simp

lemma date_of_day_inject: "date_of_day n = date_of_day n' \<longleftrightarrow> n = n'"
proof
  assume e: "date_of_day n = date_of_day n'"
  obtain y k y' k' where y: "year_of_day n = (y, k)" "year_of_day n' = (y', k')" by fastforce
  then have "y = y'" "k = k'" using e by (auto simp: date_of_day_def month_day_inject)
  then show "n = n'" using year_of_day_inverse y by metis
qed simp

section \<open>The text\<close>

definition padded :: "nat \<Rightarrow> nat \<Rightarrow> string" where
  "padded k n = replicate (k - length (decimal_digits n)) CHR ''0'' @ decimal_digits n"

definition fraction_text :: "nat \<Rightarrow> string" where
  "fraction_text f = (if f = 0 then '''' else ''.'' @ padded 6 f)"

definition clock_text :: "nat \<Rightarrow> string" where
  "clock_text us =
     padded 2 (us div 3600000000) @ '':'' @ padded 2 (us mod 3600000000 div 60000000) @ '':'' @
     padded 2 (us mod 60000000 div 1000000) @ fraction_text (us mod 1000000)"

definition date_text :: "nat \<times> nat \<times> nat \<Rightarrow> string" where
  "date_text ymd = (case ymd of (y, m, d) \<Rightarrow> padded 4 y @ ''-'' @ padded 2 m @ ''-'' @ padded 2 d)"

definition utc_isoformat :: "utc \<Rightarrow> string" where
  "utc_isoformat t =
     date_text (date_of_day (nat t div 86400000000)) @ ''T'' @ clock_text (nat t mod 86400000000) @ ''+00:00''"

definition is_digit :: "char \<Rightarrow> bool" where
  "is_digit c \<longleftrightarrow> 48 \<le> (of_char c :: nat) \<and> (of_char c :: nat) \<le> 57"

lemma decimal_digits_digits: "c \<in> set (decimal_digits n) \<Longrightarrow> is_digit c"
proof (induction n rule: decimal_digits.induct)
  case (1 n)
  have "is_digit (char_of (48 + k))" if "k < 10" for k :: nat using that by (simp add: is_digit_def)
  moreover have "c \<in> set (if n < 10 then [char_of (48 + n)] else decimal_digits (n div 10) @ [char_of (48 + n mod 10)])"
    using 1(2) decimal_digits.simps [of n] by simp
  ultimately show ?case using 1(1) by (auto split: if_splits)
qed

lemma padded_digits: "c \<in> set (padded k n) \<Longrightarrow> is_digit c"
  by (auto simp: padded_def is_digit_def dest: decimal_digits_digits)

lemma digits_number_padded [simp]: "digits_number (padded k n) = n"
proof -
  have "digits_number (replicate j CHR ''0'' @ s) = digits_number s" for j s
    by (induction j) (simp_all add: digits_number_def)
  then show ?thesis by (simp add: padded_def)
qed

lemma takeWhile_digits:
  "\<forall>c \<in> set u. is_digit c \<Longrightarrow> r = [] \<or> \<not> is_digit (hd r) \<Longrightarrow> takeWhile is_digit (u @ r) = u"
  by (induction u) (auto simp: takeWhile_eq_Nil_iff)

lemma padded_inject:
  assumes "padded k n @ r = padded k m @ s" "\<not> is_digit (hd r)" "\<not> is_digit (hd s)"
  shows "n = m \<and> r = s"
proof -
  have "padded k n = padded k m"
    using assms takeWhile_digits [of "padded k n" r] takeWhile_digits [of "padded k m" s] padded_digits by metis
  then show ?thesis using assms(1) digits_number_padded by (metis same_append_eq)
qed

lemma separators: "\<not> is_digit CHR ''-''" "\<not> is_digit CHR ''T''" "\<not> is_digit CHR '':''" "\<not> is_digit CHR ''.''"
  "\<not> is_digit CHR ''+''"
  by (simp_all add: is_digit_def)

lemma date_text_inject:
  assumes "date_text d @ ''T'' @ r = date_text e @ ''T'' @ s"
  shows "d = e \<and> r = s"
  using assms separators by (cases d; cases e) (auto simp: date_text_def dest!: padded_inject)

lemma fraction_text_inject:
  assumes "fraction_text f @ ''+00:00'' = fraction_text g @ ''+00:00''"
  shows "f = g"
proof -
  have "f = g" if "padded 6 f @ ''+00:00'' = padded 6 g @ ''+00:00''"
    using padded_inject [OF that] separators by simp
  then show ?thesis using assms by (auto simp: fraction_text_def split: if_splits)
qed

lemma fraction_text_start: "\<not> is_digit (hd (fraction_text f @ ''+00:00''))"
  using separators by (simp add: fraction_text_def)

lemma clock_text_inject:
  assumes "clock_text u @ ''+00:00'' = clock_text v @ ''+00:00''"
  shows "u = v"
proof -
  let ?h = "\<lambda>u. u div 3600000000" and ?m = "\<lambda>u. u mod 3600000000 div 60000000"
    and ?s = "\<lambda>u. u mod 60000000 div 1000000" and ?f = "\<lambda>u. u mod (1000000::nat)"
  have parts: "u = 3600000000 * ?h u + 60000000 * ?m u + 1000000 * ?s u + ?f u" for u :: nat
  proof -
    have "u = 3600000000 * ?h u + u mod 3600000000" by simp
    moreover have "u mod 3600000000 = 60000000 * ?m u + u mod 3600000000 mod 60000000" by simp
    moreover have "u mod 3600000000 mod 60000000 = u mod 60000000" by (rule mod_mod_cancel) simp
    moreover have "u mod 60000000 = 1000000 * ?s u + u mod 60000000 mod 1000000" by simp
    moreover have "u mod 60000000 mod 1000000 = ?f u" by (rule mod_mod_cancel) simp
    ultimately show ?thesis by linarith
  qed
  have "?h u = ?h v \<and> ?m u = ?m v \<and> ?s u = ?s v \<and> ?f u = ?f v"
  proof -
    have h: "?h u = ?h v \<and> '':'' @ padded 2 (?m u) @ '':'' @ padded 2 (?s u) @ fraction_text (?f u) @ ''+00:00'' =
        '':'' @ padded 2 (?m v) @ '':'' @ padded 2 (?s v) @ fraction_text (?f v) @ ''+00:00''"
      by (rule padded_inject [where k = 2]) (use assms separators in \<open>simp_all add: clock_text_def\<close>)
    have m: "?m u = ?m v \<and> '':'' @ padded 2 (?s u) @ fraction_text (?f u) @ ''+00:00'' =
        '':'' @ padded 2 (?s v) @ fraction_text (?f v) @ ''+00:00''"
      by (rule padded_inject [where k = 2]) (use h separators in simp_all)
    have s: "?s u = ?s v \<and> fraction_text (?f u) @ ''+00:00'' = fraction_text (?f v) @ ''+00:00''"
      by (rule padded_inject [where k = 2]) (use m fraction_text_start in simp_all)
    with h m fraction_text_inject show ?thesis by blast
  qed
  then show ?thesis using parts [of u] parts [of v] by metis
qed

text \<open>The text of an instant determines it.\<close>

lemma utc_isoformat_inject:
  assumes "0 \<le> t" "0 \<le> u" "utc_isoformat t = utc_isoformat u"
  shows "t = u"
proof -
  have "date_of_day (nat t div 86400000000) = date_of_day (nat u div 86400000000)"
    "clock_text (nat t mod 86400000000) @ ''+00:00'' = clock_text (nat u mod 86400000000) @ ''+00:00''"
    using date_text_inject assms(3) unfolding utc_isoformat_def by blast+
  then have "nat t div 86400000000 = nat u div 86400000000" "nat t mod 86400000000 = nat u mod 86400000000"
    by (simp_all add: date_of_day_inject clock_text_inject)
  then have "nat t = nat u" by (metis div_mult_mod_eq)
  then show ?thesis using assms(1,2) by simp
qed


end
