(* ===== verification/Json_Raw.thy ===== *)
theory Json_Raw
  imports Json_Text
begin

text \<open>
  JSON text as \<open>json.dumps\<close> writes it with \<open>ensure_ascii=False\<close> and compact separators:
  only quotes, backslashes and control characters are escaped. Values made of strings, nulls, arrays
  and objects are determined by their text.
\<close>

definition raw_escape :: "char \<Rightarrow> string" where
  "raw_escape c = (if 127 \<le> (of_char c :: nat) then [c] else json_escape c)"

definition raw_string :: "string \<Rightarrow> string" where
  "raw_string s = quote_mark # concat (map raw_escape s) @ [quote_mark]"

fun raw_dumps :: "json \<Rightarrow> string" where
  "raw_dumps JNull = ''null''"
| "raw_dumps (JBool b) = (if b then ''true'' else ''false'')"
| "raw_dumps (JInt i) = json_int i"
| "raw_dumps (JStr s) = raw_string s"
| "raw_dumps (JArray vs) = CHR ''['' # join_with (CHR '','') (map raw_dumps vs) @ '']''"
| "raw_dumps (JObject ms) =
     CHR ''{'' # join_with (CHR '','') (map (\<lambda>(k, v). raw_string k @ CHR '':'' # raw_dumps v) ms) @ ''}''"
| "raw_dumps (JOther s) = s"

lemma json_escape_plain: "127 \<le> (of_char c :: nat) \<Longrightarrow> c \<noteq> backslash \<and> c \<noteq> quote_mark"
  by auto

lemma json_unescape_raw: "json_unescape (raw_escape c @ r) = Some (c, r)"
proof (cases "127 \<le> (of_char c :: nat)")
  case True
  then show ?thesis using json_escape_plain [OF True] by (simp add: raw_escape_def)
next
  case False
  then show ?thesis by (simp add: raw_escape_def json_unescape_escape)
qed

lemma raw_escape_not_quote: "raw_escape c @ r \<noteq> quote_mark # s"
  using json_escape_plain [of c] json_escape_not_quote by (auto simp: raw_escape_def)

lemma raw_body_inject:
  "concat (map raw_escape s) @ quote_mark # r = concat (map raw_escape t) @ quote_mark # u \<Longrightarrow> s = t \<and> r = u"
proof (induction s arbitrary: t)
  case Nil
  then show ?case by (cases t) (auto dest: sym simp: raw_escape_not_quote)
next
  case (Cons c s)
  show ?case
  proof (cases t)
    case Nil
    then show ?thesis using Cons.prems by (simp add: raw_escape_not_quote)
  next
    case (Cons d t')
    then have e: "raw_escape c @ (concat (map raw_escape s) @ quote_mark # r)
        = raw_escape d @ (concat (map raw_escape t') @ quote_mark # u)"
      using Cons.prems by simp
    then have "Some (c, concat (map raw_escape s) @ quote_mark # r) = Some (d, concat (map raw_escape t') @ quote_mark # u)"
      by (metis json_unescape_raw)
    then show ?thesis using Cons.IH [of t'] Cons by simp
  qed
qed

lemma raw_string_inject: "raw_string s @ r = raw_string t @ u \<longleftrightarrow> s = t \<and> r = u"
  using raw_body_inject [of s r t u] by (auto simp: raw_string_def)

section \<open>Values from their text\<close>

lemma join_with_Cons: "join_with c (x # xs) = x @ concat (map (\<lambda>y. c # y) xs)"
  by (induction c xs arbitrary: x rule: join_with.induct) auto

lemma joined_tail_inject:
  assumes "\<And>x y r u. x \<in> set xs \<Longrightarrow> y \<in> set ys \<Longrightarrow> f x @ r = f y @ u \<Longrightarrow> x = y \<and> r = u"
    and "concat (map (\<lambda>x. sep # f x) xs) @ close # r = concat (map (\<lambda>x. sep # f x) ys) @ close # u" "sep \<noteq> close"
  shows "xs = ys \<and> r = u"
  using assms
proof (induction xs arbitrary: ys)
  case Nil
  then show ?case by (cases ys) auto
next
  case (Cons x xs)
  then obtain y ys' where ys: "ys = y # ys'" by (cases ys) auto
  have "x = y \<and> concat (map (\<lambda>x. sep # f x) xs) @ close # r = concat (map (\<lambda>x. sep # f x) ys') @ close # u"
    using Cons.prems(1) [of x y] Cons.prems(2) ys by simp
  moreover from this have "xs = ys' \<and> r = u"
    by (intro Cons.IH) (use Cons.prems(1,3) ys in auto)
  ultimately show ?case using ys by simp
qed

lemma joined_inject:
  assumes inj: "\<And>x y r u. x \<in> set xs \<Longrightarrow> y \<in> set ys \<Longrightarrow> f x @ r = f y @ u \<Longrightarrow> x = y \<and> r = u"
    and "\<And>x. x \<in> set xs \<union> set ys \<Longrightarrow> f x \<noteq> [] \<and> hd (f x) \<noteq> close" "sep \<noteq> close"
    and e: "join_with sep (map f xs) @ close # r = join_with sep (map f ys) @ close # u"
  shows "xs = ys \<and> r = u"
proof (cases xs; cases ys)
  fix x xs' y ys' assume xs: "xs = x # xs'" and ys: "ys = y # ys'"
  have "f x @ (concat (map (\<lambda>x. sep # f x) xs') @ close # r) = f y @ (concat (map (\<lambda>x. sep # f x) ys') @ close # u)"
    using e xs ys by (simp add: join_with_Cons comp_def)
  then have "x = y" and tails: "concat (map (\<lambda>x. sep # f x) xs') @ close # r = concat (map (\<lambda>x. sep # f x) ys') @ close # u"
    using inj [of x y] xs ys by auto
  moreover have "xs' = ys' \<and> r = u" by (rule joined_tail_inject [OF _ tails assms(3)]) (use inj xs ys in auto)
  ultimately show ?thesis using xs ys by simp
next
  fix y ys' assume xs: "xs = []" and ys: "ys = y # ys'"
  then have "close # r = f y @ (concat (map (\<lambda>x. sep # f x) ys') @ close # u)"
    using e by (simp add: join_with_Cons comp_def)
  moreover have "f y \<noteq> []" "hd (f y) \<noteq> close" using assms(2) [of y] ys by auto
  ultimately show ?thesis by (cases "f y") auto
next
  fix x xs' assume xs: "xs = x # xs'" and ys: "ys = []"
  then have "close # u = f x @ (concat (map (\<lambda>x. sep # f x) xs') @ close # r)"
    using e by (simp add: join_with_Cons comp_def)
  moreover have "f x \<noteq> []" "hd (f x) \<noteq> close" using assms(2) [of x] xs by auto
  ultimately show ?thesis by (cases "f x") auto
next
  assume "xs = []" "ys = []"
  then show ?thesis using e by simp
qed

text \<open>Values without numbers and literals other than null.\<close>

fun plain_json :: "json \<Rightarrow> bool" where
  "plain_json JNull = True"
| "plain_json (JStr s) = True"
| "plain_json (JArray vs) = list_all plain_json vs"
| "plain_json (JObject ms) = list_all (\<lambda>(k, v). plain_json v) ms"
| "plain_json _ = False"

lemma raw_dumps_start:
  "plain_json v \<Longrightarrow> raw_dumps v \<noteq> [] \<and> hd (raw_dumps v) = (case v of JNull \<Rightarrow> CHR ''n'' | JStr s \<Rightarrow> quote_mark | JArray vs \<Rightarrow> CHR ''['' | _ \<Rightarrow> CHR ''{'')"
  by (cases v) (auto simp: raw_string_def)

lemma raw_dumps_inject:
  assumes "plain_json v" "plain_json w" "raw_dumps v @ r = raw_dumps w @ u"
  shows "v = w \<and> r = u"
  using assms
proof (induction v arbitrary: w r u rule: raw_dumps.induct)
  case 1
  then show ?case using raw_dumps_start [OF 1(2)] by (cases w) (auto simp: raw_string_def)
next
  case (4 s)
  then show ?case by (cases w) (auto simp: raw_string_inject, auto simp: raw_string_def)
next
  case (5 vs)
  then obtain ws where w: "w = JArray ws" by (cases w) (auto simp: raw_string_def)
  have "vs = ws \<and> r = u"
  proof (rule joined_inject [where f = raw_dumps and sep = "CHR '',''" and close = "CHR '']''"])
    show "v = v' \<and> p = q" if "v \<in> set vs" "v' \<in> set ws" "raw_dumps v @ p = raw_dumps v' @ q" for v v' p q
      using that 5 w by (auto simp: list_all_iff)
    show "raw_dumps v \<noteq> [] \<and> hd (raw_dumps v) \<noteq> CHR '']''" if "v \<in> set vs \<union> set ws" for v
    proof -
      have "plain_json v" using that 5(2,3) w by (auto simp: list_all_iff)
      from raw_dumps_start [OF this] show ?thesis by (auto split: json.splits)
    qed
  qed (use 5(4) w in simp_all)
  then show ?case using w by simp
next
  case (6 ms)
  then obtain ns where w: "w = JObject ns" by (cases w) (auto simp: raw_string_def)
  let ?f = "\<lambda>(k, v). raw_string k @ CHR '':'' # raw_dumps v"
  have "ms = ns \<and> r = u"
  proof (rule joined_inject [where f = ?f and sep = "CHR '',''" and close = "CHR ''}''"])
    show "m = n \<and> p = q" if mn: "m \<in> set ms" "n \<in> set ns" "?f m @ p = ?f n @ q" for m n p q
    proof -
      obtain k v k' v' where kv: "m = (k, v)" "n = (k', v')" by fastforce
      then have "k = k' \<and> raw_dumps v @ p = raw_dumps v' @ q" using mn(3) by (simp add: raw_string_inject)
      moreover have "plain_json v" "plain_json v'" using mn 6(2,3) w kv by (auto simp: list_all_iff)
      ultimately show ?thesis using 6(1) [OF mn(1), of k v v' p q] kv by simp
    qed
    show "?f m \<noteq> [] \<and> hd (?f m) \<noteq> CHR ''}''" if "m \<in> set ms \<union> set ns" for m
      by (cases m) (simp add: raw_string_def)
  qed (use 6(4) w in simp_all)
  then show ?case using w by simp
qed auto


end
