(* ===== verification/Dead_Letters.thy ===== *)
theory Dead_Letters
  imports Domain_Models Write_Once Iso_Time Json_Raw
begin

text \<open>
  The filesystem dead letter queue (infrastructure/persistence/dlq.py, behind application/ports/dlq.py):
  one JSON file per record identifier, created exclusively, never rewritten. The directory is a map
  from file names to texts; each call meets faults chosen by its environment. SHA-256 and pydantic's
  validation of a JSON text are arguments.
\<close>

section \<open>Serialisation\<close>

definition severity_value :: "diagnostic_severity \<Rightarrow> string" where
  "severity_value s =
     (case s of SEVERITY_INFO \<Rightarrow> ''info'' | SEVERITY_WARNING \<Rightarrow> ''warning'' | SEVERITY_ERROR \<Rightarrow> ''error'')"

definition nullable_text :: "string option \<Rightarrow> json" where
  "nullable_text t = (case t of None \<Rightarrow> JNull | Some s \<Rightarrow> JStr s)"

text \<open>\<open>model_dump(mode="json")\<close>, its members in the order of their keys.\<close>

definition diagnostic_json :: "adapter_diagnostic \<Rightarrow> json" where
  "diagnostic_json d =
     JObject
       [(''code'', JStr (ad_code d)),
        (''field_name'', nullable_text (ad_field_name d)),
        (''message'', JStr (ad_message d)),
        (''severity'', JStr (severity_value (ad_severity d)))]"

definition dlq_record_json :: "dlq_record \<Rightarrow> json" where
  "dlq_record_json r =
     JObject
       [(''adapter_name'', JStr (dlq_adapter_name r)),
        (''correlation_id'', nullable_text (dlq_correlation_id r)),
        (''diagnostics'', JArray (map diagnostic_json (dlq_diagnostics r))),
        (''failed_at'', JStr (utc_isoformat (dlq_failed_at r))),
        (''payload_reference'', JStr (dlq_payload_reference r)),
        (''record_id'', JStr (dlq_record_id r)),
        (''source_name'', JStr (dlq_source_name r))]"

definition serialize_dlq_record :: "dlq_record \<Rightarrow> string" where
  "serialize_dlq_record r = raw_dumps (dlq_record_json r)"

section \<open>The queue\<close>

text \<open>
  \<open>validate_json\<close> is \<open>DLQRecord.model_validate_json\<close>; a \<open>ValidationError\<close> and text that is
  not UTF-8 are \<open>ValueError\<close>s, its \<open>None\<close>.
\<close>

record dlq_library =
  sha256_hexdigest :: "string \<Rightarrow> string"
  validate_json :: "string \<Rightarrow> dlq_record option"

text \<open>
  What a call meets. \<open>io_write\<close>: \<open>None\<close> when writing and closing succeed, otherwise the text that
  reached the file before the failure.
\<close>

record io_faults =
  io_mkdir_fails :: bool
  io_open_fails :: bool
  io_write :: "string option"
  io_read_fails :: bool
  io_unlink_fails :: bool

definition no_faults :: io_faults where
  "no_faults = \<lparr>io_mkdir_fails = False, io_open_fails = False, io_write = None, io_read_fails = False,
     io_unlink_fails = False\<rparr>"

type_synonym files = "string \<rightharpoonup> string"

definition dlq_unavailable :: exn where
  "dlq_unavailable = DependencyUnavailableError ''DLQ persistence is unavailable''"

definition dlq_conflict :: exn where
  "dlq_conflict = ConflictError ''A conflicting DLQ record already exists''"

definition record_path :: "dlq_library \<Rightarrow> string \<Rightarrow> string" where
  "record_path lib record_id = sha256_hexdigest lib record_id @ ''.json''"

definition reconcile_existing :: "dlq_library \<Rightarrow> io_faults \<Rightarrow> string \<Rightarrow> dlq_record \<Rightarrow> unit result" where
  "reconcile_existing lib io text record =
     (if io_read_fails io then Inl dlq_unavailable
      else case validate_json lib text of
        None \<Rightarrow> Inl dlq_unavailable
      | Some existing \<Rightarrow>
          if existing = record then Inr ()
          else if dlq_record_id existing = dlq_record_id record then Inl dlq_conflict
          else Inl dlq_unavailable)"

definition best_effort_unlink :: "io_faults \<Rightarrow> string \<Rightarrow> files \<Rightarrow> files" where
  "best_effort_unlink io path fs = (if io_unlink_fails io then fs else fs(path := None))"

definition enqueue :: "dlq_library \<Rightarrow> io_faults \<Rightarrow> dlq_record \<Rightarrow> files \<Rightarrow> unit result \<times> files" where
  "enqueue lib io record fs =
     (if io_mkdir_fails io then (Inl dlq_unavailable, fs)
      else
        let path = record_path lib (dlq_record_id record);
            serialized = serialize_dlq_record record
        in if io_open_fails io then (Inl dlq_unavailable, fs)
           else case fs path of
             Some text \<Rightarrow> (reconcile_existing lib io text record, fs)
           | None \<Rightarrow>
               (case io_write io of
                  None \<Rightarrow> (Inr (), fs(path \<mapsto> serialized))
                | Some partial \<Rightarrow>
                    (Inl dlq_unavailable, best_effort_unlink io path (fs(path \<mapsto> partial)))))"

definition make_dead_letter_queue :: "string option \<Rightarrow> string result" where
  "make_dead_letter_queue root_directory =
     (case root_directory of
        None \<Rightarrow> Inl (TypeError ''root_directory must be a pathlib.Path'')
      | Some directory \<Rightarrow> Inr directory)"

section \<open>The text determines the record\<close>

lemma nullable_text_inject: "nullable_text a = nullable_text b \<longleftrightarrow> a = b"
  by (auto simp: nullable_text_def split: option.splits)

lemma severity_value_inject: "severity_value a = severity_value b \<longleftrightarrow> a = b"
  by (cases a; cases b) (simp_all add: severity_value_def)

lemma diagnostic_json_inject: "diagnostic_json a = diagnostic_json b \<longleftrightarrow> a = b"
  by (cases a; cases b) (auto simp: diagnostic_json_def nullable_text_inject severity_value_inject)

lemma dlq_record_json_inject:
  assumes "0 \<le> dlq_failed_at r" "0 \<le> dlq_failed_at s" "dlq_record_json r = dlq_record_json s"
  shows "r = s"
proof -
  have "inj diagnostic_json" by (simp add: inj_def diagnostic_json_inject)
  then show ?thesis using assms utc_isoformat_inject
    by (cases r; cases s) (auto simp: dlq_record_json_def nullable_text_inject dest: map_injective)
qed

lemma plain_dlq_record_json: "plain_json (dlq_record_json r)"
  by (auto simp: dlq_record_json_def diagnostic_json_def nullable_text_def list_all_iff split: option.splits)

lemma serialize_dlq_record_inject:
  assumes "0 \<le> dlq_failed_at r" "0 \<le> dlq_failed_at s" "serialize_dlq_record r = serialize_dlq_record s"
  shows "r = s"
  using raw_dumps_inject [of "dlq_record_json r" "dlq_record_json s" "[]" "[]"] plain_dlq_record_json assms
  by (simp add: serialize_dlq_record_def dlq_record_json_inject)

section \<open>Faults\<close>

lemma enqueue_cases:
  "enqueue lib io record fs = (res, fs') \<Longrightarrow>
     (res \<in> {Inl dlq_unavailable, Inl dlq_conflict, Inr ()} \<and> fs' = fs) \<or>
     (fs (record_path lib (dlq_record_id record)) = None \<and>
       (res = Inr () \<and> fs' = fs(record_path lib (dlq_record_id record) \<mapsto> serialize_dlq_record record) \<or>
        res = Inl dlq_unavailable \<and> io_unlink_fails io \<and>
          (\<exists>partial. io_write io = Some partial \<and> fs' = fs(record_path lib (dlq_record_id record) \<mapsto> partial))))"
  by (auto simp: enqueue_def Let_def reconcile_existing_def best_effort_unlink_def fun_upd_idem_iff
      split: option.splits if_splits)

text \<open>A history of calls, each with the faults it meets.\<close>

fun enqueue_all :: "dlq_library \<Rightarrow> (io_faults \<times> dlq_record) list \<Rightarrow> files \<Rightarrow> unit result list \<times> files" where
  "enqueue_all lib [] fs = ([], fs)"
| "enqueue_all lib ((io, r) # calls) fs =
     (let (res, fs') = enqueue lib io r fs;
          (results, fs'') = enqueue_all lib calls fs'
      in (res # results, fs''))"

lemma enqueue_keeps: "enqueue lib io r fs = (res, fs') \<Longrightarrow> fs \<subseteq>\<^sub>m fs'"
  using enqueue_cases [of lib io r fs res fs'] by (auto simp: map_le_def)

lemma enqueue_accepted:
  assumes "enqueue lib io r fs = (Inr (), fs')" "validate_json lib (serialize_dlq_record r) = Some r"
  shows "\<exists>t. fs' (record_path lib (dlq_record_id r)) = Some t \<and> validate_json lib t = Some r"
  using assms by (auto simp: enqueue_def Let_def reconcile_existing_def dlq_unavailable_def dlq_conflict_def
      split: option.splits if_splits)

lemma enqueue_all_keeps: "enqueue_all lib calls fs = (results, fs') \<Longrightarrow> fs \<subseteq>\<^sub>m fs'"
proof (induction lib calls fs arbitrary: results fs' rule: enqueue_all.induct)
  case (2 lib io r calls fs)
  then show ?case by (auto simp: Let_def split: prod.splits dest!: enqueue_keeps) (metis map_le_trans)
qed simp

text \<open>A file that a failed write left behind, and that does not validate, refuses its record for good.\<close>

lemma torn_file_refuses:
  assumes "fs (record_path lib (dlq_record_id r)) = Some text" "validate_json lib text = None"
  shows "enqueue lib io r fs = (Inl dlq_unavailable, fs)"
  using assms by (simp add: enqueue_def Let_def reconcile_existing_def)

section \<open>The queue is a write-once store\<close>

text \<open>For a set of records whose identifiers have different digests and whose texts validate.\<close>

definition readable_records :: "dlq_library \<Rightarrow> dlq_record set \<Rightarrow> bool" where
  "readable_records lib R \<longleftrightarrow>
     inj_on (sha256_hexdigest lib) (dlq_record_id ` R) \<and>
     (\<forall>r \<in> R. validate_json lib (serialize_dlq_record r) = Some r)"

definition dlq_lookup :: "dlq_library \<Rightarrow> dlq_record set \<Rightarrow> files \<Rightarrow> string \<Rightarrow> dlq_record option" where
  "dlq_lookup lib R fs i =
     (if i \<in> dlq_record_id ` R then Option.bind (fs (record_path lib i)) (validate_json lib) else None)"

definition dlq_files :: "dlq_library \<Rightarrow> dlq_record set \<Rightarrow> files \<Rightarrow> bool" where
  "dlq_files lib R fs \<longleftrightarrow>
     (\<forall>p t. fs p = Some t \<longrightarrow> (\<exists>r \<in> R. p = record_path lib (dlq_record_id r) \<and> t = serialize_dlq_record r))"

lemma record_path_inject:
  "readable_records lib R \<Longrightarrow> r \<in> R \<Longrightarrow> s \<in> R \<Longrightarrow>
   record_path lib (dlq_record_id r) = record_path lib (dlq_record_id s) \<longleftrightarrow> dlq_record_id r = dlq_record_id s"
  by (auto simp: readable_records_def record_path_def inj_on_def)

lemma dlq_lookup_Some:
  assumes "readable_records lib R" "dlq_files lib R fs" "r \<in> R"
  shows "fs (record_path lib (dlq_record_id r)) = None \<and> dlq_lookup lib R fs (dlq_record_id r) = None \<or>
    (\<exists>s \<in> R. fs (record_path lib (dlq_record_id r)) = Some (serialize_dlq_record s) \<and>
       dlq_record_id s = dlq_record_id r \<and> dlq_lookup lib R fs (dlq_record_id r) = Some s)"
proof (cases "fs (record_path lib (dlq_record_id r))")
  case None
  then show ?thesis by (simp add: dlq_lookup_def)
next
  case (Some t)
  then obtain s where "s \<in> R" "record_path lib (dlq_record_id r) = record_path lib (dlq_record_id s)"
      "t = serialize_dlq_record s" using assms(2) unfolding dlq_files_def by blast
  moreover from this have "dlq_record_id s = dlq_record_id r" using record_path_inject assms(1,3) by metis
  ultimately show ?thesis using Some assms(1,3) by (auto simp: dlq_lookup_def readable_records_def)
qed

lemma enqueue_step:
  assumes "readable_records lib R" "dlq_files lib R fs" "r \<in> R"
  shows "enqueue lib no_faults r fs =
    (case dlq_lookup lib R fs (dlq_record_id r) of
       None \<Rightarrow> (Inr (), fs(record_path lib (dlq_record_id r) \<mapsto> serialize_dlq_record r))
     | Some s \<Rightarrow> (if s = r then Inr () else Inl dlq_conflict, fs))"
  using dlq_lookup_Some [OF assms] assms(1)
  by (auto simp: enqueue_def no_faults_def Let_def reconcile_existing_def readable_records_def)

lemma dlq_lookup_update:
  assumes "readable_records lib R" "r \<in> R"
  shows "dlq_lookup lib R (fs(record_path lib (dlq_record_id r) \<mapsto> serialize_dlq_record r)) =
    (dlq_lookup lib R fs)(dlq_record_id r \<mapsto> r)"
proof
  fix i
  show "dlq_lookup lib R (fs(record_path lib (dlq_record_id r) \<mapsto> serialize_dlq_record r)) i =
      ((dlq_lookup lib R fs)(dlq_record_id r \<mapsto> r)) i"
    using assms record_path_inject [OF assms(1)]
    by (cases "i \<in> dlq_record_id ` R") (auto simp: dlq_lookup_def readable_records_def)
qed

lemma dead_letters_write_once:
  assumes "readable_records lib R"
  shows "write_once_store (dlq_lookup lib R) (\<lambda>fs i r. enqueue lib no_faults r fs) (=) dlq_conflict
    (dlq_files lib R) (\<lambda>i r. r \<in> R \<and> dlq_record_id r = i)"
proof
  fix fs i r assume fs: "dlq_files lib R fs" "r \<in> R \<and> dlq_record_id r = i"
  note step = enqueue_step [OF assms fs(1), of r]
  show "dlq_files lib R (snd (enqueue lib no_faults r fs))"
    using step fs by (auto simp: dlq_files_def split: option.splits)
  show "v \<noteq> i \<Longrightarrow> dlq_lookup lib R (snd (enqueue lib no_faults r fs)) v = dlq_lookup lib R fs v" for v
    using step fs dlq_lookup_update [OF assms, of r fs] by (auto split: option.splits)
  show "dlq_lookup lib R fs i = None \<Longrightarrow> fst (enqueue lib no_faults r fs) = Inr () \<and>
      dlq_lookup lib R (snd (enqueue lib no_faults r fs)) i = Some r"
    using step fs dlq_lookup_update [OF assms, of r fs] by auto
  show "dlq_lookup lib R fs i = Some t \<Longrightarrow> fst (enqueue lib no_faults r fs) = (if t = r then Inr () else Inl dlq_conflict) \<and>
      dlq_lookup lib R (snd (enqueue lib no_faults r fs)) i = Some t" for t
    using step fs by auto
qed simp


abbreviation by_record_id :: "dlq_record list \<Rightarrow> string \<rightharpoonup> dlq_record" where
  "by_record_id rs \<equiv> map_of (map (\<lambda>r. (dlq_record_id r, r)) rs)"

lemma enqueue_all_step:
  assumes "readable_records lib R" "set rs \<subseteq> R" "dlq_files lib R fs"
  shows "\<exists>fs'. enqueue_all lib (map (Pair no_faults) rs) fs =
      (map (\<lambda>r. if (by_record_id rs ++ dlq_lookup lib R fs) (dlq_record_id r) = Some r then Inr () else Inl dlq_conflict) rs, fs') \<and>
    dlq_lookup lib R fs' = by_record_id rs ++ dlq_lookup lib R fs \<and> dlq_files lib R fs'"
  using assms(2,3)
proof (induction rs arbitrary: fs)
  case (Cons r rs)
  let ?l = "dlq_lookup lib R fs" and ?i = "dlq_record_id r"
  obtain res fs1 where s: "enqueue lib no_faults r fs = (res, fs1)" by fastforce
  have step: "res = (case ?l ?i of None \<Rightarrow> Inr () | Some s \<Rightarrow> if s = r then Inr () else Inl dlq_conflict)"
    "dlq_lookup lib R fs1 = (if ?l ?i = None then ?l(?i \<mapsto> r) else ?l)"
    using enqueue_step [OF assms(1) Cons.prems(2), of r] dlq_lookup_update [OF assms(1), of r fs] Cons.prems(1) s
    by (auto split: option.splits)
  have "dlq_files lib R fs1"
    using enqueue_step [OF assms(1) Cons.prems(2), of r] Cons.prems s by (auto simp: dlq_files_def split: option.splits)
  with Cons.IH [of fs1] Cons.prems(1) obtain fs2 where
    rest: "enqueue_all lib (map (Pair no_faults) rs) fs1 =
      (map (\<lambda>r. if (by_record_id rs ++ dlq_lookup lib R fs1) (dlq_record_id r) = Some r then Inr () else Inl dlq_conflict) rs, fs2)"
      "dlq_lookup lib R fs2 = by_record_id rs ++ dlq_lookup lib R fs1" "dlq_files lib R fs2" by auto
  have view: "by_record_id (r # rs) ++ ?l = by_record_id rs ++ dlq_lookup lib R fs1"
    using step(2) by (auto simp: map_add_def fun_eq_iff split: option.splits)
  have "res = (if (by_record_id (r # rs) ++ ?l) ?i = Some r then Inr () else Inl dlq_conflict)"
    using step(1) by (auto simp: map_add_def split: option.splits)
  then show ?case using s rest view by (simp del: fun_upd_apply)
qed simp

lemma dlq_lookup_empty: "dlq_lookup lib R Map.empty = Map.empty" "dlq_files lib R Map.empty"
  by (auto simp: dlq_lookup_def dlq_files_def)

section \<open>Properties\<close>

text \<open>C28: DEAD-LETTERS-SURVIVE-FAULTS. Whatever input and output faults meet the calls of a history, no
  file is ever rewritten or removed, and after a call that returned, the file of its record holds a
  text that reads back as the record, however many calls follow.\<close>

theorem dead_letters_survive_faults:
  assumes "validate_json lib (serialize_dlq_record r) = Some r"
    and "enqueue lib io r fs = (Inr (), fs')" and "enqueue_all lib calls fs' = (results, fs'')"
  shows "fs \<subseteq>\<^sub>m fs'' \<and>
    (\<exists>t. fs'' (record_path lib (dlq_record_id r)) = Some t \<and> validate_json lib t = Some r)"
proof -
  have "fs \<subseteq>\<^sub>m fs'" "fs' \<subseteq>\<^sub>m fs''" using enqueue_keeps [OF assms(2)] enqueue_all_keeps [OF assms(3)] by auto
  then show ?thesis using enqueue_accepted [OF assms(2,1)]
    by (metis domI map_le_def map_le_trans)
qed

definition sample_dead_letter :: "string \<Rightarrow> string \<Rightarrow> dlq_record" where
  "sample_dead_letter i m =
     \<lparr>dlq_record_id = i, dlq_failed_at = 0, dlq_source_name = ''S'', dlq_adapter_name = ''A'',
      dlq_diagnostics = [\<lparr>ad_code = ''c'', ad_message = m, ad_severity = SEVERITY_ERROR, ad_field_name = None\<rparr>],
      dlq_payload_reference = ''P'', dlq_correlation_id = None\<rparr>"

definition sample_library :: dlq_library where
  "sample_library =
     \<lparr>sha256_hexdigest = (\<lambda>i. i),
      validate_json = (\<lambda>t. find (\<lambda>r. serialize_dlq_record r = t)
        [sample_dead_letter ''R'' ''first'', sample_dead_letter ''R'' ''second'', sample_dead_letter ''Q'' ''first''])\<rparr>"

lemma sample_dead_letter_text:
  "serialize_dlq_record (sample_dead_letter i m) = serialize_dlq_record (sample_dead_letter j n) \<longleftrightarrow> i = j \<and> m = n"
  using serialize_dlq_record_inject [of "sample_dead_letter i m" "sample_dead_letter j n"]
  by (auto simp: sample_dead_letter_def)

lemma sample_readable:
  "readable_records sample_library
     {sample_dead_letter ''R'' ''first'', sample_dead_letter ''R'' ''second'', sample_dead_letter ''Q'' ''first''}"
  by (simp add: readable_records_def sample_library_def sample_dead_letter_text)

lemma sample_dead_letter_simps [simp]:
  "dlq_record_id (sample_dead_letter i m) = i"
  "sample_dead_letter i m = sample_dead_letter j n \<longleftrightarrow> i = j \<and> m = n"
  by (auto simp: sample_dead_letter_def)

text \<open>A write that fails after its file was created, a retry, and a conflicting record.\<close>

lemma dead_letters_survive_faults_witness:
  "\<exists>t. snd (enqueue_all sample_library
      [(no_faults\<lparr>io_write := Some ''{''\<rparr>, sample_dead_letter ''Q'' ''first''), (no_faults, sample_dead_letter ''R'' ''second'')]
      [''R.json'' \<mapsto> serialize_dlq_record (sample_dead_letter ''R'' ''first'')]) ''R.json'' = Some t \<and>
    validate_json sample_library t = Some (sample_dead_letter ''R'' ''first'')"
proof -
  let ?calls = "[(no_faults\<lparr>io_write := Some ''{''\<rparr>, sample_dead_letter ''Q'' ''first''), (no_faults, sample_dead_letter ''R'' ''second'')]"
  have v: "validate_json sample_library (serialize_dlq_record (sample_dead_letter ''R'' ''first'')) =
      Some (sample_dead_letter ''R'' ''first'')" by (simp add: sample_library_def)
  have p: "record_path sample_library ''R'' = ''R.json''" by (simp add: record_path_def sample_library_def)
  have e: "enqueue sample_library no_faults (sample_dead_letter ''R'' ''first'') Map.empty =
      (Inr (), [''R.json'' \<mapsto> serialize_dlq_record (sample_dead_letter ''R'' ''first'')])"
    by (simp add: enqueue_def no_faults_def Let_def p)
  obtain results fs'' where "enqueue_all sample_library ?calls
      [''R.json'' \<mapsto> serialize_dlq_record (sample_dead_letter ''R'' ''first'')] = (results, fs'')" by fastforce
  with dead_letters_survive_faults [OF v e this] show ?thesis by (simp add: p)
qed

text \<open>Without faults, and for records whose identifiers have different
  digests, a history of calls stores the first record of every identifier; a call returns exactly when
  its record is the first of its identifier, and any other record is a conflict.\<close>

theorem first_dead_letter_wins:
  assumes "readable_records lib (set rs)"
  shows "\<exists>fs. enqueue_all lib (map (Pair no_faults) rs) Map.empty =
      (map (\<lambda>r. if by_record_id rs (dlq_record_id r) = Some r then Inr () else Inl dlq_conflict) rs, fs) \<and>
    dlq_lookup lib (set rs) fs = by_record_id rs"
  using enqueue_all_step [OF assms subset_refl, of Map.empty] by (auto simp: dlq_lookup_empty)

lemma first_dead_letter_wins_witness:
  "fst (enqueue_all sample_library (map (Pair no_faults)
     [sample_dead_letter ''R'' ''first'', sample_dead_letter ''R'' ''second'', sample_dead_letter ''Q'' ''first'',
      sample_dead_letter ''R'' ''first'']) Map.empty) = [Inr (), Inl dlq_conflict, Inr (), Inr ()]"
proof -
  let ?rs = "[sample_dead_letter ''R'' ''first'', sample_dead_letter ''R'' ''second'', sample_dead_letter ''Q'' ''first'',
      sample_dead_letter ''R'' ''first'']"
  have "readable_records sample_library (set ?rs)" using sample_readable by (simp add: insert_commute)
  from first_dead_letter_wins [OF this] show ?thesis by auto
qed

text \<open>C29: DEAD-LETTER-TEXT. The stored text determines the record: different canonical records have
  different texts, whatever quotes, braces or commas their strings hold.\<close>

theorem dead_letter_text_determines_record:
  assumes "valid_utc (dlq_failed_at r)" and "valid_utc (dlq_failed_at s)"
  shows "serialize_dlq_record r = serialize_dlq_record s \<longleftrightarrow> r = s"
  using serialize_dlq_record_inject [of r s] assms by (auto simp: valid_utc_def)

lemma dead_letter_text_determines_record_witness:
  "serialize_dlq_record (sample_dead_letter ''R'' ''first'') \<noteq> serialize_dlq_record (sample_dead_letter ''R'' ''second'')"
  using dead_letter_text_determines_record [of "sample_dead_letter ''R'' ''first''" "sample_dead_letter ''R'' ''second''"]
  by (simp add: sample_dead_letter_def valid_utc_def datetime_max_def)


end
