(* ===== verification/Redis_Cache.thy ===== *)
theory Redis_Cache
  imports Domain
begin

text \<open>
  The Redis cache (infrastructure/cache/redis_cache.py, behind application/ports/cache.py): keys are
  normalised and hashed, lifetimes become whole milliseconds rounded up, and every failure of the
  backend or the codec is one unavailable error. The Redis client, the codec and SHA-256 are
  arguments; bytes are lists of characters.
\<close>

section \<open>Collaborators\<close>

text \<open>What a client call raises, and what its answers can be.\<close>

datatype redis_failure = RedisError | RedisOther exn

datatype redis_payload = NoPayload | PayloadBytes string | PayloadOther

datatype redis_set_reply = SetTrue | SetOther

record 's redis_client =
  redis_get :: "string \<Rightarrow> 's \<Rightarrow> (redis_failure + redis_payload) \<times> 's"
  redis_set :: "string \<Rightarrow> string \<Rightarrow> int \<Rightarrow> 's \<Rightarrow> (redis_failure + redis_set_reply) \<times> 's"
  redis_delete :: "string \<Rightarrow> 's \<Rightarrow> (redis_failure + unit) \<times> 's"

datatype codec_failure = CacheCodecError | CodecOther exn

datatype encoded = EncodedBytes string | EncodedOther

record 'v cache_codec =
  codec_encode :: "'v \<Rightarrow> codec_failure + encoded"
  codec_decode :: "string \<Rightarrow> codec_failure + 'v"

definition cache_unavailable :: exn where
  "cache_unavailable = DependencyUnavailableError ''Cache is unavailable''"

definition invalid_key :: exn where
  "invalid_key = InvalidRequestError ''Cache key must be a non-empty string.''"

definition invalid_ttl :: exn where
  "invalid_ttl = InvalidRequestError ''Cache TTL must be greater than zero.''"

definition backend_key_prefix :: string where
  "backend_key_prefix = ''energy-trading:cache:''"

section \<open>Keys and lifetimes\<close>

text \<open>\<open>None\<close> is a key that is not a string, or a lifetime that is not a \<open>timedelta\<close>.\<close>

definition normalize_key :: "string option \<Rightarrow> string result" where
  "normalize_key key =
     (case key of
        None \<Rightarrow> Inl invalid_key
      | Some k \<Rightarrow> let cleaned = py_strip k in if cleaned = [] then Inl invalid_key else Inr cleaned)"

definition backend_key :: "(string \<Rightarrow> string) \<Rightarrow> string \<Rightarrow> string" where
  "backend_key sha256 normalized_key = backend_key_prefix @ sha256 normalized_key"

text \<open>A \<open>timedelta\<close> is its number of microseconds.\<close>

definition ttl_to_px_milliseconds :: "int option \<Rightarrow> int result" where
  "ttl_to_px_milliseconds ttl =
     (case ttl of
        None \<Rightarrow> Inl invalid_ttl
      | Some total_microseconds \<Rightarrow>
          if total_microseconds \<le> 0 then Inl invalid_ttl
          else
            let milliseconds = total_microseconds div 1000;
                remainder = total_microseconds mod 1000
            in Inr (if remainder \<noteq> 0 then milliseconds + 1 else milliseconds))"

section \<open>Operations\<close>

fun redis_exn :: "redis_failure \<Rightarrow> exn" where
  "redis_exn RedisError = cache_unavailable"
| "redis_exn (RedisOther e) = e"

fun codec_exn :: "codec_failure \<Rightarrow> exn" where
  "codec_exn CacheCodecError = cache_unavailable"
| "codec_exn (CodecOther e) = e"

definition cache_get ::
    "(string \<Rightarrow> string) \<Rightarrow> 's redis_client \<Rightarrow> 'v cache_codec \<Rightarrow> string option \<Rightarrow> 's \<Rightarrow> 'v option result \<times> 's" where
  "cache_get sha256 client codec key s =
     (case normalize_key key of
        Inl e \<Rightarrow> (Inl e, s)
      | Inr k \<Rightarrow>
          (case redis_get client (backend_key sha256 k) s of
             (Inl f, s') \<Rightarrow> (Inl (redis_exn f), s')
           | (Inr NoPayload, s') \<Rightarrow> (Inr None, s')
           | (Inr PayloadOther, s') \<Rightarrow> (Inl cache_unavailable, s')
           | (Inr (PayloadBytes payload), s') \<Rightarrow>
               (case codec_decode codec payload of
                  Inl f \<Rightarrow> (Inl (codec_exn f), s')
                | Inr v \<Rightarrow> (Inr (Some v), s'))))"

definition cache_set ::
    "(string \<Rightarrow> string) \<Rightarrow> 's redis_client \<Rightarrow> 'v cache_codec \<Rightarrow> string option \<Rightarrow> 'v \<Rightarrow> int option \<Rightarrow> 's \<Rightarrow>
     unit result \<times> 's" where
  "cache_set sha256 client codec key v ttl s =
     (case normalize_key key of
        Inl e \<Rightarrow> (Inl e, s)
      | Inr k \<Rightarrow>
          (case ttl_to_px_milliseconds ttl of
             Inl e \<Rightarrow> (Inl e, s)
           | Inr px \<Rightarrow>
               (case codec_encode codec v of
                  Inl f \<Rightarrow> (Inl (codec_exn f), s)
                | Inr EncodedOther \<Rightarrow> (Inl cache_unavailable, s)
                | Inr (EncodedBytes payload) \<Rightarrow>
                    (case redis_set client (backend_key sha256 k) payload px s of
                       (Inl f, s') \<Rightarrow> (Inl (redis_exn f), s')
                     | (Inr SetOther, s') \<Rightarrow> (Inl cache_unavailable, s')
                     | (Inr SetTrue, s') \<Rightarrow> (Inr (), s')))))"

definition cache_delete ::
    "(string \<Rightarrow> string) \<Rightarrow> 's redis_client \<Rightarrow> string option \<Rightarrow> 's \<Rightarrow> unit result \<times> 's" where
  "cache_delete sha256 client key s =
     (case normalize_key key of
        Inl e \<Rightarrow> (Inl e, s)
      | Inr k \<Rightarrow>
          (case redis_delete client (backend_key sha256 k) s of
             (Inl f, s') \<Rightarrow> (Inl (redis_exn f), s')
           | (Inr _, s') \<Rightarrow> (Inr (), s')))"

section \<open>Lifetimes\<close>

lemma ttl_to_px_iff:
  "ttl_to_px_milliseconds ttl = Inr px \<longleftrightarrow>
     (\<exists>us. ttl = Some us \<and> 0 < us \<and> us \<le> 1000 * px \<and> 1000 * px < us + 1000)"
proof (cases ttl)
  case (Some us)
  define q r where "q = us div 1000" and "r = us mod 1000"
  then have "us = 1000 * q + r" "0 \<le> r" "r < 1000" by simp_all
  then have "(if r \<noteq> 0 then q + 1 else q) = px \<longleftrightarrow> us \<le> 1000 * px \<and> 1000 * px < us + 1000" by auto
  then show ?thesis
    unfolding Some ttl_to_px_milliseconds_def option.case Let_def q_def [symmetric] r_def [symmetric] by auto
qed (simp add: ttl_to_px_milliseconds_def)

section \<open>A Redis server\<close>

text \<open>
  What the cache relies on. \<open>entries s\<close> are the payloads with the time their lifetime ends, \<open>now s\<close>
  the server's clock in milliseconds. A set that answers true stores the payload with its lifetime and
  touches no other key, a get answers the payload whose lifetime has not ended, a delete removes the
  key; no call turns the clock back.
\<close>

record redis_entry =
  entry_payload :: string
  entry_ends :: int

locale redis_server =
  fixes client :: "'s redis_client"
    and entries :: "'s \<Rightarrow> string \<rightharpoonup> redis_entry"
    and now :: "'s \<Rightarrow> int"
  assumes set_law: "redis_set client k p px s = (Inr SetTrue, s') \<Longrightarrow>
      now s \<le> now s' \<and> (\<exists>ends \<ge> now s + px. ends \<le> now s' + px \<and>
        entries s' = (entries s)(k \<mapsto> \<lparr>entry_payload = p, entry_ends = ends\<rparr>))"
    and get_law: "redis_get client k s = (Inr r, s') \<Longrightarrow>
      now s \<le> now s' \<and> entries s' = entries s \<and>
      (\<exists>t \<ge> now s. t \<le> now s' \<and>
        r = (case entries s k of None \<Rightarrow> NoPayload | Some e \<Rightarrow> if entry_ends e \<le> t then NoPayload else PayloadBytes (entry_payload e)))"
    and delete_law: "redis_delete client k s = (Inr (), s') \<Longrightarrow> now s \<le> now s' \<and> entries s' = (entries s)(k := None)"
begin

lemma get_reads:
  assumes "normalize_key key = Inr k" "entries s (backend_key sha256 k) = Some e"
    and "codec_decode codec (entry_payload e) = Inr v"
    and "cache_get sha256 client codec key s = (r, s')" "r = Inr x"
  shows "(entry_ends e \<le> now s \<longrightarrow> x = None) \<and> (now s' < entry_ends e \<longrightarrow> x = Some v)"
proof (cases "redis_get client (backend_key sha256 k) s")
  case (Pair reply s1)
  show ?thesis
  proof (cases reply)
    case (Inr p)
    note law = get_law [OF Pair [unfolded Inr]]
    show ?thesis using law assms Pair Inr by (auto simp: cache_get_def split: redis_payload.splits if_splits)
  qed (use assms Pair in \<open>simp add: cache_get_def\<close>)
qed

lemma set_writes:
  assumes "cache_set sha256 client codec key v ttl s = (Inr (), s')"
  shows "\<exists>k us p ends. normalize_key key = Inr k \<and> ttl = Some us \<and> 0 < us \<and> codec_encode codec v = Inr (EncodedBytes p) \<and>
    now s \<le> now s' \<and> 1000 * now s + us \<le> 1000 * ends \<and> 1000 * ends < 1000 * now s' + us + 1000 \<and>
    entries s' = (entries s)(backend_key sha256 k \<mapsto> \<lparr>entry_payload = p, entry_ends = ends\<rparr>)"
proof -
  obtain k where k: "normalize_key key = Inr k" using assms by (auto simp: cache_set_def split: sum.splits)
  obtain px where px: "ttl_to_px_milliseconds ttl = Inr px" using assms k by (auto simp: cache_set_def split: sum.splits)
  obtain p where p: "codec_encode codec v = Inr (EncodedBytes p)"
    using assms k px by (auto simp: cache_set_def split: sum.splits encoded.splits)
  have "redis_set client (backend_key sha256 k) p px s = (Inr SetTrue, s')"
    using assms k px p by (auto simp: cache_set_def split: prod.splits sum.splits redis_set_reply.splits)
  from set_law [OF this] obtain ends where "now s \<le> now s'" "now s + px \<le> ends" "ends \<le> now s' + px"
    "entries s' = (entries s)(backend_key sha256 k \<mapsto> \<lparr>entry_payload = p, entry_ends = ends\<rparr>)" by blast
  moreover obtain us where "ttl = Some us" "0 < us" "us \<le> 1000 * px" "1000 * px < us + 1000"
    using px ttl_to_px_iff by blast
  ultimately show ?thesis using k p by (intro exI [of _ k] exI [of _ us] exI [of _ p] exI [of _ ends]) (auto simp: algebra_simps)
qed

lemma delete_removes:
  "cache_delete sha256 client key s = (Inr (), s') \<Longrightarrow>
   \<exists>k. normalize_key key = Inr k \<and> entries s' = (entries s)(backend_key sha256 k := None)"
  using delete_law by (auto simp: cache_delete_def split: sum.splits prod.splits)

end

section \<open>The documented server\<close>

record redis_state =
  rs_entries :: "string \<rightharpoonup> redis_entry"
  rs_now :: int

definition documented_redis :: "redis_state redis_client" where
  "documented_redis =
     \<lparr>redis_get = (\<lambda>k s.
        (Inr (case rs_entries s k of
           None \<Rightarrow> NoPayload
         | Some e \<Rightarrow> if entry_ends e \<le> rs_now s then NoPayload else PayloadBytes (entry_payload e)), s)),
      redis_set = (\<lambda>k p px s.
        (Inr SetTrue, s\<lparr>rs_entries := (rs_entries s)(k \<mapsto> \<lparr>entry_payload = p, entry_ends = rs_now s + px\<rparr>)\<rparr>)),
      redis_delete = (\<lambda>k s. (Inr (), s\<lparr>rs_entries := (rs_entries s)(k := None)\<rparr>))\<rparr>"

interpretation redis: redis_server documented_redis rs_entries rs_now
  by unfold_locales (auto simp: documented_redis_def)

section \<open>Properties\<close>

text \<open>C30: CACHED-UNTIL-EXPIRY. A value set with a lifetime is what a get of the same key answers - keys
  are compared without surrounding white space - as long as the lifetime has not passed and nobody
  else wrote the key, and a get begun a millisecond or more after the lifetime answers nothing.\<close>

theorem cached_until_expiry:
  assumes "redis_server client entries now"
    and "cache_set sha256 client codec (Some key) v (Some us) s = (Inr (), s')"
    and "\<And>p. codec_encode codec v = Inr (EncodedBytes p) \<Longrightarrow> codec_decode codec p = Inr v"
    and "py_strip key' = py_strip key"
    and "entries t (backend_key sha256 (py_strip key)) = entries s' (backend_key sha256 (py_strip key))"
    and "cache_get sha256 client codec (Some key') t = (Inr x, t')"
  shows "(1000 * now t' < 1000 * now s + us \<longrightarrow> x = Some v) \<and>
    (1000 * now s' + us + 1000 \<le> 1000 * now t \<longrightarrow> x = None)"
proof -
  obtain k p ends where k: "normalize_key (Some key) = Inr k" "codec_encode codec v = Inr (EncodedBytes p)"
    and ends: "1000 * now s + us \<le> 1000 * ends" "1000 * ends < 1000 * now s' + us + 1000"
    and e: "entries s' = (entries s)(backend_key sha256 k \<mapsto> \<lparr>entry_payload = p, entry_ends = ends\<rparr>)"
    using redis_server.set_writes [OF assms(1,2)] by auto
  have k': "k = py_strip key" "normalize_key (Some key') = Inr k"
    using k(1) assms(4) by (auto simp: normalize_key_def Let_def split: if_splits)
  then have "entries t (backend_key sha256 k) = Some \<lparr>entry_payload = p, entry_ends = ends\<rparr>" using e assms(5) by simp
  from redis_server.get_reads [OF assms(1) k'(2) this _ assms(6) refl, of v] assms(3) [OF k(2)]
  have "(ends \<le> now t \<longrightarrow> x = None) \<and> (now t' < ends \<longrightarrow> x = Some v)" by simp
  then show ?thesis using ends by linarith
qed

definition text_codec :: "string cache_codec" where
  "text_codec = \<lparr>codec_encode = (\<lambda>v. Inr (EncodedBytes v)), codec_decode = Inr\<rparr>"

definition sample_redis :: redis_state where
  "sample_redis = \<lparr>rs_entries = Map.empty, rs_now = 5\<rparr>"

lemma cached_until_expiry_witness:
  "fst (cache_get id documented_redis text_codec (Some ''k '')
     (snd (cache_set id documented_redis text_codec (Some '' k'') ''v'' (Some 1500) sample_redis)\<lparr>rs_now := 6\<rparr>)) =
   Inr (Some ''v'')"
proof -
  have strip: "py_strip '' k'' = ''k''" "py_strip ''k '' = ''k''" by (simp_all add: py_strip_def py_isspace_def)
  let ?s = "snd (cache_set id documented_redis text_codec (Some '' k'') ''v'' (Some 1500) sample_redis)"
  have s: "cache_set id documented_redis text_codec (Some '' k'') ''v'' (Some 1500) sample_redis = (Inr (), ?s)"
    by (simp add: cache_set_def normalize_key_def strip ttl_to_px_milliseconds_def text_codec_def documented_redis_def Let_def)
  have "\<exists>x. cache_get id documented_redis text_codec (Some ''k '') (?s\<lparr>rs_now := 6\<rparr>) = (Inr x, ?s\<lparr>rs_now := 6\<rparr>)"
    by (simp add: cache_get_def normalize_key_def strip text_codec_def documented_redis_def Let_def split: option.splits)
  then obtain x where g: "cache_get id documented_redis text_codec (Some ''k '') (?s\<lparr>rs_now := 6\<rparr>) = (Inr x, ?s\<lparr>rs_now := 6\<rparr>)" ..
  have "x = Some ''v''"
    using cached_until_expiry [OF redis.redis_server_axioms s _ _ _ g] strip by (simp add: text_codec_def sample_redis_def)
  then show ?thesis using g by simp
qed

end
