(* ===== verification/Http_Api.thy ===== *)
theory Http_Api
  imports Documents Regulatory Json_Text Task_Group
begin

text \<open>
  The HTTP boundary (api/ and shared/observability/correlation.py): correlation identifiers, the two
  middlewares, the exception handlers and their error envelope, the service accessors and the routes.
  An ASGI application is a function from its scope and the context variable to the messages it sends
  and the exception it raises. Starlette's two exception middlewares are their documented behaviour:
  the inner one answers the exceptions with a registered handler, the outer one answers any other
  \<open>Exception\<close> and raises it again. UUIDs are arguments.
\<close>

section \<open>Correlation identifiers (shared/observability/correlation.py)\<close>

definition correlation_header :: string where
  "correlation_header = ''X-Correlation-ID''"

definition max_correlation_id_length :: nat where
  "max_correlation_id_length = 128"

definition is_correlation_char :: "char \<Rightarrow> bool" where
  "is_correlation_char c \<longleftrightarrow>
     (let n = (of_char c :: nat) in
      (65 \<le> n \<and> n \<le> 90) \<or> (97 \<le> n \<and> n \<le> 122) \<or> (48 \<le> n \<and> n \<le> 57)
      \<or> c \<in> {CHR ''.'', CHR ''_'', CHR '':'', CHR ''-''})"

definition is_valid_correlation_id :: "string \<Rightarrow> bool" where
  "is_valid_correlation_id value \<longleftrightarrow>
     \<not> (value = [] \<or> max_correlation_id_length < length value) \<and>
     list_all is_correlation_char value \<and> 1 \<le> length value \<and> length value \<le> 128"

section \<open>Scopes (middleware.py)\<close>

datatype header_value = HeaderBytes string | HeaderOther

text \<open>The attribute or key \<open>correlation_id\<close> of the scope's state, and the state itself.\<close>

datatype state_entry = Unset | EntryText string | EntryOther

datatype scope_state = NoState | StateDict state_entry | StateObject state_entry

record scope =
  sc_type :: string
  sc_headers :: "(string \<times> header_value) list option"
  sc_state :: scope_state
  sc_method :: string
  sc_path :: string

definition bind_correlation_id_to_scope :: "scope \<Rightarrow> string \<Rightarrow> scope" where
  "bind_correlation_id_to_scope scope correlation_id =
     scope\<lparr>sc_state :=
       (case sc_state scope of
          NoState \<Rightarrow> StateDict (EntryText correlation_id)
        | StateDict _ \<Rightarrow> StateDict (EntryText correlation_id)
        | StateObject _ \<Rightarrow> StateObject (EntryText correlation_id))\<rparr>"

definition stored_text :: "state_entry \<Rightarrow> string option" where
  "stored_text e = (case e of EntryText t \<Rightarrow> Some t | _ \<Rightarrow> None)"

definition correlation_id_from_scope :: "scope \<Rightarrow> string option" where
  "correlation_id_from_scope scope =
     (case sc_state scope of NoState \<Rightarrow> None | StateDict e \<Rightarrow> stored_text e | StateObject e \<Rightarrow> stored_text e)"

definition decode_ascii :: "string \<Rightarrow> string option" where
  "decode_ascii raw = (if list_all (\<lambda>c. (of_char c :: nat) < 128) raw then Some raw else None)"

definition correlation_header_bytes :: string where
  "correlation_header_bytes = ''x-correlation-id''"

fun first_correlation_header :: "(string \<times> header_value) list \<Rightarrow> string option" where
  "first_correlation_header [] = None"
| "first_correlation_header ((key, value) # headers) =
     (if key = correlation_header_bytes
      then case value of HeaderOther \<Rightarrow> None | HeaderBytes raw \<Rightarrow> decode_ascii raw
      else first_correlation_header headers)"

definition incoming_correlation_id :: "scope \<Rightarrow> string option" where
  "incoming_correlation_id scope =
     (case sc_headers scope of None \<Rightarrow> None | Some headers \<Rightarrow> first_correlation_header headers)"

definition resolve_correlation_id :: "string \<Rightarrow> scope \<Rightarrow> string" where
  "resolve_correlation_id generated scope =
     (case incoming_correlation_id scope of
        Some incoming \<Rightarrow> if is_valid_correlation_id incoming then incoming else generated
      | None \<Rightarrow> generated)"

section \<open>Errors and their envelope (errors.py, exception\_handlers.py)\<close>

datatype location_part = LocText string | LocIndex nat

datatype error_location = LocParts "location_part list" | LocScalar string bool

record validation_error =
  ve_loc :: "error_location option"
  ve_msg :: "string option"
  ve_type :: "string option"

text \<open>What a request can raise: the program's exceptions and the two of the framework.\<close>

datatype api_exn =
    Program exn
  | RequestValidationError "validation_error list"
  | HttpException int

text \<open>Whether it derives from \<open>Exception\<close>; a group does when all its members do.\<close>

fun is_exception :: "api_exn \<Rightarrow> bool" where
  "is_exception (Program e) = Task_Group.is_exception e"
| "is_exception _ = True"

record api_error_detail =
  detail_field :: string
  detail_message :: string
  detail_type :: string

record api_error =
  error_code :: string
  error_message :: string
  error_correlation_id :: string
  error_details :: "api_error_detail list option"

definition detail_json :: "api_error_detail \<Rightarrow> json" where
  "detail_json d =
     JObject [(''field'', JStr (detail_field d)), (''message'', JStr (detail_message d)), (''type'', JStr (detail_type d))]"

text \<open>\<open>model_dump(mode="json", exclude_none=True)\<close> of the envelope.\<close>

definition envelope_json :: "api_error \<Rightarrow> json" where
  "envelope_json e =
     JObject [(''error'', JObject
       ([(''code'', JStr (error_code e)), (''message'', JStr (error_message e)),
         (''correlation_id'', JStr (error_correlation_id e))] @
        (case error_details e of None \<Rightarrow> [] | Some ds \<Rightarrow> [(''details'', JArray (map detail_json ds))])))]"

text \<open>Messages an application sends; header names are lower case, as the framework writes them.\<close>

datatype message =
    ResponseStart int "(string \<times> string) list"
  | ResponseBody json
  | OtherMessage string

definition request_validation_error_code :: string where
  "request_validation_error_code = ''request_validation_error''"
definition internal_error_code :: string where
  "internal_error_code = ''internal_error''"
definition not_found_code :: string where
  "not_found_code = ''not_found''"
definition method_not_allowed_code :: string where
  "method_not_allowed_code = ''method_not_allowed''"
definition http_error_code :: string where
  "http_error_code = ''http_error''"
definition internal_error_message :: string where
  "internal_error_message = ''An unexpected internal error occurred.''"
definition request_validation_error_message :: string where
  "request_validation_error_message = ''Request validation failed.''"
definition not_found_message :: string where
  "not_found_message = ''The requested resource was not found.''"
definition method_not_allowed_message :: string where
  "method_not_allowed_message = ''Method not allowed.''"
definition http_error_message :: string where
  "http_error_message = ''An HTTP error occurred.''"

fun mapped_http_status_for_application_error :: "application_error_class \<Rightarrow> int option" where
  "mapped_http_status_for_application_error InvalidRequestErrorClass = Some 400"
| "mapped_http_status_for_application_error ResourceNotFoundErrorClass = Some 404"
| "mapped_http_status_for_application_error ConflictErrorClass = Some 409"
| "mapped_http_status_for_application_error DependencyUnavailableErrorClass = Some 503"
| "mapped_http_status_for_application_error ApplicationErrorBase = None"

definition location_part_text :: "location_part \<Rightarrow> string" where
  "location_part_text p = (case p of LocText t \<Rightarrow> t | LocIndex n \<Rightarrow> decimal_digits n)"

definition location_field :: "error_location option \<Rightarrow> string" where
  "location_field loc =
     (case loc of
        None \<Rightarrow> ''request''
      | Some (LocParts parts) \<Rightarrow>
          if parts \<noteq> [] then join_with (CHR ''.'') (map location_part_text parts) else ''request''
      | Some (LocScalar t truthy) \<Rightarrow> if truthy then t else ''request'')"

definition sanitize_validation_details :: "validation_error list \<Rightarrow> api_error_detail list" where
  "sanitize_validation_details errors =
     map (\<lambda>e. \<lparr>detail_field = location_field (ve_loc e),
                detail_message = (case ve_msg e of None \<Rightarrow> ''Invalid value'' | Some m \<Rightarrow> m),
                detail_type = (case ve_type e of None \<Rightarrow> ''value_error'' | Some t \<Rightarrow> t)\<rparr>) errors"

text \<open>The context variable first, then the scope, then a new identifier.\<close>

definition resolve_request_correlation_id :: "string \<Rightarrow> string option \<Rightarrow> scope \<Rightarrow> string" where
  "resolve_request_correlation_id generated current scope =
     (case current of
        Some c \<Rightarrow> c
      | None \<Rightarrow>
          (case correlation_id_from_scope scope of Some stored \<Rightarrow> stored | None \<Rightarrow> generated))"

text \<open>A JSON response: the framework's own headers, then the correlation header.\<close>

definition error_response ::
    "string \<Rightarrow> string option \<Rightarrow> scope \<Rightarrow> int \<Rightarrow> string \<Rightarrow> string \<Rightarrow> api_error_detail list option \<Rightarrow> message list" where
  "error_response generated current scope status_code code m details =
     (let correlation_id = resolve_request_correlation_id generated current scope;
          envelope = \<lparr>error_code = code, error_message = m, error_correlation_id = correlation_id,
                      error_details = details\<rparr>
      in [ResponseStart status_code
            [(correlation_header_bytes, correlation_id), (''content-type'', ''application/json'')],
          ResponseBody (envelope_json envelope)])"

definition internal_error_response :: "string \<Rightarrow> string option \<Rightarrow> scope \<Rightarrow> message list" where
  "internal_error_response generated current scope =
     (let correlation_id = resolve_request_correlation_id generated current scope in
      error_response generated (Some correlation_id) scope 500 internal_error_code internal_error_message None)"

definition application_error_handler ::
    "string \<Rightarrow> string option \<Rightarrow> scope \<Rightarrow> application_error_class \<Rightarrow> string \<Rightarrow> message list" where
  "application_error_handler generated current scope c m =
     (case mapped_http_status_for_application_error c of
        None \<Rightarrow> internal_error_response generated current scope
      | Some status_code \<Rightarrow>
          error_response generated current scope status_code (application_error_code c) m None)"

definition request_validation_error_handler ::
    "string \<Rightarrow> string option \<Rightarrow> scope \<Rightarrow> validation_error list \<Rightarrow> message list" where
  "request_validation_error_handler generated current scope errors =
     error_response generated current scope 422 request_validation_error_code
       request_validation_error_message (Some (sanitize_validation_details errors))"

definition http_exception_handler :: "string \<Rightarrow> string option \<Rightarrow> scope \<Rightarrow> int \<Rightarrow> message list" where
  "http_exception_handler generated current scope status_code =
     (let (code, m) =
        (if status_code = 404 then (not_found_code, not_found_message)
         else if status_code = 405 then (method_not_allowed_code, method_not_allowed_message)
         else (http_error_code, http_error_message))
      in error_response generated current scope status_code code m None)"

definition unhandled_exception_handler :: "string \<Rightarrow> string option \<Rightarrow> scope \<Rightarrow> message list" where
  "unhandled_exception_handler generated current scope = internal_error_response generated current scope"

section \<open>The middlewares (middleware.py)\<close>

record run =
  sent :: "message list"
  raised :: "api_exn option"

text \<open>An application: from the scope and the context variable to what it sends and raises.\<close>

type_synonym asgi_app = "scope \<Rightarrow> string option \<Rightarrow> run"

text \<open>Setting a header of a mutable header list: one value stays, in the first place of the name.\<close>

fun set_header :: "string \<Rightarrow> string \<Rightarrow> (string \<times> string) list \<Rightarrow> (string \<times> string) list" where
  "set_header k v [] = [(k, v)]"
| "set_header k v ((k', v') # hs) =
     (if k' = k then (k, v) # filter (\<lambda>h. fst h \<noteq> k) hs else (k', v') # set_header k v hs)"

fun send_with_correlation :: "string \<Rightarrow> message \<Rightarrow> message" where
  "send_with_correlation correlation_id (ResponseStart status headers) =
     ResponseStart status (set_header correlation_header_bytes correlation_id headers)"
| "send_with_correlation correlation_id m = m"

text \<open>The run, and the scope, which the middleware updates in place.\<close>

definition correlation_middleware :: "string \<Rightarrow> asgi_app \<Rightarrow> scope \<Rightarrow> string option \<Rightarrow> run \<times> scope" where
  "correlation_middleware generated app scope current =
     (if sc_type scope \<noteq> ''http'' then (app scope current, scope)
      else
        let correlation_id = resolve_correlation_id generated scope;
            bound = bind_correlation_id_to_scope scope correlation_id;
            r = app bound (Some correlation_id)
        in (r\<lparr>sent := map (send_with_correlation correlation_id) (sent r)\<rparr>, bound))"

record http_log_event =
  log_method :: string
  log_path :: string
  log_status_code :: int

fun captured_status :: "int \<Rightarrow> message list \<Rightarrow> int" where
  "captured_status status [] = status"
| "captured_status status (ResponseStart s headers # ms) = captured_status s ms"
| "captured_status status (_ # ms) = captured_status status ms"

definition request_logging_middleware :: "asgi_app \<Rightarrow> scope \<Rightarrow> string option \<Rightarrow> run \<times> http_log_event list" where
  "request_logging_middleware app scope current =
     (if sc_type scope \<noteq> ''http'' then (app scope current, [])
      else
        let r = app scope current;
            status_code = (case raised r of
                Some e \<Rightarrow> if is_exception e then 500 else captured_status 500 (sent r)
              | None \<Rightarrow> captured_status 500 (sent r))
        in (r, [\<lparr>log_method = sc_method scope, log_path = sc_path scope, log_status_code = status_code\<rparr>]))"

section \<open>The application (app.py, register\_exception\_handlers)\<close>

text \<open>Dispatch on the class of the exception: the handlers registered for the inner middleware.\<close>

fun registered_handler :: "string \<Rightarrow> string option \<Rightarrow> scope \<Rightarrow> api_exn \<Rightarrow> message list option" where
  "registered_handler generated current scope (Program (ApplicationError c m)) =
     Some (application_error_handler generated current scope c m)"
| "registered_handler generated current scope (RequestValidationError errors) =
     Some (request_validation_error_handler generated current scope errors)"
| "registered_handler generated current scope (HttpException status_code) =
     Some (http_exception_handler generated current scope status_code)"
| "registered_handler generated current scope _ = None"

fun is_start :: "message \<Rightarrow> bool" where
  "is_start (ResponseStart _ _) = True"
| "is_start _ = False"

text \<open>Starlette's inner middleware: an exception it handles is an error once the response has started.\<close>

definition exception_middleware :: "string \<Rightarrow> asgi_app \<Rightarrow> asgi_app" where
  "exception_middleware generated app scope current =
     (let r = app scope current in
      case raised r of
        None \<Rightarrow> r
      | Some e \<Rightarrow>
          (case registered_handler generated current scope e of
             None \<Rightarrow> r
           | Some response \<Rightarrow>
               if list_ex is_start (sent r)
               then r\<lparr>raised := Some (Program (OtherException ''RuntimeError''))\<rparr>
               else \<lparr>sent = sent r @ response, raised = None\<rparr>))"

text \<open>Starlette's outer middleware: it answers when nothing was sent, and raises the exception again.\<close>

definition server_error_response :: "string \<Rightarrow> string option \<Rightarrow> scope \<Rightarrow> run \<Rightarrow> run" where
  "server_error_response generated current scope r =
     (case raised r of
        Some e \<Rightarrow>
          if is_exception e \<and> \<not> list_ex is_start (sent r)
          then r\<lparr>sent := sent r @ unhandled_exception_handler generated current scope\<rparr>
          else r
      | None \<Rightarrow> r)"

text \<open>
  The application \<open>create_app\<close> builds around its routes; the identifiers the boundary generates, for
  the middleware and for the handlers, are arguments.
\<close>

definition http_application :: "string \<Rightarrow> string \<Rightarrow> asgi_app \<Rightarrow> scope \<Rightarrow> run \<times> http_log_event list" where
  "http_application generated generated' routes scope =
     (let logged = (\<lambda>sc current. request_logging_middleware (exception_middleware generated' routes) sc current);
          (r, bound) = correlation_middleware generated (\<lambda>sc current. fst (logged sc current)) scope None;
          events = (if sc_type scope \<noteq> ''http'' then []
                    else snd (logged bound (Some (resolve_correlation_id generated scope))))
      in (server_error_response generated' None bound r, events))"

section \<open>Every response names its request\<close>

lemma set_header_value:
  "filter (\<lambda>h. fst h = k) (set_header k v hs) = [(k, v)]"
proof (induction k v hs rule: set_header.induct)
  case (2 k v k' v' hs)
  have "filter (\<lambda>h. fst h = k) (filter (\<lambda>h. fst h \<noteq> k) hs) = []" by (simp add: filter_empty_conv)
  with 2 show ?case by simp
qed simp

lemma bound_correlation_id:
  "correlation_id_from_scope (bind_correlation_id_to_scope scope i) = Some i"
  by (auto simp: correlation_id_from_scope_def bind_correlation_id_to_scope_def stored_text_def split: scope_state.splits)

text \<open>The responses that carry the identifier, once.\<close>

fun names_request :: "string \<Rightarrow> message \<Rightarrow> bool" where
  "names_request i (ResponseStart status headers) =
     (filter (\<lambda>h. fst h = correlation_header_bytes) headers = [(correlation_header_bytes, i)])"
| "names_request i _ = True"

lemma send_with_correlation_names: "names_request i (send_with_correlation i m)"
  by (cases m) (simp_all add: set_header_value)

lemma other_header [simp]: "''content-type'' \<noteq> correlation_header_bytes"
  by (simp add: correlation_header_bytes_def)

lemma error_response_names:
  "list_all (names_request (resolve_request_correlation_id generated current scope))
     (error_response generated current scope status_code code m details)"
  by (simp add: error_response_def Let_def)

lemma internal_error_response_names:
  "list_all (names_request (resolve_request_correlation_id generated current scope))
     (internal_error_response generated current scope)"
  using error_response_names [of generated "Some (resolve_request_correlation_id generated current scope)" scope]
  by (simp add: internal_error_response_def Let_def resolve_request_correlation_id_def)


text \<open>
  The identifier the client sent: the bytes of the first header of that name, when they are one to 128
  letters, digits, dots, underscores, colons and hyphens.
\<close>

definition client_identifier :: "scope \<Rightarrow> string \<Rightarrow> bool" where
  "client_identifier scope c \<longleftrightarrow>
     (\<exists>before after. sc_headers scope = Some (before @ (''x-correlation-id'', HeaderBytes c) # after) \<and>
        ''x-correlation-id'' \<notin> set (map fst before)) \<and>
     1 \<le> length c \<and> length c \<le> 128 \<and> list_all is_correlation_char c"

lemma first_correlation_header_iff:
  "first_correlation_header hs = Some c \<longleftrightarrow>
     (\<exists>before after. hs = before @ (''x-correlation-id'', HeaderBytes c) # after \<and>
        ''x-correlation-id'' \<notin> set (map fst before)) \<and> decode_ascii c = Some c"
proof (induction hs rule: first_correlation_header.induct)
  case (2 key v hs)
  show ?case
  proof (cases "key = ''x-correlation-id''")
    case True
    have "(\<exists>before after. (key, v) # hs = before @ (''x-correlation-id'', HeaderBytes c) # after \<and>
        ''x-correlation-id'' \<notin> set (map fst before)) \<longleftrightarrow> v = HeaderBytes c"
      using True by (auto simp: Cons_eq_append_conv)
    then show ?thesis using True
      by (auto simp: correlation_header_bytes_def decode_ascii_def split: header_value.splits)
  next
    case False
    have "(\<exists>before after. (key, v) # hs = before @ (''x-correlation-id'', HeaderBytes c) # after \<and>
        ''x-correlation-id'' \<notin> set (map fst before)) \<longleftrightarrow>
      (\<exists>before after. hs = before @ (''x-correlation-id'', HeaderBytes c) # after \<and>
        ''x-correlation-id'' \<notin> set (map fst before))"
      using False by (fastforce simp: Cons_eq_append_conv)
    then show ?thesis using 2 False by (simp add: correlation_header_bytes_def)
  qed
qed simp

lemma correlation_char_ascii: "is_correlation_char c \<Longrightarrow> (of_char c :: nat) < 128"
  by (auto simp: is_correlation_char_def Let_def)

lemma client_identifier_iff:
  "client_identifier scope c \<longleftrightarrow> incoming_correlation_id scope = Some c \<and> is_valid_correlation_id c"
proof -
  have "list_all is_correlation_char c \<Longrightarrow> decode_ascii c = Some c"
    using correlation_char_ascii by (auto simp: decode_ascii_def list_all_iff)
  then show ?thesis
    by (auto simp: client_identifier_def incoming_correlation_id_def first_correlation_header_iff
        is_valid_correlation_id_def max_correlation_id_length_def Suc_le_eq split: option.splits)
qed

text \<open>The identifier is the client's when that is well formed, and the generated one otherwise.\<close>

lemma resolve_correlation_id_spec:
  "if \<exists>c. client_identifier scope c then client_identifier scope (resolve_correlation_id generated scope)
   else resolve_correlation_id generated scope = generated"
  by (auto simp: client_identifier_iff resolve_correlation_id_def split: option.splits)

lemma resolve_correlation_id_valid:
  "is_valid_correlation_id generated \<Longrightarrow> is_valid_correlation_id (resolve_correlation_id generated scope)"
  by (auto simp: resolve_correlation_id_def split: option.splits)

lemma http_application_parts:
  assumes "sc_type scope = ''http''"
  shows "http_application generated generated' routes scope =
    (let i = resolve_correlation_id generated scope;
         bound = bind_correlation_id_to_scope scope i;
         r = exception_middleware generated' routes bound (Some i)
     in (server_error_response generated' None bound (r\<lparr>sent := map (send_with_correlation i) (sent r)\<rparr>),
         snd (request_logging_middleware (exception_middleware generated' routes) bound (Some i))))"
  using assms
  by (simp add: http_application_def correlation_middleware_def request_logging_middleware_def Let_def
      bind_correlation_id_to_scope_def)

lemma server_error_response_names:
  assumes "list_all (names_request i) (sent r)" "correlation_id_from_scope scope = Some i"
  shows "list_all (names_request i) (sent (server_error_response generated None scope r))"
  using assms internal_error_response_names [of generated None scope]
  by (auto simp: server_error_response_def unhandled_exception_handler_def resolve_request_correlation_id_def
      split: option.splits)

section \<open>What an exception becomes\<close>

definition answer_to :: "api_exn \<Rightarrow> int \<times> string \<times> string \<times> api_error_detail list option" where
  "answer_to e =
     (case e of
        Program (ApplicationError c m) \<Rightarrow>
          (case c of
             InvalidRequestErrorClass \<Rightarrow> (400, ''invalid_request'', m, None)
           | ResourceNotFoundErrorClass \<Rightarrow> (404, ''resource_not_found'', m, None)
           | ConflictErrorClass \<Rightarrow> (409, ''conflict'', m, None)
           | DependencyUnavailableErrorClass \<Rightarrow> (503, ''dependency_unavailable'', m, None)
           | ApplicationErrorBase \<Rightarrow> (500, internal_error_code, internal_error_message, None))
      | RequestValidationError errors \<Rightarrow>
          (422, request_validation_error_code, request_validation_error_message, Some (sanitize_validation_details errors))
      | HttpException st \<Rightarrow>
          (if st = 404 then (st, not_found_code, not_found_message, None)
           else if st = 405 then (st, method_not_allowed_code, method_not_allowed_message, None)
           else (st, http_error_code, http_error_message, None))
      | _ \<Rightarrow> (500, internal_error_code, internal_error_message, None))"

definition answer_messages :: "string \<Rightarrow> int \<times> string \<times> string \<times> api_error_detail list option \<Rightarrow> message list" where
  "answer_messages i a =
     (case a of (st, code, m, details) \<Rightarrow>
        [ResponseStart st [(correlation_header_bytes, i), (''content-type'', ''application/json'')],
         ResponseBody (envelope_json \<lparr>error_code = code, error_message = m, error_correlation_id = i,
           error_details = details\<rparr>)])"

lemma error_response_messages:
  "error_response generated (Some i) scope st code m details = answer_messages i (st, code, m, details)"
  "internal_error_response generated (Some i) scope = answer_messages i (500, internal_error_code, internal_error_message, None)"
  by (simp_all add: error_response_def internal_error_response_def answer_messages_def resolve_request_correlation_id_def Let_def)

lemma registered_handler_answers:
  "registered_handler generated (Some i) scope e = Some ms \<Longrightarrow> ms = answer_messages i (answer_to e)"
  by (cases "(generated, Some i, scope, e)" rule: registered_handler.cases)
    (auto simp: application_error_handler_def request_validation_error_handler_def http_exception_handler_def
      answer_to_def error_response_messages split: option.splits application_error_class.splits)

lemma unregistered_answer:
  "registered_handler generated current scope e = None \<Longrightarrow>
   answer_to e = (500, internal_error_code, internal_error_message, None)"
  by (cases "(generated, current, scope, e)" rule: registered_handler.cases)
    (simp_all add: answer_to_def split: application_error_class.splits)

lemma answer_messages_sent: "map (send_with_correlation i) (answer_messages i a) = answer_messages i a"
  by (auto simp: answer_messages_def filter_empty_conv correlation_header_bytes_def split: prod.splits)

lemma answer_messages_status: "captured_status 500 (answer_messages i a) = fst a"
  by (auto simp: answer_messages_def split: prod.splits)

section \<open>Routes\<close>

text \<open>An attribute of the application's state: missing, of another type, or the service.\<close>

datatype 'service app_attribute = AttributeMissing | AttributeOther | Attribute 'service

definition get_document_vector_index_execution_service :: "'service app_attribute \<Rightarrow> 'service result" where
  "get_document_vector_index_execution_service attribute =
     (case attribute of
        Attribute service \<Rightarrow> Inr service
      | _ \<Rightarrow> Inl (DependencyUnavailableError ''Document Vector Index service is unavailable.''))"

definition get_regulatory_intelligence_query_execution_service :: "'service app_attribute \<Rightarrow> 'service result" where
  "get_regulatory_intelligence_query_execution_service attribute =
     (case attribute of
        Attribute service \<Rightarrow> Inr service
      | _ \<Rightarrow> Inl (DependencyUnavailableError ''Regulatory Intelligence service is unavailable.''))"

text \<open>The request bodies; the framework's parse gives them their types and nothing more.\<close>

record chunk_request =
  chr_document_id :: string
  chr_chunk_id :: string
  chr_text :: string
  chr_ordinal :: int
  chr_page_number :: "int option"

definition index_document_vectors ::
    "(document_chunk list \<Rightarrow> 'i \<Rightarrow> unit result \<times> 'i) \<Rightarrow> chunk_request list \<Rightarrow> 'i \<Rightarrow> unit result \<times> 'i" where
  "index_document_vectors execute chunks i =
     (case map_result (\<lambda>c. make_document_chunk (chr_document_id c) (chr_chunk_id c) (chr_ordinal c) (chr_text c)
             (chr_page_number c)) chunks of
        Inl e \<Rightarrow> (Inl e, i)
      | Inr cs \<Rightarrow> execute cs i)"

text \<open>The route answers 204 with no body.\<close>

definition index_route ::
    "(document_chunk list \<Rightarrow> 'i \<Rightarrow> unit result \<times> 'i) app_attribute \<Rightarrow> chunk_request list \<Rightarrow> 'i \<Rightarrow> run \<times> 'i" where
  "index_route attribute chunks i =
     (case get_document_vector_index_execution_service attribute of
        Inl e \<Rightarrow> (\<lparr>sent = [], raised = Some (Program e)\<rparr>, i)
      | Inr execute \<Rightarrow>
          (case index_document_vectors execute chunks i of
             (Inl e, i') \<Rightarrow> (\<lparr>sent = [], raised = Some (Program e)\<rparr>, i')
           | (Inr _, i') \<Rightarrow> (\<lparr>sent = [ResponseStart 204 []], raised = None\<rparr>, i')))"

text \<open>The response model of a constraint: its own constraints on the fields it copies.\<close>

definition constraint_response :: "regulatory_constraint \<Rightarrow> regulatory_constraint result" where
  "constraint_response r =
     check (validated (1 \<le> length (rc_constraint_id r) \<and> 1 \<le> length (rc_constraint_type r)
         \<and> 1 \<le> length (rc_description r)
         \<and> optional finite_number (rc_minimum_value r) \<and> optional finite_number (rc_maximum_value r)
         \<and> optional (\<lambda>u. 1 \<le> length u) (rc_unit r)
         \<and> optional is_currency_code (rc_currency r)
         \<and> optional (\<lambda>s. 1 \<le> length s) (rc_source_document_id r)))
       (Inr r)"

definition query_regulatory_intelligence ::
    "(string \<Rightarrow> int \<Rightarrow> regulatory_result result) \<Rightarrow> string \<Rightarrow> int \<Rightarrow> regulatory_constraint list result" where
  "query_regulatory_intelligence execute query_text limit =
     attempt (execute query_text limit) (\<lambda>r. map_result constraint_response (rr_constraints r))"

definition positive_limit :: "int \<Rightarrow> bool" where
  "positive_limit limit \<longleftrightarrow> 0 < limit"

record health_response =
  health_status :: string
  health_service :: string
  health_environment :: string

definition get_health :: "string \<Rightarrow> string \<Rightarrow> health_response" where
  "get_health app_name environment =
     \<lparr>health_status = ''ok'', health_service = app_name, health_environment = environment\<rparr>"

lemma stripped_text_length:
  "entity_id s = Inr t \<Longrightarrow> 1 \<le> length t" "non_empty_string s = Inr t \<Longrightarrow> 1 \<le> length t"
  "currency_code s = Inr t \<Longrightarrow> is_currency_code t"
  by (auto simp: entity_id_def non_empty_string_def currency_code_def Let_def Suc_le_eq split: if_splits)

lemma optional_result_establishes:
  "optional_result f x = Inr y \<Longrightarrow> (\<And>a b. f a = Inr b \<Longrightarrow> P b) \<Longrightarrow> optional P y"
  by (cases x) (auto simp: optional_result_def attempt_Inr_iff)

lemma canonical_constraint_response:
  assumes "validate_regulatory_constraint r = Inr r'"
  shows "constraint_response r' = Inr r'"
proof -
  obtain i t d u c s where
    parts: "entity_id (rc_constraint_id r) = Inr i" "non_empty_string (rc_constraint_type r) = Inr t"
      "non_empty_string (rc_description r) = Inr d"
      "optional_result non_empty_string (rc_unit r) = Inr u" "optional_result currency_code (rc_currency r) = Inr c"
      "optional_result entity_id (rc_source_document_id r) = Inr s"
    and bounds: "optional finite_number (rc_minimum_value r)" "optional finite_number (rc_maximum_value r)"
    and r': "r' = r\<lparr>rc_constraint_id := i, rc_constraint_type := t, rc_description := d,
                  rc_unit := u, rc_currency := c, rc_source_document_id := s\<rparr>"
    using assms unfolding validate_regulatory_constraint_def attempt_Inr_iff check_Inr_iff validated_Inr by blast
  have "optional (\<lambda>u. 1 \<le> length u) u"
    by (rule optional_result_establishes [OF parts(4)]) (rule stripped_text_length(2))
  moreover have "optional is_currency_code c"
    by (rule optional_result_establishes [OF parts(5)]) (rule stripped_text_length(3))
  moreover have "optional (\<lambda>u. 1 \<le> length u) s"
    by (rule optional_result_establishes [OF parts(6)]) (rule stripped_text_length(1))
  ultimately show ?thesis using stripped_text_length(1) [OF parts(1)] stripped_text_length(2) [OF parts(2)]
      stripped_text_length(2) [OF parts(3)] bounds
    by (simp add: r' constraint_response_def validated_def raise_if_def)
qed

lemma http_errors:
  assumes "sc_type scope = ''http''" and "is_exception e"
    and "\<And>sc current. routes sc current = \<lparr>sent = [], raised = Some e\<rparr>"
    and "http_application generated generated' routes scope = (r, events)"
  shows "sent r = answer_messages (resolve_correlation_id generated scope) (answer_to e) \<and>
    events = [\<lparr>log_method = sc_method scope, log_path = sc_path scope, log_status_code = fst (answer_to e)\<rparr>]"
proof -
  let ?i = "resolve_correlation_id generated scope"
  let ?bound = "bind_correlation_id_to_scope scope ?i"
  have http: "sc_type ?bound = ''http''" "sc_method ?bound = sc_method scope" "sc_path ?bound = sc_path scope"
    using assms(1) by (simp_all add: bind_correlation_id_to_scope_def)
  note parts = http_application_parts [OF assms(1), of generated generated' routes, unfolded Let_def assms(4)]
  show ?thesis
  proof (cases "registered_handler generated' (Some ?i) ?bound e")
    case None
    then have "exception_middleware generated' routes ?bound (Some ?i) = \<lparr>sent = [], raised = Some e\<rparr>"
      by (simp add: exception_middleware_def assms(3))
    then show ?thesis
      using parts unregistered_answer [OF None] assms(2) http
      by (simp add: server_error_response_def unhandled_exception_handler_def request_logging_middleware_def
          internal_error_response_def resolve_request_correlation_id_def bound_correlation_id error_response_messages Let_def)
  next
    case (Some ms)
    then have "exception_middleware generated' routes ?bound (Some ?i) =
        \<lparr>sent = answer_messages ?i (answer_to e), raised = None\<rparr>"
      using registered_handler_answers by (simp add: exception_middleware_def assms(3))
    then show ?thesis
      using parts http
      by (simp add: server_error_response_def request_logging_middleware_def answer_messages_sent
          answer_messages_status Let_def)
  qed
qed

lemma make_document_chunk_valid:
  "make_document_chunk d c n t p = Inr x \<Longrightarrow>
   py_strip d \<noteq> [] \<and> py_strip c \<noteq> [] \<and> py_strip t \<noteq> [] \<and> 0 \<le> n \<and> (\<forall>q. p = Some q \<longrightarrow> 1 \<le> q)"
  by (auto simp: make_document_chunk_def require_non_negative_int_def require_positive_int_def result_simps
      split: if_splits option.splits)

lemma make_document_chunk_error: "make_document_chunk d c n t p = Inl e \<Longrightarrow> \<exists>m. e = ValueError m"
  by (auto simp: make_document_chunk_def require_non_empty_def require_non_negative_int_def require_positive_int_def
      attempt_Inl_iff Let_def split: if_splits option.splits)

lemma map_result_value_error:
  "map_result f xs = Inl e \<Longrightarrow> (\<And>x e. f x = Inl e \<Longrightarrow> \<exists>m. e = ValueError m) \<Longrightarrow> \<exists>m. e = ValueError m"
  by (induction xs) (auto simp: attempt_Inl_iff)

section \<open>Properties\<close>

text \<open>C16: EVERY-RESPONSE-NAMES-ITS-REQUEST. Whatever the routes send or raise, every response that
  leaves the application for an HTTP request carries the correlation header exactly once, and its value
  is the identifier of the request: the one the client sent, when its first correlation header is a
  well-formed identifier, and the generated one when it is not or there is no such header.\<close>

theorem every_response_names_its_request:
  assumes "sc_type scope = ''http''" and "is_valid_correlation_id generated"
    and "http_application generated generated' routes scope = (r, events)"
  shows "\<exists>i. is_valid_correlation_id i \<and> list_all (names_request i) (sent r) \<and>
    (if \<exists>c. client_identifier scope c then client_identifier scope i else i = generated)"
proof -
  let ?i = "resolve_correlation_id generated scope"
  let ?bound = "bind_correlation_id_to_scope scope ?i"
  let ?r = "exception_middleware generated' routes ?bound (Some ?i)"
  have r: "r = server_error_response generated' None ?bound (?r\<lparr>sent := map (send_with_correlation ?i) (sent ?r)\<rparr>)"
    using http_application_parts [OF assms(1)] assms(3) by (simp add: Let_def)
  have "list_all (names_request ?i) (map (send_with_correlation ?i) (sent ?r))"
    by (simp add: list_all_iff send_with_correlation_names)
  then have "list_all (names_request ?i) (sent r)"
    unfolding r by (intro server_error_response_names) (simp_all add: bound_correlation_id)
  then show ?thesis using resolve_correlation_id_valid [OF assms(2)] resolve_correlation_id_spec by blast
qed

definition sample_scope :: scope where
  "sample_scope = \<lparr>sc_type = ''http'', sc_headers = Some [(''x-correlation-id'', HeaderBytes ''req-7'')],
     sc_state = NoState, sc_method = ''POST'', sc_path = ''/api/v1/document-vector-index/index''\<rparr>"

text \<open>A route that names another request twice.\<close>

definition confused_route :: asgi_app where
  "confused_route scope current =
     \<lparr>sent = [ResponseStart 200 [(''x-correlation-id'', ''a''), (''x'', ''y''), (''x-correlation-id'', ''b'')]], raised = None\<rparr>"

lemma every_response_names_its_request_witness:
  "fst (http_application ''g'' ''h'' confused_route sample_scope) =
     \<lparr>sent = [ResponseStart 200 [(''x-correlation-id'', ''req-7''), (''x'', ''y'')]], raised = None\<rparr> \<and>
   (\<exists>i. is_valid_correlation_id i \<and> i = ''req-7'' \<and>
      list_all (names_request i) (sent (fst (http_application ''g'' ''h'' confused_route sample_scope))))"
proof
  have g: "is_valid_correlation_id ''g''" "is_valid_correlation_id ''req-7''"
    by (simp_all add: is_valid_correlation_id_def max_correlation_id_length_def is_correlation_char_def Let_def)
  have http: "sc_type sample_scope = ''http''" by (simp add: sample_scope_def)
  have i: "resolve_correlation_id ''g'' sample_scope = ''req-7''"
    using g by (simp add: resolve_correlation_id_def incoming_correlation_id_def sample_scope_def
        correlation_header_bytes_def decode_ascii_def)
  show "fst (http_application ''g'' ''h'' confused_route sample_scope) =
     \<lparr>sent = [ResponseStart 200 [(''x-correlation-id'', ''req-7''), (''x'', ''y'')]], raised = None\<rparr>"
    by (simp add: http_application_parts [OF http] i Let_def exception_middleware_def confused_route_def
        server_error_response_def correlation_header_bytes_def)
  have client: "client_identifier sample_scope c \<longleftrightarrow> c = ''req-7''" for c
    using g(2) by (auto simp: client_identifier_iff incoming_correlation_id_def sample_scope_def
        correlation_header_bytes_def decode_ascii_def)
  obtain r events where "http_application ''g'' ''h'' confused_route sample_scope = (r, events)" by fastforce
  with every_response_names_its_request [OF http g(1) this]
  show "\<exists>i. is_valid_correlation_id i \<and> i = ''req-7'' \<and>
      list_all (names_request i) (sent (fst (http_application ''g'' ''h'' confused_route sample_scope)))"
    by (auto simp: client)
qed

text \<open>C15: ERRORS-FAIL-CLOSED. When the routes raise before sending anything, the client gets one error
  envelope - the status, code and message of a mapped application error, a validation or HTTP error,
  and otherwise the same fixed internal error whatever was raised - and the one log event of the
  request records the status that was sent.\<close>

theorem errors_fail_closed:
  assumes "sc_type scope = ''http''" and "is_exception e"
    and "\<And>sc current. routes sc current = \<lparr>sent = [], raised = Some e\<rparr>"
    and "http_application generated generated' routes scope = (r, events)"
  shows "sent r = answer_messages (resolve_correlation_id generated scope) (answer_to e) \<and>
    events = [\<lparr>log_method = sc_method scope, log_path = sc_path scope, log_status_code = fst (answer_to e)\<rparr>]"
  by (rule http_errors [OF assms])

lemma errors_fail_closed_witness:
  "sent (fst (http_application ''g'' ''h'' (\<lambda>sc current. \<lparr>sent = [], raised = Some (Program (ConflictError ''m''))\<rparr>) sample_scope)) =
     answer_messages (resolve_correlation_id ''g'' sample_scope) (409, ''conflict'', ''m'', None) \<and>
   sent (fst (http_application ''g'' ''h'' (\<lambda>sc current. \<lparr>sent = [], raised = Some (Program (ValueError ''secret''))\<rparr>) sample_scope)) =
     answer_messages (resolve_correlation_id ''g'' sample_scope) (500, internal_error_code, internal_error_message, None)"
proof -
  have http: "sc_type sample_scope = ''http''" by (simp add: sample_scope_def)
  have "sent (fst (http_application ''g'' ''h'' (\<lambda>sc current. \<lparr>sent = [], raised = Some e\<rparr>) sample_scope)) =
      answer_messages (resolve_correlation_id ''g'' sample_scope) (answer_to e)" if "is_exception e" for e
  proof -
    obtain r events where a: "http_application ''g'' ''h'' (\<lambda>sc current. \<lparr>sent = [], raised = Some e\<rparr>) sample_scope = (r, events)"
      by fastforce
    from errors_fail_closed [OF http that _ a] show ?thesis using a by simp
  qed
  from this [of "Program (ConflictError ''m'')"] this [of "Program (ValueError ''secret'')"]
  show ?thesis by (simp add: answer_to_def)
qed

text \<open>C31: INVALID-CHUNK-IS-INTERNAL-ERROR. The body of an index request is typed but not validated: a
  chunk with a blank text or identifier, a negative ordinal or a page number below 1 is answered with
  the internal error 500 and not as a client error, and the index is not touched.\<close>

theorem invalid_chunk_is_internal_error:
  assumes "c \<in> set chunks"
    and "py_strip (chr_document_id c) = [] \<or> py_strip (chr_chunk_id c) = [] \<or> py_strip (chr_text c) = [] \<or>
      chr_ordinal c < 0 \<or> (\<exists>p. chr_page_number c = Some p \<and> p < 1)"
    and "sc_type scope = ''http''"
    and "http_application generated generated' (\<lambda>_ _. fst (index_route (Attribute execute) chunks i)) scope = (r, events)"
  shows "sent r = answer_messages (resolve_correlation_id generated scope)
      (500, internal_error_code, internal_error_message, None) \<and>
    snd (index_route (Attribute execute) chunks i) = i"
proof -
  let ?make = "\<lambda>c. make_document_chunk (chr_document_id c) (chr_chunk_id c) (chr_ordinal c) (chr_text c) (chr_page_number c)"
  have "?make c \<noteq> Inr x" for x
    using assms(2) make_document_chunk_valid [of "chr_document_id c" "chr_chunk_id c" "chr_ordinal c" "chr_text c" "chr_page_number c" x]
    by auto
  then obtain e where e: "map_result ?make chunks = Inl e"
    using assms(1) map_result_Inr_iff [of ?make chunks] by (cases "map_result ?make chunks") (auto simp: list_all2_conv_all_nth in_set_conv_nth)
  then obtain m where m: "e = ValueError m"
    using map_result_value_error [of ?make chunks e] make_document_chunk_error by blast
  have route: "index_route (Attribute execute) chunks i = (\<lparr>sent = [], raised = Some (Program (ValueError m))\<rparr>, i)"
    by (simp add: index_route_def get_document_vector_index_execution_service_def index_document_vectors_def e m)
  have "is_exception (Program (ValueError m))" by simp
  from http_errors [OF assms(3) this _ assms(4)] route show ?thesis by (simp add: answer_to_def)
qed

definition blank_chunk :: chunk_request where
  "blank_chunk = \<lparr>chr_document_id = ''D'', chr_chunk_id = ''c1'', chr_text = '' '', chr_ordinal = 0, chr_page_number = None\<rparr>"

lemma invalid_chunk_is_internal_error_witness:
  "sent (fst (http_application ''g'' ''h'' (\<lambda>_ _. fst (index_route (Attribute (\<lambda>cs n. (Inr (), n + 1))) [blank_chunk] (0::nat))) sample_scope)) =
     answer_messages (resolve_correlation_id ''g'' sample_scope) (500, internal_error_code, internal_error_message, None)"
proof -
  have b: "py_strip (chr_text blank_chunk) = []" by (simp add: blank_chunk_def py_strip_def py_isspace_def)
  have http: "sc_type sample_scope = ''http''" by (simp add: sample_scope_def)
  obtain r events where a: "http_application ''g'' ''h''
      (\<lambda>_ _. fst (index_route (Attribute (\<lambda>cs n. (Inr (), n + 1))) [blank_chunk] (0::nat))) sample_scope = (r, events)"
    by fastforce
  from invalid_chunk_is_internal_error [OF _ _ http a, of blank_chunk] b a show ?thesis by simp
qed


end
