(* ===== verification/Configuration.thy ===== *)
theory Configuration
  imports Domain Float_Arith
begin

text \<open>
  The settings (shared/config/) and what the client factories take from them (engine.py,
  redis\_client.py, openai/client.py, qdrant/client.py). Finding the raw value of a field in the
  environment or an env file is the settings library's, so a source maps field names to raw values;
  the text of a number or a boolean is read by arguments. Validators run before or after the field's
  own constraints, as they are declared; every failure is one \<open>ValidationError\<close>.
\<close>

section \<open>Raw values\<close>

datatype raw = RawText string | RawInt int | RawBool bool | RawFloat pyfloat | RawSecret string | RawNone | RawOther

type_synonym settings_source = "string \<rightharpoonup> raw"

text \<open>The library's lax conversions of texts.\<close>

record conversions =
  text_to_int :: "string \<Rightarrow> int option"
  text_to_float :: "string \<Rightarrow> pyfloat option"
  text_to_bool :: "string \<Rightarrow> bool option"

definition required :: "settings_source \<Rightarrow> string \<Rightarrow> raw result" where
  "required src f = (case src f of None \<Rightarrow> Inl ValidationError | Some v \<Rightarrow> Inr v)"

text \<open>The settings library validates a default like a value that was given.\<close>

definition defaulted :: "settings_source \<Rightarrow> string \<Rightarrow> raw \<Rightarrow> (raw \<Rightarrow> 'a result) \<Rightarrow> 'a result" where
  "defaulted src f preset validate = validate (case src f of None \<Rightarrow> preset | Some v \<Rightarrow> v)"

fun as_text :: "raw \<Rightarrow> string result" where
  "as_text (RawText s) = check (validated (1 \<le> length s)) (Inr s)"
| "as_text _ = Inl ValidationError"

text \<open>A float is an integer when it has no fraction and fits 64 bits.\<close>

fun integral_float :: "pyfloat \<Rightarrow> int option" where
  "integral_float (Fl s m e) =
     (if e < 0 \<and> m mod 2 ^ nat (- e) \<noteq> 0 then None
      else
        let magnitude = int (if e < 0 then m div 2 ^ nat (- e) else m * 2 ^ nat e)
        in if magnitude < 2 ^ 63 then Some (if s then - magnitude else magnitude) else None)"
| "integral_float _ = None"

fun lax_int :: "conversions \<Rightarrow> raw \<Rightarrow> int result" where
  "lax_int conv (RawInt i) = Inr i"
| "lax_int conv (RawBool b) = Inr (if b then 1 else 0)"
| "lax_int conv (RawFloat x) = (case integral_float x of None \<Rightarrow> Inl ValidationError | Some i \<Rightarrow> Inr i)"
| "lax_int conv (RawText s) = (case text_to_int conv s of None \<Rightarrow> Inl ValidationError | Some i \<Rightarrow> Inr i)"
| "lax_int conv _ = Inl ValidationError"

definition bounded_int :: "conversions \<Rightarrow> (int \<Rightarrow> bool) \<Rightarrow> raw \<Rightarrow> int result" where
  "bounded_int conv ok v = attempt (lax_int conv v) (\<lambda>i. check (validated (ok i)) (Inr i))"

fun lax_float :: "conversions \<Rightarrow> raw \<Rightarrow> pyfloat result" where
  "lax_float conv (RawFloat x) = Inr x"
| "lax_float conv (RawInt i) =
     (let x = float_round (i < 0) (nat \<bar>i\<bar>) 0 in if float_isfinite x then Inr x else Inl ValidationError)"
| "lax_float conv (RawBool b) = Inr (if b then float_one else float_zero)"
| "lax_float conv (RawText s) = (case text_to_float conv s of None \<Rightarrow> Inl ValidationError | Some x \<Rightarrow> Inr x)"
| "lax_float conv _ = Inl ValidationError"

definition positive_seconds :: "conversions \<Rightarrow> raw \<Rightarrow> pyfloat result" where
  "positive_seconds conv v =
     attempt (lax_float conv v) (\<lambda>x. check (validated (float_lt float_zero x)) (Inr x))"

definition bool_of_int :: "int option \<Rightarrow> bool result" where
  "bool_of_int i = (if i = Some 0 then Inr False else if i = Some 1 then Inr True else Inl ValidationError)"

fun lax_bool :: "conversions \<Rightarrow> raw \<Rightarrow> bool result" where
  "lax_bool conv (RawBool b) = Inr b"
| "lax_bool conv (RawInt i) = bool_of_int (Some i)"
| "lax_bool conv (RawFloat x) = bool_of_int (integral_float x)"
| "lax_bool conv (RawText s) = (case text_to_bool conv s of None \<Rightarrow> Inl ValidationError | Some b \<Rightarrow> Inr b)"
| "lax_bool conv _ = Inl ValidationError"

fun as_secret :: "raw \<Rightarrow> string result" where
  "as_secret (RawText s) = Inr s"
| "as_secret (RawSecret s) = Inr s"
| "as_secret _ = Inl ValidationError"

section \<open>Validators the settings share\<close>

text \<open>The validators that several settings classes declare, each with its own name and the same body.\<close>

fun strip_required_text :: "raw \<Rightarrow> raw result" where
  "strip_required_text (RawText value) =
     (let stripped = py_strip value in
      if stripped = [] then Inl ValidationError else Inr (RawText stripped))"
| "strip_required_text value = Inr value"

fun reject_boolean_integers :: "raw \<Rightarrow> raw result" where
  "reject_boolean_integers (RawBool b) = Inl ValidationError"
| "reject_boolean_integers value = Inr value"

fun empty_secret_to_none :: "raw \<Rightarrow> raw result" where
  "empty_secret_to_none RawNone = Inr RawNone"
| "empty_secret_to_none (RawSecret s) = Inr (if py_strip s = [] then RawNone else RawSecret s)"
| "empty_secret_to_none (RawText s) = Inr (if py_strip s = [] then RawNone else RawText s)"
| "empty_secret_to_none value = Inr value"

definition reject_blank_secret :: "string \<Rightarrow> string result" where
  "reject_blank_secret s = (if py_strip s = [] then Inl ValidationError else Inr s)"

definition required_text :: "settings_source \<Rightarrow> string \<Rightarrow> string result" where
  "required_text src f = attempt (attempt (required src f) strip_required_text) as_text"

definition required_secret :: "settings_source \<Rightarrow> string \<Rightarrow> string result" where
  "required_secret src f =
     attempt (attempt (required src f) as_secret) (\<lambda>s.
       check (validated (1 \<le> length s)) (reject_blank_secret s))"

definition optional_secret :: "settings_source \<Rightarrow> string \<Rightarrow> string option result" where
  "optional_secret src f =
     defaulted src f RawNone (\<lambda>v.
       attempt (empty_secret_to_none v) (\<lambda>w.
         if w = RawNone then Inr None else attempt (as_secret w) (\<lambda>s. Inr (Some s))))"

section \<open>Database (database.py, engine.py)\<close>

record database_settings =
  db_host :: string
  db_port :: int
  db_database :: string
  db_username :: string
  db_password :: string
  db_pool_size :: int
  db_max_overflow :: int
  db_pool_timeout_seconds :: pyfloat

definition tcp_port :: "int \<Rightarrow> bool" where
  "tcp_port p \<longleftrightarrow> 1 \<le> p \<and> p \<le> 65535"

definition load_database_settings :: "conversions \<Rightarrow> settings_source \<Rightarrow> database_settings result" where
  "load_database_settings conv src =
     attempt (required_text src ''host'') (\<lambda>h.
     attempt (defaulted src ''port'' (RawInt 5432) (bounded_int conv tcp_port)) (\<lambda>p.
     attempt (required_text src ''database'') (\<lambda>d.
     attempt (required_text src ''username'') (\<lambda>u.
     attempt (required_secret src ''password'') (\<lambda>w.
     attempt (defaulted src ''pool_size'' (RawInt 5) (bounded_int conv (\<lambda>n. 0 < n))) (\<lambda>n.
     attempt (defaulted src ''max_overflow'' (RawInt 10) (bounded_int conv (\<lambda>n. 0 \<le> n))) (\<lambda>m.
     attempt (defaulted src ''pool_timeout_seconds'' (RawFloat (Fl False 30 0)) (positive_seconds conv)) (\<lambda>t.
       Inr \<lparr>db_host = h, db_port = p, db_database = d, db_username = u, db_password = w,
            db_pool_size = n, db_max_overflow = m, db_pool_timeout_seconds = t\<rparr>))))))))"

record postgres_url =
  url_drivername :: string
  url_username :: string
  url_password :: string
  url_host :: string
  url_port :: int
  url_database :: string

definition build_postgres_url :: "database_settings \<Rightarrow> postgres_url" where
  "build_postgres_url settings =
     \<lparr>url_drivername = ''postgresql+psycopg'', url_username = db_username settings, url_password = db_password settings,
      url_host = db_host settings, url_port = db_port settings, url_database = db_database settings\<rparr>"

record engine_arguments =
  ea_url :: postgres_url
  ea_echo :: bool
  ea_pool_pre_ping :: bool
  ea_pool_size :: int
  ea_max_overflow :: int
  ea_pool_timeout :: pyfloat

definition create_postgres_engine :: "database_settings \<Rightarrow> engine_arguments" where
  "create_postgres_engine settings =
     \<lparr>ea_url = build_postgres_url settings, ea_echo = False, ea_pool_pre_ping = True,
      ea_pool_size = db_pool_size settings, ea_max_overflow = db_max_overflow settings,
      ea_pool_timeout = db_pool_timeout_seconds settings\<rparr>"

section \<open>Redis (redis.py, redis\_client.py)\<close>

record redis_settings =
  redis_host :: string
  redis_port :: int
  redis_db :: int
  redis_password :: "string option"
  redis_ssl :: bool
  redis_socket_timeout_seconds :: pyfloat
  redis_max_connections :: int

definition load_redis_settings :: "conversions \<Rightarrow> settings_source \<Rightarrow> redis_settings result" where
  "load_redis_settings conv src =
     attempt (required_text src ''host'') (\<lambda>h.
     attempt (defaulted src ''port'' (RawInt 6379) (bounded_int conv tcp_port)) (\<lambda>p.
     attempt (defaulted src ''db'' (RawInt 0) (bounded_int conv (\<lambda>n. 0 \<le> n))) (\<lambda>d.
     attempt (optional_secret src ''password'') (\<lambda>w.
     attempt (defaulted src ''ssl'' (RawBool False) (lax_bool conv)) (\<lambda>s.
     attempt (defaulted src ''socket_timeout_seconds'' (RawFloat (Fl False 5 0)) (positive_seconds conv)) (\<lambda>t.
     attempt (defaulted src ''max_connections'' (RawInt 10) (bounded_int conv (\<lambda>n. 0 < n))) (\<lambda>m.
       Inr \<lparr>redis_host = h, redis_port = p, redis_db = d, redis_password = w, redis_ssl = s,
            redis_socket_timeout_seconds = t, redis_max_connections = m\<rparr>)))))))"

record redis_arguments =
  ra_host :: string
  ra_port :: int
  ra_db :: int
  ra_password :: "string option"
  ra_ssl :: bool
  ra_socket_timeout :: pyfloat
  ra_socket_connect_timeout :: pyfloat
  ra_max_connections :: int
  ra_decode_responses :: bool

definition create_redis_client :: "redis_settings \<Rightarrow> redis_arguments" where
  "create_redis_client settings =
     \<lparr>ra_host = redis_host settings, ra_port = redis_port settings, ra_db = redis_db settings,
      ra_password = redis_password settings, ra_ssl = redis_ssl settings,
      ra_socket_timeout = redis_socket_timeout_seconds settings,
      ra_socket_connect_timeout = redis_socket_timeout_seconds settings,
      ra_max_connections = redis_max_connections settings, ra_decode_responses = False\<rparr>"

section \<open>OpenAI and Qdrant (openai.py, qdrant.py, their clients)\<close>

record openai_settings = openai_api_key :: string

definition load_openai_settings :: "settings_source \<Rightarrow> openai_settings result" where
  "load_openai_settings src = attempt (required_secret src ''api_key'') (\<lambda>k. Inr \<lparr>openai_api_key = k\<rparr>)"

record openai_arguments =
  oa_api_key :: string
  oa_max_retries :: int

definition create_openai_client :: "openai_settings \<Rightarrow> openai_arguments" where
  "create_openai_client settings = \<lparr>oa_api_key = openai_api_key settings, oa_max_retries = 0\<rparr>"

record qdrant_settings =
  qdrant_host :: string
  qdrant_port :: int
  qdrant_https :: bool
  qdrant_api_key :: "string option"
  qdrant_timeout_seconds :: int

definition load_qdrant_settings :: "conversions \<Rightarrow> settings_source \<Rightarrow> qdrant_settings result" where
  "load_qdrant_settings conv src =
     attempt (required_text src ''host'') (\<lambda>h.
     attempt (defaulted src ''port'' (RawInt 6333) (\<lambda>v. attempt (reject_boolean_integers v) (bounded_int conv tcp_port))) (\<lambda>p.
     attempt (defaulted src ''https'' (RawBool False) (lax_bool conv)) (\<lambda>s.
     attempt (optional_secret src ''api_key'') (\<lambda>k.
     attempt (defaulted src ''timeout_seconds'' (RawInt 5)
         (\<lambda>v. attempt (reject_boolean_integers v) (bounded_int conv (\<lambda>n. 0 < n)))) (\<lambda>t.
       Inr \<lparr>qdrant_host = h, qdrant_port = p, qdrant_https = s, qdrant_api_key = k, qdrant_timeout_seconds = t\<rparr>)))))"

record qdrant_arguments =
  qa_host :: string
  qa_port :: int
  qa_https :: bool
  qa_api_key :: "string option"
  qa_timeout :: int
  qa_prefer_grpc :: bool
  qa_cloud_inference :: bool
  qa_check_compatibility :: bool

definition create_qdrant_client :: "qdrant_settings \<Rightarrow> qdrant_arguments" where
  "create_qdrant_client settings =
     \<lparr>qa_host = qdrant_host settings, qa_port = qdrant_port settings, qa_https = qdrant_https settings,
      qa_api_key = qdrant_api_key settings, qa_timeout = qdrant_timeout_seconds settings,
      qa_prefer_grpc = False, qa_cloud_inference = False, qa_check_compatibility = False\<rparr>"

datatype vector_distance = COSINE | DOT | EUCLID | MANHATTAN

definition distance_value :: "vector_distance \<Rightarrow> string" where
  "distance_value d =
     (case d of COSINE \<Rightarrow> ''cosine'' | DOT \<Rightarrow> ''dot'' | EUCLID \<Rightarrow> ''euclid'' | MANHATTAN \<Rightarrow> ''manhattan'')"

definition canonical_document_vector_distances :: "string list" where
  "canonical_document_vector_distances = map distance_value [COSINE, DOT, EUCLID, MANHATTAN]"

definition distance_of_text :: "string \<Rightarrow> vector_distance option" where
  "distance_of_text t = find (\<lambda>d. distance_value d = t) [COSINE, DOT, EUCLID, MANHATTAN]"

fun require_canonical_distance :: "raw \<Rightarrow> raw result" where
  "require_canonical_distance (RawText value) =
     (let stripped = py_strip value in
      if stripped \<notin> set canonical_document_vector_distances then Inl ValidationError else Inr (RawText stripped))"
| "require_canonical_distance value = Inr value"

definition load_qdrant_document_vector_distance_settings :: "settings_source \<Rightarrow> vector_distance result" where
  "load_qdrant_document_vector_distance_settings src =
     attempt (attempt (required src ''document_vector_distance'') require_canonical_distance) (\<lambda>v.
       case v of
         RawText t \<Rightarrow> (case distance_of_text t of None \<Rightarrow> Inl ValidationError | Some d \<Rightarrow> Inr d)
       | _ \<Rightarrow> Inl ValidationError)"

section \<open>Runtimes (document\_vector\_index.py, regulatory\_intelligence.py)\<close>

record index_runtime_settings =
  irs_document_embedding_model :: string
  irs_qdrant_collection_name :: string
  irs_qdrant_vector_size :: int

definition vector_size_field :: "conversions \<Rightarrow> settings_source \<Rightarrow> int result" where
  "vector_size_field conv src =
     attempt (attempt (required src ''qdrant_vector_size'') reject_boolean_integers) (bounded_int conv (\<lambda>n. 0 < n))"

definition load_document_vector_index_runtime_settings :: "conversions \<Rightarrow> settings_source \<Rightarrow> index_runtime_settings result" where
  "load_document_vector_index_runtime_settings conv src =
     attempt (required_text src ''document_embedding_model'') (\<lambda>m.
     attempt (required_text src ''qdrant_collection_name'') (\<lambda>c.
     attempt (vector_size_field conv src) (\<lambda>n.
       Inr \<lparr>irs_document_embedding_model = m, irs_qdrant_collection_name = c, irs_qdrant_vector_size = n\<rparr>)))"

record regulatory_runtime_settings =
  rrs_query_embedding_model :: string
  rrs_constraint_inference_model :: string
  rrs_qdrant_collection_name :: string
  rrs_qdrant_vector_size :: int

definition load_regulatory_intelligence_runtime_settings ::
    "conversions \<Rightarrow> settings_source \<Rightarrow> regulatory_runtime_settings result" where
  "load_regulatory_intelligence_runtime_settings conv src =
     attempt (required_text src ''query_embedding_model'') (\<lambda>q.
     attempt (required_text src ''constraint_inference_model'') (\<lambda>m.
     attempt (required_text src ''qdrant_collection_name'') (\<lambda>c.
     attempt (vector_size_field conv src) (\<lambda>n.
       Inr \<lparr>rrs_query_embedding_model = q, rrs_constraint_inference_model = m, rrs_qdrant_collection_name = c,
            rrs_qdrant_vector_size = n\<rparr>))))"

section \<open>The process (settings.py)\<close>

datatype app_environment = ENV_DEVELOPMENT | ENV_TEST | ENV_PRODUCTION

definition environment_value :: "app_environment \<Rightarrow> string" where
  "environment_value e =
     (case e of ENV_DEVELOPMENT \<Rightarrow> ''development'' | ENV_TEST \<Rightarrow> ''test'' | ENV_PRODUCTION \<Rightarrow> ''production'')"

definition log_levels :: "string list" where
  "log_levels = [''DEBUG'', ''INFO'', ''WARNING'', ''ERROR'', ''CRITICAL'']"

record app_settings =
  app_name :: string
  app_environment :: app_environment
  app_api_prefix :: string
  app_log_level :: string

fun plain_text :: "raw \<Rightarrow> string result" where
  "plain_text (RawText s) = Inr s"
| "plain_text _ = Inl ValidationError"

definition environment_field :: "raw \<Rightarrow> app_environment result" where
  "environment_field v =
     attempt (plain_text v) (\<lambda>t.
       case find (\<lambda>e. environment_value e = t) [ENV_DEVELOPMENT, ENV_TEST, ENV_PRODUCTION] of
         None \<Rightarrow> Inl ValidationError | Some e \<Rightarrow> Inr e)"

definition log_level_field :: "raw \<Rightarrow> string result" where
  "log_level_field v = attempt (plain_text v) (\<lambda>t. check (validated (t \<in> set log_levels)) (Inr t))"

definition load_settings :: "settings_source \<Rightarrow> app_settings result" where
  "load_settings src =
     attempt (defaulted src ''app_name'' (RawText ''AI Energy Trading Platform'') plain_text) (\<lambda>n.
     attempt (defaulted src ''environment'' (RawText (environment_value ENV_DEVELOPMENT)) environment_field) (\<lambda>e.
     attempt (defaulted src ''api_prefix'' (RawText ''/api/v1'') plain_text) (\<lambda>p.
     attempt (defaulted src ''log_level'' (RawText ''INFO'') log_level_field) (\<lambda>l.
       Inr \<lparr>app_name = n, app_environment = e, app_api_prefix = p, app_log_level = l\<rparr>))))"

text \<open>The cache of one entry; a load that raises is not kept.\<close>

definition get_settings :: "settings_source \<Rightarrow> app_settings option \<Rightarrow> app_settings result \<times> app_settings option" where
  "get_settings src cache =
     (case cache of
        Some settings \<Rightarrow> (Inr settings, cache)
      | None \<Rightarrow> (case load_settings src of Inl e \<Rightarrow> (Inl e, None) | Inr settings \<Rightarrow> (Inr settings, Some settings)))"

definition clear_settings_cache :: "app_settings option \<Rightarrow> app_settings option" where
  "clear_settings_cache cache = None"

section \<open>Lemmas\<close>

text \<open>A text no client has to strip again.\<close>

definition settled_text :: "string \<Rightarrow> bool" where
  "settled_text s \<longleftrightarrow> py_strip s = s \<and> s \<noteq> []"

lemma as_text_Inr: "as_text v = Inr s \<longleftrightarrow> v = RawText s \<and> s \<noteq> []"
  by (cases v) (auto simp: check_Inr_iff validated_Inr Suc_le_eq)

lemma strip_required_text_settled: "strip_required_text v = Inr (RawText s) \<Longrightarrow> settled_text s"
  by (cases v) (auto simp: settled_text_def Let_def split: if_splits)

lemma required_text_settled: "required_text src f = Inr s \<Longrightarrow> settled_text s"
  using strip_required_text_settled by (auto simp: required_text_def attempt_Inr_iff as_text_Inr)

lemma required_secret_visible: "required_secret src f = Inr s \<Longrightarrow> py_strip s \<noteq> []"
  by (auto simp: required_secret_def reject_blank_secret_def attempt_Inr_iff check_Inr_iff split: if_splits)

lemma optional_secret_visible: "optional_secret src f = Inr (Some s) \<Longrightarrow> py_strip s \<noteq> []"
  by (auto simp: optional_secret_def defaulted_def attempt_Inr_iff elim!: empty_secret_to_none.elims
      split: option.splits if_splits)

lemma bounded_int_ok: "bounded_int conv ok v = Inr i \<Longrightarrow> ok i"
  by (auto simp: bounded_int_def attempt_Inr_iff check_Inr_iff validated_Inr)

lemma defaulted_ok:
  "defaulted src f preset validate = Inr y \<Longrightarrow> (\<And>v z. validate v = Inr z \<Longrightarrow> ok z) \<Longrightarrow> ok y"
  by (simp add: defaulted_def)

lemma positive_seconds_ok: "positive_seconds conv v = Inr x \<Longrightarrow> float_lt float_zero x"
  by (auto simp: positive_seconds_def attempt_Inr_iff check_Inr_iff validated_Inr)

text \<open>What every loaded settings object satisfies.\<close>

definition database_settings_ok :: "database_settings \<Rightarrow> bool" where
  "database_settings_ok d \<longleftrightarrow>
     list_all settled_text [db_host d, db_database d, db_username d] \<and> py_strip (db_password d) \<noteq> [] \<and>
     tcp_port (db_port d) \<and> 0 < db_pool_size d \<and> 0 \<le> db_max_overflow d \<and>
     float_lt float_zero (db_pool_timeout_seconds d)"

definition redis_settings_ok :: "redis_settings \<Rightarrow> bool" where
  "redis_settings_ok r \<longleftrightarrow>
     settled_text (redis_host r) \<and> tcp_port (redis_port r) \<and> 0 \<le> redis_db r \<and>
     optional (\<lambda>s. py_strip s \<noteq> []) (redis_password r) \<and>
     float_lt float_zero (redis_socket_timeout_seconds r) \<and> 0 < redis_max_connections r"

definition qdrant_settings_ok :: "qdrant_settings \<Rightarrow> bool" where
  "qdrant_settings_ok q \<longleftrightarrow>
     settled_text (qdrant_host q) \<and> tcp_port (qdrant_port q) \<and>
     optional (\<lambda>s. py_strip s \<noteq> []) (qdrant_api_key q) \<and> 0 < qdrant_timeout_seconds q"

lemma database_settings_loaded:
  assumes "load_database_settings conv src = Inr d"
  shows "database_settings_ok d"
proof -
  obtain h p n u w a m t where
    "required_text src ''host'' = Inr h" "defaulted src ''port'' (RawInt 5432) (bounded_int conv tcp_port) = Inr p"
    "required_text src ''database'' = Inr n" "required_text src ''username'' = Inr u"
    "required_secret src ''password'' = Inr w"
    "defaulted src ''pool_size'' (RawInt 5) (bounded_int conv (\<lambda>n. 0 < n)) = Inr a"
    "defaulted src ''max_overflow'' (RawInt 10) (bounded_int conv (\<lambda>n. 0 \<le> n)) = Inr m"
    "defaulted src ''pool_timeout_seconds'' (RawFloat (Fl False 30 0)) (positive_seconds conv) = Inr t"
    and d: "d = \<lparr>db_host = h, db_port = p, db_database = n, db_username = u, db_password = w,
            db_pool_size = a, db_max_overflow = m, db_pool_timeout_seconds = t\<rparr>"
    using assms unfolding load_database_settings_def attempt_Inr_iff by auto
  note f = this
  have "tcp_port p" by (rule defaulted_ok [OF f(2)]) (rule bounded_int_ok)
  moreover have "0 < a" by (rule defaulted_ok [OF f(6)]) (auto dest: bounded_int_ok)
  moreover have "0 \<le> m" by (rule defaulted_ok [OF f(7)]) (auto dest: bounded_int_ok)
  moreover have "float_lt float_zero t"
    by (rule defaulted_ok [OF f(8)]) (rule positive_seconds_ok)
  ultimately show ?thesis
    using required_text_settled [OF f(1)] required_text_settled [OF f(3)] required_text_settled [OF f(4)]
      required_secret_visible [OF f(5)] by (simp add: d database_settings_ok_def)
qed

lemma redis_settings_loaded:
  assumes "load_redis_settings conv src = Inr r"
  shows "redis_settings_ok r"
proof -
  obtain h p d w s t m where
    "required_text src ''host'' = Inr h" "defaulted src ''port'' (RawInt 6379) (bounded_int conv tcp_port) = Inr p"
    "defaulted src ''db'' (RawInt 0) (bounded_int conv (\<lambda>n. 0 \<le> n)) = Inr d"
    "optional_secret src ''password'' = Inr w"
    "defaulted src ''socket_timeout_seconds'' (RawFloat (Fl False 5 0)) (positive_seconds conv) = Inr t"
    "defaulted src ''max_connections'' (RawInt 10) (bounded_int conv (\<lambda>n. 0 < n)) = Inr m"
    and r: "r = \<lparr>redis_host = h, redis_port = p, redis_db = d, redis_password = w, redis_ssl = s,
            redis_socket_timeout_seconds = t, redis_max_connections = m\<rparr>"
    using assms unfolding load_redis_settings_def attempt_Inr_iff by auto
  note f = this
  have "tcp_port p" by (rule defaulted_ok [OF f(2)]) (rule bounded_int_ok)
  moreover have "0 \<le> d" by (rule defaulted_ok [OF f(3)]) (auto dest: bounded_int_ok)
  moreover have "float_lt float_zero t"
    by (rule defaulted_ok [OF f(5)]) (rule positive_seconds_ok)
  moreover have "0 < m" by (rule defaulted_ok [OF f(6)]) (auto dest: bounded_int_ok)
  moreover have "optional (\<lambda>s. py_strip s \<noteq> []) w" using f(4) optional_secret_visible by (cases w) auto
  ultimately show ?thesis using required_text_settled [OF f(1)] by (simp add: r redis_settings_ok_def)
qed

lemma qdrant_settings_loaded:
  assumes "load_qdrant_settings conv src = Inr q"
  shows "qdrant_settings_ok q"
proof -
  obtain h p s k t where
    "required_text src ''host'' = Inr h"
    "defaulted src ''port'' (RawInt 6333) (\<lambda>v. attempt (reject_boolean_integers v) (bounded_int conv tcp_port)) = Inr p"
    "optional_secret src ''api_key'' = Inr k"
    "defaulted src ''timeout_seconds'' (RawInt 5) (\<lambda>v. attempt (reject_boolean_integers v) (bounded_int conv (\<lambda>n. 0 < n))) = Inr t"
    and q: "q = \<lparr>qdrant_host = h, qdrant_port = p, qdrant_https = s, qdrant_api_key = k, qdrant_timeout_seconds = t\<rparr>"
    using assms unfolding load_qdrant_settings_def attempt_Inr_iff by auto
  note f = this
  have "tcp_port p" by (rule defaulted_ok [OF f(2)]) (auto simp: tcp_port_def attempt_Inr_iff dest: bounded_int_ok)
  moreover have "0 < t" by (rule defaulted_ok [OF f(4)]) (auto simp: attempt_Inr_iff dest: bounded_int_ok)
  moreover have "optional (\<lambda>s. py_strip s \<noteq> []) k" using f(3) optional_secret_visible by (cases k) auto
  ultimately show ?thesis using required_text_settled [OF f(1)] by (simp add: q qdrant_settings_ok_def)
qed

lemma vector_size_positive: "vector_size_field conv src = Inr n \<Longrightarrow> 0 < n"
  by (auto simp: vector_size_field_def attempt_Inr_iff dest: bounded_int_ok)

definition given_text :: "settings_source \<Rightarrow> string \<Rightarrow> string \<Rightarrow> string" where
  "given_text src f preset = (case src f of Some (RawText s) \<Rightarrow> s | _ \<Rightarrow> preset)"

lemma plain_text_Inr: "plain_text v = Inr s \<longleftrightarrow> v = RawText s"
  by (cases v) auto

lemma defaulted_text_given:
  "defaulted src f (RawText preset) plain_text = Inr s \<Longrightarrow> s = given_text src f preset"
  by (auto simp: defaulted_def given_text_def plain_text_Inr split: option.splits)

definition process_settings_ok :: "settings_source \<Rightarrow> app_settings \<Rightarrow> bool" where
  "process_settings_ok src a \<longleftrightarrow>
     app_log_level a \<in> set log_levels \<and> app_log_level a = given_text src ''log_level'' ''INFO'' \<and>
     environment_value (app_environment a) = given_text src ''environment'' ''development'' \<and>
     app_name a = given_text src ''app_name'' ''AI Energy Trading Platform'' \<and>
     app_api_prefix a = given_text src ''api_prefix'' ''/api/v1''"

lemma log_level_field_Inr: "log_level_field v = Inr s \<longleftrightarrow> v = RawText s \<and> s \<in> set log_levels"
  by (auto simp: log_level_field_def attempt_Inr_iff plain_text_Inr check_Inr_iff validated_Inr)

lemma environment_field_Inr: "environment_field v = Inr e \<Longrightarrow> v = RawText (environment_value e)"
  by (auto simp: environment_field_def attempt_Inr_iff plain_text_Inr split: option.splits if_splits)

lemma process_settings_loaded:
  assumes "load_settings src = Inr a"
  shows "process_settings_ok src a"
proof -
  obtain n e p l where
    "defaulted src ''app_name'' (RawText ''AI Energy Trading Platform'') plain_text = Inr n"
    "defaulted src ''environment'' (RawText (environment_value ENV_DEVELOPMENT)) environment_field = Inr e"
    "defaulted src ''api_prefix'' (RawText ''/api/v1'') plain_text = Inr p"
    "defaulted src ''log_level'' (RawText ''INFO'') log_level_field = Inr l"
    and a: "a = \<lparr>app_name = n, app_environment = e, app_api_prefix = p, app_log_level = l\<rparr>"
    using assms unfolding load_settings_def attempt_Inr_iff by auto
  note f = this
  have "environment_value e = given_text src ''environment'' ''development''"
    using environment_field_Inr [OF f(2) [unfolded defaulted_def]]
    by (auto simp: given_text_def environment_value_def [of ENV_DEVELOPMENT] split: option.splits)
  moreover have "l \<in> set log_levels \<and> l = given_text src ''log_level'' ''INFO''"
    using f(4) by (auto simp: defaulted_def log_level_field_Inr given_text_def split: option.splits)
  ultimately show ?thesis
    using defaulted_text_given [OF f(1)] defaulted_text_given [OF f(3)] by (auto simp: a process_settings_ok_def)
qed

text \<open>Once loaded, the settings of the process do not follow the environment.\<close>

lemma get_settings_cached:
  "get_settings src cache = (Inr settings, cache') \<Longrightarrow> get_settings src' cache' = (Inr settings, cache')"
  by (auto simp: get_settings_def split: option.splits sum.splits)

text \<open>A call that returns, returns a value with the property.\<close>

fun settles :: "('a \<Rightarrow> bool) \<Rightarrow> 'a result \<Rightarrow> bool" where
  "settles P (Inl e) = True"
| "settles P (Inr x) = P x"

section \<open>Properties\<close>

text \<open>C18: LOADED-SETTINGS-ARE-TYPED. Whatever the environment holds, settings that load are well formed.
  In the database, Redis, Qdrant, OpenAI and runtime settings every text is not blank and needs no
  stripping, ports are TCP ports, secrets that are present are not blank, and sizes, counts and timeouts
  are in their ranges. The settings of the process have a known log level and environment, and each of
  their four fields is the given text as it is, or the declared default.\<close>

theorem loaded_settings_are_typed:
  "settles (process_settings_ok src) (load_settings src) \<and>
   settles database_settings_ok (load_database_settings conv src) \<and>
   settles redis_settings_ok (load_redis_settings conv src) \<and>
   settles qdrant_settings_ok (load_qdrant_settings conv src) \<and>
   settles (\<lambda>a. py_strip (openai_api_key a) \<noteq> []) (load_openai_settings src) \<and>
   settles (\<lambda>i. settled_text (irs_document_embedding_model i) \<and>
       settled_text (irs_qdrant_collection_name i) \<and> 0 < irs_qdrant_vector_size i)
     (load_document_vector_index_runtime_settings conv src) \<and>
   settles (\<lambda>r. settled_text (rrs_query_embedding_model r) \<and> settled_text (rrs_constraint_inference_model r) \<and>
       settled_text (rrs_qdrant_collection_name r) \<and> 0 < rrs_qdrant_vector_size r)
     (load_regulatory_intelligence_runtime_settings conv src)"
  (is "?process \<and> ?database \<and> ?redis \<and> ?qdrant \<and> ?openai \<and> ?index \<and> ?regulatory")
proof -
  have ?process using process_settings_loaded by (cases "load_settings src") auto
  moreover have ?database using database_settings_loaded by (cases "load_database_settings conv src") auto
  moreover have ?redis using redis_settings_loaded by (cases "load_redis_settings conv src") auto
  moreover have ?qdrant using qdrant_settings_loaded by (cases "load_qdrant_settings conv src") auto
  moreover have ?openai
    by (cases "load_openai_settings src") (auto simp: load_openai_settings_def attempt_Inr_iff dest: required_secret_visible)
  moreover have ?index
    by (cases "load_document_vector_index_runtime_settings conv src")
      (auto simp: load_document_vector_index_runtime_settings_def attempt_Inr_iff
        dest: required_text_settled vector_size_positive)
  moreover have ?regulatory
    by (cases "load_regulatory_intelligence_runtime_settings conv src")
      (auto simp: load_regulatory_intelligence_runtime_settings_def attempt_Inr_iff
        dest: required_text_settled vector_size_positive)
  ultimately show ?thesis by blast
qed

end
