(* ===== verification/Composition.thy ===== *)
theory Composition
  imports Document_Adapters Http_Api Configuration
begin

text \<open>
  The composition roots (api/composition/): the services built from the vendor clients, the managed
  runtimes that own the clients through an exit stack, the lifespans that publish a service on the
  application and remove it, and the production lifespan that nests them. The vendor clients are
  arguments; their state is the world outside the process.
\<close>

section \<open>Vendors\<close>

type_synonym ('s, 'r) call = "'s \<Rightarrow> 'r result \<times> 's"

type_synonym 's index_service = "document_chunk list \<Rightarrow> ('s, unit) call"
type_synonym regulatory_query_service = "string \<Rightarrow> int \<Rightarrow> regulatory_result result"

record ('s, 'a, 'q) vendors =
  open_openai :: "openai_arguments \<Rightarrow> ('s, 'a) call"
  close_openai :: "'a \<Rightarrow> ('s, unit) call"
  open_qdrant :: "qdrant_arguments \<Rightarrow> ('s, 'q) call"
  close_qdrant :: "'q \<Rightarrow> ('s, unit) call"
  provider_embeddings :: "'a \<Rightarrow> string \<Rightarrow> string list \<Rightarrow> provider_data result"
  provider_query_embedding :: "'a \<Rightarrow> string \<Rightarrow> string \<Rightarrow> provider_data result"
  provider_parse :: "'a \<Rightarrow> string \<Rightarrow> document_chunk list \<Rightarrow> provider_answer result"
  qdrant_points :: "'q \<Rightarrow> string \<Rightarrow> 's qdrant_client"
  qdrant_query :: "'q \<Rightarrow> string \<Rightarrow> pyfloat list \<Rightarrow> int \<Rightarrow> raw_point list option result"
  qdrant_collections :: "'q \<Rightarrow> 's collection_client"
  content_hashes :: content_hash

section \<open>Services\<close>

definition build_document_vector_index_execution ::
    "embedding_port \<Rightarrow> 's index_port \<Rightarrow> 's index_service" where
  "build_document_vector_index_execution document_embedding_port document_vector_index_port chunks s =
     execute_index document_embedding_port document_vector_index_port s chunks"

definition build_document_vector_index_provider_runtime ::
    "('s, 'a, 'q) vendors \<Rightarrow> 'a \<Rightarrow> 'q \<Rightarrow> qdrant_config \<Rightarrow> string \<Rightarrow> 's index_service" where
  "build_document_vector_index_provider_runtime v ai q config model =
     build_document_vector_index_execution
       (embed_chunks (provider_embeddings v ai model))
       (qdrant_index (content_hashes v) (qdrant_points v q (qcfg_collection_name config)) config)"

definition build_document_vector_index_configured_runtime ::
    "('s, 'a, 'q) vendors \<Rightarrow> 'a \<Rightarrow> 'q \<Rightarrow> index_runtime_settings \<Rightarrow> 's index_service result" where
  "build_document_vector_index_configured_runtime v ai q settings =
     attempt (make_qdrant_config (irs_qdrant_collection_name settings) (irs_qdrant_vector_size settings)) (\<lambda>config.
       Inr (build_document_vector_index_provider_runtime v ai q config (irs_document_embedding_model settings)))"

definition build_regulatory_intelligence_query_execution :: "regulatory_ports \<Rightarrow> regulatory_query_service" where
  "build_regulatory_intelligence_query_execution ports query_text limit = execute_regulatory_query ports query_text limit"

definition build_regulatory_intelligence_provider_runtime ::
    "('s, 'a, 'q) vendors \<Rightarrow> 'a \<Rightarrow> 'q \<Rightarrow> qdrant_config \<Rightarrow> string \<Rightarrow> string \<Rightarrow> regulatory_query_service" where
  "build_regulatory_intelligence_provider_runtime v ai q config query_embedding_model constraint_inference_model =
     build_regulatory_intelligence_query_execution
       \<lparr>rp_embed_query = embed_query (provider_query_embedding v ai query_embedding_model),
        rp_search = qdrant_search (content_hashes v) (qdrant_query v q (qcfg_collection_name config)) config,
        rp_infer = infer_constraints (provider_parse v ai constraint_inference_model)\<rparr>"

definition build_regulatory_intelligence_configured_runtime ::
    "('s, 'a, 'q) vendors \<Rightarrow> 'a \<Rightarrow> 'q \<Rightarrow> regulatory_runtime_settings \<Rightarrow> regulatory_query_service result" where
  "build_regulatory_intelligence_configured_runtime v ai q settings =
     attempt (make_qdrant_config (rrs_qdrant_collection_name settings) (rrs_qdrant_vector_size settings)) (\<lambda>config.
       Inr (build_regulatory_intelligence_provider_runtime v ai q config
              (rrs_query_embedding_model settings) (rrs_constraint_inference_model settings)))"

section \<open>Collections at startup\<close>

text \<open>The client library's own values.\<close>

definition map_qdrant_document_vector_distance :: "vector_distance \<Rightarrow> string" where
  "map_qdrant_document_vector_distance distance =
     (case distance of COSINE \<Rightarrow> ''Cosine'' | DOT \<Rightarrow> ''Dot'' | EUCLID \<Rightarrow> ''Euclid'' | MANHATTAN \<Rightarrow> ''Manhattan'')"

definition ensure_configured_document_vector_index_collection_ready ::
    "'s collection_client \<Rightarrow> index_runtime_settings \<Rightarrow> vector_distance \<Rightarrow> ('s, unit) call" where
  "ensure_configured_document_vector_index_collection_ready client runtime_settings distance s =
     (case make_qdrant_config (irs_qdrant_collection_name runtime_settings) (irs_qdrant_vector_size runtime_settings) of
        Inl e \<Rightarrow> (Inl e, s)
      | Inr config \<Rightarrow>
          ensure_qdrant_document_collection_ready client config (map_qdrant_document_vector_distance distance) s)"

definition verify_configured_regulatory_intelligence_collection_ready ::
    "'s collection_client \<Rightarrow> regulatory_runtime_settings \<Rightarrow> vector_distance \<Rightarrow> ('s, unit) call" where
  "verify_configured_regulatory_intelligence_collection_ready client runtime_settings distance s =
     (case make_qdrant_config (rrs_qdrant_collection_name runtime_settings) (rrs_qdrant_vector_size runtime_settings) of
        Inl e \<Rightarrow> (Inl e, s)
      | Inr config \<Rightarrow>
          verify_qdrant_document_collection_ready client config (map_qdrant_document_vector_distance distance) s)"

section \<open>The process\<close>

text \<open>The world outside, and the attributes of the application's state.\<close>

record 's platform =
  external :: 's
  index_attribute :: "'s index_service option"
  regulatory_attribute :: "regulatory_query_service option"

definition outside :: "('s, 'r) call \<Rightarrow> ('s platform, 'r) call" where
  "outside f p = (case f (external p) of (r, s) \<Rightarrow> (r, p\<lparr>external := s\<rparr>))"

text \<open>
  The end of an exit stack: the callbacks run in reverse order of their registration, whatever the
  outcome is, and an exception of a callback replaces it.
\<close>

fun close_all :: "('p, unit) call list \<Rightarrow> 'r result \<Rightarrow> 'p \<Rightarrow> 'r result \<times> 'p" where
  "close_all [] r p = (r, p)"
| "close_all (callback # callbacks) r p =
     (case callback p of
        (Inl e, p') \<Rightarrow> close_all callbacks (Inl e) p'
      | (Inr _, p') \<Rightarrow> close_all callbacks r p')"

text \<open>
  A managed runtime: the body of the \<open>with\<close> statement is the argument \<open>body\<close>, from the service
  and the process to its outcome.
\<close>

definition managed_document_vector_index_runtime ::
    "('s, 'a, 'q) vendors \<Rightarrow> openai_settings \<Rightarrow> qdrant_settings \<Rightarrow> index_runtime_settings \<Rightarrow> vector_distance \<Rightarrow>
     ('s index_service \<Rightarrow> ('s platform, 'r) call) \<Rightarrow> ('s platform, 'r) call" where
  "managed_document_vector_index_runtime v openai qdrant settings distance body p =
     (case outside (open_openai v (create_openai_client openai)) p of
        (Inl e, p1) \<Rightarrow> close_all [] (Inl e) p1
      | (Inr ai, p1) \<Rightarrow>
          (case outside (open_qdrant v (create_qdrant_client qdrant)) p1 of
             (Inl e, p2) \<Rightarrow> close_all [outside (close_openai v ai)] (Inl e) p2
           | (Inr q, p2) \<Rightarrow>
               let callbacks = [outside (close_qdrant v q), outside (close_openai v ai)] in
               (case outside (ensure_configured_document_vector_index_collection_ready
                       (qdrant_collections v q) settings distance) p2 of
                  (Inl e, p3) \<Rightarrow> close_all callbacks (Inl e) p3
                | (Inr _, p3) \<Rightarrow>
                    (case build_document_vector_index_configured_runtime v ai q settings of
                       Inl e \<Rightarrow> close_all callbacks (Inl e) p3
                     | Inr service \<Rightarrow>
                         (case body service p3 of (r, p4) \<Rightarrow> close_all callbacks r p4)))))"

definition managed_regulatory_intelligence_runtime ::
    "('s, 'a, 'q) vendors \<Rightarrow> openai_settings \<Rightarrow> qdrant_settings \<Rightarrow> regulatory_runtime_settings \<Rightarrow> vector_distance \<Rightarrow>
     (regulatory_query_service \<Rightarrow> ('s platform, 'r) call) \<Rightarrow> ('s platform, 'r) call" where
  "managed_regulatory_intelligence_runtime v openai qdrant settings distance body p =
     (case outside (open_openai v (create_openai_client openai)) p of
        (Inl e, p1) \<Rightarrow> close_all [] (Inl e) p1
      | (Inr ai, p1) \<Rightarrow>
          (case outside (open_qdrant v (create_qdrant_client qdrant)) p1 of
             (Inl e, p2) \<Rightarrow> close_all [outside (close_openai v ai)] (Inl e) p2
           | (Inr q, p2) \<Rightarrow>
               let callbacks = [outside (close_qdrant v q), outside (close_openai v ai)] in
               (case outside (verify_configured_regulatory_intelligence_collection_ready
                       (qdrant_collections v q) settings distance) p2 of
                  (Inl e, p3) \<Rightarrow> close_all callbacks (Inl e) p3
                | (Inr _, p3) \<Rightarrow>
                    (case build_regulatory_intelligence_configured_runtime v ai q settings of
                       Inl e \<Rightarrow> close_all callbacks (Inl e) p3
                     | Inr service \<Rightarrow>
                         (case body service p3 of (r, p4) \<Rightarrow> close_all callbacks r p4)))))"

text \<open>The raw settings of each class, under its own prefix.\<close>

record environment_settings =
  es_openai :: settings_source
  es_qdrant :: settings_source
  es_document_index :: settings_source
  es_regulatory :: settings_source

definition loaded_document_vector_index_runtime ::
    "conversions \<Rightarrow> ('s, 'a, 'q) vendors \<Rightarrow> environment_settings \<Rightarrow>
     ('s index_service \<Rightarrow> ('s platform, 'r) call) \<Rightarrow> ('s platform, 'r) call" where
  "loaded_document_vector_index_runtime conv v env body p =
     (case attempt (load_openai_settings (es_openai env)) (\<lambda>openai.
           attempt (load_qdrant_settings conv (es_qdrant env)) (\<lambda>qdrant.
           attempt (load_document_vector_index_runtime_settings conv (es_document_index env)) (\<lambda>settings.
           attempt (load_qdrant_document_vector_distance_settings (es_qdrant env)) (\<lambda>distance.
             Inr (openai, qdrant, settings, distance))))) of
        Inl e \<Rightarrow> (Inl e, p)
      | Inr (openai, qdrant, settings, distance) \<Rightarrow>
          managed_document_vector_index_runtime v openai qdrant settings distance body p)"

definition loaded_regulatory_intelligence_runtime ::
    "conversions \<Rightarrow> ('s, 'a, 'q) vendors \<Rightarrow> environment_settings \<Rightarrow>
     (regulatory_query_service \<Rightarrow> ('s platform, 'r) call) \<Rightarrow> ('s platform, 'r) call" where
  "loaded_regulatory_intelligence_runtime conv v env body p =
     (case attempt (load_openai_settings (es_openai env)) (\<lambda>openai.
           attempt (load_qdrant_settings conv (es_qdrant env)) (\<lambda>qdrant.
           attempt (load_regulatory_intelligence_runtime_settings conv (es_regulatory env)) (\<lambda>settings.
           attempt (load_qdrant_document_vector_distance_settings (es_qdrant env)) (\<lambda>distance.
             Inr (openai, qdrant, settings, distance))))) of
        Inl e \<Rightarrow> (Inl e, p)
      | Inr (openai, qdrant, settings, distance) \<Rightarrow>
          managed_regulatory_intelligence_runtime v openai qdrant settings distance body p)"

text \<open>The lifespans: \<open>del\<close> of an attribute that is not there raises \<open>AttributeError\<close>.\<close>

definition remove_index_service :: "'r result \<Rightarrow> 's platform \<Rightarrow> 'r result \<times> 's platform" where
  "remove_index_service r p =
     (case index_attribute p of
        None \<Rightarrow> (Inl (OtherException ''AttributeError''), p)
      | Some _ \<Rightarrow> (r, p\<lparr>index_attribute := None\<rparr>))"

definition remove_regulatory_service :: "'r result \<Rightarrow> 's platform \<Rightarrow> 'r result \<times> 's platform" where
  "remove_regulatory_service r p =
     (case regulatory_attribute p of
        None \<Rightarrow> (Inl (OtherException ''AttributeError''), p)
      | Some _ \<Rightarrow> (r, p\<lparr>regulatory_attribute := None\<rparr>))"

definition document_vector_index_lifespan ::
    "conversions \<Rightarrow> ('s, 'a, 'q) vendors \<Rightarrow> environment_settings \<Rightarrow> ('s platform, unit) call \<Rightarrow> ('s platform, unit) call" where
  "document_vector_index_lifespan conv v env serve =
     loaded_document_vector_index_runtime conv v env (\<lambda>service p.
       case serve (p\<lparr>index_attribute := Some service\<rparr>) of (r, p') \<Rightarrow> remove_index_service r p')"

definition regulatory_intelligence_lifespan ::
    "conversions \<Rightarrow> ('s, 'a, 'q) vendors \<Rightarrow> environment_settings \<Rightarrow> ('s platform, unit) call \<Rightarrow> ('s platform, unit) call" where
  "regulatory_intelligence_lifespan conv v env serve =
     loaded_regulatory_intelligence_runtime conv v env (\<lambda>service p.
       case serve (p\<lparr>regulatory_attribute := Some service\<rparr>) of (r, p') \<Rightarrow> remove_regulatory_service r p')"

definition production_lifespan ::
    "conversions \<Rightarrow> ('s, 'a, 'q) vendors \<Rightarrow> environment_settings \<Rightarrow> ('s platform, unit) call \<Rightarrow> ('s platform, unit) call" where
  "production_lifespan conv v env serve =
     regulatory_intelligence_lifespan conv v env (document_vector_index_lifespan conv v env serve)"

section \<open>Clients\<close>

text \<open>
  The clients that are open, the last opened first: opening one that returns adds it, closing the last
  one removes it even when the call raises, and the collection calls open and close none.
\<close>

definition tracks_clients :: "('s, 'a, 'q) vendors \<Rightarrow> ('s \<Rightarrow> ('a + 'q) list) \<Rightarrow> bool" where
  "tracks_clients v live \<longleftrightarrow>
     (\<forall>args s r s'. open_openai v args s = (r, s') \<longrightarrow> live s' = (case r of Inl _ \<Rightarrow> live s | Inr a \<Rightarrow> Inl a # live s)) \<and>
     (\<forall>args s r s'. open_qdrant v args s = (r, s') \<longrightarrow> live s' = (case r of Inl _ \<Rightarrow> live s | Inr q \<Rightarrow> Inr q # live s)) \<and>
     (\<forall>a s rest r s'. close_openai v a s = (r, s') \<longrightarrow> live s = Inl a # rest \<longrightarrow> live s' = rest) \<and>
     (\<forall>q s rest r s'. close_qdrant v q s = (r, s') \<longrightarrow> live s = Inr q # rest \<longrightarrow> live s' = rest) \<and>
     (\<forall>q n s r s'. cc_exists (qdrant_collections v q) s n = (r, s') \<longrightarrow> live s' = live s) \<and>
     (\<forall>q n s r s'. cc_info (qdrant_collections v q) s n = (r, s') \<longrightarrow> live s' = live s) \<and>
     (\<forall>q n w s r s'. cc_create (qdrant_collections v q) s n w = (r, s') \<longrightarrow> live s' = live s)"

lemma tracks_clientsD:
  assumes "tracks_clients v live"
  shows "open_openai v args s = (r, s') \<Longrightarrow> live s' = (case r of Inl _ \<Rightarrow> live s | Inr a \<Rightarrow> Inl a # live s)"
    and "open_qdrant v args' s = (r', s') \<Longrightarrow> live s' = (case r' of Inl _ \<Rightarrow> live s | Inr q \<Rightarrow> Inr q # live s)"
    and "close_openai v a s = (u, s') \<Longrightarrow> live s = Inl a # rest \<Longrightarrow> live s' = rest"
    and "close_qdrant v q s = (u, s') \<Longrightarrow> live s = Inr q # rest \<Longrightarrow> live s' = rest"
    and "cc_exists (qdrant_collections v q) s n = (b, s') \<Longrightarrow> live s' = live s"
    and "cc_info (qdrant_collections v q) s n = (w, s') \<Longrightarrow> live s' = live s"
    and "cc_create (qdrant_collections v q) s n x = (b, s') \<Longrightarrow> live s' = live s"
  using assms unfolding tracks_clients_def by (elim conjE; metis)+

lemma verify_keeps_clients:
  assumes "tracks_clients v live"
    and "verify_configured_regulatory_intelligence_collection_ready (qdrant_collections v q) settings distance s = (r, s')"
  shows "live s' = live s"
  using assms(2) tracks_clientsD(6) [OF assms(1)]
  by (auto simp: verify_configured_regulatory_intelligence_collection_ready_def verify_qdrant_document_collection_ready_def
      split: sum.splits prod.splits option.splits)

lemma ensure_keeps_clients:
  assumes "tracks_clients v live"
    and "ensure_configured_document_vector_index_collection_ready (qdrant_collections v q) settings distance s = (r, s')"
  shows "live s' = live s"
proof (cases "make_qdrant_config (irs_qdrant_collection_name settings) (irs_qdrant_vector_size settings)")
  case (Inr config)
  obtain b s1 where e: "cc_exists (qdrant_collections v q) s (qcfg_collection_name config) = (b, s1)" by fastforce
  have "live s1 = live s" using tracks_clientsD(5) [OF assms(1) e] .
  moreover have "live t' = live t"
    if "create_qdrant_document_collection (qdrant_collections v q) config d t = (x, t')" for t t' x d
    using that tracks_clientsD(7) [OF assms(1)] by (auto simp: create_qdrant_document_collection_def split: sum.splits prod.splits)
  moreover have "live t' = live t"
    if "verify_qdrant_document_collection_ready (qdrant_collections v q) config d t = (x, t')" for t t' x d
    using that tracks_clientsD(6) [OF assms(1)]
    by (auto simp: verify_qdrant_document_collection_ready_def split: sum.splits prod.splits option.splits)
  ultimately show ?thesis using assms(2) Inr e
    by (auto simp: ensure_configured_document_vector_index_collection_ready_def ensure_qdrant_document_collection_ready_def
        split: sum.splits if_splits)
qed (use assms(2) in \<open>simp add: ensure_configured_document_vector_index_collection_ready_def\<close>)

text \<open>What a call leaves as it found it.\<close>

definition same_process :: "('s \<Rightarrow> 'c) \<Rightarrow> 's platform \<Rightarrow> 's platform \<Rightarrow> bool" where
  "same_process live p p' \<longleftrightarrow>
     live (external p') = live (external p) \<and> index_attribute p' = index_attribute p \<and>
     regulatory_attribute p' = regulatory_attribute p"

lemma same_process_refl [simp]: "same_process live p p"
  by (simp add: same_process_def)

lemma outside_attributes:
  "outside f p = (r, p') \<Longrightarrow> \<exists>s'. f (external p) = (r, s') \<and> p' = p\<lparr>external := s'\<rparr>"
  by (auto simp: outside_def split: prod.splits)

lemma close_client:
  assumes "\<And>s r s'. f s = (r, s') \<Longrightarrow> live s = c # rest \<Longrightarrow> live s' = rest"
    and "outside f p = (u, p')" "live (external p) = c # rest"
  shows "live (external p') = rest \<and> index_attribute p' = index_attribute p \<and> regulatory_attribute p' = regulatory_attribute p"
  using outside_attributes [OF assms(2)] assms(1,3) by auto

lemma close_one:
  assumes "tracks_clients v live" "live (external p) = Inl a # rest" "close_all [outside (close_openai v a)] r p = (r', p')"
  shows "live (external p') = rest \<and> index_attribute p' = index_attribute p \<and> regulatory_attribute p' = regulatory_attribute p"
proof -
  obtain u where "outside (close_openai v a) p = (u, p')" using assms(3) by (auto split: prod.splits sum.splits)
  then show ?thesis by (rule close_client [rotated]) (use assms(2) tracks_clientsD(3) [OF assms(1)] in auto)
qed

lemma close_both:
  assumes "tracks_clients v live" "live (external p) = Inr q # Inl a # rest"
    and "close_all [outside (close_qdrant v q), outside (close_openai v a)] r p = (r', p')"
  shows "live (external p') = rest \<and> index_attribute p' = index_attribute p \<and> regulatory_attribute p' = regulatory_attribute p"
proof -
  obtain u p1 where u: "outside (close_qdrant v q) p = (u, p1)" by fastforce
  then have "close_all [outside (close_qdrant v q), outside (close_openai v a)] r p =
      (case u of Inl e \<Rightarrow> close_all [outside (close_openai v a)] (Inl e) p1
       | Inr _ \<Rightarrow> close_all [outside (close_openai v a)] r p1)" by simp
  then obtain r1 where rest: "close_all [outside (close_openai v a)] r1 p1 = (r', p')"
    using assms(3) by (cases u) (metis sum.case)+
  have "live (external p1) = Inl a # rest \<and> index_attribute p1 = index_attribute p \<and> regulatory_attribute p1 = regulatory_attribute p"
    by (rule close_client [where live = live and f = "close_qdrant v q", OF _ u assms(2)])
      (rule tracks_clientsD(4) [OF assms(1)])
  then show ?thesis using close_one [OF assms(1) _ rest] by simp
qed


text \<open>
  A managed runtime whose body leaves the process as it found it does so too: on every path - a client
  that does not open, a collection that is not ready, a body that raises, a close that raises - the
  clients it opened are closed, the last one first.
\<close>

lemma outside_open_openai:
  assumes "tracks_clients v live" "outside (open_openai v args) p = (r, p')"
  shows "live (external p') = (case r of Inl _ \<Rightarrow> live (external p) | Inr a \<Rightarrow> Inl a # live (external p)) \<and>
    index_attribute p' = index_attribute p \<and> regulatory_attribute p' = regulatory_attribute p"
  using outside_attributes [OF assms(2)] tracks_clientsD(1) [OF assms(1)] by auto

lemma outside_open_qdrant:
  assumes "tracks_clients v live" "outside (open_qdrant v args) p = (r, p')"
  shows "live (external p') = (case r of Inl _ \<Rightarrow> live (external p) | Inr q \<Rightarrow> Inr q # live (external p)) \<and>
    index_attribute p' = index_attribute p \<and> regulatory_attribute p' = regulatory_attribute p"
  using outside_attributes [OF assms(2)] tracks_clientsD(2) [OF assms(1)] by auto

text \<open>The part both runtimes share, over the collection step and the service.\<close>

definition with_clients ::
    "('s, 'a, 'q) vendors \<Rightarrow> openai_arguments \<Rightarrow> qdrant_arguments \<Rightarrow> ('q \<Rightarrow> ('s, unit) call) \<Rightarrow>
     ('a \<Rightarrow> 'q \<Rightarrow> 'v result) \<Rightarrow> ('v \<Rightarrow> ('s platform, 'r) call) \<Rightarrow> ('s platform, 'r) call" where
  "with_clients v oargs qargs collection build body p =
     (case outside (open_openai v oargs) p of
        (Inl e, p1) \<Rightarrow> close_all [] (Inl e) p1
      | (Inr ai, p1) \<Rightarrow>
          (case outside (open_qdrant v qargs) p1 of
             (Inl e, p2) \<Rightarrow> close_all [outside (close_openai v ai)] (Inl e) p2
           | (Inr q, p2) \<Rightarrow>
               let callbacks = [outside (close_qdrant v q), outside (close_openai v ai)] in
               (case outside (collection q) p2 of
                  (Inl e, p3) \<Rightarrow> close_all callbacks (Inl e) p3
                | (Inr _, p3) \<Rightarrow>
                    (case build ai q of
                       Inl e \<Rightarrow> close_all callbacks (Inl e) p3
                     | Inr service \<Rightarrow>
                         (case body service p3 of (r, p4) \<Rightarrow> close_all callbacks r p4)))))"

lemma managed_document_vector_index_runtime_shared:
  "managed_document_vector_index_runtime v openai qdrant settings distance =
     with_clients v (create_openai_client openai) (create_qdrant_client qdrant)
       (\<lambda>q. ensure_configured_document_vector_index_collection_ready (qdrant_collections v q) settings distance)
       (\<lambda>ai q. build_document_vector_index_configured_runtime v ai q settings)"
  by (rule ext)+ (simp add: managed_document_vector_index_runtime_def with_clients_def)

lemma managed_regulatory_intelligence_runtime_shared:
  "managed_regulatory_intelligence_runtime v openai qdrant settings distance =
     with_clients v (create_openai_client openai) (create_qdrant_client qdrant)
       (\<lambda>q. verify_configured_regulatory_intelligence_collection_ready (qdrant_collections v q) settings distance)
       (\<lambda>ai q. build_regulatory_intelligence_configured_runtime v ai q settings)"
  by (rule ext)+ (simp add: managed_regulatory_intelligence_runtime_def with_clients_def)

text \<open>The four ways through.\<close>

lemma with_clients_cases:
  assumes "with_clients v oargs qargs collection build body p = (res, p')"
  obtains (no_openai) e where "outside (open_openai v oargs) p = (Inl e, p')"
  | (no_qdrant) ai p1 e p2 where "outside (open_openai v oargs) p = (Inr ai, p1)"
      "outside (open_qdrant v qargs) p1 = (Inl e, p2)"
      "close_all [outside (close_openai v ai)] (Inl e) p2 = (res, p')"
  | (not_ready) ai p1 q p2 e c p3 where "outside (open_openai v oargs) p = (Inr ai, p1)"
      "outside (open_qdrant v qargs) p1 = (Inr q, p2)" "outside (collection q) p2 = (c, p3)"
      "close_all [outside (close_qdrant v q), outside (close_openai v ai)] (Inl e) p3 = (res, p')"
  | (served) ai p1 q p2 p3 service r p4 where "outside (open_openai v oargs) p = (Inr ai, p1)"
      "outside (open_qdrant v qargs) p1 = (Inr q, p2)" "outside (collection q) p2 = (Inr (), p3)"
      "build ai q = Inr service" "body service p3 = (r, p4)"
      "close_all [outside (close_qdrant v q), outside (close_openai v ai)] r p4 = (res, p')"
proof -
  obtain oa p1 where oa: "outside (open_openai v oargs) p = (oa, p1)" by fastforce
  show thesis
  proof (cases oa)
    case (Inl e)
    then show ?thesis using assms oa by (intro no_openai [of e]) (simp add: with_clients_def)
  next
    case ai: (Inr ai)
    obtain qa p2 where qa: "outside (open_qdrant v qargs) p1 = (qa, p2)" by fastforce
    show ?thesis
    proof (cases qa)
      case (Inl e)
      then show ?thesis using assms oa ai qa by (intro no_qdrant [of ai p1 e p2]) (simp_all add: with_clients_def)
    next
      case q: (Inr q)
      obtain c p3 where c: "outside (collection q) p2 = (c, p3)" by fastforce
      let ?close = "close_all [outside (close_qdrant v q), outside (close_openai v ai)]"
      have rest: "(case c of Inl e \<Rightarrow> ?close (Inl e) p3
          | Inr _ \<Rightarrow> (case build ai q of Inl e \<Rightarrow> ?close (Inl e) p3
              | Inr service \<Rightarrow> (case body service p3 of (r, p4) \<Rightarrow> ?close r p4))) = (res, p')"
        using assms oa ai qa q c
        by (cases c; cases "build ai q") (simp_all only: with_clients_def Let_def prod.case sum.case)
      show ?thesis
      proof (cases c)
        case (Inl e)
        then show ?thesis using not_ready oa ai qa q c rest by (simp only: sum.case)
      next
        case (Inr u)
        show ?thesis
        proof (cases "build ai q")
          case (Inl e)
          then have "?close (Inl e) p3 = (res, p')" using rest \<open>c = Inr u\<close> by (simp only: sum.case)
          then show ?thesis using not_ready oa ai qa q c by (simp only: sum.case)
        next
          case b: (Inr service)
          obtain r p4 where s: "body service p3 = (r, p4)" by fastforce
          have "?close r p4 = (res, p')" using rest \<open>c = Inr u\<close> b s by (simp only: sum.case prod.case)
          then show ?thesis using served [of ai p1 q p2 p3 service r p4] oa ai qa q c b s \<open>c = Inr u\<close>
            by (cases u) (simp only:)
        qed
      qed
    qed
  qed
qed

lemma managed_restores:
  assumes v: "tracks_clients v live"
    and ready: "\<And>q s r s'. collection q s = (r, s') \<Longrightarrow> live s' = live s"
    and body: "\<And>service p1 r p2. index_attribute p1 = index_attribute p \<Longrightarrow>
      regulatory_attribute p1 = regulatory_attribute p \<Longrightarrow> body service p1 = (r, p2) \<Longrightarrow> same_process live p1 p2"
    and run: "with_clients v oargs qargs collection build body p = (res, p')"
  shows "same_process live p p'"
  using run
proof (cases rule: with_clients_cases)
  case (no_openai e)
  then show ?thesis using outside_open_openai [OF v no_openai] by (simp add: same_process_def)
next
  case (no_qdrant ai p1 e p2)
  have "live (external p2) = Inl ai # live (external p)"
    using outside_open_openai [OF v no_qdrant(1)] outside_open_qdrant [OF v no_qdrant(2)] by simp
  from close_one [OF v this no_qdrant(3)] show ?thesis
    using outside_open_openai [OF v no_qdrant(1)] outside_open_qdrant [OF v no_qdrant(2)]
    by (simp add: same_process_def)
next
  case (not_ready ai p1 q p2 e c p3)
  note opened = outside_open_openai [OF v not_ready(1)] outside_open_qdrant [OF v not_ready(2)]
  obtain s' where s': "collection q (external p2) = (c, s')" "p3 = p2\<lparr>external := s'\<rparr>"
    using outside_attributes [OF not_ready(3)] by blast
  have "live (external p3) = Inr q # Inl ai # live (external p)"
    using opened s'(2) ready [OF s'(1)] by simp
  from close_both [OF v this not_ready(4)] show ?thesis
    using opened s'(2) by (simp add: same_process_def)
next
  case (served ai p1 q p2 p3 service r p4)
  note opened = outside_open_openai [OF v served(1)] outside_open_qdrant [OF v served(2)]
  obtain s' where s': "collection q (external p2) = (Inr (), s')" "p3 = p2\<lparr>external := s'\<rparr>"
    using outside_attributes [OF served(3)] by blast
  have kept: "index_attribute p3 = index_attribute p" "regulatory_attribute p3 = regulatory_attribute p"
    using opened s'(2) by simp_all
  have same: "same_process live p3 p4" using body [OF kept served(5)] .
  have "live (external p4) = Inr q # Inl ai # live (external p)"
    using same opened s'(2) ready [OF s'(1)] by (simp add: same_process_def)
  from close_both [OF v this served(6)] show ?thesis
    using opened s'(2) same by (simp add: same_process_def)
qed

text \<open>The loaded runtimes and the lifespans.\<close>

lemma loaded_index_runtime_restores:
  assumes v: "tracks_clients v live"
    and body: "\<And>service p1 r p2. index_attribute p1 = index_attribute p \<Longrightarrow>
      regulatory_attribute p1 = regulatory_attribute p \<Longrightarrow> body service p1 = (r, p2) \<Longrightarrow> same_process live p1 p2"
    and run: "loaded_document_vector_index_runtime conv v env body p = (res, p')"
  shows "same_process live p p'"
  using run unfolding loaded_document_vector_index_runtime_def managed_document_vector_index_runtime_shared
  by (auto split: sum.splits intro: managed_restores [OF v ensure_keeps_clients [OF v] body])

lemma loaded_regulatory_runtime_restores:
  assumes v: "tracks_clients v live"
    and body: "\<And>service p1 r p2. index_attribute p1 = index_attribute p \<Longrightarrow>
      regulatory_attribute p1 = regulatory_attribute p \<Longrightarrow> body service p1 = (r, p2) \<Longrightarrow> same_process live p1 p2"
    and run: "loaded_regulatory_intelligence_runtime conv v env body p = (res, p')"
  shows "same_process live p p'"
  using run unfolding loaded_regulatory_intelligence_runtime_def managed_regulatory_intelligence_runtime_shared
  by (auto split: sum.splits intro: managed_restores [OF v verify_keeps_clients [OF v] body])

text \<open>What is asked of the code that runs between startup and shutdown.\<close>

definition well_behaved :: "('s \<Rightarrow> 'c) \<Rightarrow> ('s platform, unit) call \<Rightarrow> bool" where
  "well_behaved live serve \<longleftrightarrow> (\<forall>p r p'. serve p = (r, p') \<longrightarrow> same_process live p p')"

lemma index_lifespan_restores:
  assumes "tracks_clients v live" "well_behaved live serve" "index_attribute p = None"
    and "document_vector_index_lifespan conv v env serve p = (res, p')"
  shows "same_process live p p'"
  using assms(4) unfolding document_vector_index_lifespan_def
proof (rule loaded_index_runtime_restores [OF assms(1), rotated])
  fix service r and p1 p2 :: "'a platform"
  assume entry: "index_attribute p1 = index_attribute p" "regulatory_attribute p1 = regulatory_attribute p"
    and run: "(case serve (p1\<lparr>index_attribute := Some service\<rparr>) of (r, p') \<Rightarrow> remove_index_service r p') = (r, p2)"
  obtain r1 p3 where s: "serve (p1\<lparr>index_attribute := Some service\<rparr>) = (r1, p3)" by fastforce
  then have "same_process live (p1\<lparr>index_attribute := Some service\<rparr>) p3"
    using assms(2) unfolding well_behaved_def by blast
  then show "same_process live p1 p2"
    using run s entry assms(3) by (auto simp: remove_index_service_def same_process_def)
qed

lemma regulatory_lifespan_restores:
  assumes "tracks_clients v live" "\<And>p r p'. index_attribute p = None \<Longrightarrow> serve p = (r, p') \<Longrightarrow> same_process live p p'"
    and "index_attribute p = None" "regulatory_attribute p = None"
    and "regulatory_intelligence_lifespan conv v env serve p = (res, p')"
  shows "same_process live p p'"
  using assms(5) unfolding regulatory_intelligence_lifespan_def
proof (rule loaded_regulatory_runtime_restores [OF assms(1), rotated])
  fix service r and p1 p2 :: "'a platform"
  assume entry: "index_attribute p1 = index_attribute p" "regulatory_attribute p1 = regulatory_attribute p"
    and run: "(case serve (p1\<lparr>regulatory_attribute := Some service\<rparr>) of (r, p') \<Rightarrow> remove_regulatory_service r p') = (r, p2)"
  obtain r1 p3 where s: "serve (p1\<lparr>regulatory_attribute := Some service\<rparr>) = (r1, p3)" by fastforce
  have "same_process live (p1\<lparr>regulatory_attribute := Some service\<rparr>) p3"
    by (rule assms(2) [OF _ s]) (simp add: entry assms(3))
  then show "same_process live p1 p2"
    using run s entry assms(4) by (auto simp: remove_regulatory_service_def same_process_def)
qed

lemma production_lifespan_restores:
  assumes "tracks_clients v live" "well_behaved live serve" "index_attribute p = None" "regulatory_attribute p = None"
    and "production_lifespan conv v env serve p = (res, p')"
  shows "same_process live p p'"
  using assms(5) unfolding production_lifespan_def
  by (rule regulatory_lifespan_restores [OF assms(1) _ assms(3,4), rotated])
    (rule index_lifespan_restores [OF assms(1,2)])

section \<open>A server without the collection\<close>

text \<open>
  The states of the world in which no collection of the given name exists: opening and closing
  clients does not make one, and its description is refused or empty.
\<close>

definition lacks_collection :: "('s, 'a, 'q) vendors \<Rightarrow> string \<Rightarrow> ('s \<Rightarrow> bool) \<Rightarrow> bool" where
  "lacks_collection v n absent \<longleftrightarrow>
     (\<forall>args s. absent s \<longrightarrow> absent (snd (open_openai v args s))) \<and>
     (\<forall>args s. absent s \<longrightarrow> absent (snd (open_qdrant v args s))) \<and>
     (\<forall>a s. absent s \<longrightarrow> absent (snd (close_openai v a s))) \<and>
     (\<forall>q s. absent s \<longrightarrow> absent (snd (close_qdrant v q s))) \<and>
     (\<forall>q s. absent s \<longrightarrow> absent (snd (cc_info (qdrant_collections v q) s n)) \<and>
        (\<forall>w. fst (cc_info (qdrant_collections v q) s n) \<noteq> Inr (Some w)))"

lemma close_all_absent:
  assumes "\<And>c p. c \<in> set callbacks \<Longrightarrow> absent (external p) \<Longrightarrow> absent (external (snd (c p)))" "absent (external p)"
  shows "\<exists>e' p'. close_all callbacks (Inl e) p = (Inl e', p') \<and> absent (external p')"
  using assms
proof (induction callbacks arbitrary: e p)
  case (Cons c cs)
  obtain u p1 where u: "c p = (u, p1)" by fastforce
  then have p1: "absent (external p1)" using Cons.prems(1) [of c p] Cons.prems(2) by simp
  show ?case using u
    by (cases u) (simp_all, (rule Cons.IH [OF _ p1], rule Cons.prems(1), simp_all)+)
qed simp

lemma outside_absent: "absent (external (snd (outside f p))) \<longleftrightarrow> absent (snd (f (external p)))"
  by (simp add: outside_def split: prod.split)

lemma with_clients_absent:
  assumes lacks: "lacks_collection v n absent" and now: "absent (external p)"
    and refused: "\<And>q s. absent s \<Longrightarrow> \<exists>e s'. collection q s = (Inl e, s') \<and> absent s'"
  shows "\<exists>e p'. (\<forall>body. with_clients v oargs qargs collection build body p = (Inl e, p')) \<and> absent (external p')"
proof -
  have callbacks: "absent (external (snd (outside (close_openai v a) x)))" "absent (external (snd (outside (close_qdrant v q) x)))"
    if "absent (external x)" for a q x
    using lacks that unfolding lacks_collection_def outside_absent by blast+
  obtain oa p1 where oa: "outside (open_openai v oargs) p = (oa, p1)" by fastforce
  then have p1: "absent (external p1)"
    using lacks now outside_absent [of absent "open_openai v oargs" p] unfolding lacks_collection_def by simp
  show ?thesis
  proof (cases oa)
    case (Inl e)
    then show ?thesis using oa p1 by (simp add: with_clients_def)
  next
    case ai: (Inr ai)
    obtain qa p2 where qa: "outside (open_qdrant v qargs) p1 = (qa, p2)" by fastforce
    then have p2: "absent (external p2)"
      using lacks p1 outside_absent [of absent "open_qdrant v qargs" p1] unfolding lacks_collection_def by simp
    show ?thesis
    proof (cases qa)
      case (Inl e)
      have "\<exists>e' p'. close_all [outside (close_openai v ai)] (Inl e) p2 = (Inl e', p') \<and> absent (external p')"
        by (rule close_all_absent) (auto simp: callbacks p2)
      then show ?thesis using oa ai qa Inl by (simp add: with_clients_def del: close_all.simps)
    next
      case q: (Inr q)
      obtain e s' where c: "collection q (external p2) = (Inl e, s')" "absent s'" using refused [OF p2] by blast
      let ?p3 = "p2\<lparr>external := s'\<rparr>"
      have "\<exists>e' p'. close_all [outside (close_qdrant v q), outside (close_openai v ai)] (Inl e) ?p3 = (Inl e', p') \<and>
          absent (external p')"
        by (rule close_all_absent) (auto simp: callbacks c(2))
      moreover have "outside (collection q) p2 = (Inl e, ?p3)" by (simp add: outside_def c(1))
      ultimately show ?thesis using oa ai qa q by (simp add: with_clients_def Let_def del: close_all.simps)
    qed
  qed
qed

lemma verify_refuses_missing:
  assumes "lacks_collection v n absent" "rrs_qdrant_collection_name settings = n" "py_strip n = n" "absent s"
  shows "\<exists>e s'. verify_configured_regulatory_intelligence_collection_ready (qdrant_collections v q) settings distance s =
      (Inl e, s') \<and> absent s'"
proof (cases "make_qdrant_config (rrs_qdrant_collection_name settings) (rrs_qdrant_vector_size settings)")
  case (Inl e)
  then show ?thesis using assms(4) by (simp add: verify_configured_regulatory_intelligence_collection_ready_def)
next
  case (Inr config)
  then have name: "qcfg_collection_name config = n"
    using assms(2,3) by (auto simp: make_qdrant_config_def require_collection_name_def result_simps split: if_splits)
  have "absent (snd (cc_info (qdrant_collections v q) s n))" "\<forall>w. fst (cc_info (qdrant_collections v q) s n) \<noteq> Inr (Some w)"
    using assms(1,4) unfolding lacks_collection_def by blast+
  then show ?thesis using Inr name
    by (cases "cc_info (qdrant_collections v q) s n"; cases "fst (cc_info (qdrant_collections v q) s n)")
      (auto simp: verify_configured_regulatory_intelligence_collection_ready_def
        verify_qdrant_document_collection_ready_def split: option.split)
qed

lemma regulatory_runtime_absent:
  assumes lacks: "lacks_collection v n absent" "absent (external p)"
    and settings: "load_regulatory_intelligence_runtime_settings conv (es_regulatory env) = Inr settings"
      "rrs_qdrant_collection_name settings = n"
  shows "\<exists>e p'. (\<forall>body. loaded_regulatory_intelligence_runtime conv v env body p = (Inl e, p')) \<and> absent (external p')"
proof (cases "attempt (load_openai_settings (es_openai env)) (\<lambda>openai.
           attempt (load_qdrant_settings conv (es_qdrant env)) (\<lambda>qdrant.
           attempt (load_regulatory_intelligence_runtime_settings conv (es_regulatory env)) (\<lambda>settings.
           attempt (load_qdrant_document_vector_distance_settings (es_qdrant env)) (\<lambda>distance.
             Inr (openai, qdrant, settings, distance)))))")
  case (Inl e)
  then show ?thesis using lacks(2) by (simp add: loaded_regulatory_intelligence_runtime_def)
next
  case (Inr all)
  then obtain oa qd d where all: "all = (oa, qd, settings, d)" using settings(1) by (auto simp: attempt_Inr_iff)
  have "settled_text n"
    using settings by (auto simp: load_regulatory_intelligence_runtime_settings_def attempt_Inr_iff dest: required_text_settled)
  then have name: "py_strip n = n" by (simp add: settled_text_def)
  show ?thesis
    unfolding loaded_regulatory_intelligence_runtime_def Inr all managed_regulatory_intelligence_runtime_shared
    using with_clients_absent [OF lacks verify_refuses_missing [OF lacks(1) settings(2) name]] by simp
qed

section \<open>Properties\<close>

text \<open>A server for the witnesses: its collections, and the clients that are open.\<close>

type_synonym local_server = "(string \<rightharpoonup> vector_params) \<times> (unit + unit) list"

definition local_collections :: "local_server collection_client" where
  "local_collections =
     \<lparr>cc_create = (\<lambda>(c, l) n w. (Inr True, (c(n \<mapsto> w), l))),
      cc_info = (\<lambda>(c, l) n. (case c n of None \<Rightarrow> Inl (OtherException ''UnexpectedResponse'') | Some w \<Rightarrow> Inr (Some w), (c, l))),
      cc_exists = (\<lambda>(c, l) n. (Inr (c n \<noteq> None), (c, l)))\<rparr>"

definition local_vendors :: "(local_server, unit, unit) vendors" where
  "local_vendors =
     \<lparr>open_openai = (\<lambda>args (c, l). (Inr (), (c, Inl () # l))), close_openai = (\<lambda>a (c, l). (Inr (), (c, drop 1 l))),
      open_qdrant = (\<lambda>args (c, l). (Inr (), (c, Inr () # l))), close_qdrant = (\<lambda>q (c, l). (Inr (), (c, drop 1 l))),
      provider_embeddings = (\<lambda>a m ts. Inl (OtherException ''APIConnectionError'')),
      provider_query_embedding = (\<lambda>a m t. Inl (OtherException ''APIConnectionError'')),
      provider_parse = (\<lambda>a m cs. Inl (OtherException ''APIConnectionError'')),
      qdrant_points = (\<lambda>q n. \<lparr>qc_retrieve = (\<lambda>s ids. (Inr [], s)), qc_upsert_new = (\<lambda>s ps. (Inr (), s))\<rparr>),
      qdrant_query = (\<lambda>q n v k. Inr (Some [])), qdrant_collections = (\<lambda>q. local_collections),
      content_hashes = sample_hash\<rparr>"

definition local_environment :: environment_settings where
  "local_environment =
     \<lparr>es_openai = [''api_key'' \<mapsto> RawText ''k''],
      es_qdrant = [''host'' \<mapsto> RawText ''h'', ''document_vector_distance'' \<mapsto> RawText ''cosine''],
      es_document_index = [''document_embedding_model'' \<mapsto> RawText ''m'', ''qdrant_collection_name'' \<mapsto> RawText ''docs'',
        ''qdrant_vector_size'' \<mapsto> RawInt 3],
      es_regulatory = [''query_embedding_model'' \<mapsto> RawText ''m'', ''constraint_inference_model'' \<mapsto> RawText ''i'',
        ''qdrant_collection_name'' \<mapsto> RawText ''docs'', ''qdrant_vector_size'' \<mapsto> RawInt 3]\<rparr>"

definition no_conversions :: conversions where
  "no_conversions = \<lparr>text_to_int = (\<lambda>s. None), text_to_float = (\<lambda>s. None), text_to_bool = (\<lambda>s. None)\<rparr>"

definition started_process :: "local_server \<Rightarrow> local_server platform" where
  "started_process s = \<lparr>external = s, index_attribute = None, regulatory_attribute = None\<rparr>"

lemma local_vendors_track: "tracks_clients local_vendors snd"
  by (auto simp: tracks_clients_def local_vendors_def local_collections_def)

text \<open>C14: CLIENTS-ARE-CLOSED. Whatever goes wrong between startup and shutdown - settings that do not load,
  a client that does not open, a collection that is not ready, a service that cannot be built, the
  application raising, a close raising - the production lifespan ends with exactly the clients open
  that were open before, and with neither service published.\<close>

theorem clients_are_closed:
  assumes "tracks_clients v live" "well_behaved live serve" "index_attribute p = None" "regulatory_attribute p = None"
    and "production_lifespan conv v env serve p = (res, p')"
  shows "live (external p') = live (external p) \<and> index_attribute p' = None \<and> regulatory_attribute p' = None"
  using production_lifespan_restores [OF assms] assms(3,4) by (simp add: same_process_def)

definition local_docs :: "string \<rightharpoonup> vector_params" where
  "local_docs = [''docs'' \<mapsto> \<lparr>vp_size = 3, vp_distance = ''Cosine''\<rparr>]"

lemmas startup_defs = production_lifespan_def regulatory_intelligence_lifespan_def document_vector_index_lifespan_def
  loaded_regulatory_intelligence_runtime_def loaded_document_vector_index_runtime_def
  managed_regulatory_intelligence_runtime_def managed_document_vector_index_runtime_def outside_def
  verify_configured_regulatory_intelligence_collection_ready_def ensure_configured_document_vector_index_collection_ready_def
  verify_qdrant_document_collection_ready_def ensure_qdrant_document_collection_ready_def
  create_qdrant_document_collection_def make_qdrant_config_def require_collection_name_def require_vector_size_def
  build_regulatory_intelligence_configured_runtime_def build_document_vector_index_configured_runtime_def
  remove_index_service_def remove_regulatory_service_def map_qdrant_document_vector_distance_def

lemma local_settings:
  "load_openai_settings (es_openai local_environment) = Inr \<lparr>openai_api_key = ''k''\<rparr>"
  "load_qdrant_settings no_conversions (es_qdrant local_environment) =
     Inr \<lparr>qdrant_host = ''h'', qdrant_port = 6333, qdrant_https = False, qdrant_api_key = None, qdrant_timeout_seconds = 5\<rparr>"
  "load_qdrant_document_vector_distance_settings (es_qdrant local_environment) = Inr COSINE"
  "load_document_vector_index_runtime_settings no_conversions (es_document_index local_environment) =
     Inr \<lparr>irs_document_embedding_model = ''m'', irs_qdrant_collection_name = ''docs'', irs_qdrant_vector_size = 3\<rparr>"
  "load_regulatory_intelligence_runtime_settings no_conversions (es_regulatory local_environment) =
     Inr \<lparr>rrs_query_embedding_model = ''m'', rrs_constraint_inference_model = ''i'', rrs_qdrant_collection_name = ''docs'',
       rrs_qdrant_vector_size = 3\<rparr>"
  by code_simp+

lemma local_server_serves:
  "\<exists>p'. production_lifespan no_conversions local_vendors local_environment (\<lambda>p. (Inr (), p))
     (started_process (local_docs, [])) = (Inr (), p')"
  by (simp add: startup_defs local_settings started_process_def local_vendors_def local_collections_def local_docs_def
      py_strip_def py_isspace_def Let_def raise_if_def check_def)

theorem clients_are_closed_witness:
  "\<exists>p'. production_lifespan no_conversions local_vendors local_environment (\<lambda>p. (Inr (), p))
      (started_process (local_docs, [])) = (Inr (), p') \<and>
    snd (external p') = [] \<and> index_attribute p' = None \<and> regulatory_attribute p' = None"
proof -
  obtain p' where run: "production_lifespan no_conversions local_vendors local_environment (\<lambda>p. (Inr (), p))
      (started_process (local_docs, [])) = (Inr (), p')" using local_server_serves by blast
  have "well_behaved snd (\<lambda>p :: local_server platform. (Inr (), p))" by (simp add: well_behaved_def)
  from clients_are_closed [OF local_vendors_track this _ _ run] run show ?thesis
    by (simp add: started_process_def)
qed

text \<open>C17: FRESH-SERVER-NEVER-SERVES. While no collection with the name the regulatory runtime is
  configured with exists, the production lifespan fails with one and the same error whatever the
  application would do, and leaves the collection absent: the document index lifespan, which creates a
  missing collection, is inside the regulatory one and never starts.\<close>

theorem fresh_server_never_serves:
  assumes "lacks_collection v n absent" "absent (external p)"
    and "load_regulatory_intelligence_runtime_settings conv (es_regulatory env) = Inr settings"
    and "rrs_qdrant_collection_name settings = n"
  shows "\<exists>e p'. (\<forall>serve. production_lifespan conv v env serve p = (Inl e, p')) \<and> absent (external p')"
proof -
  obtain e and p' :: "'a platform"
    where "\<And>body. loaded_regulatory_intelligence_runtime conv v env body p = (Inl e :: unit result, p')" "absent (external p')"
    using regulatory_runtime_absent [OF assms] by blast
  then show ?thesis by (auto simp: production_lifespan_def regulatory_intelligence_lifespan_def)
qed

lemma local_vendors_lack: "lacks_collection local_vendors n (\<lambda>s. fst s n = None)"
  by (auto simp: lacks_collection_def local_vendors_def local_collections_def split: option.splits)

text \<open>On such a server the document index lifespan alone creates the collection and serves.\<close>

theorem fresh_server_never_serves_witness:
  "(\<exists>e p'. (\<forall>serve. production_lifespan no_conversions local_vendors local_environment serve
        (started_process (Map.empty, [])) = (Inl e, p')) \<and> fst (external p') ''docs'' = None) \<and>
   (\<exists>p'. document_vector_index_lifespan no_conversions local_vendors local_environment (\<lambda>p. (Inr (), p))
        (started_process (Map.empty, [])) = (Inr (), p') \<and> fst (external p') ''docs'' \<noteq> None)"
proof
  show "\<exists>e p'. (\<forall>serve. production_lifespan no_conversions local_vendors local_environment serve
        (started_process (Map.empty, [])) = (Inl e, p')) \<and> fst (external p') ''docs'' = None"
    using fresh_server_never_serves [OF local_vendors_lack _ local_settings(5), where n = "''docs''" and
        p = "started_process (Map.empty, [])"]
    by (simp add: started_process_def)
qed (simp add: startup_defs local_settings started_process_def local_vendors_def local_collections_def local_docs_def
      py_strip_def py_isspace_def Let_def raise_if_def check_def)

end
