(* ===== verification/Service_Stacks.thy ===== *)
theory Service_Stacks
  imports Proposal_Handoff Composition
begin

text \<open>
  The remaining builders of api/composition/: the forecasting, failure handling, risk and trading stacks
  over ports of the caller, and the one-shot indexing of a PDF. A built service is the operation it
  answers to; the parallel executor, whose outcome depends on the order its tasks end in, is a relation.
\<close>

section \<open>Stacks over ports\<close>

definition build_parallel_forecasting_execution_service ::
    "(consumer_load_request \<Rightarrow> load_forecast_point list result) \<Rightarrow> (dam_price_request \<Rightarrow> price_forecast_point list result) \<Rightarrow>
     forecasting_plan \<Rightarrow> forecasting_success result \<Rightarrow> bool" where
  "build_parallel_forecasting_execution_service consumer_load_model dam_price_model =
     forecasting_executes \<lparr>fm_consumer_load = consumer_load_model, fm_dam_price = dam_price_model\<rparr>"

definition build_forecasting_workflow_step ::
    "(forecasting_plan \<Rightarrow> forecasting_success result \<Rightarrow> bool) \<Rightarrow> read_after_write_context \<Rightarrow> workflow_state \<Rightarrow>
     workflow_state result \<times> read_after_write_context \<Rightarrow> bool" where
  "build_forecasting_workflow_step executor c s out \<longleftrightarrow>
     (case rw_resolve_plan c s of
        Inl e \<Rightarrow> out = (Inl e, c)
      | Inr plan \<Rightarrow> (\<exists>x. executor plan x \<and> out = run_forecasting_step (\<lambda>_. x) c s))"

definition build_forecasting_workflow_step_from_model_ports ::
    "(consumer_load_request \<Rightarrow> load_forecast_point list result) \<Rightarrow> (dam_price_request \<Rightarrow> price_forecast_point list result) \<Rightarrow>
     read_after_write_context \<Rightarrow> workflow_state \<Rightarrow> workflow_state result \<times> read_after_write_context \<Rightarrow> bool" where
  "build_forecasting_workflow_step_from_model_ports consumer_load_model dam_price_model =
     build_forecasting_workflow_step (build_parallel_forecasting_execution_service consumer_load_model dam_price_model)"

definition build_forecasting_failure_runtime_handler ::
    "failure_selector \<Rightarrow> attempt_source \<Rightarrow> failure_decider \<Rightarrow> workflow_state \<Rightarrow> exn list \<Rightarrow> workflow_state result" where
  "build_forecasting_failure_runtime_handler selector attempt_number_source policy s failures =
     attempt (prepare_forecasting_failure_context selector attempt_number_source (ws_workflow_id s) (ws_phase s) failures)
       (\<lambda>context. handle_forecasting_failure policy s context)"

definition build_portfolio_risk_execution_service ::
    "(string \<Rightarrow> forecasting_success result) \<Rightarrow> (risk_request \<Rightarrow> risk_assessment result) \<Rightarrow>
     string \<Rightarrow> string \<Rightarrow> py_date \<Rightarrow> generation_availability_record list \<Rightarrow> hydro_record list \<Rightarrow>
     regulatory_constraint list \<Rightarrow> risk_assessment result" where
  "build_portfolio_risk_execution_service forecast_reader assessment_port =
     execute_portfolio_risk forecast_reader (run_portfolio_risk_agent assessment_port)"

definition build_trading_strategy_execution_service ::
    "(bid_request \<Rightarrow> market_bid list result) \<Rightarrow> bid_request \<Rightarrow> market_bid list result" where
  "build_trading_strategy_execution_service bid_port = execute_trading_strategy bid_port"

definition build_trading_strategy_proposal_handoff_service ::
    "(bid_request \<Rightarrow> market_bid list result) \<Rightarrow> bid_request \<Rightarrow> proposal_handoff result" where
  "build_trading_strategy_proposal_handoff_service bid_port = execute_proposal_handoff bid_port"

section \<open>One-shot indexing of a PDF\<close>

type_synonym 's extraction_service = "('s, extraction_result) call"

text \<open>The extraction service over an index service, as the execution service composes them.\<close>

definition extraction_over_index :: "extraction_result result \<Rightarrow> 's index_service \<Rightarrow> 's extraction_service" where
  "extraction_over_index extract index_service s =
     (case extract of
        Inl e \<Rightarrow> (Inl e, s)
      | Inr r \<Rightarrow>
          if er_chunks r = [] then (Inr r, s)
          else (case index_service (er_chunks r) s of
                  (Inl e, s') \<Rightarrow> (Inl e, s')
                | (Inr _, s') \<Rightarrow> (Inr r, s')))"

lemma extraction_over_index_execution:
  "extraction_over_index extract (build_document_vector_index_execution embedding_of index) s =
     execute_extraction_index extract embedding_of index s"
  by (simp add: extraction_over_index_def execute_extraction_index_def build_document_vector_index_execution_def
      split: sum.split)

text \<open>A path to a PDF: its suffix, the moment it is read and what opening it gives.\<close>

record pdf_source =
  source_suffix :: string
  source_now :: utc
  source_opened :: "pdf_reader result"

definition build_pdf_document_extraction_index_execution ::
    "pdf_source \<Rightarrow> string \<Rightarrow> string \<Rightarrow> 's index_service \<Rightarrow> 's extraction_service result" where
  "build_pdf_document_extraction_index_execution path document_id source_name index_execution_service =
     attempt (make_pdf_adapter (source_suffix path) document_id source_name) (\<lambda>document_extraction_port.
       Inr (extraction_over_index
              (pdf_extract document_extraction_port (source_now path) (source_opened path)) index_execution_service))"

definition loaded_pdf_document_extraction_index_runtime ::
    "conversions \<Rightarrow> ('s, 'a, 'q) vendors \<Rightarrow> environment_settings \<Rightarrow> pdf_source \<Rightarrow> string \<Rightarrow> string \<Rightarrow>
     ('s extraction_service \<Rightarrow> ('s platform, 'r) call) \<Rightarrow> ('s platform, 'r) call" where
  "loaded_pdf_document_extraction_index_runtime conv v env path document_id source_name body =
     loaded_document_vector_index_runtime conv v env (\<lambda>index_execution_service p.
       case build_pdf_document_extraction_index_execution path document_id source_name index_execution_service of
         Inl e \<Rightarrow> (Inl e, p)
       | Inr service \<Rightarrow> body service p)"

definition execute_loaded_pdf_document_extraction_index ::
    "conversions \<Rightarrow> ('s, 'a, 'q) vendors \<Rightarrow> environment_settings \<Rightarrow> pdf_source \<Rightarrow> string \<Rightarrow> string \<Rightarrow>
     ('s platform, extraction_result) call" where
  "execute_loaded_pdf_document_extraction_index conv v env path document_id source_name =
     loaded_pdf_document_extraction_index_runtime conv v env path document_id source_name outside"

section \<open>Lemmas\<close>

text \<open>A run that returns a value went through every step.\<close>

lemma close_all_Inr: "close_all callbacks (Inr x) p = (Inr y, p') \<Longrightarrow> y = x"
  and close_all_Inl: "close_all callbacks (Inl e) p \<noteq> (Inr y, p')"
proof (induction callbacks arbitrary: x e p)
  case (Cons c cs)
  { case 1 then show ?case using Cons.IH by (auto split: prod.splits sum.splits)
  next
    case 2 then show ?case using Cons.IH by (auto split: prod.splits sum.splits) }
qed simp_all

lemma with_clients_Inr:
  assumes "with_clients v oargs qargs collection build body p = (Inr x, p')"
  obtains ai q service p3 p4 where "build ai q = Inr service" "body service p3 = (Inr x, p4)"
    "close_all [outside (close_qdrant v q), outside (close_openai v ai)] (Inr x) p4 = (Inr x, p')"
  using assms
proof (cases rule: with_clients_cases)
  case (served ai p1 q p2 p3 service r p4)
  have "r = Inr x"
  proof (cases r)
    case (Inl e)
    then show ?thesis using served(6) by (simp add: close_all_Inl del: close_all.simps)
  next
    case (Inr z)
    then show ?thesis using close_all_Inr served(6) by metis
  qed
  then show thesis using that [OF served(4)] served(5,6) by (simp del: close_all.simps)
next
  case (no_qdrant ai p1 e p2)
  then show thesis by (simp add: close_all_Inl del: close_all.simps)
next
  case (not_ready ai p1 q p2 e c p3)
  then show thesis by (simp add: close_all_Inl del: close_all.simps)
qed (use assms in \<open>simp add: with_clients_def\<close>)

text \<open>Closing a client leaves the stored points.\<close>

definition closing_keeps_points :: "('s, 'a, 'q) vendors \<Rightarrow> ('s \<Rightarrow> string \<Rightarrow> payload option) \<Rightarrow> bool" where
  "closing_keeps_points v lookup \<longleftrightarrow>
     (\<forall>a s. store_grows lookup s (snd (close_openai v a s))) \<and> (\<forall>q s. store_grows lookup s (snd (close_qdrant v q s)))"

lemma close_all_grows:
  assumes "\<And>c p. c \<in> set callbacks \<Longrightarrow> store_grows lookup (external p) (external (snd (c p)))"
    and "close_all callbacks r p = (r', p')"
  shows "store_grows lookup (external p) (external p')"
  using assms
proof (induction callbacks arbitrary: r p)
  case (Cons c cs)
  obtain u p1 where u: "c p = (u, p1)" by fastforce
  have "store_grows lookup (external p) (external p1)" using Cons.prems(1) [of c p] u by simp
  moreover obtain r1 where "close_all cs r1 p1 = (r', p')"
    using Cons.prems(2) u by (auto split: sum.splits)
  then have "store_grows lookup (external p1) (external p')"
    by (rule Cons.IH [rotated]) (rule Cons.prems(1), simp)
  ultimately show ?case by (rule store_grows_trans)
qed simp

lemma closing_clients_grows:
  assumes "closing_keeps_points v lookup"
    and "close_all [outside (close_qdrant v q), outside (close_openai v ai)] r p = (r', p')"
  shows "store_grows lookup (external p) (external p')"
  by (rule close_all_grows [OF _ assms(2)])
    (use assms(1) in \<open>auto simp: closing_keeps_points_def outside_def split: prod.splits\<close>; metis snd_conv)

text \<open>The index service of the provider runtime stores what it is given.\<close>

lemma provider_index_service_stores:
  assumes "insert_only_client (content_hashes v) (qdrant_points v q (qcfg_collection_name config)) lookup"
    and "build_document_vector_index_provider_runtime v ai q config model chunks s = (Inr (), s')" "c \<in> set chunks"
  shows "\<exists>e. entry_chunk e = c \<and> holds_entry (content_hashes v) lookup s' e"
proof -
  obtain entries where entries: "prepare_index_entries (embed_chunks (provider_embeddings v ai model)) chunks = Inr entries"
    and run: "qdrant_index (content_hashes v) (qdrant_points v q (qcfg_collection_name config)) config s entries = (Inr (), s')"
    using assms(2) by (auto simp: build_document_vector_index_provider_runtime_def
        build_document_vector_index_execution_def execute_index_def split: sum.splits)
  obtain es where "list_all2 embeds chunks es" "entries = map2 (\<lambda>c e. \<lparr>entry_chunk = c, entry_embedding = e\<rparr>) chunks es"
    using entries by (auto simp: prepare_index_entries_def to_index_entries_spec attempt_Inr_iff split: if_splits)
  then have "map entry_chunk entries = chunks" by (simp add: comp_def split_def list_all2_lengthD)
  then obtain e where "e \<in> set entries" "entry_chunk e = c" using assms(3) by (metis (no_types) in_set_conv_nth length_map nth_map)
  then show ?thesis using qdrant_index_spec [OF assms(1) run] by (metis (no_types))
qed

lemma extraction_over_index_Inr:
  "extraction_over_index extract index_service s = (Inr r, s') \<Longrightarrow>
     extract = Inr r \<and> (if er_chunks r = [] then s' = s else index_service (er_chunks r) s = (Inr (), s'))"
  by (auto simp: extraction_over_index_def split: sum.splits if_splits prod.splits)

section \<open>Properties\<close>

text \<open>C13: INDEXED-PDF-IS-STORED. When the one-shot execution of a PDF returns its extraction result, the
  vector store holds, after the clients are closed, a point for every chunk of the result, with the
  fingerprint of what was embedded for it.\<close>

theorem indexed_pdf_is_stored:
  assumes "\<forall>q n. insert_only_client (content_hashes v) (qdrant_points v q n) lookup" "closing_keeps_points v lookup"
    and "execute_loaded_pdf_document_extraction_index conv v env path document_id source_name p = (Inr r, p')"
  shows "\<forall>c \<in> set (er_chunks r). \<exists>e. entry_chunk e = c \<and> holds_entry (content_hashes v) lookup (external p') e"
proof -
  let ?body = "\<lambda>service p. case build_pdf_document_extraction_index_execution path document_id source_name service of
      Inl e \<Rightarrow> (Inl e, p) | Inr service \<Rightarrow> outside service p"
  obtain openai qdrant settings distance where
    "managed_document_vector_index_runtime v openai qdrant settings distance ?body p = (Inr r, p')"
    using assms(3) by (auto simp: execute_loaded_pdf_document_extraction_index_def
        loaded_pdf_document_extraction_index_runtime_def loaded_document_vector_index_runtime_def split: sum.splits)
  then obtain ai q service p3 p4 where
    built: "build_document_vector_index_configured_runtime v ai q settings = Inr service" and
    ran: "?body service p3 = (Inr r, p4)" and
    closed: "close_all [outside (close_qdrant v q), outside (close_openai v ai)] (Inr r) p4 = (Inr r, p')"
    unfolding managed_document_vector_index_runtime_shared by (rule with_clients_Inr)
  obtain config where service: "service = build_document_vector_index_provider_runtime v ai q config
      (irs_document_embedding_model settings)"
    using built by (auto simp: build_document_vector_index_configured_runtime_def attempt_Inr_iff)
  obtain extracted where run: "extraction_over_index extracted service (external p3) = (Inr r, external p4)"
    using ran by (auto simp: build_pdf_document_extraction_index_execution_def attempt_Inr_iff outside_def
        split: sum.splits prod.splits)
  show ?thesis
  proof
    fix c assume c: "c \<in> set (er_chunks r)"
    then have "service (er_chunks r) (external p3) = (Inr (), external p4)"
      using extraction_over_index_Inr [OF run] by (auto split: if_splits)
    then obtain e where "entry_chunk e = c" "holds_entry (content_hashes v) lookup (external p4) e"
      using provider_index_service_stores [OF _ _ c] assms(1) unfolding service by metis
    then show "\<exists>e. entry_chunk e = c \<and> holds_entry (content_hashes v) lookup (external p') e"
      using holds_entry_grows [OF _ closing_clients_grows [OF assms(2) closed]] by blast
  qed
qed

text \<open>An index in memory that already has its collection, and a provider that embeds every text alike.\<close>

definition memory_vendors :: "(memory_store, unit, unit) vendors" where
  "memory_vendors =
     \<lparr>open_openai = (\<lambda>args s. (Inr (), s)), close_openai = (\<lambda>a s. (Inr (), s)),
      open_qdrant = (\<lambda>args s. (Inr (), s)), close_qdrant = (\<lambda>q s. (Inr (), s)),
      provider_embeddings = (\<lambda>a m ts. Inr (Some (map (\<lambda>i. \<lparr>pi_index = IntIndex (int i),
        pi_embedding = Floats [float_one, float_one, float_one]\<rparr>) [0..<length ts]))),
      provider_query_embedding = (\<lambda>a m t. Inl (OtherException ''APIConnectionError'')),
      provider_parse = (\<lambda>a m cs. Inl (OtherException ''APIConnectionError'')),
      qdrant_points = (\<lambda>q n. memory_client), qdrant_query = (\<lambda>q n v k. Inr (Some [])),
      qdrant_collections = (\<lambda>q. \<lparr>cc_create = (\<lambda>s n w. (Inr True, s)),
        cc_info = (\<lambda>s n. (Inr (Some \<lparr>vp_size = 3, vp_distance = ''Cosine''\<rparr>), s)), cc_exists = (\<lambda>s n. (Inr True, s))\<rparr>),
      content_hashes = sample_hash\<rparr>"

definition sample_pdf :: pdf_source where
  "sample_pdf = \<lparr>source_suffix = ''.pdf'', source_now = 5,
     source_opened = Inr \<lparr>pdf_is_encrypted = Inr False, pdf_pages = [Inr (Some ''law'')], pdf_pages_error = None\<rparr>\<rparr>"

definition sample_pdf_run :: "extraction_result result \<times> memory_store platform" where
  "sample_pdf_run = execute_loaded_pdf_document_extraction_index no_conversions memory_vendors local_environment
     sample_pdf ''d'' ''s'' \<lparr>external = Map.empty, index_attribute = None, regulatory_attribute = None\<rparr>"


definition sample_pdf_result :: extraction_result where
  "sample_pdf_result = \<lparr>er_source_name = ''s'', er_document_id = ''d'',
     er_chunks = [\<lparr>chunk_document_id = ''d'', chunk_chunk_id = ''d:page:1'', chunk_ordinal = 0, chunk_text = ''law'',
        chunk_page_number = Some 1\<rparr>], er_diagnostics = [], er_dlq_records = []\<rparr>"

lemma sample_pdf_extracted:
  "make_pdf_adapter ''.pdf'' ''d'' ''s'' = Inr \<lparr>pdf_document_id = ''d'', pdf_source_name = ''s''\<rparr>"
  "pdf_extract \<lparr>pdf_document_id = ''d'', pdf_source_name = ''s''\<rparr> (source_now sample_pdf) (source_opened sample_pdf) =
     Inr sample_pdf_result"
  by code_simp+

lemma sample_pdf_embedded:
  "embed_chunks (provider_embeddings memory_vendors () ''m'') (er_chunks sample_pdf_result) =
     Inr [\<lparr>emb_document_id = ''d'', emb_chunk_id = ''d:page:1'', emb_vector = [float_one, float_one, float_one]\<rparr>]"
  by code_simp

definition sample_pdf_entry :: index_entry where
  "sample_pdf_entry = \<lparr>entry_chunk = hd (er_chunks sample_pdf_result),
     entry_embedding = \<lparr>emb_document_id = ''d'', emb_chunk_id = ''d:page:1'', emb_vector = [float_one, float_one, float_one]\<rparr>\<rparr>"

lemma sample_pdf_entries:
  "prepare_index_entries (embed_chunks (provider_embeddings memory_vendors () ''m'')) (er_chunks sample_pdf_result) =
     Inr [sample_pdf_entry]"
  unfolding prepare_index_entries_def sample_pdf_embedded by code_simp

lemma sample_pdf_entry_ok:
  "chunk_ok (entry_chunk sample_pdf_entry)" "hex_digest (entry_fingerprint sample_hash sample_pdf_entry)"
  by code_simp+

lemma sample_pdf_indexed:
  "\<exists>s'. qdrant_index sample_hash memory_client \<lparr>qcfg_collection_name = ''docs'', qcfg_vector_size = 3\<rparr> Map.empty
     [sample_pdf_entry] = (Inr (), s')"
proof -
  have "require_configured_dimension [emb_vector (entry_embedding sample_pdf_entry)] 3 index_dimension_message = Inr ()"
    by (simp add: sample_pdf_entry_def require_configured_dimension_def raise_if_def)
  then show ?thesis
    by (simp add: qdrant_index_def coalesce_entries_def dict_set_def index_coalesced_def insert_and_verify_def
        retrieve_by_entries_def memory_client_def memory_upsert_def parse_written_point sample_pdf_entry_ok
        sample_entry_ok(3) to_point_struct_def)
qed

theorem indexed_pdf_is_stored_witness:
  "\<exists>p' e. execute_loaded_pdf_document_extraction_index no_conversions memory_vendors local_environment sample_pdf ''d'' ''s''
       \<lparr>external = Map.empty, index_attribute = None, regulatory_attribute = None\<rparr> = (Inr sample_pdf_result, p') \<and>
     entry_chunk e = hd (er_chunks sample_pdf_result) \<and> holds_entry sample_hash (\<lambda>s. s) (external p') e"
proof -
  obtain s' where indexed: "qdrant_index sample_hash memory_client \<lparr>qcfg_collection_name = ''docs'', qcfg_vector_size = 3\<rparr>
      Map.empty [sample_pdf_entry] = (Inr (), s')" using sample_pdf_indexed by blast
  have service: "build_document_vector_index_configured_runtime memory_vendors () () \<lparr>irs_document_embedding_model = ''m'',
      irs_qdrant_collection_name = ''docs'', irs_qdrant_vector_size = 3\<rparr> = Inr (build_document_vector_index_provider_runtime
      memory_vendors () () \<lparr>qcfg_collection_name = ''docs'', qcfg_vector_size = 3\<rparr> ''m'')"
    by (simp add: build_document_vector_index_configured_runtime_def make_qdrant_config_def require_collection_name_def
        require_vector_size_def py_strip_def py_isspace_def)
  have ready: "ensure_configured_document_vector_index_collection_ready (qdrant_collections memory_vendors ())
      \<lparr>irs_document_embedding_model = ''m'', irs_qdrant_collection_name = ''docs'', irs_qdrant_vector_size = 3\<rparr> COSINE s = (Inr (), s)" for s
    by (simp add: memory_vendors_def startup_defs py_strip_def py_isspace_def raise_if_def check_def)
  have suffix: "source_suffix sample_pdf = ''.pdf''" by (simp add: sample_pdf_def)
  have chunks: "er_chunks sample_pdf_result \<noteq> []" by (simp add: sample_pdf_result_def)
  let ?p = "\<lparr>external = Map.empty, index_attribute = None, regulatory_attribute = None\<rparr> :: memory_store platform"
  have opened: "open_openai memory_vendors args s = (Inr (), s)" "open_qdrant memory_vendors args' s = (Inr (), s)"
    "close_openai memory_vendors u s = (Inr (), s)" "close_qdrant memory_vendors u s = (Inr (), s)"
    "qdrant_points memory_vendors u n = memory_client" "content_hashes memory_vendors = sample_hash" for args args' s u n
    by (simp_all add: memory_vendors_def)
  have run: "execute_loaded_pdf_document_extraction_index no_conversions memory_vendors local_environment sample_pdf ''d'' ''s'' ?p =
      (Inr sample_pdf_result, ?p\<lparr>external := s'\<rparr>)"
    by (simp add: execute_loaded_pdf_document_extraction_index_def loaded_pdf_document_extraction_index_runtime_def
        loaded_document_vector_index_runtime_def local_settings managed_document_vector_index_runtime_def outside_def
        opened ready service build_pdf_document_extraction_index_execution_def suffix sample_pdf_extracted
        extraction_over_index_def chunks build_document_vector_index_provider_runtime_def
        build_document_vector_index_execution_def execute_index_def sample_pdf_entries indexed)
  have "closing_keeps_points memory_vendors (\<lambda>s. s)" by (simp add: closing_keeps_points_def opened)
  moreover have "\<forall>q n. insert_only_client (content_hashes memory_vendors) (qdrant_points memory_vendors q n) (\<lambda>s. s)"
    by (simp add: opened memory_client_insert_only)
  ultimately have "\<forall>c \<in> set (er_chunks sample_pdf_result).
      \<exists>e. entry_chunk e = c \<and> holds_entry (content_hashes memory_vendors) (\<lambda>s. s) (external (?p\<lparr>external := s'\<rparr>)) e"
    using indexed_pdf_is_stored [OF _ _ run] by blast
  then show ?thesis using run chunks hd_in_set [OF chunks] by (simp only: opened) blast
qed

end
