(* ===== verification/Observability.thy ===== *)
theory Observability
  imports Http_Api Iso_Time
begin

text \<open>
  Structured logging (shared/observability/logging.py): the formatter that turns a log record into one
  line of JSON, the filter that stamps the correlation identifier, and the configuration of the logger
  of the package. Handlers and records of the standard library are records of the attributes the code
  reads and writes; the order in which the set of allowed extra fields is walked is an argument.
\<close>

section \<open>JSON as json.dumps writes it by default\<close>

fun spaced_list :: "string list \<Rightarrow> string" where
  "spaced_list [] = []"
| "spaced_list [x] = x"
| "spaced_list (x # y # ys) = x @ '', '' @ spaced_list (y # ys)"

fun spaced_dumps :: "json \<Rightarrow> string" where
  "spaced_dumps JNull = ''null''"
| "spaced_dumps (JBool b) = (if b then ''true'' else ''false'')"
| "spaced_dumps (JInt i) = json_int i"
| "spaced_dumps (JStr s) = json_string s"
| "spaced_dumps (JArray vs) = ''['' @ spaced_list (map spaced_dumps vs) @ '']''"
| "spaced_dumps (JObject ms) = ''{'' @ spaced_list (map (\<lambda>(k, v). json_string k @ '': '' @ spaced_dumps v) ms) @ ''}''"
| "spaced_dumps (JOther s) = s"

section \<open>Records (CorrelationIdFilter, JsonLogFormatter)\<close>

definition json_handler_name :: string where "json_handler_name = ''energy_trading_json''"
definition energy_trading_logger_name :: string where "energy_trading_logger_name = ''energy_trading''"

definition allowed_extra_fields :: "string list" where
  "allowed_extra_fields = [''event'', ''method'', ''path'', ''status_code'', ''duration_ms'']"

text \<open>
  A log record: when it was made, to the microsecond, the message or the error of its formatting, the
  identifier stamped on it, and its further attributes, of which one may not be serialisable.
\<close>

datatype stamp = Unstamped | StampedText string | StampedNone

record log_record =
  lr_created :: utc
  lr_levelname :: string
  lr_name :: string
  lr_message :: "string result"
  lr_stamp :: stamp
  lr_extra :: "string \<Rightarrow> json result option"
  lr_exception :: "string option"
  lr_stack :: "string option"

definition correlation_id_filter :: "string option \<Rightarrow> log_record \<Rightarrow> log_record" where
  "correlation_id_filter current r =
     r\<lparr>lr_stamp := (case current of None \<Rightarrow> StampedNone | Some i \<Rightarrow> StampedText i)\<rparr>"

definition log_timestamp :: "utc \<Rightarrow> string" where
  "log_timestamp t =
     (let us = nat t mod 86400000000 in
      date_text (date_of_day (nat t div 86400000000)) @ ''T'' @ padded 2 (us div 3600000000) @ '':'' @
      padded 2 (us mod 3600000000 div 60000000) @ '':'' @ padded 2 (us mod 60000000 div 1000000) @ ''.'' @
      padded 3 (us mod 1000000 div 1000) @ ''Z'')"

definition optional_text :: "string option \<Rightarrow> json" where
  "optional_text t = (case t of None \<Rightarrow> JNull | Some s \<Rightarrow> JStr s)"

definition record_correlation_id :: "string option \<Rightarrow> log_record \<Rightarrow> string option" where
  "record_correlation_id current r =
     (case lr_stamp r of Unstamped \<Rightarrow> current | StampedText i \<Rightarrow> Some i | StampedNone \<Rightarrow> None)"

fun extra_members :: "(string \<Rightarrow> json result option) \<Rightarrow> string list \<Rightarrow> (string \<times> json result) list" where
  "extra_members extra [] = []"
| "extra_members extra (f # fs) =
     (case extra f of None \<Rightarrow> extra_members extra fs | Some v \<Rightarrow> (f, v) # extra_members extra fs)"

fun serialise_members :: "(string \<times> json result) list \<Rightarrow> (string \<times> json) list result" where
  "serialise_members [] = Inr []"
| "serialise_members ((k, v) # ms) = attempt v (\<lambda>j. attempt (serialise_members ms) (\<lambda>js. Inr ((k, j) # js)))"

definition format_payload :: "string list \<Rightarrow> string option \<Rightarrow> log_record \<Rightarrow> string \<Rightarrow> (string \<times> json result) list" where
  "format_payload order current r message =
     [(''timestamp'', Inr (JStr (log_timestamp (lr_created r)))), (''level'', Inr (JStr (lr_levelname r))),
      (''logger'', Inr (JStr (lr_name r))), (''message'', Inr (JStr message)),
      (''correlation_id'', Inr (optional_text (record_correlation_id current r)))] @
     extra_members (lr_extra r) order @
     (case lr_exception r of None \<Rightarrow> [] | Some t \<Rightarrow> [(''exception'', Inr (JStr t))]) @
     (case lr_stack r of None \<Rightarrow> [] | Some t \<Rightarrow> [(''stack'', Inr (JStr t))])"

definition format_record :: "string list \<Rightarrow> string option \<Rightarrow> log_record \<Rightarrow> string result" where
  "format_record order current r =
     attempt (lr_message r) (\<lambda>message.
     attempt (serialise_members (format_payload order current r message)) (\<lambda>payload.
       Inr (spaced_dumps (JObject payload))))"

section \<open>Configuration (configure\_logging)\<close>

text \<open>A level as a name: upper case for the ASCII names the settings admit.\<close>

definition upper_char :: "char \<Rightarrow> char" where
  "upper_char c = (let k = of_char c :: nat in if 97 \<le> k \<and> k \<le> 122 then char_of (k - 32) else c)"

record log_handler =
  lh_name :: "string option"
  lh_level :: string
  lh_stamps_correlation :: bool
  lh_formats_json :: bool

record package_logger =
  lg_level :: string
  lg_handlers :: "log_handler list"
  lg_propagate :: bool

definition json_handlers :: "package_logger \<Rightarrow> log_handler list" where
  "json_handlers logger = filter (\<lambda>h. lh_name h = Some json_handler_name) (lg_handlers logger)"

definition configure_logging :: "string \<Rightarrow> package_logger \<Rightarrow> package_logger" where
  "configure_logging level logger =
     (let logger = logger\<lparr>lg_level := map upper_char level\<rparr> in
      if json_handlers logger \<noteq> []
      then logger\<lparr>lg_handlers := map (\<lambda>h. if lh_name h = Some json_handler_name then h\<lparr>lh_level := ''DEBUG''\<rparr> else h)
             (lg_handlers logger)\<rparr>
      else logger\<lparr>lg_handlers := lg_handlers logger @
             [\<lparr>lh_name = Some json_handler_name, lh_level = ''DEBUG'', lh_stamps_correlation = True, lh_formats_json = True\<rparr>],
             lg_propagate := False\<rparr>)"

section \<open>Lines\<close>

text \<open>Characters between space and tilde: no line break and no control character.\<close>

definition printable :: "string \<Rightarrow> bool" where
  "printable s \<longleftrightarrow> list_all (\<lambda>c. 32 \<le> (of_char c :: nat) \<and> (of_char c :: nat) \<le> 126) s"

fun printable_json :: "json \<Rightarrow> bool" where
  "printable_json (JOther s) = printable s"
| "printable_json (JArray vs) = list_all printable_json vs"
| "printable_json (JObject ms) = list_all (\<lambda>(k, v). printable_json v) ms"
| "printable_json _ = True"

lemma printable_append [simp]: "printable (s @ t) \<longleftrightarrow> printable s \<and> printable t"
  by (simp add: printable_def)

lemma printable_Cons [simp]: "printable (c # s) \<longleftrightarrow> 32 \<le> (of_char c :: nat) \<and> (of_char c :: nat) \<le> 126 \<and> printable s"
  by (auto simp: printable_def)

lemma printable_Nil [simp]: "printable []"
  by (simp add: printable_def)

lemma printable_hex_digit: "k < 16 \<Longrightarrow> 32 \<le> (of_char (hex_digit k) :: nat) \<and> (of_char (hex_digit k) :: nat) \<le> 126"
  by (auto simp: hex_digit_def)

lemma printable_json_string [simp]: "printable (json_string s)"
proof -
  have "printable (json_escape c)" for c
  proof -
    have "(of_char c :: nat) div 16 < 16" by (rule less_mult_imp_div_less) simp
    then show ?thesis
      using printable_hex_digit [of "of_char c div 16"] printable_hex_digit [of "of_char c mod 16"]
      by (simp add: json_escape_def)
  qed
  then have "printable (concat (map json_escape s))" by (induction s) simp_all
  then show ?thesis by (simp add: json_string_def)
qed

lemma printable_decimal_digits [simp]: "printable (decimal_digits n)"
  unfolding printable_def list_all_iff by (fastforce dest: decimal_digits_digits simp: is_digit_def)

lemma printable_spaced_list: "list_all printable ss \<Longrightarrow> printable (spaced_list ss)"
  by (induction ss rule: spaced_list.induct) simp_all

lemma printable_spaced_dumps: "printable_json j \<Longrightarrow> printable (spaced_dumps j)"
proof (induction j)
  case (JArray vs)
  then show ?case using printable_spaced_list [of "map spaced_dumps vs"] by (simp add: list_all_iff)
next
  case (JObject ms)
  then show ?case
    using printable_spaced_list [of "map (\<lambda>(k, v). json_string k @ '': '' @ spaced_dumps v) ms"]
    by (fastforce simp: list_all_iff)
qed (simp_all add: json_int_def)

lemma serialise_members_Inr:
  "serialise_members ms = Inr js \<Longrightarrow> map fst js = map fst ms \<and> (\<forall>k j. (k, j) \<in> set js \<longrightarrow> (k, Inr j) \<in> set ms)"
  by (induction ms arbitrary: js) (auto simp: attempt_Inr_iff)

lemma extra_members_set: "(k, v) \<in> set (extra_members extra fs) \<longleftrightarrow> k \<in> set fs \<and> extra k = Some v"
  by (induction fs) (auto split: option.split)

definition line_fields :: "string list" where
  "line_fields = [''timestamp'', ''level'', ''logger'', ''message'', ''correlation_id'', ''exception'', ''stack''] @ allowed_extra_fields"

lemma format_payload_members:
  assumes "(k, v) \<in> set (format_payload order current r message)" "set order = set allowed_extra_fields"
    and "\<And>f j. lr_extra r f = Some (Inr j) \<Longrightarrow> printable_json j"
  shows "k \<in> set line_fields \<and> (\<forall>j. v = Inr j \<longrightarrow> printable_json j)"
  using assms by (auto simp: format_payload_def line_fields_def extra_members_set optional_text_def split: option.splits)

text \<open>Configuring again changes the level and adds no handler.\<close>

lemma json_handlers_debug:
  "filter (\<lambda>h. lh_name h = Some n) (map (\<lambda>h. if lh_name h = Some n then h\<lparr>lh_level := d\<rparr> else h) hs) =
     map (\<lambda>h. h\<lparr>lh_level := d\<rparr>) (filter (\<lambda>h. lh_name h = Some n) hs)"
  by (induction hs) simp_all

lemma json_handlers_configured:
  "json_handlers (configure_logging level logger) \<noteq> [] \<and>
   list_all (\<lambda>h. lh_level h = ''DEBUG'') (json_handlers (configure_logging level logger))"
  by (cases "json_handlers logger = []")
    (simp_all add: configure_logging_def json_handlers_def Let_def json_handlers_debug list_all_iff)

lemma configure_logging_configured:
  assumes "json_handlers g \<noteq> []" "list_all (\<lambda>h. lh_level h = ''DEBUG'') (json_handlers g)"
  shows "configure_logging level g = g\<lparr>lg_level := map upper_char level\<rparr>"
proof -
  have same: "map (\<lambda>h. if lh_name h = Some n then h\<lparr>lh_level := d\<rparr> else h) hs = hs"
    if "list_all (\<lambda>h. lh_level h = d) (filter (\<lambda>h. lh_name h = Some n) hs)" for hs n d
    using that by (induction hs) (auto split: if_splits)
  show ?thesis
    using assms same [of "''DEBUG''" "json_handler_name" "lg_handlers g"]
    by (cases g) (simp add: configure_logging_def json_handlers_def Let_def)
qed

lemma configure_logging_again:
  "configure_logging level' (configure_logging level logger) =
     (configure_logging level logger)\<lparr>lg_level := map upper_char level'\<rparr>"
  using json_handlers_configured [of level logger] by (simp add: configure_logging_configured)

section \<open>Properties\<close>

text \<open>Whatever the message, the path or an exception text contains, a formatted
  record is one line: a JSON object with no line break or control character in it, whose members are
  only the five of every line, the allowed extra fields, and the exception and stack texts.\<close>

theorem log_lines_are_single:
  assumes "format_record order current r = Inr line" "set order = set allowed_extra_fields"
    and "\<And>f j. lr_extra r f = Some (Inr j) \<Longrightarrow> printable_json j"
  shows "printable line \<and> (\<exists>ms. line = spaced_dumps (JObject ms) \<and> set (map fst ms) \<subseteq> set line_fields)"
proof -
  obtain message ms where ms: "serialise_members (format_payload order current r message) = Inr ms"
    and line: "line = spaced_dumps (JObject ms)"
    using assms(1) by (auto simp: format_record_def attempt_Inr_iff)
  note members = format_payload_members [OF _ assms(2,3)] serialise_members_Inr [OF ms]
  have "set (map fst ms) \<subseteq> set line_fields" using members by fastforce
  moreover have "printable_json (JObject ms)" using members by (fastforce simp: list_all_iff)
  ultimately show ?thesis using line printable_spaced_dumps by blast
qed

definition sample_log_record :: log_record where
  "sample_log_record =
     \<lparr>lr_created = 5, lr_levelname = ''INFO'', lr_name = ''energy_trading.http'', lr_message = Inr (CHR 0x0A # ''forged''),
      lr_stamp = StampedText ''c'', lr_extra = [''status_code'' \<mapsto> Inr (JInt 204), ''password'' \<mapsto> Inr (JStr ''p'')],
      lr_exception = None, lr_stack = None\<rparr>"

theorem log_lines_are_single_witness:
  "\<exists>line. format_record allowed_extra_fields None sample_log_record = Inr line \<and> printable line"
proof -
  obtain line where line: "format_record allowed_extra_fields None sample_log_record = Inr line"
    by (simp add: format_record_def sample_log_record_def format_payload_def allowed_extra_fields_def)
  have "printable_json j" if "lr_extra sample_log_record f = Some (Inr j)" for f j
    using that by (auto simp: sample_log_record_def split: if_splits)
  then show ?thesis using log_lines_are_single [OF line] line by simp
qed

end
