(* ===== verification/Provider_Inference.thy ===== *)
theory Provider_Inference
  imports Regulatory Json_Text
begin

text \<open>
  The whole exchange of the inference adapter (infrastructure/regulatory/openai\_constraint\_inference.py)
  with its provider: the request built from the chunks, the search of the response for a refusal, the
  envelope the response carries or that its raw value validates to, and the schema of a candidate. The
  client, which answers a request, is an argument.
\<close>

section \<open>The candidate's schema\<close>

definition strip_optional :: "string option \<Rightarrow> string option" where
  "strip_optional v = map_option strip_whitespace v"

text \<open>Every string is stripped, evidence included, before the validator asks for evidence that is not empty.\<close>

definition validate_candidate :: "constraint_candidate \<Rightarrow> constraint_candidate result" where
  "validate_candidate c =
     (let r = cc_constraint c; evidence = map strip_whitespace (cc_evidence_chunk_ids c) in
      check (validated (optional finite_number (rc_minimum_value r) \<and> optional finite_number (rc_maximum_value r) \<and>
          1 \<le> length evidence \<and> \<not> list_ex (\<lambda>i. i = []) evidence))
       (Inr \<lparr>cc_constraint = r\<lparr>rc_constraint_id := strip_whitespace (rc_constraint_id r),
               rc_constraint_type := strip_whitespace (rc_constraint_type r),
               rc_description := strip_whitespace (rc_description r), rc_unit := strip_optional (rc_unit r),
               rc_currency := strip_optional (rc_currency r),
               rc_source_document_id := strip_optional (rc_source_document_id r)\<rparr>,
             cc_evidence_chunk_ids = evidence\<rparr>))"

section \<open>The request\<close>

definition newline :: string where "newline = [CHR 0x0A]"

definition inference_instructions :: string where
  "inference_instructions =
     ''Infer structured regulatory constraints only from the supplied normalized '' @
     ''document chunks. Infer a constraint only when those chunks explicitly '' @
     ''support it. Omit a constraint when evidence is missing or ambiguous. '' @
     ''Never invent numeric thresholds, price caps, bid limits, gate times, '' @
     ''license limits, currencies, or effective dates. Never perform unsupported '' @
     ''arithmetic or unit conversion. Never use outside knowledge as evidence. '' @
     ''Every inferred constraint must cite at least one supplied chunk_id in '' @
     ''evidence_chunk_ids. Use only chunk_id values that appear in the supplied '' @
     ''chunks.''"

definition provider_part :: "document_chunk \<Rightarrow> string" where
  "provider_part chunk =
     ''chunk_id: '' @ chunk_chunk_id chunk @ newline @ ''document_id: '' @ chunk_document_id chunk @ newline @
     ''ordinal: '' @ json_int (chunk_ordinal chunk) @ newline @ ''text:'' @ newline @ chunk_text chunk"

fun join_parts :: "string \<Rightarrow> string list \<Rightarrow> string" where
  "join_parts sep [] = []"
| "join_parts sep [x] = x"
| "join_parts sep (x # y # ys) = x @ sep @ join_parts sep (y # ys)"

definition provider_input :: "document_chunk list \<Rightarrow> string" where
  "provider_input chunks = join_parts (newline @ newline) (map provider_part chunks)"

record inference_request =
  ir_model :: string
  ir_input :: string
  ir_instructions :: string

section \<open>The response\<close>

text \<open>
  An output item has a content that is a sequence of parts, each with a type or none, or no sequence.
  The parsed output is missing, an envelope, or another value with the outcome of its validation.
\<close>

datatype item_content = NoContent | PartTypes "string option list"

datatype parsed_output = NoParse | Envelope "constraint_candidate list" | OtherParsed "constraint_candidate list result"

record provider_response =
  rsp_output :: "item_content list option"
  rsp_parsed :: parsed_output

definition has_refusal :: "provider_response \<Rightarrow> bool" where
  "has_refusal response =
     (case rsp_output response of
        None \<Rightarrow> False
      | Some output \<Rightarrow>
          list_ex (\<lambda>item. case item of NoContent \<Rightarrow> False | PartTypes ts \<Rightarrow> list_ex (\<lambda>t. t = Some ''refusal'') ts) output)"

text \<open>A pydantic error is a value error.\<close>

fun conversion_error :: "exn \<Rightarrow> bool" where
  "conversion_error (TypeError m) = True"
| "conversion_error (ValueError m) = True"
| "conversion_error ValidationError = True"
| "conversion_error _ = False"

definition require_envelope :: "provider_response \<Rightarrow> constraint_candidate list result" where
  "require_envelope response =
     (case rsp_parsed response of
        NoParse \<Rightarrow> Inl (DependencyUnavailableError inference_unavailable_message)
      | Envelope candidates \<Rightarrow> Inr candidates
      | OtherParsed (Inr candidates) \<Rightarrow> Inr candidates
      | OtherParsed (Inl e) \<Rightarrow>
          Inl (if conversion_error e then DependencyUnavailableError inference_unavailable_message else e))"

fun convert_candidates :: "string set \<Rightarrow> constraint_candidate list \<Rightarrow> regulatory_constraint list result" where
  "convert_candidates known [] = Inr []"
| "convert_candidates known (candidate # rest) =
     (if \<not> evidence_is_known (cc_evidence_chunk_ids candidate) known
      then Inl (DependencyUnavailableError inference_unavailable_message)
      else attempt (to_canonical candidate) (\<lambda>c. attempt (convert_candidates known rest) (\<lambda>cs. Inr (c # cs))))"

definition response_constraints :: "provider_response \<Rightarrow> document_chunk list \<Rightarrow> regulatory_constraint list result" where
  "response_constraints response chunks =
     (if has_refusal response then Inl (DependencyUnavailableError inference_unavailable_message)
      else attempt (require_envelope response) (convert_candidates (chunk_chunk_id ` set chunks)))"

definition adapter_infer ::
    "(inference_request \<Rightarrow> provider_response result) \<Rightarrow> string \<Rightarrow> document_chunk list \<Rightarrow> regulatory_constraint list result" where
  "adapter_infer client model chunks =
     (if chunks = [] then Inr []
      else attempt (translate_openai_error inference_unavailable_message
             (client \<lparr>ir_model = model, ir_input = provider_input chunks, ir_instructions = inference_instructions\<rparr>))
             (\<lambda>response. response_constraints response chunks))"

section \<open>Lemmas\<close>

lemma convert_candidates_map:
  "convert_candidates known cs =
     map_result (\<lambda>c. if \<not> evidence_is_known (cc_evidence_chunk_ids c) known
         then Inl (DependencyUnavailableError inference_unavailable_message) else to_canonical c) cs"
  by (induction cs) simp_all

text \<open>The abstract answer a response amounts to.\<close>

definition answer_of :: "provider_response \<Rightarrow> provider_answer" where
  "answer_of response =
     (if has_refusal response then Refusal
      else case require_envelope response of Inl _ \<Rightarrow> Unparsed | Inr cs \<Rightarrow> Candidates cs)"

text \<open>A response whose validation, if any, fails only with the errors pydantic documents.\<close>

definition documented_response :: "provider_response \<Rightarrow> bool" where
  "documented_response response \<longleftrightarrow> (\<forall>e. rsp_parsed response = OtherParsed (Inl e) \<longrightarrow> conversion_error e)"

lemma response_constraints_answer:
  "documented_response response \<Longrightarrow> response_constraints response chunks = to_constraints (answer_of response) chunks"
  by (auto simp: response_constraints_def answer_of_def to_constraints_def documented_response_def require_envelope_def
      convert_candidates_map split: parsed_output.splits sum.splits)

text \<open>Under that behaviour the adapter refines the model over abstract answers.\<close>

lemma adapter_infer_refines:
  assumes "\<And>request response. client request = Inr response \<Longrightarrow> documented_response response"
  shows "adapter_infer client model chunks =
    infer_constraints (\<lambda>cs. case client \<lparr>ir_model = model, ir_input = provider_input cs, ir_instructions = inference_instructions\<rparr> of
        Inl e \<Rightarrow> Inl e | Inr response \<Rightarrow> Inr (answer_of response)) chunks"
  using response_constraints_answer assms
  by (auto simp: adapter_infer_def infer_constraints_def translate_openai_error_def split: sum.splits)

text \<open>A refusal anywhere in the output refuses the answer, whatever was parsed beside it.\<close>

lemma refused_response:
  assumes "rsp_output response = Some output" "PartTypes ts \<in> set output" "Some ''refusal'' \<in> set ts"
  shows "response_constraints response chunks = Inl (DependencyUnavailableError inference_unavailable_message)"
proof -
  have "has_refusal response"
    using assms by (auto simp: has_refusal_def list_ex_iff intro!: bexI [of _ "PartTypes ts"])
  then show ?thesis by (simp add: response_constraints_def)
qed

text \<open>A validated candidate cites evidence, and every citation is stripped and not empty.\<close>

lemma validate_candidate_evidence:
  assumes "validate_candidate c = Inr d"
  shows "cc_evidence_chunk_ids d \<noteq> [] \<and> [] \<notin> set (cc_evidence_chunk_ids d) \<and>
    cc_evidence_chunk_ids d = map strip_whitespace (cc_evidence_chunk_ids c)"
  using assms by (auto simp: validate_candidate_def Let_def check_Inr_iff validated_Inr list_ex_iff)

end
