(* ===== verification/Spec2Isabelle.thy ===== *)
theory Spec2Isabelle
  imports Load_Comparison Proposal_Handoff Document_Adapters Consumption_Adapters Consumption_Repository Dead_Letters
    Redis_Cache Http_Api Configuration Service_Stacks Observability Provider_Inference
begin

text \<open>
  Verification of the Armenian energy trading platform (Python, under src/src/energy\_trading; paths
  below are relative to it).

  \<^bold>\<open>The program.\<close> A workflow of phases turns structured and unstructured sources into forecasts, a
  risk assessment and bid proposals. Ingestion adapters (infrastructure/adapters) read tables and
  documents into the canonical models (domain); agents (application/agents) hand typed requests to
  ports; two concurrent executors run the agents of a phase in a task group; the graph
  (application/orchestration/graph.py) runs a phase, records its success in a workflow context and
  advances the workflow state, or sends the group of failures through the failure pipeline. Offline
  modules (ml) derive feature rows from price and load histories, fit, predict, evaluate and compare.
  Documents are extracted, embedded and written to a vector index, from which the regulatory service
  answers queries. A repository, a dead letter queue and a cache keep data outside the process. The
  composition roots (api/composition) build services from settings and vendor clients and publish them
  for the time of an application lifespan; the HTTP boundary (api) reads them.

  \<^bold>\<open>Conventions.\<close> A model or dataclass is a record of its validated fields, its construction a function
  that runs the validators in the code's order; an enumeration is a datatype. A call that may raise
  returns \<open>exn + 'a\<close>, and \<open>attempt\<close> and \<open>check\<close> are the sequence of two calls. State is passed
  explicitly and returned beside the result, since it outlives an exception. What depends on the order
  in which tasks end is a relation (\<open>group_step\<close>, \<open>system_step\<close>). Strings are lists of
  characters below code point 256. A Protocol is an argument of the definitions that call it; where the
  code relies on a promise of its implementation, the promise is a named predicate or a locale.

  \<^bold>\<open>Foundations.\<close> \<open>Prelude\<close>: exceptions, results, the collections \<open>result_simps\<close> and
  \<open>cohort_simps\<close>. \<open>Rounding\<close>, \<open>PyDecimal\<close>, \<open>PyFloat\<close>, \<open>Float_Arith\<close>: Python's
  Decimal with context, signals and exponent limits, binary64 with its shortest decimal text, and the
  compensated builtin sum. \<open>Task_Group\<close>: asyncio's task group as a step relation on tasks that run,
  end or are cancelled. \<open>Json_Text\<close>, \<open>Json_Raw\<close>, \<open>Iso_Time\<close>: the texts that
  json.dumps and isoformat write, and their injectivity. \<open>Write_Once\<close>: the interface of the stores
  that keep the first value of a key. \<open>Least_Squares\<close>: the rational specification of the fits.

  \<^bold>\<open>Domain and contracts.\<close> \<open>Domain\<close> and \<open>Domain_Models\<close> model domain/value\_objects and
  domain/models, \<open>Forecast_Ports\<close> the requests of the forecast ports, \<open>Documents\<close> the document
  ports and services.

  \<^bold>\<open>Workflow.\<close> \<open>Workflow_State\<close> (state.py, failure\_policy.py, the four transitions),
  \<open>Ingestion_Agents\<close> (agents, plans, successes), \<open>Executors\<close> (the two executors over the task
  group), \<open>Failure_Handling\<close> (extraction, classification, selection, policy, action; the locale
  \<open>failure_ports\<close> is interpreted on the initial ports of both phases), \<open>Workflow_Context\<close> (the
  in-memory contexts, interpretations of \<open>write_once_store\<close>), \<open>Workflow_Graph\<close> (nodes, routes,
  invocation, and the system of all workflows that share a memory), \<open>Proposal_Handoff\<close> (risk and
  bids). Shown: every reachable phase is backed by a recorded success; answering ports bring a workflow
  to risk and bid in two invocations with exactly the models' forecasts; the failure pipeline refines a
  one-rule specification; an ingestion execution ends with all five answers or with any choice of the
  attributed failures, and with nothing else; the outcome of two forecast failures depends on the
  schedule.

  \<^bold>\<open>Experiments.\<close> \<open>Cohort\<close> and \<open>Decimal_Stats\<close> hold the guards and sums the modules repeat;
  the locale \<open>lag_builder\<close> is the contract of the row builders and is interpreted on all six, the
  locale \<open>exact_arithmetic\<close> on decimals without rounding. \<open>DAM_Persistence\<close>, \<open>DAM_Lag24\<close>,
  \<open>DAM_Lag168\<close> and \<open>DAM_Comparison\<close> model ml/dam\_price; \<open>Load_Persistence\<close>,
  \<open>Load_Lag24\<close>, \<open>Load_Lag168\<close> and \<open>Load_Comparison\<close> model ml/consumer\_load. Shown:
  feature rows are exactly the lagged triples; a fit that does not round is the unique least-squares
  line or plane; cohorts derived from one history pass the comparators; load fits do not see the
  evaluation period; and where an evaluator leaves the range of its annotation.

  \<^bold>\<open>Sources.\<close> \<open>Source_Values\<close> (normalization, consumption\_values.py), \<open>Schema_Mapping\<close>
  (schema\_mapping, with the ratio of difflib's SequenceMatcher), \<open>Time_Series\<close> (time\_series),
  \<open>Consumption_Adapters\<close> (csv and excel). Shown: every data row is accounted for once; both formats
  agree on a table of text; gaps are exact; an accepted header gives every field one column; an
  accepted local time is unambiguous.

  \<^bold>\<open>Documents and regulation.\<close> \<open>Vector_Index\<close> (infrastructure/vector\_store), \<open>Regulatory\<close>
  (agent, query, and the inference adapter over abstract answers), \<open>Provider_Inference\<close> (the same
  adapter down to its request and the provider's response, shown to refine it),
  \<open>Document_Adapters\<close> (embeddings, PDF). Shown: the index is write-once against any other writer,
  indexing again is a no-op, stored points read back, answers cite supplied chunks only.

  \<^bold>\<open>Stores.\<close> \<open>Consumption_Repository\<close> over the locale \<open>consumption_database\<close>, interpreted on the
  declared table; \<open>Dead_Letters\<close> over a directory with arbitrary faults; \<open>Redis_Cache\<close> over the
  locale \<open>redis_server\<close>, interpreted on the documented commands. Shown: a call of the repository is
  atomic under every fault and refines a write-once map; dead letters survive faults; a cached value is
  answered until its lifetime has passed.

  \<^bold>\<open>Boundary.\<close> \<open>Http_Api\<close> (api, correlation.py), \<open>Configuration\<close> (shared/config and the client
  factories), \<open>Observability\<close> (logging.py), \<open>Composition\<close> and \<open>Service_Stacks\<close>
  (api/composition). Shown: every response names its request and every error has the one answer of its
  class; loaded settings are well formed; every way out of the production lifespan closes the clients
  it opened; a PDF whose one-shot indexing returns is stored; log lines are single lines.

  \<^bold>\<open>Bounds and fuel.\<close> Recursion is structural or has a measure; there is no fuel but one: the shortest
  decimal text of a float is searched among 1 to 17 significant digits, and 17 digits identify a
  binary64 number. Decimals keep their context's precision and exponent limits, floats their 53 bits.
  Lifetimes, instants and intervals are whole microseconds or milliseconds as in the code.

  \<^bold>\<open>Arguments of the model.\<close> Vendor clients (OpenAI, Qdrant, Redis, SQLAlchemy with PostgreSQL), the PDF
  and workbook readers and csv.reader; SHA-256, UUID5, float.hex and the C library's pow; unicodedata,
  datetime.fromisoformat and the time zone data; pydantic's reading of JSON texts and of number and
  boolean texts, and the place a setting is read from; generated identifiers; the order in which a
  frozenset is walked. Hypotheses on them are their documented behaviour, and each is met by a concrete
  value in the witness of the property that has it.

  \<^bold>\<open>Not modelled.\<close> Protocol classes and the re-exports of \<open>__init__\<close> modules, which hold no code; type
  tests of arguments that the model's types already exclude; the JSON text of a decimal in
  domain/value\_objects; routing, body parsing and the OpenAPI document, which are the web
  framework's; the scheduling inside LangGraph, of which the declared edges are the meaning; agents that never answer, since a
  task of the model has an outcome that comes at some moment of the schedule; code points
  above 255; time, except where a lifetime or an instant is a value of the program.
\<close>

end
